(* ===== verification/Prelude.thy ===== *)
theory Prelude
  imports Main "HOL-Library.Word" "HOL-Library.Multiset"
begin

text \<open>
  Shared vocabulary of the development: what the TypeScript sources use of their
  standard library (strings, arrays, insertion-ordered maps), the array updates that
  model mutation through an object reference, and the Fisher-Yates shuffle that the
  games write out by hand. A JavaScript string is a list of UTF-16 code units; the
  model's \<^verbatim>\<open>string\<close> is a list of 8-bit units, so it covers the Latin-1 range.
  An em dash in a message of the source is written \<^verbatim>\<open>--\<close> here.
\<close>

type_synonym js_string = string

named_theorems frame \<open>what an operation leaves alone: projections of its result\<close>
named_theorems js_defs \<open>definitions of the small standard-library operations\<close>

section \<open>Truthiness and optional values\<close>

text \<open>\<^verbatim>\<open>if (s)\<close> for \<^verbatim>\<open>s: string | null | undefined\<close>: null, undefined and the empty string are falsy.\<close>

definition truthy :: "js_string option \<Rightarrow> bool" where
  "truthy s = (case s of None \<Rightarrow> False | Some t \<Rightarrow> t \<noteq> [])"

lemma truthy_simps [simp]: "\<not> truthy None" "truthy (Some t) \<longleftrightarrow> t \<noteq> []"
  by (simp_all add: truthy_def)

lemma truthyE: "truthy s \<Longrightarrow> (\<And>t. s = Some t \<Longrightarrow> t \<noteq> [] \<Longrightarrow> P) \<Longrightarrow> P"
  by (cases s) auto

text \<open>The nullish-coalescing operator \<^verbatim>\<open>a ?? b\<close>.\<close>

definition nullish :: "'a option \<Rightarrow> 'a \<Rightarrow> 'a" where
  "nullish a b = (case a of None \<Rightarrow> b | Some x \<Rightarrow> x)"

lemma nullish_simps [simp]: "nullish None b = b" "nullish (Some x) b = x"
  by (simp_all add: nullish_def)

section \<open>Strings\<close>

definition is_space :: "char \<Rightarrow> bool" where
  "is_space c = (let n = of_char c :: nat in (9 \<le> n \<and> n \<le> 13) \<or> n = 32 \<or> n = 160)"

definition js_trim :: "js_string \<Rightarrow> js_string" where
  "js_trim s = rev (dropWhile is_space (rev (dropWhile is_space s)))"

lemma js_trim_idem [simp]: "js_trim (js_trim s) = js_trim s"
proof -
  have h: "dropWhile P (rev (dropWhile P (rev (dropWhile P s)))) = rev (dropWhile P (rev (dropWhile P s)))"
    for P :: "char \<Rightarrow> bool"
  proof (cases "dropWhile P s")
    case (Cons c t)
    have c: "\<not> P c" using hd_dropWhile [of P s] Cons by simp
    have "dropWhile P (rev (c # t)) = dropWhile P (rev t) @ [c] \<or> dropWhile P (rev (c # t)) = [c]"
      using c by (cases "\<exists>x\<in>set t. \<not> P x") (auto simp: dropWhile_append1 dropWhile_append3 dropWhile_append2)
    then show ?thesis using c Cons by (auto simp: dropWhile_eq_Nil_conv)
  next
    case Nil
    show ?thesis unfolding Nil by simp
  qed
  then show ?thesis unfolding js_trim_def h by simp
qed

text \<open>\<^verbatim>\<open>s.replace(/\s+/g, " ")\<close>: every run of white space becomes one space.\<close>

fun collapse_spaces :: "js_string \<Rightarrow> js_string" where
  "collapse_spaces [] = []"
| "collapse_spaces [c] = (if is_space c then [CHR '' ''] else [c])"
| "collapse_spaces (c # d # s) =
     (if is_space c
      then if is_space d then collapse_spaces (d # s) else CHR '' '' # collapse_spaces (d # s)
      else c # collapse_spaces (d # s))"

text \<open>\<^verbatim>\<open>toLocaleLowerCase\<close> on the Latin-1 range: the letters A-Z and the accented capitals.\<close>

definition lower_char :: "char \<Rightarrow> char" where
  "lower_char c = (let n = of_char c :: nat in
     if (65 \<le> n \<and> n \<le> 90) \<or> (192 \<le> n \<and> n \<le> 222 \<and> n \<noteq> 215) then char_of (n + 32) else c)"

definition to_lower :: "js_string \<Rightarrow> js_string" where
  "to_lower s = map lower_char s"

text \<open>
  \<^verbatim>\<open>toUpperCase\<close> on the Latin-1 range, where the sharp s becomes two letters; the two letters whose capital
  lies outside the range stay, and no pattern the sources match holds them either way.
\<close>

definition upper_char :: "char \<Rightarrow> js_string" where
  "upper_char c = (let n = of_char c :: nat in
     if n = 223 then ''SS''
     else if (97 \<le> n \<and> n \<le> 122) \<or> (224 \<le> n \<and> n \<le> 254 \<and> n \<noteq> 247) then [char_of (n - 32)] else [c])"

definition to_upper :: "js_string \<Rightarrow> js_string" where
  "to_upper s = concat (map upper_char s)"

text \<open>Interpolating a number into a template literal.\<close>

fun nat_str :: "nat \<Rightarrow> js_string" where
  "nat_str n = (if n < 10 then [char_of (48 + n)] else nat_str (n div 10) @ [char_of (48 + n mod 10)])"

declare nat_str.simps [simp del]

definition int_str :: "int \<Rightarrow> js_string" where
  "int_str i = (if i < 0 then CHR ''-'' # nat_str (nat (- i)) else nat_str (nat i))"

text \<open>\<^verbatim>\<open>xs.join(sep)\<close>.\<close>

fun join_with :: "js_string \<Rightarrow> js_string list \<Rightarrow> js_string" where
  "join_with sep [] = []"
| "join_with sep [x] = x"
| "join_with sep (x # y # xs) = x @ sep @ join_with sep (y # xs)"

text \<open>\<^verbatim>\<open>xs.slice(-n)\<close>: the last \<^verbatim>\<open>n\<close> elements.\<close>

definition take_last :: "nat \<Rightarrow> 'a list \<Rightarrow> 'a list" where
  "take_last n xs = drop (length xs - n) xs"

lemma length_take_last [simp]: "length (take_last n xs) = min n (length xs)"
  by (simp add: take_last_def)

lemma set_take_last: "set (take_last n xs) \<subseteq> set xs"
  by (simp add: take_last_def set_drop_subset)

lemma in_take_last_snoc: "0 < n \<Longrightarrow> x \<in> set (take_last n (xs @ [x]))"
proof -
  assume n: "0 < n"
  have "take_last n (xs @ [x]) = drop (Suc (length xs) - n) xs @ drop (Suc (length xs) - n - length xs) [x]"
    by (simp add: take_last_def)
  moreover have "Suc (length xs) - n - length xs = 0" using n by simp
  ultimately show ?thesis by simp
qed

text \<open>
  \<^verbatim>\<open>s.replaceAll(pat, rep)\<close> with string arguments. JavaScript expands \<^verbatim>\<open>$$\<close>, \<^verbatim>\<open>$&\<close>, a dollar
  and a back quote, and a dollar and a quote in the replacement, so a player whose name holds
  a dollar sign can change the line; the model keeps that.
\<close>

fun expand_replacement :: "js_string \<Rightarrow> js_string \<Rightarrow> js_string \<Rightarrow> js_string \<Rightarrow> js_string" where
  "expand_replacement before matched after [] = []"
| "expand_replacement before matched after [c] = [c]"
| "expand_replacement before matched after (c # d # rep) =
     (if c = CHR ''$'' \<and> d = CHR ''$'' then CHR ''$'' # expand_replacement before matched after rep
      else if c = CHR ''$'' \<and> d = CHR ''&'' then matched @ expand_replacement before matched after rep
      else if c = CHR ''$'' \<and> d = CHR 0x60 then before @ expand_replacement before matched after rep
      else if c = CHR ''$'' \<and> d = CHR 0x27 then after @ expand_replacement before matched after rep
      else c # expand_replacement before matched after (d # rep))"

definition starts_with :: "js_string \<Rightarrow> js_string \<Rightarrow> bool" where
  "starts_with pat s = (take (length pat) s = pat)"

function replace_from :: "js_string \<Rightarrow> js_string \<Rightarrow> js_string \<Rightarrow> js_string \<Rightarrow> js_string" where
  "replace_from pat rep before [] = []"
| "replace_from pat rep before (c # s) =
     (if pat \<noteq> [] \<and> starts_with pat (c # s)
      then expand_replacement before pat (drop (length pat) (c # s)) rep
           @ replace_from pat rep (before @ pat) (drop (length pat) (c # s))
      else c # replace_from pat rep (before @ [c]) s)"
  by pat_completeness auto
termination
  by (relation "measure (\<lambda>(pat, rep, before, s). length s)") auto

definition replace_all :: "js_string \<Rightarrow> js_string \<Rightarrow> js_string \<Rightarrow> js_string" where
  "replace_all s pat rep = replace_from pat rep [] s"

section \<open>Updating one element of an array of objects\<close>

text \<open>
  The sources find an object in an array and write through the reference. \<^verbatim>\<open>upd_first P f xs\<close>
  writes \<^verbatim>\<open>f\<close> to the first element that satisfies \<^verbatim>\<open>P\<close>, which is the one \<^verbatim>\<open>find\<close> returns.
\<close>

fun upd_first :: "('a \<Rightarrow> bool) \<Rightarrow> ('a \<Rightarrow> 'a) \<Rightarrow> 'a list \<Rightarrow> 'a list" where
  "upd_first P f [] = []"
| "upd_first P f (x # xs) = (if P x then f x # xs else x # upd_first P f xs)"

lemma length_upd_first [simp]: "length (upd_first P f xs) = length xs"
  by (induction xs) auto

lemma map_upd_first: "(\<And>x. g (f x) = g x) \<Longrightarrow> map g (upd_first P f xs) = map g xs"
  by (induction xs) auto

lemma upd_first_none: "find P xs = None \<Longrightarrow> upd_first P f xs = xs"
  by (induction xs) (auto split: if_splits)

lemma set_upd_firstD: "y \<in> set (upd_first P f xs) \<Longrightarrow> y \<in> set xs \<or> (\<exists>x\<in>set xs. P x \<and> y = f x)"
  by (induction xs) (auto split: if_splits)

lemma find_upd_first:
  assumes "\<And>x. P (f x) = P x"
  shows "find P (upd_first P f xs) = map_option f (find P xs)"
  using assms by (induction xs) auto

lemma find_upd_first_other:
  assumes "\<And>x. P x \<Longrightarrow> Q (f x) = False" and "\<And>x. P x \<Longrightarrow> \<not> Q x"
  shows "find Q (upd_first P f xs) = find Q xs"
  using assms by (induction xs) auto

lemma filter_upd_first_same:
  assumes "\<And>x. P x \<Longrightarrow> Q (f x) = Q x" and "\<And>x. P x \<Longrightarrow> Q x \<Longrightarrow> g (f x) = g x"
  shows "map g (filter Q (upd_first P f xs)) = map g (filter Q xs)"
  using assms by (induction xs) auto

lemma find_SomeD: "find P xs = Some x \<Longrightarrow> x \<in> set xs \<and> P x"
  by (auto simp: find_Some_iff)

lemma find_None_iff_all: "find P xs = None \<longleftrightarrow> (\<forall>x\<in>set xs. \<not> P x)"
  by (auto simp: find_None_iff)

lemma find_map_same: "(\<And>x. P (f x) = P x) \<Longrightarrow> find P (map f xs) = map_option f (find P xs)"
  by (induction xs) auto

section \<open>Insertion-ordered counting\<close>

text \<open>
  \<^verbatim>\<open>tally.set(k, (tally.get(k) ?? 0) + 1)\<close> on a JavaScript \<^verbatim>\<open>Map\<close>, which iterates in the order
  the keys were first inserted: an association list updated in place.
\<close>

fun bump :: "'k \<Rightarrow> ('k \<times> nat) list \<Rightarrow> ('k \<times> nat) list" where
  "bump k [] = [(k, 1)]"
| "bump k ((k', n) # m) = (if k = k' then (k', Suc n) # m else (k', n) # bump k m)"

definition tally :: "'k list \<Rightarrow> ('k \<times> nat) list" where
  "tally ks = foldl (\<lambda>m k. bump k m) [] ks"

lemma map_of_bump: "map_of (bump k m) = (map_of m)(k \<mapsto> Suc (nullish (map_of m k) 0))"
  by (induction m) (auto simp: fun_eq_iff)

lemma keys_bump:
  "map fst (bump k m) = (if k \<in> fst ` set m then map fst m else map fst m @ [k])"
  by (induction m) (auto, force)

lemma fst_set_bump: "fst ` set (bump k m) = insert k (fst ` set m)"
proof -
  have "set (map fst (bump k m)) = insert k (fst ` set m)"
    by (simp only: keys_bump) auto
  then show ?thesis by simp
qed

lemma distinct_bump: "distinct (map fst m) \<Longrightarrow> distinct (map fst (bump k m))"
  by (auto simp: keys_bump)

lemma tally_snoc: "tally (ks @ [k]) = bump k (tally ks)"
  by (simp add: tally_def)

lemma tally_Nil [simp]: "tally [] = []"
  by (simp add: tally_def)

lemma distinct_tally: "distinct (map fst (tally ks))"
  by (induction ks rule: rev_induct) (auto simp: tally_snoc intro: distinct_bump)

lemma fst_set_tally: "fst ` set (tally ks) = set ks"
  by (induction ks rule: rev_induct) (auto simp: tally_snoc fst_set_bump)

lemma map_of_tally:
  "map_of (tally ks) k = (if k \<in> set ks then Some (count_list ks k) else None)"
proof (induction ks rule: rev_induct)
  case (snoc x ks)
  then show ?case by (auto simp: tally_snoc map_of_bump count_list_append)
qed simp

lemma in_tally_iff: "(k, n) \<in> set (tally ks) \<longleftrightarrow> k \<in> set ks \<and> n = count_list ks k"
proof -
  have "(k, n) \<in> set (tally ks) \<longleftrightarrow> map_of (tally ks) k = Some n"
    using distinct_tally by (rule map_of_eq_Some_iff [symmetric])
  then show ?thesis by (auto simp: map_of_tally)
qed

section \<open>Stable sorting by a comparison\<close>

text \<open>\<^verbatim>\<open>toSorted(cmp)\<close>: \<^verbatim>\<open>le a b\<close> is \<^verbatim>\<open>cmp(a, b) <= 0\<close>; equal elements keep their order.\<close>

fun insert_by :: "('a \<Rightarrow> 'a \<Rightarrow> bool) \<Rightarrow> 'a \<Rightarrow> 'a list \<Rightarrow> 'a list" where
  "insert_by le x [] = [x]"
| "insert_by le x (y # ys) = (if le x y then x # y # ys else y # insert_by le x ys)"

definition sort_by :: "('a \<Rightarrow> 'a \<Rightarrow> bool) \<Rightarrow> 'a list \<Rightarrow> 'a list" where
  "sort_by le xs = foldr (insert_by le) xs []"

lemma mset_insert_by [simp]: "mset (insert_by le x xs) = add_mset x (mset xs)"
  by (induction xs) auto

lemma mset_sort_by [simp]: "mset (sort_by le xs) = mset xs"
  by (induction xs) (auto simp: sort_by_def)

lemma set_insert_by [simp]: "set (insert_by le x xs) = insert x (set xs)"
  by (induction xs) auto

lemma set_sort_by [simp]: "set (sort_by le xs) = set xs"
  by (rule mset_eq_setD) simp

lemma sort_by_empty [simp]: "sort_by le xs = [] \<longleftrightarrow> xs = []"
  using mset_sort_by [of le xs] by (metis mset_zero_iff)

lemma insert_by_key_sorted:
  "sorted (map f ys) \<Longrightarrow> sorted (map f (insert_by (\<lambda>a b. f a \<le> (f b :: 'b :: linorder)) x ys))"
proof (induction ys)
  case (Cons y ys)
  then show ?case by (auto intro: order_trans)
qed simp

lemma sort_by_key_sorted: "sorted (map f (sort_by (\<lambda>a b. f a \<le> (f b :: 'b :: linorder)) xs))"
  by (induction xs) (simp_all add: sort_by_def insert_by_key_sorted)

section \<open>Shuffling\<close>

text \<open>\<^verbatim>\<open>[a[i], a[j]] = [a[j], a[i]]\<close>.\<close>

definition swap_at :: "nat \<Rightarrow> nat \<Rightarrow> 'a list \<Rightarrow> 'a list" where
  "swap_at i j xs = xs[i := xs ! j, j := xs ! i]"

lemma length_swap_at [simp]: "length (swap_at i j xs) = length xs"
  by (simp add: swap_at_def)

lemma mset_swap_at: "i < length xs \<Longrightarrow> j < length xs \<Longrightarrow> mset (swap_at i j xs) = mset xs"
  by (simp add: swap_at_def mset_swap)

text \<open>
  The loop \<^verbatim>\<open>for (index = length - 1; index > 0; index -= 1)\<close> that every game writes out:
  draw \<^verbatim>\<open>swap\<close> below \<^verbatim>\<open>index + 1\<close> and exchange the two cells. The draw is state passing over
  whatever holds the random source.
\<close>

fun shuffle_from :: "('r \<Rightarrow> nat \<Rightarrow> nat \<times> 'r) \<Rightarrow> nat \<Rightarrow> 'a list \<Rightarrow> 'r \<Rightarrow> 'a list \<times> 'r" where
  "shuffle_from pick 0 xs r = (xs, r)"
| "shuffle_from pick (Suc i) xs r =
     (let (j, r') = pick r (Suc (Suc i)) in shuffle_from pick i (swap_at (Suc i) j xs) r')"

definition shuffle :: "('r \<Rightarrow> nat \<Rightarrow> nat \<times> 'r) \<Rightarrow> 'a list \<Rightarrow> 'r \<Rightarrow> 'a list \<times> 'r" where
  "shuffle pick xs r = shuffle_from pick (length xs - 1) xs r"

text \<open>
  The contract of a random source: a draw below a positive bound is below it. Everything a
  client may rely on when it shuffles follows from that.
\<close>

locale random_source =
  fixes pick :: "'r \<Rightarrow> nat \<Rightarrow> nat \<times> 'r"
  assumes pick_below: "0 < n \<Longrightarrow> fst (pick r n) < n"
begin

lemma shuffle_from_mset:
  "i < length xs \<or> i = 0 \<Longrightarrow> mset (fst (shuffle_from pick i xs r)) = mset xs"
proof (induction i arbitrary: xs r)
  case (Suc i)
  obtain j r' where p: "pick r (Suc (Suc i)) = (j, r')" by fastforce
  have "j < Suc (Suc i)" using pick_below [of "Suc (Suc i)" r] p by simp
  with Suc.prems have "mset (swap_at (Suc i) j xs) = mset xs"
    by (intro mset_swap_at) auto
  with Suc p show ?case by simp
qed simp

lemma shuffle_mset: "mset (fst (shuffle pick xs r)) = mset xs"
  unfolding shuffle_def by (rule shuffle_from_mset) (cases xs, auto)

lemma shuffle_length: "length (fst (shuffle pick xs r)) = length xs"
  using shuffle_mset [THEN arg_cong, of size] by simp

lemma shuffle_set: "set (fst (shuffle pick xs r)) = set xs"
  using shuffle_mset [THEN arg_cong, of set_mset] by simp

lemma shuffle_distinct: "distinct (fst (shuffle pick xs r)) = distinct xs"
  using shuffle_mset mset_eq_imp_distinct_iff by blast

end

end
