(* ===== verification/Multiplayer.thy ===== *)
theory Multiplayer
  imports Prelude
begin

text \<open>
  The primitives every multiplayer game shares (\<^verbatim>\<open>features/things/shared\<close>): the services a
  transition runs against, room expiry, presence, readiness, credentials, join attempts and
  the bounded memory of processed actions.

  \<^verbatim>\<open>node:crypto\<close>, the clock, the random sources and the host's collation are not part of the repository: they are
  the fields of \<^verbatim>\<open>services\<close>, the base record every room state extends. A draw is a 32-bit
  value \<^verbatim>\<open>v\<close> read as the fraction \<^verbatim>\<open>v / 2^32\<close>, which is how the live context produces its
  random values; the wall clock is read once per transition.
\<close>

section \<open>Services\<close>

record services =
  sha256_hex :: "js_string \<Rightarrow> js_string"
  token_source :: "nat \<Rightarrow> js_string"
  token_cursor :: nat
  uuid_source :: "nat \<Rightarrow> js_string"
  uuid_cursor :: nat
  crypto_draw :: "nat \<Rightarrow> 32 word"
  crypto_cursor :: nat
  pick_draw :: "nat \<Rightarrow> 32 word"
  pick_cursor :: nat
  locale_compare :: "js_string \<Rightarrow> js_string \<Rightarrow> int"
  wall_clock :: int

text \<open>Concrete services, for the witnesses: every draw is zero and the clock stands at zero.\<close>

definition test_services :: services where
  "test_services = \<lparr>sha256_hex = (\<lambda>_. replicate 64 (CHR ''0'')), token_source = (\<lambda>k. ''t'' @ nat_str k),
     token_cursor = 0, uuid_source = (\<lambda>k. ''u'' @ nat_str k), uuid_cursor = 0, crypto_draw = (\<lambda>_. 0), crypto_cursor = 0, pick_draw = (\<lambda>_. 0),
     pick_cursor = 0, locale_compare = (\<lambda>a b. 0), wall_clock = 0\<rparr>"

text \<open>The fraction \<^verbatim>\<open>v / 2^32\<close> of a bound, rounded down.\<close>

definition scale_draw :: "32 word \<Rightarrow> nat \<Rightarrow> nat" where
  "scale_draw v n = (unat v * n) div 2 ^ 32"

lemma scale_draw_below: "0 < n \<Longrightarrow> scale_draw v n < n"
proof -
  assume n: "0 < n"
  have "unat v < 2 ^ LENGTH(32)" by (rule unsigned_less)
  then have "unat v < 2 ^ 32" by simp
  with n have "unat v * n < 2 ^ 32 * n" by simp
  then show ?thesis by (simp add: scale_draw_def less_mult_imp_div_less mult.commute)
qed

text \<open>For evaluation: in integers, not in unary numbers.\<close>

lemma scale_draw_code [code]: "scale_draw v n = nat (uint v * int n div 4294967296)"
  by (simp add: scale_draw_def nat_div_distrib nat_mult_distrib flip: unat_eq_nat_uint)

text \<open>The \<^verbatim>\<open>pick\<close> argument the reducers pass around: a closure over a cursor.\<close>

definition pick :: "'a services_scheme \<Rightarrow> nat \<Rightarrow> nat \<times> 'a services_scheme" where
  "pick w n = (scale_draw (pick_draw w (pick_cursor w)) n, w\<lparr>pick_cursor := Suc (pick_cursor w)\<rparr>)"

text \<open>\<^verbatim>\<open>randomInt\<close> of \<^verbatim>\<open>node:crypto\<close>.\<close>

definition random_int :: "'a services_scheme \<Rightarrow> nat \<Rightarrow> nat \<times> 'a services_scheme" where
  "random_int w n = (scale_draw (crypto_draw w (crypto_cursor w)) n, w\<lparr>crypto_cursor := Suc (crypto_cursor w)\<rparr>)"

definition createMultiplayerCredential :: "'a services_scheme \<Rightarrow> js_string \<times> 'a services_scheme" where
  "createMultiplayerCredential w = (token_source w (token_cursor w), w\<lparr>token_cursor := Suc (token_cursor w)\<rparr>)"

text \<open>\<^verbatim>\<open>crypto.randomUUID()\<close>.\<close>

definition randomUUID :: "'a services_scheme \<Rightarrow> js_string \<times> 'a services_scheme" where
  "randomUUID w = (uuid_source w (uuid_cursor w), w\<lparr>uuid_cursor := Suc (uuid_cursor w)\<rparr>)"

interpretation picker: random_source "pick :: 'a services_scheme \<Rightarrow> nat \<Rightarrow> nat \<times> 'a services_scheme"
  by unfold_locales (simp add: pick_def scale_draw_below)

interpretation crypto: random_source "random_int :: 'a services_scheme \<Rightarrow> nat \<Rightarrow> nat \<times> 'a services_scheme"
  by unfold_locales (simp add: random_int_def scale_draw_below)

lemma snd_pick_chain: "\<exists>k. snd (pick w n) = w\<lparr>pick_cursor := k\<rparr>"
  by (auto simp: pick_def)

lemma shuffle_from_world: "\<exists>k. snd (shuffle_from pick i xs w) = w\<lparr>pick_cursor := k\<rparr>"
proof (induction i arbitrary: xs w)
  case 0
  have "snd (shuffle_from pick 0 xs w) = w\<lparr>pick_cursor := pick_cursor w\<rparr>" by simp
  then show ?case by blast
next
  case (Suc i)
  obtain j w' where p: "pick w (Suc (Suc i)) = (j, w')" by fastforce
  obtain k where w': "w' = w\<lparr>pick_cursor := k\<rparr>"
    using p by (auto simp: pick_def)
  obtain k' where "snd (shuffle_from pick i (swap_at (Suc i) j xs) w') = w'\<lparr>pick_cursor := k'\<rparr>"
    using Suc.IH by blast
  with p w' have "snd (shuffle_from pick (Suc i) xs w) = w\<lparr>pick_cursor := k'\<rparr>" by simp
  then show ?case by blast
qed

text \<open>A shuffle moves the pick cursor and nothing else.\<close>

lemma shuffle_world: "\<exists>k. snd (shuffle pick xs w) = w\<lparr>pick_cursor := k\<rparr>"
  unfolding shuffle_def by (rule shuffle_from_world)

section \<open>Credentials\<close>

text \<open>\<^verbatim>\<open>Buffer.from(s, "hex")\<close>: pairs of hex digits up to the first pair that is not one.\<close>

definition hex_digit :: "char \<Rightarrow> nat option" where
  "hex_digit c = (let n = of_char c :: nat in
     if 48 \<le> n \<and> n \<le> 57 then Some (n - 48)
     else if 97 \<le> n \<and> n \<le> 102 then Some (n - 87)
     else if 65 \<le> n \<and> n \<le> 70 then Some (n - 55) else None)"

fun buffer_from_hex :: "js_string \<Rightarrow> nat list" where
  "buffer_from_hex (a # b # s) =
     (case (hex_digit a, hex_digit b) of
        (Some x, Some y) \<Rightarrow> (16 * x + y) # buffer_from_hex s
      | _ \<Rightarrow> [])"
| "buffer_from_hex _ = []"

definition hashMultiplayerCredential :: "'a services_scheme \<Rightarrow> js_string \<Rightarrow> js_string" where
  "hashMultiplayerCredential w value = sha256_hex w value"

definition multiplayerCredentialsMatch :: "'a services_scheme \<Rightarrow> js_string \<Rightarrow> js_string \<Rightarrow> bool" where
  "multiplayerCredentialsMatch w value expectedHash =
     (if value = [] \<or> 120 < length value \<or> length expectedHash \<noteq> 64 then False
      else let actual = buffer_from_hex (hashMultiplayerCredential w value);
               expected = buffer_from_hex expectedHash
           in length actual = length expected \<and> actual = expected)"

lemma credential_matches_own_hash:
  "value \<noteq> [] \<Longrightarrow> length value \<le> 120 \<Longrightarrow> length (sha256_hex w value) = 64 \<Longrightarrow>
   multiplayerCredentialsMatch w value (hashMultiplayerCredential w value)"
  by (simp add: multiplayerCredentialsMatch_def hashMultiplayerCredential_def)

section \<open>Join attempts\<close>

datatype 'p join_attempt_resolution =
  JoinConflict
| JoinNew "js_string option" js_string
| JoinRetry 'p js_string

record join_attempt =
  ja_joinId :: js_string
  ja_playerToken :: js_string

text \<open>
  \<^verbatim>\<open>players\<close> is any list of records with a join id and a token hash, given by their
  projections. Without an attempt the server mints a token.
\<close>

definition resolveMultiplayerJoinAttempt ::
  "('p \<Rightarrow> js_string option) \<Rightarrow> ('p \<Rightarrow> js_string) \<Rightarrow> 'p list \<Rightarrow> join_attempt option \<Rightarrow>
   'a services_scheme \<Rightarrow> 'p join_attempt_resolution \<times> 'a services_scheme" where
  "resolveMultiplayerJoinAttempt join_id token_hash players attempt w =
     (case attempt of
        None \<Rightarrow> (let (t, w') = createMultiplayerCredential w in (JoinNew None t, w'))
      | Some a \<Rightarrow>
          (case find (\<lambda>p. join_id p = Some (ja_joinId a)) players of
             None \<Rightarrow> (JoinNew (Some (ja_joinId a)) (ja_playerToken a), w)
           | Some existing \<Rightarrow>
               (if multiplayerCredentialsMatch w (ja_playerToken a) (token_hash existing)
                then JoinRetry existing (ja_playerToken a) else JoinConflict, w)))"

section \<open>Room identifiers\<close>

definition MULTIPLAYER_ROOM_ID_LENGTH :: nat where
  "MULTIPLAYER_ROOM_ID_LENGTH = 7"

definition MULTIPLAYER_ROOM_ALPHABET :: js_string where
  "MULTIPLAYER_ROOM_ALPHABET = ''ABCDEFGHJKLMNPQRSTUVWXYZ23456789''"

text \<open>\<^verbatim>\<open>/^[A-Z2-9]{7}$/\<close>.\<close>

definition room_id_pattern :: "js_string \<Rightarrow> bool" where
  "room_id_pattern s \<longleftrightarrow> length s = 7 \<and>
     list_all (\<lambda>c. let n = of_char c :: nat in (65 \<le> n \<and> n \<le> 90) \<or> (50 \<le> n \<and> n \<le> 57)) s"

fun draw_chars :: "nat \<Rightarrow> 'a services_scheme \<Rightarrow> js_string \<times> 'a services_scheme" where
  "draw_chars 0 w = ([], w)"
| "draw_chars (Suc n) w =
     (let (i, w1) = random_int w (length MULTIPLAYER_ROOM_ALPHABET);
          (s, w2) = draw_chars n w1
      in ((MULTIPLAYER_ROOM_ALPHABET ! i) # s, w2))"

definition createMultiplayerRoomId :: "'a services_scheme \<Rightarrow> js_string \<times> 'a services_scheme" where
  "createMultiplayerRoomId w = draw_chars MULTIPLAYER_ROOM_ID_LENGTH w"

text \<open>Tries a bounded number of candidates; \<^verbatim>\<open>None\<close> is the thrown "Could not allocate room".\<close>

fun allocate_room_id :: "nat \<Rightarrow> (js_string \<Rightarrow> bool) \<Rightarrow> 'a services_scheme \<Rightarrow> js_string option \<times> 'a services_scheme" where
  "allocate_room_id 0 roomExists w = (None, w)"
| "allocate_room_id (Suc n) roomExists w =
     (let (roomId, w') = createMultiplayerRoomId w
      in if roomExists roomId then allocate_room_id n roomExists w' else (Some roomId, w'))"

definition createAvailableMultiplayerRoomId ::
  "(js_string \<Rightarrow> bool) \<Rightarrow> 'a services_scheme \<Rightarrow> js_string option \<times> 'a services_scheme" where
  "createAvailableMultiplayerRoomId roomExists w = allocate_room_id 5 roomExists w"

lemma room_alphabet_pattern:
  "c \<in> set MULTIPLAYER_ROOM_ALPHABET \<Longrightarrow>
   (let n = of_char c :: nat in (65 \<le> n \<and> n \<le> 90) \<or> (50 \<le> n \<and> n \<le> 57))"
  by (auto simp: MULTIPLAYER_ROOM_ALPHABET_def)

lemma draw_chars_ok:
  "length (fst (draw_chars n w)) = n \<and> set (fst (draw_chars n w)) \<subseteq> set MULTIPLAYER_ROOM_ALPHABET"
proof (induction n arbitrary: w)
  case (Suc n)
  obtain i w1 where r: "random_int w (length MULTIPLAYER_ROOM_ALPHABET) = (i, w1)" by fastforce
  have "i < length MULTIPLAYER_ROOM_ALPHABET"
    using crypto.pick_below [of "length MULTIPLAYER_ROOM_ALPHABET" w] r
    by (simp add: MULTIPLAYER_ROOM_ALPHABET_def)
  with r Suc.IH [of w1] show ?case by (auto simp: split_beta)
qed simp

lemma createMultiplayerRoomId_pattern: "room_id_pattern (fst (createMultiplayerRoomId w))"
proof -
  have l: "length (fst (createMultiplayerRoomId w)) = 7"
    and s: "set (fst (createMultiplayerRoomId w)) \<subseteq> set MULTIPLAYER_ROOM_ALPHABET"
    using draw_chars_ok [of 7 w]
    by (simp_all add: createMultiplayerRoomId_def MULTIPLAYER_ROOM_ID_LENGTH_def)
  show ?thesis
    unfolding room_id_pattern_def list_all_iff using l s room_alphabet_pattern by blast
qed

lemma allocate_room_id_sound:
  "fst (allocate_room_id n ex w) = Some roomId \<Longrightarrow> \<not> ex roomId \<and> room_id_pattern roomId"
proof (induction n arbitrary: w)
  case (Suc n)
  obtain c w' where r: "createMultiplayerRoomId w = (c, w')" by fastforce
  show ?case
  proof (cases "ex c")
    case True
    with Suc r show ?thesis by auto
  next
    case False
    with Suc.prems r createMultiplayerRoomId_pattern [of w] show ?thesis by auto
  qed
qed simp

section \<open>Room expiry\<close>

definition MULTIPLAYER_EMPTY_LOBBY_TTL_SECONDS :: int where
  "MULTIPLAYER_EMPTY_LOBBY_TTL_SECONDS = 5 * 60"

definition MULTIPLAYER_LOBBY_TTL_SECONDS :: int where
  "MULTIPLAYER_LOBBY_TTL_SECONDS = 30 * 60"

definition MULTIPLAYER_PRESENCE_LEASE_SECONDS :: int where
  "MULTIPLAYER_PRESENCE_LEASE_SECONDS = 15 * 60"

lemmas ttl_defs = MULTIPLAYER_EMPTY_LOBBY_TTL_SECONDS_def MULTIPLAYER_LOBBY_TTL_SECONDS_def
  MULTIPLAYER_PRESENCE_LEASE_SECONDS_def

definition multiplayerLobbyExpiresAt :: "int \<Rightarrow> nat \<Rightarrow> int" where
  "multiplayerLobbyExpiresAt now playerCount =
     now + (if playerCount = 0 then MULTIPLAYER_EMPTY_LOBBY_TTL_SECONDS
            else MULTIPLAYER_LOBBY_TTL_SECONDS) * 1000"

definition multiplayerPresenceLeaseExpiresAt :: "int \<Rightarrow> int" where
  "multiplayerPresenceLeaseExpiresAt now = now + MULTIPLAYER_PRESENCE_LEASE_SECONDS * 1000"

datatype room_phase_kind = KindLobby | KindActive | KindResults | KindClosed

definition multiplayerRoomExpiry :: "room_phase_kind \<Rightarrow> nat \<Rightarrow> int \<Rightarrow> int \<Rightarrow> int" where
  "multiplayerRoomExpiry kind presentCount expiresAt now =
     (if expiresAt \<le> now then expiresAt
      else if kind = KindClosed then now
      else if kind = KindResults then max expiresAt (multiplayerPresenceLeaseExpiresAt now)
      else if kind = KindLobby then multiplayerLobbyExpiresAt now presentCount
      else if 0 < presentCount then multiplayerPresenceLeaseExpiresAt now else now)"

definition multiplayerRoomExpired :: "int \<Rightarrow> int \<Rightarrow> bool" where
  "multiplayerRoomExpired expiresAt now \<longleftrightarrow> expiresAt \<le> now"

definition remainingMultiplayerRoomTtlSeconds :: "int \<Rightarrow> int \<Rightarrow> int" where
  "remainingMultiplayerRoomTtlSeconds expiresAt now = max 1 ((expiresAt - now + 999) div 1000)"

lemma expiry_never_revives:
  "expiresAt \<le> now \<Longrightarrow> multiplayerRoomExpiry kind n expiresAt now = expiresAt"
  by (simp add: multiplayerRoomExpiry_def)

lemma expiry_live_occupied:
  "now < expiresAt \<Longrightarrow> kind \<noteq> KindClosed \<Longrightarrow> 0 < n \<Longrightarrow>
   multiplayerPresenceLeaseExpiresAt now \<le> multiplayerRoomExpiry kind n expiresAt now"
  by (auto simp: multiplayerRoomExpiry_def multiplayerLobbyExpiresAt_def
      multiplayerPresenceLeaseExpiresAt_def ttl_defs)

section \<open>Presence\<close>

definition MULTIPLAYER_PRESENCE_TOUCH_INTERVAL_MS :: int where
  "MULTIPLAYER_PRESENCE_TOUCH_INTERVAL_MS = 10000"

text \<open>The new \<^verbatim>\<open>lastSeenAt\<close> and whether it was written.\<close>

definition touchMultiplayerPresence :: "int \<Rightarrow> int \<Rightarrow> bool \<Rightarrow> int \<times> bool" where
  "touchMultiplayerPresence lastSeenAt now force =
     (if \<not> force \<and> now - lastSeenAt < MULTIPLAYER_PRESENCE_TOUCH_INTERVAL_MS
      then (lastSeenAt, False) else (now, True))"

section \<open>Readiness\<close>

text \<open>
  \<^verbatim>\<open>MultiplayerReadinessRecord\<close>; a game's player record extends it. An absent optional field
  and a null one are not distinguished: the code reads both the same way.
\<close>

record readiness_record =
  pid :: js_string
  ready :: "bool option"
  startRequestId :: "js_string option"
  startRequestedAt :: "int option"

definition MULTIPLAYER_START_NUDGE_COOLDOWN_MS :: int where
  "MULTIPLAYER_START_NUDGE_COOLDOWN_MS = 10000"

definition multiplayerPlayerReady :: "'a readiness_record_scheme \<Rightarrow> bool" where
  "multiplayerPlayerReady p \<longleftrightarrow> ready p \<noteq> Some False"

definition multiplayerUnreadyPlayers ::
  "'a readiness_record_scheme list \<Rightarrow> 'a readiness_record_scheme list" where
  "multiplayerUnreadyPlayers ps = filter (\<lambda>p. \<not> multiplayerPlayerReady p) ps"

definition setMultiplayerPlayerReady ::
  "bool \<Rightarrow> 'a readiness_record_scheme \<Rightarrow> 'a readiness_record_scheme" where
  "setMultiplayerPlayerReady b p = p\<lparr>ready := Some b, startRequestId := None, startRequestedAt := None\<rparr>"

text \<open>One turn of the loop of \<^verbatim>\<open>requestMultiplayerReadiness\<close>: the player and whether it changed.\<close>

definition nudge_player ::
  "js_string \<Rightarrow> int \<Rightarrow> 'a readiness_record_scheme \<Rightarrow> 'a readiness_record_scheme \<times> bool" where
  "nudge_player requestId now p =
     (if multiplayerPlayerReady p then (p, False)
      else case startRequestedAt p of
        Some t \<Rightarrow>
          (if t \<noteq> 0 \<and> now - t < MULTIPLAYER_START_NUDGE_COOLDOWN_MS then (p, False)
           else (p\<lparr>startRequestId := Some requestId, startRequestedAt := Some now\<rparr>, True))
      | None \<Rightarrow> (p\<lparr>startRequestId := Some requestId, startRequestedAt := Some now\<rparr>, True))"

text \<open>\<^verbatim>\<open>sel\<close> picks the objects of the room's list that the caller passed.\<close>

definition requestMultiplayerReadiness ::
  "('a readiness_record_scheme \<Rightarrow> bool) \<Rightarrow> js_string \<Rightarrow> int \<Rightarrow> 'a readiness_record_scheme list \<Rightarrow>
   'a readiness_record_scheme list \<times> bool" where
  "requestMultiplayerReadiness sel requestId now ps =
     (map (\<lambda>p. if sel p then fst (nudge_player requestId now p) else p) ps,
      list_ex (\<lambda>p. sel p \<and> snd (nudge_player requestId now p)) ps)"

lemma nudge_player_frame [simp]:
  "pid (fst (nudge_player q now p)) = pid p"
  "ready (fst (nudge_player q now p)) = ready p"
  "more (fst (nudge_player q now p)) = more p"
  by (simp_all add: nudge_player_def split: option.splits)

section \<open>The memory of processed actions\<close>

definition multiplayerActionSeen :: "js_string list \<Rightarrow> js_string \<Rightarrow> bool" where
  "multiplayerActionSeen processedActionIds actionId \<longleftrightarrow> actionId \<in> set processedActionIds"

definition rememberMultiplayerAction :: "js_string list \<Rightarrow> js_string \<Rightarrow> js_string list" where
  "rememberMultiplayerAction processedActionIds actionId =
     take_last 300 (filter (\<lambda>a. a \<noteq> actionId) processedActionIds @ [actionId])"

lemma remembered_seen: "multiplayerActionSeen (rememberMultiplayerAction ids a) a"
  by (simp add: multiplayerActionSeen_def rememberMultiplayerAction_def in_take_last_snoc)

lemma remember_bounded: "length (rememberMultiplayerAction ids a) \<le> 300"
  by (simp add: rememberMultiplayerAction_def)

lemma remember_distinct: "distinct ids \<Longrightarrow> distinct (rememberMultiplayerAction ids a)"
proof -
  assume "distinct ids"
  then have "distinct (filter (\<lambda>x. x \<noteq> a) ids @ [a])" by simp
  then show ?thesis
    unfolding rememberMultiplayerAction_def take_last_def by (rule distinct_drop)
qed

lemma remember_subset: "set (rememberMultiplayerAction ids a) \<subseteq> insert a (set ids)"
  using set_take_last [of 300 "filter (\<lambda>x. x \<noteq> a) ids @ [a]"]
  by (auto simp: rememberMultiplayerAction_def)

end
