(* ===== verification/LiarsRules.thy ===== *)
theory LiarsRules
  imports Multiplayer
begin

text \<open>
  The rules of Liars (\<^verbatim>\<open>features/things/liars/liars-rules.ts\<close>): roles and sides, timings,
  lineups and their validation, the deal, win detection, targeting and plurality. The prose a
  role carries for the rules sheet (\<^verbatim>\<open>summary\<close>, \<^verbatim>\<open>rules\<close>) is display text no rule reads, and is
  left out of the role table.
\<close>

section \<open>Types\<close>

datatype liars_mode = ModeMafia | ModeImposter

datatype liars_room_mode = SameRoom | Remote

datatype liars_role =
  Mafia | Godfather | Jammer | Doctor | Detective | Lookout | Bodyguard | Escort | Vigilante
| Villager | Jester | Crew | Understudy | Imposter | Mole

datatype liars_side = Town | MafiaSide | Third

text \<open>An absent role counts zero; the order of the entries is the object's key order.\<close>

type_synonym liars_lineup = "(liars_role \<times> int) list"

record liars_toggles =
  announceAttackTarget :: bool
  revealRoleOnDeath :: bool
  revealEjectedRole :: bool
  jesterEndsGame :: bool
  doctorRepeatTarget :: bool
  coldOpen :: bool
  blindImposters :: bool
  wordBoardOn :: bool
  simultaneousClues :: bool
  cameraTorch :: bool
  lastWordsOn :: bool
  graveyardVoteOn :: bool
  liveGodView :: bool
  firstGame :: bool

record liars_timings =
  t_deal :: int
  t_night :: int
  t_dawn :: int
  t_deliberation :: int
  t_vote :: int
  t_verdict :: int
  t_finalGuess :: int
  t_clueTurn :: int

section \<open>Limits and the role table\<close>

definition LIARS_MIN_PLAYERS :: "liars_mode \<Rightarrow> int" where
  "LIARS_MIN_PLAYERS m = (case m of ModeMafia \<Rightarrow> 5 | ModeImposter \<Rightarrow> 4)"

definition LIARS_MAX_PLAYERS :: "liars_mode \<Rightarrow> int" where
  "LIARS_MAX_PLAYERS m = 16"

text \<open>\<^verbatim>\<open>Math.ceil(playerCount / 2) + 1\<close>.\<close>

definition LIARS_SPECIAL_SOFT_CAP :: "int \<Rightarrow> int" where
  "LIARS_SPECIAL_SOFT_CAP playerCount = (playerCount + 1) div 2 + 1"

definition LIARS_SPECIAL_HARD_CAP :: int where
  "LIARS_SPECIAL_HARD_CAP = 9"

definition LIARS_MIN_VILLAGERS :: int where
  "LIARS_MIN_VILLAGERS = 2"

definition LIARS_MAX_NAME_LENGTH :: nat where
  "LIARS_MAX_NAME_LENGTH = 24"

definition LIARS_LAST_WORDS_LENGTH :: nat where
  "LIARS_LAST_WORDS_LENGTH = 80"

record liars_role_definition =
  rd_mode :: liars_mode
  rd_name :: js_string
  rd_side :: liars_side
  rd_actionLabel :: "js_string option"
  rd_reportVerb :: "js_string option"
  rd_minPlayers :: int
  rd_maxCopies :: int
  rd_special :: bool
  rd_selfTarget :: bool
  rd_moves :: bool

definition role_def ::
  "liars_mode \<Rightarrow> js_string \<Rightarrow> liars_side \<Rightarrow> js_string option \<Rightarrow> js_string option \<Rightarrow> int \<Rightarrow> int \<Rightarrow>
   bool \<Rightarrow> bool \<Rightarrow> bool \<Rightarrow> liars_role_definition" where
  "role_def md nm sd al rv mp mc sp st mv =
     \<lparr>rd_mode = md, rd_name = nm, rd_side = sd, rd_actionLabel = al, rd_reportVerb = rv,
      rd_minPlayers = mp, rd_maxCopies = mc, rd_special = sp, rd_selfTarget = st, rd_moves = mv\<rparr>"

fun LIARS_ROLES :: "liars_role \<Rightarrow> liars_role_definition" where
  "LIARS_ROLES Mafia = role_def ModeMafia ''mafia'' MafiaSide
     (Some ''who dies tonight'') (Some ''it's done'') 5 3 False False True"
| "LIARS_ROLES Godfather = role_def ModeMafia ''godfather'' MafiaSide
     (Some ''who dies tonight'') (Some ''it's done'') 7 1 True False True"
| "LIARS_ROLES Jammer = role_def ModeMafia ''jammer'' MafiaSide
     (Some ''who to block'') (Some ''blocked'') 12 1 True False True"
| "LIARS_ROLES Doctor = role_def ModeMafia ''doctor'' Town
     (Some ''who to save'') (Some ''you're watching over them'') 5 1 True True True"
| "LIARS_ROLES Detective = role_def ModeMafia ''detective'' Town
     (Some ''who to investigate'') None 5 1 True False True"
| "LIARS_ROLES Lookout = role_def ModeMafia ''lookout'' Town
     (Some ''whose door to watch'') None 7 1 True False True"
| "LIARS_ROLES Bodyguard = role_def ModeMafia ''bodyguard'' Town
     (Some ''who to guard'') (Some ''you're at their door'') 9 1 True False True"
| "LIARS_ROLES Escort = role_def ModeMafia ''escort'' Town
     (Some ''who to spend the night with'') None 11 1 True False True"
| "LIARS_ROLES Vigilante = role_def ModeMafia ''vigilante'' Town
     (Some ''who to shoot'') (Some ''the shot is loaded'') 14 1 True False True"
| "LIARS_ROLES Villager = role_def ModeMafia ''villager'' Town
     (Some ''whose door to watch'') None 5 16 False False False"
| "LIARS_ROLES Jester = role_def ModeMafia ''jester'' Third
     (Some ''whose door to watch'') None 9 1 True False False"
| "LIARS_ROLES Crew = role_def ModeImposter ''crew'' Town None None 4 16 False False False"
| "LIARS_ROLES Understudy = role_def ModeImposter ''understudy'' Town None None 7 1 True False False"
| "LIARS_ROLES Imposter = role_def ModeImposter ''imposter'' MafiaSide None None 4 3 True False False"
| "LIARS_ROLES Mole = role_def ModeImposter ''mole'' MafiaSide None None 12 1 True False False"

definition ROLE_LIST :: "liars_role list" where
  "ROLE_LIST = [Mafia, Godfather, Jammer, Doctor, Detective, Lookout, Bodyguard, Escort, Vigilante,
     Villager, Jester, Crew, Understudy, Imposter, Mole]"

definition liarsRolesForMode :: "liars_mode \<Rightarrow> liars_role list" where
  "liarsRolesForMode m = filter (\<lambda>r. rd_mode (LIARS_ROLES r) = m) ROLE_LIST"

definition liarsRoleSide :: "liars_role \<Rightarrow> liars_side" where
  "liarsRoleSide r = rd_side (LIARS_ROLES r)"

text \<open>The copy table: the names of the modes and of their sides.\<close>

definition LIARS_MODE_NAME :: "liars_mode \<Rightarrow> js_string" where
  "LIARS_MODE_NAME m = (case m of ModeMafia \<Rightarrow> ''mafia'' | ModeImposter \<Rightarrow> ''imposter'')"

definition LIARS_MODE_SIDES :: "liars_mode \<Rightarrow> liars_side \<Rightarrow> js_string" where
  "LIARS_MODE_SIDES m s =
     (case m of
        ModeMafia \<Rightarrow> (case s of Town \<Rightarrow> ''town'' | MafiaSide \<Rightarrow> ''mafia'' | Third \<Rightarrow> ''jester'')
      | ModeImposter \<Rightarrow> (case s of Town \<Rightarrow> ''crew'' | MafiaSide \<Rightarrow> ''imposters'' | Third \<Rightarrow> ''third party''))"

definition LIARS_MODE_SIDES_SINGULAR :: "liars_mode \<Rightarrow> liars_side \<Rightarrow> js_string" where
  "LIARS_MODE_SIDES_SINGULAR m s =
     (case m of
        ModeMafia \<Rightarrow> (case s of Town \<Rightarrow> ''town'' | MafiaSide \<Rightarrow> ''mafia'' | Third \<Rightarrow> ''jester'')
      | ModeImposter \<Rightarrow> (case s of Town \<Rightarrow> ''crew'' | MafiaSide \<Rightarrow> ''imposter'' | Third \<Rightarrow> ''third party''))"

definition liarsSideLabel :: "liars_mode \<Rightarrow> liars_side \<Rightarrow> int \<Rightarrow> js_string" where
  "liarsSideLabel m s n =
     (if n = 1 then LIARS_MODE_SIDES_SINGULAR m s else LIARS_MODE_SIDES m s)"

section \<open>Defaults and timings\<close>

definition LIARS_DEFAULT_TOGGLES :: liars_toggles where
  "LIARS_DEFAULT_TOGGLES =
     \<lparr>announceAttackTarget = True, revealRoleOnDeath = True, revealEjectedRole = True,
      jesterEndsGame = True, doctorRepeatTarget = False, coldOpen = False, blindImposters = False,
      wordBoardOn = True, simultaneousClues = False, cameraTorch = False, lastWordsOn = True,
      graveyardVoteOn = True, liveGodView = False, firstGame = False\<rparr>"

definition liarsDefaultTimings :: "liars_room_mode \<Rightarrow> liars_timings" where
  "liarsDefaultTimings roomMode =
     \<lparr>t_deal = 25000, t_night = 45000, t_dawn = 15000,
      t_deliberation = (if roomMode = Remote then 90000 else 60000), t_vote = 30000,
      t_verdict = 15000, t_finalGuess = 30000, t_clueTurn = 60000\<rparr>"

definition LIARS_DUSK_MS :: int where "LIARS_DUSK_MS = 5000"
definition LIARS_REPORT_LEAD_MS :: int where "LIARS_REPORT_LEAD_MS = 10000"
definition LIARS_LAST_WORDS_MS :: int where "LIARS_LAST_WORDS_MS = 30000"
definition LIARS_MOVEMENT_BEAT_MS :: int where "LIARS_MOVEMENT_BEAT_MS = 1500"
definition LIARS_DEATH_HOLD_MS :: int where "LIARS_DEATH_HOLD_MS = 3000"
definition LIARS_DEATH_LANDS_MS :: int where "LIARS_DEATH_LANDS_MS = 3000"
definition LIARS_CONNECTED_WINDOW_MS :: int where "LIARS_CONNECTED_WINDOW_MS = 25000"
definition LIARS_HOST_CLAIM_AFTER_MS :: int where "LIARS_HOST_CLAIM_AFTER_MS = 60000"

lemmas liars_ms_defs = LIARS_DUSK_MS_def LIARS_REPORT_LEAD_MS_def LIARS_LAST_WORDS_MS_def
  LIARS_MOVEMENT_BEAT_MS_def LIARS_DEATH_HOLD_MS_def LIARS_DEATH_LANDS_MS_def
  LIARS_CONNECTED_WINDOW_MS_def LIARS_HOST_CLAIM_AFTER_MS_def

definition liarsNightDuration :: "liars_timings \<Rightarrow> nat \<Rightarrow> int" where
  "liarsNightDuration timings playerCount =
     t_night timings + max 0 (int playerCount - 10) * 15000"

section \<open>Lineups\<close>

definition lineupOf :: "(liars_role \<times> int) list \<Rightarrow> liars_lineup" where
  "lineupOf entries = filter (\<lambda>(_, n). 0 < n) entries"

definition liarsImposterRange :: "int \<Rightarrow> int \<times> int" where
  "liarsImposterRange playerCount =
     (1, if 13 \<le> playerCount then 3 else if 8 \<le> playerCount then 2 else 1)"

text \<open>The written-out table, for a player count clamped to 5..16.\<close>

definition MAFIA_LINEUPS :: "int \<Rightarrow> liars_lineup" where
  "MAFIA_LINEUPS n =
    (if n = 5 then [(Mafia, 1), (Doctor, 1), (Detective, 1), (Villager, 2)]
     else if n = 6 then [(Mafia, 1), (Doctor, 1), (Detective, 1), (Villager, 3)]
     else if n = 7 then [(Godfather, 1), (Mafia, 1), (Doctor, 1), (Detective, 1), (Villager, 3)]
     else if n = 8 then [(Godfather, 1), (Mafia, 1), (Doctor, 1), (Detective, 1), (Lookout, 1),
       (Villager, 3)]
     else if n = 9 then [(Godfather, 1), (Mafia, 1), (Doctor, 1), (Detective, 1), (Lookout, 1),
       (Villager, 3), (Jester, 1)]
     else if n = 10 then [(Godfather, 1), (Mafia, 2), (Doctor, 1), (Detective, 1), (Lookout, 1),
       (Villager, 3), (Jester, 1)]
     else if n = 11 then [(Godfather, 1), (Mafia, 2), (Doctor, 1), (Detective, 1), (Lookout, 1),
       (Bodyguard, 1), (Villager, 3), (Jester, 1)]
     else if n = 12 then [(Godfather, 1), (Mafia, 1), (Jammer, 1), (Doctor, 1), (Detective, 1),
       (Lookout, 1), (Bodyguard, 1), (Villager, 4), (Jester, 1)]
     else if n = 13 then [(Godfather, 1), (Mafia, 2), (Jammer, 1), (Doctor, 1), (Detective, 1),
       (Lookout, 1), (Bodyguard, 1), (Villager, 4), (Jester, 1)]
     else if n = 14 then [(Godfather, 1), (Mafia, 2), (Jammer, 1), (Doctor, 1), (Detective, 1),
       (Lookout, 1), (Bodyguard, 1), (Escort, 1), (Villager, 4), (Jester, 1)]
     else if n = 15 then [(Godfather, 1), (Mafia, 2), (Jammer, 1), (Doctor, 1), (Detective, 1),
       (Lookout, 1), (Bodyguard, 1), (Escort, 1), (Villager, 5), (Jester, 1)]
     else if n = 16 then [(Godfather, 1), (Mafia, 2), (Jammer, 1), (Doctor, 1), (Detective, 1),
       (Lookout, 1), (Bodyguard, 1), (Escort, 1), (Vigilante, 1), (Villager, 5), (Jester, 1)]
     else [])"

definition liarsDefaultLineup :: "liars_mode \<Rightarrow> int \<Rightarrow> int option \<Rightarrow> liars_lineup" where
  "liarsDefaultLineup m playerCount imposterCount =
     (if m = ModeImposter
      then let (lo, hi) = liarsImposterRange playerCount;
               imposters = min hi (max lo (nullish imposterCount
                 (if 16 \<le> playerCount then 3 else if 10 \<le> playerCount then 2 else 1)));
               understudy = (if 7 \<le> playerCount then 1 else 0);
               mole = (if 12 \<le> playerCount then 1 else 0)
           in lineupOf [(Imposter, imposters), (Mole, mole), (Understudy, understudy),
                (Crew, playerCount - imposters - understudy - mole)]
      else MAFIA_LINEUPS (min (LIARS_MAX_PLAYERS ModeMafia) (max (LIARS_MIN_PLAYERS ModeMafia) playerCount)))"

definition liarsFirstGameLineup :: "liars_mode \<Rightarrow> int \<Rightarrow> liars_lineup" where
  "liarsFirstGameLineup m playerCount =
     (if m = ModeImposter
      then let imposters = (if 10 \<le> playerCount then 2 else 1)
           in lineupOf [(Imposter, imposters), (Crew, playerCount - imposters)]
      else let mafia = (if 10 \<le> playerCount then 3 else if 7 \<le> playerCount then 2 else 1)
           in lineupOf [(Mafia, mafia), (Doctor, 1), (Detective, 1), (Villager, playerCount - mafia - 2)])"

definition liarsLineupEntries :: "liars_lineup \<Rightarrow> (liars_role \<times> int) list" where
  "liarsLineupEntries lineup = filter (\<lambda>(_, n). 0 < n) lineup"

definition liarsLineupTotal :: "liars_lineup \<Rightarrow> int" where
  "liarsLineupTotal lineup = sum_list (map snd (liarsLineupEntries lineup))"

definition liarsSideCounts :: "liars_lineup \<Rightarrow> liars_side \<Rightarrow> int" where
  "liarsSideCounts lineup s =
     sum_list (map snd (filter (\<lambda>(r, _). liarsRoleSide r = s) (liarsLineupEntries lineup)))"

text \<open>\<^verbatim>\<open>Math.max(0, Math.ceil((town - mafia) / 2) - 1)\<close>.\<close>

definition liarsWrongVoteBudget :: "liars_lineup \<Rightarrow> int" where
  "liarsWrongVoteBudget lineup =
     (let town = liarsSideCounts lineup Town; mafia = liarsSideCounts lineup MafiaSide
      in if mafia = 0 \<or> town \<le> mafia then 0 else max 0 ((town - mafia + 1) div 2 - 1))"

section \<open>Validating a lineup\<close>

datatype lineup_problem_code =
  CountMismatch | MafiaParity | TooManySpecials | NotEnoughVillagers | RoleNeedsPlayers
| TooManyCopies | NoMafia | WrongMode

type_synonym lineup_problem = "lineup_problem_code \<times> js_string"

text \<open>The first loop: a role of the other mode, or too many copies.\<close>

fun check_copies :: "liars_mode \<Rightarrow> (liars_role \<times> int) list \<Rightarrow> lineup_problem option" where
  "check_copies m [] = None"
| "check_copies m ((r, n) # es) =
     (let d = LIARS_ROLES r in
      if rd_mode d \<noteq> m
      then Some (WrongMode, ''the '' @ rd_name d @ '' does not play in '' @ LIARS_MODE_NAME m)
      else if rd_maxCopies d < n
      then Some (TooManyCopies, ''only '' @ int_str (rd_maxCopies d) @ '' '' @ rd_name d @ '' allowed'')
      else check_copies m es)"

text \<open>The second loop: a role that needs a bigger table.\<close>

fun check_min_players :: "int \<Rightarrow> (liars_role \<times> int) list \<Rightarrow> lineup_problem option" where
  "check_min_players playerCount [] = None"
| "check_min_players playerCount ((r, _) # es) =
     (let d = LIARS_ROLES r in
      if playerCount < rd_minPlayers d
      then Some (RoleNeedsPlayers, ''the '' @ rd_name d @ '' needs '' @ int_str (rd_minPlayers d) @ '' players'')
      else check_min_players playerCount es)"

definition liarsValidateLineup ::
  "liars_mode \<Rightarrow> liars_lineup \<Rightarrow> int \<Rightarrow> lineup_problem + lineup_problem list" where
  "liarsValidateLineup m lineup playerCount =
     (let entries = liarsLineupEntries lineup in
      case check_copies m entries of Some p \<Rightarrow> Inl p | None \<Rightarrow>
      (let total = liarsLineupTotal lineup in
       if total \<noteq> playerCount
       then Inl (CountMismatch, int_str total @ '' roles for '' @ int_str playerCount @ '' players'')
       else
       let town = liarsSideCounts lineup Town; mafia = liarsSideCounts lineup MafiaSide in
       if mafia = 0
       then Inl (NoMafia, if m = ModeMafia then ''nobody is mafia'' else ''nobody is the imposter'')
       else if town \<le> mafia
       then Inl (MafiaParity, int_str mafia @ '' '' @ LIARS_MODE_SIDES m MafiaSide @ '' and '' @
              int_str town @ '' '' @ LIARS_MODE_SIDES m Town @ '' -- they would start at parity'')
       else if m = ModeMafia \<and> nullish (map_of lineup Villager) 0 < LIARS_MIN_VILLAGERS
       then Inl (NotEnoughVillagers, ''no plain villagers left -- watch stops working'')
       else case check_min_players playerCount entries of Some p \<Rightarrow> Inl p | None \<Rightarrow>
       (let specials = int (length (filter (\<lambda>(r, _). rd_special (LIARS_ROLES r)) entries)) in
        if LIARS_SPECIAL_HARD_CAP < specials
        then Inl (TooManySpecials, int_str specials @ '' special roles -- '' @
               int_str LIARS_SPECIAL_HARD_CAP @ '' is the ceiling'')
        else Inr (if LIARS_SPECIAL_SOFT_CAP playerCount < specials
               then [(TooManySpecials, int_str specials @ '' special roles for '' @
                 int_str playerCount @ '' players -- the day gets hard to follow'')]
               else []))))"

section \<open>The deal\<close>

text \<open>One entry per copy, in the order of the lineup.\<close>

definition role_pool :: "liars_lineup \<Rightarrow> liars_role list" where
  "role_pool lineup = concat (map (\<lambda>(r, n). replicate (nat n) r) (liarsLineupEntries lineup))"

text \<open>\<^verbatim>\<open>dealt[playerId] = pool[index]\<close>; past the end of the pool JavaScript reads undefined.\<close>

fun assign_roles ::
  "js_string list \<Rightarrow> liars_role list \<Rightarrow> (js_string \<Rightarrow> liars_role option) \<Rightarrow> js_string \<Rightarrow> liars_role option" where
  "assign_roles [] pool m = m"
| "assign_roles (p # ps) [] m = assign_roles ps [] (m(p := None))"
| "assign_roles (p # ps) (r # pool) m = assign_roles ps pool (m(p := Some r))"

definition swap_partner ::
  "js_string list \<Rightarrow> (js_string \<Rightarrow> liars_role option) \<Rightarrow> (js_string \<Rightarrow> liars_role option) \<Rightarrow> js_string \<Rightarrow>
   js_string option" where
  "swap_partner playerIds previous dealt p =
     find (\<lambda>other. other \<noteq> p \<and> dealt other \<noteq> dealt p \<and> dealt other \<noteq> previous p \<and>
                   dealt p \<noteq> previous other) playerIds"

text \<open>The repair pass: swap anyone who drew their last role again with a partner it suits.\<close>

fun repair_repeats ::
  "js_string list \<Rightarrow> js_string list \<Rightarrow> (js_string \<Rightarrow> liars_role option) \<Rightarrow> (js_string \<Rightarrow> liars_role option) \<Rightarrow>
   js_string \<Rightarrow> liars_role option" where
  "repair_repeats playerIds [] previous dealt = dealt"
| "repair_repeats playerIds (p # ps) previous dealt =
     (if dealt p \<noteq> previous p then repair_repeats playerIds ps previous dealt
      else let partner = swap_partner playerIds previous dealt p in
           if \<not> truthy partner then repair_repeats playerIds ps previous dealt
           else repair_repeats playerIds ps previous
                  (dealt(p := dealt (the partner), the partner := dealt p)))"

definition liarsDealRoles ::
  "liars_lineup \<Rightarrow> js_string list \<Rightarrow> (js_string \<Rightarrow> liars_role option) option \<Rightarrow> 'a services_scheme \<Rightarrow>
   (js_string \<Rightarrow> liars_role option) \<times> 'a services_scheme" where
  "liarsDealRoles lineup playerIds previousRoles w =
     (let (pool, w') = shuffle pick (role_pool lineup) w;
          dealt = assign_roles playerIds pool (\<lambda>_. None)
      in (case previousRoles of
            None \<Rightarrow> dealt
          | Some previous \<Rightarrow> repair_repeats playerIds playerIds previous dealt, w'))"

section \<open>Reading, winning, targeting\<close>

definition liarsReadsGuilty :: "liars_role \<Rightarrow> bool" where
  "liarsReadsGuilty r \<longleftrightarrow> rd_side (LIARS_ROLES r) = MafiaSide \<and> r \<noteq> Godfather"

text \<open>
  \<^verbatim>\<open>finalGuessCorrect\<close> is optional and nullable: the outer \<^verbatim>\<open>None\<close> is undefined, the inner one
  is null.
\<close>

record liars_win_input =
  wi_mode :: liars_mode
  wi_jesterEndsGame :: bool
  wi_alive :: "(js_string \<times> liars_role) list"
  wi_ejectedJesterId :: "js_string option"
  wi_crewEjections :: "int option"
  wi_finalGuessCorrect :: "bool option option"

definition liarsDetectWinner :: "liars_win_input \<Rightarrow> liars_side option" where
  "liarsDetectWinner i =
     (if wi_mode i = ModeMafia \<and> truthy (wi_ejectedJesterId i) \<and> wi_jesterEndsGame i
      then Some Third
      else
      let mafiaAlive = length (filter (\<lambda>(_, r). liarsRoleSide r = MafiaSide) (wi_alive i));
          townAlive = length (filter (\<lambda>(_, r). liarsRoleSide r = Town) (wi_alive i)) in
      if wi_mode i = ModeImposter
      then (if wi_finalGuessCorrect i = Some (Some True) then Some MafiaSide
            else if mafiaAlive = 0
            then (if wi_finalGuessCorrect i = Some None then None else Some Town)
            else if 2 \<le> nullish (wi_crewEjections i) 0 then Some MafiaSide
            else if length (wi_alive i) \<le> 3 then Some MafiaSide
            else None)
      else if mafiaAlive = 0 then Some Town
      else if townAlive \<le> mafiaAlive then Some MafiaSide
      else None)"

definition liarsTargetableIds ::
  "liars_mode \<Rightarrow> liars_role \<Rightarrow> js_string \<Rightarrow> (js_string \<times> liars_role) list \<Rightarrow> js_string option \<Rightarrow> bool \<Rightarrow>
   js_string list" where
  "liarsTargetableIds m r actorId living previousTargetId repeatAllowed =
     (let d = LIARS_ROLES r in
      if \<not> truthy (rd_actionLabel d) then []
      else map fst (filter (\<lambda>(playerId, other).
        if r = Doctor \<and> \<not> repeatAllowed \<and> previousTargetId = Some playerId then False
        else if playerId = actorId then rd_selfTarget d
        else if m = ModeMafia \<and> rd_side d = MafiaSide \<and> liarsRoleSide other = MafiaSide then False
        else True) living))"

definition liarsActionMoves :: "liars_role \<Rightarrow> js_string option \<Rightarrow> bool" where
  "liarsActionMoves r targetId \<longleftrightarrow> targetId \<noteq> None \<and> rd_moves (LIARS_ROLES r)"

definition LIARS_GRAVEYARD_BOARD_MAX :: nat where
  "LIARS_GRAVEYARD_BOARD_MAX = 8"

definition LIARS_GRAVEYARD_NOTE_LENGTH :: nat where
  "LIARS_GRAVEYARD_NOTE_LENGTH = 90"

definition liarsGraveyardArmsAt :: "nat \<Rightarrow> nat" where
  "liarsGraveyardArmsAt playerCount = (playerCount + 1) div 2"

section \<open>Plurality\<close>

text \<open>The ballots that count: null and empty targets are skipped.\<close>

definition cast_ballots :: "js_string option list \<Rightarrow> js_string list" where
  "cast_ballots votes = map the (filter truthy votes)"

text \<open>One turn of the loop over the tally: leader, best count, tied.\<close>

definition plurality_step ::
  "(js_string option \<times> nat \<times> bool) \<Rightarrow> (js_string \<times> nat) \<Rightarrow> js_string option \<times> nat \<times> bool" where
  "plurality_step st entry =
     (case st of (leader, best, tied) \<Rightarrow> case entry of (targetId, n) \<Rightarrow>
        if best < n then (Some targetId, n, False)
        else if n = best then (leader, best, True) else (leader, best, tied))"

definition liarsPlurality :: "js_string option list \<Rightarrow> js_string option" where
  "liarsPlurality votes =
     (case foldl plurality_step (None, 0, False) (tally (cast_ballots votes)) of
        (leader, best, tied) \<Rightarrow> if tied then None else leader)"

text \<open>The night-screen hint of a role.\<close>

definition liarsActionHint :: "liars_role \<Rightarrow> js_string option" where
  "liarsActionHint r =
     (case r of
        Villager \<Rightarrow> Some ''you learn only whether they went out -- and the doctor and detective go out too. Two of you watching the same door makes it public.''
      | Lookout \<Rightarrow> Some ''you learn the name of everyone who came to their door tonight.''
      | Detective \<Rightarrow> Some ''you learn which side they are on. Nobody else is told.''
      | Doctor \<Rightarrow> Some ''if they are attacked tonight they live. You may pick yourself.''
      | Bodyguard \<Rightarrow> Some ''if they are attacked, you die instead and they live.''
      | Escort \<Rightarrow> Some ''your own house is empty tonight. If they are attacked you see who did it -- even if it kills you.''
      | Vigilante \<Rightarrow> Some ''they die tonight. Kill a townsperson and the guilt kills you the next.''
      | Jammer \<Rightarrow> Some ''whatever they were going to do tonight does not happen.''
      | Mafia \<Rightarrow> Some ''they die at dawn unless somebody saves them.''
      | Godfather \<Rightarrow> Some ''they die at dawn unless somebody saves them.''
      | _ \<Rightarrow> None)"

end
