(* ===== verification/LiarsRulesFacts.thy ===== *)
theory LiarsRulesFacts
  imports LiarsRules
begin

text \<open>
  What the Liars rules guarantee: the deal is a permutation of the lineup and its repair pass
  never adds a repeat, every lineup the code proposes is valid, a valid lineup starts a game
  nobody has won, plurality elects exactly the strict leader, and targeting keeps to the rules.
\<close>

section \<open>Sides and roles\<close>

lemma side_simps [simp]:
  "liarsRoleSide Mafia = MafiaSide" "liarsRoleSide Godfather = MafiaSide"
  "liarsRoleSide Jammer = MafiaSide" "liarsRoleSide Doctor = Town"
  "liarsRoleSide Detective = Town" "liarsRoleSide Lookout = Town"
  "liarsRoleSide Bodyguard = Town" "liarsRoleSide Escort = Town"
  "liarsRoleSide Vigilante = Town" "liarsRoleSide Villager = Town"
  "liarsRoleSide Jester = Third" "liarsRoleSide Crew = Town"
  "liarsRoleSide Understudy = Town" "liarsRoleSide Imposter = MafiaSide"
  "liarsRoleSide Mole = MafiaSide"
  by (simp_all add: liarsRoleSide_def role_def_def)

lemma role_moves_simps [simp]:
  "rd_moves (LIARS_ROLES r) \<longleftrightarrow>
     r \<in> {Mafia, Godfather, Jammer, Doctor, Detective, Lookout, Bodyguard, Escort, Vigilante}"
  by (cases r) (simp_all add: role_def_def)

lemma role_self_target [simp]: "rd_selfTarget (LIARS_ROLES r) \<longleftrightarrow> r = Doctor"
  by (cases r) (simp_all add: role_def_def)

lemma role_side_field [simp]: "rd_side (LIARS_ROLES r) = liarsRoleSide r"
  by (simp add: liarsRoleSide_def)

section \<open>Plurality\<close>

definition strict_leader :: "'a list \<Rightarrow> 'a \<Rightarrow> bool" where
  "strict_leader ks x \<longleftrightarrow>
     x \<in> set ks \<and> (\<forall>y\<in>set ks. y \<noteq> x \<longrightarrow> count_list ks y < count_list ks x)"

definition scan_ok :: "(js_string \<times> nat) list \<Rightarrow> js_string option \<times> nat \<times> bool \<Rightarrow> bool" where
  "scan_ok m st \<longleftrightarrow>
     (case st of (l, b, t) \<Rightarrow>
        (if m = [] then l = None \<and> b = 0 \<and> \<not> t
         else \<exists>k. l = Some k \<and> (k, b) \<in> set m \<and> (\<forall>e\<in>set m. snd e \<le> b) \<and>
                  (t \<longleftrightarrow> (\<exists>e\<in>set m. fst e \<noteq> k \<and> snd e = b))))"

lemma scan_ok_step:
  assumes "scan_ok m st" and "0 < n" and "k \<notin> fst ` set m"
  shows "scan_ok (m @ [(k, n)]) (plurality_step st (k, n))"
proof -
  obtain l b t where st: "st = (l, b, t)" by (cases st)
  show ?thesis
  proof (cases "m = []")
    case True
    with assms st show ?thesis by (simp add: scan_ok_def plurality_step_def)
  next
    case False
    with assms(1) st obtain k' where l: "l = Some k'" and b: "(k', b) \<in> set m"
      and le: "\<forall>e\<in>set m. snd e \<le> b" and t: "t \<longleftrightarrow> (\<exists>e\<in>set m. fst e \<noteq> k' \<and> snd e = b)"
      by (auto simp: scan_ok_def)
    have k': "k' \<noteq> k" using assms(3) b by force
    consider "b < n" | "n = b" | "n < b" by linarith
    then show ?thesis
    proof cases
      case 1
      then have "scan_ok (m @ [(k, n)]) (Some k, n, False)"
        using le assms(3) by (fastforce simp: scan_ok_def)
      with 1 st show ?thesis by (simp add: plurality_step_def)
    next
      case 2
      then have "scan_ok (m @ [(k, n)]) (Some k', b, True)"
        using le b k' by (auto simp: scan_ok_def)
      with 2 st l show ?thesis by (simp add: plurality_step_def)
    next
      case 3
      then have "scan_ok (m @ [(k, n)]) (Some k', b, t)"
        using le b t k' by (auto simp: scan_ok_def)
      with 3 st l show ?thesis by (simp add: plurality_step_def)
    qed
  qed
qed

lemma scan_ok_foldl:
  "distinct (map fst m) \<Longrightarrow> \<forall>e\<in>set m. 0 < snd e \<Longrightarrow> scan_ok m (foldl plurality_step (None, 0, False) m)"
proof (induction m rule: rev_induct)
  case Nil
  then show ?case by (simp add: scan_ok_def)
next
  case (snoc e m)
  then show ?case by (cases e) (auto intro!: scan_ok_step)
qed

lemma tally_positive: "e \<in> set (tally ks) \<Longrightarrow> 0 < snd e"
  by (cases e) (auto simp: in_tally_iff count_list_0_iff simp flip: neq0_conv)

lemma scan_tally: "scan_ok (tally ks) (foldl plurality_step (None, 0, False) (tally ks))"
  by (rule scan_ok_foldl) (auto simp: distinct_tally dest: tally_positive)

lemma tally_empty_iff: "tally ks = [] \<longleftrightarrow> ks = []"
  using fst_set_tally [of ks] by auto

lemma scan_leader_strict:
  assumes "scan_ok (tally ks) (l, b, t)"
  shows "(\<not> t \<and> l = Some x) \<longleftrightarrow> strict_leader ks x"
proof (cases "ks = []")
  case True
  with assms show ?thesis by (simp add: scan_ok_def strict_leader_def)
next
  case False
  with assms obtain k where l: "l = Some k" and k: "(k, b) \<in> set (tally ks)"
    and le: "\<forall>e\<in>set (tally ks). snd e \<le> b"
    and t: "t \<longleftrightarrow> (\<exists>e\<in>set (tally ks). fst e \<noteq> k \<and> snd e = b)"
    by (auto simp: scan_ok_def tally_empty_iff)
  have kk: "k \<in> set ks" "b = count_list ks k" using k by (auto simp: in_tally_iff)
  have le': "\<And>y. y \<in> set ks \<Longrightarrow> count_list ks y \<le> b"
    using le by (metis in_tally_iff snd_conv)
  have t': "t \<longleftrightarrow> (\<exists>y\<in>set ks. y \<noteq> k \<and> count_list ks y = b)"
    unfolding t by (auto simp: in_tally_iff Bex_def)
  show ?thesis
  proof
    assume "\<not> t \<and> l = Some x"
    with l kk le' t' show "strict_leader ks x"
      unfolding strict_leader_def by (metis le_neq_implies_less option.inject)
  next
    assume s: "strict_leader ks x"
    have "x = k"
      using s kk le' unfolding strict_leader_def by (metis leD)
    with s l kk t' show "\<not> t \<and> l = Some x"
      unfolding strict_leader_def by (metis less_irrefl)
  qed
qed

lemma liarsPlurality_strict:
  "liarsPlurality votes = Some x \<longleftrightarrow> strict_leader (cast_ballots votes) x"
proof -
  obtain l b t where f: "foldl plurality_step (None, 0, False) (tally (cast_ballots votes)) = (l, b, t)"
    by (rule prod_cases3)
  have "scan_ok (tally (cast_ballots votes)) (l, b, t)"
    using scan_tally [of "cast_ballots votes"] f by simp
  from scan_leader_strict [OF this, of x] f show ?thesis
    by (auto simp: liarsPlurality_def)
qed

lemma cast_ballots_set: "set (cast_ballots votes) = {t. Some t \<in> set votes \<and> t \<noteq> []}"
  by (force simp: cast_ballots_def truthy_def split: option.splits)

lemma cast_ballots_count: "t \<noteq> [] \<Longrightarrow> count_list (cast_ballots votes) t = count_list votes (Some t)"
  by (induction votes) (auto simp: cast_ballots_def truthy_def split: option.splits)

lemma liarsPlurality_member: "liarsPlurality votes = Some x \<Longrightarrow> Some x \<in> set votes \<and> x \<noteq> []"
  using liarsPlurality_strict [of votes x] cast_ballots_set [of votes]
  by (auto simp: strict_leader_def)

section \<open>Dealing\<close>

lemma assign_roles_outside: "p \<notin> set ps \<Longrightarrow> assign_roles ps pool m p = m p"
  by (induction ps pool m rule: assign_roles.induct) auto

lemma assign_roles_map:
  "distinct ps \<Longrightarrow> length ps \<le> length pool \<Longrightarrow>
   map (assign_roles ps pool m) ps = map Some (take (length ps) pool)"
proof (induction ps pool m rule: assign_roles.induct)
  case (3 p ps r pool m)
  then show ?case by (simp add: assign_roles_outside fun_upd_def)
qed simp_all

definition exchange :: "'a \<Rightarrow> 'a \<Rightarrow> 'a \<Rightarrow> 'a" where
  "exchange p q x = (if x = p then q else if x = q then p else x)"

lemma exchange_mset:
  assumes "distinct xs" and "p \<in> set xs" and "q \<in> set xs"
  shows "image_mset (exchange p q) (mset xs) = mset xs"
proof -
  have m: "mset xs = mset_set (set xs)" using assms(1) by (simp add: mset_set_set)
  have i: "inj_on (exchange p q) (set xs)" by (auto simp: inj_on_def exchange_def)
  have s: "exchange p q ` set xs = set xs"
    using assms by (force simp: exchange_def image_iff)
  show ?thesis unfolding m by (simp add: image_mset_mset_set i s)
qed

lemma swapped_deal_mset:
  assumes "distinct ids" and "p \<in> set ids" and "q \<in> set ids"
  shows "mset (map (d(p := d q, q := d p)) ids) = mset (map d ids)"
proof -
  have "d(p := d q, q := d p) = d \<circ> exchange p q"
    by (auto simp: fun_eq_iff exchange_def)
  then have "mset (map (d(p := d q, q := d p)) ids) = image_mset d (image_mset (exchange p q) (mset ids))"
    by (simp add: multiset.map_comp)
  also have "\<dots> = mset (map d ids)" using assms by (simp add: exchange_mset)
  finally show ?thesis .
qed

lemma swap_partnerD:
  "swap_partner ids previous d p = Some q \<Longrightarrow>
   q \<in> set ids \<and> q \<noteq> p \<and> d q \<noteq> d p \<and> d q \<noteq> previous p \<and> d p \<noteq> previous q"
  by (auto simp: swap_partner_def dest: find_SomeD)

lemma repair_mset:
  assumes "distinct ids"
  shows "set ps \<subseteq> set ids \<Longrightarrow>
    mset (map (repair_repeats ids ps previous d) ids) = mset (map d ids)"
proof (induction ps arbitrary: d)
  case (Cons p ps)
  show ?case
  proof (cases "d p = previous p \<and> truthy (swap_partner ids previous d p)")
    case True
    then obtain q where q: "swap_partner ids previous d p = Some q" "q \<noteq> []"
      by (auto elim: truthyE)
    let ?d = "d(p := d q, q := d p)"
    have "mset (map (repair_repeats ids ps previous ?d) ids) = mset (map ?d ids)"
      using Cons by simp
    also have "\<dots> = mset (map d ids)"
      using assms Cons.prems swap_partnerD [OF q(1)] by (intro swapped_deal_mset) auto
    finally show ?thesis using True q by simp
  next
    case False
    with Cons show ?thesis by auto
  qed
qed simp

text \<open>The players who drew the role they had in the previous game.\<close>

definition repeats :: "js_string list \<Rightarrow> (js_string \<Rightarrow> 'b) \<Rightarrow> (js_string \<Rightarrow> 'b) \<Rightarrow> js_string set" where
  "repeats ids previous d = {p \<in> set ids. d p = previous p}"

lemma repair_repeats_subset:
  "repeats ids previous (repair_repeats ids ps previous d) \<subseteq> repeats ids previous d"
proof (induction ps arbitrary: d)
  case (Cons p ps)
  show ?case
  proof (cases "d p = previous p \<and> truthy (swap_partner ids previous d p)")
    case True
    then obtain q where q: "swap_partner ids previous d p = Some q" "q \<noteq> []"
      by (auto elim: truthyE)
    let ?d = "d(p := d q, q := d p)"
    have "repeats ids previous ?d \<subseteq> repeats ids previous d"
      using swap_partnerD [OF q(1)] by (auto simp: repeats_def split: if_splits)
    moreover have "repair_repeats ids (p # ps) previous d = repair_repeats ids ps previous ?d"
      using True q by simp
    ultimately show ?thesis using Cons.IH [of ?d] by (simp only:)
  next
    case False
    with Cons.IH [of d] show ?thesis by auto
  qed
qed simp

lemma liarsDealRoles_mset:
  assumes "distinct ids" and "length ids = length (role_pool lineup)"
  shows "mset (map (fst (liarsDealRoles lineup ids previous w)) ids) =
           image_mset Some (mset (role_pool lineup))"
proof -
  obtain pool w' where s: "shuffle pick (role_pool lineup) w = (pool, w')" by fastforce
  have pm: "mset pool = mset (role_pool lineup)"
    using picker.shuffle_mset [of "role_pool lineup" w] s by simp
  then have len: "length pool = length ids" using assms(2) by (metis size_mset)
  let ?d = "assign_roles ids pool (\<lambda>_. None)"
  have base: "mset (map ?d ids) = image_mset Some (mset pool)"
    using assign_roles_map [of ids pool "\<lambda>_. None"] assms(1) len by (simp flip: mset_map)
  show ?thesis
  proof (cases previous)
    case None
    with base pm s show ?thesis by (simp add: liarsDealRoles_def)
  next
    case (Some prev)
    have "mset (map (repair_repeats ids ids prev ?d) ids) = mset (map ?d ids)"
      using assms(1) by (intro repair_mset) auto
    with Some base pm s show ?thesis by (simp add: liarsDealRoles_def)
  qed
qed

section \<open>Counting a lineup\<close>

lemma role_pool_Cons:
  "role_pool ((r, n) # l) = (if 0 < n then replicate (nat n) r else []) @ role_pool l"
  by (simp add: role_pool_def liarsLineupEntries_def)

lemma role_pool_Nil [simp]: "role_pool [] = []"
  by (simp add: role_pool_def liarsLineupEntries_def)

lemma length_role_pool: "int (length (role_pool lineup)) = liarsLineupTotal lineup"
proof (induction lineup)
  case (Cons e l)
  then show ?case
    by (cases e) (simp add: role_pool_Cons liarsLineupTotal_def liarsLineupEntries_def)
qed (simp add: liarsLineupTotal_def liarsLineupEntries_def)

lemma filter_replicate: "filter P (replicate k x) = (if P x then replicate k x else [])"
  by (induction k) auto

lemma length_role_pool_side:
  "int (length (filter (\<lambda>r. liarsRoleSide r = s) (role_pool lineup))) = liarsSideCounts lineup s"
proof (induction lineup)
  case (Cons e l)
  obtain r n where e: "e = (r, n)" by (cases e)
  have "liarsSideCounts (e # l) s =
      (if 0 < n \<and> liarsRoleSide r = s then n else 0) + liarsSideCounts l s"
    by (simp add: e liarsSideCounts_def liarsLineupEntries_def)
  with Cons show ?case by (simp add: e role_pool_Cons filter_replicate)
qed (simp add: liarsSideCounts_def liarsLineupEntries_def)

lemma sideCounts_nonneg: "0 \<le> liarsSideCounts lineup s"
  by (simp flip: length_role_pool_side)

lemma sideCounts_total:
  "liarsSideCounts lineup Town + liarsSideCounts lineup MafiaSide + liarsSideCounts lineup Third =
   liarsLineupTotal lineup"
proof -
  have "length rs = length (filter (\<lambda>r. liarsRoleSide r = Town) rs) +
      length (filter (\<lambda>r. liarsRoleSide r = MafiaSide) rs) +
      length (filter (\<lambda>r. liarsRoleSide r = Third) rs)" for rs
  proof (induction rs)
    case (Cons r rs)
    then show ?case by (cases "liarsRoleSide r") auto
  qed simp
  from this [of "role_pool lineup"] show ?thesis
    by (simp flip: length_role_pool length_role_pool_side)
qed

section \<open>Properties of the deal\<close>

text \<open>C37. The deal gives every player exactly one role and uses the
  lineup exactly: whatever the random source draws, and whether or not the repair pass runs,
  the roles dealt are a permutation of the lineup's pool.\<close>

theorem liarsDealRoles_permutation:
  assumes "distinct ids" and "int (length ids) = liarsLineupTotal lineup"
  shows "mset (map (fst (liarsDealRoles lineup ids previous w)) ids) =
           image_mset Some (mset (role_pool lineup))"
  using assms length_role_pool [of lineup] by (intro liarsDealRoles_mset) auto

lemma liarsDealRoles_permutation_witness:
  "mset (map (fst (liarsDealRoles [(Imposter, 1), (Crew, 2)] [''a'', ''b'', ''c''] None test_services))
     [''a'', ''b'', ''c'']) = image_mset Some (mset (role_pool [(Imposter, 1), (Crew, 2)]))"
  by (rule liarsDealRoles_permutation) (simp_all add: liarsLineupTotal_def liarsLineupEntries_def)

text \<open>The repair pass of a rematch never makes matters worse: everyone
  who ends with the role of the previous game had already drawn it in the shuffle.\<close>

theorem liarsDealRoles_repeats:
  "repeats ids previous (fst (liarsDealRoles lineup ids (Some previous) w)) \<subseteq>
   repeats ids previous (fst (liarsDealRoles lineup ids None w))"
  using repair_repeats_subset
  by (simp add: liarsDealRoles_def split_beta)

section \<open>Every proposed lineup is valid\<close>

lemma int_range_cases:
  fixes n :: int
  shows "5 \<le> n \<Longrightarrow> n \<le> 16 \<Longrightarrow> n \<in> {5, 6, 7, 8, 9, 10, 11, 12, 13, 14, 15, 16}"
  unfolding insert_iff empty_iff by presburger

lemmas lineup_eval = liarsValidateLineup_def liarsDefaultLineup_def liarsFirstGameLineup_def
  MAFIA_LINEUPS_def liarsLineupEntries_def liarsLineupTotal_def liarsSideCounts_def lineupOf_def
  liarsImposterRange_def LIARS_MIN_PLAYERS_def LIARS_MAX_PLAYERS_def LIARS_SPECIAL_SOFT_CAP_def
  LIARS_SPECIAL_HARD_CAP_def LIARS_MIN_VILLAGERS_def role_def_def

lemma default_mafia_valid:
  "5 \<le> n \<Longrightarrow> n \<le> 16 \<Longrightarrow> liarsValidateLineup ModeMafia (liarsDefaultLineup ModeMafia n k) n = Inr []"
  by (drule (1) int_range_cases) (elim insertE emptyE; simp add: lineup_eval)

lemma first_mafia_valid:
  "5 \<le> n \<Longrightarrow> n \<le> 16 \<Longrightarrow> liarsValidateLineup ModeMafia (liarsFirstGameLineup ModeMafia n) n = Inr []"
  by (drule (1) int_range_cases) (elim insertE emptyE; simp add: lineup_eval)

lemma int_range_cases4:
  fixes n :: int
  shows "4 \<le> n \<Longrightarrow> n \<le> 16 \<Longrightarrow> n = 4 \<or> (5 \<le> n \<and> n \<le> 16)"
  by presburger

lemma first_imposter_valid:
  "4 \<le> n \<Longrightarrow> n \<le> 16 \<Longrightarrow> liarsValidateLineup ModeImposter (liarsFirstGameLineup ModeImposter n) n = Inr []"
  by (drule (1) int_range_cases4) (auto simp: lineup_eval dest!: int_range_cases)

definition clamped_imposters :: "int \<Rightarrow> int option \<Rightarrow> int" where
  "clamped_imposters n k = min (snd (liarsImposterRange n)) (max 1 (nullish k
     (if 16 \<le> n then 3 else if 10 \<le> n then 2 else 1)))"

lemma clamped_imposters_range: "1 \<le> clamped_imposters n k \<and> clamped_imposters n k \<le> snd (liarsImposterRange n)"
  by (simp add: clamped_imposters_def liarsImposterRange_def)

lemma default_imposter_eq:
  "liarsDefaultLineup ModeImposter n k =
     (let i = clamped_imposters n k; u = (if 7 \<le> n then 1 else 0); m = (if 12 \<le> n then 1 else 0)
      in lineupOf [(Imposter, i), (Mole, m), (Understudy, u), (Crew, n - i - u - m)])"
  by (simp add: liarsDefaultLineup_def clamped_imposters_def liarsImposterRange_def Let_def)

lemma default_imposter_valid:
  assumes "4 \<le> n" and "n \<le> 16"
  shows "liarsValidateLineup ModeImposter (liarsDefaultLineup ModeImposter n k) n = Inr []"
proof -
  define i where "i = clamped_imposters n k"
  have i: "1 \<le> i" "i \<le> (if 13 \<le> n then 3 else if 8 \<le> n then 2 else 1)"
    using clamped_imposters_range [of n k] by (simp_all add: i_def liarsImposterRange_def)
  have "liarsValidateLineup ModeImposter (let u = (if 7 \<le> n then 1 else 0); m = (if 12 \<le> n then 1 else 0)
      in lineupOf [(Imposter, i), (Mole, m), (Understudy, u), (Crew, n - i - u - m)]) n = Inr []"
    using assms i
    by (cases "7 \<le> n"; cases "12 \<le> n"; cases "13 \<le> n"; cases "8 \<le> n")
      (simp_all add: lineup_eval Let_def)
  then show ?thesis by (simp add: default_imposter_eq i_def Let_def)
qed

lemma valid_proposals:
  assumes "LIARS_MIN_PLAYERS m \<le> n" and "n \<le> LIARS_MAX_PLAYERS m"
  shows "liarsValidateLineup m (liarsDefaultLineup m n k) n = Inr []"
    and "liarsValidateLineup m (liarsFirstGameLineup m n) n = Inr []"
  using assms default_mafia_valid default_imposter_valid first_mafia_valid first_imposter_valid
  by (cases m; simp add: LIARS_MIN_PLAYERS_def LIARS_MAX_PLAYERS_def)+

text \<open>Every lineup the code proposes on its own (the default for a table,
  with any requested number of imposters, and the first-game lineup) passes its own validator with
  no warning, at every table size the mode allows: a host who changes nothing can always start.\<close>

theorem proposed_lineups_valid:
  assumes "LIARS_MIN_PLAYERS m \<le> n" and "n \<le> LIARS_MAX_PLAYERS m"
  shows "liarsValidateLineup m (liarsDefaultLineup m n k) n = Inr [] \<and>
         liarsValidateLineup m (liarsFirstGameLineup m n) n = Inr []"
  using valid_proposals [OF assms] by simp

lemma proposed_lineups_valid_witness:
  "liarsValidateLineup ModeMafia (liarsDefaultLineup ModeMafia 7 None) 7 = Inr [] \<and>
   liarsValidateLineup ModeImposter (liarsFirstGameLineup ModeImposter 4) 4 = Inr []"
  using proposed_lineups_valid [of ModeMafia 7] proposed_lineups_valid [of ModeImposter 4]
  by (simp add: LIARS_MIN_PLAYERS_def LIARS_MAX_PLAYERS_def)

section \<open>What a valid lineup guarantees\<close>

lemma check_copies_None:
  "check_copies m es = None \<longleftrightarrow> (\<forall>(r, n)\<in>set es. rd_mode (LIARS_ROLES r) = m \<and> n \<le> rd_maxCopies (LIARS_ROLES r))"
  by (induction m es rule: check_copies.induct) (auto simp: Let_def not_less)

lemma check_min_players_None:
  "check_min_players k es = None \<longleftrightarrow> (\<forall>(r, n)\<in>set es. rd_minPlayers (LIARS_ROLES r) \<le> k)"
  by (induction k es rule: check_min_players.induct) (auto simp: Let_def not_less)

lemma validate_Inr:
  assumes "liarsValidateLineup m lineup n = Inr ws"
  shows "liarsLineupTotal lineup = n" and "0 < liarsSideCounts lineup MafiaSide"
    and "liarsSideCounts lineup MafiaSide < liarsSideCounts lineup Town"
    and "m = ModeMafia \<Longrightarrow> 2 \<le> nullish (map_of lineup Villager) 0"
    and "check_copies m (liarsLineupEntries lineup) = None"
    and "check_min_players n (liarsLineupEntries lineup) = None"
  using assms sideCounts_nonneg [of lineup MafiaSide]
  by (auto simp: liarsValidateLineup_def Let_def LIARS_MIN_VILLAGERS_def split: option.splits if_splits)

text \<open>The table a deal produces, as win detection reads it.\<close>

definition dealt_table :: "js_string list \<Rightarrow> (js_string \<Rightarrow> liars_role option) \<Rightarrow> (js_string \<times> liars_role) list" where
  "dealt_table ids d = map (\<lambda>p. (p, nullish (d p) Villager)) ids"

lemma dealt_side_count:
  assumes "mset (map d ids) = image_mset Some (mset pool)"
  shows "length (filter (\<lambda>(_, r). P r) (dealt_table ids d)) = length (filter P pool)"
proof -
  have "image_mset (\<lambda>r. nullish r Villager) (mset (map d ids)) = mset pool"
    unfolding assms by (simp add: multiset.map_comp o_def)
  then have "mset (map (\<lambda>p. nullish (d p) Villager) ids) = mset pool"
    by (simp add: multiset.map_comp o_def)
  then have "size (filter_mset P (mset (map (\<lambda>p. nullish (d p) Villager) ids))) = size (filter_mset P (mset pool))"
    by simp
  then have "length (filter P (map (\<lambda>p. nullish (d p) Villager) ids)) = length (filter P pool)"
    by (simp only: mset_filter [symmetric] size_mset)
  moreover have "length (filter (\<lambda>(_, r). P r) (dealt_table ids d)) =
      length (filter P (map (\<lambda>p. nullish (d p) Villager) ids))"
    by (induction ids) (auto simp: dealt_table_def)
  ultimately show ?thesis by simp
qed

lemma valid_lineup_core:
  assumes "liarsValidateLineup m lineup (int (length ids)) = Inr ws"
    and "distinct ids" and "m = ModeImposter \<Longrightarrow> 3 < length ids"
    and "wi_mode i = m" and "wi_alive i = dealt_table ids (fst (liarsDealRoles lineup ids previous w))"
    and "wi_ejectedJesterId i = None" and "nullish (wi_crewEjections i) 0 = 0"
    and "wi_finalGuessCorrect i = Some None"
  shows "liarsDetectWinner i = None"
proof -
  note v = validate_Inr [OF assms(1)]
  have d: "mset (map (fst (liarsDealRoles lineup ids previous w)) ids) = image_mset Some (mset (role_pool lineup))"
    using assms(2) v(1) length_role_pool [of lineup] by (intro liarsDealRoles_mset) auto
  have cnt: "int (length (filter (\<lambda>(_, r). liarsRoleSide r = s) (wi_alive i))) = liarsSideCounts lineup s" for s
    unfolding assms(5) dealt_side_count [OF d, of "\<lambda>r. liarsRoleSide r = s"] length_role_pool_side ..
  have len: "length (wi_alive i) = length ids" by (simp add: assms(5) dealt_table_def)
  have "0 < length (filter (\<lambda>(_, r). liarsRoleSide r = MafiaSide) (wi_alive i))"
    and "length (filter (\<lambda>(_, r). liarsRoleSide r = MafiaSide) (wi_alive i)) <
         length (filter (\<lambda>(_, r). liarsRoleSide r = Town) (wi_alive i))"
    using cnt [of MafiaSide] cnt [of Town] v(2,3) by linarith+
  then show ?thesis
    using assms(3,4,6,7,8) len by (cases m) (simp_all add: liarsDetectWinner_def Let_def)
qed

section \<open>Win detection\<close>

definition mafia_alive :: "liars_win_input \<Rightarrow> nat" where
  "mafia_alive i = length (filter (\<lambda>(_, r). liarsRoleSide r = MafiaSide) (wi_alive i))"

definition town_alive :: "liars_win_input \<Rightarrow> nat" where
  "town_alive i = length (filter (\<lambda>(_, r). liarsRoleSide r = Town) (wi_alive i))"

text \<open>The mafia game ends exactly by the written objectives: the jester
  alone when ejected (and the toggle is on), otherwise the town once no mafia-side player lives,
  otherwise the mafia at parity with the town, and in no other position.\<close>

theorem liarsDetectWinner_mafia:
  "liarsDetectWinner (i\<lparr>wi_mode := ModeMafia\<rparr>) =
     (if truthy (wi_ejectedJesterId i) \<and> wi_jesterEndsGame i then Some Third
      else if mafia_alive i = 0 then Some Town
      else if town_alive i \<le> mafia_alive i then Some MafiaSide else None)"
  by (simp add: liarsDetectWinner_def mafia_alive_def town_alive_def Let_def)

section \<open>The wrong-vote budget\<close>

text \<open>The number on the lobby board is the best possible: with one wrong
  ejection and one night death a round, the mafia stay below parity after \<^verbatim>\<open>k\<close> rounds exactly when
  \<^verbatim>\<open>k\<close> is within the budget.\<close>

theorem wrongVoteBudget_optimal:
  assumes "0 < liarsSideCounts lineup MafiaSide"
    and "liarsSideCounts lineup MafiaSide < liarsSideCounts lineup Town" and "0 \<le> k"
  shows "liarsSideCounts lineup MafiaSide < liarsSideCounts lineup Town - 2 * k \<longleftrightarrow>
         k \<le> liarsWrongVoteBudget lineup"
  using assms by (simp add: liarsWrongVoteBudget_def Let_def) presburger

lemma wrongVoteBudget_optimal_witness:
  "liarsSideCounts (liarsDefaultLineup ModeMafia 9 None) MafiaSide <
     liarsSideCounts (liarsDefaultLineup ModeMafia 9 None) Town - 2 * 1 \<longleftrightarrow>
   1 \<le> liarsWrongVoteBudget (liarsDefaultLineup ModeMafia 9 None)"
  by (rule wrongVoteBudget_optimal) (simp_all add: lineup_eval)

section \<open>Targeting\<close>

text \<open>Whoever a role may choose is alive; nobody but the doctor may choose
  themselves; the doctor may not repeat last night's choice unless the toggle allows it; in the
  mafia game no mafia-side player may choose another (killing or jamming); and every other living
  player is available.\<close>

theorem liarsTargetableIds_rules:
  assumes "truthy (rd_actionLabel (LIARS_ROLES r))"
  shows "t \<in> set (liarsTargetableIds m r actor living prev rep) \<longleftrightarrow>
     (\<exists>other. (t, other) \<in> set living \<and>
        \<not> (r = Doctor \<and> \<not> rep \<and> prev = Some t) \<and> (t = actor \<longrightarrow> r = Doctor) \<and>
        \<not> (t \<noteq> actor \<and> m = ModeMafia \<and> liarsRoleSide r = MafiaSide \<and> liarsRoleSide other = MafiaSide))"
  using assms by (force simp: liarsTargetableIds_def Let_def split: if_splits)

lemma liarsTargetableIds_rules_witness:
  "''b'' \<in> set (liarsTargetableIds ModeMafia Mafia ''a'' [(''a'', Mafia), (''b'', Doctor)] None False) \<longleftrightarrow>
     (\<exists>other. (''b'', other) \<in> set [(''a'', Mafia), (''b'', Doctor)] \<and>
        \<not> (Mafia = Doctor \<and> \<not> False \<and> None = Some ''b'') \<and> (''b'' = ''a'' \<longrightarrow> Mafia = Doctor) \<and>
        \<not> (''b'' \<noteq> ''a'' \<and> ModeMafia = ModeMafia \<and> liarsRoleSide Mafia = MafiaSide \<and> liarsRoleSide other = MafiaSide))"
  by (rule liarsTargetableIds_rules) (simp add: role_def_def)

section \<open>Plurality\<close>

text \<open>The vote ejects a player exactly when that player has strictly
  more non-empty ballots than every other; abstentions do not count and a tie at the top, or no
  ballot at all, ejects nobody.\<close>

theorem liarsPlurality_strict_leader:
  "liarsPlurality votes = Some x \<longleftrightarrow>
     x \<noteq> [] \<and> Some x \<in> set votes \<and>
     (\<forall>y. y \<noteq> x \<and> y \<noteq> [] \<longrightarrow> count_list votes (Some y) < count_list votes (Some x))"
proof -
  let ?ks = "cast_ballots votes"
  have mem: "y \<in> set ?ks \<longleftrightarrow> Some y \<in> set votes \<and> y \<noteq> []" for y
    by (simp add: cast_ballots_set)
  have le: "(\<forall>y\<in>set ?ks. y \<noteq> x \<longrightarrow> count_list ?ks y < count_list ?ks x) \<longleftrightarrow>
      (\<forall>y. y \<noteq> x \<and> y \<noteq> [] \<longrightarrow> count_list votes (Some y) < count_list votes (Some x))"
    if x: "x \<noteq> []" "Some x \<in> set votes"
  proof -
    have pos: "0 < count_list votes (Some x)"
      using x(2) by (simp add: count_list_0_iff flip: neq0_conv)
    have "count_list votes (Some y) < count_list votes (Some x)" if "y \<notin> set ?ks" "y \<noteq> []" for y
      using that pos by (simp add: mem count_list_0_iff)
    then show ?thesis using x mem by (auto simp: cast_ballots_count)
  qed
  then show ?thesis
    using mem by (auto simp: liarsPlurality_strict strict_leader_def)
qed

lemma liarsPlurality_strict_leader_witness:
  "liarsPlurality [Some ''b'', None, Some ''a'', Some ''b''] = Some ''b''"
  unfolding liarsPlurality_strict_leader by auto

end
