(* ===== verification/LiarsContent.thy ===== *)
theory LiarsContent
  imports Multiplayer
begin

text \<open>
  The content of Liars: the imposter word bank and its board (\<^verbatim>\<open>liars-words.ts\<close>), and the
  narration templates the engine draws from (\<^verbatim>\<open>liars-content.server.ts\<close>).
\<close>

section \<open>The word bank\<close>

text \<open>One definition per category of the bank: the pairs of a word and its decoy.\<close>

definition words_somewhere_outdoors :: "(js_string \<times> js_string) list" where
  "words_somewhere_outdoors =
     [(''beach'', ''desert''),
      (''volcano'', ''mountain''),
      (''desert island'', ''shipwreck''),
      (''waterfall'', ''fountain''),
      (''island'', ''peninsula''),
      (''quicksand'', ''swamp''),
      (''canyon'', ''fjord''),
      (''glacier'', ''iceberg''),
      (''bog'', ''marsh''),
      (''rock pool'', ''puddle''),
      (''shingle beach'', ''gravel drive''),
      (''orchard'', ''hop field''),
      (''allotment'', ''back garden''),
      (''pier'', ''jetty''),
      (''harbour'', ''marina''),
      (''quarry'', ''mine'')]"

definition words_a_room_in_a_building :: "(js_string \<times> js_string) list" where
  "words_a_room_in_a_building =
     [(''kitchen'', ''workshop''),
      (''attic'', ''basement''),
      (''cellar'', ''pantry''),
      (''hotel lobby'', ''waiting room''),
      (''ticket hall'', ''departure lounge''),
      (''green room'', ''dressing room''),
      (''crypt'', ''wine cellar''),
      (''tea room'', ''canteen''),
      (''rooftop'', ''balcony''),
      (''control room'', ''cockpit''),
      (''morgue'', ''operating theatre''),
      (''laboratory'', ''darkroom''),
      (''nursery'', ''playground''),
      (''stable'', ''kennel''),
      (''treehouse'', ''shed''),
      (''igloo'', ''log cabin''),
      (''allotment shed'', ''beach hut'')]"

definition words_somewhere_in_town :: "(js_string \<times> js_string) list" where
  "words_somewhere_in_town =
     [(''petrol station'', ''car wash''),
      (''bakery'', ''butcher''),
      (''supermarket'', ''market stall''),
      (''post office'', ''bank''),
      (''bookshop'', ''record shop''),
      (''pharmacy'', ''corner shop''),
      (''newsagent'', ''off-licence''),
      (''barbershop'', ''nail salon''),
      (''launderette'', ''internet cafe''),
      (''bus stop'', ''taxi rank''),
      (''lost property'', ''pawn shop''),
      (''call centre'', ''newsroom''),
      (''polling station'', ''job centre''),
      (''town hall'', ''village green''),
      (''market day'', ''car boot sale'')]"

definition words_somewhere_you_d_visit :: "(js_string \<times> js_string) list" where
  "words_somewhere_you_d_visit =
     [(''library'', ''museum''),
      (''hospital'', ''school''),
      (''cinema'', ''theatre''),
      (''prison'', ''boarding school''),
      (''circus'', ''carnival''),
      (''casino'', ''arcade''),
      (''farm'', ''zoo''),
      (''aquarium'', ''arboretum''),
      (''castle'', ''cathedral''),
      (''archive'', ''art gallery''),
      (''nightclub'', ''pub''),
      (''ski resort'', ''spa hotel''),
      (''courtroom'', ''parliament''),
      (''stadium'', ''amphitheatre''),
      (''monastery'', ''boarding house''),
      (''synagogue'', ''mosque''),
      (''planetarium'', ''science museum''),
      (''ice rink'', ''roller disco''),
      (''observatory'', ''control tower''),
      (''space station'', ''oil rig''),
      (''vineyard'', ''brewery''),
      (''graveyard'', ''battlefield''),
      (''war memorial'', ''bandstand''),
      (''bell tower'', ''clock tower''),
      (''swimming pool'', ''lake''),
      (''lighthouse'', ''windmill''),
      (''watermill'', ''water wheel''),
      (''labyrinth'', ''obstacle course''),
      (''hedge maze'', ''hall of mirrors''),
      (''shipyard'', ''scrapyard''),
      (''greenhouse'', ''conservatory''),
      (''sauna'', ''steam room''),
      (''airport'', ''train station'')]"

definition words_an_occasion :: "(js_string \<times> js_string) list" where
  "words_an_occasion =
     [(''wedding'', ''funeral''),
      (''birthday'', ''anniversary''),
      (''honeymoon'', ''road trip''),
      (''opera'', ''ballet''),
      (''wedding speech'', ''eulogy''),
      (''first date'', ''job interview''),
      (''school play'', ''talent show''),
      (''sports day'', ''field trip''),
      (''encore'', ''curtain call''),
      (''karaoke'', ''open mic''),
      (''silent disco'', ''speed dating''),
      (''sunday roast'', ''christmas dinner''),
      (''parole'', ''graduation''),
      (''rehearsal'', ''audition''),
      (''auction'', ''raffle''),
      (''boot sale'', ''jumble sale''),
      (''brass band'', ''marching band''),
      (''pilgrimage'', ''expedition''),
      (''safari'', ''hiking''),
      (''marathon'', ''triathlon'')]"

definition words_something_going_wrong :: "(js_string \<times> js_string) list" where
  "words_something_going_wrong =
     [(''earthquake'', ''thunderstorm''),
      (''hurricane'', ''blizzard''),
      (''avalanche'', ''landslide''),
      (''power cut'', ''water outage''),
      (''roadworks'', ''building site''),
      (''waiting list'', ''queue''),
      (''detention'', ''assembly''),
      (''stage fright'', ''writer's block''),
      (''curfew'', ''bedtime''),
      (''jury duty'', ''census''),
      (''confession'', ''interrogation''),
      (''layover'', ''detour''),
      (''night shift'', ''red eye flight''),
      (''last orders'', ''closing time''),
      (''verdict'', ''diagnosis'')]"

definition words_a_chore :: "(js_string \<times> js_string) list" where
  "words_a_chore =
     [(''laundry'', ''dishwashing''),
      (''haircut'', ''tattoo''),
      (''house move'', ''spring clean''),
      (''recycling'', ''composting''),
      (''harvest'', ''planting''),
      (''yoga class'', ''dance class''),
      (''roadside picnic'', ''tailgate''),
      (''hibernation'', ''migration''),
      (''eclipse'', ''aurora'')]"

definition words_something_in_the_house :: "(js_string \<times> js_string) list" where
  "words_something_in_the_house =
     [(''mirror'', ''window''),
      (''chandelier'', ''lampshade''),
      (''attic ladder'', ''fire escape''),
      (''junk drawer'', ''toolbox''),
      (''duvet'', ''mattress''),
      (''grandfather clock'', ''cuckoo clock''),
      (''quilt'', ''tapestry''),
      (''radiator'', ''kettle''),
      (''umbrella stand'', ''coat rack''),
      (''smoke alarm'', ''car alarm''),
      (''chimney'', ''drainpipe''),
      (''jigsaw'', ''dominoes''),
      (''record player'', ''music box''),
      (''typewriter'', ''sewing machine''),
      (''kaleidoscope'', ''prism''),
      (''lantern'', ''torch'')]"

definition words_something_you_take_with_you :: "(js_string \<times> js_string) list" where
  "words_something_you_take_with_you =
     [(''umbrella'', ''raincoat''),
      (''compass'', ''map''),
      (''postcard'', ''letter''),
      (''fishing rod'', ''butterfly net''),
      (''sleeping bag'', ''roll mat''),
      (''head torch'', ''candle''),
      (''thermos'', ''hip flask''),
      (''picnic blanket'', ''beach towel''),
      (''camping stove'', ''tin opener''),
      (''passport'', ''membership card''),
      (''parachute'', ''kite''),
      (''megaphone'', ''whistle''),
      (''mixtape'', ''playlist''),
      (''photograph'', ''painting''),
      (''carnival mask'', ''gas mask''),
      (''tent'', ''caravan'')]"

definition words_something_outside :: "(js_string \<times> js_string) list" where
  "words_something_outside =
     [(''campfire'', ''fireplace''),
      (''bonfire'', ''barbecue''),
      (''haystack'', ''compost heap''),
      (''scarecrow'', ''statue''),
      (''sandcastle'', ''snowman''),
      (''beehive'', ''anthill''),
      (''spiderweb'', ''fishing net''),
      (''molehill'', ''sand dune''),
      (''hammock'', ''deckchair''),
      (''trampoline'', ''diving board''),
      (''seesaw'', ''swing''),
      (''wheelbarrow'', ''trolley''),
      (''conveyor belt'', ''assembly line''),
      (''toll booth'', ''ticket barrier''),
      (''speed camera'', ''cctv''),
      (''stained glass'', ''mosaic'')]"

definition words_something_you_eat_or_drink :: "(js_string \<times> js_string) list" where
  "words_something_you_eat_or_drink =
     [(''porridge'', ''soup''),
      (''mulled wine'', ''punch''),
      (''ice lolly'', ''sorbet''),
      (''gravy'', ''custard sauce''),
      (''toastie'', ''panini''),
      (''wedding cake'', ''birthday cake''),
      (''coffee'', ''tea''),
      (''honey'', ''syrup''),
      (''custard'', ''bechamel''),
      (''sourdough'', ''pizza dough''),
      (''leftovers'', ''packed lunch'')]"

definition words_a_machine_or_a_vehicle :: "(js_string \<times> js_string) list" where
  "words_a_machine_or_a_vehicle =
     [(''revolving door'', ''turnstile''),
      (''vending machine'', ''cash machine''),
      (''yacht'', ''rowing boat''),
      (''zeppelin'', ''glider''),
      (''escalator'', ''travelator''),
      (''lifeboat'', ''raft''),
      (''elevator'', ''dumbwaiter''),
      (''arcade machine'', ''jukebox''),
      (''photo booth'', ''confessional''),
      (''revolving stage'', ''carousel''),
      (''dentist chair'', ''barber chair''),
      (''car boot'', ''glovebox''),
      (''flat pack'', ''jigsaw puzzle''),
      (''submarine'', ''spaceship''),
      (''helicopter'', ''hot air balloon''),
      (''bicycle'', ''motorbike''),
      (''ambulance'', ''fire engine''),
      (''ferry'', ''cruise ship''),
      (''cable car'', ''chairlift''),
      (''sleeper train'', ''night bus''),
      (''roundabout'', ''crossroads''),
      (''level crossing'', ''drawbridge''),
      (''hard shoulder'', ''lay-by'')]"

definition words_something_you_play_or_listen_to :: "(js_string \<times> js_string) list" where
  "words_something_you_play_or_listen_to =
     [(''guitar'', ''piano''),
      (''chess'', ''poker''),
      (''chessboard'', ''crossword''),
      (''violin'', ''cello''),
      (''puppet'', ''doll''),
      (''metronome'', ''pendulum''),
      (''lullaby'', ''anthem''),
      (''orchestra'', ''choir''),
      (''telescope'', ''microscope''),
      (''microscope slide'', ''photo negative''),
      (''petri dish'', ''ashtray''),
      (''black box'', ''time capsule'')]"

definition words_somebody_s_job :: "(js_string \<times> js_string) list" where
  "words_somebody_s_job =
     [(''pirate'', ''viking''),
      (''dentist'', ''barber''),
      (''detective'', ''journalist''),
      (''magician'', ''clown''),
      (''astronaut'', ''deep sea diver''),
      (''chef'', ''waiter''),
      (''tailor'', ''cobbler''),
      (''acrobat'', ''gymnast''),
      (''greengrocer'', ''fishmonger''),
      (''referee'', ''lifeguard''),
      (''blacksmith'', ''carpenter''),
      (''zoo keeper'', ''vet''),
      (''understudy'', ''stand-in''),
      (''conductor'', ''choreographer''),
      (''busker'', ''street artist''),
      (''lighthouse keeper'', ''night watchman''),
      (''pilgrim'', ''backpacker''),
      (''locksmith'', ''glazier''),
      (''auctioneer'', ''bookmaker''),
      (''midwife'', ''paramedic''),
      (''sommelier'', ''barista''),
      (''stonemason'', ''thatcher'')]"

definition words_an_animal :: "(js_string \<times> js_string) list" where
  "words_an_animal =
     [(''penguin'', ''seal''),
      (''puppy'', ''kitten''),
      (''seagull'', ''pigeon''),
      (''moth'', ''butterfly''),
      (''sheepdog'', ''guide dog''),
      (''otter'', ''beaver''),
      (''donkey'', ''mule''),
      (''crow'', ''magpie''),
      (''tortoise'', ''terrapin''),
      (''ferret'', ''stoat''),
      (''hedgehog'', ''mole''),
      (''swan'', ''goose'')]"

definition words_something_you_can_t_hold :: "(js_string \<times> js_string) list" where
  "words_something_you_can_t_hold =
     [(''alibi'', ''excuse''),
      (''fingerprint'', ''signature''),
      (''parking ticket'', ''library fine''),
      (''witness box'', ''pulpit''),
      (''x-ray'', ''photocopy''),
      (''pickling'', ''smoking''),
      (''birdwatching'', ''fishing''),
      (''map reading'', ''stargazing''),
      (''customs'', ''security check'')]"

definition words_weather :: "(js_string \<times> js_string) list" where
  "words_weather =
     [(''winter'', ''autumn''),
      (''snow'', ''sand''),
      (''sunrise'', ''sunset''),
      (''cactus'', ''pine tree''),
      (''thunder'', ''fireworks''),
      (''fog'', ''smoke''),
      (''midnight'', ''dawn''),
      (''whirlpool'', ''riptide''),
      (''low tide'', ''drought''),
      (''monsoon'', ''deluge'')]"

definition LIARS_WORD_GROUPS :: "(js_string \<times> (js_string \<times> js_string) list) list" where
  "LIARS_WORD_GROUPS =
     [(''somewhere outdoors'', words_somewhere_outdoors),
      (''a room in a building'', words_a_room_in_a_building),
      (''somewhere in town'', words_somewhere_in_town),
      (''somewhere you'd visit'', words_somewhere_you_d_visit),
      (''an occasion'', words_an_occasion),
      (''something going wrong'', words_something_going_wrong),
      (''a chore'', words_a_chore),
      (''something in the house'', words_something_in_the_house),
      (''something you take with you'', words_something_you_take_with_you),
      (''something outside'', words_something_outside),
      (''something you eat or drink'', words_something_you_eat_or_drink),
      (''a machine or a vehicle'', words_a_machine_or_a_vehicle),
      (''something you play or listen to'', words_something_you_play_or_listen_to),
      (''somebody's job'', words_somebody_s_job),
      (''an animal'', words_an_animal),
      (''something you can't hold'', words_something_you_can_t_hold),
      (''weather'', words_weather)]"

record liars_word_pair =
  wp_word :: js_string
  wp_decoy :: js_string
  wp_category :: js_string

definition LIARS_WORD_PAIRS :: "liars_word_pair list" where
  "LIARS_WORD_PAIRS = concat (map (\<lambda>(category, pairs).
     map (\<lambda>(w, d). \<lparr>wp_word = w, wp_decoy = d, wp_category = category\<rparr>) pairs) LIARS_WORD_GROUPS)"

definition LIARS_WORD_CATEGORIES :: "js_string list" where
  "LIARS_WORD_CATEGORIES = map fst LIARS_WORD_GROUPS"

definition LIARS_BOARD_SIZE :: nat where
  "LIARS_BOARD_SIZE = 12"

definition board_siblings :: "liars_word_pair \<Rightarrow> js_string option \<Rightarrow> js_string list" where
  "board_siblings pair decoy =
     map wp_word (filter (\<lambda>q. wp_category q = wp_category pair \<and> wp_word q \<noteq> wp_word pair \<and>
                              Some (wp_word q) \<noteq> decoy) LIARS_WORD_PAIRS)"

definition liarsBoard ::
  "liars_word_pair \<Rightarrow> js_string option \<Rightarrow> 'a services_scheme \<Rightarrow> js_string list \<times> 'a services_scheme" where
  "liarsBoard pair decoy w =
     (let (siblings, w1) = shuffle pick (board_siblings pair decoy) w;
          board = take LIARS_BOARD_SIZE
            (wp_word pair # (if truthy decoy then [the decoy] else []) @ siblings);
          (board', w2) = shuffle pick board w1
      in (sort_by (\<lambda>a b. locale_compare w a b \<le> 0) board', w2))"

text \<open>A pair not dealt recently, or any pair once all of them are recent.\<close>

definition liarsWordPair :: "js_string list \<Rightarrow> 'a services_scheme \<Rightarrow> liars_word_pair \<times> 'a services_scheme" where
  "liarsWordPair recentWords w =
     (let fresh = filter (\<lambda>q. wp_word q \<notin> set recentWords) LIARS_WORD_PAIRS;
          pool = (if fresh \<noteq> [] then fresh else LIARS_WORD_PAIRS);
          (i, w') = random_int w (length pool)
      in (pool ! i, w'))"

section \<open>Narration\<close>

datatype narration_outcome =
  NarrKilled | NarrSaved | NarrNobodyDied | NarrBodyguard | NarrEjectedGuilty | NarrEjectedInnocent
| NarrTie | NarrLeft

definition outcome_key :: "narration_outcome \<Rightarrow> js_string" where
  "outcome_key outcome = (case outcome of
     NarrKilled \<Rightarrow> ''killed'' | NarrSaved \<Rightarrow> ''saved'' | NarrNobodyDied \<Rightarrow> ''nobody-died''
   | NarrBodyguard \<Rightarrow> ''bodyguard'' | NarrEjectedGuilty \<Rightarrow> ''ejected-guilty''
   | NarrEjectedInnocent \<Rightarrow> ''ejected-innocent'' | NarrTie \<Rightarrow> ''tie'' | NarrLeft \<Rightarrow> ''left'')"

fun NARRATION :: "narration_outcome \<Rightarrow> js_string list" where
  "NARRATION NarrKilled =
     [''The milk was still on {victim}'s step.'',
      ''{victim} did not make it to morning.'',
      ''Someone came for {victim} and left the door open.'',
      ''The town woke up one short. It was {victim}.'',
      ''{victim} slept through it. All of it.'',
      ''There was frost on the windows and {victim} underneath it.'',
      ''Whoever took {victim} walked home the long way.'',
      ''{victim} had been saying they slept badly.'',
      ''Nobody heard {victim} go.'',
      ''They found {victim} before the kettle boiled.'',
      ''{victim}'s light was on all night. {victim} was not.'',
      ''It was quick, and it was {victim}.'',
      ''The dogs stayed quiet. {victim} did not wake up.'',
      ''{victim} is gone, and the street looks the same.'',
      ''Somebody knew exactly which door was {victim}'s.'',
      ''{victim} never locked it. Nobody here does.'']"
| "NARRATION NarrSaved =
     [''They came for {victim}. Somebody got there first.'',
      ''{victim} should not have seen this morning.'',
      ''There was blood on {victim}'s step and none of it mattered.'',
      ''{victim} woke up owing somebody a great deal.'',
      ''Someone was already sitting with {victim} when they arrived.'',
      ''{victim} was chosen. {victim} is still here.'',
      ''It nearly took {victim}. It very nearly did.'']"
| "NARRATION NarrNobodyDied =
     [''Nothing happened. That is its own kind of news.'',
      ''The whole town slept, which nobody quite believes.'',
      ''No door opened. Everyone is still here.'',
      ''A quiet night. Somebody chose to make it one.'',
      ''Morning came and took nobody with it.'',
      ''Not a sound. Draw from that what you like.'']"
| "NARRATION NarrBodyguard =
     [''They came for {victim}. {substitute} stepped in front.'',
      ''{substitute} had been at {victim}'s door all night.'',
      ''It should have been {victim}. {substitute} saw to that.'',
      ''{substitute} died where {victim} was meant to.'']"
| "NARRATION NarrEjectedGuilty =
     [''They took {ejected} to the square, and they were right.'',
      ''{ejected} talked the whole way. It did not help.'',
      ''Right about {ejected}. They will not always be.'',
      ''{ejected} ran out of story before they ran out of road.'',
      ''The town got one. The town got {ejected}.'']"
| "NARRATION NarrEjectedInnocent =
     [''They took {ejected}, who had never hurt anyone.'',
      ''{ejected} said they were innocent. {ejected} was.'',
      ''Everyone agreed about {ejected}. Everyone was wrong.'',
      ''{ejected} went quietly. That was the worst of it.'',
      ''One fewer of you, and none of them.'']"
| "NARRATION NarrTie =
     [''The town argued until dark and agreed on nothing.'',
      ''No majority. Everybody goes home.'',
      ''The vote split clean down the middle.'',
      ''Nobody could carry the square today.'']"
| "NARRATION NarrLeft =
     [''{victim} left town in the night.'']"

record narration_slots =
  slot_victim :: "js_string option"
  slot_ejected :: "js_string option"
  slot_substitute :: "js_string option"

definition no_slots :: narration_slots where
  "no_slots = \<lparr>slot_victim = None, slot_ejected = None, slot_substitute = None\<rparr>"

definition fill_template :: "narration_slots \<Rightarrow> js_string \<Rightarrow> js_string" where
  "fill_template slots template =
     replace_all (replace_all (replace_all template
       ''{victim}'' (nullish (slot_victim slots) ''someone''))
       ''{ejected}'' (nullish (slot_ejected slots) ''someone''))
       ''{substitute}'' (nullish (slot_substitute slots) ''someone'')"

text \<open>Each template with its id: the outcome and the index.\<close>

definition numbered_templates :: "narration_outcome \<Rightarrow> (js_string \<times> js_string) list" where
  "numbered_templates outcome =
     map (\<lambda>(i, t). (outcome_key outcome @ '':'' @ nat_str i, t)) (enumerate 0 (NARRATION outcome))"

definition liarsNarration ::
  "narration_outcome \<Rightarrow> narration_slots \<Rightarrow> js_string list \<Rightarrow> 'a services_scheme \<Rightarrow>
   (js_string \<times> js_string) \<times> 'a services_scheme" where
  "liarsNarration outcome slots recentIds w =
     (let templates = numbered_templates outcome;
          fresh = filter (\<lambda>(i, _). i \<notin> set recentIds) templates;
          pool = (if fresh \<noteq> [] then fresh else templates);
          (k, w') = random_int w (length pool);
          (i, template) = pool ! k
      in ((i, fill_template slots template), w'))"

lemma liarsNarration_world:
  "\<exists>k. snd (liarsNarration outcome slots recentIds w) = w\<lparr>crypto_cursor := k\<rparr>"
  by (auto simp: liarsNarration_def Let_def random_int_def split_beta)

lemma liarsWordPair_world: "\<exists>k. snd (liarsWordPair recentWords w) = w\<lparr>crypto_cursor := k\<rparr>"
  by (auto simp: liarsWordPair_def Let_def random_int_def split_beta)

lemma liarsBoard_world: "\<exists>k. snd (liarsBoard pair decoy w) = w\<lparr>pick_cursor := k\<rparr>"
proof -
  obtain s w1 where s: "shuffle pick (board_siblings pair decoy) w = (s, w1)" by fastforce
  obtain k where w1: "w1 = w\<lparr>pick_cursor := k\<rparr>"
    using shuffle_world [of "board_siblings pair decoy" w] s by auto
  let ?b = "take LIARS_BOARD_SIZE (wp_word pair # (if truthy decoy then [the decoy] else []) @ s)"
  obtain k' where "snd (shuffle pick ?b w1) = w1\<lparr>pick_cursor := k'\<rparr>"
    using shuffle_world by blast
  with s w1 show ?thesis by (auto simp: liarsBoard_def Let_def split_beta)
qed

section \<open>The board\<close>

lemma liarsBoard_mset:
  assumes "shuffle pick (board_siblings pair decoy) w = (s, w1)"
  shows "mset (fst (liarsBoard pair decoy w)) =
    mset (take LIARS_BOARD_SIZE (wp_word pair # (if truthy decoy then [the decoy] else []) @ s))"
  using assms by (simp add: liarsBoard_def Let_def split_beta picker.shuffle_mset)

text \<open>The board handed to everybody always holds the dealt word and the decoy,
  has at most twelve words, and every other word on it is a different word of the same category, so
  the imposter's shortlist is honest and no word of another category leaks onto it.\<close>

theorem liarsBoard_contents:
  assumes "wp_decoy pair \<noteq> []"
  shows "wp_word pair \<in> set (fst (liarsBoard pair (Some (wp_decoy pair)) w)) \<and>
         wp_decoy pair \<in> set (fst (liarsBoard pair (Some (wp_decoy pair)) w)) \<and>
         length (fst (liarsBoard pair (Some (wp_decoy pair)) w)) \<le> 12 \<and>
         set (fst (liarsBoard pair (Some (wp_decoy pair)) w)) \<subseteq>
           {wp_word pair, wp_decoy pair} \<union> set (board_siblings pair (Some (wp_decoy pair)))"
proof -
  obtain s w1 where s: "shuffle pick (board_siblings pair (Some (wp_decoy pair))) w = (s, w1)"
    by fastforce
  have ss: "set s = set (board_siblings pair (Some (wp_decoy pair)))"
    using picker.shuffle_set [of "board_siblings pair (Some (wp_decoy pair))" w] s by simp
  let ?b = "fst (liarsBoard pair (Some (wp_decoy pair)) w)"
  have m: "mset ?b = mset (take 12 (wp_word pair # wp_decoy pair # s))"
    using liarsBoard_mset [OF s] assms by (simp add: LIARS_BOARD_SIZE_def)
  have set_b: "set ?b = insert (wp_word pair) (insert (wp_decoy pair) (set (take 10 s)))"
    using mset_eq_setD [OF m] by simp
  have len: "length ?b \<le> 12"
    using mset_eq_length [OF m] by simp
  show ?thesis using set_b len ss set_take_subset [of 10 s] by auto
qed

lemma liarsBoard_contents_witness:
  "length (fst (liarsBoard \<lparr>wp_word = ''beach'', wp_decoy = ''desert'', wp_category = ''somewhere outdoors''\<rparr>
     (Some ''desert'') test_services)) \<le> 12"
  using liarsBoard_contents [of "\<lparr>wp_word = ''beach'', wp_decoy = ''desert'', wp_category = ''somewhere outdoors''\<rparr>" test_services]
  by simp

end
