(* ===== verification/LiarsState.thy ===== *)
theory LiarsState
  imports LiarsRulesFacts LiarsContent
begin

text \<open>
  The room of Liars (\<^verbatim>\<open>liars-room-engine.server.ts\<close>): its players, its state record and the small
  operations the phases are made of. The room extends \<^verbatim>\<open>services\<close>, so a transition is one
  function on the room; a reference to a player object is the player's id, looked up in the
  current players.
\<close>

section \<open>Records\<close>

datatype liars_phase =
  Lobby | Deal | Night | Dawn | Clue | Deliberation | Vote | Verdict | FinalGuess | Ending

datatype death_cause = Killed | Ejected | Guilt | BodyguardDeath | LeftGame

datatype history_phase = NightEntry | DayEntry

record history_entry =
  he_round :: nat
  he_phase :: history_phase
  he_text :: js_string

record knowledge_entry =
  kn_round :: nat
  kn_subjectName :: "js_string option"
  kn_text :: js_string

datatype report_glyph = GlyphMoved | GlyphStill

record night_report =
  nr_id :: js_string
  nr_subjectName :: "js_string option"
  nr_line :: js_string
  nr_glyph :: "report_glyph option"

record death_event =
  de_playerId :: js_string
  de_name :: js_string
  de_revived :: bool
  de_substituteName :: "js_string option"
  de_cause :: death_cause
  de_role :: "liars_role option"

record last_words_entry =
  lw_name :: js_string
  lw_text :: js_string

record dawn_snapshot =
  dw_narration :: js_string
  dw_nameLandsAt :: int
  dw_holdUntil :: int
  dw_reviveAt :: "int option"
  dw_settleAt :: int
  dw_deaths :: "death_event list"
  dw_movementSeen :: "js_string list"
  dw_witnessCount :: "nat option"
  dw_lastWords :: "last_words_entry list"

record graveyard_note =
  gn_id :: js_string
  gn_name :: js_string
  gn_text :: js_string

text \<open>\<^verbatim>\<open>PlayerState\<close>, extending the readiness record.\<close>

record player_state = readiness_record +
  pname :: js_string
  tokenHash :: js_string
  joinedAt :: int
  lastSeenAt :: int
  role :: "liars_role option"
  previousRole :: "liars_role option"
  alive :: bool
  deathRound :: "nat option"
  deathCause :: "death_cause option"
  savedCount :: nat
  nightTarget :: "js_string option"
  nightLocked :: bool
  previousNightTarget :: "js_string option"
  vote :: "js_string option"
  voteLocked :: bool
  readyToVote :: bool
  pointedAt :: "js_string option"
  roleWishes :: "liars_role list"
  graveyardVote :: "js_string option"
  report :: "night_report option"
  knowledge :: "knowledge_entry list"
  lastWords :: "js_string option"
  vigilanteUsed :: bool
  guiltPending :: bool
  pword :: "js_string option"
  clueDone :: bool
  leftAt :: "int option"

record join_receipt =
  jr_playerId :: js_string
  jr_playerToken :: js_string
  jr_expiresAt :: int

text \<open>\<^verbatim>\<open>LiarsGameState\<close>, run against the services it extends.\<close>

record liars_room = services +
  roomId :: js_string
  managed :: bool
  officialResultChannelId :: "js_string option"
  mode :: liars_mode
  roomMode :: liars_room_mode
  phase :: liars_phase
  revision :: nat
  sequenceNo :: nat
  hostHash :: js_string
  joinHash :: js_string
  expiresAt :: int
  gameNumber :: nat
  roundNo :: nat
  phaseStartedAt :: int
  phaseEndsAt :: int
  nightOpensAt :: "int option"
  reportAt :: "int option"
  pausedAt :: "int option"
  lastActiveAt :: int
  lineup :: liars_lineup
  lineupCustom :: bool
  toggles :: liars_toggles
  timings :: liars_timings
  players :: "player_state list"
  hostPlayerId :: "js_string option"
  joinLocked :: "bool option"
  hostDisconnectedSince :: "int option"
  history :: "history_entry list"
  dawn :: "dawn_snapshot option"
  clueOrder :: "js_string list"
  clueIndex :: nat
  clueRound :: nat
  clueFinishedBy :: "js_string list"
  processedActions :: "js_string list"
  joinReceiptIds :: "js_string list"
  joinReceipts :: "(js_string \<times> join_receipt) list"
  ejectedJesterId :: "js_string option"
  crewEjections :: nat
  imposterEjections :: nat
  finalGuessCorrect :: "bool option"
  roomWord :: "js_string option"
  decoyWord :: "js_string option"
  wordCategory :: "js_string option"
  wordBoard :: "js_string list"
  recentWords :: "js_string list"
  recentNarrationIds :: "js_string list"
  winner :: "liars_side option"
  lastEjectedName :: "js_string option"
  graveyardBoard :: "graveyard_note list"
  revoteUsed :: bool
  runoffIds :: "js_string list"
  narratorPlayerId :: "js_string option"

definition FINISHED_GRACE_SECONDS :: int where
  "FINISHED_GRACE_SECONDS = 20 * 60"

definition JOIN_RECEIPT_TTL_SECONDS :: int where
  "JOIN_RECEIPT_TTL_SECONDS = 2 * 60"

section \<open>Finding and writing players\<close>

definition player_by_id :: "liars_room \<Rightarrow> js_string \<Rightarrow> player_state option" where
  "player_by_id r i = find (\<lambda>p. pid p = i) (players r)"

text \<open>\<^verbatim>\<open>players.find(({ id }) => id === ref)\<close> for a nullable reference.\<close>

definition player_by_ref :: "liars_room \<Rightarrow> js_string option \<Rightarrow> player_state option" where
  "player_by_ref r ref = (case ref of None \<Rightarrow> None | Some i \<Rightarrow> player_by_id r i)"

definition upd_player :: "js_string \<Rightarrow> (player_state \<Rightarrow> player_state) \<Rightarrow> liars_room \<Rightarrow> liars_room" where
  "upd_player i f r = r\<lparr>players := upd_first (\<lambda>p. pid p = i) f (players r)\<rparr>"

definition living :: "liars_room \<Rightarrow> player_state list" where
  "living r = filter alive (players r)"

definition connected_player :: "player_state \<Rightarrow> int \<Rightarrow> bool" where
  "connected_player p now \<longleftrightarrow> now - lastSeenAt p \<le> LIARS_CONNECTED_WINDOW_MS"

definition role_or_villager :: "player_state \<Rightarrow> liars_role" where
  "role_or_villager p = nullish (role p) Villager"

definition presentPlayerCount :: "liars_room \<Rightarrow> nat" where
  "presentPlayerCount r = length (filter (\<lambda>p. leftAt p = None) (players r))"

section \<open>Revision and expiry\<close>

definition phaseKind :: "liars_room \<Rightarrow> room_phase_kind" where
  "phaseKind r = (if phase r = Lobby then KindLobby
                  else if phase r = Ending then KindResults else KindActive)"

definition applyRoomExpiry :: "int \<Rightarrow> liars_room \<Rightarrow> liars_room" where
  "applyRoomExpiry now r =
     r\<lparr>expiresAt := multiplayerRoomExpiry (phaseKind r) (presentPlayerCount r) (expiresAt r) now\<rparr>"

definition changed :: "liars_room \<Rightarrow> liars_room" where
  "changed r =
     applyRoomExpiry (wall_clock r) (r\<lparr>revision := Suc (revision r), sequenceNo := Suc (sequenceNo r)\<rparr>)"

section \<open>Host and narrator hand-over\<close>

definition seniority_le :: "liars_room \<Rightarrow> player_state \<Rightarrow> player_state \<Rightarrow> bool" where
  "seniority_le r a b \<longleftrightarrow>
     (if joinedAt a - joinedAt b \<noteq> 0 then joinedAt a - joinedAt b \<le> 0
      else locale_compare r (pid a) (pid b) \<le> 0)"

definition eligible_successors :: "liars_room \<Rightarrow> js_string \<Rightarrow> player_state list" where
  "eligible_successors r leavingId =
     sort_by (seniority_le r)
       (filter (\<lambda>p. pid p \<noteq> leavingId \<and> alive p \<and> leftAt p = None) (players r))"

text \<open>The first connected successor, or the most senior one, or nobody.\<close>

definition pick_successor :: "liars_room \<Rightarrow> js_string \<Rightarrow> int \<Rightarrow> player_state option" where
  "pick_successor r leavingId now =
     (let eligible = eligible_successors r leavingId in
      case find (\<lambda>p. connected_player p now) eligible of
        Some p \<Rightarrow> Some p
      | None \<Rightarrow> (case eligible of [] \<Rightarrow> None | p # _ \<Rightarrow> Some p))"

definition transferHost :: "js_string \<Rightarrow> int \<Rightarrow> liars_room \<Rightarrow> liars_room" where
  "transferHost leavingId now r =
     (let next = pick_successor r leavingId now;
          r' = r\<lparr>hostPlayerId := map_option pid next,
                 hostDisconnectedSince :=
                   (case next of Some p \<Rightarrow> if connected_player p now then None else Some now | None \<Rightarrow> None)\<rparr>
      in if narratorPlayerId r = Some leavingId then r'\<lparr>narratorPlayerId := map_option pid next\<rparr> else r')"

definition transferNarrator :: "js_string \<Rightarrow> int \<Rightarrow> liars_room \<Rightarrow> liars_room" where
  "transferNarrator leavingId now r =
     (if narratorPlayerId r \<noteq> Some leavingId then r
      else r\<lparr>narratorPlayerId := map_option pid (pick_successor r leavingId now)\<rparr>)"

section \<open>Notes, knowledge, deaths\<close>

definition narrate :: "narration_outcome \<Rightarrow> narration_slots \<Rightarrow> liars_room \<Rightarrow> js_string \<times> liars_room" where
  "narrate outcome slots r =
     (let ((i, text), r') = liarsNarration outcome slots (recentNarrationIds r) r
      in (text, r'\<lparr>recentNarrationIds := take_last 14 (recentNarrationIds r @ [i])\<rparr>))"

definition add_note :: "history_phase \<Rightarrow> js_string \<Rightarrow> liars_room \<Rightarrow> liars_room" where
  "add_note ph text r = r\<lparr>history := history r @ [\<lparr>he_round = roundNo r, he_phase = ph, he_text = text\<rparr>]\<rparr>"

definition remember :: "nat \<Rightarrow> js_string option \<Rightarrow> js_string \<Rightarrow> player_state \<Rightarrow> player_state" where
  "remember rd subjectName text p =
     p\<lparr>knowledge := knowledge p @ [\<lparr>kn_round = rd, kn_subjectName = subjectName, kn_text = text\<rparr>]\<rparr>"

definition kill :: "js_string \<Rightarrow> death_cause \<Rightarrow> liars_room \<Rightarrow> liars_room" where
  "kill i cause r =
     upd_player i (\<lambda>p. (let p' = p\<lparr>alive := False, deathRound := Some (roundNo r), deathCause := Some cause\<rparr>
       in if lastWordsOn (toggles r) then p'\<lparr>lastWords := None\<rparr> else p')) r"

section \<open>Entering a phase\<close>

definition dawnDuration :: "liars_room \<Rightarrow> int" where
  "dawnDuration r =
     (case dawn r of
        None \<Rightarrow> t_dawn (timings r)
      | Some d \<Rightarrow>
          t_dawn (timings r)
          + (if list_ex (\<lambda>e. de_revived e \<or> truthy (de_substituteName e)) (dw_deaths d) then 3000 else 0)
          + int (length (dw_movementSeen d)) * LIARS_MOVEMENT_BEAT_MS)"

definition phaseDuration :: "liars_room \<Rightarrow> liars_phase \<Rightarrow> int" where
  "phaseDuration r ph =
     (let t = timings r in
      case ph of
        Deal \<Rightarrow> (if firstGame (toggles r) then t_deal t + 20000 else t_deal t)
      | Night \<Rightarrow> LIARS_DUSK_MS + liarsNightDuration t (length (living r))
      | Dawn \<Rightarrow> dawnDuration r
      | Clue \<Rightarrow> (if roomMode r = Remote then t_clueTurn t
                else min (12 * 60000) (max 3 (int (length (living r))) * t_clueTurn t))
      | Deliberation \<Rightarrow> t_deliberation t
      | Vote \<Rightarrow> t_vote t
      | Verdict \<Rightarrow> t_verdict t
      | FinalGuess \<Rightarrow> t_finalGuess t
      | _ \<Rightarrow> 0)"

definition enterPhase :: "liars_phase \<Rightarrow> int \<Rightarrow> liars_room \<Rightarrow> liars_room" where
  "enterPhase ph now r =
     (let r1 = r\<lparr>phase := ph, phaseStartedAt := now\<rparr>;
          r2 = r1\<lparr>phaseEndsAt := now + phaseDuration r1 ph\<rparr>;
          r3 = r2\<lparr>nightOpensAt := (if ph = Night then Some (now + LIARS_DUSK_MS) else None),
                  reportAt := (if ph = Night then Some (phaseEndsAt r2 - LIARS_REPORT_LEAD_MS) else None)\<rparr>
      in changed r3)"

definition clear_player_round :: "player_state \<Rightarrow> player_state" where
  "clear_player_round p =
     p\<lparr>previousNightTarget := nightTarget p, nightTarget := None, nightLocked := False, vote := None,
       voteLocked := False, readyToVote := False, pointedAt := None, report := None, clueDone := False\<rparr>"

definition clearRoundState :: "liars_room \<Rightarrow> liars_room" where
  "clearRoundState r =
     r\<lparr>players := map clear_player_round (players r), revoteUsed := False, runoffIds := []\<rparr>"

definition finish :: "liars_side \<Rightarrow> int \<Rightarrow> liars_room \<Rightarrow> liars_room" where
  "finish w now r =
     changed (r\<lparr>winner := Some w, phase := Ending, phaseStartedAt := now, phaseEndsAt := now,
                expiresAt := min (expiresAt r) (now + FINISHED_GRACE_SECONDS * 1000)\<rparr>)"

definition win_input :: "liars_room \<Rightarrow> js_string option \<Rightarrow> liars_win_input" where
  "win_input r jesterId =
     \<lparr>wi_mode = mode r, wi_jesterEndsGame = jesterEndsGame (toggles r),
      wi_alive = map (\<lambda>p. (pid p, role_or_villager p)) (living r),
      wi_ejectedJesterId = jesterId, wi_crewEjections = Some (int (crewEjections r)),
      wi_finalGuessCorrect = Some (finalGuessCorrect r)\<rparr>"

text \<open>The room, and whether the game ended.\<close>

definition checkWinner :: "int \<Rightarrow> js_string option \<Rightarrow> liars_room \<Rightarrow> liars_room \<times> bool" where
  "checkWinner now jesterId r =
     (case liarsDetectWinner (win_input r jesterId) of
        Some w \<Rightarrow> (finish w now r, True)
      | None \<Rightarrow> (r, False))"

section \<open>Frame facts\<close>

lemma changed_simps [simp]:
  "players (changed r) = players r" "phase (changed r) = phase r" "mode (changed r) = mode r"
  "roomMode (changed r) = roomMode r" "winner (changed r) = winner r"
  "processedActions (changed r) = processedActions r" "roundNo (changed r) = roundNo r"
  "phaseEndsAt (changed r) = phaseEndsAt r" "phaseStartedAt (changed r) = phaseStartedAt r"
  "reportAt (changed r) = reportAt r" "nightOpensAt (changed r) = nightOpensAt r"
  "pausedAt (changed r) = pausedAt r" "dawn (changed r) = dawn r" "toggles (changed r) = toggles r"
  "timings (changed r) = timings r" "lineup (changed r) = lineup r"
  "hostPlayerId (changed r) = hostPlayerId r" "history (changed r) = history r"
  "crewEjections (changed r) = crewEjections r" "imposterEjections (changed r) = imposterEjections r"
  "finalGuessCorrect (changed r) = finalGuessCorrect r" "revoteUsed (changed r) = revoteUsed r"
  "runoffIds (changed r) = runoffIds r" "graveyardBoard (changed r) = graveyardBoard r"
  "wall_clock (changed r) = wall_clock r" "sha256_hex (changed r) = sha256_hex r"
  "clueOrder (changed r) = clueOrder r" "clueIndex (changed r) = clueIndex r"
  "clueRound (changed r) = clueRound r" "clueFinishedBy (changed r) = clueFinishedBy r"
  "ejectedJesterId (changed r) = ejectedJesterId r" "roomWord (changed r) = roomWord r"
  "revision (changed r) = Suc (revision r)" "sequenceNo (changed r) = Suc (sequenceNo r)"
  "roomId (changed r) = roomId r" "hostHash (changed r) = hostHash r" "joinHash (changed r) = joinHash r"
  "joinReceipts (changed r) = joinReceipts r" "gameNumber (changed r) = gameNumber r"
  "hostDisconnectedSince (changed r) = hostDisconnectedSince r" "joinLocked (changed r) = joinLocked r"
  "narratorPlayerId (changed r) = narratorPlayerId r" "lastActiveAt (changed r) = lastActiveAt r"
  "managed (changed r) = managed r" "recentNarrationIds (changed r) = recentNarrationIds r"
  "lineupCustom (changed r) = lineupCustom r" "locale_compare (changed r) = locale_compare r"
  by (simp_all add: changed_def applyRoomExpiry_def)

lemma living_changed [simp]: "living (changed r) = living r"
  by (simp add: living_def)

lemma player_by_id_changed [simp]: "player_by_id (changed r) i = player_by_id r i"
  by (simp add: player_by_id_def)

end
