(* ===== verification/LiarsNight.thy ===== *)
theory LiarsNight
  imports LiarsState
begin

text \<open>
  The night of Liars (\<^verbatim>\<open>liars-room-engine.server.ts\<close>, "Night"): who visited whom, who calls the
  kill, the report cards, the resolution of a night and the movement two watchers corroborate.
  A reference the code keeps to a player object is that player's id here; fields the resolution
  never writes (name, role, night target) are read from the players as the night ended.
\<close>

section \<open>Visitors and the caller\<close>

definition visitorsOf :: "liars_room \<Rightarrow> js_string \<Rightarrow> player_state list" where
  "visitorsOf r targetId =
     filter (\<lambda>p. pid p \<noteq> targetId \<and> nightTarget p = Some targetId \<and>
                 liarsActionMoves (role_or_villager p) (nightTarget p)) (living r)"

definition is_mafia :: "player_state \<Rightarrow> bool" where
  "is_mafia p \<longleftrightarrow> (case role p of None \<Rightarrow> False | Some x \<Rightarrow> liarsRoleSide x = MafiaSide)"

text \<open>The godfather, else the mafia who joined first.\<close>

definition mafiaCaller :: "liars_room \<Rightarrow> player_state option" where
  "mafiaCaller r =
     (let mafia = filter is_mafia (living r) in
      case find (\<lambda>p. role p = Some Godfather) mafia of
        Some p \<Rightarrow> Some p
      | None \<Rightarrow> (case sort_by (\<lambda>a b. joinedAt a \<le> joinedAt b) mafia of [] \<Rightarrow> None | p # _ \<Rightarrow> Some p))"

section \<open>The report cards\<close>

definition joinNames :: "js_string list \<Rightarrow> js_string" where
  "joinNames names =
     (if length names = 1 then hd names
      else join_with '', '' (butlast names) @ '' and '' @ last names)"

text \<open>The line and glyph of one card, and whether it is also remembered.\<close>

definition report_card ::
  "liars_room \<Rightarrow> player_state \<Rightarrow> js_string \<times> report_glyph option \<times> bool" where
  "report_card r p =
     (case player_by_ref r (nightTarget p) of
        None \<Rightarrow> (''you stayed in'', None, False)
      | Some t \<Rightarrow>
          (case role_or_villager p of
             Detective \<Rightarrow> (if liarsReadsGuilty (role_or_villager t) then ''guilty'' else ''innocent'', None, True)
           | Lookout \<Rightarrow>
               (let names = map pname (visitorsOf r (pid t)) in
                (if names = [] then ''nobody came to their door''
                 else joinNames names @ '' came to their door'', None, True))
           | role' \<Rightarrow>
               (if role' = Villager \<or> role' = Jester
                then if liarsActionMoves (role_or_villager t) (nightTarget t)
                     then (''they went out'', Some GlyphMoved, True)
                     else (''their door didn't open'', Some GlyphStill, True)
                else if truthy (rd_reportVerb (LIARS_ROLES role'))
                then (the (rd_reportVerb (LIARS_ROLES role')), None, False)
                else (''you held'', None, False))))"

definition write_card ::
  "nat \<Rightarrow> js_string option \<Rightarrow> js_string \<times> report_glyph option \<times> bool \<Rightarrow> js_string \<Rightarrow>
   player_state \<Rightarrow> player_state" where
  "write_card rd subject crd reportId p =
     (case crd of (line, glyph, remembered) \<Rightarrow>
        (let p' = (if remembered then remember rd subject line p else p)
         in p'\<lparr>report := Some \<lparr>nr_id = reportId, nr_subjectName = subject, nr_line = line, nr_glyph = glyph\<rparr>\<rparr>))"

text \<open>One turn of the loop over the living, given by id.\<close>

definition write_report :: "js_string \<Rightarrow> liars_room \<times> bool \<Rightarrow> liars_room \<times> bool" where
  "write_report i st =
     (case st of (r, wrote) \<Rightarrow>
        (case player_by_id r i of
           None \<Rightarrow> (r, wrote)
         | Some p \<Rightarrow>
             (if report p \<noteq> None then (r, wrote)
              else let subject = map_option pname (player_by_ref r (nightTarget p));
                       crd = report_card r p;
                       (reportId, r1) = createMultiplayerCredential r
                   in (upd_player i (write_card (roundNo r) subject crd reportId) r1, True))))"

definition write_all_reports :: "liars_room \<Rightarrow> liars_room \<times> bool" where
  "write_all_reports r = fold write_report (map pid (living r)) (r, False)"

definition writeNightReports :: "liars_room \<Rightarrow> liars_room" where
  "writeNightReports r = (case write_all_reports r of (r', wrote) \<Rightarrow> if wrote then changed r' else r')"

section \<open>Resolving the night\<close>

text \<open>The holders of the night's roles and their targets, after the jammer's block.\<close>

record night_plan =
  np_alive :: "js_string list"
  np_bodyguard :: "player_state option"
  np_escort :: "player_state option"
  np_vigilante :: "player_state option"
  np_savedId :: "js_string option"
  np_guardedId :: "js_string option"
  np_escortTargetId :: "js_string option"

record night_attack =
  at_targetId :: js_string
  at_attacker :: player_state
  at_fromMafia :: bool

definition roleHolder :: "liars_room \<Rightarrow> liars_role \<Rightarrow> player_state option" where
  "roleHolder r role' = find (\<lambda>p. role p = Some role') (living r)"

definition blockedTarget :: "liars_room \<Rightarrow> js_string option" where
  "blockedTarget r = (case roleHolder r Jammer of None \<Rightarrow> None | Some j \<Rightarrow> nightTarget j)"

text \<open>\<^verbatim>\<open>isBlocked(holder) ? null : (holder?.nightTarget ?? null)\<close>.\<close>

definition unblocked_target :: "js_string option \<Rightarrow> player_state option \<Rightarrow> js_string option" where
  "unblocked_target blockedId holder =
     (case holder of None \<Rightarrow> None | Some p \<Rightarrow> if Some (pid p) = blockedId then None else nightTarget p)"

definition night_plan_of :: "liars_room \<Rightarrow> night_plan" where
  "night_plan_of r =
     (let blockedId = blockedTarget r in
      \<lparr>np_alive = map pid (living r), np_bodyguard = roleHolder r Bodyguard,
       np_escort = roleHolder r Escort, np_vigilante = roleHolder r Vigilante,
       np_savedId = unblocked_target blockedId (roleHolder r Doctor),
       np_guardedId = unblocked_target blockedId (roleHolder r Bodyguard),
       np_escortTargetId = unblocked_target blockedId (roleHolder r Escort)\<rparr>)"

definition mafia_attack :: "liars_room \<Rightarrow> night_attack list" where
  "mafia_attack r =
     (case mafiaCaller r of
        None \<Rightarrow> []
      | Some c \<Rightarrow>
          (case unblocked_target (blockedTarget r) (Some c) of
             None \<Rightarrow> []
           | Some t \<Rightarrow> if t = [] then [] else [\<lparr>at_targetId = t, at_attacker = c, at_fromMafia = True\<rparr>]))"

definition vigilante_attack :: "liars_room \<Rightarrow> night_attack list" where
  "vigilante_attack r =
     (case roleHolder r Vigilante of
        None \<Rightarrow> []
      | Some v \<Rightarrow>
          (if vigilanteUsed v then []
           else case unblocked_target (blockedTarget r) (Some v) of
             None \<Rightarrow> []
           | Some t \<Rightarrow> if t = [] then [] else [\<lparr>at_targetId = t, at_attacker = v, at_fromMafia = False\<rparr>]))"

text \<open>A living-at-dusk target the attack still finds alive.\<close>

definition alive_target :: "night_plan \<Rightarrow> js_string \<Rightarrow> liars_room \<Rightarrow> player_state option" where
  "alive_target np i r =
     (if i \<in> set (np_alive np)
      then (case player_by_id r i of None \<Rightarrow> None | Some p \<Rightarrow> if alive p then Some p else None)
      else None)"

definition still_alive :: "liars_room \<Rightarrow> player_state option \<Rightarrow> bool" where
  "still_alive r holder =
     (case holder of None \<Rightarrow> False
      | Some h \<Rightarrow> (case player_by_id r (pid h) of None \<Rightarrow> False | Some p \<Rightarrow> alive p))"

definition death_of :: "player_state \<Rightarrow> bool \<Rightarrow> js_string option \<Rightarrow> death_cause \<Rightarrow> liars_role option \<Rightarrow> death_event" where
  "death_of p revived substitute cause role' =
     \<lparr>de_playerId = pid p, de_name = pname p, de_revived = revived, de_substituteName = substitute,
      de_cause = cause, de_role = role'\<rparr>"

text \<open>The escort, spending the night at the target's, sees who came.\<close>

definition escort_sees :: "night_attack \<Rightarrow> player_state \<Rightarrow> player_state \<Rightarrow> liars_room \<Rightarrow> liars_room" where
  "escort_sees a target e r =
     (let line = ''it was '' @ pname (at_attacker a);
          (reportId, r1) = createMultiplayerCredential
             (upd_player (pid e) (remember (roundNo r) (Some (pname target)) line) r)
      in upd_player (pid e) (\<lambda>p. p\<lparr>report := Some \<lparr>nr_id = reportId, nr_subjectName = Some (pname target),
           nr_line = line, nr_glyph = None\<rparr>\<rparr>) r1)"

type_synonym night_tally = "death_event list \<times> last_words_entry list"

text \<open>The escort dies with the target and leaves the name.\<close>

definition escort_dies :: "night_attack \<Rightarrow> player_state \<Rightarrow> liars_room \<times> night_tally \<Rightarrow> liars_room \<times> night_tally" where
  "escort_dies a e st =
     (case st of (r, deaths, testimony) \<Rightarrow>
        (let line = ''I was there. It was '' @ pname (at_attacker a) @ ''.''
         in (upd_player (pid e) (\<lambda>p. p\<lparr>lastWords := Some line\<rparr>) (kill (pid e) Killed r),
             deaths @ [death_of e False None Killed
                         (if revealRoleOnDeath (toggles r) then Some Escort else None)],
             testimony @ [\<lparr>lw_name = pname e, lw_text = line\<rparr>])))"

definition mark_guilt :: "night_plan \<Rightarrow> night_attack \<Rightarrow> player_state \<Rightarrow> liars_room \<Rightarrow> liars_room" where
  "mark_guilt np a target r =
     (case np_vigilante np of
        Some v \<Rightarrow> (if \<not> at_fromMafia a \<and> liarsRoleSide (role_or_villager target) \<noteq> MafiaSide
                   then upd_player (pid v) (\<lambda>p. p\<lparr>guiltPending := True\<rparr>) r else r)
      | None \<Rightarrow> r)"

text \<open>The attack lands: nobody saved or stood in for the target.\<close>

definition land_attack :: "night_plan \<Rightarrow> night_attack \<Rightarrow> player_state \<Rightarrow> liars_room \<times> night_tally \<Rightarrow> liars_room \<times> night_tally" where
  "land_attack np a target st =
     (case st of (r, deaths, testimony) \<Rightarrow>
        (let r1 = kill (pid target) Killed r;
             deaths1 = deaths @ [death_of target False None Killed
                        (if revealRoleOnDeath (toggles r) then role target else None)];
             present = np_escortTargetId np = Some (pid target) \<and> still_alive r1 (np_escort np);
             (r2, deaths2, testimony2) =
                (if present then escort_dies a (the (np_escort np)) (r1, deaths1, testimony)
                 else (r1, deaths1, testimony))
         in (mark_guilt np a target r2, deaths2, testimony2)))"

definition escort_witness :: "night_plan \<Rightarrow> night_attack \<Rightarrow> player_state \<Rightarrow> liars_room \<Rightarrow> liars_room" where
  "escort_witness np a target r =
     (case np_escort np of
        Some e \<Rightarrow> (if np_escortTargetId np = Some (pid target) then escort_sees a target e r else r)
      | None \<Rightarrow> r)"

text \<open>One turn of the loop over the attacks.\<close>

definition resolve_attack :: "night_plan \<Rightarrow> night_attack \<Rightarrow> liars_room \<times> night_tally \<Rightarrow> liars_room \<times> night_tally" where
  "resolve_attack np a st =
     (case st of (r, deaths, testimony) \<Rightarrow>
        (case alive_target np (at_targetId a) r of
           None \<Rightarrow> (r, deaths, testimony)
         | Some target \<Rightarrow>
             (if map_option pid (np_escort np) = Some (pid target) \<and> truthy (np_escortTargetId np)
              then (r, deaths, testimony)
              else
              let r1 = escort_witness np a target r in
              if np_savedId np = Some (pid target)
              then (upd_player (pid target) (\<lambda>p. p\<lparr>savedCount := Suc (savedCount p)\<rparr>) r1,
                    deaths @ [death_of target True None Killed None], testimony)
              else if np_guardedId np = Some (pid target) \<and> still_alive r1 (np_bodyguard np)
              then (kill (pid (the (np_bodyguard np))) BodyguardDeath r1,
                    deaths @ [death_of target False (map_option pname (np_bodyguard np)) Killed None],
                    testimony)
              else land_attack np a target (r1, deaths, testimony))))"

text \<open>Guilt: the first player of the night's living who still carries it.\<close>

definition guilty_player :: "night_plan \<Rightarrow> liars_room \<Rightarrow> player_state option" where
  "guilty_player np r =
     find (\<lambda>p. guiltPending p \<and> alive p) (List.map_filter (player_by_id r) (np_alive np))"

definition land_guilt :: "night_plan \<Rightarrow> liars_room \<times> night_tally \<Rightarrow> liars_room \<times> night_tally" where
  "land_guilt np st =
     (case st of (r, deaths, testimony) \<Rightarrow>
        (case guilty_player np r of
           None \<Rightarrow> (r, deaths, testimony)
         | Some g \<Rightarrow>
             (if vigilanteUsed g \<and> deathRound g = None \<and> 1 < roundNo r
              then (kill (pid g) Guilt r, deaths @ [death_of g False None Guilt None], testimony)
              else (r, deaths, testimony))))"

section \<open>Corroborated movement\<close>

definition watched_targets :: "liars_room \<Rightarrow> js_string list" where
  "watched_targets r =
     map (\<lambda>p. the (nightTarget p))
       (filter (\<lambda>p. \<not> rd_moves (LIARS_ROLES (role_or_villager p)) \<and> truthy (nightTarget p)) (living r))"

definition seen_moving :: "liars_room \<Rightarrow> js_string \<times> nat \<Rightarrow> js_string option" where
  "seen_moving r entry =
     (case entry of (targetId, watchers) \<Rightarrow>
        (if watchers < 2 then None
         else case player_by_id r targetId of
           None \<Rightarrow> None
         | Some t \<Rightarrow> (if liarsActionMoves (role_or_villager t) (nightTarget t) then Some (pname t) else None)))"

definition corroboratedMovement :: "liars_room \<Rightarrow> js_string list" where
  "corroboratedMovement r = List.map_filter (seen_moving r) (tally (watched_targets r))"

section \<open>The dawn\<close>

definition night_narration :: "death_event list \<Rightarrow> liars_room \<Rightarrow> js_string \<times> liars_room" where
  "night_narration deaths r =
     (let victim = find (\<lambda>e. \<not> de_revived e \<and> \<not> truthy (de_substituteName e)) deaths;
          substituted = find (\<lambda>e. truthy (de_substituteName e)) deaths;
          revived = find de_revived deaths
      in case substituted of
           Some e \<Rightarrow> narrate NarrBodyguard (no_slots\<lparr>slot_victim := Some (de_name e),
                                             slot_substitute := de_substituteName e\<rparr>) r
         | None \<Rightarrow>
             (case revived of
                Some e \<Rightarrow> (if announceAttackTarget (toggles r)
                           then narrate NarrSaved (no_slots\<lparr>slot_victim := Some (de_name e)\<rparr>) r
                           else (''Somebody was attacked last night, and somebody saved them.'', r))
              | None \<Rightarrow>
                  (case victim of
                     Some e \<Rightarrow> narrate NarrKilled (no_slots\<lparr>slot_victim := Some (de_name e)\<rparr>) r
                   | None \<Rightarrow> narrate NarrNobodyDied no_slots r)))"

definition dawn_of ::
  "int \<Rightarrow> js_string \<Rightarrow> death_event list \<Rightarrow> js_string list \<Rightarrow> nat option \<Rightarrow> last_words_entry list \<Rightarrow>
   liars_toggles \<Rightarrow> dawn_snapshot" where
  "dawn_of now narration deaths movement witnesses testimony tg =
     (let nameLandsAt = now + LIARS_DEATH_LANDS_MS;
          revived = list_ex de_revived deaths
      in \<lparr>dw_narration = narration, dw_nameLandsAt = nameLandsAt,
          dw_holdUntil = nameLandsAt + LIARS_DEATH_HOLD_MS,
          dw_reviveAt = (if revived then Some (nameLandsAt + LIARS_DEATH_HOLD_MS) else None),
          dw_settleAt = nameLandsAt + LIARS_DEATH_HOLD_MS + 4000,
          dw_deaths = (if announceAttackTarget tg then deaths else filter (\<lambda>e. \<not> de_revived e) deaths),
          dw_movementSeen = movement, dw_witnessCount = witnesses, dw_lastWords = testimony\<rparr>)"

text \<open>The state the attacks run on: the reports are written, the blocked player remembers.\<close>

definition night_begun :: "liars_room \<Rightarrow> liars_room" where
  "night_begun r0 =
     (let r = writeNightReports r0 in
      case blockedTarget r of
        None \<Rightarrow> r
      | Some b \<Rightarrow> (if b \<noteq> [] \<and> b \<in> set (map pid (living r))
                   then upd_player b (remember (roundNo r) None ''your night was interrupted'') r else r))"

text \<open>The shot is spent as the attacks are listed.\<close>

definition spend_shot :: "liars_room \<Rightarrow> liars_room" where
  "spend_shot r =
     (if vigilante_attack r = [] then r
      else case roleHolder r Vigilante of
        None \<Rightarrow> r
      | Some v \<Rightarrow> upd_player (pid v) (\<lambda>p. p\<lparr>vigilanteUsed := True\<rparr>) r)"

definition night_outcome :: "liars_room \<Rightarrow> liars_room \<times> night_tally" where
  "night_outcome r0 =
     (let r = night_begun r0;
          np = night_plan_of r;
          attacks = mafia_attack r @ vigilante_attack r
      in land_guilt np (fold (resolve_attack np) attacks (spend_shot r, [], [])))"

definition resolveNight :: "int \<Rightarrow> liars_room \<Rightarrow> liars_room" where
  "resolveNight now r0 =
     (case night_outcome r0 of (r1, deaths, testimony) \<Rightarrow>
        (let movement = corroboratedMovement r1;
             victim = find (\<lambda>e. \<not> de_revived e \<and> \<not> truthy (de_substituteName e)) deaths;
             witnesses = map_option (\<lambda>e. length (visitorsOf r1 (de_playerId e))) victim;
             (narration, r2) = night_narration deaths r1;
             r3 = r2\<lparr>dawn := Some (dawn_of now narration deaths movement witnesses testimony (toggles r2))\<rparr>;
             r4 = fold (\<lambda>name r. add_note NightEntry (name @ '' was seen moving.'') r) movement
                    (add_note NightEntry narration r3)
         in fst (checkWinner now None (enterPhase Dawn now r4))))"

end
