(* ===== verification/LiarsDay.thy ===== *)
theory LiarsDay
  imports LiarsNight
begin

text \<open>
  The day of Liars and the phase machine (\<^verbatim>\<open>liars-room-engine.server.ts\<close>, "Day" and "Phase
  machine"): the ballot of the dead, the vote with its one runoff, the verdict, the last
  imposter's guess, the clue rounds, and the lazy \<^verbatim>\<open>advance\<close> that every read runs.
\<close>

section \<open>The ballot of the dead\<close>

definition dead_players :: "liars_room \<Rightarrow> player_state list" where
  "dead_players r = filter (\<lambda>p. \<not> alive p) (players r)"

definition best_count :: "('k \<times> nat) list \<Rightarrow> nat" where
  "best_count t = foldl max 0 (map snd t)"

definition graveyard_deadlocked :: "liars_room \<Rightarrow> bool" where
  "graveyard_deadlocked r =
     (let t = tally (cast_ballots (map graveyardVote (dead_players r)));
          best = best_count t
      in 0 < best \<and> 1 < length (filter (\<lambda>(_, n). n = best) t))"

definition graveyard_abstaining :: "liars_room \<Rightarrow> nat" where
  "graveyard_abstaining r = length (filter (\<lambda>p. graveyardVote p = None) (dead_players r))"

definition graveyardBallot :: "liars_room \<Rightarrow> js_string option" where
  "graveyardBallot r =
     (if \<not> graveyardVoteOn (toggles r) \<or> liveGodView (toggles r) then None
      else if length (dead_players r) < liarsGraveyardArmsAt (length (players r)) then None
      else liarsPlurality (map graveyardVote (dead_players r)))"

section \<open>The vote\<close>

definition tiedIds :: "js_string option list \<Rightarrow> js_string list" where
  "tiedIds votes =
     (let t = tally (cast_ballots votes); best = best_count t
      in if best = 0 then [] else map fst (filter (\<lambda>(_, n). n = best) t))"

definition day_ballots :: "liars_room \<Rightarrow> js_string option list" where
  "day_ballots r =
     map vote (living r) @ (if truthy (graveyardBallot r) then [graveyardBallot r] else [])"

definition clear_vote :: "player_state \<Rightarrow> player_state" where
  "clear_vote p = p\<lparr>vote := None, voteLocked := False\<rparr>"

definition tied_names :: "js_string list \<Rightarrow> liars_room \<Rightarrow> js_string list" where
  "tied_names tied r =
     filter (\<lambda>n. n \<noteq> []) (List.map_filter (\<lambda>i. map_option pname (player_by_id r i)) tied)"

definition start_runoff :: "js_string list \<Rightarrow> int \<Rightarrow> liars_room \<Rightarrow> liars_room" where
  "start_runoff tied now r =
     (let r1 = r\<lparr>revoteUsed := True, runoffIds := tied, players := map clear_vote (players r)\<rparr>
      in enterPhase Vote now
           (add_note DayEntry (''Level between '' @ join_with '' and '' (tied_names tied r1) @ ''. Again.'') r1))"

definition count_ejection :: "liars_role \<Rightarrow> liars_room \<Rightarrow> liars_room" where
  "count_ejection role' r =
     (if mode r \<noteq> ModeImposter then r
      else if liarsRoleSide role' = MafiaSide then r\<lparr>imposterEjections := Suc (imposterEjections r)\<rparr>
      else r\<lparr>crewEjections := Suc (crewEjections r)\<rparr>)"

definition eject :: "player_state \<Rightarrow> int \<Rightarrow> liars_room \<Rightarrow> liars_room" where
  "eject ejected now r =
     (let role' = role_or_villager ejected;
          r1 = kill (pid ejected) Ejected r;
          r2 = (if role' = Jester then r1\<lparr>ejectedJesterId := Some (pid ejected)\<rparr> else r1);
          r3 = count_ejection role' r2;
          (text, r4) = narrate (if liarsRoleSide role' = MafiaSide then NarrEjectedGuilty else NarrEjectedInnocent)
                         (no_slots\<lparr>slot_ejected := Some (pname ejected)\<rparr>) r3
      in enterPhase Verdict now (add_note DayEntry text r4))"

definition no_majority :: "int \<Rightarrow> liars_room \<Rightarrow> liars_room" where
  "no_majority now r =
     (case narrate NarrTie no_slots r of (text, r1) \<Rightarrow> enterPhase Verdict now (add_note DayEntry text r1))"

definition resolveVote :: "int \<Rightarrow> liars_room \<Rightarrow> liars_room" where
  "resolveVote now r =
     (let ballots = day_ballots r;
          ejected = player_by_ref r (liarsPlurality ballots);
          r1 = r\<lparr>lastEjectedName := map_option pname ejected, ejectedJesterId := None\<rparr>
      in case ejected of
           Some p \<Rightarrow> eject p now r1
         | None \<Rightarrow>
             (let tied = tiedIds ballots
              in if \<not> revoteUsed r1 \<and> 1 < length tied then start_runoff tied now r1
                 else no_majority now r1))"

section \<open>Rounds and clues\<close>

definition startClueRound :: "int \<Rightarrow> liars_room \<Rightarrow> liars_room" where
  "startClueRound now r =
     (case shuffle pick (map pid (living r)) r of (order, r1) \<Rightarrow>
        enterPhase Clue now
          (r1\<lparr>clueOrder := order, clueIndex := 0, clueRound := Suc (clueRound r1), clueFinishedBy := []\<rparr>))"

definition startRound :: "int \<Rightarrow> liars_room \<Rightarrow> liars_room" where
  "startRound now r =
     (let r1 = (clearRoundState (r\<lparr>roundNo := Suc (roundNo r)\<rparr>))\<lparr>dawn := None\<rparr>
      in if mode r1 = ModeImposter then startClueRound now r1 else enterPhase Night now r1)"

definition clueRoundsBeforeVote :: "liars_room \<Rightarrow> nat" where
  "clueRoundsBeforeVote r = (if length (players r) \<le> 7 \<and> roundNo r = 1 then 2 else 1)"

text \<open>At a table, running out of time ends the whole circle.\<close>

definition clue_moved :: "int \<Rightarrow> liars_room \<Rightarrow> liars_room" where
  "clue_moved now r =
     (if roomMode r \<noteq> Remote \<and> phaseEndsAt r \<le> now
      then r\<lparr>clueIndex := length (clueOrder r)\<rparr> else r\<lparr>clueIndex := Suc (clueIndex r)\<rparr>)"

definition advanceClue :: "int \<Rightarrow> liars_room \<Rightarrow> liars_room" where
  "advanceClue now r =
     (let r1 = clue_moved now r
      in if clueIndex r1 < length (clueOrder r1)
         then changed (r1\<lparr>phaseStartedAt := now, phaseEndsAt := now + t_clueTurn (timings r1)\<rparr>)
         else if clueRound r1 < clueRoundsBeforeVote r1 then startClueRound now r1
         else enterPhase Deliberation now r1)"

section \<open>The verdict and the last guess\<close>

definition lastImposterJustEjected :: "liars_room \<Rightarrow> bool" where
  "lastImposterJustEjected r \<longleftrightarrow>
     \<not> list_ex is_mafia (living r) \<and> 0 < imposterEjections r \<and> finalGuessCorrect r = None"

definition afterVerdict :: "int \<Rightarrow> liars_room \<Rightarrow> liars_room" where
  "afterVerdict now r =
     (case checkWinner now (ejectedJesterId r) r of (r1, won) \<Rightarrow>
        (if won then r1
         else if mode r1 = ModeImposter \<and> lastImposterJustEjected r1
         then enterPhase FinalGuess now (r1\<lparr>finalGuessCorrect := None\<rparr>)
         else startRound now r1))"

definition resolveFinalGuess :: "int \<Rightarrow> js_string option \<Rightarrow> liars_room \<Rightarrow> liars_room" where
  "resolveFinalGuess now guess r =
     (let target = to_lower (js_trim (nullish (roomWord r) []));
          attempt = to_lower (js_trim (nullish guess []));
          right = (attempt \<noteq> [] \<and> attempt = target);
          word = nullish (roomWord r) ''null'';
          r1 = add_note DayEntry
                 ((if right then ''They named it. The word was '' else ''They could not name it. The word was '')
                  @ word @ ''.'')
                 (r\<lparr>finalGuessCorrect := Some right\<rparr>);
          (r2, won) = checkWinner now None r1
      in if won then r2 else finish Town now r2)"

section \<open>The lazy advance\<close>

text \<open>What the switch does with a phase whose time is up; \<^verbatim>\<open>None\<close> is the \<^verbatim>\<open>default\<close> branch.\<close>

definition phase_step :: "liars_room \<Rightarrow> liars_room option" where
  "phase_step r =
     (let now = phaseEndsAt r in
      case phase r of
        Deal \<Rightarrow> Some (startRound now r)
      | Night \<Rightarrow> Some (resolveNight now r)
      | Clue \<Rightarrow> Some (advanceClue now r)
      | Dawn \<Rightarrow> Some (enterPhase Deliberation now r)
      | Deliberation \<Rightarrow> Some (enterPhase Vote now r)
      | Vote \<Rightarrow> Some (resolveVote now r)
      | Verdict \<Rightarrow> Some (afterVerdict now r)
      | FinalGuess \<Rightarrow> Some (resolveFinalGuess now None r)
      | Lobby \<Rightarrow> None
      | Ending \<Rightarrow> None)"

text \<open>The bounded loop; the fuel is the code's own \<^verbatim>\<open>guard\<close>.\<close>

fun advance_loop :: "nat \<Rightarrow> int \<Rightarrow> liars_room \<Rightarrow> liars_room" where
  "advance_loop 0 now r = r"
| "advance_loop (Suc g) now r =
     (if winner r \<noteq> None then r
      else if now < phaseEndsAt r
      then (if phase r = Night \<and> (case reportAt r of None \<Rightarrow> False | Some t \<Rightarrow> t \<le> now)
            then writeNightReports r else r)
      else case phase_step r of None \<Rightarrow> r | Some r' \<Rightarrow> advance_loop g now r')"

definition shift_dawn :: "int \<Rightarrow> dawn_snapshot \<Rightarrow> dawn_snapshot" where
  "shift_dawn d w =
     w\<lparr>dw_nameLandsAt := dw_nameLandsAt w + d, dw_holdUntil := dw_holdUntil w + d,
       dw_settleAt := dw_settleAt w + d, dw_reviveAt := map_option (\<lambda>t. t + d) (dw_reviveAt w)\<rparr>"

text \<open>A room nobody was connected to moves its clocks forward by the time it was dormant.\<close>

definition shift_clocks :: "int \<Rightarrow> liars_room \<Rightarrow> liars_room" where
  "shift_clocks d r =
     changed (r\<lparr>phaseStartedAt := phaseStartedAt r + d, phaseEndsAt := phaseEndsAt r + d,
                nightOpensAt := map_option (\<lambda>t. t + d) (nightOpensAt r),
                reportAt := map_option (\<lambda>t. t + d) (reportAt r),
                dawn := map_option (shift_dawn d) (dawn r)\<rparr>)"

definition advance :: "int \<Rightarrow> int \<Rightarrow> liars_room \<Rightarrow> liars_room" where
  "advance now idleFor r =
     (if phase r = Lobby \<or> phase r = Ending then r
      else if pausedAt r \<noteq> None then r
      else let dormant = max 0 (idleFor - LIARS_CONNECTED_WINDOW_MS);
               r1 = (if 0 < dormant then shift_clocks dormant r else r)
           in advance_loop 8 now r1)"

end
