(* ===== verification/GameEngine.thy ===== *)
theory GameEngine
  imports Complex_Main Multiplayer
begin

text \<open>
  The pure shell around the authoritative reducers (\<^verbatim>\<open>features/things/shared/game-engine.ts\<close>):
  versioned commands, the random source of a game context and \<^verbatim>\<open>applyGameCommand\<close>, with the
  contract a reducer keeps towards the memory of processed actions.
\<close>

section \<open>Game contexts and their random source\<close>

record game_context =
  ctx_now :: int
  ctx_randomValues :: "rat list"
  ctx_newId :: js_string

datatype range_error = BadUpperBound | NoRandomValues | RandomValueOutOfRange

text \<open>
  \<^verbatim>\<open>gameRandomInt(context)\<close> returns a closure; its captured cursor is an argument and a result
  here. Each thrown \<^verbatim>\<open>RangeError\<close> is a value.
\<close>

definition gameRandomInt :: "game_context \<Rightarrow> nat \<Rightarrow> int \<Rightarrow> range_error + (int \<times> nat)" where
  "gameRandomInt ctx cursor upperBound =
     (if upperBound \<le> 0 then Inl BadUpperBound
      else if ctx_randomValues ctx = [] then Inl NoRandomValues
      else let value = ctx_randomValues ctx ! (cursor mod length (ctx_randomValues ctx))
           in if value < 0 \<or> 1 \<le> value then Inl RandomValueOutOfRange
              else Inr (\<lfloor>value * of_int upperBound\<rfloor>, Suc cursor))"

text \<open>\<^verbatim>\<open>liveGameContext\<close>: a clock reading, a fresh id and 32-bit samples divided by \<^verbatim>\<open>2^32\<close>.\<close>

definition liveGameContext :: "int \<Rightarrow> js_string \<Rightarrow> 32 word list \<Rightarrow> game_context" where
  "liveGameContext now newId samples =
     \<lparr>ctx_now = now, ctx_randomValues = map (\<lambda>v. of_nat (unat v) / 2 ^ 32) samples, ctx_newId = newId\<rparr>"

text \<open>The samples of a live context as the endless cyclic sequence the closure reads.\<close>

definition cyclic_draws :: "32 word list \<Rightarrow> nat \<Rightarrow> 32 word" where
  "cyclic_draws samples k = samples ! (k mod length samples)"

lemma floor_scale:
  "\<lfloor>(of_nat a / 2 ^ 32 :: rat) * of_int (int n)\<rfloor> = int (a * n div 2 ^ 32)"
proof -
  have "(of_nat a / 2 ^ 32 :: rat) * of_int (int n) = of_int (int (a * n)) / of_int (2 ^ 32)"
    by simp
  then have "\<lfloor>(of_nat a / 2 ^ 32 :: rat) * of_int (int n)\<rfloor> = int (a * n) div 2 ^ 32"
    by (simp only: floor_divide_of_int_eq)
  then show ?thesis by (simp add: zdiv_int)
qed

lemma fraction_range: "k < 2 ^ 32 \<Longrightarrow> (0::rat) \<le> of_nat k / 2 ^ 32 \<and> of_nat k / 2 ^ 32 < (1::rat)"
proof -
  assume "k < 2 ^ 32"
  then have "(of_nat k :: rat) < of_nat (2 ^ 32)" by (simp only: of_nat_less_iff)
  then show ?thesis by simp
qed

lemma unat_32_below: "unat (v :: 32 word) < 2 ^ 32"
proof -
  have "unat v < 2 ^ LENGTH(32)" by (rule unsigned_less)
  then show ?thesis by simp
qed

text \<open>
  On a live context the closure never throws, and it computes the model's draw: this links the
  total \<^verbatim>\<open>pick\<close> of the reducers to the code's partial one.
\<close>

lemma gameRandomInt_live:
  assumes "samples \<noteq> []" and "0 < n"
  shows "gameRandomInt (liveGameContext now newId samples) cursor (int n) =
           Inr (int (scale_draw (cyclic_draws samples cursor) n), Suc cursor)"
proof -
  let ?v = "samples ! (cursor mod length samples)"
  have nth: "map (\<lambda>v. of_nat (unat v) / 2 ^ 32 :: rat) samples ! (cursor mod length samples)
      = of_nat (unat ?v) / 2 ^ 32"
    using assms(1) by simp
  have r: "\<not> (of_nat (unat ?v) / 2 ^ 32 < (0::rat) \<or> (1::rat) \<le> of_nat (unat ?v) / 2 ^ 32)"
    using fraction_range [OF unat_32_below [of ?v]] by linarith
  have "gameRandomInt (liveGameContext now newId samples) cursor (int n) =
      Inr (\<lfloor>(of_nat (unat ?v) / 2 ^ 32 :: rat) * of_int (int n)\<rfloor>, Suc cursor)"
    using assms r by (simp add: gameRandomInt_def liveGameContext_def Let_def)
  then show ?thesis
    by (simp only: floor_scale scale_draw_def cyclic_draws_def)
qed

section \<open>Commands, events and the shell\<close>

record ('act, 'actor) game_command =
  cmd_game :: js_string
  cmd_actionId :: js_string
  cmd_actor :: 'actor
  cmd_action :: 'act

datatype command_event_type = CommandAccepted | CommandReplayed | CommandRejected

record command_event =
  ev_game :: js_string
  ev_type :: command_event_type
  ev_actionId :: js_string
  ev_occurredAt :: int

definition versionGameCommand ::
  "js_string \<Rightarrow> js_string \<Rightarrow> 'actor \<Rightarrow> 'act \<Rightarrow> ('act, 'actor) game_command" where
  "versionGameCommand game actionId actor action =
     \<lparr>cmd_game = game, cmd_actionId = actionId, cmd_actor = actor, cmd_action = action\<rparr>"

definition gameCommandEvent :: "js_string \<Rightarrow> command_event_type \<Rightarrow> js_string \<Rightarrow> int \<Rightarrow> command_event" where
  "gameCommandEvent game type actionId now =
     \<lparr>ev_game = game, ev_type = type, ev_actionId = actionId, ev_occurredAt = now\<rparr>"

text \<open>
  The reducer works on a structured clone and returns it: no state is shared, so the clone is
  the value itself. It returns the domain events it emitted as well; the shell appends its own
  event to them.
\<close>

datatype 'ev game_event = DomainEvent 'ev | CommandEvent command_event

definition applyGameCommand ::
  "('st \<Rightarrow> js_string list) \<Rightarrow> 'st \<Rightarrow> ('act, 'actor) game_command \<Rightarrow> int \<Rightarrow> ('st \<Rightarrow> 'st \<times> 'ev list \<times> 'out) \<Rightarrow>
   'st \<times> 'ev game_event list \<times> 'out" where
  "applyGameCommand processedActions state command now reduce =
     (let seenBefore = cmd_actionId command \<in> set (processedActions state);
          (draft, events, output) = reduce state;
          seenAfter = cmd_actionId command \<in> set (processedActions draft);
          type = (if seenBefore then CommandReplayed
                  else if seenAfter then CommandAccepted else CommandRejected)
      in (draft,
          map DomainEvent events @ [CommandEvent (gameCommandEvent (cmd_game command) type (cmd_actionId command) now)],
          output))"

text \<open>A reducer that emits no event of its own.\<close>

definition silent :: "('st \<Rightarrow> 'st \<times> 'out) \<Rightarrow> 'st \<Rightarrow> 'st \<times> unit list \<times> 'out" where
  "silent f state = (case f state of (draft, output) \<Rightarrow> (draft, [], output))"

section \<open>The contract between a reducer and the memory of processed actions\<close>

text \<open>
  What every reducer promises: an accepted action is recorded (an action already recorded may be
  left where it is) and a rejected one not at all. The shell's events, the bound on the memory and the safety of a retry follow.
\<close>

locale command_reducer =
  fixes processed :: "'st \<Rightarrow> js_string list"
    and reduce :: "'inp \<Rightarrow> 'st \<Rightarrow> 'st \<times> 'out"
    and action_id :: "'inp \<Rightarrow> js_string"
    and accepted :: "'out \<Rightarrow> bool"
  assumes accepted_recorded:
      "accepted (snd (reduce i s)) \<Longrightarrow>
         processed (fst (reduce i s)) = rememberMultiplayerAction (processed s) (action_id i) \<or>
         multiplayerActionSeen (processed s) (action_id i) \<and> processed (fst (reduce i s)) = processed s"
    and rejected_unrecorded:
      "\<not> accepted (snd (reduce i s)) \<Longrightarrow> processed (fst (reduce i s)) = processed s"
begin

primrec run :: "'inp list \<Rightarrow> 'st \<Rightarrow> 'st" where
  "run [] s = s"
| "run (i # is) s = run is (fst (reduce i s))"

lemma processed_cases:
  "processed (fst (reduce i s)) = processed s \<or>
   processed (fst (reduce i s)) = rememberMultiplayerAction (processed s) (action_id i)"
  using accepted_recorded [of i s] rejected_unrecorded [of i s] by metis

lemma accepted_seen:
  "accepted (snd (reduce i s)) \<Longrightarrow>
   multiplayerActionSeen (processed (fst (reduce i s))) (action_id i)"
  using accepted_recorded [of i s] by (auto simp: remembered_seen)

lemma event_type:
  assumes "reduce i s = (s', out)" and "emit s = (s', events, out)"
  shows "\<exists>e. last (fst (snd (applyGameCommand processed s c now emit))) = CommandEvent e \<and>
     ev_type e = (if cmd_actionId c \<in> set (processed s) then CommandReplayed
                  else if cmd_actionId c \<in> set (processed s') then CommandAccepted else CommandRejected)"
  using assms by (simp add: applyGameCommand_def gameCommandEvent_def Let_def)

lemma event_accepted_iff:
  assumes "cmd_actionId c = action_id i" and "emit s = (fst (reduce i s), events, snd (reduce i s))"
  shows "\<exists>e. last (fst (snd (applyGameCommand processed s c now emit))) = CommandEvent e \<and>
           (ev_type e = CommandAccepted \<longleftrightarrow> action_id i \<notin> set (processed s) \<and> accepted (snd (reduce i s)))"
proof -
  obtain e where "last (fst (snd (applyGameCommand processed s c now emit))) = CommandEvent e"
    and "ev_type e = (if cmd_actionId c \<in> set (processed s) then CommandReplayed
                  else if cmd_actionId c \<in> set (processed (fst (reduce i s))) then CommandAccepted else CommandRejected)"
    using event_type [of i s "fst (reduce i s)" "snd (reduce i s)" emit events c now] assms(2) by auto
  then show ?thesis
    using assms(1) accepted_seen [of i s] rejected_unrecorded [of i s]
    by (cases "accepted (snd (reduce i s))") (auto simp: multiplayerActionSeen_def)
qed

lemma memory_bounded_step:
  "length (processed s) \<le> 300 \<Longrightarrow> length (processed (fst (reduce i s))) \<le> 300"
  using processed_cases [of i s] remember_bounded by metis

lemma memory_distinct_step:
  "distinct (processed s) \<Longrightarrow> distinct (processed (fst (reduce i s)))"
  using processed_cases [of i s] remember_distinct by metis

lemma memory_bounded_run: "length (processed s) \<le> 300 \<Longrightarrow> length (processed (run is s)) \<le> 300"
  by (induction "is" arbitrary: s) (auto simp: memory_bounded_step)

lemma memory_distinct_run: "distinct (processed s) \<Longrightarrow> distinct (processed (run is s))"
  by (induction "is" arbitrary: s) (auto simp: memory_distinct_step)

text \<open>Only ids that were sent can be in the memory.\<close>

lemma memory_subset_run:
  "set (processed (run is s)) \<subseteq> set (processed s) \<union> action_id ` set is"
proof (induction "is" arbitrary: s)
  case (Cons i "is")
  have "set (processed (fst (reduce i s))) \<subseteq> insert (action_id i) (set (processed s))"
    using processed_cases [of i s] remember_subset [of "processed s" "action_id i"] by auto
  with Cons.IH [of "fst (reduce i s)"] show ?case by auto
qed simp

end

end
