(* ===== verification/LiarsHost.thy ===== *)
theory LiarsHost
  imports LiarsDay GameEngine
begin

text \<open>
  Presence, the deal and the host's actions (\<^verbatim>\<open>liars-room-engine.server.ts\<close>: \<^verbatim>\<open>touch\<close>,
  \<^verbatim>\<open>dealGame\<close> and the reducer of \<^verbatim>\<open>applyLiarsHostAction\<close>). A reducer maps a room to a room and a
  verdict; the snapshot the code attaches to the verdict is taken of the resulting room.
\<close>

section \<open>Verdicts\<close>

datatype rejection_code =
  ActionUnavailable | NotAlive | InvalidTarget | PlayersNotReady | LineupInvalid | PhaseEnded
| AlreadyLocked | NotYourTurn | NotHost

text \<open>\<^verbatim>\<open>failure(...)\<close>, \<^verbatim>\<open>reject(view, code, error, retryable)\<close> and \<^verbatim>\<open>accept(view)\<close>.\<close>

datatype verdict = VFail | VReject rejection_code js_string bool | VAccept

definition accepted :: "verdict \<Rightarrow> bool" where
  "accepted v \<longleftrightarrow> v = VAccept"

lemma accepted_simps [simp]: "accepted VAccept" "\<not> accepted VFail" "\<not> accepted (VReject c m b)"
  by (simp_all add: accepted_def)

text \<open>\<^verbatim>\<open>remembered()\<close>: an accepted action is written to the memory of processed actions.\<close>

definition remembered :: "js_string \<Rightarrow> liars_room \<times> verdict \<Rightarrow> liars_room \<times> verdict" where
  "remembered actionId st =
     (case st of (r, v) \<Rightarrow>
        (if accepted v
         then (r\<lparr>processedActions := rememberMultiplayerAction (processedActions r) actionId\<rparr>, v)
         else (r, v)))"

section \<open>Authentication and presence\<close>

definition authenticate :: "js_string \<Rightarrow> js_string option \<Rightarrow> liars_room \<Rightarrow> bool" where
  "authenticate credential playerId r =
     (case player_by_ref r playerId of
        Some p \<Rightarrow> leftAt p = None \<and> multiplayerCredentialsMatch r credential (tokenHash p)
      | None \<Rightarrow> multiplayerCredentialsMatch r credential (hostHash r))"

definition touch :: "js_string option \<Rightarrow> int \<Rightarrow> bool \<Rightarrow> liars_room \<Rightarrow> int \<times> liars_room" where
  "touch playerId now force r =
     (let idleFor = max 0 (now - (if lastActiveAt r = 0 then now else lastActiveAt r));
          player = player_by_ref r playerId;
          r1 = (case player of
                  None \<Rightarrow> r
                | Some p \<Rightarrow> upd_player (pid p)
                    (\<lambda>q. q\<lparr>lastSeenAt := fst (touchMultiplayerPresence (lastSeenAt q) now force)\<rparr>) r);
          r2 = (if force \<or> player = None \<or>
                   MULTIPLAYER_PRESENCE_TOUCH_INTERVAL_MS \<le> now - lastActiveAt r1
                then r1\<lparr>lastActiveAt := now\<rparr> else r1);
          r3 = r2\<lparr>hostDisconnectedSince :=
                 (case player_by_ref r2 (hostPlayerId r2) of
                    None \<Rightarrow> None
                  | Some h \<Rightarrow> if connected_player h now then None
                              else Some (nullish (hostDisconnectedSince r2) now))\<rparr>;
          eligible = filter (\<lambda>p. connected_player p now) (players r3);
          r4 = (if \<not> truthy (narratorPlayerId r3) \<or>
                   \<not> list_ex (\<lambda>p. Some (pid p) = narratorPlayerId r3) eligible
                then r3\<lparr>narratorPlayerId := (case eligible of [] \<Rightarrow> None | p # _ \<Rightarrow> Some (pid p))\<rparr>
                else r3)
      in (idleFor, r4))"

section \<open>The deal\<close>

definition player_word :: "liars_room \<Rightarrow> liars_role option \<Rightarrow> js_string option" where
  "player_word r role' =
     (if mode r \<noteq> ModeImposter then None
      else if role' = Some Imposter then None
      else if role' = Some Understudy then decoyWord r else roomWord r)"

definition deal_player ::
  "liars_room \<Rightarrow> (js_string \<Rightarrow> liars_role option) \<Rightarrow> player_state \<Rightarrow> player_state" where
  "deal_player r dealt p =
     p\<lparr>role := dealt (pid p), alive := True, deathRound := None, deathCause := None, savedCount := 0,
       knowledge := [], lastWords := None, graveyardVote := None, vigilanteUsed := False,
       guiltPending := False, previousNightTarget := None, pword := player_word r (dealt (pid p))\<rparr>"

definition previous_roles :: "liars_room \<Rightarrow> (js_string \<Rightarrow> liars_role option) option" where
  "previous_roles r =
     (if list_ex (\<lambda>p. previousRole p \<noteq> None) (players r)
      then Some (\<lambda>i. case player_by_id r i of None \<Rightarrow> None | Some p \<Rightarrow> previousRole p)
      else None)"

text \<open>The word, the decoy and the board of an imposter game.\<close>

definition deal_words :: "liars_room \<Rightarrow> liars_room" where
  "deal_words r =
     (if mode r \<noteq> ModeImposter
      then r\<lparr>roomWord := None, decoyWord := None, wordCategory := None, wordBoard := []\<rparr>
      else
      let (pair, r1) = liarsWordPair (recentWords r) r;
          r2 = r1\<lparr>roomWord := Some (wp_word pair), decoyWord := Some (wp_decoy pair),
                  wordCategory := Some (wp_category pair)\<rparr>;
          (board, r3) = liarsBoard pair (Some (wp_decoy pair)) r2
      in r3\<lparr>wordBoard := board, recentWords := take_last 40 (recentWords r3 @ [wp_word pair])\<rparr>)"

definition dealGame :: "int \<Rightarrow> liars_room \<Rightarrow> liars_room" where
  "dealGame now r =
     (let (dealt, r1) = liarsDealRoles (lineup r) (map pid (players r)) (previous_roles r) r;
          r2 = deal_words (r1\<lparr>graveyardBoard := []\<rparr>);
          r3 = r2\<lparr>players := map (deal_player r2 dealt) (players r2)\<rparr>
      in enterPhase Deal now
           (r3\<lparr>roundNo := 0, history := [], dawn := None, crewEjections := 0, imposterEjections := 0,
               finalGuessCorrect := None, ejectedJesterId := None, winner := None, clueRound := 0\<rparr>))"

section \<open>Host actions\<close>

datatype toggle_key =
  KAnnounceAttackTarget | KRevealRoleOnDeath | KRevealEjectedRole | KJesterEndsGame
| KDoctorRepeatTarget | KColdOpen | KBlindImposters | KWordBoard | KSimultaneousClues
| KCameraTorch | KLastWords | KGraveyardVote | KLiveGodView | KFirstGame

datatype timing_key =
  KDeal | KNight | KDawn | KDeliberation | KVote | KVerdict | KFinalGuess | KClueTurn

text \<open>\<^verbatim>\<open>Partial<LiarsToggles>\<close> and \<^verbatim>\<open>Partial<LiarsTimings>\<close>, and the object spreads that apply them.\<close>

type_synonym toggles_patch = "toggle_key \<Rightarrow> bool option"
type_synonym timings_patch = "timing_key \<Rightarrow> int option"

definition spread_toggles :: "liars_toggles \<Rightarrow> toggles_patch \<Rightarrow> liars_toggles" where
  "spread_toggles t p =
     \<lparr>announceAttackTarget = nullish (p KAnnounceAttackTarget) (announceAttackTarget t),
      revealRoleOnDeath = nullish (p KRevealRoleOnDeath) (revealRoleOnDeath t),
      revealEjectedRole = nullish (p KRevealEjectedRole) (revealEjectedRole t),
      jesterEndsGame = nullish (p KJesterEndsGame) (jesterEndsGame t),
      doctorRepeatTarget = nullish (p KDoctorRepeatTarget) (doctorRepeatTarget t),
      coldOpen = nullish (p KColdOpen) (coldOpen t),
      blindImposters = nullish (p KBlindImposters) (blindImposters t),
      wordBoardOn = nullish (p KWordBoard) (wordBoardOn t),
      simultaneousClues = nullish (p KSimultaneousClues) (simultaneousClues t),
      cameraTorch = nullish (p KCameraTorch) (cameraTorch t),
      lastWordsOn = nullish (p KLastWords) (lastWordsOn t),
      graveyardVoteOn = nullish (p KGraveyardVote) (graveyardVoteOn t),
      liveGodView = nullish (p KLiveGodView) (liveGodView t),
      firstGame = nullish (p KFirstGame) (firstGame t)\<rparr>"

definition spread_timings :: "liars_timings \<Rightarrow> timings_patch \<Rightarrow> liars_timings" where
  "spread_timings t p =
     \<lparr>t_deal = nullish (p KDeal) (t_deal t), t_night = nullish (p KNight) (t_night t),
      t_dawn = nullish (p KDawn) (t_dawn t),
      t_deliberation = nullish (p KDeliberation) (t_deliberation t),
      t_vote = nullish (p KVote) (t_vote t), t_verdict = nullish (p KVerdict) (t_verdict t),
      t_finalGuess = nullish (p KFinalGuess) (t_finalGuess t),
      t_clueTurn = nullish (p KClueTurn) (t_clueTurn t)\<rparr>"

record configure_patch =
  cf_lineup :: "liars_lineup option"
  cf_resetLineup :: bool
  cf_toggles :: "toggles_patch option"
  cf_timings :: "timings_patch option"
  cf_roomMode :: "liars_room_mode option"

datatype liars_host_action =
  GameConfigure configure_patch
| GameStart "js_string list option"
| RoomAdmissionSet bool
| PhaseExtend
| PhasePause
| PhaseResume
| PlayerRemove js_string
| HostPass js_string
| GameReplay
| GameLobby
| GameEnd

record host_input =
  hi_hostToken :: "js_string option"
  hi_playerId :: "js_string option"
  hi_playerToken :: "js_string option"
  hi_actionId :: js_string
  hi_action :: liars_host_action
  hi_now :: int
  hi_newId :: js_string

definition player_count :: "liars_room \<Rightarrow> int" where
  "player_count r = int (length (players r))"

definition proposed_lineup :: "bool \<Rightarrow> liars_room \<Rightarrow> liars_lineup" where
  "proposed_lineup first r =
     (if first then liarsFirstGameLineup (mode r) (player_count r)
      else liarsDefaultLineup (mode r) (player_count r) None)"

definition reset_lineup :: "liars_room \<Rightarrow> liars_room" where
  "reset_lineup r = r\<lparr>lineup := proposed_lineup (firstGame (toggles r)) r, lineupCustom := False\<rparr>"

definition host_admission :: "bool \<Rightarrow> liars_room \<Rightarrow> liars_room \<times> verdict" where
  "host_admission locked r =
     (if phase r \<noteq> Lobby
      then (r, VReject ActionUnavailable ''The room only locks in the lobby'' False)
      else if joinLocked r \<noteq> Some locked then (changed (r\<lparr>joinLocked := Some locked\<rparr>), VAccept)
      else (r, VAccept))"

definition configure_roomMode :: "liars_room_mode option \<Rightarrow> liars_room \<Rightarrow> liars_room" where
  "configure_roomMode rm r =
     (case rm of
        None \<Rightarrow> r
      | Some m \<Rightarrow> r\<lparr>roomMode := m,
           timings := (timings r)\<lparr>t_deliberation := t_deliberation (liarsDefaultTimings m)\<rparr>\<rparr>)"

definition configure_toggles :: "toggles_patch option \<Rightarrow> liars_room \<Rightarrow> liars_room" where
  "configure_toggles tp r =
     (case tp of
        None \<Rightarrow> r
      | Some p \<Rightarrow>
          (let r1 = r\<lparr>toggles := spread_toggles (toggles r) p\<rparr>;
               r2 = (if liveGodView (toggles r1)
                     then r1\<lparr>toggles := (toggles r1)\<lparr>graveyardVoteOn := False\<rparr>\<rparr> else r1)
           in case p KFirstGame of
                None \<Rightarrow> r2
              | Some first \<Rightarrow> r2\<lparr>lineup := proposed_lineup first r2\<rparr>))"

definition configure_timings :: "timings_patch option \<Rightarrow> liars_room \<Rightarrow> liars_room" where
  "configure_timings tp r =
     (case tp of None \<Rightarrow> r | Some p \<Rightarrow> r\<lparr>timings := spread_timings (timings r) p\<rparr>)"

definition host_configure :: "configure_patch \<Rightarrow> liars_room \<Rightarrow> liars_room \<times> verdict" where
  "host_configure c r =
     (if managed r then (r, VReject ActionUnavailable ''The game-night settings are fixed'' False)
      else if phase r \<noteq> Lobby
      then (r, VReject ActionUnavailable ''The game has already started'' False)
      else
      let r1 = configure_timings (cf_timings c)
                 (configure_toggles (cf_toggles c) (configure_roomMode (cf_roomMode c) r));
          r2 = (if cf_resetLineup c then changed (reset_lineup r1) else r1)
      in case cf_lineup c of
           None \<Rightarrow> (changed r2, VAccept)
         | Some l \<Rightarrow>
             (case liarsValidateLineup (mode r2) l (player_count r2) of
                Inl problem \<Rightarrow> (r2, VReject LineupInvalid (snd problem) False)
              | Inr _ \<Rightarrow> (changed (r2\<lparr>lineup := l, lineupCustom := True\<rparr>), VAccept)))"

text \<open>The unready players the start may not simply remove.\<close>

definition unconfirmed_player :: "liars_room \<Rightarrow> js_string list \<Rightarrow> player_state \<Rightarrow> bool" where
  "unconfirmed_player r confirmed p \<longleftrightarrow>
     \<not> multiplayerPlayerReady p \<and>
     (Some (pid p) = hostPlayerId r \<or> pid p \<notin> set confirmed \<or> \<not> truthy (startRequestId p))"

definition needs_players :: "liars_room \<Rightarrow> js_string \<Rightarrow> js_string" where
  "needs_players r what =
     LIARS_MODE_NAME (mode r) @ '' needs '' @ int_str (LIARS_MIN_PLAYERS (mode r)) @ what"

definition start_refused :: "js_string \<Rightarrow> js_string list \<Rightarrow> liars_room \<Rightarrow> liars_room \<times> verdict" where
  "start_refused newId confirmed r =
     (let names = map pname (filter (unconfirmed_player r confirmed) (players r));
          (ps, nudged) = requestMultiplayerReadiness (unconfirmed_player r confirmed)
                           (newId @ '':readiness'') (wall_clock r) (players r);
          r1 = r\<lparr>players := ps\<rparr>
      in (if nudged then changed r1 else r1,
          VReject PlayersNotReady
            (join_with '', '' names @ (if length names = 1 then '' is not ready'' else '' are not ready''))
            True))"

definition host_start :: "js_string \<Rightarrow> int \<Rightarrow> js_string list option \<Rightarrow> liars_room \<Rightarrow> liars_room \<times> verdict" where
  "host_start newId now removePlayerIds r =
     (if phase r \<noteq> Lobby
      then (r, VReject ActionUnavailable ''The game has already started'' False)
      else if player_count r < LIARS_MIN_PLAYERS (mode r)
      then (r, VReject ActionUnavailable (needs_players r '' players'') True)
      else
      case liarsValidateLineup (mode r) (lineup r) (player_count r) of
        Inl problem \<Rightarrow> (r, VReject LineupInvalid (snd problem) False)
      | Inr _ \<Rightarrow>
      (let confirmed = nullish removePlayerIds [] in
       if list_ex (unconfirmed_player r confirmed) (players r) then start_refused newId confirmed r
       else
       let remaining = filter (\<lambda>p. multiplayerPlayerReady p \<or> pid p \<notin> set confirmed) (players r) in
       if int (length remaining) < LIARS_MIN_PLAYERS (mode r)
       then (r, VReject ActionUnavailable (needs_players r '' ready players'') True)
       else
       let r1 = (if length remaining \<noteq> length (players r)
                 then changed (reset_lineup (r\<lparr>players := remaining\<rparr>)) else r)
       in (dealGame now r1, VAccept)))"

definition host_resume :: "int \<Rightarrow> liars_room \<Rightarrow> liars_room" where
  "host_resume now r =
     (case pausedAt r of
        None \<Rightarrow> r
      | Some t \<Rightarrow>
          (let shift = now - t in
           changed (r\<lparr>phaseStartedAt := phaseStartedAt r + shift, phaseEndsAt := phaseEndsAt r + shift,
                      nightOpensAt := map_option (\<lambda>x. x + shift) (nightOpensAt r),
                      reportAt := map_option (\<lambda>x. x + shift) (reportAt r), pausedAt := None\<rparr>)))"

definition has_not_left :: "player_state \<Rightarrow> bool" where
  "has_not_left p \<longleftrightarrow> (case leftAt p of None \<Rightarrow> True | Some t \<Rightarrow> t = 0)"

definition host_pass :: "js_string \<Rightarrow> liars_room \<Rightarrow> liars_room \<times> verdict" where
  "host_pass playerId r =
     (case find (\<lambda>p. pid p = playerId \<and> has_not_left p) (players r) of
        None \<Rightarrow> (r, VReject InvalidTarget ''No such player'' False)
      | Some target \<Rightarrow> (changed (r\<lparr>hostPlayerId := Some (pid target)\<rparr>), VAccept))"

definition depart :: "int \<Rightarrow> js_string \<Rightarrow> player_state \<Rightarrow> player_state" where
  "depart now hashed p = p\<lparr>leftAt := Some now, tokenHash := hashed\<rparr>"

text \<open>The line about a departure, and the win check that follows it.\<close>

definition announce_departure :: "js_string \<Rightarrow> int \<Rightarrow> liars_room \<Rightarrow> liars_room" where
  "announce_departure name now r =
     (case narrate NarrLeft (no_slots\<lparr>slot_victim := Some name\<rparr>) r of
        (text, r1) \<Rightarrow> fst (checkWinner now None (add_note DayEntry text r1)))"

text \<open>The room after a hand-over of the departing player's host or narrator duty.\<close>

definition hand_over :: "js_string \<Rightarrow> int \<Rightarrow> liars_room \<Rightarrow> liars_room" where
  "hand_over i now r =
     changed (if hostPlayerId r = Some i then transferHost i now r else transferNarrator i now r)"

definition remove_from_lobby :: "js_string \<Rightarrow> liars_room \<Rightarrow> liars_room" where
  "remove_from_lobby i r =
     (let r1 = r\<lparr>players := filter (\<lambda>p. pid p \<noteq> i) (players r)\<rparr>
      in r1\<lparr>lineup := liarsDefaultLineup (mode r1) (max 1 (player_count r1)) None\<rparr>)"

definition host_remove :: "js_string \<Rightarrow> int \<Rightarrow> js_string \<Rightarrow> liars_room \<Rightarrow> liars_room \<times> verdict" where
  "host_remove newId now i r =
     (case player_by_id r i of
        None \<Rightarrow> (r, VReject InvalidTarget ''No such player'' False)
      | Some target \<Rightarrow>
          (let hashed = hashMultiplayerCredential r (newId @ '':removed:'' @ pid target);
               r1 = (if phase r = Lobby then remove_from_lobby i r
                     else if alive target
                     then announce_departure (pname target) now
                            (upd_player i (depart now hashed) (kill i LeftGame r))
                     else upd_player i (depart now hashed) r)
           in (hand_over i now r1, VAccept)))"

definition clear_for_rematch :: "player_state \<Rightarrow> player_state" where
  "clear_for_rematch p = p\<lparr>previousRole := role p, alive := True, role := None\<rparr>"

definition rematch :: "liars_room \<Rightarrow> liars_room" where
  "rematch r =
     reset_lineup (r\<lparr>players := map clear_for_rematch (filter (\<lambda>p. leftAt p = None) (players r)),
       gameNumber := Suc (gameNumber r), roundNo := 0, history := [], dawn := None, winner := None,
       recentNarrationIds := []\<rparr>)"

definition to_lobby :: "liars_room \<Rightarrow> liars_room" where
  "to_lobby r = changed (r\<lparr>players := map (setMultiplayerPlayerReady False) (players r), phase := Lobby\<rparr>)"

fun host_step :: "js_string \<Rightarrow> int \<Rightarrow> liars_host_action \<Rightarrow> liars_room \<Rightarrow> liars_room \<times> verdict" where
  "host_step newId now (RoomAdmissionSet locked) r = host_admission locked r"
| "host_step newId now (GameConfigure c) r = host_configure c r"
| "host_step newId now (GameStart removePlayerIds) r = host_start newId now removePlayerIds r"
| "host_step newId now PhaseExtend r = (changed (r\<lparr>phaseEndsAt := phaseEndsAt r + 30000\<rparr>), VAccept)"
| "host_step newId now PhasePause r = (changed (r\<lparr>pausedAt := Some now\<rparr>), VAccept)"
| "host_step newId now PhaseResume r = (host_resume now r, VAccept)"
| "host_step newId now (HostPass playerId) r = host_pass playerId r"
| "host_step newId now (PlayerRemove playerId) r = host_remove newId now playerId r"
| "host_step newId now GameReplay r = (dealGame now (rematch r), VAccept)"
| "host_step newId now GameLobby r = (to_lobby (rematch r), VAccept)"
| "host_step newId now GameEnd r = (finish (nullish (winner r) Town) now r, VAccept)"

text \<open>By the host token, or by the host player's own token.\<close>

definition host_authorised :: "host_input \<Rightarrow> liars_room \<Rightarrow> bool" where
  "host_authorised i r \<longleftrightarrow>
     (case hi_hostToken i of None \<Rightarrow> False | Some t \<Rightarrow> t \<noteq> [] \<and> multiplayerCredentialsMatch r t (hostHash r)) \<or>
     (case player_by_ref r (hi_playerId i) of
        None \<Rightarrow> False
      | Some actor \<Rightarrow>
          (case hi_playerToken i of
             None \<Rightarrow> False
           | Some t \<Rightarrow> t \<noteq> [] \<and> multiplayerCredentialsMatch r t (tokenHash actor) \<and>
                       Some (pid actor) = hostPlayerId r))"

text \<open>A caller's room after the touch and the lazy advance every authorised call runs first.\<close>

definition caught_up :: "js_string option \<Rightarrow> int \<Rightarrow> liars_room \<Rightarrow> liars_room" where
  "caught_up playerId now r = (case touch playerId now True r of (idleFor, r1) \<Rightarrow> advance now idleFor r1)"

definition liarsHostReduce :: "host_input \<Rightarrow> liars_room \<Rightarrow> liars_room \<times> verdict" where
  "liarsHostReduce i r =
     (if \<not> host_authorised i r then (r, VFail)
      else
      let r1 = caught_up (map_option pid (player_by_ref r (hi_playerId i))) (hi_now i) r in
      if multiplayerActionSeen (processedActions r1) (hi_actionId i) then (r1, VAccept)
      else remembered (hi_actionId i) (host_step (hi_newId i) (hi_now i) (hi_action i) r1))"

end
