(* ===== verification/LiarsPlayer.thy ===== *)
theory LiarsPlayer
  imports LiarsHost
begin

text \<open>
  The players' actions (\<^verbatim>\<open>liars-room-engine.server.ts\<close>: the reducer of
  \<^verbatim>\<open>applyLiarsPlayerAction\<close>). The handlers come in the order of the code's tests, since the
  tests above "You are dead" are open to the dead and those below it are not.
\<close>

datatype liars_player_action =
  RoomLeave
| PlayerRename js_string
| ReadinessSet bool
| HostClaim
| WordsLast js_string
| LineupWish liars_role bool
| GraveyardPin js_string
| GraveyardUnpin js_string
| GraveyardVote nat "js_string option"
| GuessFinal js_string
| NightSelect nat "js_string option"
| NightLock nat
| ClueSaid nat
| ClueSkip nat js_string
| ClueAllSaid nat
| DayPoint nat "js_string option"
| DayReadyToVote nat bool
| VoteCast nat "js_string option"
| VoteLock nat

record player_input =
  pi_playerId :: js_string
  pi_playerToken :: js_string
  pi_actionId :: js_string
  pi_action :: liars_player_action
  pi_now :: int
  pi_newId :: js_string

definition unavailable :: "js_string \<Rightarrow> liars_room \<Rightarrow> liars_room \<times> verdict" where
  "unavailable message r = (r, VReject ActionUnavailable message False)"

section \<open>Leaving, names, readiness, hosting\<close>

definition player_leave :: "js_string \<Rightarrow> int \<Rightarrow> player_state \<Rightarrow> liars_room \<Rightarrow> liars_room \<times> verdict" where
  "player_leave newId now p r =
     (let i = pid p;
          hashed = hashMultiplayerCredential r (newId @ '':left:'' @ i);
          r1 = (if phase r = Lobby
                then let r' = remove_from_lobby i r
                     in if players r' = [] then r'\<lparr>expiresAt := now\<rparr> else r'
                else upd_player i (depart now hashed)
                       (if alive p then announce_departure (pname p) now (kill i LeftGame r) else r))
      in (hand_over i now r1, VAccept))"

definition name_clash :: "js_string \<Rightarrow> js_string \<Rightarrow> liars_room \<Rightarrow> bool" where
  "name_clash i name r \<longleftrightarrow> list_ex (\<lambda>p. pid p \<noteq> i \<and> to_lower (pname p) = to_lower name) (players r)"

definition player_rename :: "js_string \<Rightarrow> player_state \<Rightarrow> liars_room \<Rightarrow> liars_room \<times> verdict" where
  "player_rename name p r =
     (if phase r \<noteq> Lobby then unavailable ''Names only change in the lobby'' r
      else if name_clash (pid p) name r then unavailable ''That name is already here'' r
      else (changed (upd_player (pid p) (\<lambda>q. setMultiplayerPlayerReady False (q\<lparr>pname := name\<rparr>)) r), VAccept))"

definition player_readiness :: "bool \<Rightarrow> player_state \<Rightarrow> liars_room \<Rightarrow> liars_room \<times> verdict" where
  "player_readiness b p r =
     (if phase r \<noteq> Lobby then unavailable ''Readiness only changes in the lobby'' r
      else if multiplayerPlayerReady p \<noteq> b
      then (changed (upd_player (pid p) (setMultiplayerPlayerReady b) r), VAccept)
      else (r, VAccept))"

definition player_claim :: "int \<Rightarrow> player_state \<Rightarrow> liars_room \<Rightarrow> liars_room \<times> verdict" where
  "player_claim now p r =
     (if (case hostDisconnectedSince r of None \<Rightarrow> True | Some t \<Rightarrow> now - t < LIARS_HOST_CLAIM_AFTER_MS)
      then unavailable ''The host is still here'' r
      else if \<not> alive p then (r, VReject NotAlive ''Only a living player can host'' False)
      else (changed (r\<lparr>hostPlayerId := Some (pid p), hostDisconnectedSince := None\<rparr>), VAccept))"

section \<open>The dead: last words, board, ballot, guess\<close>

definition player_last_words :: "js_string \<Rightarrow> player_state \<Rightarrow> liars_room \<Rightarrow> liars_room \<times> verdict" where
  "player_last_words words p r =
     (if \<not> alive p \<and> lastWordsOn (toggles r) \<and> lastWords p = None
      then let spoken = js_trim (take LIARS_LAST_WORDS_LENGTH words);
               r1 = upd_player (pid p) (\<lambda>q. q\<lparr>lastWords := Some spoken\<rparr>) r;
               r2 = (if spoken \<noteq> []
                     then r1\<lparr>dawn := map_option (\<lambda>d. d\<lparr>dw_lastWords :=
                            dw_lastWords d @ [\<lparr>lw_name = pname p, lw_text = spoken\<rparr>]\<rparr>) (dawn r1)\<rparr>
                     else r1)
           in (changed r2, VAccept)
      else unavailable ''Last words have closed'' r)"

definition player_wish :: "liars_role \<Rightarrow> bool \<Rightarrow> player_state \<Rightarrow> liars_room \<Rightarrow> liars_room \<times> verdict" where
  "player_wish role' wanted p r =
     (if phase r \<noteq> Lobby then (r, VAccept)
      else if (role' \<in> set (roleWishes p)) = wanted then (r, VAccept)
      else (changed (upd_player (pid p) (\<lambda>q. q\<lparr>roleWishes :=
              (if wanted then roleWishes q @ [role'] else filter (\<lambda>x. x \<noteq> role') (roleWishes q))\<rparr>) r), VAccept))"

definition player_pin :: "js_string \<Rightarrow> js_string \<Rightarrow> player_state \<Rightarrow> liars_room \<Rightarrow> liars_room \<times> verdict" where
  "player_pin actionId words p r =
     (let pinned = js_trim (take LIARS_GRAVEYARD_NOTE_LENGTH words) in
      if alive p \<or> pinned = [] then (r, VAccept)
      else (changed (r\<lparr>graveyardBoard := take_last LIARS_GRAVEYARD_BOARD_MAX
              (graveyardBoard r @ [\<lparr>gn_id = actionId, gn_name = pname p, gn_text = pinned\<rparr>])\<rparr>), VAccept))"

definition player_unpin :: "js_string \<Rightarrow> player_state \<Rightarrow> liars_room \<Rightarrow> liars_room \<times> verdict" where
  "player_unpin noteId p r =
     (if alive p then (r, VAccept)
      else (changed (r\<lparr>graveyardBoard := filter (\<lambda>n. gn_id n \<noteq> noteId) (graveyardBoard r)\<rparr>), VAccept))"

definition player_graveyard_vote ::
  "js_string option \<Rightarrow> player_state \<Rightarrow> liars_room \<Rightarrow> liars_room \<times> verdict" where
  "player_graveyard_vote targetId p r =
     (if alive p then unavailable ''The living do not vote here'' r
      else (changed (upd_player (pid p) (\<lambda>q. q\<lparr>graveyardVote := targetId\<rparr>) r), VAccept))"

definition player_guess :: "js_string \<Rightarrow> int \<Rightarrow> player_state \<Rightarrow> liars_room \<Rightarrow> liars_room \<times> verdict" where
  "player_guess words now p r =
     (if phase r \<noteq> FinalGuess \<or> alive p \<or> liarsRoleSide (role_or_villager p) \<noteq> MafiaSide
      then unavailable ''That is not yours to answer'' r
      else (resolveFinalGuess now (Some words) r, VAccept))"

section \<open>The night\<close>

definition targetable_ids :: "player_state \<Rightarrow> liars_role \<Rightarrow> liars_room \<Rightarrow> js_string list" where
  "targetable_ids p role' r =
     liarsTargetableIds (mode r) role' (pid p) (map (\<lambda>q. (pid q, role_or_villager q)) (living r))
       (previousNightTarget p) (doctorRepeatTarget (toggles r))"

text \<open>An early full lock jumps to the report.\<close>

definition early_report :: "int \<Rightarrow> liars_room \<Rightarrow> liars_room" where
  "early_report now r =
     (case reportAt r of
        None \<Rightarrow> r
      | Some t \<Rightarrow>
          (if list_all nightLocked (living r)
           then writeNightReports (r\<lparr>reportAt := Some now, phaseEndsAt := now + (phaseEndsAt r - t)\<rparr>)
           else r))"

text \<open>The guards the two night actions share.\<close>

definition night_refusal :: "nat \<Rightarrow> player_state \<Rightarrow> liars_room \<Rightarrow> verdict option" where
  "night_refusal rd p r =
     (if phase r \<noteq> Night then Some (VReject PhaseEnded ''The night has ended'' False)
      else if rd \<noteq> roundNo r then Some (VReject PhaseEnded ''That night has ended'' False)
      else if nightLocked p then Some (VReject AlreadyLocked ''You have locked in'' False)
      else None)"

definition night_lock :: "nat \<Rightarrow> int \<Rightarrow> player_state \<Rightarrow> liars_room \<Rightarrow> liars_room \<times> verdict" where
  "night_lock rd now p r =
     (case night_refusal rd p r of
        Some v \<Rightarrow> (r, v)
      | None \<Rightarrow> (early_report now (changed (upd_player (pid p) (\<lambda>q. q\<lparr>nightLocked := True\<rparr>) r)), VAccept))"

definition night_select :: "nat \<Rightarrow> js_string option \<Rightarrow> player_state \<Rightarrow> liars_room \<Rightarrow> liars_room \<times> verdict" where
  "night_select rd targetId p r =
     (case night_refusal rd p r of
        Some v \<Rightarrow> (r, v)
      | None \<Rightarrow>
          (if (case targetId of None \<Rightarrow> False | Some t \<Rightarrow> t \<notin> set (targetable_ids p (role_or_villager p) r))
           then (r, VReject InvalidTarget ''You cannot choose them'' False)
           else (changed (upd_player (pid p) (\<lambda>q. q\<lparr>nightTarget := targetId\<rparr>) r), VAccept)))"

section \<open>The clues\<close>

definition current_speaker :: "liars_room \<Rightarrow> js_string option" where
  "current_speaker r =
     (if clueIndex r < length (clueOrder r) then Some (clueOrder r ! clueIndex r) else None)"

definition clue_turn :: "bool \<Rightarrow> int \<Rightarrow> player_state \<Rightarrow> liars_room \<Rightarrow> liars_room \<times> verdict" where
  "clue_turn said now p r =
     (if phase r \<noteq> Clue then (r, VReject PhaseEnded ''The clues have ended'' False)
      else let isTheirs = (current_speaker r = Some (pid p)) in
      if said \<and> \<not> isTheirs then (r, VReject NotYourTurn ''It is not your turn'' False)
      else (advanceClue now (upd_player (pid p) (\<lambda>q. q\<lparr>clueDone := (isTheirs \<or> clueDone q)\<rparr>) r), VAccept))"

text \<open>\<^verbatim>\<open>[...new Set(xs)]\<close>: the first occurrences, in order.\<close>

definition js_unique :: "'a list \<Rightarrow> 'a list" where
  "js_unique xs = rev (remdups (rev xs))"

definition clue_all_said :: "int \<Rightarrow> player_state \<Rightarrow> liars_room \<Rightarrow> liars_room \<times> verdict" where
  "clue_all_said now p r =
     (if phase r \<noteq> Clue then (r, VReject PhaseEnded ''The clues have ended'' False)
      else
      let r1 = r\<lparr>clueFinishedBy := js_unique (clueFinishedBy r @ [pid p])\<rparr> in
      if length (clueFinishedBy r1) < 2 then (changed r1, VAccept)
      else (advanceClue now (r1\<lparr>clueIndex := length (clueOrder r1)\<rparr>), VAccept))"

section \<open>The day\<close>

definition day_point :: "js_string option \<Rightarrow> player_state \<Rightarrow> liars_room \<Rightarrow> liars_room \<times> verdict" where
  "day_point targetId p r =
     (if phase r \<noteq> Deliberation then unavailable ''Nobody is listening yet'' r
      else (changed (upd_player (pid p) (\<lambda>q. q\<lparr>pointedAt := targetId\<rparr>) r), VAccept))"

text \<open>More than half of the connected living are ready.\<close>

definition ready_majority :: "int \<Rightarrow> liars_room \<Rightarrow> bool" where
  "ready_majority now r \<longleftrightarrow>
     (let here = filter (\<lambda>p. connected_player p now) (living r)
      in 0 < length here \<and> length here < 2 * length (filter readyToVote here))"

definition day_ready :: "bool \<Rightarrow> int \<Rightarrow> player_state \<Rightarrow> liars_room \<Rightarrow> liars_room \<times> verdict" where
  "day_ready b now p r =
     (if phase r \<noteq> Deliberation then unavailable ''Nobody is listening yet'' r
      else
      let r1 = changed (upd_player (pid p) (\<lambda>q. q\<lparr>readyToVote := b\<rparr>) r)
      in (if ready_majority now r1 then enterPhase Vote now r1 else r1, VAccept))"

definition vote_refusal :: "player_state \<Rightarrow> liars_room \<Rightarrow> verdict option" where
  "vote_refusal p r =
     (if phase r \<noteq> Vote then Some (VReject PhaseEnded ''Voting has closed'' False)
      else if voteLocked p then Some (VReject AlreadyLocked ''Your vote is in'' False)
      else None)"

definition vote_lock :: "int \<Rightarrow> player_state \<Rightarrow> liars_room \<Rightarrow> liars_room \<times> verdict" where
  "vote_lock now p r =
     (case vote_refusal p r of
        Some v \<Rightarrow> (r, v)
      | None \<Rightarrow>
          (let r1 = changed (upd_player (pid p) (\<lambda>q. q\<lparr>voteLocked := True\<rparr>) r)
           in (if list_all voteLocked (living r1) then resolveVote now r1 else r1, VAccept)))"

definition vote_cast :: "js_string option \<Rightarrow> player_state \<Rightarrow> liars_room \<Rightarrow> liars_room \<times> verdict" where
  "vote_cast targetId p r =
     (case vote_refusal p r of
        Some v \<Rightarrow> (r, v)
      | None \<Rightarrow>
          (if targetId \<noteq> None \<and>
              (case player_by_ref r targetId of None \<Rightarrow> True | Some t \<Rightarrow> \<not> alive t)
           then (r, VReject InvalidTarget ''They are already out'' False)
           else (changed (upd_player (pid p) (\<lambda>q. q\<lparr>vote := targetId\<rparr>) r), VAccept)))"

section \<open>The reducer\<close>

text \<open>The actions below the test for the dead.\<close>

definition living_only :: "player_state \<Rightarrow> liars_room \<Rightarrow> (liars_room \<times> verdict) \<Rightarrow> liars_room \<times> verdict" where
  "living_only p r res = (if \<not> alive p then (r, VReject NotAlive ''You are dead'' False) else res)"

fun player_step ::
  "js_string \<Rightarrow> js_string \<Rightarrow> int \<Rightarrow> liars_player_action \<Rightarrow> player_state \<Rightarrow> liars_room \<Rightarrow> liars_room \<times> verdict" where
  "player_step actionId newId now RoomLeave p r = player_leave newId now p r"
| "player_step actionId newId now (PlayerRename name) p r = player_rename name p r"
| "player_step actionId newId now (ReadinessSet b) p r = player_readiness b p r"
| "player_step actionId newId now HostClaim p r = player_claim now p r"
| "player_step actionId newId now (WordsLast words) p r = player_last_words words p r"
| "player_step actionId newId now (LineupWish role' wanted) p r = player_wish role' wanted p r"
| "player_step actionId newId now (GraveyardPin words) p r = player_pin actionId words p r"
| "player_step actionId newId now (GraveyardUnpin noteId) p r = player_unpin noteId p r"
| "player_step actionId newId now (GraveyardVote rd targetId) p r = player_graveyard_vote targetId p r"
| "player_step actionId newId now (GuessFinal words) p r = player_guess words now p r"
| "player_step actionId newId now (NightLock rd) p r = living_only p r (night_lock rd now p r)"
| "player_step actionId newId now (NightSelect rd targetId) p r =
     living_only p r (night_select rd targetId p r)"
| "player_step actionId newId now (ClueSaid rd) p r = living_only p r (clue_turn True now p r)"
| "player_step actionId newId now (ClueSkip rd playerId) p r = living_only p r (clue_turn False now p r)"
| "player_step actionId newId now (ClueAllSaid rd) p r = living_only p r (clue_all_said now p r)"
| "player_step actionId newId now (DayPoint rd targetId) p r = living_only p r (day_point targetId p r)"
| "player_step actionId newId now (DayReadyToVote rd b) p r = living_only p r (day_ready b now p r)"
| "player_step actionId newId now (VoteLock rd) p r = living_only p r (vote_lock now p r)"
| "player_step actionId newId now (VoteCast rd targetId) p r = living_only p r (vote_cast targetId p r)"

definition player_authorised :: "player_input \<Rightarrow> liars_room \<Rightarrow> bool" where
  "player_authorised i r \<longleftrightarrow>
     (case player_by_id r (pi_playerId i) of
        None \<Rightarrow> False
      | Some p \<Rightarrow> multiplayerCredentialsMatch r (pi_playerToken i) (tokenHash p))"

text \<open>
  The reducer. The player is looked up again after the advance, which keeps every player; the
  last branch is never taken.
\<close>

definition liarsPlayerReduce :: "player_input \<Rightarrow> liars_room \<Rightarrow> liars_room \<times> verdict" where
  "liarsPlayerReduce i r =
     (if \<not> player_authorised i r then (r, VFail)
      else
      let r1 = caught_up (Some (pi_playerId i)) (pi_now i) r in
      if multiplayerActionSeen (processedActions r1) (pi_actionId i) then (r1, VAccept)
      else case player_by_id r1 (pi_playerId i) of
        None \<Rightarrow> (r1, VFail)
      | Some p \<Rightarrow> remembered (pi_actionId i)
          (player_step (pi_actionId i) (pi_newId i) (pi_now i) (pi_action i) p r1))"

end
