(* ===== verification/LiarsView.thy ===== *)
theory LiarsView
  imports LiarsPlayer
begin

text \<open>
  The snapshot, the security boundary of the game (\<^verbatim>\<open>liars-room-engine.server.ts\<close>, "Snapshot"):
  what one viewer is sent of the room, as a record with the fields of \<^verbatim>\<open>LiarsSnapshot\<close>. The
  digest is a hash of the record and is not modelled; an absent optional field is \<^verbatim>\<open>None\<close>.
\<close>

section \<open>What a snapshot holds\<close>

datatype mark = Moved | Pointed | Saved | Attacked

record player_summary =
  sm_id :: js_string
  sm_name :: js_string
  sm_alive :: bool
  sm_connected :: bool
  sm_ready :: bool
  sm_host :: bool
  sm_left :: bool
  sm_role :: "liars_role option"
  sm_deathRound :: "nat option"
  sm_deathCause :: "death_cause option"
  sm_marks :: "mark list"
  sm_savedCount :: nat
  sm_votes :: "nat option"

record clue_snapshot =
  cs_currentPlayerId :: "js_string option"
  cs_order :: "js_string list"
  cs_doneIds :: "js_string list"
  cs_round :: nat
  cs_advancesAt :: int
  cs_eachTurn :: bool
  cs_finishedBy :: "js_string list"

record graveyard_snapshot =
  gs_armed :: bool
  gs_armsWhenDeadReaches :: nat
  gs_deadCount :: nat
  gs_tally :: "(js_string \<times> js_string \<times> nat) list"
  gs_yourVote :: "js_string option"
  gs_deadlocked :: bool
  gs_abstaining :: nat
  gs_board :: "graveyard_note list"
  gs_boardMax :: nat

record ally_target =
  al_playerId :: js_string
  al_targetId :: "js_string option"
  al_locked :: bool

record private_state =
  pv_playerId :: js_string
  pv_ready :: bool
  pv_startRequestId :: "js_string option"
  pv_role :: liars_role
  pv_alive :: bool
  pv_allyIds :: "js_string list"
  pv_allyTargets :: "ally_target list"
  pv_callerPlayerId :: "js_string option"
  pv_word :: "js_string option"
  pv_wordCategory :: "js_string option"
  pv_wordBoard :: "js_string list"
  pv_nightTarget :: "js_string option"
  pv_nightLocked :: bool
  pv_vote :: "js_string option"
  pv_voteLocked :: bool
  pv_readyToVote :: bool
  pv_pointedAt :: "js_string option"
  pv_report :: "night_report option"
  pv_knowledge :: "knowledge_entry list"
  pv_knowledgeSealed :: bool
  pv_targetableIds :: "js_string list"
  pv_lastWordsOpen :: bool
  pv_lastWordsClosesAt :: "int option"
  pv_finalGuessOpen :: bool

record role_wish =
  rw_role :: liars_role
  rw_active :: bool
  rw_count :: nat
  rw_yours :: bool
  rw_available :: bool

record award =
  aw_label :: js_string
  aw_name :: js_string
  aw_detail :: js_string

record ending_snapshot =
  en_winner :: liars_side
  en_headline :: js_string
  en_roles :: "(js_string \<times> js_string \<times> liars_role) list"
  en_log :: "history_entry list"
  en_awards :: "award list"
  en_word :: "js_string option"

record liars_snapshot =
  sn_roomId :: js_string
  sn_managed :: bool
  sn_mode :: liars_mode
  sn_roomMode :: liars_room_mode
  sn_phase :: liars_phase
  sn_revision :: nat
  sn_sequence :: nat
  sn_serverNow :: int
  sn_expiresAt :: int
  sn_gameNumber :: nat
  sn_round :: nat
  sn_phaseStartedAt :: int
  sn_phaseEndsAt :: int
  sn_nightOpensAt :: "int option"
  sn_reportAt :: "int option"
  sn_lineup :: liars_lineup
  sn_toggles :: liars_toggles
  sn_players :: "player_summary list"
  sn_actedCount :: nat
  sn_livingCount :: nat
  sn_readyToVoteCount :: nat
  sn_history :: "history_entry list"
  sn_dawn :: "dawn_snapshot option"
  sn_clue :: "clue_snapshot option"
  sn_graveyard :: "graveyard_snapshot option"
  sn_roleWishes :: "role_wish list"
  sn_ending :: "ending_snapshot option"
  sn_narratorPlayerId :: "js_string option"
  sn_hostPlayerId :: "js_string option"
  sn_hostDisconnectedSince :: "int option"
  sn_joinLocked :: bool
  sn_player :: "private_state option"

section \<open>Marks, roles, summaries\<close>

definition marksFor :: "liars_room \<Rightarrow> player_state \<Rightarrow> mark list" where
  "marksFor r p =
     (case dawn r of
        None \<Rightarrow> []
      | Some d \<Rightarrow>
          (let death = find (\<lambda>e. de_playerId e = pid p) (dw_deaths d) in
           (if pname p \<in> set (dw_movementSeen d) then [Moved] else []) @
           (case death of
              None \<Rightarrow> []
            | Some e \<Rightarrow> (if de_revived e then [Saved] else []) @
                        (if \<not> de_revived e \<and> alive p then [Attacked] else []))))
     @ (if list_ex (\<lambda>q. alive q \<and> pointedAt q = Some (pid p)) (players r) then [Pointed] else [])"

definition maySeeRole :: "liars_room \<Rightarrow> player_state option \<Rightarrow> player_state \<Rightarrow> bool" where
  "maySeeRole r viewer subject =
     (if phase r = Ending then True
      else case viewer of
        None \<Rightarrow> False
      | Some v \<Rightarrow>
          (if pid v = pid subject then True
           else if \<not> alive v \<and> liveGodView (toggles r) then True
           else if \<not> alive subject
           then (if deathCause subject = Some Ejected then revealEjectedRole (toggles r)
                 else revealRoleOnDeath (toggles r))
           else case (role v, role subject) of
             (Some viewerRole, Some subjectRole) \<Rightarrow>
               (if liarsRoleSide viewerRole \<noteq> MafiaSide \<or> liarsRoleSide subjectRole \<noteq> MafiaSide then False
                else if mode r = ModeImposter \<and> blindImposters (toggles r) then False
                else if mode r = ModeImposter \<and> viewerRole = Imposter \<and> subjectRole = Mole then False
                else True)
           | _ \<Rightarrow> False))"

definition votes_for :: "liars_room \<Rightarrow> js_string \<Rightarrow> nat" where
  "votes_for r i = length (filter (\<lambda>p. vote p = Some i) (living r))"

definition summaryOf :: "liars_room \<Rightarrow> player_state option \<Rightarrow> int \<Rightarrow> player_state \<Rightarrow> player_summary" where
  "summaryOf r viewer now p =
     \<lparr>sm_id = pid p, sm_name = pname p, sm_alive = alive p, sm_connected = connected_player p now,
      sm_ready = multiplayerPlayerReady p, sm_host = (hostPlayerId r = Some (pid p)),
      sm_left = (leftAt p \<noteq> None),
      sm_role = (if maySeeRole r viewer p then role p else None),
      sm_deathRound = deathRound p, sm_deathCause = deathCause p, sm_marks = marksFor r p,
      sm_savedCount = savedCount p,
      sm_votes = (if phase r = Verdict \<or> phase r = Ending then Some (votes_for r (pid p)) else None)\<rparr>"

section \<open>The ending\<close>

definition ending_awards :: "liars_room \<Rightarrow> award list" where
  "ending_awards r =
     (case filter (\<lambda>p. deathCause p = Some Ejected) (players r) of
        [] \<Rightarrow> []
      | p # _ \<Rightarrow> [\<lparr>aw_label = ''voted out'', aw_name = pname p, aw_detail = ''the town's first answer''\<rparr>])
     @ (case find (\<lambda>p. role p = Some Doctor) (players r) of
          None \<Rightarrow> []
        | Some d \<Rightarrow> [\<lparr>aw_label = ''the doctor'', aw_name = pname d,
             aw_detail = nat_str (sum_list (map savedCount (players r))) @ '' saved''\<rparr>])"

definition ending_headline :: "liars_mode \<Rightarrow> liars_side \<Rightarrow> js_string" where
  "ending_headline m w =
     (case w of
        Third \<Rightarrow> ''The jester wins. Alone.''
      | Town \<Rightarrow> (if m = ModeMafia then ''The town wins.'' else ''The crew wins.'')
      | MafiaSide \<Rightarrow> (if m = ModeMafia then ''The mafia win.'' else ''The imposters win.''))"

definition endingOf :: "liars_room \<Rightarrow> ending_snapshot option" where
  "endingOf r =
     (if phase r \<noteq> Ending then None
      else case winner r of
        None \<Rightarrow> None
      | Some w \<Rightarrow> Some
          \<lparr>en_winner = w, en_headline = ending_headline (mode r) w,
           en_roles = map (\<lambda>p. (pid p, pname p, role_or_villager p)) (players r),
           en_log = history r, en_awards = ending_awards r,
           en_word = (if mode r = ModeImposter then roomWord r else None)\<rparr>)"

section \<open>The parts of a snapshot\<close>

definition last_words_open :: "liars_room \<Rightarrow> player_state \<Rightarrow> bool" where
  "last_words_open r v \<longleftrightarrow>
     lastWordsOn (toggles r) \<and> \<not> alive v \<and> lastWords v = None \<and> deathRound v = Some (roundNo r)"

definition ally_ids :: "liars_room \<Rightarrow> player_state \<Rightarrow> js_string list" where
  "ally_ids r v =
     (if is_mafia v
      then map pid (filter (\<lambda>q. pid q \<noteq> pid v \<and> maySeeRole r (Some v) q \<and> is_mafia q) (players r))
      else [])"

definition ally_target_of :: "liars_room \<Rightarrow> js_string \<Rightarrow> ally_target" where
  "ally_target_of r i =
     (case player_by_id r i of
        None \<Rightarrow> \<lparr>al_playerId = i, al_targetId = None, al_locked = False\<rparr>
      | Some a \<Rightarrow> \<lparr>al_playerId = i, al_targetId = nightTarget a, al_locked = nightLocked a\<rparr>)"

definition clue_view :: "liars_room \<Rightarrow> clue_snapshot option" where
  "clue_view r =
     (if phase r \<noteq> Clue then None
      else Some \<lparr>cs_currentPlayerId = current_speaker r, cs_order = clueOrder r,
                 cs_doneIds = take (clueIndex r) (clueOrder r), cs_round = clueRound r,
                 cs_advancesAt = phaseEndsAt r, cs_eachTurn = (roomMode r = Remote),
                 cs_finishedBy = clueFinishedBy r\<rparr>)"

definition graveyard_tally :: "liars_room \<Rightarrow> (js_string \<times> js_string \<times> nat) list" where
  "graveyard_tally r =
     filter (\<lambda>(_, _, n). 0 < n)
       (map (\<lambda>c. (pid c, pname c, length (filter (\<lambda>p. graveyardVote p = Some (pid c)) (dead_players r))))
          (living r))"

definition graveyard_view :: "liars_room \<Rightarrow> player_state option \<Rightarrow> graveyard_snapshot option" where
  "graveyard_view r viewer =
     (case viewer of
        None \<Rightarrow> None
      | Some v \<Rightarrow>
          (if alive v then None
           else Some
             \<lparr>gs_armed = (liarsGraveyardArmsAt (length (players r)) \<le> length (dead_players r)),
              gs_armsWhenDeadReaches = liarsGraveyardArmsAt (length (players r)),
              gs_deadCount = length (dead_players r), gs_tally = graveyard_tally r,
              gs_yourVote = graveyardVote v, gs_deadlocked = graveyard_deadlocked r,
              gs_abstaining = graveyard_abstaining r, gs_board = graveyardBoard r,
              gs_boardMax = LIARS_GRAVEYARD_BOARD_MAX\<rparr>))"

definition wishes_view :: "liars_room \<Rightarrow> player_state option \<Rightarrow> role_wish list" where
  "wishes_view r viewer =
     (if phase r \<noteq> Lobby then []
      else map (\<lambda>x.
        \<lparr>rw_role = x, rw_active = (0 < nullish (map_of (lineup r) x) 0),
         rw_count = length (filter (\<lambda>p. x \<in> set (roleWishes p)) (players r)),
         rw_yours = (case viewer of None \<Rightarrow> False | Some v \<Rightarrow> x \<in> set (roleWishes v)),
         rw_available = (rd_minPlayers (LIARS_ROLES x) \<le> player_count r)\<rparr>) (liarsRolesForMode (mode r)))"

text \<open>The report is held back until the report moment.\<close>

definition visible_report :: "liars_room \<Rightarrow> int \<Rightarrow> player_state \<Rightarrow> night_report option" where
  "visible_report r now v =
     (if phase r = Night \<and> (case reportAt r of None \<Rightarrow> False | Some t \<Rightarrow> now < t) then None else report v)"

definition private_view :: "liars_room \<Rightarrow> int \<Rightarrow> player_state \<Rightarrow> private_state" where
  "private_view r now v =
     \<lparr>pv_playerId = pid v, pv_ready = multiplayerPlayerReady v, pv_startRequestId = startRequestId v,
      pv_role = role_or_villager v, pv_alive = alive v, pv_allyIds = ally_ids r v,
      pv_allyTargets = map (ally_target_of r) (ally_ids r v),
      pv_callerPlayerId = (if is_mafia v \<and> mode r = ModeMafia then map_option pid (mafiaCaller r) else None),
      pv_word = pword v,
      pv_wordCategory = (if mode r = ModeImposter then wordCategory r else None),
      pv_wordBoard = (if mode r = ModeImposter \<and> wordBoardOn (toggles r) then wordBoard r else []),
      pv_nightTarget = nightTarget v, pv_nightLocked = nightLocked v, pv_vote = vote v,
      pv_voteLocked = voteLocked v, pv_readyToVote = readyToVote v, pv_pointedAt = pointedAt v,
      pv_report = visible_report r now v,
      pv_knowledge = (if alive v \<or> last_words_open r v then knowledge v else []),
      pv_knowledgeSealed = (\<not> alive v \<and> \<not> last_words_open r v \<and> knowledge v \<noteq> []),
      pv_targetableIds = (if phase r = Night \<and> alive v
         then (case role v of None \<Rightarrow> [] | Some x \<Rightarrow> targetable_ids v x r) else []),
      pv_lastWordsOpen = last_words_open r v,
      pv_lastWordsClosesAt =
        (case dawn r of None \<Rightarrow> None
         | Some d \<Rightarrow> if alive v then None else Some (dw_settleAt d + LIARS_LAST_WORDS_MS)),
      pv_finalGuessOpen = (phase r = FinalGuess \<and> \<not> alive v \<and> is_mafia v)\<rparr>"

definition snapshot :: "liars_room \<Rightarrow> js_string option \<Rightarrow> int \<Rightarrow> liars_snapshot" where
  "snapshot r viewerId now =
     (let viewer = player_by_ref r viewerId in
      \<lparr>sn_roomId = roomId r, sn_managed = managed r, sn_mode = mode r, sn_roomMode = roomMode r,
       sn_phase = phase r, sn_revision = revision r, sn_sequence = sequenceNo r, sn_serverNow = now,
       sn_expiresAt = expiresAt r, sn_gameNumber = gameNumber r, sn_round = roundNo r,
       sn_phaseStartedAt = phaseStartedAt r, sn_phaseEndsAt = phaseEndsAt r,
       sn_nightOpensAt = nightOpensAt r, sn_reportAt = reportAt r, sn_lineup = lineup r,
       sn_toggles = toggles r, sn_players = map (summaryOf r viewer now) (players r),
       sn_actedCount = length (filter nightLocked (living r)), sn_livingCount = length (living r),
       sn_readyToVoteCount = length (filter readyToVote (living r)), sn_history = history r,
       sn_dawn = dawn r, sn_clue = clue_view r, sn_graveyard = graveyard_view r viewer,
       sn_roleWishes = wishes_view r viewer, sn_ending = endingOf r,
       sn_narratorPlayerId = narratorPlayerId r, sn_hostPlayerId = hostPlayerId r,
       sn_hostDisconnectedSince = hostDisconnectedSince r, sn_joinLocked = (joinLocked r = Some True),
       sn_player = map_option (private_view r now) viewer\<rparr>)"

end
