(* ===== verification/LiarsFrame.thy ===== *)
theory LiarsFrame
  imports LiarsView
begin

text \<open>
  What the phase machine leaves alone. \<^verbatim>\<open>evolves r r'\<close> says that a transition kept the room's
  room_setup and every player's identity, in order, and revived nobody; it is reflexive and
  transitive, each step of the machine satisfies it, and so does \<^verbatim>\<open>advance\<close>.
\<close>

section \<open>The relation\<close>

definition identity ::
  "player_state \<Rightarrow> js_string \<times> js_string \<times> js_string \<times> int \<times> liars_role option \<times> js_string option \<times> int option" where
  "identity p = (pid p, pname p, tokenHash p, joinedAt p, role p, pword p, leftAt p)"

definition room_setup where
  "room_setup r = ((sha256_hex r, token_source r, crypto_draw r, pick_draw r, locale_compare r, wall_clock r),
     (roomId r, managed r, officialResultChannelId r, mode r, roomMode r, hostHash r, joinHash r, gameNumber r),
     (lineup r, lineupCustom r, toggles r, timings r, hostPlayerId r, joinLocked r, narratorPlayerId r),
     (processedActions r, joinReceiptIds r, joinReceipts r, graveyardBoard r, pausedAt r, lastActiveAt r),
     (roomWord r, decoyWord r, wordCategory r, wordBoard r, recentWords r, hostDisconnectedSince r))"
  for r :: liars_room

definition evolved :: "player_state \<Rightarrow> player_state \<Rightarrow> bool" where
  "evolved p q \<longleftrightarrow> identity q = identity p \<and> (alive q \<longrightarrow> alive p)"

definition evolves :: "liars_room \<Rightarrow> liars_room \<Rightarrow> bool" where
  "evolves r r' \<longleftrightarrow> room_setup r' = room_setup r \<and> list_all2 evolved (players r) (players r')"

lemma evolved_refl [simp]: "evolved p p"
  by (simp add: evolved_def)

lemma evolved_trans: "evolved p q \<Longrightarrow> evolved q s \<Longrightarrow> evolved p s"
  by (auto simp: evolved_def)

lemma evolves_refl [simp, intro]: "evolves r r"
  by (simp add: evolves_def list.rel_refl)

lemma evolves_trans: "evolves r s \<Longrightarrow> evolves s t \<Longrightarrow> evolves r t"
proof -
  assume a: "evolves r s" and b: "evolves s t"
  have "list_all2 evolved (players r) (players t)"
    using a b unfolding evolves_def list_all2_conv_all_nth by (metis evolved_trans)
  with a b show ?thesis by (simp add: evolves_def)
qed

lemma evolves_pids: "evolves r r' \<Longrightarrow> map pid (players r') = map pid (players r)"
proof -
  assume "evolves r r'"
  then have "list_all2 evolved (players r) (players r')" by (simp add: evolves_def)
  then show ?thesis by (induction rule: list_all2_induct) (auto simp: evolved_def identity_def)
qed

lemma evolves_identity: "evolves r r' \<Longrightarrow> map identity (players r') = map identity (players r)"
proof -
  assume "evolves r r'"
  then have "list_all2 evolved (players r) (players r')" by (simp add: evolves_def)
  then show ?thesis by (induction rule: list_all2_induct) (auto simp: evolved_def)
qed

lemma evolves_length: "evolves r r' \<Longrightarrow> length (players r') = length (players r)"
  using evolves_pids map_eq_imp_length_eq by blast

lemma list_all2_find:
  assumes "list_all2 R xs ys" and "\<And>x y. R x y \<Longrightarrow> P x = P y"
  shows "(find P xs = None \<and> find P ys = None) \<or>
         (\<exists>x y. find P xs = Some x \<and> find P ys = Some y \<and> R x y)"
  using assms(1) by (induction rule: list_all2_induct) (auto simp: assms(2))

lemma evolves_player_by_id:
  "evolves r r' \<Longrightarrow> player_by_id r i = Some p \<Longrightarrow> \<exists>q. player_by_id r' i = Some q \<and> evolved p q"
  using list_all2_find [of evolved "players r" "players r'" "\<lambda>p. pid p = i"]
  by (auto simp: evolves_def player_by_id_def evolved_def identity_def)

lemma evolves_player_by_id_None:
  "evolves r r' \<Longrightarrow> player_by_id r' i = None \<longleftrightarrow> player_by_id r i = None"
  using list_all2_find [of evolved "players r" "players r'" "\<lambda>p. pid p = i"]
  by (auto simp: evolves_def player_by_id_def evolved_def identity_def)

lemma evolves_living: "evolves r r' \<Longrightarrow> set (map pid (living r')) \<subseteq> set (map pid (living r))"
proof -
  assume "evolves r r'"
  then have "list_all2 evolved (players r) (players r')" by (simp add: evolves_def)
  then show ?thesis unfolding living_def
    by (induction rule: list_all2_induct) (auto simp: evolved_def identity_def)
qed

lemma evolves_setup:
  assumes "evolves r r'"
  shows "mode r' = mode r" "toggles r' = toggles r" "timings r' = timings r" "roomMode r' = roomMode r"
    "processedActions r' = processedActions r" "hostHash r' = hostHash r" "joinHash r' = joinHash r"
    "graveyardBoard r' = graveyardBoard r" "recentWords r' = recentWords r" "pausedAt r' = pausedAt r"
    "hostPlayerId r' = hostPlayerId r" "lineup r' = lineup r" "managed r' = managed r"
    "sha256_hex r' = sha256_hex r" "wall_clock r' = wall_clock r" "roomWord r' = roomWord r"
    "decoyWord r' = decoyWord r" "wordBoard r' = wordBoard r" "joinLocked r' = joinLocked r"
    "roomId r' = roomId r" "gameNumber r' = gameNumber r" "joinReceipts r' = joinReceipts r"
    "narratorPlayerId r' = narratorPlayerId r" "hostDisconnectedSince r' = hostDisconnectedSince r"
    "lastActiveAt r' = lastActiveAt r" "locale_compare r' = locale_compare r"
    "wordCategory r' = wordCategory r" "lineupCustom r' = lineupCustom r"
  using assms by (simp_all add: evolves_def room_setup_def)

section \<open>The building blocks\<close>

lemma list_all2_map_same: "(\<And>p. R p (f p)) \<Longrightarrow> list_all2 R xs (map f xs)"
  by (induction xs) auto

lemma list_all2_upd_first: "(\<And>p. R p p) \<Longrightarrow> (\<And>p. R p (f p)) \<Longrightarrow> list_all2 R xs (upd_first P f xs)"
  by (induction xs) (auto intro: list.rel_refl)

lemma evolves_upd_player: "(\<And>p. evolved p (f p)) \<Longrightarrow> evolves r (upd_player i f r)"
  by (simp add: evolves_def upd_player_def room_setup_def list_all2_upd_first)

lemma evolves_map_players: "(\<And>p. evolved p (f p)) \<Longrightarrow> evolves r (r\<lparr>players := map f (players r)\<rparr>)"
  by (simp add: evolves_def room_setup_def list_all2_map_same)

lemma evolves_same: "room_setup r' = room_setup r \<Longrightarrow> players r' = players r \<Longrightarrow> evolves r r'"
  by (simp add: evolves_def list.rel_refl)

lemma evolves_changed [intro]: "evolves r (changed r)"
  by (rule evolves_same) (simp_all add: room_setup_def changed_def applyRoomExpiry_def)

lemma evolved_remember [simp]: "evolved p (remember rd s t p)"
  by (simp add: evolved_def identity_def remember_def)

lemma evolved_write_card [simp]: "evolved p (write_card rd s c i p)"
  by (simp add: evolved_def identity_def write_card_def remember_def Let_def split: prod.split)

lemma evolves_kill: "evolves r (kill i c r)"
  unfolding kill_def by (rule evolves_upd_player) (simp add: evolved_def identity_def Let_def)

lemma evolves_enterPhase: "evolves r (enterPhase ph now r)"
  unfolding enterPhase_def Let_def
  by (rule evolves_trans [OF evolves_same evolves_changed]) (simp_all add: room_setup_def)

lemma evolves_add_note: "evolves r (add_note ph t r)"
  by (rule evolves_same) (simp_all add: room_setup_def add_note_def)

lemma narrate_shape: "\<exists>x k. snd (narrate outcome slots r) = r\<lparr>recentNarrationIds := x, crypto_cursor := k\<rparr>"
proof -
  obtain k where "snd (liarsNarration outcome slots (recentNarrationIds r) r) = r\<lparr>crypto_cursor := k\<rparr>"
    using liarsNarration_world by blast
  then have "snd (narrate outcome slots r) = r\<lparr>recentNarrationIds :=
      take_last 14 (recentNarrationIds r @ [fst (fst (liarsNarration outcome slots (recentNarrationIds r) r))]),
      crypto_cursor := k\<rparr>"
    by (simp add: narrate_def split_beta Let_def)
  then show ?thesis by blast
qed

lemma evolves_narrate: "evolves r (snd (narrate outcome slots r))"
proof -
  obtain x k where "snd (narrate outcome slots r) = r\<lparr>recentNarrationIds := x, crypto_cursor := k\<rparr>"
    using narrate_shape by blast
  then show ?thesis by (intro evolves_same) (simp_all add: room_setup_def)
qed

lemma evolves_narrateD: "narrate outcome slots r = (text, r') \<Longrightarrow> evolves r r'"
  using evolves_narrate [of r outcome slots] by simp

lemma evolves_finish: "evolves r (finish w now r)"
  unfolding finish_def
  by (rule evolves_trans [OF evolves_same evolves_changed]) (simp_all add: room_setup_def)

lemma evolves_checkWinner: "evolves r (fst (checkWinner now j r))"
  by (simp add: checkWinner_def evolves_finish split: option.split)

lemma evolves_credential: "createMultiplayerCredential r = (t, r') \<Longrightarrow> evolves r r'"
  by (rule evolves_same) (auto simp: createMultiplayerCredential_def room_setup_def)

text \<open>The same facts as steps of a chain, for goals whose right-hand side is the operation.\<close>

lemmas evolves_then = evolves_trans [OF _ evolves_changed] evolves_trans [OF _ evolves_kill]
  evolves_trans [OF _ evolves_enterPhase] evolves_trans [OF _ evolves_add_note]
  evolves_trans [OF _ evolves_finish] evolves_trans [OF _ evolves_checkWinner]

section \<open>The night\<close>

lemma evolves_write_report: "evolves r (fst (write_report i (r, w)))"
proof (cases "player_by_id r i")
  case (Some p)
  obtain t r1 where c: "createMultiplayerCredential r = (t, r1)" by fastforce
  have "evolves r (upd_player i (write_card rd s crd t) r1)" for rd s crd
    using evolves_credential [OF c] evolves_upd_player [of "write_card rd s crd t" r1 i]
    by (auto intro: evolves_trans)
  with Some c show ?thesis by (simp add: write_report_def Let_def)
qed (simp add: write_report_def)

lemma evolves_fold_fst:
  assumes "\<And>x r w. evolves r (fst (f x (r, w)))"
  shows "evolves r (fst (fold f xs (r, w)))"
proof (induction xs arbitrary: r w)
  case (Cons x xs)
  obtain r1 w1 where s: "f x (r, w) = (r1, w1)" by fastforce
  have "evolves r r1" using assms [where x = x and r = r and w = w] s by simp
  with Cons.IH [of r1 w1] s show ?case by (auto intro: evolves_trans)
qed simp

lemma evolves_writeNightReports: "evolves r (writeNightReports r)"
proof -
  have "evolves r (fst (write_all_reports r))"
    unfolding write_all_reports_def by (rule evolves_fold_fst) (rule evolves_write_report)
  then show ?thesis
    by (auto simp: writeNightReports_def split_beta intro: evolves_trans [OF _ evolves_changed])
qed

lemma evolves_escort_sees: "evolves r (escort_sees a t e r)"
proof -
  let ?r0 = "upd_player (pid e) (remember (roundNo r) (Some (pname t)) (''it was '' @ pname (at_attacker a))) r"
  obtain k r1 where c: "createMultiplayerCredential ?r0 = (k, r1)" by fastforce
  have "evolves r ?r0" by (rule evolves_upd_player) simp
  then have "evolves r r1" using evolves_credential [OF c] by (rule evolves_trans)
  moreover have "evolves r1 (upd_player (pid e) (\<lambda>p. p\<lparr>report := x\<rparr>) r1)" for x
    by (rule evolves_upd_player) (simp add: evolved_def identity_def)
  ultimately show ?thesis using c by (auto simp: escort_sees_def Let_def intro: evolves_trans)
qed

lemma evolves_escort_dies: "evolves r (fst (escort_dies a e (r, ds, ts)))"
proof -
  have "evolves (kill (pid e) Killed r) (upd_player (pid e) (\<lambda>p. p\<lparr>lastWords := x\<rparr>) (kill (pid e) Killed r))" for x
    by (rule evolves_upd_player) (simp add: evolved_def identity_def)
  then show ?thesis
    by (auto simp: escort_dies_def Let_def intro: evolves_trans [OF evolves_kill])
qed

lemma evolves_mark_guilt: "evolves r (mark_guilt np a t r)"
  by (auto simp: mark_guilt_def evolved_def identity_def intro!: evolves_upd_player split: option.split)

lemma evolves_land_attack: "evolves r (fst (land_attack np a t (r, ds, ts)))"
proof -
  let ?r1 = "kill (pid t) Killed r"
  have k: "evolves r ?r1" by (rule evolves_kill)
  show ?thesis
  proof (cases "np_escortTargetId np = Some (pid t) \<and> still_alive ?r1 (np_escort np)")
    case True
    let ?ds = "ds @ [death_of t False None Killed (if revealRoleOnDeath (toggles r) then role t else None)]"
    obtain r2 ds2 ts2 where e: "escort_dies a (the (np_escort np)) (?r1, ?ds, ts) = (r2, ds2, ts2)"
      by (metis prod_cases3)
    have "evolves ?r1 r2" using evolves_escort_dies [of ?r1 a "the (np_escort np)" ?ds ts] e by simp
    with k have "evolves r (mark_guilt np a t r2)"
      by (intro evolves_trans [OF _ evolves_mark_guilt]) (rule evolves_trans)
    with True e show ?thesis by (simp add: land_attack_def Let_def)
  next
    case False
    with k show ?thesis
      by (auto simp: land_attack_def Let_def intro: evolves_trans [OF _ evolves_mark_guilt])
  qed
qed

lemma evolves_resolve_attack: "evolves r (fst (resolve_attack np a (r, w)))"
proof (cases "alive_target np (at_targetId a) r")
  case None
  then show ?thesis by (simp add: resolve_attack_def split_beta)
next
  case (Some t)
  let ?r1 = "escort_witness np a t r"
  have r1: "evolves r ?r1"
    by (simp add: escort_witness_def evolves_escort_sees split: option.split)
  have s: "evolves ?r1 (upd_player (pid t) (\<lambda>p. p\<lparr>savedCount := Suc (savedCount p)\<rparr>) ?r1)"
    by (rule evolves_upd_player) (simp add: evolved_def identity_def)
  have l: "evolves r (fst (land_attack np a t (?r1, ds, ts)))" for ds ts
    using r1 evolves_land_attack by (rule evolves_trans)
  obtain ds ts where w: "w = (ds, ts)" by fastforce
  show ?thesis
    using Some l [of ds ts] evolves_trans [OF r1 s] evolves_trans [OF r1 evolves_kill]
    by (simp add: resolve_attack_def w Let_def)
qed

lemma evolves_land_guilt: "evolves r (fst (land_guilt np (r, w)))"
  by (simp add: land_guilt_def split_beta evolves_kill split: option.split)

lemma evolves_night_begun: "evolves r (night_begun r)"
proof -
  have "evolves r' (upd_player b (remember rd None t) r')" for b rd t r'
    by (rule evolves_upd_player) simp
  then show ?thesis
    using evolves_writeNightReports [of r]
    by (auto simp: night_begun_def Let_def split: option.split intro: evolves_trans)
qed

lemma evolves_spend_shot: "evolves r (spend_shot r)"
proof -
  have "evolves r (upd_player i (\<lambda>p. p\<lparr>vigilanteUsed := True\<rparr>) r)" for i
    by (rule evolves_upd_player) (simp add: evolved_def identity_def)
  then show ?thesis by (simp add: spend_shot_def split: option.split)
qed

lemma evolves_night_outcome: "evolves r (fst (night_outcome r))"
proof -
  let ?r = "night_begun r" and ?np = "night_plan_of (night_begun r)"
  let ?f = "fold (resolve_attack ?np) (mafia_attack ?r @ vigilante_attack ?r) (spend_shot ?r, [], [])"
  have "evolves (spend_shot ?r) (fst ?f)"
    by (rule evolves_fold_fst) (rule evolves_resolve_attack)
  then have "evolves r (fst ?f)"
    by (rule evolves_trans [OF evolves_trans [OF evolves_night_begun evolves_spend_shot]])
  moreover have "evolves (fst ?f) (fst (land_guilt ?np ?f))"
    using evolves_land_guilt [of "fst ?f" ?np "snd ?f"] by simp
  ultimately show ?thesis unfolding night_outcome_def Let_def by (rule evolves_trans)
qed

lemma evolves_night_narration: "evolves r (snd (night_narration ds r))"
  by (simp add: night_narration_def Let_def evolves_narrate split: option.split)

lemma evolves_fold_notes: "evolves r (fold (\<lambda>name r. add_note ph (f name) r) names r)"
  by (induction names arbitrary: r) (auto intro: evolves_trans [OF evolves_add_note])

lemma evolves_dawn_update: "evolves r (r\<lparr>dawn := d\<rparr>)"
  by (rule evolves_same) (simp_all add: room_setup_def)

lemma evolves_resolveNight: "evolves r (resolveNight now r)"
proof -
  obtain r1 ds ts where o: "night_outcome r = (r1, ds, ts)" by (metis prod_cases3)
  obtain t r2 where n: "night_narration ds r1 = (t, r2)" by fastforce
  have "evolves r r1" using evolves_night_outcome [of r] o by simp
  moreover have "evolves r1 r2" using evolves_night_narration [of r1 ds] n by simp
  ultimately have a: "evolves r r2" by (rule evolves_trans)
  have b: "evolves r2 (fst (checkWinner now None (enterPhase Dawn now
      (fold (\<lambda>name r. add_note NightEntry (name @ '' was seen moving.'') r) names
        (add_note NightEntry t (r2\<lparr>dawn := d\<rparr>))))))" for d names
    by (intro evolves_then evolves_trans [OF _ evolves_fold_notes] evolves_dawn_update)
  show ?thesis using a b o n by (auto simp: resolveNight_def Let_def intro: evolves_trans)
qed

section \<open>The day\<close>

lemma evolves_eject: "evolves r (eject p now r)"
proof -
  let ?k = "kill (pid p) Ejected r"
  let ?j = "if role_or_villager p = Jester then ?k\<lparr>ejectedJesterId := Some (pid p)\<rparr> else ?k"
  let ?c = "count_ejection (role_or_villager p) ?j"
  obtain t r4 where n: "narrate (if liarsRoleSide (role_or_villager p) = MafiaSide then NarrEjectedGuilty
      else NarrEjectedInnocent) (no_slots\<lparr>slot_ejected := Some (pname p)\<rparr>) ?c = (t, r4)" by fastforce
  have j: "evolves ?k ?j" by (auto intro: evolves_same simp: room_setup_def)
  have c: "evolves s (count_ejection x s)" for s x
    by (rule evolves_same) (simp_all add: room_setup_def count_ejection_def)
  have "evolves r r4"
    by (rule evolves_trans [OF evolves_trans [OF evolves_trans [OF evolves_kill j] c] evolves_narrateD [OF n]])
  then have "evolves r (enterPhase Verdict now (add_note DayEntry t r4))"
    by (intro evolves_then)
  with n show ?thesis unfolding eject_def Let_def by simp
qed

lemma evolves_no_majority: "evolves r (no_majority now r)"
proof -
  obtain t r1 where n: "narrate NarrTie no_slots r = (t, r1)" by fastforce
  have "evolves r (enterPhase Verdict now (add_note DayEntry t r1))"
    by (intro evolves_then evolves_narrateD [OF n])
  with n show ?thesis by (simp add: no_majority_def)
qed

lemma evolves_start_runoff: "evolves r (start_runoff tied now r)"
proof -
  have "evolves r (r\<lparr>players := map clear_vote (players r)\<rparr>)"
    by (rule evolves_map_players) (simp add: evolved_def identity_def clear_vote_def)
  then have "evolves r (r\<lparr>revoteUsed := True, runoffIds := tied, players := map clear_vote (players r)\<rparr>)"
    by (simp add: evolves_def room_setup_def)
  then show ?thesis
    unfolding start_runoff_def Let_def by (intro evolves_then)
qed

lemma evolves_resolveVote: "evolves r (resolveVote now r)"
proof -
  have a: "evolves r (r\<lparr>lastEjectedName := n, ejectedJesterId := None\<rparr>)" for n
    by (rule evolves_same) (simp_all add: room_setup_def)
  show ?thesis
    using evolves_trans [OF a evolves_eject] evolves_trans [OF a evolves_start_runoff]
      evolves_trans [OF a evolves_no_majority]
    by (simp add: resolveVote_def Let_def split: option.split)
qed

lemma evolves_startClueRound: "evolves r (startClueRound now r)"
proof -
  obtain order r1 where s: "shuffle pick (map pid (living r)) r = (order, r1)" by fastforce
  obtain k where "r1 = r\<lparr>pick_cursor := k\<rparr>"
    using shuffle_world [of "map pid (living r)" r] s by auto
  then have "evolves r (r1\<lparr>clueOrder := order, clueIndex := 0, clueRound := Suc (clueRound r1), clueFinishedBy := []\<rparr>)"
    by (intro evolves_same) (simp_all add: room_setup_def)
  then show ?thesis
    using s by (auto simp: startClueRound_def intro: evolves_trans [OF _ evolves_enterPhase])
qed

lemma evolves_startRound: "evolves r (startRound now r)"
proof -
  let ?r1 = "(clearRoundState (r\<lparr>roundNo := Suc (roundNo r)\<rparr>))\<lparr>dawn := None\<rparr>"
  have "evolves r (r\<lparr>players := map clear_player_round (players r)\<rparr>)"
    by (rule evolves_map_players) (simp add: evolved_def identity_def clear_player_round_def)
  then have "evolves r ?r1"
    by (simp add: evolves_def room_setup_def clearRoundState_def)
  then show ?thesis
    using evolves_startClueRound [of ?r1] evolves_enterPhase [of ?r1]
    by (auto simp: startRound_def Let_def intro: evolves_trans)
qed

lemma evolves_clue_moved: "evolves r (clue_moved now r)"
  by (rule evolves_same) (simp_all add: room_setup_def clue_moved_def)

lemma evolves_advanceClue: "evolves r (advanceClue now r)"
proof -
  have "evolves s (changed (s\<lparr>phaseStartedAt := x, phaseEndsAt := y\<rparr>))" for s x y
    by (rule evolves_trans [OF evolves_same evolves_changed]) (simp_all add: room_setup_def)
  note a = evolves_trans [OF evolves_clue_moved this]
    evolves_trans [OF evolves_clue_moved evolves_startClueRound]
    evolves_trans [OF evolves_clue_moved evolves_enterPhase]
  show ?thesis unfolding advanceClue_def Let_def by (simp add: a)
qed

lemma evolves_afterVerdict: "evolves r (afterVerdict now r)"
proof -
  obtain r1 won where c: "checkWinner now (ejectedJesterId r) r = (r1, won)" by fastforce
  have a: "evolves r r1" using evolves_checkWinner [of r now "ejectedJesterId r"] c by simp
  have "evolves r1 (r1\<lparr>finalGuessCorrect := None\<rparr>)"
    by (rule evolves_same) (simp_all add: room_setup_def)
  then show ?thesis
    using a c evolves_startRound [of r1]
    by (auto simp: afterVerdict_def intro: evolves_trans evolves_trans [OF _ evolves_enterPhase])
qed

lemma evolves_resolveFinalGuess: "evolves r (resolveFinalGuess now g r)"
proof -
  have a: "evolves r (r\<lparr>finalGuessCorrect := x\<rparr>)" for x
    by (rule evolves_same) (simp_all add: room_setup_def)
  have "evolves r (fst (checkWinner now None (add_note ph t (r\<lparr>finalGuessCorrect := x\<rparr>))))" for ph t x
    by (intro evolves_then a)
  then show ?thesis
    by (auto simp: resolveFinalGuess_def Let_def split_beta intro: evolves_trans [OF _ evolves_finish])
qed

section \<open>The advance\<close>

lemma evolves_phase_step: "phase_step r = Some r' \<Longrightarrow> evolves r r'"
  by (auto simp: phase_step_def Let_def evolves_startRound evolves_resolveNight evolves_advanceClue
      evolves_enterPhase evolves_resolveVote evolves_afterVerdict evolves_resolveFinalGuess
      split: liars_phase.splits)

lemma evolves_advance_loop: "evolves r (advance_loop g now r)"
proof (induction g arbitrary: r)
  case (Suc g)
  show ?case
    using Suc.IH evolves_phase_step evolves_writeNightReports
    by (auto split: option.split intro: evolves_trans)
qed simp

lemma evolves_shift_clocks: "evolves r (shift_clocks d r)"
  unfolding shift_clocks_def
  by (rule evolves_trans [OF evolves_same evolves_changed]) (simp_all add: room_setup_def)

lemma evolves_advance: "evolves r (advance now idleFor r)"
  using evolves_trans [OF evolves_shift_clocks evolves_advance_loop]
  by (simp add: advance_def Let_def evolves_advance_loop)

end
