(* ===== verification/LiarsAlive.thy ===== *)
theory LiarsAlive
  imports LiarsFrame
begin

text \<open>
  Who is alive, as a list of ids: the abstraction the night and the vote are specified over. The
  lemmas say what each building block does to it.
\<close>

definition alive_ids :: "liars_room \<Rightarrow> js_string list" where
  "alive_ids r = map pid (living r)"

definition distinct_ids :: "liars_room \<Rightarrow> bool" where
  "distinct_ids r \<longleftrightarrow> distinct (map pid (players r))"

lemma distinct_ids_evolves: "evolves r r' \<Longrightarrow> distinct_ids r' = distinct_ids r"
  by (simp add: distinct_ids_def evolves_pids)

lemma distinct_alive_ids: "distinct_ids r \<Longrightarrow> distinct (alive_ids r)"
  by (simp add: distinct_ids_def alive_ids_def living_def distinct_map_filter)

lemma alive_ids_players: "players r' = players r \<Longrightarrow> alive_ids r' = alive_ids r"
  by (simp add: alive_ids_def living_def)

lemma alive_ids_blocks [simp]:
  "alive_ids (changed r) = alive_ids r" "alive_ids (enterPhase ph now r) = alive_ids r"
  "alive_ids (add_note hp t r) = alive_ids r" "alive_ids (finish w now r) = alive_ids r"
  "alive_ids (r\<lparr>dawn := d\<rparr>) = alive_ids r"
  by (rule alive_ids_players, simp add: enterPhase_def add_note_def finish_def Let_def)+

lemma alive_ids_narrate [simp]: "alive_ids (snd (narrate outcome slots r)) = alive_ids r"
proof -
  obtain x k where "snd (narrate outcome slots r) = r\<lparr>recentNarrationIds := x, crypto_cursor := k\<rparr>"
    using narrate_shape by blast
  then show ?thesis by (intro alive_ids_players) simp
qed

lemma alive_ids_checkWinner [simp]: "alive_ids (fst (checkWinner now j r)) = alive_ids r"
  by (simp add: checkWinner_def split: option.split)

lemma alive_ids_upd_player:
  "(\<And>p. pid (f p) = pid p) \<Longrightarrow> (\<And>p. alive (f p) = alive p) \<Longrightarrow> alive_ids (upd_player i f r) = alive_ids r"
  unfolding alive_ids_def living_def upd_player_def by (simp add: filter_upd_first_same)

lemma alive_ids_credential: "createMultiplayerCredential r = (t, r') \<Longrightarrow> alive_ids r' = alive_ids r"
  by (rule alive_ids_players) (auto simp: createMultiplayerCredential_def)

lemma filter_alive_upd_first:
  assumes "distinct (map pid ps)" and "\<And>p. pid (f p) = pid p" and "\<And>p. \<not> alive (f p)"
  shows "map pid (filter alive (upd_first (\<lambda>p. pid p = i) f ps)) =
         filter (\<lambda>j. j \<noteq> i) (map pid (filter alive ps))"
  using assms(1)
proof (induction ps)
  case (Cons p ps)
  have keep: "filter (\<lambda>j. j \<noteq> pid p) (map pid (filter alive ps)) = map pid (filter alive ps)"
    using Cons.prems by (intro filter_True) (auto, metis image_eqI)
  show ?case
    using Cons keep by (cases "pid p = i") (auto simp: assms)
qed simp

lemma alive_ids_kill:
  "distinct_ids r \<Longrightarrow> alive_ids (kill i c r) = filter (\<lambda>j. j \<noteq> i) (alive_ids r)"
  unfolding alive_ids_def living_def kill_def upd_player_def distinct_ids_def
  by (simp add: filter_alive_upd_first Let_def)

lemma player_by_id_Some: "player_by_id r i = Some p \<Longrightarrow> p \<in> set (players r) \<and> pid p = i"
  unfolding player_by_id_def by (drule find_SomeD) simp

lemma player_by_id_mem:
  "distinct_ids r \<Longrightarrow> p \<in> set (players r) \<Longrightarrow> player_by_id r (pid p) = Some p"
proof -
  assume d: "distinct_ids r" and p: "p \<in> set (players r)"
  obtain q where q: "player_by_id r (pid p) = Some q"
    using p by (cases "player_by_id r (pid p)") (auto simp: player_by_id_def find_None_iff_all)
  then have "q \<in> set (players r)" "pid q = pid p" using player_by_id_Some by blast+
  with d p have "q = p" by (auto simp: distinct_ids_def distinct_map dest: inj_onD)
  with q show ?thesis by simp
qed

lemma player_by_id_unique:
  "distinct_ids r \<Longrightarrow> player_by_id r i = Some p \<longleftrightarrow> p \<in> set (players r) \<and> pid p = i"
  using player_by_id_mem player_by_id_Some by blast

lemma in_alive_ids_iff: "i \<in> set (alive_ids r) \<longleftrightarrow> (\<exists>p\<in>set (players r). pid p = i \<and> alive p)"
  by (auto simp: alive_ids_def living_def)

lemma alive_iff_in_alive_ids:
  "distinct_ids r \<Longrightarrow> player_by_id r i = Some p \<Longrightarrow> alive p \<longleftrightarrow> i \<in> set (alive_ids r)"
  by (auto simp: in_alive_ids_iff player_by_id_unique distinct_ids_def distinct_map dest: inj_onD)

lemma in_alive_ids_lookup:
  "distinct_ids r \<Longrightarrow> i \<in> set (alive_ids r) \<longleftrightarrow> (\<exists>p. player_by_id r i = Some p \<and> alive p)"
  by (auto simp: in_alive_ids_iff player_by_id_unique)

lemma player_by_id_upd_player:
  assumes "\<And>p. pid (f p) = pid p"
  shows "player_by_id (upd_player i f r) j =
         (if j = i then map_option f (player_by_id r i) else player_by_id r j)"
proof (cases "j = i")
  case True
  then show ?thesis
    by (simp add: player_by_id_def upd_player_def find_upd_first assms)
next
  case False
  then show ?thesis
    by (auto simp: player_by_id_def upd_player_def assms intro!: find_upd_first_other)
qed

lemma still_alive_iff:
  "distinct_ids r \<Longrightarrow> still_alive r (Some h) \<longleftrightarrow> pid h \<in> set (alive_ids r)"
  by (auto simp: still_alive_def in_alive_ids_lookup split: option.split)

lemma evolves_same_pids_lookup: "evolves r r' \<Longrightarrow> (player_by_id r i = None) = (player_by_id r' i = None)"
  using evolves_player_by_id_None by blast

end
