(* ===== verification/LiarsNightSpec.thy ===== *)
theory LiarsNightSpec
  imports LiarsAlive
begin

text \<open>
  An account of a night that knows nothing of the room: a table with one row for each player alive at
  dusk, who the night's roles aim at, which strikes there are, what each strike does to the table, and
  whom guilt takes. And the abstraction from a room to its table, with what the steps of the resolution
  do to it.
\<close>

section \<open>The table of a night\<close>

record night_row =
  nt_id :: js_string
  nt_role :: "liars_role option"
  nt_target :: "js_string option"
  nt_joined :: int
  nt_shotSpent :: bool
  nt_guilt :: bool
  nt_fallen :: bool

definition holder_in :: "night_row list \<Rightarrow> liars_role \<Rightarrow> night_row option" where
  "holder_in T x = find (\<lambda>p. nt_role p = Some x) T"

text \<open>The jammer's choice does nothing this night; the choice of anybody else counts.\<close>

definition jammed_in :: "night_row list \<Rightarrow> js_string \<Rightarrow> bool" where
  "jammed_in T i \<longleftrightarrow> (case holder_in T Jammer of None \<Rightarrow> False | Some j \<Rightarrow> nt_target j = Some i)"

definition aim_of :: "night_row list \<Rightarrow> night_row option \<Rightarrow> js_string option" where
  "aim_of T h = (case h of None \<Rightarrow> None | Some p \<Rightarrow> if jammed_in T (nt_id p) then None else nt_target p)"

definition aim_in :: "night_row list \<Rightarrow> liars_role \<Rightarrow> js_string option" where
  "aim_in T x = aim_of T (holder_in T x)"

definition evil_row :: "night_row \<Rightarrow> bool" where
  "evil_row p \<longleftrightarrow> nt_role p \<in> Some ` {Mafia, Godfather, Jammer, Imposter, Mole}"

text \<open>The godfather calls the kill; without one, who joined first of the mafia, the jammer included.\<close>

definition caller_in :: "night_row list \<Rightarrow> night_row option" where
  "caller_in T =
     (case holder_in T Godfather of
        Some p \<Rightarrow> Some p
      | None \<Rightarrow> find (\<lambda>p. evil_row p \<and> list_all (\<lambda>q. evil_row q \<longrightarrow> nt_joined p \<le> nt_joined q) T) T)"

text \<open>A strike: at whom, and whether it is the mafia's. The vigilante has one shot in the game.\<close>

definition struck_by :: "js_string option \<Rightarrow> bool \<Rightarrow> (js_string \<times> bool) list" where
  "struck_by aim ofMafia = (case aim of None \<Rightarrow> [] | Some i \<Rightarrow> if i = [] then [] else [(i, ofMafia)])"

definition shot_in :: "night_row list \<Rightarrow> (js_string \<times> bool) list" where
  "shot_in T =
     (case holder_in T Vigilante of
        None \<Rightarrow> []
      | Some v \<Rightarrow> if nt_shotSpent v then [] else struck_by (aim_in T Vigilante) False)"

definition strikes_in :: "night_row list \<Rightarrow> (js_string \<times> bool) list" where
  "strikes_in T = struck_by (aim_of T (caller_in T)) True @ shot_in T"

definition id_of :: "night_row option \<Rightarrow> js_string option" where
  "id_of h = map_option nt_id h"

text \<open>The escort is out when she aims at somebody, and so is not at home to be struck.\<close>

definition escort_out :: "night_row list \<Rightarrow> js_string \<Rightarrow> bool" where
  "escort_out T i \<longleftrightarrow>
     id_of (holder_in T Escort) = Some i \<and> (case aim_in T Escort of None \<Rightarrow> False | Some j \<Rightarrow> j \<noteq> [])"

definition in_table :: "night_row list \<Rightarrow> js_string option \<Rightarrow> bool" where
  "in_table T h \<longleftrightarrow> (case h of None \<Rightarrow> False | Some i \<Rightarrow> i \<in> nt_id ` set T)"

definition dropped :: "js_string \<Rightarrow> night_row list \<Rightarrow> night_row list" where
  "dropped i T = filter (\<lambda>p. nt_id p \<noteq> i) T"

definition row_in :: "night_row list \<Rightarrow> js_string \<Rightarrow> night_row option" where
  "row_in T i = find (\<lambda>p. nt_id p = i) T"

definition evil_in :: "night_row list \<Rightarrow> js_string \<Rightarrow> bool" where
  "evil_in T i \<longleftrightarrow> (case row_in T i of None \<Rightarrow> False | Some p \<Rightarrow> evil_row p)"

definition guilt_on :: "js_string option \<Rightarrow> night_row list \<Rightarrow> night_row list" where
  "guilt_on h T = map (\<lambda>p. if h = Some (nt_id p) then p\<lparr>nt_guilt := True\<rparr> else p) T"

text \<open>
  One strike. \<^verbatim>\<open>D\<close> is the table at dusk, where the roles and aims are read, and \<^verbatim>\<open>T\<close> those still alive: nobody
  there, nobody home, saved, the bodyguard instead, or the target, with an escort who spends the night there.
  A vigilante who shot one of the others carries guilt.
\<close>

definition strike_in :: "night_row list \<Rightarrow> js_string \<times> bool \<Rightarrow> night_row list \<Rightarrow> night_row list" where
  "strike_in D s T =
     (case s of (i, ofMafia) \<Rightarrow>
        if \<not> in_table T (Some i) \<or> escort_out D i \<or> aim_in D Doctor = Some i then T
        else if aim_in D Bodyguard = Some i \<and> in_table T (id_of (holder_in D Bodyguard))
        then dropped (nt_id (the (holder_in D Bodyguard))) T
        else
        let T1 = dropped i T;
            T2 = (if aim_in D Escort = Some i \<and> in_table T1 (id_of (holder_in D Escort))
                  then dropped (nt_id (the (holder_in D Escort))) T1 else T1)
        in if \<not> ofMafia \<and> \<not> evil_in D i then guilt_on (id_of (holder_in D Vigilante)) T2 else T2)"

definition shot_spent :: "night_row list \<Rightarrow> night_row list" where
  "shot_spent T =
     (if shot_in T = [] then T
      else map (\<lambda>p. if id_of (holder_in T Vigilante) = Some (nt_id p) then p\<lparr>nt_shotSpent := True\<rparr> else p) T)"

text \<open>Guilt takes the first who carries it, has shot and has not fallen before; not in the first round.\<close>

definition guilt_falls :: "nat \<Rightarrow> night_row list \<Rightarrow> night_row list" where
  "guilt_falls n T =
     (case find nt_guilt T of
        None \<Rightarrow> T
      | Some g \<Rightarrow> if nt_shotSpent g \<and> \<not> nt_fallen g \<and> 1 < n then dropped (nt_id g) T else T)"

definition night_spec :: "nat \<Rightarrow> night_row list \<Rightarrow> js_string list" where
  "night_spec n D = map nt_id (guilt_falls n (fold (strike_in D) (strikes_in D) (shot_spent D)))"

section \<open>The table of a room\<close>

definition row_of :: "player_state \<Rightarrow> night_row" where
  "row_of p =
     \<lparr>nt_id = pid p, nt_role = role p, nt_target = nightTarget p, nt_joined = joinedAt p,
      nt_shotSpent = vigilanteUsed p, nt_guilt = guiltPending p, nt_fallen = (deathRound p \<noteq> None)\<rparr>"

definition night_table :: "liars_room \<Rightarrow> night_row list" where
  "night_table r = map row_of (living r)"

lemma row_of_simps [simp]:
  "nt_id (row_of p) = pid p" "nt_role (row_of p) = role p" "nt_target (row_of p) = nightTarget p"
  "nt_joined (row_of p) = joinedAt p" "nt_shotSpent (row_of p) = vigilanteUsed p"
  "nt_guilt (row_of p) = guiltPending p" "nt_fallen (row_of p) \<longleftrightarrow> deathRound p \<noteq> None"
  by (simp_all add: row_of_def)

lemma table_ids: "map nt_id (night_table r) = alive_ids r"
  by (simp add: night_table_def alive_ids_def comp_def)

lemma in_night_table: "in_table (night_table r) (Some i) \<longleftrightarrow> i \<in> set (alive_ids r)"
  by (simp add: in_table_def flip: table_ids)

lemma night_table_players: "players r' = players r \<Longrightarrow> night_table r' = night_table r"
  by (simp add: night_table_def living_def)

lemma map_row_upd_first:
  assumes "\<And>p. alive (f p) = alive p" and "\<And>p. row_of (f p) = row_of p"
  shows "map row_of (filter alive (upd_first P f ps)) = map row_of (filter alive ps)"
  by (induction ps) (simp_all add: assms)

lemma night_table_upd_player:
  assumes "\<And>p. alive (f p) = alive p" and "\<And>p. row_of (f p) = row_of p"
  shows "night_table (upd_player i f r) = night_table r"
  by (simp add: night_table_def living_def upd_player_def map_row_upd_first [OF assms])

lemma distinct_tail_ne: "distinct (map f (x # xs)) \<Longrightarrow> y \<in> set xs \<Longrightarrow> f y \<noteq> f x"
  by auto (metis image_eqI)

lemma map_row_kill:
  assumes "distinct (map pid ps)" and "\<And>p. \<not> alive (f p)"
  shows "map row_of (filter alive (upd_first (\<lambda>p. pid p = i) f ps)) = dropped i (map row_of (filter alive ps))"
  using assms(1)
proof (induction ps)
  case (Cons p ps)
  have keep: "dropped (pid p) (map row_of (filter alive ps)) = map row_of (filter alive ps)"
    unfolding dropped_def using distinct_tail_ne [OF Cons.prems] by (intro filter_True) auto
  show ?case using Cons keep by (cases "pid p = i") (auto simp: assms dropped_def)
qed (simp add: dropped_def)

lemma night_table_kill: "distinct_ids r \<Longrightarrow> night_table (kill i c r) = dropped i (night_table r)"
  unfolding night_table_def living_def kill_def upd_player_def distinct_ids_def
  by (simp add: map_row_kill Let_def)

lemma map_row_flag:
  assumes "distinct (map pid ps)" and "\<And>p. alive (f p) = alive p" and "\<And>p. row_of (f p) = g (row_of p)"
  shows "map row_of (filter alive (upd_first (\<lambda>p. pid p = i) f ps)) =
         map (\<lambda>p. if nt_id p = i then g p else p) (map row_of (filter alive ps))"
  using assms(1)
proof (induction ps)
  case (Cons p ps)
  have keep: "map (\<lambda>q. if nt_id q = pid p then g q else q) (map row_of (filter alive ps)) = map row_of (filter alive ps)"
    using distinct_tail_ne [OF Cons.prems] by (intro map_idI) auto
  show ?case using Cons keep by (cases "pid p = i") (auto simp: assms)
qed simp

lemma night_table_flag:
  assumes "distinct_ids r" and "\<And>p. alive (f p) = alive p" and "\<And>p. row_of (f p) = g (row_of p)"
  shows "night_table (upd_player i f r) = map (\<lambda>p. if i = nt_id p then g p else p) (night_table r)"
  unfolding night_table_def living_def upd_player_def
  using map_row_flag [of "players r" f g i, OF _ assms(2,3)] assms(1)
  by (simp add: distinct_ids_def eq_commute [of i])

section \<open>Aims and strikes\<close>

lemma find_map_row: "find P (map row_of ps) = map_option row_of (find (\<lambda>p. P (row_of p)) ps)"
  by (induction ps) simp_all

lemma holder_in_table: "holder_in (night_table r) x = map_option row_of (roleHolder r x)"
  by (simp add: holder_in_def night_table_def roleHolder_def find_map_row)

lemma id_of_table: "id_of (map_option row_of h) = map_option pid h"
  by (cases h) (simp_all add: id_of_def)

lemma jammed_in_table: "jammed_in (night_table r) i \<longleftrightarrow> blockedTarget r = Some i"
  by (simp add: jammed_in_def holder_in_table blockedTarget_def split: option.split)

lemma aim_of_table: "aim_of (night_table r) (map_option row_of h) = unblocked_target (blockedTarget r) h"
  by (auto simp: aim_of_def jammed_in_table unblocked_target_def split: option.split)

lemma aim_in_table: "aim_in (night_table r) x = unblocked_target (blockedTarget r) (roleHolder r x)"
  by (simp add: aim_in_def holder_in_table aim_of_table)

lemma mafia_sided: "liarsRoleSide x = MafiaSide \<longleftrightarrow> x \<in> {Mafia, Godfather, Jammer, Imposter, Mole}"
  by (cases x) (simp_all add: liarsRoleSide_def role_def_def)

lemma evil_row_of: "evil_row (row_of p) \<longleftrightarrow> is_mafia p"
  by (auto simp: evil_row_def is_mafia_def mafia_sided split: option.split)

lemma hd_insert_by:
  "insert_by le x ys = (case ys of [] \<Rightarrow> [x] | y # ys' \<Rightarrow> if le x y then x # ys else y # insert_by le x ys')"
  by (cases ys) simp_all

lemma sort_by_first:
  "(case sort_by (\<lambda>a b. f a \<le> (f b :: int)) xs of [] \<Rightarrow> None | p # _ \<Rightarrow> Some p) = find (\<lambda>p. list_all (\<lambda>q. f p \<le> f q) xs) xs"
proof (induction xs)
  case (Cons x xs)
  let ?s = "sort_by (\<lambda>a b. f a \<le> f b) xs"
  have head: "find (\<lambda>p. list_all (\<lambda>q. f p \<le> f q) xs) xs = (case ?s of [] \<Rightarrow> None | p # _ \<Rightarrow> Some p)" using Cons.IH by simp
  show ?case
  proof (cases ?s)
    case Nil
    then have "xs = []" using sort_by_empty by blast
    then show ?thesis by (simp add: sort_by_def)
  next
    case (Cons y ys)
    then have y: "find (\<lambda>p. list_all (\<lambda>q. f p \<le> f q) xs) xs = Some y" using head by simp
    then have ymin: "y \<in> set xs" "list_all (\<lambda>q. f y \<le> f q) xs" by (auto dest: find_SomeD)
    have s: "sort_by (\<lambda>a b. f a \<le> f b) (x # xs) = (if f x \<le> f y then x # y # ys else y # insert_by (\<lambda>a b. f a \<le> f b) x ys)"
      using Cons by (simp add: sort_by_def)
    show ?thesis
    proof (cases "f x \<le> f y")
      case True
      then have "list_all (\<lambda>q. f x \<le> f q) xs" using ymin(2) by (auto simp: list_all_iff)
      then show ?thesis using s True by simp
    next
      case False
      have "\<not> list_all (\<lambda>q. f x \<le> f q) xs" using False ymin(1) by (auto simp: list_all_iff)
      moreover have "f p \<le> f x" if "list_all (\<lambda>q. f p \<le> f q) xs" for p
        using that ymin(1) False by (fastforce simp: list_all_iff)
      then have "(\<lambda>p. list_all (\<lambda>q. f p \<le> f q) (x # xs)) = (\<lambda>p. list_all (\<lambda>q. f p \<le> f q) xs)" by auto
      ultimately show ?thesis using s False y by simp
    qed
  qed
qed (simp add: sort_by_def)

lemma find_filter: "find P (filter Q xs) = find (\<lambda>x. Q x \<and> P x) xs"
  by (induction xs) simp_all

lemma find_cong_pred: "(\<And>x. P x = Q x) \<Longrightarrow> find P xs = find Q xs"
  by presburger

lemma caller_in_table: "caller_in (night_table r) = map_option row_of (mafiaCaller r)"
proof -
  have g: "find (\<lambda>p. role p = Some Godfather) (filter is_mafia (living r)) = roleHolder r Godfather"
    unfolding find_filter roleHolder_def
    by (rule find_cong_pred) (auto simp: is_mafia_def mafia_sided)
  have m: "find (\<lambda>p. list_all (\<lambda>q. joinedAt p \<le> joinedAt q) (filter is_mafia (living r))) (filter is_mafia (living r)) =
      find (\<lambda>p. is_mafia p \<and> list_all (\<lambda>q. is_mafia q \<longrightarrow> joinedAt p \<le> joinedAt q) (living r)) (living r)"
    unfolding find_filter by (rule find_cong_pred) (auto simp: list_all_iff)
  show ?thesis
    unfolding caller_in_def mafiaCaller_def Let_def g sort_by_first m holder_in_table
    by (auto simp: night_table_def find_map_row evil_row_of list.pred_map comp_def split: option.split)
qed

lemma strikes_table:
  "map (\<lambda>a. (at_targetId a, at_fromMafia a)) (mafia_attack r) =
     struck_by (aim_of (night_table r) (caller_in (night_table r))) True"
  "map (\<lambda>a. (at_targetId a, at_fromMafia a)) (vigilante_attack r) = shot_in (night_table r)"
  by (auto simp: mafia_attack_def vigilante_attack_def caller_in_table aim_of_table shot_in_def holder_in_table
      aim_in_table struck_by_def unblocked_target_def split: option.split)

lemma find_living:
  "distinct (map pid ps) \<Longrightarrow> find (\<lambda>p. pid p = i) (filter alive ps) =
     (case find (\<lambda>p. pid p = i) ps of None \<Rightarrow> None | Some p \<Rightarrow> if alive p then Some p else None)"
proof (induction ps)
  case (Cons p ps)
  have n: "find (\<lambda>q. pid q = pid p) ps = None"
    using distinct_tail_ne [OF Cons.prems] by (simp add: find_None_iff)
  show ?case
  proof (cases "pid p = i")
    case True
    then show ?thesis using Cons n by simp
  qed (use Cons in simp)
qed simp

lemma row_in_table:
  assumes "distinct_ids r"
  shows "row_in (night_table r) i =
           (case player_by_id r i of None \<Rightarrow> None | Some p \<Rightarrow> if alive p then Some (row_of p) else None)"
  using assms
  by (simp add: row_in_def night_table_def find_map_row living_def player_by_id_def distinct_ids_def find_living
      split: option.split)

section \<open>What the steps of a resolution do to the table\<close>

lemma night_table_credential: "createMultiplayerCredential r = (t, r') \<Longrightarrow> night_table r' = night_table r"
  by (rule night_table_players) (auto simp: createMultiplayerCredential_def)

lemma night_table_report: "night_table (upd_player i (\<lambda>p. p\<lparr>report := x\<rparr>) r) = night_table r"
  by (rule night_table_upd_player) (simp_all add: row_of_def)

lemma night_table_saved: "night_table (upd_player i (\<lambda>p. p\<lparr>savedCount := Suc (savedCount p)\<rparr>) r) = night_table r"
  by (rule night_table_upd_player) (simp_all add: row_of_def)

lemma night_table_words: "night_table (upd_player i (\<lambda>p. p\<lparr>lastWords := x\<rparr>) r) = night_table r"
  by (rule night_table_upd_player) (simp_all add: row_of_def)

lemma night_table_remember: "night_table (upd_player i (remember rd s l) r) = night_table r"
  by (rule night_table_upd_player) (simp_all add: row_of_def remember_def)

lemma night_table_escort_witness: "night_table (escort_witness np a t r) = night_table r"
  by (auto simp: escort_witness_def escort_sees_def Let_def split_beta night_table_report
      night_table_credential [OF prod.collapse [symmetric]] night_table_remember split: option.split)

lemma night_table_write_report: "night_table (fst (write_report i (r, w))) = night_table r"
proof -
  have "night_table (upd_player i (write_card rd s c k) r') = night_table r'" for rd s c k r'
    by (rule night_table_upd_player) (simp_all add: write_card_def remember_def row_of_def Let_def split: prod.split)
  then show ?thesis
    by (auto simp: write_report_def Let_def split_beta night_table_credential [OF prod.collapse [symmetric]]
        split: option.split)
qed

lemma night_table_writeNightReports: "night_table (writeNightReports r) = night_table r"
proof -
  have "night_table (fst (fold write_report ids (r, w))) = night_table r" for ids w
  proof (induction ids arbitrary: r w)
    case (Cons i ids)
    obtain r1 w1 where s: "write_report i (r, w) = (r1, w1)" by (cases "write_report i (r, w)")
    with Cons.IH [of r1 w1] night_table_write_report [of i r w] show ?case by simp
  qed simp
  moreover have "night_table (changed r') = night_table r'" for r' by (rule night_table_players) simp
  ultimately show ?thesis by (simp add: writeNightReports_def write_all_reports_def split_beta)
qed

lemma night_table_night_begun: "night_table (night_begun r) = night_table r"
  by (simp add: night_begun_def Let_def night_table_writeNightReports night_table_remember split: option.split)

lemma night_table_spend_shot:
  assumes "distinct_ids r"
  shows "night_table (spend_shot r) = shot_spent (night_table r)"
proof -
  have e: "shot_in (night_table r) = [] \<longleftrightarrow> vigilante_attack r = []"
    unfolding strikes_table(2) [symmetric] by simp
  show ?thesis
  proof (cases "vigilante_attack r = [] \<or> roleHolder r Vigilante = None")
    case True
    then show ?thesis using e by (auto simp: spend_shot_def shot_spent_def vigilante_attack_def)
  next
    case False
    then obtain v where v: "roleHolder r Vigilante = Some v" "vigilante_attack r \<noteq> []" by auto
    have "night_table (upd_player (pid v) (\<lambda>p. p\<lparr>vigilanteUsed := True\<rparr>) r) =
        map (\<lambda>p. if pid v = nt_id p then p\<lparr>nt_shotSpent := True\<rparr> else p) (night_table r)"
      by (rule night_table_flag [OF assms]) (simp_all add: row_of_def)
    then show ?thesis using v e by (simp add: spend_shot_def shot_spent_def holder_in_table id_of_def)
  qed
qed

lemma night_table_mark_guilt:
  assumes "distinct_ids r"
  shows "night_table (mark_guilt np a t r) =
    (if \<not> at_fromMafia a \<and> \<not> is_mafia t then guilt_on (map_option pid (np_vigilante np)) (night_table r)
     else night_table r)"
proof -
  have side: "liarsRoleSide (role_or_villager t) \<noteq> MafiaSide \<longleftrightarrow> \<not> is_mafia t"
    by (auto simp: is_mafia_def role_or_villager_def nullish_def mafia_sided split: option.split)
  have "night_table (upd_player i (\<lambda>p. p\<lparr>guiltPending := True\<rparr>) r) = guilt_on (Some i) (night_table r)" for i
    unfolding guilt_on_def
    by (subst night_table_flag [OF assms, where g = "\<lambda>p. p\<lparr>nt_guilt := True\<rparr>"])
      (auto simp: row_of_def)
  then show ?thesis
    by (auto simp: mark_guilt_def side guilt_on_def split: option.split)
qed

end
