(* ===== verification/LiarsSamples.thy ===== *)
theory LiarsSamples
  imports LiarsAlive
begin

text \<open>
  Concrete rooms the witnesses evaluate: a player with a given id and role, and a room of given
  players on the services of \<^verbatim>\<open>test_services\<close>, whose hash is constant, so that every non-empty
  credential matches the hash the sample players carry.
\<close>

definition sample_hash :: js_string where
  "sample_hash = replicate 64 (CHR ''0'')"

definition sample_player :: "js_string \<Rightarrow> liars_role \<Rightarrow> player_state" where
  "sample_player i x =
     \<lparr>pid = i, ready = Some True, startRequestId = None, startRequestedAt = None, pname = i,
      tokenHash = sample_hash, joinedAt = 0, lastSeenAt = 0, role = Some x, previousRole = None,
      alive = True, deathRound = None, deathCause = None, savedCount = 0, nightTarget = None,
      nightLocked = False, previousNightTarget = None, vote = None, voteLocked = False,
      readyToVote = False, pointedAt = None, roleWishes = [], graveyardVote = None, report = None,
      knowledge = [], lastWords = None, vigilanteUsed = False, guiltPending = False, pword = None,
      clueDone = False, leftAt = None\<rparr>"

definition sample_room :: "liars_mode \<Rightarrow> player_state list \<Rightarrow> liars_room" where
  "sample_room m ps =
     \<lparr>sha256_hex = sha256_hex test_services, token_source = token_source test_services, token_cursor = 0,
      uuid_source = uuid_source test_services, uuid_cursor = 0,
      crypto_draw = crypto_draw test_services, crypto_cursor = 0, pick_draw = pick_draw test_services,
      pick_cursor = 0, locale_compare = locale_compare test_services, wall_clock = 0,
      roomId = ''ABCDEFG'', managed = False, officialResultChannelId = None, mode = m,
      roomMode = SameRoom, phase = Lobby, revision = 1, sequenceNo = 1, hostHash = sample_hash,
      joinHash = sample_hash, expiresAt = 1000000, gameNumber = 1, roundNo = 1, phaseStartedAt = 0,
      phaseEndsAt = 0, nightOpensAt = None, reportAt = None, pausedAt = None, lastActiveAt = 0,
      lineup = [], lineupCustom = False, toggles = LIARS_DEFAULT_TOGGLES,
      timings = liarsDefaultTimings SameRoom, players = ps, hostPlayerId = None, joinLocked = None,
      hostDisconnectedSince = None, history = [], dawn = None, clueOrder = [], clueIndex = 0,
      clueRound = 0, clueFinishedBy = [], processedActions = [], joinReceiptIds = [],
      joinReceipts = [], ejectedJesterId = None, crewEjections = 0, imposterEjections = 0,
      finalGuessCorrect = None, roomWord = None, decoyWord = None, wordCategory = None,
      wordBoard = [], recentWords = [], recentNarrationIds = [], winner = None,
      lastEjectedName = None, graveyardBoard = [], revoteUsed = False, runoffIds = [],
      narratorPlayerId = None\<rparr>"

lemma sample_player_simps [simp]:
  "pid (sample_player i x) = i" "pname (sample_player i x) = i" "role (sample_player i x) = Some x"
  "alive (sample_player i x)" "nightTarget (sample_player i x) = None" "vote (sample_player i x) = None"
  "graveyardVote (sample_player i x) = None" "leftAt (sample_player i x) = None"
  "tokenHash (sample_player i x) = sample_hash" "joinedAt (sample_player i x) = 0"
  "lastSeenAt (sample_player i x) = 0" "\<not> nightLocked (sample_player i x)" "\<not> voteLocked (sample_player i x)"
  "ready (sample_player i x) = Some True" "report (sample_player i x) = None"
  "knowledge (sample_player i x) = []" "pword (sample_player i x) = None"
  "previousNightTarget (sample_player i x) = None" "savedCount (sample_player i x) = 0"
  "lastWords (sample_player i x) = None" "deathRound (sample_player i x) = None"
  "deathCause (sample_player i x) = None" "pointedAt (sample_player i x) = None"
  "\<not> vigilanteUsed (sample_player i x)" "\<not> guiltPending (sample_player i x)"
  "previousRole (sample_player i x) = None" "roleWishes (sample_player i x) = []"
  "\<not> readyToVote (sample_player i x)" "startRequestId (sample_player i x) = None"
  by (simp_all add: sample_player_def)

lemma sample_room_simps [simp]:
  "players (sample_room m ps) = ps" "mode (sample_room m ps) = m" "phase (sample_room m ps) = Lobby"
  "toggles (sample_room m ps) = LIARS_DEFAULT_TOGGLES" "timings (sample_room m ps) = liarsDefaultTimings SameRoom"
  "roundNo (sample_room m ps) = 1" "winner (sample_room m ps) = None" "revoteUsed (sample_room m ps) = False"
  "pausedAt (sample_room m ps) = None" "phaseEndsAt (sample_room m ps) = 0" "phaseStartedAt (sample_room m ps) = 0"
  "reportAt (sample_room m ps) = None" "nightOpensAt (sample_room m ps) = None" "dawn (sample_room m ps) = None"
  "hostHash (sample_room m ps) = sample_hash" "joinHash (sample_room m ps) = sample_hash"
  "wall_clock (sample_room m ps) = 0" "expiresAt (sample_room m ps) = 1000000"
  "processedActions (sample_room m ps) = []" "hostPlayerId (sample_room m ps) = None"
  "narratorPlayerId (sample_room m ps) = None" "lastActiveAt (sample_room m ps) = 0"
  "hostDisconnectedSince (sample_room m ps) = None" "graveyardBoard (sample_room m ps) = []"
  "crewEjections (sample_room m ps) = 0" "imposterEjections (sample_room m ps) = 0"
  "finalGuessCorrect (sample_room m ps) = None" "ejectedJesterId (sample_room m ps) = None"
  "roomWord (sample_room m ps) = None" "managed (sample_room m ps) = False"
  "sha256_hex (sample_room m ps) = (\<lambda>_. sample_hash)" "runoffIds (sample_room m ps) = []"
  "recentNarrationIds (sample_room m ps) = []" "recentWords (sample_room m ps) = []"
  "clueOrder (sample_room m ps) = []" "roomMode (sample_room m ps) = SameRoom" "lineup (sample_room m ps) = []"
  "joinLocked (sample_room m ps) = None" "history (sample_room m ps) = []"
  by (simp_all add: sample_room_def test_services_def sample_hash_def)

lemma sample_credential [simp]:
  "sha256_hex w = (\<lambda>_. sample_hash) \<Longrightarrow> v \<noteq> [] \<Longrightarrow> length v \<le> 120 \<Longrightarrow> multiplayerCredentialsMatch w v sample_hash"
  by (simp add: multiplayerCredentialsMatch_def hashMultiplayerCredential_def sample_hash_def)

text \<open>Five players of a mafia game.\<close>

definition five_players :: "player_state list" where
  "five_players = [sample_player ''a'' Mafia, sample_player ''b'' Doctor, sample_player ''c'' Detective,
     sample_player ''d'' Villager, sample_player ''e'' Villager]"

definition five_room :: liars_room where
  "five_room = sample_room ModeMafia five_players"

lemmas sample_defs = five_players_def five_room_def

lemma distinct_five_room: "distinct_ids five_room"
  by (simp add: distinct_ids_def sample_defs)

lemmas toggle_default = LIARS_DEFAULT_TOGGLES_def

text \<open>What the evaluation of a sample vote unfolds.\<close>

lemmas vote_eval = day_ballots_def living_def graveyardBallot_def dead_players_def sample_defs
  liarsGraveyardArmsAt_def liarsPlurality_def cast_ballots_def tally_def plurality_step_def
  tiedIds_def best_count_def Let_def

end
