(* ===== verification/LiarsNightFacts.thy ===== *)
theory LiarsNightFacts
  imports LiarsNightSpec LiarsSamples
begin

text \<open>
  The night: the resolution refines the account of it over a table of the players alive at dusk, the
  causes of every death, the completeness of the report cards and of the dawn's announcements, and
  the exact meaning of corroborated movement.
\<close>

section \<open>One attack\<close>

definition night_attacks :: "liars_room \<Rightarrow> night_attack list" where
  "night_attacks r = mafia_attack r @ vigilante_attack r"

definition strike_of :: "night_attack \<Rightarrow> js_string \<times> bool" where
  "strike_of a = (at_targetId a, at_fromMafia a)"

lemma night_attacks_table: "map strike_of (night_attacks r) = strikes_in (night_table r)"
  by (simp add: night_attacks_def strike_of_def strikes_in_def flip: strikes_table)

lemma night_table_escort_dies:
  "distinct_ids r \<Longrightarrow> night_table (fst (escort_dies a e (r, ds, ts))) = dropped (pid e) (night_table r)"
  by (simp add: escort_dies_def Let_def night_table_words night_table_kill)

lemma in_table_holder:
  assumes "distinct_ids r"
  shows "in_table (night_table r) (map_option pid h) \<longleftrightarrow> still_alive r h"
proof (cases h)
  case (Some p)
  then show ?thesis using still_alive_iff [OF assms, of p] in_night_table [of r "pid p"] by simp
qed (simp add: in_table_def still_alive_def)

lemma night_table_land_attack:
  assumes "distinct_ids r"
  shows "night_table (fst (land_attack np a t (r, ds, ts))) =
    (let T1 = dropped (pid t) (night_table r);
         T2 = (if np_escortTargetId np = Some (pid t) \<and> in_table T1 (map_option pid (np_escort np))
               then dropped (pid (the (np_escort np))) T1 else T1)
     in if \<not> at_fromMafia a \<and> \<not> is_mafia t then guilt_on (map_option pid (np_vigilante np)) T2 else T2)"
proof -
  let ?r1 = "kill (pid t) Killed r"
  have d: "distinct_ids ?r1" using assms distinct_ids_evolves [OF evolves_kill] by blast
  note k = night_table_kill [OF assms, of "pid t" Killed]
  note s = in_table_holder [OF d, of "np_escort np"]
  show ?thesis
  proof (cases "np_escortTargetId np = Some (pid t) \<and> still_alive ?r1 (np_escort np)")
    case True
    let ?ds = "ds @ [death_of t False None Killed (if revealRoleOnDeath (toggles r) then role t else None)]"
    obtain r2 w2 where e: "escort_dies a (the (np_escort np)) (?r1, ?ds, ts) = (r2, w2)"
      by (cases "escort_dies a (the (np_escort np)) (?r1, ?ds, ts)")
    have r2: "r2 = fst (escort_dies a (the (np_escort np)) (?r1, ?ds, ts))" by (simp add: e)
    have d2: "distinct_ids r2"
      unfolding r2 using d distinct_ids_evolves [OF evolves_escort_dies] by blast
    have t2: "night_table r2 = dropped (pid (the (np_escort np))) (dropped (pid t) (night_table r))"
      unfolding r2 night_table_escort_dies [OF d] k by (rule refl)
    have land: "fst (land_attack np a t (r, ds, ts)) = mark_guilt np a t r2"
      using True e by (simp add: land_attack_def Let_def split_beta)
    have present: "np_escortTargetId np = Some (pid t)" "in_table (dropped (pid t) (night_table r)) (map_option pid (np_escort np))"
      using True s k by simp_all
    show ?thesis
      unfolding land night_table_mark_guilt [OF d2] t2 Let_def using present by simp
  next
    case False
    then show ?thesis
      using s k d by (auto simp: land_attack_def Let_def night_table_mark_guilt)
  qed
qed

text \<open>The resolution's plan and the table at dusk say the same of the roles.\<close>

lemma plan_table:
  "np_escort (night_plan_of r) = roleHolder r Escort" "np_bodyguard (night_plan_of r) = roleHolder r Bodyguard"
  "np_vigilante (night_plan_of r) = roleHolder r Vigilante" "np_alive (night_plan_of r) = alive_ids r"
  "np_savedId (night_plan_of r) = aim_in (night_table r) Doctor"
  "np_guardedId (night_plan_of r) = aim_in (night_table r) Bodyguard"
  "np_escortTargetId (night_plan_of r) = aim_in (night_table r) Escort"
  "id_of (holder_in (night_table r) x) = map_option pid (roleHolder r x)"
  by (simp_all add: night_plan_of_def aim_in_table alive_ids_def holder_in_table id_of_table Let_def)

lemma the_holder_table: "roleHolder r x \<noteq> None \<Longrightarrow> nt_id (the (holder_in (night_table r) x)) = pid (the (roleHolder r x))"
  by (auto simp: holder_in_table)

lemma escort_out_table:
  "escort_out (night_table r) i \<longleftrightarrow>
     map_option pid (roleHolder r Escort) = Some i \<and> truthy (aim_in (night_table r) Escort)"
  by (auto simp: escort_out_def plan_table truthy_def split: option.split)

lemma alive_target_iff:
  assumes "distinct_ids r"
  shows "alive_target np i r = None \<longleftrightarrow> i \<notin> set (np_alive np) \<or> i \<notin> set (alive_ids r)"
    and "alive_target np i r = Some t \<Longrightarrow> pid t = i \<and> player_by_id r i = Some t \<and> alive t"
  using in_alive_ids_lookup [OF assms, of i]
  by (auto simp: alive_target_def split: option.splits if_splits dest: player_by_id_Some)

lemma evil_in_dusk:
  assumes "distinct_ids rd" and "evolves rd r" and "player_by_id r i = Some t" and "i \<in> set (alive_ids rd)"
  shows "evil_in (night_table rd) i \<longleftrightarrow> is_mafia t"
proof -
  obtain p where p: "player_by_id rd i = Some p" "alive p"
    using assms(1,4) in_alive_ids_lookup by blast
  then have "evolved p t" using evolves_player_by_id [OF assms(2) p(1)] assms(3) by simp
  then have "is_mafia t = is_mafia p" by (simp add: evolved_def identity_def is_mafia_def)
  then show ?thesis using p by (simp add: evil_in_def row_in_table [OF assms(1)] evil_row_of)
qed

lemma resolve_attack_refines:
  assumes "distinct_ids rd" and "evolves rd r"
  shows "night_table (fst (resolve_attack (night_plan_of rd) a (r, w))) =
           strike_in (night_table rd) (strike_of a) (night_table r)"
proof -
  let ?np = "night_plan_of rd" and ?D = "night_table rd"
  have d0: "distinct_ids r" using assms distinct_ids_evolves by blast
  have sub: "set (alive_ids r) \<subseteq> set (alive_ids rd)"
    using evolves_living [OF assms(2)] by (simp add: alive_ids_def)
  show ?thesis
  proof (cases "alive_target ?np (at_targetId a) r")
    case None
    then have "at_targetId a \<notin> set (alive_ids r)"
      using alive_target_iff(1) [OF d0, of ?np "at_targetId a"] sub by (auto simp: plan_table)
    with None show ?thesis by (simp add: resolve_attack_def split_beta strike_in_def strike_of_def in_night_table)
  next
    case (Some t)
    have t: "pid t = at_targetId a" "at_targetId a \<in> set (alive_ids r)" "player_by_id r (at_targetId a) = Some t"
      using alive_target_iff(2) [OF d0 Some] alive_target_iff(1) [OF d0, of ?np "at_targetId a"] Some by simp_all
    have evil: "evil_in ?D (at_targetId a) \<longleftrightarrow> is_mafia t"
      using evil_in_dusk [OF assms t(3)] t(2) sub by blast
    let ?r1 = "escort_witness ?np a t r"
    have "evolves r ?r1" by (simp add: escort_witness_def evolves_escort_sees split: option.split)
    then have d: "distinct_ids ?r1" using d0 distinct_ids_evolves by blast
    note same = night_table_escort_witness [of ?np a t r]
    note b = in_table_holder [OF d, of "roleHolder rd Bodyguard", unfolded same]
    have bod: "nt_id (the (holder_in ?D Bodyguard)) = pid (the (roleHolder rd Bodyguard))"
      if "still_alive ?r1 (roleHolder rd Bodyguard)"
      using that by (intro the_holder_table) (cases "roleHolder rd Bodyguard"; simp add: still_alive_def)
    have esc: "nt_id (the (holder_in ?D Escort)) = pid (the (roleHolder rd Escort))"
      if "in_table (dropped (at_targetId a) (night_table r)) (map_option pid (roleHolder rd Escort))"
      using that by (intro the_holder_table) (cases "roleHolder rd Escort"; simp add: in_table_def)
    obtain ds ts where w: "w = (ds, ts)" by fastforce
    have "night_table (fst (resolve_attack ?np a (r, w))) =
        (if map_option pid (np_escort ?np) = Some (at_targetId a) \<and> truthy (np_escortTargetId ?np) then night_table r
         else if np_savedId ?np = Some (at_targetId a) then night_table r
         else if np_guardedId ?np = Some (at_targetId a) \<and> still_alive ?r1 (np_bodyguard ?np)
         then dropped (pid (the (np_bodyguard ?np))) (night_table r)
         else night_table (fst (land_attack ?np a t (?r1, ds, ts))))"
      using Some t(1) same night_table_kill [OF d]
      by (simp add: resolve_attack_def w Let_def night_table_saved del: map_option_eq_Some)
    also have "\<dots> = strike_in ?D (strike_of a) (night_table r)"
      using t(2)
      by (simp add: night_table_land_attack [OF d] same strike_in_def strike_of_def in_night_table evil t(1) b plan_table
          escort_out_table bod esc Let_def del: map_option_eq_Some cong: if_cong)
    finally show ?thesis .
  qed
qed

lemma fold_attacks_refines:
  assumes "distinct_ids rd" and "evolves rd r"
  shows "night_table (fst (fold (resolve_attack (night_plan_of rd)) atts (r, w))) =
           fold (strike_in (night_table rd)) (map strike_of atts) (night_table r)"
  using assms(2)
proof (induction atts arbitrary: r w)
  case (Cons a atts)
  obtain r1 w1 where s: "resolve_attack (night_plan_of rd) a (r, w) = (r1, w1)"
    by (cases "resolve_attack (night_plan_of rd) a (r, w)")
  have "evolves r r1" using evolves_resolve_attack [of r "night_plan_of rd" a w] s by simp
  then have "evolves rd r1" using Cons.prems evolves_trans by blast
  with Cons.IH [of r1 w1] resolve_attack_refines [OF assms(1) Cons.prems, of a w] s show ?case by simp
qed simp

section \<open>The round does not move\<close>

lemma roundNo_upd_player [simp]: "roundNo (upd_player i f r) = roundNo r"
  by (simp add: upd_player_def)

lemma roundNo_kill [simp]: "roundNo (kill i c r) = roundNo r"
  by (simp add: kill_def)

lemma roundNo_credential: "createMultiplayerCredential r = (t, r') \<Longrightarrow> roundNo r' = roundNo r"
  by (auto simp: createMultiplayerCredential_def)

lemma roundNo_night_begun: "roundNo (night_begun r) = roundNo r"
proof -
  have "roundNo (fst (fold write_report ids (r, w))) = roundNo r" for ids w
  proof (induction ids arbitrary: r w)
    case (Cons i ids)
    obtain r1 w1 where s: "write_report i (r, w) = (r1, w1)" by (cases "write_report i (r, w)")
    then have "roundNo r1 = roundNo r"
      by (auto simp: write_report_def Let_def split_beta roundNo_credential [OF prod.collapse [symmetric]] split: option.splits if_splits)
    with Cons.IH [of r1 w1] s show ?case by simp
  qed simp
  then show ?thesis
    by (simp add: night_begun_def Let_def writeNightReports_def write_all_reports_def split_beta split: option.split)
qed

lemma roundNo_spend_shot: "roundNo (spend_shot r) = roundNo r"
  by (simp add: spend_shot_def split: option.split)

lemma roundNo_land_attack: "roundNo (fst (land_attack np a t (r, ds, ts))) = roundNo r"
  by (simp add: land_attack_def escort_dies_def mark_guilt_def Let_def split: option.split)

lemma roundNo_escort_witness: "roundNo (escort_witness np a t r) = roundNo r"
  by (auto simp: escort_witness_def escort_sees_def Let_def split_beta
      roundNo_credential [OF prod.collapse [symmetric]] split: option.split)

lemma roundNo_resolve_attack: "roundNo (fst (resolve_attack np a (r, w))) = roundNo r"
  by (cases w) (simp add: resolve_attack_def Let_def roundNo_land_attack roundNo_escort_witness split: option.split)

lemma roundNo_attacks: "roundNo (fst (fold (resolve_attack np) atts (r, w))) = roundNo r"
proof (induction atts arbitrary: r w)
  case (Cons a atts)
  obtain r1 w1 where s: "resolve_attack np a (r, w) = (r1, w1)" by (cases "resolve_attack np a (r, w)")
  with Cons.IH [of r1 w1] roundNo_resolve_attack [of np a r w] show ?case by simp
qed simp

section \<open>Guilt and the whole night\<close>

lemma find_alive: "find (\<lambda>p. P p \<and> alive p) ps = find P (filter alive ps)"
  by (induction ps) auto

lemma looked_up_living:
  assumes "list_all2 evolved ps qs" and "\<forall>q\<in>set qs. g (pid q) = Some q"
  shows "filter alive (List.map_filter g (map pid (filter alive ps))) = filter alive qs"
  using assms
proof (induction rule: list_all2_induct)
  case (Cons p ps q qs)
  then have "pid q = pid p" "alive q \<Longrightarrow> alive p" "g (pid p) = Some q"
    by (auto simp: evolved_def identity_def)
  with Cons show ?case by (cases "alive p") (auto simp: List.map_filter_simps)
qed (simp add: List.map_filter_simps)

lemma guilty_player_table:
  assumes "distinct_ids r" and "evolves rd r"
  shows "find nt_guilt (night_table r) = map_option row_of (guilty_player (night_plan_of rd) r)"
proof -
  have "\<forall>q\<in>set (players r). player_by_id r (pid q) = Some q"
    using player_by_id_unique [OF assms(1)] by blast
  moreover have "list_all2 evolved (players rd) (players r)" using assms(2) by (simp add: evolves_def)
  ultimately have "filter alive (List.map_filter (player_by_id r) (map pid (filter alive (players rd)))) = living r"
    using looked_up_living unfolding living_def by blast
  then have "guilty_player (night_plan_of rd) r = find guiltPending (living r)"
    unfolding guilty_player_def find_alive by (simp add: night_plan_of_def living_def Let_def)
  then show ?thesis by (simp add: night_table_def find_map_row)
qed

lemma land_guilt_refines:
  assumes "distinct_ids r" and "evolves rd r"
  shows "night_table (fst (land_guilt (night_plan_of rd) (r, w))) = guilt_falls (roundNo r) (night_table r)"
  by (cases w; cases "guilty_player (night_plan_of rd) r")
    (simp_all add: land_guilt_def guilt_falls_def guilty_player_table [OF assms] night_table_kill [OF assms(1)])

lemma alive_ids_night_narration: "alive_ids (snd (night_narration ds r)) = alive_ids r"
  by (simp add: night_narration_def Let_def split: option.split)

lemma alive_ids_fold_notes: "alive_ids (fold (\<lambda>name r. add_note ph (f name) r) names r) = alive_ids r"
  by (induction names arbitrary: r) simp_all

lemma alive_ids_resolveNight: "alive_ids (resolveNight now r) = alive_ids (fst (night_outcome r))"
  by (simp add: resolveNight_def split_beta Let_def alive_ids_fold_notes alive_ids_night_narration)

lemma night_outcome_refines:
  assumes "distinct_ids r"
  shows "alive_ids (fst (night_outcome r)) = night_spec (roundNo r) (night_table r)"
proof -
  let ?rd = "night_begun r" and ?np = "night_plan_of (night_begun r)"
  obtain r2 w where f: "fold (resolve_attack ?np) (night_attacks ?rd) (spend_shot ?rd, [], []) = (r2, w)"
    by (cases "fold (resolve_attack ?np) (night_attacks ?rd) (spend_shot ?rd, [], [])")
  have d: "distinct_ids ?rd" using assms distinct_ids_evolves [OF evolves_night_begun] by blast
  have e: "evolves ?rd (spend_shot ?rd)" by (rule evolves_spend_shot)
  have "evolves (spend_shot ?rd) r2"
    using evolves_fold_fst [of "resolve_attack ?np", OF evolves_resolve_attack] f by (metis fst_conv)
  with e have e2: "evolves ?rd r2" using evolves_trans by blast
  then have d2: "distinct_ids r2" using d distinct_ids_evolves by blast
  have T: "night_table ?rd = night_table r" by (rule night_table_night_begun)
  have t2: "night_table r2 = fold (strike_in (night_table r)) (strikes_in (night_table r)) (shot_spent (night_table r))"
    using fold_attacks_refines [OF d e, of "night_attacks ?rd" "([], [])"] f
    by (simp add: night_attacks_table T night_table_spend_shot [OF d])
  have n2: "roundNo r2 = roundNo r"
    using roundNo_attacks [of ?np "night_attacks ?rd" "spend_shot ?rd" "([], [])"] f
    by (simp add: roundNo_spend_shot roundNo_night_begun)
  have "night_outcome r = land_guilt ?np (r2, w)"
    using f by (simp add: night_outcome_def Let_def night_attacks_def)
  then show ?thesis
    unfolding night_spec_def table_ids [symmetric]
    by (simp add: land_guilt_refines [OF d2 e2] t2 n2)
qed

text \<open>C4. The resolution of a night, with its reports, narration, dawn, notes and win check,
  leaves alive exactly the ids that an account over the table of the players alive at dusk leaves alive.
  In the account the godfather, else the mafia who joined first, strikes whom he aims at, and the
  vigilante with a shot left strikes too; whom the jammer aims at does nothing. A strike at somebody
  already dead, at an escort who is out, or at whom the doctor watches takes nobody; a guarding
  bodyguard still alive dies instead of the target; else the target dies, and so does an escort spending
  the night there; a vigilante who so killed one of the others carries guilt. From the second round on,
  guilt then takes the first of those left who carries it and has used the shot.\<close>

theorem night_refines_spec:
  assumes "distinct_ids r"
  shows "alive_ids (resolveNight now r) = night_spec (roundNo r) (night_table r)"
  unfolding alive_ids_resolveNight by (rule night_outcome_refines) (rule assms)

text \<open>A night where the doctor is jammed, the shot falls on a townsperson and guilt follows it.\<close>

definition busy_night :: liars_room where
  "busy_night = (sample_room ModeMafia
     [(sample_player ''m'' Mafia)\<lparr>nightTarget := Some ''c''\<rparr>,
      (sample_player ''j'' Jammer)\<lparr>nightTarget := Some ''d''\<rparr>,
      (sample_player ''d'' Doctor)\<lparr>nightTarget := Some ''c''\<rparr>,
      (sample_player ''c'' Detective)\<lparr>nightTarget := Some ''m''\<rparr>,
      (sample_player ''v'' Vigilante)\<lparr>nightTarget := Some ''t''\<rparr>,
      sample_player ''t'' Villager])\<lparr>roundNo := 2\<rparr>"

lemma busy_night_distinct: "distinct_ids busy_night"
  by (simp add: distinct_ids_def busy_night_def)

lemma busy_night_table:
  "night_table busy_night = map row_of (players busy_night)" "roundNo busy_night = 2"
  by (simp_all add: night_table_def living_def busy_night_def)

lemma night_refines_spec_witness: "alive_ids (resolveNight 0 busy_night) = [''m'', ''j'', ''d'']"
proof -
  have "night_spec 2 (map row_of (players busy_night)) = [''m'', ''j'', ''d'']"
    unfolding busy_night_def by code_simp
  then show ?thesis
    using night_refines_spec [OF busy_night_distinct, of 0] by (simp add: busy_night_table)
qed

section \<open>Who can die at night\<close>

text \<open>The four ways, each with all that must hold of the table at dusk.\<close>

definition struck_down :: "night_row list \<Rightarrow> js_string \<Rightarrow> bool" where
  "struck_down D i \<longleftrightarrow> i \<in> fst ` set (strikes_in D) \<and> \<not> escort_out D i \<and> aim_in D Doctor \<noteq> Some i"

definition died_guarding :: "night_row list \<Rightarrow> js_string \<Rightarrow> bool" where
  "died_guarding D i \<longleftrightarrow>
     id_of (holder_in D Bodyguard) = Some i \<and>
     list_ex (\<lambda>s. struck_down D (fst s) \<and> aim_in D Bodyguard = Some (fst s)) (strikes_in D)"

definition died_visiting :: "night_row list \<Rightarrow> js_string \<Rightarrow> bool" where
  "died_visiting D i \<longleftrightarrow>
     id_of (holder_in D Escort) = Some i \<and>
     list_ex (\<lambda>s. struck_down D (fst s) \<and> aim_in D Escort = Some (fst s)) (strikes_in D)"

definition shot_wrongly :: "night_row list \<Rightarrow> js_string \<Rightarrow> bool" where
  "shot_wrongly D i \<longleftrightarrow>
     id_of (holder_in D Vigilante) = Some i \<and> list_ex (\<lambda>s. \<not> evil_in D (fst s)) (shot_in D)"

definition died_of_guilt :: "nat \<Rightarrow> night_row list \<Rightarrow> js_string \<Rightarrow> bool" where
  "died_of_guilt n D i \<longleftrightarrow>
     1 < n \<and> list_ex (\<lambda>p. nt_id p = i \<and> \<not> nt_fallen p \<and> (nt_guilt p \<or> shot_wrongly D i) \<and>
       (nt_shotSpent p \<or> shot_in D \<noteq> [])) D"

lemma dropped_ids: "set (map nt_id (dropped i T)) = set (map nt_id T) - {i}"
  by (auto simp: dropped_def)

lemma guilt_on_ids: "map nt_id (guilt_on h T) = map nt_id T"
  by (simp add: guilt_on_def)

lemma in_table_ids: "in_table T (Some i) \<longleftrightarrow> i \<in> set (map nt_id T)"
  by (simp add: in_table_def)

lemma id_of_the: "in_table T (id_of h) \<Longrightarrow> id_of h = Some (nt_id (the h))"
  by (cases h) (simp_all add: in_table_def id_of_def)

lemma strike_takes:
  assumes "s \<in> set (strikes_in D)" and "i \<in> set (map nt_id T)" and "i \<notin> set (map nt_id (strike_in D s T))"
  shows "struck_down D i \<or> died_guarding D i \<or> died_visiting D i"
proof -
  obtain t m where s: "s = (t, m)" by fastforce
  have hit: "in_table T (Some t)" "\<not> escort_out D t" "aim_in D Doctor \<noteq> Some t"
    using assms(2,3) by (auto simp: strike_in_def s split: if_splits)
  then have down: "struck_down D t" using assms(1) by (force simp: struck_down_def s)
  show ?thesis
  proof (cases "aim_in D Bodyguard = Some t \<and> in_table T (id_of (holder_in D Bodyguard))")
    case True
    then have "i = nt_id (the (holder_in D Bodyguard))"
      using assms(2,3) hit by (simp add: strike_in_def s dropped_ids del: set_map)
    then have "died_guarding D i"
      using True id_of_the [of T "holder_in D Bodyguard"] down assms(1)
      by (auto simp: died_guarding_def list_ex_iff s intro!: bexI [of _ "(t, m)"])
    then show ?thesis by blast
  next
    case False
    define T2 where "T2 = (if aim_in D Escort = Some t \<and> in_table (dropped t T) (id_of (holder_in D Escort))
       then dropped (nt_id (the (holder_in D Escort))) (dropped t T) else dropped t T)"
    have "map nt_id (strike_in D s T) = map nt_id T2"
      using False hit by (auto simp: strike_in_def s T2_def guilt_on_ids Let_def)
    then have out: "i \<notin> set (map nt_id T2)" using assms(3) by simp
    show ?thesis
    proof (cases "i = t")
      case True
      then show ?thesis using down by blast
    next
      case other: False
      then have esc: "aim_in D Escort = Some t" "in_table (dropped t T) (id_of (holder_in D Escort))"
        "i = nt_id (the (holder_in D Escort))"
        using out assms(2) by (auto simp: T2_def dropped_ids simp del: set_map split: if_splits)
      then have "died_visiting D i"
        using id_of_the [of "dropped t T" "holder_in D Escort"] down assms(1)
        by (auto simp: died_visiting_def list_ex_iff s intro!: bexI [of _ "(t, m)"])
      then show ?thesis by blast
    qed
  qed
qed

lemma strikes_take:
  assumes "set ss \<subseteq> set (strikes_in D)" and "i \<in> set (map nt_id T)" and "i \<notin> set (map nt_id (fold (strike_in D) ss T))"
  shows "struck_down D i \<or> died_guarding D i \<or> died_visiting D i"
  using assms
proof (induction ss arbitrary: T)
  case (Cons s ss)
  show ?case
  proof (cases "i \<in> set (map nt_id (strike_in D s T))")
    case True
    with Cons.IH [of "strike_in D s T"] Cons.prems show ?thesis by simp
  next
    case False
    with strike_takes [of s D i T] Cons.prems show ?thesis by simp
  qed
qed simp

text \<open>A row that is left after the strikes is a row of the dusk, with the marks of this night on it.\<close>

definition marked_from :: "night_row list \<Rightarrow> night_row \<Rightarrow> night_row \<Rightarrow> bool" where
  "marked_from D p q \<longleftrightarrow>
     nt_id q = nt_id p \<and> nt_fallen q = nt_fallen p \<and> (nt_shotSpent q \<longrightarrow> nt_shotSpent p \<or> shot_in D \<noteq> []) \<and>
     (nt_guilt q \<longrightarrow> nt_guilt p \<or> shot_wrongly D (nt_id p))"

definition rows_from :: "night_row list \<Rightarrow> night_row list \<Rightarrow> bool" where
  "rows_from D T \<longleftrightarrow> (\<forall>q\<in>set T. \<exists>p\<in>set D. marked_from D p q)"

lemma rows_from_dropped: "rows_from D T \<Longrightarrow> rows_from D (dropped i T)"
  by (simp add: rows_from_def dropped_def)

lemma rows_from_guilt:
  assumes "rows_from D T" and "\<And>i. h = Some i \<Longrightarrow> shot_wrongly D i"
  shows "rows_from D (guilt_on h T)"
  unfolding rows_from_def
proof
  fix q assume "q \<in> set (guilt_on h T)"
  then obtain q' where q': "q' \<in> set T" "q = (if h = Some (nt_id q') then q'\<lparr>nt_guilt := True\<rparr> else q')"
    by (auto simp: guilt_on_def)
  then obtain p where "p \<in> set D" "marked_from D p q'" using assms(1) by (auto simp: rows_from_def)
  with q' assms(2) [of "nt_id q'"] show "\<exists>p\<in>set D. marked_from D p q"
    by (intro bexI [of _ p]) (auto simp: marked_from_def)
qed

lemma rows_from_shot: "rows_from D (shot_spent D)"
proof -
  have "\<exists>p\<in>set D. marked_from D p q" if "q \<in> set (shot_spent D)" for q
    using that by (auto simp: shot_spent_def marked_from_def split: if_splits)
  then show ?thesis by (simp add: rows_from_def)
qed

lemma not_of_mafia: "(i, False) \<in> set (strikes_in D) \<Longrightarrow> (i, False) \<in> set (shot_in D)"
  by (auto simp: strikes_in_def struck_by_def split: option.splits if_splits)

lemma rows_from_strike:
  assumes "rows_from D T" and "s \<in> set (strikes_in D)"
  shows "rows_from D (strike_in D s T)"
proof -
  obtain t m where s: "s = (t, m)" by fastforce
  have "shot_wrongly D i" if "id_of (holder_in D Vigilante) = Some i" "\<not> m" "\<not> evil_in D t" for i
  proof -
    have "(t, False) \<in> set (shot_in D)" using not_of_mafia [of t D] assms(2) that(2) by (simp add: s)
    then show ?thesis using that by (auto simp: shot_wrongly_def list_ex_iff intro!: bexI [of _ "(t, False)"])
  qed
  then show ?thesis
    using assms(1) by (auto simp: strike_in_def s Let_def intro!: rows_from_dropped rows_from_guilt)
qed

lemma rows_from_strikes:
  "rows_from D T \<Longrightarrow> set ss \<subseteq> set (strikes_in D) \<Longrightarrow> rows_from D (fold (strike_in D) ss T)"
  by (induction ss arbitrary: T) (simp_all add: rows_from_strike)

lemma shot_spent_ids: "map nt_id (shot_spent D) = map nt_id D"
  by (simp add: shot_spent_def)

lemma guilt_takes:
  assumes "rows_from D T" and "i \<in> set (map nt_id T)" and "i \<notin> set (map nt_id (guilt_falls n T))"
  shows "died_of_guilt n D i"
proof -
  obtain g where g: "find nt_guilt T = Some g" "nt_shotSpent g" "\<not> nt_fallen g" "1 < n" "i = nt_id g"
    using assms(2,3) by (auto simp: guilt_falls_def dropped_ids simp del: set_map split: option.splits if_splits)
  then have "g \<in> set T" "nt_guilt g" using find_SomeD by fastforce+
  then obtain p where "p \<in> set D" "marked_from D p g" using assms(1) by (auto simp: rows_from_def)
  then show ?thesis
    using g \<open>nt_guilt g\<close> by (auto simp: died_of_guilt_def list_ex_iff marked_from_def intro!: bexI [of _ p])
qed

lemma night_spec_explained:
  assumes "i \<in> set (map nt_id D)" and "i \<notin> set (night_spec n D)"
  shows "struck_down D i \<or> died_guarding D i \<or> died_visiting D i \<or> died_of_guilt n D i"
proof -
  let ?T = "fold (strike_in D) (strikes_in D) (shot_spent D)"
  have i: "i \<in> set (map nt_id (shot_spent D))" using assms(1) by (simp only: shot_spent_ids)
  show ?thesis
  proof (cases "i \<in> set (map nt_id ?T)")
    case True
    have "rows_from D ?T" using rows_from_strikes [OF rows_from_shot] by blast
    with True guilt_takes assms(2) show ?thesis unfolding night_spec_def by blast
  next
    case False
    with strikes_take [of "strikes_in D" D i "shot_spent D"] i show ?thesis by blast
  qed
qed

text \<open>C38. Nobody dies at night without one of four reasons. Whoever was alive at dusk and
  is not at dawn was struck, was not saved by the doctor and was not an escort who was out; or is the
  bodyguard and guarded somebody so struck; or is the escort and spent the night at somebody's so struck;
  or, after the first round, carried guilt, from before or from shooting one of the others this night, and
  has used the vigilante's shot.\<close>

theorem night_deaths_explained:
  assumes "distinct_ids r" and "i \<in> set (alive_ids r)" and "i \<notin> set (alive_ids (resolveNight now r))"
  shows "struck_down (night_table r) i \<or> died_guarding (night_table r) i \<or>
         died_visiting (night_table r) i \<or> died_of_guilt (roundNo r) (night_table r) i"
  using night_spec_explained [of i "night_table r" "roundNo r"] assms(2,3)
  unfolding table_ids alive_ids_resolveNight night_outcome_refines [OF assms(1)] by blast

lemma night_deaths_explained_witness:
  "died_of_guilt 2 (night_table busy_night) ''v'' \<and> \<not> struck_down (night_table busy_night) ''v''"
proof -
  have a: "''v'' \<in> set (alive_ids busy_night)"
    by (simp add: busy_night_table flip: table_ids) (simp add: busy_night_def)
  have "night_spec 2 (map row_of (players busy_night)) = [''m'', ''j'', ''d'']"
    unfolding busy_night_def by code_simp
  then have "''v'' \<notin> set (alive_ids (resolveNight 0 busy_night))"
    by (simp add: alive_ids_resolveNight night_outcome_refines [OF busy_night_distinct] busy_night_table)
  note causes = night_deaths_explained [OF busy_night_distinct a this]
  have n: "\<not> struck_down (night_table busy_night) ''v''" "\<not> died_guarding (night_table busy_night) ''v''"
    "\<not> died_visiting (night_table busy_night) ''v''"
    unfolding busy_night_table busy_night_def by code_simp+
  then show ?thesis using causes by (simp add: busy_night_table)
qed

section \<open>The vigilante's guilt\<close>

lemma map_filter_find:
  "find P (List.map_filter f xs) = (case find (\<lambda>x. case f x of None \<Rightarrow> False | Some y \<Rightarrow> P y) xs of
      None \<Rightarrow> None | Some x \<Rightarrow> f x)"
  by (induction xs) (auto simp: List.map_filter_simps split: option.splits)

lemma find_equal: "x \<in> set xs \<Longrightarrow> find (\<lambda>y. y = x) xs = Some x"
  by (induction xs) auto

text \<open>After the first night, the guilt of a vigilante who shot a townsperson
  is not put off: the mark the shot leaves and the test for guilt belong to the same resolution, so
  the vigilante is gone by the dawn of that very night (the rules say the following night).\<close>

theorem guilt_lands_same_night:
  assumes "distinct_ids r" and "np_vigilante np = Some v" and "pid v \<in> set (np_alive np)"
    and "player_by_id r (pid v) = Some q" and "alive q" and "vigilanteUsed q" and "deathRound q = None"
    and "1 < roundNo r" and "\<not> at_fromMafia a" and "liarsRoleSide (role_or_villager t) \<noteq> MafiaSide"
    and "\<forall>p\<in>set (players r). guiltPending p \<longrightarrow> pid p = pid v"
  shows "pid v \<notin> set (alive_ids (fst (land_guilt np (mark_guilt np a t r, ds, ts))))"
proof -
  let ?m = "mark_guilt np a t r"
  have m: "?m = upd_player (pid v) (\<lambda>p. p\<lparr>guiltPending := True\<rparr>) r"
    using assms by (simp add: mark_guilt_def)
  have d: "distinct_ids ?m" using assms(1) distinct_ids_evolves [OF evolves_mark_guilt] by blast
  have look: "player_by_id ?m i =
      (if i = pid v then Some (q\<lparr>guiltPending := True\<rparr>) else player_by_id r i)" for i
    unfolding m using assms(4) by (subst player_by_id_upd_player) simp_all
  have other: "\<not> guiltPending p" if "player_by_id r i = Some p" "i \<noteq> pid v" for i p
    using that assms(11) player_by_id_Some by blast
  let ?P = "\<lambda>i. case player_by_id ?m i of None \<Rightarrow> False | Some y \<Rightarrow> guiltPending y \<and> alive y"
  have P: "?P i \<longleftrightarrow> i = pid v" for i
    using look [of i] other [of i] assms(5) by (auto split: option.split)
  have "?P = (\<lambda>i. i = pid v)" by (rule ext) (rule P)
  then have "find ?P (np_alive np) = Some (pid v)"
    using find_equal [OF assms(3)] by (simp only:)
  then have g: "guilty_player np ?m = Some (q\<lparr>guiltPending := True\<rparr>)"
    unfolding guilty_player_def map_filter_find by (simp add: look)
  have r: "roundNo ?m = roundNo r" unfolding m by (simp add: upd_player_def)
  have "pid q = pid v" using player_by_id_Some [OF assms(4)] by simp
  then have "fst (land_guilt np (?m, ds, ts)) = kill (pid v) Guilt ?m"
    using g assms(6,7,8) r by (simp add: land_guilt_def)
  then show ?thesis by (simp add: alive_ids_kill [OF d])
qed

definition guilt_sample :: liars_room where
  "guilt_sample = (sample_room ModeMafia
     [(sample_player ''v'' Vigilante)\<lparr>vigilanteUsed := True\<rparr>, sample_player ''t'' Villager])\<lparr>roundNo := 2\<rparr>"

definition guilt_plan :: night_plan where
  "guilt_plan = \<lparr>np_alive = [''v'', ''t''], np_bodyguard = None, np_escort = None,
     np_vigilante = Some (sample_player ''v'' Vigilante), np_savedId = None, np_guardedId = None,
     np_escortTargetId = None\<rparr>"

definition guilt_shot :: night_attack where
  "guilt_shot = \<lparr>at_targetId = ''t'', at_attacker = sample_player ''v'' Vigilante, at_fromMafia = False\<rparr>"

lemma guilt_lands_same_night_witness:
  "''v'' \<notin> set (alive_ids (fst (land_guilt guilt_plan
     (mark_guilt guilt_plan guilt_shot (sample_player ''t'' Villager) guilt_sample, [], []))))"
proof -
  have "distinct_ids guilt_sample"
    by (simp add: distinct_ids_def guilt_sample_def)
  moreover have "player_by_id guilt_sample (pid (sample_player ''v'' Vigilante)) =
      Some ((sample_player ''v'' Vigilante)\<lparr>vigilanteUsed := True\<rparr>)"
    by (simp add: player_by_id_def guilt_sample_def)
  moreover have "\<forall>p\<in>set (players guilt_sample). guiltPending p \<longrightarrow> pid p = pid (sample_player ''v'' Vigilante)"
    by (simp add: guilt_sample_def)
  ultimately show ?thesis
    using guilt_lands_same_night [of guilt_sample guilt_plan "sample_player ''v'' Vigilante" _ guilt_shot
        "sample_player ''t'' Villager" "[]" "[]"]
    by (simp add: guilt_plan_def guilt_shot_def role_or_villager_def) (simp add: guilt_sample_def)
qed

section \<open>Corroborated movement\<close>

lemma map_filter_set: "set (List.map_filter f xs) = {y. \<exists>x\<in>set xs. f x = Some y}"
  by (induction xs) (auto simp: List.map_filter_simps split: option.split)

definition watchers_of :: "liars_room \<Rightarrow> js_string \<Rightarrow> player_state set" where
  "watchers_of r i = {w \<in> set (living r). \<not> rd_moves (LIARS_ROLES (role_or_villager w)) \<and> nightTarget w = Some i}"

lemma count_map_filter: "count_list (map f (filter P xs)) y = length (filter (\<lambda>x. P x \<and> f x = y) xs)"
  by (induction xs) auto

lemma count_watched:
  assumes "distinct_ids r" and "i \<noteq> []"
  shows "count_list (watched_targets r) i = card (watchers_of r i)"
proof -
  let ?Q = "\<lambda>w. \<not> rd_moves (LIARS_ROLES (role_or_villager w)) \<and> nightTarget w = Some i"
  have "(\<not> rd_moves (LIARS_ROLES (role_or_villager w)) \<and> truthy (nightTarget w)) \<and> the (nightTarget w) = i \<longleftrightarrow> ?Q w" for w
    using assms(2) by (cases "nightTarget w") auto
  then have "count_list (watched_targets r) i = length (filter ?Q (living r))"
    by (simp add: watched_targets_def count_map_filter)
  moreover have "distinct (living r)"
    using assms(1) by (simp add: living_def distinct_ids_def distinct_map)
  ultimately show ?thesis
    by (simp add: watchers_of_def flip: distinct_card)
qed

lemma ex_count_elim:
  "(\<exists>i k. (i \<noteq> [] \<and> k = c i \<and> (2::nat) \<le> k) \<and> B i) \<longleftrightarrow> (\<exists>i. i \<noteq> [] \<and> 2 \<le> c i \<and> B i)"
  by blast

text \<open>A name is announced as seen moving exactly when it is the name of
  a player who left the house that night and whose door at least two living players stayed up to
  watch; one watcher, or any number watching somebody who stayed in, announces nothing.\<close>

theorem corroborated_movement_exact:
  assumes "distinct_ids r"
  shows "n \<in> set (corroboratedMovement r) \<longleftrightarrow>
    (\<exists>t\<in>set (players r). pname t = n \<and> pid t \<noteq> [] \<and>
       liarsActionMoves (role_or_villager t) (nightTarget t) \<and> 2 \<le> card (watchers_of r (pid t)))"
proof -
  have tally: "(i, k) \<in> set (tally (watched_targets r)) \<and> 2 \<le> k \<longleftrightarrow>
      i \<noteq> [] \<and> k = card (watchers_of r i) \<and> 2 \<le> k" for i k
  proof (cases "i = []")
    case True
    have "[] \<notin> set (watched_targets r)"
      by (auto simp: watched_targets_def truthy_def split: option.splits)
    with True show ?thesis by (simp add: in_tally_iff)
  next
    case False
    then show ?thesis
      using count_watched [OF assms False] count_list_0_iff [of "watched_targets r" i]
      by (auto simp: in_tally_iff)
  qed
  have seen: "seen_moving r (i, k) = Some n \<longleftrightarrow> 2 \<le> k \<and> (\<exists>t. player_by_id r i = Some t \<and>
      liarsActionMoves (role_or_villager t) (nightTarget t) \<and> pname t = n)" for i k
    by (auto simp: seen_moving_def split: option.split)
  have "n \<in> set (corroboratedMovement r) \<longleftrightarrow> (\<exists>i k. ((i, k) \<in> set (tally (watched_targets r)) \<and> 2 \<le> k) \<and>
      (\<exists>t. player_by_id r i = Some t \<and> liarsActionMoves (role_or_villager t) (nightTarget t) \<and> pname t = n))"
    unfolding corroboratedMovement_def map_filter_set by (simp add: Bex_def split_paired_Ex seen)
  also have "\<dots> \<longleftrightarrow> (\<exists>i. i \<noteq> [] \<and> 2 \<le> card (watchers_of r i) \<and>
      (\<exists>t. player_by_id r i = Some t \<and> liarsActionMoves (role_or_villager t) (nightTarget t) \<and> pname t = n))"
    unfolding tally by (rule ex_count_elim)
  also have "\<dots> \<longleftrightarrow> (\<exists>t\<in>set (players r). pname t = n \<and> pid t \<noteq> [] \<and>
       liarsActionMoves (role_or_villager t) (nightTarget t) \<and> 2 \<le> card (watchers_of r (pid t)))"
    unfolding player_by_id_unique [OF assms] by (auto simp only: simp_thms Bex_def)
  finally show ?thesis .
qed

lemma corroborated_movement_exact_witness:
  "''b'' \<in> set (corroboratedMovement five_room) \<longleftrightarrow>
    (\<exists>t\<in>set (players five_room). pname t = ''b'' \<and> pid t \<noteq> [] \<and>
       liarsActionMoves (role_or_villager t) (nightTarget t) \<and> 2 \<le> card (watchers_of five_room (pid t)))"
  by (rule corroborated_movement_exact) (rule distinct_five_room)

section \<open>The report cards\<close>

lemma write_report_lookup:
  "player_by_id (fst (write_report i (r, w))) j =
     (case player_by_id r i of
        None \<Rightarrow> player_by_id r j
      | Some p \<Rightarrow>
          (if i = j \<and> report p = None
           then Some (write_card (roundNo r) (map_option pname (player_by_ref r (nightTarget p)))
                  (report_card r p) (fst (createMultiplayerCredential r)) p)
           else player_by_id r j))"
proof (cases "player_by_id r i")
  case (Some p)
  have c: "player_by_id (snd (createMultiplayerCredential r)) k = player_by_id r k" for k
    by (simp add: createMultiplayerCredential_def player_by_id_def)
  have w: "pid (write_card rd s crd t q) = pid q" for rd s crd t q
    by (simp add: write_card_def remember_def Let_def split: prod.split)
  show ?thesis
    using Some by (cases "report p"; cases "i = j")
      (simp_all add: write_report_def Let_def split_beta player_by_id_upd_player w c)
qed (simp add: write_report_def)

lemma write_card_report [simp]: "\<exists>y. report (write_card rd s crd t q) = Some y"
  by (simp add: write_card_def Let_def split: prod.split)

lemma write_report_keeps:
  "player_by_id r j = Some p \<Longrightarrow> report p \<noteq> None \<Longrightarrow>
   player_by_id (fst (write_report i (r, w))) j = Some p"
  by (auto simp: write_report_lookup split: option.split)

lemma write_report_writes:
  "player_by_id r j = Some p \<Longrightarrow> \<exists>q. player_by_id (fst (write_report j (r, w))) j = Some q \<and> report q \<noteq> None"
  by (auto simp: write_report_lookup)

lemma fold_reports_keep:
  "player_by_id r j = Some p \<Longrightarrow> report p \<noteq> None \<Longrightarrow>
   player_by_id (fst (fold write_report ids (r, w))) j = Some p"
proof (induction ids arbitrary: r w)
  case (Cons i ids)
  obtain r1 w1 where s: "write_report i (r, w) = (r1, w1)" by (cases "write_report i (r, w)")
  with Cons.IH [of r1 w1] write_report_keeps [OF Cons.prems, of i w] Cons.prems show ?case by simp
qed simp

lemma fold_reports_write:
  "j \<in> set ids \<Longrightarrow> player_by_id r j \<noteq> None \<Longrightarrow>
   \<exists>q. player_by_id (fst (fold write_report ids (r, w))) j = Some q \<and> report q \<noteq> None"
proof (induction ids arbitrary: r w)
  case (Cons i ids)
  obtain r1 w1 where s: "write_report i (r, w) = (r1, w1)" by (cases "write_report i (r, w)")
  show ?case
  proof (cases "i = j")
    case True
    obtain q where q: "player_by_id r1 j = Some q" "report q \<noteq> None"
      using write_report_writes [of r j _ w] Cons.prems(2) s True by (metis fst_conv not_None_eq)
    with fold_reports_keep [OF q, of ids w1] s show ?thesis by simp
  next
    case False
    have "evolves r r1" using evolves_write_report [of r i w] s by simp
    then have "player_by_id r1 j \<noteq> None"
      using Cons.prems(2) evolves_player_by_id_None [of r r1 j] by simp
    with Cons.IH [of r1 w1] Cons.prems(1) False s show ?thesis by simp
  qed
qed simp

lemma writeNightReports_lookup:
  "player_by_id (writeNightReports r) j = player_by_id (fst (fold write_report (map pid (living r)) (r, False))) j"
  by (simp add: writeNightReports_def write_all_reports_def split_beta)

text \<open>The report moment gives a card to everybody who is alive, whatever their
  role and target, and a card that was already written is left as it was, however often the
  lazy advance runs the routine again.\<close>

theorem reports_for_everyone:
  assumes "distinct_ids r" and "player_by_id r i = Some p" and "alive p"
  shows "\<exists>q. player_by_id (writeNightReports r) i = Some q \<and> report q \<noteq> None \<and>
             (report p \<noteq> None \<longrightarrow> report q = report p)"
proof -
  have "i \<in> set (map pid (living r))"
    using assms in_alive_ids_lookup by (fastforce simp: alive_ids_def)
  then obtain q where q: "player_by_id (writeNightReports r) i = Some q" "report q \<noteq> None"
    using fold_reports_write [of i "map pid (living r)" r False] assms(2)
    by (auto simp: writeNightReports_lookup)
  have "report p \<noteq> None \<Longrightarrow> q = p"
    using fold_reports_keep [OF assms(2), of "map pid (living r)" False] q(1)
    by (simp add: writeNightReports_lookup)
  with q show ?thesis by blast
qed

lemma reports_for_everyone_witness:
  "\<exists>q. player_by_id (writeNightReports five_room) ''a'' = Some q \<and> report q \<noteq> None"
proof -
  have "player_by_id five_room ''a'' = Some (sample_player ''a'' Mafia)"
    by (simp add: player_by_id_def sample_defs)
  from reports_for_everyone [OF distinct_five_room this] show ?thesis by auto
qed

end
