(* ===== verification/LiarsVoteFacts.thy ===== *)
theory LiarsVoteFacts
  imports LiarsSamples
begin

text \<open>
  The vote: who is tied, what a tie leads to, and who leaves the game when a vote closes.
\<close>

section \<open>Ties\<close>

lemma best_count_max: "best_count t = Max (insert 0 (snd ` set t))"
proof -
  have "foldl max a xs = Max (insert a (set xs))" for a :: nat and xs
  proof (induction xs arbitrary: a)
    case (Cons x xs)
    have "Max (insert (max a x) (set xs)) = Max (insert a (insert x (set xs)))"
    proof (cases "xs = []")
      case False
      then show ?thesis by (simp add: max.assoc)
    qed simp
    with Cons show ?case by simp
  qed simp
  then show ?thesis by (simp add: best_count_def)
qed

lemma best_count_ge: "(k, n) \<in> set t \<Longrightarrow> n \<le> best_count t"
  unfolding best_count_max by (rule Max_ge) (auto simp: image_iff Bex_def intro: exI)

lemma best_count_attained: "best_count t \<noteq> 0 \<Longrightarrow> \<exists>k. (k, best_count t) \<in> set t"
proof -
  assume n: "best_count t \<noteq> 0"
  have "best_count t \<in> insert 0 (snd ` set t)"
    unfolding best_count_max by (rule Max_in) auto
  with n show ?thesis by auto
qed

lemma tiedIds_mem:
  "x \<in> set (tiedIds votes) \<longleftrightarrow>
     x \<in> set (cast_ballots votes) \<and>
     (\<forall>y\<in>set (cast_ballots votes). count_list (cast_ballots votes) y \<le> count_list (cast_ballots votes) x)"
  (is "_ \<longleftrightarrow> ?rhs")
proof -
  let ?ks = "cast_ballots votes" and ?t = "tally (cast_ballots votes)"
  let ?b = "best_count ?t"
  have le: "count_list ?ks y \<le> ?b" if "y \<in> set ?ks" for y
    using that by (intro best_count_ge [of y]) (simp add: in_tally_iff)
  show ?thesis
  proof (cases "?b = 0")
    case True
    have "y \<notin> set ?ks" for y
      using le [of y] True by (auto simp: count_list_0_iff)
    with True show ?thesis by (simp add: tiedIds_def Let_def)
  next
    case False
    obtain k where k: "k \<in> set ?ks" "?b = count_list ?ks k"
      using best_count_attained [OF False] by (auto simp: in_tally_iff)
    have "x \<in> set (tiedIds votes) \<longleftrightarrow> x \<in> set ?ks \<and> count_list ?ks x = ?b"
      using False by (auto simp: tiedIds_def Let_def in_tally_iff image_iff Bex_def)
    also have "\<dots> \<longleftrightarrow> ?rhs" using le k by (metis le_antisym)
    finally show ?thesis .
  qed
qed

lemma tiedIds_distinct: "distinct (tiedIds votes)"
  by (simp add: tiedIds_def Let_def distinct_tally distinct_map_filter)

text \<open>The two routines of the vote agree on every list of ballots: when anybody
  got a ballot, there is a strict leader exactly when one id is level at the top, and no leader
  exactly when at least two are; so a vote that ejects nobody although somebody voted always has a
  tie to run off.\<close>

theorem tie_iff_no_leader:
  "(liarsPlurality votes = None \<and> cast_ballots votes \<noteq> []) \<longleftrightarrow> 1 < length (tiedIds votes)"
proof -
  let ?ks = "cast_ballots votes"
  have two: "1 < length xs \<longleftrightarrow> (\<exists>x\<in>set xs. \<exists>y\<in>set xs. x \<noteq> y)" if "distinct xs" for xs :: "js_string list"
  proof -
    have "length xs = card (set xs)" using that by (simp add: distinct_card)
    then have "1 < length xs \<longleftrightarrow> \<not> card (set xs) \<le> Suc 0" by auto
    then show ?thesis by (simp add: card_le_Suc0_iff_eq)
  qed
  show ?thesis
  proof
    assume a: "liarsPlurality votes = None \<and> ?ks \<noteq> []"
    let ?M = "Max (count_list ?ks ` set ?ks)"
    have "?M \<in> count_list ?ks ` set ?ks" using a by (intro Max_in) auto
    then obtain x where "x \<in> set ?ks" and m: "count_list ?ks x = ?M" by auto
    moreover have "\<forall>y\<in>set ?ks. count_list ?ks y \<le> ?M" by simp
    ultimately have x: "x \<in> set ?ks" "\<forall>y\<in>set ?ks. count_list ?ks y \<le> count_list ?ks x" by simp_all
    have "\<not> strict_leader ?ks x"
      using a liarsPlurality_strict [of votes x] by simp
    then obtain y where y: "y \<in> set ?ks" "y \<noteq> x" "count_list ?ks x \<le> count_list ?ks y"
      using x unfolding strict_leader_def by (meson leI)
    then have "\<forall>z\<in>set ?ks. count_list ?ks z \<le> count_list ?ks y"
      using x(2) le_trans by blast
    with x y have "x \<in> set (tiedIds votes)" "y \<in> set (tiedIds votes)"
      by (simp_all add: tiedIds_mem)
    with y(2) show "1 < length (tiedIds votes)"
      using two [OF tiedIds_distinct, of votes] by blast
  next
    assume "1 < length (tiedIds votes)"
    then obtain x y where x: "x \<in> set (tiedIds votes)" and y: "y \<in> set (tiedIds votes)" and n: "x \<noteq> y"
      using two [OF tiedIds_distinct, of votes] by blast
    have "\<not> strict_leader ?ks z" for z
      using x y n unfolding strict_leader_def tiedIds_mem by (metis leD)
    then have "liarsPlurality votes = None"
      using liarsPlurality_strict [of votes] by (cases "liarsPlurality votes") auto
    with x show "liarsPlurality votes = None \<and> ?ks \<noteq> []"
      by (auto simp: tiedIds_mem)
  qed
qed

section \<open>Closing a vote\<close>

lemma narrate_simps [simp]:
  "phase (snd (narrate outcome slots r)) = phase r" "players (snd (narrate outcome slots r)) = players r"
  "mode (snd (narrate outcome slots r)) = mode r" "revoteUsed (snd (narrate outcome slots r)) = revoteUsed r"
  "runoffIds (snd (narrate outcome slots r)) = runoffIds r"
  "crewEjections (snd (narrate outcome slots r)) = crewEjections r"
  "imposterEjections (snd (narrate outcome slots r)) = imposterEjections r"
  "winner (snd (narrate outcome slots r)) = winner r" "roundNo (snd (narrate outcome slots r)) = roundNo r"
  "toggles (snd (narrate outcome slots r)) = toggles r"
  using narrate_shape [of outcome slots r] by auto

lemma enterPhase_simps [simp]:
  "phase (enterPhase ph now r) = ph" "players (enterPhase ph now r) = players r"
  "mode (enterPhase ph now r) = mode r" "revoteUsed (enterPhase ph now r) = revoteUsed r"
  "runoffIds (enterPhase ph now r) = runoffIds r" "crewEjections (enterPhase ph now r) = crewEjections r"
  "imposterEjections (enterPhase ph now r) = imposterEjections r" "winner (enterPhase ph now r) = winner r"
  "roundNo (enterPhase ph now r) = roundNo r" "phaseStartedAt (enterPhase ph now r) = now"
  "toggles (enterPhase ph now r) = toggles r" "dawn (enterPhase ph now r) = dawn r"
  by (simp_all add: enterPhase_def Let_def)

lemma add_note_simps [simp]:
  "phase (add_note hp t r) = phase r" "players (add_note hp t r) = players r"
  "mode (add_note hp t r) = mode r" "revoteUsed (add_note hp t r) = revoteUsed r"
  "runoffIds (add_note hp t r) = runoffIds r" "crewEjections (add_note hp t r) = crewEjections r"
  "imposterEjections (add_note hp t r) = imposterEjections r" "winner (add_note hp t r) = winner r"
  "roundNo (add_note hp t r) = roundNo r" "toggles (add_note hp t r) = toggles r" "dawn (add_note hp t r) = dawn r"
  by (simp_all add: add_note_def)

lemma kill_simps [simp]:
  "phase (kill i c r) = phase r" "mode (kill i c r) = mode r" "revoteUsed (kill i c r) = revoteUsed r"
  "runoffIds (kill i c r) = runoffIds r" "crewEjections (kill i c r) = crewEjections r"
  "imposterEjections (kill i c r) = imposterEjections r" "winner (kill i c r) = winner r"
  "roundNo (kill i c r) = roundNo r" "toggles (kill i c r) = toggles r" "dawn (kill i c r) = dawn r"
  by (simp_all add: kill_def upd_player_def)

lemma eject_alive_ids: "distinct_ids r \<Longrightarrow> alive_ids (eject p now r) = filter (\<lambda>j. j \<noteq> pid p) (alive_ids r)"
proof -
  assume d: "distinct_ids r"
  have c: "alive_ids (count_ejection x s) = alive_ids s" for x s
    by (rule alive_ids_players) (simp add: count_ejection_def)
  have j: "alive_ids (s\<lparr>ejectedJesterId := y\<rparr>) = alive_ids s" for s y
    by (rule alive_ids_players) simp
  show ?thesis
    by (simp add: eject_def Let_def split_beta c j alive_ids_kill [OF d])
qed

lemma start_runoff_alive_ids: "alive_ids (start_runoff tied now r) = alive_ids r"
proof -
  have "map pid (filter alive (map clear_vote ps)) = map pid (filter alive ps)" for ps
    by (induction ps) (auto simp: clear_vote_def)
  then show ?thesis
    by (simp add: start_runoff_def Let_def) (simp add: alive_ids_def living_def)
qed

lemma no_majority_alive_ids: "alive_ids (no_majority now r) = alive_ids r"
  by (simp add: no_majority_def split_beta)

text \<open>Closing a vote takes exactly the strict leader of the ballots (the living's
  and, when it is armed, the one of the graveyard) out of the living, and nobody else; a tie or an
  empty box takes nobody.\<close>

theorem vote_removes_leader:
  assumes "distinct_ids r"
  shows "alive_ids (resolveVote now r) =
         filter (\<lambda>i. Some i \<noteq> liarsPlurality (day_ballots r)) (alive_ids r)"
proof -
  let ?r = "r\<lparr>lastEjectedName := n, ejectedJesterId := None\<rparr>"
  have a: "alive_ids (r\<lparr>lastEjectedName := n, ejectedJesterId := None\<rparr>) = alive_ids r"
    and d: "distinct_ids (r\<lparr>lastEjectedName := n, ejectedJesterId := None\<rparr>)" for n
    using assms by (simp_all add: alive_ids_def living_def distinct_ids_def)
  show ?thesis
  proof (cases "player_by_ref r (liarsPlurality (day_ballots r))")
    case None
    have "Some i \<noteq> liarsPlurality (day_ballots r)" if "i \<in> set (alive_ids r)" for i
      using that None in_alive_ids_lookup [OF assms, of i] by (auto simp: player_by_ref_def split: option.splits)
    then have "filter (\<lambda>i. Some i \<noteq> liarsPlurality (day_ballots r)) (alive_ids r) = alive_ids r"
      by (intro filter_True) blast
    with None show ?thesis
      by (simp add: resolveVote_def Let_def start_runoff_alive_ids no_majority_alive_ids a)
  next
    case (Some p)
    then have "liarsPlurality (day_ballots r) = Some (pid p)"
      by (auto simp: player_by_ref_def dest: player_by_id_Some split: option.splits)
    with Some show ?thesis
      by (simp add: resolveVote_def Let_def eject_alive_ids [OF d] a)
  qed
qed

text \<open>A vote on the sample table: two ballots against one.\<close>

lemma vote_removes_leader_witness:
  "alive_ids (resolveVote 0 (sample_room ModeMafia
     [(sample_player ''a'' Mafia)\<lparr>vote := Some ''b''\<rparr>, (sample_player ''b'' Doctor)\<lparr>vote := Some ''a''\<rparr>,
      (sample_player ''c'' Villager)\<lparr>vote := Some ''a''\<rparr>])) = [''b'', ''c'']"
proof -
  let ?r = "sample_room ModeMafia
     [(sample_player ''a'' Mafia)\<lparr>vote := Some ''b''\<rparr>, (sample_player ''b'' Doctor)\<lparr>vote := Some ''a''\<rparr>,
      (sample_player ''c'' Villager)\<lparr>vote := Some ''a''\<rparr>]"
  have d: "distinct_ids ?r" by (simp add: distinct_ids_def sample_defs)
  have "liarsPlurality (day_ballots ?r) = Some ''a''"
    by (simp add: vote_eval)
  then show ?thesis
    using vote_removes_leader [OF d, of 0] by (simp add: alive_ids_def living_def sample_defs)
qed

lemma start_runoff_simps [simp]:
  "phase (start_runoff tied now r) = Vote" "revoteUsed (start_runoff tied now r)"
  "runoffIds (start_runoff tied now r) = tied"
  "players (start_runoff tied now r) = map clear_vote (players r)"
  by (simp_all add: start_runoff_def Let_def)

lemma clear_vote_simps [simp]: "vote (clear_vote p) = None" "voteLocked (clear_vote p) = False"
  by (simp_all add: clear_vote_def)

lemma start_runoff_cleared:
  "\<forall>p\<in>set (players (start_runoff tied now r)). vote p = None \<and> \<not> voteLocked p"
  by simp

lemma no_majority_phase [simp]: "phase (no_majority now r) = Verdict"
  by (simp add: no_majority_def split_beta)

lemma eject_phase [simp]: "phase (eject p now r) = Verdict"
  by (simp add: eject_def Let_def split_beta)

lemma resolveVote_leader:
  "player_by_ref r (liarsPlurality (day_ballots r)) = Some p \<Longrightarrow>
   resolveVote now r = eject p now (r\<lparr>lastEjectedName := Some (pname p), ejectedJesterId := None\<rparr>)"
  by (simp add: resolveVote_def Let_def)

lemma resolveVote_tie:
  "player_by_ref r (liarsPlurality (day_ballots r)) = None \<Longrightarrow>
   \<not> revoteUsed r \<and> 1 < length (tiedIds (day_ballots r)) \<Longrightarrow>
   resolveVote now r =
     start_runoff (tiedIds (day_ballots r)) now (r\<lparr>lastEjectedName := None, ejectedJesterId := None\<rparr>)"
  by (simp add: resolveVote_def Let_def)

lemma resolveVote_nobody:
  "player_by_ref r (liarsPlurality (day_ballots r)) = None \<Longrightarrow>
   \<not> (\<not> revoteUsed r \<and> 1 < length (tiedIds (day_ballots r))) \<Longrightarrow>
   resolveVote now r = no_majority now (r\<lparr>lastEjectedName := None, ejectedJesterId := None\<rparr>)"
  by (auto simp: resolveVote_def Let_def)

text \<open>What follows a vote: a runoff exactly when nobody leads, at least two are
  level and the day has had no runoff yet, and then every ballot is cleared, the runoff is used up
  and the tied ids are noted; in every other case the verdict, so a day has at most one runoff.\<close>

theorem vote_runoff_once:
  "phase (resolveVote now r) =
     (if player_by_ref r (liarsPlurality (day_ballots r)) = None \<and> \<not> revoteUsed r \<and>
         1 < length (tiedIds (day_ballots r)) then Vote else Verdict) \<and>
   (phase (resolveVote now r) = Vote \<longrightarrow>
      revoteUsed (resolveVote now r) \<and> runoffIds (resolveVote now r) = tiedIds (day_ballots r) \<and>
      (\<forall>p\<in>set (players (resolveVote now r)). vote p = None \<and> \<not> voteLocked p))"
proof (cases "player_by_ref r (liarsPlurality (day_ballots r)) = None")
  case True
  show ?thesis
  proof (cases "\<not> revoteUsed r \<and> 1 < length (tiedIds (day_ballots r))")
    case yes: True
    show ?thesis
      unfolding resolveVote_tie [OF True yes]
      by (intro conjI impI start_runoff_cleared) (use True yes in simp, simp_all)
  next
    case no: False
    show ?thesis
      unfolding resolveVote_nobody [OF True no] no_majority_phase using True no by simp
  qed
next
  case False
  then obtain p where p: "player_by_ref r (liarsPlurality (day_ballots r)) = Some p" by blast
  show ?thesis unfolding resolveVote_leader [OF p] eject_phase using p by simp
qed

lemma vote_runoff_once_witness:
  "phase (resolveVote 0 (sample_room ModeMafia
     [(sample_player ''a'' Mafia)\<lparr>vote := Some ''b''\<rparr>, (sample_player ''b'' Doctor)\<lparr>vote := Some ''a''\<rparr>])) = Vote"
proof -
  let ?r = "sample_room ModeMafia
     [(sample_player ''a'' Mafia)\<lparr>vote := Some ''b''\<rparr>, (sample_player ''b'' Doctor)\<lparr>vote := Some ''a''\<rparr>]"
  have "liarsPlurality (day_ballots ?r) = None \<and> length (tiedIds (day_ballots ?r)) = 2 \<and> \<not> revoteUsed ?r"
    by (simp add: vote_eval)
  then show ?thesis
    using vote_runoff_once [of 0 ?r] by (simp add: player_by_ref_def)
qed

text \<open>A runoff does not restrict the vote to the ids that tied: whatever list
  the room keeps in \<^verbatim>\<open>runoffIds\<close>, a ballot for any living player is accepted. The field's comment
  ("Restricts the runoff to whoever actually tied") is not what the handlers do; nothing reads it.\<close>

theorem runoff_not_restricted:
  assumes "phase r = Vote" and "\<not> voteLocked p" and "player_by_id r t = Some q" and "alive q"
  shows "snd (vote_cast (Some t) p (r\<lparr>revoteUsed := True, runoffIds := ids\<rparr>)) = VAccept"
proof -
  have "player_by_id (r\<lparr>revoteUsed := True, runoffIds := ids\<rparr>) t = Some q"
    using assms(3) by (simp add: player_by_id_def)
  then show ?thesis
    using assms by (simp add: vote_cast_def vote_refusal_def player_by_ref_def)
qed

lemma runoff_not_restricted_witness:
  "snd (vote_cast (Some ''e'') (sample_player ''a'' Mafia)
     (five_room\<lparr>phase := Vote, revoteUsed := True, runoffIds := [''b'', ''c'']\<rparr>)) = VAccept"
proof -
  have "player_by_id (five_room\<lparr>phase := Vote\<rparr>) ''e'' = Some (sample_player ''e'' Villager)"
    by (simp add: player_by_id_def sample_defs)
  from runoff_not_restricted [OF _ _ this, of "sample_player ''a'' Mafia" "[''b'', ''c'']"] show ?thesis
    by simp
qed

text \<open>The graveyard may name any id, and the close of a vote ejects whoever
  leads without asking whether they are alive: in an imposter game a dead crew member who leads is
  ejected a second time, and the second ejection counts as a wrong one.\<close>

theorem vote_can_eject_the_dead:
  assumes "liarsPlurality (day_ballots r) = Some i" and "player_by_id r i = Some p" and "\<not> alive p"
    and "mode r = ModeImposter" and "liarsRoleSide (role_or_villager p) \<noteq> MafiaSide"
  shows "crewEjections (resolveVote now r) = Suc (crewEjections r) \<and>
         map_option deathCause (player_by_id (resolveVote now r) i) = Some (Some Ejected)"
proof -
  have i: "pid p = i" using player_by_id_Some [OF assms(2)] by simp
  have ref: "player_by_ref r (liarsPlurality (day_ballots r)) = Some p"
    using assms by (simp add: player_by_ref_def)
  have same: "player_by_id s j = player_by_id s' j" if "players s = players s'" for s s' :: liars_room and j
    using that by (simp add: player_by_id_def)
  let ?r = "r\<lparr>lastEjectedName := Some (pname p), ejectedJesterId := None\<rparr>"
  have c: "players (count_ejection x s) = players s" for x s
    by (simp add: count_ejection_def)
  have "players (eject p now ?r) = players (kill i Ejected ?r)"
    by (simp add: eject_def Let_def split_beta i c)
  then have "player_by_id (eject p now ?r) i = player_by_id (kill i Ejected ?r) i"
    by (rule same)
  also have "\<dots> = map_option (\<lambda>p. (let p' = p\<lparr>alive := False, deathRound := Some (roundNo ?r), deathCause := Some Ejected\<rparr>
       in if lastWordsOn (toggles ?r) then p'\<lparr>lastWords := None\<rparr> else p')) (player_by_id ?r i)"
    unfolding kill_def by (subst player_by_id_upd_player) (simp_all add: Let_def)
  finally have "map_option deathCause (player_by_id (eject p now ?r) i) = Some (Some Ejected)"
    using assms(2) same [of ?r r i] by (simp add: Let_def)
  moreover have "crewEjections (eject p now ?r) = Suc (crewEjections r)"
    using assms(4,5) by (simp add: eject_def Let_def split_beta count_ejection_def)
  ultimately show ?thesis unfolding resolveVote_leader [OF ref] by blast
qed

definition dead_ballot_room :: liars_room where
  "dead_ballot_room = sample_room ModeImposter
     [sample_player ''a'' Imposter, sample_player ''b'' Crew,
      (sample_player ''c'' Crew)\<lparr>alive := False, graveyardVote := Some ''c''\<rparr>,
      (sample_player ''d'' Crew)\<lparr>alive := False, graveyardVote := Some ''c''\<rparr>]"

lemma vote_can_eject_the_dead_witness: "crewEjections (resolveVote 0 dead_ballot_room) = 1"
proof -
  have "liarsPlurality (day_ballots dead_ballot_room) = Some ''c''"
    by (simp add: dead_ballot_room_def vote_eval toggle_default)
  moreover have "player_by_id dead_ballot_room ''c'' =
      Some ((sample_player ''c'' Crew)\<lparr>alive := False, graveyardVote := Some ''c''\<rparr>)"
    by (simp add: player_by_id_def dead_ballot_room_def)
  ultimately show ?thesis
    using vote_can_eject_the_dead [of dead_ballot_room "''c''" _ 0]
    by (simp add: dead_ballot_room_def role_or_villager_def)
qed

end
