(* ===== verification/LiarsPhaseFacts.thy ===== *)
theory LiarsPhaseFacts
  imports LiarsVoteFacts
begin

text \<open>
  The phase machine: the legal edges between phases, invariants of the lazy advance as a locale,
  the deadlines it works with, and what pausing and dormancy do to them.
\<close>

section \<open>Invariants of the machine\<close>

text \<open>
  What a predicate must survive to hold after \<^verbatim>\<open>advance\<close>: one phase step, the writing of the
  reports and the shift of the clocks.
\<close>

locale machine_invariant =
  fixes I :: "liars_room \<Rightarrow> bool"
  assumes step: "I r \<Longrightarrow> winner r = None \<Longrightarrow> phase_step r = Some r' \<Longrightarrow> I r'"
    and reports: "I r \<Longrightarrow> I (writeNightReports r)"
    and shift: "I r \<Longrightarrow> I (shift_clocks d r)"
begin

lemma loop: "I r \<Longrightarrow> I (advance_loop g now r)"
proof (induction g arbitrary: r)
  case (Suc g)
  show ?case
  proof (cases "winner r \<noteq> None \<or> now < phaseEndsAt r")
    case True
    with Suc.prems reports show ?thesis by auto
  next
    case False
    with Suc step show ?thesis by (auto split: option.split)
  qed
qed simp

lemma advance: "I r \<Longrightarrow> I (advance now idleFor r)"
  using loop shift by (simp add: advance_def Let_def)

end

interpretation identity_kept: machine_invariant "evolves r0" for r0
proof
  show "evolves r0 r \<Longrightarrow> winner r = None \<Longrightarrow> phase_step r = Some r' \<Longrightarrow> evolves r0 r'" for r r'
    using evolves_phase_step evolves_trans by blast
  show "evolves r0 r \<Longrightarrow> evolves r0 (writeNightReports r)" for r
    by (rule evolves_trans [OF _ evolves_writeNightReports])
  show "evolves r0 r \<Longrightarrow> evolves r0 (shift_clocks d r)" for r d
    by (rule evolves_trans [OF _ evolves_shift_clocks])
qed

section \<open>Reports and clocks\<close>

lemma write_report_shape:
  "\<exists>ps k. fst (write_report i (r, w)) = r\<lparr>players := ps, token_cursor := k\<rparr>"
proof (cases "player_by_id r i = None \<or> report (the (player_by_id r i)) \<noteq> None")
  case True
  then have "fst (write_report i (r, w)) = r\<lparr>players := players r, token_cursor := token_cursor r\<rparr>"
    by (auto simp: write_report_def split: option.split)
  then show ?thesis by blast
next
  case False
  then obtain p where p: "player_by_id r i = Some p" "report p = None" by auto
  let ?crd = "write_card (roundNo r) (map_option pname (player_by_ref r (nightTarget p))) (report_card r p)
      (token_source r (token_cursor r))"
  have "fst (write_report i (r, w)) =
      r\<lparr>players := upd_first (\<lambda>p. pid p = i) ?crd (players r), token_cursor := Suc (token_cursor r)\<rparr>"
    using p by (simp add: write_report_def Let_def createMultiplayerCredential_def upd_player_def)
  then show ?thesis by blast
qed

lemma fold_reports_shape: "\<exists>ps k. fst (fold write_report ids (r, w)) = r\<lparr>players := ps, token_cursor := k\<rparr>"
proof (induction ids arbitrary: r w)
  case Nil
  have "fst (fold write_report [] (r, w)) = r\<lparr>players := players r, token_cursor := token_cursor r\<rparr>" by simp
  then show ?case by blast
next
  case (Cons i ids)
  obtain r1 w1 where s: "write_report i (r, w) = (r1, w1)" by (cases "write_report i (r, w)")
  obtain ps k where r1: "r1 = r\<lparr>players := ps, token_cursor := k\<rparr>"
    using write_report_shape [of i r w] s by auto
  obtain ps' k' where "fst (fold write_report ids (r1, w1)) = r1\<lparr>players := ps', token_cursor := k'\<rparr>"
    using Cons.IH by blast
  with r1 s show ?case by auto
qed

lemma writeNightReports_simps [simp]:
  "phase (writeNightReports r) = phase r" "winner (writeNightReports r) = winner r"
  "phaseEndsAt (writeNightReports r) = phaseEndsAt r" "reportAt (writeNightReports r) = reportAt r"
  "mode (writeNightReports r) = mode r" "roundNo (writeNightReports r) = roundNo r"
  "recentNarrationIds (writeNightReports r) = recentNarrationIds r"
  "nightOpensAt (writeNightReports r) = nightOpensAt r" "phaseStartedAt (writeNightReports r) = phaseStartedAt r"
  using fold_reports_shape [of "map pid (living r)" r False]
  by (auto simp: writeNightReports_def write_all_reports_def split_beta)

lemma shift_clocks_simps [simp]:
  "phase (shift_clocks d r) = phase r" "winner (shift_clocks d r) = winner r"
  "phaseEndsAt (shift_clocks d r) = phaseEndsAt r + d" "mode (shift_clocks d r) = mode r"
  "players (shift_clocks d r) = players r" "roundNo (shift_clocks d r) = roundNo r"
  "recentNarrationIds (shift_clocks d r) = recentNarrationIds r" "timings (shift_clocks d r) = timings r"
  by (simp_all add: shift_clocks_def)

section \<open>The legal edges\<close>

definition opening_phase :: "liars_mode \<Rightarrow> liars_phase" where
  "opening_phase m = (if m = ModeImposter then Clue else Night)"

fun phase_edge :: "liars_mode \<Rightarrow> liars_phase \<Rightarrow> liars_phase \<Rightarrow> bool" where
  "phase_edge m Lobby q = False"
| "phase_edge m Deal q = (q = opening_phase m)"
| "phase_edge m Night q = (q \<in> {Dawn, Ending})"
| "phase_edge m Dawn q = (q = Deliberation)"
| "phase_edge m Clue q = (q \<in> {Clue, Deliberation})"
| "phase_edge m Deliberation q = (q = Vote)"
| "phase_edge m Vote q = (q \<in> {Vote, Verdict})"
| "phase_edge m Verdict q = (q \<in> {opening_phase m, Ending} \<or> m = ModeImposter \<and> q = FinalGuess)"
| "phase_edge m FinalGuess q = (q = Ending)"
| "phase_edge m Ending q = False"

lemma finish_simps [simp]:
  "phase (finish w now r) = Ending" "winner (finish w now r) = Some w"
  "phaseEndsAt (finish w now r) = now" "recentNarrationIds (finish w now r) = recentNarrationIds r"
  "mode (finish w now r) = mode r" "roundNo (finish w now r) = roundNo r"
  by (simp_all add: finish_def changed_def applyRoomExpiry_def)

lemma checkWinner_cases:
  "(checkWinner now j r = (r, False) \<and> liarsDetectWinner (win_input r j) = None) \<or>
   (\<exists>w. checkWinner now j r = (finish w now r, True) \<and> liarsDetectWinner (win_input r j) = Some w)"
  by (simp add: checkWinner_def split: option.split)

lemma startClueRound_simps [simp]: "phase (startClueRound now r) = Clue"
  by (simp add: startClueRound_def split_beta)

lemma clearRoundState_mode [simp]:
  "mode (clearRoundState r) = mode r" "winner (clearRoundState r) = winner r"
  "recentNarrationIds (clearRoundState r) = recentNarrationIds r" "timings (clearRoundState r) = timings r"
  by (simp_all add: clearRoundState_def)

lemma startRound_phase [simp]: "phase (startRound now r) = opening_phase (mode r)"
  by (simp add: startRound_def Let_def opening_phase_def)

lemma clue_moved_simps [simp]:
  "phase (clue_moved now r) = phase r" "winner (clue_moved now r) = winner r"
  "recentNarrationIds (clue_moved now r) = recentNarrationIds r" "timings (clue_moved now r) = timings r"
  by (simp_all add: clue_moved_def)

lemma advanceClue_phase: "phase r = Clue \<Longrightarrow> phase (advanceClue now r) \<in> {Clue, Deliberation}"
  by (simp add: advanceClue_def Let_def)

lemma resolveNight_eq:
  "\<exists>r4. resolveNight now r = fst (checkWinner now None (enterPhase Dawn now r4)) \<and> evolves r r4"
proof -
  obtain r1 ds ts where o: "night_outcome r = (r1, ds, ts)" by (metis prod_cases3)
  obtain t r2 where n: "night_narration ds r1 = (t, r2)" by (cases "night_narration ds r1")
  let ?r4 = "\<lambda>d. fold (\<lambda>name r. add_note NightEntry (name @ '' was seen moving.'') r) (corroboratedMovement r1)
      (add_note NightEntry t (r2\<lparr>dawn := Some d\<rparr>))"
  have "evolves r r2"
    using evolves_night_outcome [of r] evolves_night_narration [of r1 ds] o n
    by (auto intro: evolves_trans)
  then have "evolves r (?r4 d)" for d
    by (intro evolves_trans [OF _ evolves_fold_notes] evolves_then)
      (rule evolves_trans [OF _ evolves_dawn_update])
  moreover have "\<exists>d. resolveNight now r = fst (checkWinner now None (enterPhase Dawn now (?r4 d)))"
    unfolding resolveNight_def Let_def o n prod.case by blast
  ultimately show ?thesis by blast
qed

lemma resolveNight_phase: "phase (resolveNight now r) \<in> {Dawn, Ending}"
proof -
  obtain r4 where "resolveNight now r = fst (checkWinner now None (enterPhase Dawn now r4))"
    using resolveNight_eq by blast
  then show ?thesis using checkWinner_cases [of now None "enterPhase Dawn now r4"] by auto
qed

lemma resolveVote_phase: "phase (resolveVote now r) \<in> {Vote, Verdict}"
  by (simp add: resolveVote_def Let_def split: option.split)

lemma afterVerdict_phase: "phase_edge (mode r) Verdict (phase (afterVerdict now r))"
  using checkWinner_cases [of now "ejectedJesterId r" r]
  by (elim disjE exE conjE) (simp_all add: afterVerdict_def)

lemma resolveFinalGuess_phase [simp]: "phase (resolveFinalGuess now g r) = Ending"
proof -
  have "snd (checkWinner now j s) \<Longrightarrow> phase (fst (checkWinner now j s)) = Ending" for j s
    using checkWinner_cases [of now j s] by auto
  then show ?thesis by (simp add: resolveFinalGuess_def Let_def split_beta)
qed

lemma phase_step_edge: "phase_step r = Some r' \<Longrightarrow> phase_edge (mode r) (phase r) (phase r')"
proof -
  assume s: "phase_step r = Some r'"
  show ?thesis
  proof (cases "phase r")
    case Verdict
    then show ?thesis using s afterVerdict_phase [of r "phaseEndsAt r"] by (simp add: phase_step_def)
  next
    case Night
    then show ?thesis using s resolveNight_phase [of "phaseEndsAt r" r] by (auto simp: phase_step_def)
  next
    case Clue
    then show ?thesis using s advanceClue_phase [OF Clue, of "phaseEndsAt r"] by (auto simp: phase_step_def)
  next
    case Vote
    then show ?thesis using s resolveVote_phase [of "phaseEndsAt r" r] by (auto simp: phase_step_def)
  qed (use s in \<open>auto simp: phase_step_def\<close>)
qed

interpretation legal_path: machine_invariant "\<lambda>r. mode r = m \<and> (phase_edge m)\<^sup>*\<^sup>* p0 (phase r)" for m p0
proof
  show "mode r = m \<and> (phase_edge m)\<^sup>*\<^sup>* p0 (phase r) \<Longrightarrow> winner r = None \<Longrightarrow> phase_step r = Some r' \<Longrightarrow>
      mode r' = m \<and> (phase_edge m)\<^sup>*\<^sup>* p0 (phase r')" for r r'
    using phase_step_edge evolves_setup(1) [OF evolves_phase_step]
    by (metis rtranclp.rtrancl_into_rtrancl)
qed simp_all

text \<open>However far behind the clock a read finds the room, the phases it goes
  through are joined by the edges of the game: nothing leaves the lobby or the ending by itself, a
  night can only become a dawn or the ending, a vote only a runoff or a verdict, and only an
  imposter game reaches the last guess.\<close>

theorem advance_follows_edges:
  "(phase_edge (mode r))\<^sup>*\<^sup>* (phase r) (phase (advance now idleFor r)) \<and> mode (advance now idleFor r) = mode r"
  using legal_path.advance [of r "mode r" "phase r" now idleFor] by simp

section \<open>Deadlines\<close>

text \<open>The bounds the input validator enforces are all above five seconds.\<close>

definition timings_ok :: "liars_timings \<Rightarrow> bool" where
  "timings_ok t \<longleftrightarrow> 5000 \<le> t_deal t \<and> 5000 \<le> t_night t \<and> 5000 \<le> t_dawn t \<and> 5000 \<le> t_deliberation t \<and>
     5000 \<le> t_vote t \<and> 5000 \<le> t_verdict t \<and> 5000 \<le> t_finalGuess t \<and> 5000 \<le> t_clueTurn t"

lemma dawnDuration_min: "t_dawn (timings r) \<le> dawnDuration r"
  by (simp add: dawnDuration_def LIARS_MOVEMENT_BEAT_MS_def split: option.split)

lemma clue_window_min: "5000 \<le> (c::int) \<Longrightarrow> 5000 \<le> min (12 * 60000) (max 3 (int n) * c)"
proof -
  assume c: "5000 \<le> c"
  have "3 * 5000 \<le> max 3 (int n) * c" using c by (intro mult_mono) auto
  then show ?thesis by simp
qed

lemma phaseDuration_min:
  assumes "timings_ok (timings r)" and "ph \<noteq> Lobby" and "ph \<noteq> Ending"
  shows "5000 \<le> phaseDuration r ph"
  using assms dawnDuration_min [of r] clue_window_min [of "t_clueTurn (timings r)" "length (living r)"]
  by (cases ph) (auto simp: phaseDuration_def Let_def timings_ok_def LIARS_DUSK_MS_def liarsNightDuration_def)

lemma enterPhase_ends:
  assumes "timings_ok (timings r)" and "ph \<noteq> Lobby" and "ph \<noteq> Ending"
  shows "now + 5000 \<le> phaseEndsAt (enterPhase ph now r)"
proof -
  have "5000 \<le> phaseDuration (r\<lparr>phase := ph, phaseStartedAt := now\<rparr>) ph"
    using assms by (intro phaseDuration_min) simp_all
  then show ?thesis by (simp add: enterPhase_def Let_def)
qed

text \<open>What a finished or a running phase looks like after a step taken at \<^verbatim>\<open>now\<close>.\<close>

definition ends_later :: "int \<Rightarrow> liars_room \<Rightarrow> bool" where
  "ends_later now r \<longleftrightarrow> winner r \<noteq> None \<or> (phase r \<noteq> Ending \<and> now + 5000 \<le> phaseEndsAt r)"

lemma ends_later_enterPhase:
  "timings_ok (timings r) \<Longrightarrow> ph \<noteq> Lobby \<Longrightarrow> ph \<noteq> Ending \<Longrightarrow> ends_later now (enterPhase ph now r)"
  by (simp add: ends_later_def enterPhase_ends)

lemma ends_later_checkWinner: "ends_later now r \<Longrightarrow> ends_later now (fst (checkWinner now j r))"
  using checkWinner_cases [of now j r] by (auto simp: ends_later_def)

lemma ends_later_startClueRound: "timings_ok (timings r) \<Longrightarrow> ends_later now (startClueRound now r)"
proof -
  assume t: "timings_ok (timings r)"
  obtain k where "snd (shuffle pick (map pid (living r)) r) = r\<lparr>pick_cursor := k\<rparr>"
    using shuffle_world by blast
  with t show ?thesis
    by (simp add: startClueRound_def split_beta ends_later_enterPhase)
qed

lemma ends_later_startRound: "timings_ok (timings r) \<Longrightarrow> ends_later now (startRound now r)"
  by (simp add: startRound_def Let_def ends_later_startClueRound ends_later_enterPhase)

lemma ends_later_advanceClue:
  assumes "timings_ok (timings r)" and "phase r = Clue"
  shows "ends_later now (advanceClue now r)"
proof -
  have "ends_later now (changed (s\<lparr>phaseStartedAt := now, phaseEndsAt := now + t_clueTurn (timings r)\<rparr>))"
    if "phase s = Clue" for s
    using that assms(1) by (simp add: ends_later_def timings_ok_def)
  then show ?thesis
    using assms by (simp add: advanceClue_def Let_def ends_later_startClueRound ends_later_enterPhase)
qed

lemma timings_blocks [simp]:
  "timings (add_note hp t r) = timings r" "timings (kill i c r) = timings r"
  "timings (count_ejection x r) = timings r" "timings (snd (narrate outcome slots r)) = timings r"
  using narrate_shape [of outcome slots r]
  by (auto simp: add_note_def kill_def upd_player_def count_ejection_def)

lemma ends_later_eject: "timings_ok (timings r) \<Longrightarrow> ends_later now (eject p now r)"
  by (simp add: eject_def Let_def split_beta ends_later_enterPhase)

lemma ends_later_resolveVote: "timings_ok (timings r) \<Longrightarrow> ends_later now (resolveVote now r)"
proof -
  have "ends_later now (start_runoff tied now s)" "ends_later now (no_majority now s)"
    if "timings_ok (timings s)" for tied s
    using that by (simp_all add: start_runoff_def no_majority_def Let_def split_beta ends_later_enterPhase)
  then show "timings_ok (timings r) \<Longrightarrow> ends_later now (resolveVote now r)"
    by (simp add: resolveVote_def Let_def ends_later_eject split: option.split)
qed

lemma ends_later_resolveNight:
  assumes "timings_ok (timings r)"
  shows "ends_later now (resolveNight now r)"
proof -
  obtain r4 where r4: "resolveNight now r = fst (checkWinner now None (enterPhase Dawn now r4))"
    and t: "timings r4 = timings r"
    using resolveNight_eq evolves_setup(3) by metis
  have "timings_ok (timings r4)" using assms t by simp
  then show ?thesis
    unfolding r4 by (intro ends_later_checkWinner ends_later_enterPhase) simp_all
qed

lemma ends_later_afterVerdict: "timings_ok (timings r) \<Longrightarrow> ends_later now (afterVerdict now r)"
  using checkWinner_cases [of now "ejectedJesterId r" r]
  by (elim disjE exE conjE)
    (simp_all add: afterVerdict_def ends_later_startRound ends_later_enterPhase, simp_all add: ends_later_def)

lemma resolveFinalGuess_winner: "winner (resolveFinalGuess now g r) \<noteq> None"
proof -
  have "snd (checkWinner now j s) \<Longrightarrow> winner (fst (checkWinner now j s)) \<noteq> None" for j s
    using checkWinner_cases [of now j s] by auto
  then show ?thesis by (simp add: resolveFinalGuess_def Let_def split_beta)
qed

lemma phase_step_ends_later:
  assumes "timings_ok (timings r)" and "phase_step r = Some r'"
  shows "ends_later (phaseEndsAt r) r'"
proof -
  note d = assms(2) [unfolded phase_step_def Let_def]
  show ?thesis
  proof (cases "phase r")
    case FinalGuess
    with d resolveFinalGuess_winner show ?thesis by (auto simp: ends_later_def)
  qed (use d assms(1) in \<open>auto simp: ends_later_startRound ends_later_resolveNight ends_later_advanceClue
      ends_later_enterPhase ends_later_resolveVote ends_later_afterVerdict\<close>)
qed

lemma advance_loop_progress:
  assumes "timings_ok (timings r)" and "phase r \<noteq> Lobby" and "winner r = None \<Longrightarrow> phase r \<noteq> Ending"
  shows "winner (advance_loop g now r) \<noteq> None \<or> now < phaseEndsAt (advance_loop g now r) \<or>
         phaseEndsAt r + 5000 * int g \<le> phaseEndsAt (advance_loop g now r)"
  using assms
proof (induction g arbitrary: r)
  case (Suc g)
  show ?case
  proof (cases "winner r \<noteq> None \<or> now < phaseEndsAt r")
    case True
    then show ?thesis by auto
  next
    case False
    then obtain r' where s: "phase_step r = Some r'"
      using Suc.prems by (cases "phase r") (auto simp: phase_step_def Let_def)
    have e: "evolves r r'" using s by (rule evolves_phase_step)
    have l: "ends_later (phaseEndsAt r) r'" using Suc.prems(1) s by (rule phase_step_ends_later)
    have "phase r' \<noteq> Lobby"
      using phase_step_edge [OF s] by (cases "phase r") (auto simp: opening_phase_def split: if_splits)
    moreover have "winner r' = None \<Longrightarrow> phase r' \<noteq> Ending" using l by (auto simp: ends_later_def)
    moreover have "timings_ok (timings r')" using Suc.prems(1) evolves_setup(3) [OF e] by simp
    ultimately have "winner (advance_loop g now r') \<noteq> None \<or> now < phaseEndsAt (advance_loop g now r') \<or>
         phaseEndsAt r' + 5000 * int g \<le> phaseEndsAt (advance_loop g now r')"
      by (intro Suc.IH)
    moreover have "winner r' \<noteq> None \<Longrightarrow> advance_loop g now r' = r'" by (cases g) auto
    ultimately show ?thesis
      using False s l by (auto simp: ends_later_def)
  qed
qed simp

text \<open>C16. One read is enough: whenever a running room is read less than forty seconds
  after its deadline, with the timings the validator lets through, the advance leaves it either
  decided or inside a phase whose deadline is still ahead. (Eight turns of the loop, of at least
  five seconds each.)\<close>

theorem advance_catches_up:
  assumes "timings_ok (timings r)" and "pausedAt r = None" and "winner r = None"
    and "phase r \<noteq> Lobby" and "phase r \<noteq> Ending" and "now < phaseEndsAt r + 40000"
  shows "winner (advance now idleFor r) \<noteq> None \<or> now < phaseEndsAt (advance now idleFor r)"
proof -
  define d where "d = max 0 (idleFor - LIARS_CONNECTED_WINDOW_MS)"
  define r1 where "r1 = (if 0 < d then shift_clocks d r else r)"
  have keep: "timings r1 = timings r" "phase r1 = phase r" "winner r1 = winner r"
    by (auto simp: r1_def)
  have p: "phaseEndsAt r \<le> phaseEndsAt r1" by (auto simp: r1_def)
  have "winner (advance_loop 8 now r1) \<noteq> None \<or> now < phaseEndsAt (advance_loop 8 now r1) \<or>
         phaseEndsAt r1 + 5000 * int 8 \<le> phaseEndsAt (advance_loop 8 now r1)"
    using assms keep by (intro advance_loop_progress) auto
  moreover have "advance now idleFor r = advance_loop 8 now r1"
    using assms by (simp add: advance_def Let_def r1_def d_def)
  ultimately show ?thesis using assms(6) p by auto
qed

lemma advance_catches_up_witness:
  "(\<exists>w. winner (advance 30000 0 (five_room\<lparr>phase := Dawn\<rparr>)) = Some w) \<or>
   30000 < phaseEndsAt (advance 30000 0 (five_room\<lparr>phase := Dawn\<rparr>))"
proof -
  have "timings_ok (timings (five_room\<lparr>phase := Dawn\<rparr>))"
    by (simp add: timings_ok_def five_room_def liarsDefaultTimings_def)
  from advance_catches_up [OF this, of 30000 0] show ?thesis
    by (simp add: five_room_def del: not_None_eq) (auto simp: not_None_eq)
qed

end
