(* ===== verification/LiarsDealFacts.thy ===== *)
theory LiarsDealFacts
  imports LiarsPhaseFacts
begin

text \<open>
  The deal as the room sees it: what \<^verbatim>\<open>dealGame\<close> writes, that every player is dealt one role of
  the lineup and starts alive, and that a started game is open.
\<close>

section \<open>What the deal writes\<close>

lemma deal_words_shape:
  "\<exists>k c w d cat b rw. deal_words r = r\<lparr>pick_cursor := k, crypto_cursor := c, roomWord := w,
     decoyWord := d, wordCategory := cat, wordBoard := b, recentWords := rw\<rparr> \<and>
     length rw \<le> max 40 (length (recentWords r))"
proof (cases "mode r = ModeImposter")
  case False
  then have "deal_words r = r\<lparr>pick_cursor := pick_cursor r, crypto_cursor := crypto_cursor r, roomWord := None,
     decoyWord := None, wordCategory := None, wordBoard := [], recentWords := recentWords r\<rparr>"
    by (simp add: deal_words_def)
  moreover have "length (recentWords r) \<le> max 40 (length (recentWords r))" by simp
  ultimately show ?thesis by blast
next
  case True
  obtain pair r1 where w: "liarsWordPair (recentWords r) r = (pair, r1)"
    by (cases "liarsWordPair (recentWords r) r")
  obtain c where r1: "r1 = r\<lparr>crypto_cursor := c\<rparr>"
    using liarsWordPair_world [of "recentWords r" r] w by auto
  let ?r2 = "r1\<lparr>roomWord := Some (wp_word pair), decoyWord := Some (wp_decoy pair),
                 wordCategory := Some (wp_category pair)\<rparr>"
  obtain board r3 where b: "liarsBoard pair (Some (wp_decoy pair)) ?r2 = (board, r3)"
    by (cases "liarsBoard pair (Some (wp_decoy pair)) ?r2")
  obtain k where r3: "r3 = ?r2\<lparr>pick_cursor := k\<rparr>"
    using liarsBoard_world [of pair "Some (wp_decoy pair)" ?r2] b by auto
  have "deal_words r = r3\<lparr>wordBoard := board, recentWords := take_last 40 (recentWords r3 @ [wp_word pair])\<rparr>"
    using True w b by (simp add: deal_words_def Let_def)
  also have "\<dots> = r\<lparr>pick_cursor := k, crypto_cursor := c, roomWord := Some (wp_word pair),
     decoyWord := Some (wp_decoy pair), wordCategory := Some (wp_category pair), wordBoard := board,
     recentWords := take_last 40 (recentWords r @ [wp_word pair])\<rparr>"
    by (simp add: r1 r3)
  finally show ?thesis by (intro exI conjI, assumption) simp
qed

lemma liarsDealRoles_world: "\<exists>k. snd (liarsDealRoles l ids prev w) = w\<lparr>pick_cursor := k\<rparr>"
  using shuffle_world [of "role_pool l" w] by (auto simp: liarsDealRoles_def split_beta Let_def)

text \<open>The role function of a deal.\<close>

definition dealt_roles :: "liars_room \<Rightarrow> js_string \<Rightarrow> liars_role option" where
  "dealt_roles r = fst (liarsDealRoles (lineup r) (map pid (players r)) (previous_roles r) r)"

lemma dealGame_shape:
  "\<exists>k c w d cat b rw s. dealGame now r =
     enterPhase Deal now (r\<lparr>graveyardBoard := [], pick_cursor := k, crypto_cursor := c, roomWord := w,
       decoyWord := d, wordCategory := cat, wordBoard := b, recentWords := rw,
       players := map (deal_player s (dealt_roles r)) (players r), roundNo := 0, history := [],
       dawn := None, crewEjections := 0, imposterEjections := 0, finalGuessCorrect := None,
       ejectedJesterId := None, winner := None, clueRound := 0\<rparr>) \<and>
     length rw \<le> max 40 (length (recentWords r))"
proof -
  obtain k1 where d: "liarsDealRoles (lineup r) (map pid (players r)) (previous_roles r) r
      = (dealt_roles r, r\<lparr>pick_cursor := k1\<rparr>)"
    using liarsDealRoles_world [of "lineup r" "map pid (players r)" "previous_roles r" r]
    by (auto simp: dealt_roles_def prod_eq_iff)
  let ?r1 = "r\<lparr>pick_cursor := k1, graveyardBoard := []\<rparr>"
  obtain k c w d cat b rw where s: "deal_words ?r1 = ?r1\<lparr>pick_cursor := k, crypto_cursor := c,
      roomWord := w, decoyWord := d, wordCategory := cat, wordBoard := b, recentWords := rw\<rparr>"
    and l: "length rw \<le> max 40 (length (recentWords ?r1))"
    using deal_words_shape [of ?r1] by blast
  have l': "length rw \<le> max 40 (length (recentWords r))" using l by simp
  have "dealGame now r = enterPhase Deal now (?r1\<lparr>pick_cursor := k, crypto_cursor := c,
      roomWord := w, decoyWord := d, wordCategory := cat, wordBoard := b, recentWords := rw,
      players := map (deal_player (deal_words ?r1) (dealt_roles r)) (players r), roundNo := 0, history := [],
       dawn := None, crewEjections := 0, imposterEjections := 0, finalGuessCorrect := None,
       ejectedJesterId := None, winner := None, clueRound := 0\<rparr>)"
    unfolding dealGame_def Let_def d prod.case s by simp
  then have "dealGame now r = enterPhase Deal now (r\<lparr>graveyardBoard := [], pick_cursor := k, crypto_cursor := c,
      roomWord := w, decoyWord := d, wordCategory := cat, wordBoard := b, recentWords := rw,
      players := map (deal_player (deal_words ?r1) (dealt_roles r)) (players r), roundNo := 0, history := [],
       dawn := None, crewEjections := 0, imposterEjections := 0, finalGuessCorrect := None,
       ejectedJesterId := None, winner := None, clueRound := 0\<rparr>)"
    by simp
  with l' show ?thesis by blast
qed

lemma enterPhase_keeps [simp]:
  "pausedAt (enterPhase ph now r) = pausedAt r" "lineup (enterPhase ph now r) = lineup r"
  "processedActions (enterPhase ph now r) = processedActions r"
  "graveyardBoard (enterPhase ph now r) = graveyardBoard r" "hostHash (enterPhase ph now r) = hostHash r"
  "recentWords (enterPhase ph now r) = recentWords r" "hostPlayerId (enterPhase ph now r) = hostPlayerId r"
  "history (enterPhase ph now r) = history r" "gameNumber (enterPhase ph now r) = gameNumber r"
  "recentNarrationIds (enterPhase ph now r) = recentNarrationIds r" "dawn (enterPhase ph now r) = dawn r"
  "crewEjections (enterPhase ph now r) = crewEjections r" "roundNo (enterPhase ph now r) = roundNo r"
  "imposterEjections (enterPhase ph now r) = imposterEjections r"
  "finalGuessCorrect (enterPhase ph now r) = finalGuessCorrect r"
  by (simp_all add: enterPhase_def Let_def changed_def applyRoomExpiry_def)

lemma dealGame_simps [simp]:
  "phase (dealGame now r) = Deal" "winner (dealGame now r) = None" "roundNo (dealGame now r) = 0"
  "pausedAt (dealGame now r) = pausedAt r" "mode (dealGame now r) = mode r"
  "lineup (dealGame now r) = lineup r" "processedActions (dealGame now r) = processedActions r"
  "graveyardBoard (dealGame now r) = []" "history (dealGame now r) = []" "dawn (dealGame now r) = None"
  "crewEjections (dealGame now r) = 0" "imposterEjections (dealGame now r) = 0"
  "finalGuessCorrect (dealGame now r) = None" "hostPlayerId (dealGame now r) = hostPlayerId r"
  "recentNarrationIds (dealGame now r) = recentNarrationIds r" "gameNumber (dealGame now r) = gameNumber r"
  "hostHash (dealGame now r) = hostHash r"
  using dealGame_shape [of now r] by auto

lemma dealGame_counters [simp]:
  "ejectedJesterId (dealGame now r) = None" "clueRound (dealGame now r) = 0"
  using dealGame_shape [of now r] by (auto simp: enterPhase_def changed_def applyRoomExpiry_def Let_def)

lemma dealGame_players:
  "\<exists>s. players (dealGame now r) = map (deal_player s (dealt_roles r)) (players r)"
  using dealGame_shape [of now r] by auto

lemma dealGame_recentWords: "length (recentWords (dealGame now r)) \<le> max 40 (length (recentWords r))"
  using dealGame_shape [of now r] by auto

lemma deal_player_simps [simp]:
  "pid (deal_player s f p) = pid p" "role (deal_player s f p) = f (pid p)" "alive (deal_player s f p)"
  "leftAt (deal_player s f p) = leftAt p" "pname (deal_player s f p) = pname p"
  "nightTarget (deal_player s f p) = nightTarget p" "tokenHash (deal_player s f p) = tokenHash p"
  by (simp_all add: deal_player_def)

lemma dealGame_pids [simp]: "map pid (players (dealGame now r)) = map pid (players r)"
  using dealGame_players [of now r] by (auto simp: o_def)

lemma dealGame_alive_ids: "alive_ids (dealGame now r) = map pid (players r)"
  using dealGame_players [of now r] by (auto simp: alive_ids_def living_def o_def filter_map)

section \<open>Starting a game\<close>

lemma dealt_table_room:
  assumes "role p = f (pid p)"
  shows "(pid p, role_or_villager p) = (pid p, nullish (f (pid p)) Villager)"
  using assms by (simp add: role_or_villager_def)

lemma win_input_deal:
  "wi_alive (win_input (dealGame now r) j) = dealt_table (map pid (players r)) (dealt_roles r)"
proof -
  obtain s where "players (dealGame now r) = map (deal_player s (dealt_roles r)) (players r)"
    using dealGame_players by blast
  then show ?thesis
    by (simp add: win_input_def living_def dealt_table_def filter_map o_def role_or_villager_def)
qed

lemma dealGame_roles:
  assumes "distinct_ids r" and "liarsValidateLineup (mode r) (lineup r) (player_count r) = Inr ws"
  shows "mset (map role (players (dealGame now r))) = image_mset Some (mset (role_pool (lineup r)))"
proof -
  obtain s where "players (dealGame now r) = map (deal_player s (dealt_roles r)) (players r)"
    using dealGame_players by blast
  then have "map role (players (dealGame now r)) = map (dealt_roles r) (map pid (players r))"
    by (simp add: o_def)
  moreover have "mset (map (dealt_roles r) (map pid (players r))) = image_mset Some (mset (role_pool (lineup r)))"
    unfolding dealt_roles_def
    using assms(1) validate_Inr(1) [OF assms(2)] length_role_pool [of "lineup r"]
    by (intro liarsDealRoles_mset) (auto simp: distinct_ids_def player_count_def)
  ultimately show ?thesis by simp
qed

lemma dealGame_open:
  assumes "distinct_ids r" and "liarsValidateLineup (mode r) (lineup r) (player_count r) = Inr ws"
    and "LIARS_MIN_PLAYERS (mode r) \<le> player_count r"
  shows "liarsDetectWinner (win_input (dealGame now r) None) = None"
proof (rule valid_lineup_core)
  show "liarsValidateLineup (mode r) (lineup r) (int (length (map pid (players r)))) = Inr ws"
    using assms(2) by (simp add: player_count_def)
  show "wi_alive (win_input (dealGame now r) None) =
      dealt_table (map pid (players r)) (fst (liarsDealRoles (lineup r) (map pid (players r)) (previous_roles r) r))"
    by (simp add: win_input_deal dealt_roles_def)
  show "mode r = ModeImposter \<Longrightarrow> 3 < length (map pid (players r))"
    using assms(3) by (simp add: player_count_def LIARS_MIN_PLAYERS_def)
qed (use assms(1) in \<open>simp_all add: distinct_ids_def win_input_def\<close>)

lemma start_refused_rejects: "snd (start_refused newId confirmed r) \<noteq> VAccept"
  by (simp add: start_refused_def split_beta Let_def)

text \<open>What an accepted start has checked, and the room it deals to.\<close>

lemma host_start_accepted:
  assumes "host_start newId now ids r = (r', VAccept)" and "player_count r \<le> LIARS_MAX_PLAYERS (mode r)"
  shows "\<exists>r1 ws. r' = dealGame now r1 \<and> mode r1 = mode r \<and>
           liarsValidateLineup (mode r1) (lineup r1) (player_count r1) = Inr ws \<and>
           LIARS_MIN_PLAYERS (mode r1) \<le> player_count r1 \<and>
           players r1 = filter multiplayerPlayerReady (players r) \<and> phase r = Lobby \<and>
           hostPlayerId r1 = hostPlayerId r \<and> recentWords r1 = recentWords r \<and>
           processedActions r1 = processedActions r \<and> recentNarrationIds r1 = recentNarrationIds r \<and>
           (\<forall>p\<in>set (players r). Some (pid p) = hostPlayerId r \<longrightarrow> multiplayerPlayerReady p)"
proof -
  let ?c = "nullish ids []"
  let ?rest = "filter (\<lambda>p. multiplayerPlayerReady p \<or> pid p \<notin> set ?c) (players r)"
  let ?r0 = "r\<lparr>players := ?rest\<rparr>"
  let ?r1 = "if length ?rest \<noteq> length (players r) then changed (reset_lineup ?r0) else r"
  obtain ws where v: "liarsValidateLineup (mode r) (lineup r) (player_count r) = Inr ws"
    and l: "phase r = Lobby" "LIARS_MIN_PLAYERS (mode r) \<le> player_count r"
    and u: "\<not> list_ex (unconfirmed_player r ?c) (players r)"
    and n: "LIARS_MIN_PLAYERS (mode r) \<le> int (length ?rest)"
    and r': "r' = dealGame now ?r1"
    using assms(1) start_refused_rejects [of newId ?c r]
    by (auto simp: host_start_def Let_def split: if_splits sum.splits)
  have rest: "?rest = filter multiplayerPlayerReady (players r)"
    using u by (auto simp: list_ex_iff unconfirmed_player_def intro!: filter_cong)
  have host: "\<forall>p\<in>set (players r). Some (pid p) = hostPlayerId r \<longrightarrow> multiplayerPlayerReady p"
    using u by (auto simp: list_ex_iff unconfirmed_player_def)
  show ?thesis
  proof (cases "length ?rest = length (players r)")
    case True
    then have "?rest = players r" by (metis length_filter_less filter_True order_less_irrefl)
    with True r' v l rest host show ?thesis by auto
  next
    case False
    have le: "int (length ?rest) \<le> player_count r" by (simp add: player_count_def)
    have "liarsValidateLineup (mode r) (proposed_lineup (firstGame (toggles r)) ?r0) (int (length ?rest)) = Inr []"
      using valid_proposals [OF n] le assms(2) by (simp add: proposed_lineup_def player_count_def)
    moreover have "mode ?r1 = mode r" "players ?r1 = ?rest" "lineup ?r1 = proposed_lineup (firstGame (toggles r)) ?r0"
      "hostPlayerId ?r1 = hostPlayerId r" "recentWords ?r1 = recentWords r"
      "processedActions ?r1 = processedActions r" "recentNarrationIds ?r1 = recentNarrationIds r"
      using False by (simp_all add: reset_lineup_def changed_def applyRoomExpiry_def)
    ultimately show ?thesis
      using r' n rest host l(1) by (intro exI [of _ ?r1] exI [of _ "[]"]) (simp add: player_count_def)
  qed
qed

text \<open>What the deal writes over in a player: the whole of the last game but for the round's own fields.\<close>

definition dealt_afresh :: "player_state \<Rightarrow> bool" where
  "dealt_afresh p \<longleftrightarrow>
     alive p \<and> deathRound p = None \<and> deathCause p = None \<and> savedCount p = 0 \<and> knowledge p = [] \<and>
     lastWords p = None \<and> graveyardVote p = None \<and> \<not> vigilanteUsed p \<and> \<not> guiltPending p \<and>
     previousNightTarget p = None"

lemma dealt_afresh_deal: "dealt_afresh (deal_player s f p)"
  by (simp add: dealt_afresh_def deal_player_def)

text \<open>C19. A start the host's action accepts seats exactly the ready players and
  gives them an undecided game: the phase is the deal of round zero, the roles dealt are a
  permutation of a lineup the validator accepts for that table, and nobody has won yet. Of an earlier game
  nothing is left in the board of the dead, the history, the dawn, the counts of ejections and clue
  rounds, the final guess and the jester; and everyone is alive with no death, saves, notebook, last
  words, vote of the dead, spent shot, guilt or earlier night target. (The fields of a round, such as the
  night target, the report and the vote, are left for the first round to clear.)\<close>

theorem start_deals_open_game:
  assumes "host_step newId now (GameStart ids) r = (r', VAccept)" and "distinct_ids r"
    and "player_count r \<le> LIARS_MAX_PLAYERS (mode r)"
  shows "phase r' = Deal \<and> winner r' = None \<and> mode r' = mode r \<and>
         map pid (players r') = map pid (filter multiplayerPlayerReady (players r)) \<and>
         list_all dealt_afresh (players r') \<and>
         (\<exists>ws. liarsValidateLineup (mode r') (lineup r') (player_count r') = Inr ws) \<and>
         mset (map role (players r')) = image_mset Some (mset (role_pool (lineup r'))) \<and>
         liarsDetectWinner (win_input r' None) = None \<and>
         roundNo r' = 0 \<and> graveyardBoard r' = [] \<and> history r' = [] \<and> dawn r' = None \<and>
         crewEjections r' = 0 \<and> imposterEjections r' = 0 \<and> clueRound r' = 0 \<and>
         finalGuessCorrect r' = None \<and> ejectedJesterId r' = None"
proof -
  obtain r1 ws where r': "r' = dealGame now r1" and m: "mode r1 = mode r"
    and v: "liarsValidateLineup (mode r1) (lineup r1) (player_count r1) = Inr ws"
    and n: "LIARS_MIN_PLAYERS (mode r1) \<le> player_count r1"
    and ps: "players r1 = filter multiplayerPlayerReady (players r)"
    using host_start_accepted [of newId now ids r r'] assms(1,3) by auto
  have d: "distinct_ids r1" using assms(2) by (simp add: distinct_ids_def ps distinct_map_filter)
  obtain s where p': "players r' = map (deal_player s (dealt_roles r1)) (players r1)"
    using dealGame_players r' by blast
  have "player_count r' = player_count r1" by (simp add: player_count_def p')
  then have "\<exists>ws. liarsValidateLineup (mode r') (lineup r') (player_count r') = Inr ws"
    using v r' by simp
  moreover have "map pid (players r') = map pid (players r1)" by (simp add: r')
  moreover have "list_all dealt_afresh (players r')" by (simp add: p' list_all_iff dealt_afresh_deal)
  ultimately show ?thesis
    using dealGame_roles [OF d v] dealGame_open [OF d v n] ps m by (simp add: r')
qed

lemma start_deals_open_game_witness:
  "phase (fst (host_step [] 0 (GameStart None) (five_room\<lparr>lineup := liarsDefaultLineup ModeMafia 5 None\<rparr>))) = Deal"
proof -
  let ?r = "five_room\<lparr>lineup := liarsDefaultLineup ModeMafia 5 None\<rparr>"
  have v: "liarsValidateLineup ModeMafia (liarsDefaultLineup ModeMafia 5 None) 5 = Inr []"
    by (simp add: default_mafia_valid)
  have "host_step [] 0 (GameStart None) ?r = (dealGame 0 ?r, VAccept)"
    using v by (simp add: host_start_def sample_defs player_count_def LIARS_MIN_PLAYERS_def
        unconfirmed_player_def multiplayerPlayerReady_def)
  then have "phase (dealGame 0 ?r) = Deal"
    using start_deals_open_game [of "[]" 0 None ?r "dealGame 0 ?r"] distinct_five_room
    by (simp add: distinct_ids_def player_count_def LIARS_MAX_PLAYERS_def sample_defs)
  with \<open>host_step [] 0 (GameStart None) ?r = (dealGame 0 ?r, VAccept)\<close> show ?thesis by simp
qed

text \<open>
  The night target survives the deal, and the first round turns it into the target of the night before:
  the doctor of a new game may not save whom that player aimed at in the last night of the old one,
  whatever their role was.
\<close>

lemma old_targets_survive_the_deal:
  "map previousNightTarget (players (clearRoundState (dealGame now r))) = map nightTarget (players r)"
proof -
  obtain s where "players (dealGame now r) = map (deal_player s (dealt_roles r)) (players r)"
    using dealGame_players by blast
  then show ?thesis by (simp add: clearRoundState_def clear_player_round_def comp_def)
qed

end
