(* ===== verification/LiarsClockFacts.thy ===== *)
theory LiarsClockFacts
  imports LiarsDealFacts
begin

text \<open>
  Clocks: what pausing and resuming do to the deadlines, what a room nobody is connected to
  loses, and the rooms whose game no longer ends by itself.
\<close>

section \<open>Pausing\<close>

lemma advance_paused: "pausedAt r \<noteq> None \<Longrightarrow> advance now idleFor r = r"
  by (auto simp: advance_def)

text \<open>A pause stops the clock and a resume gives it back unchanged: no
  read in between moves the room, and after the resume the phase, its players and the time left to
  its deadline, to its report and to its opening are what they were when it was paused.\<close>

theorem pause_resume_keeps_time:
  "let r1 = fst (host_step i t PhasePause r); r2 = fst (host_step j t' PhaseResume r1)
   in advance now idleFor r1 = r1 \<and> pausedAt r2 = None \<and> phase r2 = phase r \<and> players r2 = players r \<and>
      phaseEndsAt r2 - t' = phaseEndsAt r - t \<and> phaseStartedAt r2 - t' = phaseStartedAt r - t \<and>
      map_option (\<lambda>x. x - t') (reportAt r2) = map_option (\<lambda>x. x - t) (reportAt r) \<and>
      map_option (\<lambda>x. x - t') (nightOpensAt r2) = map_option (\<lambda>x. x - t) (nightOpensAt r)"
proof -
  define r1 where "r1 = fst (host_step i t PhasePause r)"
  define r2 where "r2 = fst (host_step j t' PhaseResume r1)"
  have p: "pausedAt r1 = Some t" by (simp add: r1_def)
  have r2: "r2 = host_resume t' r1" by (simp add: r2_def)
  have s: "map_option (\<lambda>x. x - t') (map_option (\<lambda>x. x + (t' - t)) y) = map_option (\<lambda>x. x - t) y"
    for y :: "int option" by (cases y) auto
  have "pausedAt r2 = None" "phase r2 = phase r" "players r2 = players r"
    "phaseEndsAt r2 = phaseEndsAt r + (t' - t)" "phaseStartedAt r2 = phaseStartedAt r + (t' - t)"
    "reportAt r2 = map_option (\<lambda>x. x + (t' - t)) (reportAt r)"
    "nightOpensAt r2 = map_option (\<lambda>x. x + (t' - t)) (nightOpensAt r)"
    using p by (simp_all add: r2 host_resume_def Let_def) (simp_all add: r1_def)
  then show ?thesis
    using advance_paused [of r1] p s by (simp add: Let_def del: host_step.simps flip: r1_def r2_def)
qed

text \<open>Pausing a paused room is not harmless: the second pause restarts
  the measurement, so the time between the two pauses is taken from the phase although its clock
  was stopped.\<close>

theorem second_pause_loses_time:
  "phaseEndsAt (fst (host_step k t3 PhaseResume (fst (host_step j t2 PhasePause
      (fst (host_step i t1 PhasePause r)))))) - t3 = (phaseEndsAt r - t1) - (t2 - t1)"
  by (simp add: host_resume_def Let_def changed_def applyRoomExpiry_def)

text \<open>A pause survives the start of another game: a replay dealt while the
  room is paused enters the deal, and from then on no read moves it, at any time.\<close>

theorem paused_replay_is_frozen:
  assumes "pausedAt r \<noteq> None"
  shows "phase (fst (host_step i t GameReplay r)) = Deal \<and>
         advance now idleFor (fst (host_step i t GameReplay r)) = fst (host_step i t GameReplay r)"
proof -
  have "pausedAt (rematch r) = pausedAt r" by (simp add: rematch_def reset_lineup_def)
  with assms show ?thesis by (simp add: advance_paused)
qed

lemma paused_replay_is_frozen_witness:
  "phase (fst (host_step ''n'' 5 GameReplay (five_room\<lparr>phase := Ending, pausedAt := Some 1\<rparr>))) = Deal \<and>
   advance 1000000 0 (fst (host_step ''n'' 5 GameReplay (five_room\<lparr>phase := Ending, pausedAt := Some 1\<rparr>))) =
     fst (host_step ''n'' 5 GameReplay (five_room\<lparr>phase := Ending, pausedAt := Some 1\<rparr>))"
  by (rule paused_replay_is_frozen) simp

section \<open>Dormancy\<close>

text \<open>The clock fields and the deal survive the touch.\<close>

lemma touch_fields [simp]:
  "phase (snd (touch who now f r)) = phase r" "winner (snd (touch who now f r)) = winner r"
  "pausedAt (snd (touch who now f r)) = pausedAt r" "phaseEndsAt (snd (touch who now f r)) = phaseEndsAt r"
  "reportAt (snd (touch who now f r)) = reportAt r" "mode (snd (touch who now f r)) = mode r"
  "toggles (snd (touch who now f r)) = toggles r" "timings (snd (touch who now f r)) = timings r"
  "processedActions (snd (touch who now f r)) = processedActions r"
  "graveyardBoard (snd (touch who now f r)) = graveyardBoard r" "lineup (snd (touch who now f r)) = lineup r"
  "recentWords (snd (touch who now f r)) = recentWords r" "roundNo (snd (touch who now f r)) = roundNo r"
  "recentNarrationIds (snd (touch who now f r)) = recentNarrationIds r"
  "hostHash (snd (touch who now f r)) = hostHash r" "hostPlayerId (snd (touch who now f r)) = hostPlayerId r"
  "imposterEjections (snd (touch who now f r)) = imposterEjections r"
  "finalGuessCorrect (snd (touch who now f r)) = finalGuessCorrect r"
  by (simp_all add: touch_def Let_def upd_player_def split: option.split)

lemma touch_idle: "lastActiveAt r \<noteq> 0 \<Longrightarrow> fst (touch who now f r) = max 0 (now - lastActiveAt r)"
  by (simp add: touch_def Let_def)

lemma advance_loop_waits:
  assumes "now < phaseEndsAt r"
  shows "phase (advance_loop g now r) = phase r \<and> phaseEndsAt (advance_loop g now r) = phaseEndsAt r"
  using assms by (cases g) auto

text \<open>The whole of a call's catching up: the touch, then the advance.\<close>

definition catch_up :: "js_string option \<Rightarrow> int \<Rightarrow> bool \<Rightarrow> liars_room \<Rightarrow> liars_room" where
  "catch_up who now f r = (case touch who now f r of (idleFor, r1) \<Rightarrow> advance now idleFor r1)"

text \<open>A room nobody calls stands still: when the phase had more than the
  connection window (25 s) left at the last activity, the next call finds the same phase however
  late it comes, and the time left is what was left at the end of that window.\<close>

theorem dormant_room_waits:
  assumes "lastActiveAt r \<noteq> 0" and "lastActiveAt r \<le> now" and "pausedAt r = None"
    and "phase r \<noteq> Lobby" and "phase r \<noteq> Ending"
    and "lastActiveAt r + LIARS_CONNECTED_WINDOW_MS < phaseEndsAt r"
  shows "phase (catch_up who now f r) = phase r \<and>
         phaseEndsAt (catch_up who now f r) - now =
           phaseEndsAt r - min now (lastActiveAt r + LIARS_CONNECTED_WINDOW_MS)"
proof -
  obtain idle r1 where t: "touch who now f r = (idle, r1)" by fastforce
  have k: "phase r1 = phase r" "pausedAt r1 = pausedAt r" "phaseEndsAt r1 = phaseEndsAt r"
    using touch_fields(1,3,4) [of who now f r] t by simp_all
  have i: "idle = now - lastActiveAt r" using touch_idle [OF assms(1), of who now f] assms(2) t by simp
  define d where "d = max 0 (idle - LIARS_CONNECTED_WINDOW_MS)"
  define r2 where "r2 = (if 0 < d then shift_clocks d r1 else r1)"
  have r2: "phase r2 = phase r" "phaseEndsAt r2 = phaseEndsAt r + d"
    by (auto simp: r2_def k d_def)
  have adv: "catch_up who now f r = advance_loop 8 now r2"
    using assms k by (simp add: catch_up_def t advance_def Let_def r2_def d_def)
  have "now < phaseEndsAt r2" using assms(6) i r2(2) by (auto simp: d_def)
  then have "phase (advance_loop 8 now r2) = phase r2 \<and> phaseEndsAt (advance_loop 8 now r2) = phaseEndsAt r2"
    by (rule advance_loop_waits)
  then show ?thesis using r2 i by (auto simp: adv d_def)
qed

lemma dormant_room_waits_witness:
  "phase (catch_up None 9000000 True (five_room\<lparr>phase := Night, lastActiveAt := 1, phaseEndsAt := 60000\<rparr>)) = Night \<and>
   phaseEndsAt (catch_up None 9000000 True (five_room\<lparr>phase := Night, lastActiveAt := 1, phaseEndsAt := 60000\<rparr>))
     - 9000000 = 60000 - 25001"
  using dormant_room_waits [of "five_room\<lparr>phase := Night, lastActiveAt := 1, phaseEndsAt := 60000\<rparr>" 9000000 None True]
  by (simp add: five_room_def LIARS_CONNECTED_WINDOW_MS_def)

section \<open>A game that cannot end\<close>

text \<open>No living liar, none ejected, no guess: what an imposter who walks out leaves behind.\<close>

definition liars_walked_out :: "liars_room \<Rightarrow> bool" where
  "liars_walked_out r \<longleftrightarrow> mode r = ModeImposter \<and> \<not> list_ex is_mafia (living r) \<and>
     imposterEjections r = 0 \<and> finalGuessCorrect r = None"

lemma not_mafia_side: "\<not> is_mafia p \<Longrightarrow> liarsRoleSide (role_or_villager p) \<noteq> MafiaSide"
  by (cases "role p") (auto simp: is_mafia_def role_or_villager_def)

lemma walked_out_undecided: "liars_walked_out r \<Longrightarrow> liarsDetectWinner (win_input r j) = None"
proof -
  assume a: "liars_walked_out r"
  then have "filter (\<lambda>(_, x). liarsRoleSide x = MafiaSide) (map (\<lambda>p. (pid p, role_or_villager p)) (living r)) = []"
    using not_mafia_side by (auto simp: liars_walked_out_def filter_empty_conv list_ex_iff)
  with a show ?thesis
    by (simp add: liarsDetectWinner_def win_input_def liars_walked_out_def Let_def)
qed

lemma walked_out_verdict: "liars_walked_out r \<Longrightarrow> afterVerdict now r = startRound now r"
  using walked_out_undecided [of r "ejectedJesterId r"]
  by (simp add: afterVerdict_def checkWinner_def liars_walked_out_def lastImposterJustEjected_def)

lemma walked_out_players:
  "liars_walked_out r \<longleftrightarrow> mode r = ModeImposter \<and> (\<forall>p\<in>set (players r). alive p \<longrightarrow> \<not> is_mafia p) \<and>
     imposterEjections r = 0 \<and> finalGuessCorrect r = None"
  by (auto simp: liars_walked_out_def list_ex_iff living_def)

lemma set_upd_player: "set (players (upd_player i f r)) \<subseteq> set (players r) \<union> f ` set (players r)"
proof -
  have "set (upd_first P f xs) \<subseteq> set xs \<union> f ` set xs" for P :: "player_state \<Rightarrow> bool" and xs
    by (induction xs) auto
  then show ?thesis by (simp add: upd_player_def)
qed

lemma walked_out_depart: "liars_walked_out r \<Longrightarrow> liars_walked_out (upd_player i (depart now h) r)"
  using set_upd_player [of i "depart now h" r]
  by (fastforce simp: walked_out_players upd_player_def depart_def is_mafia_def)

lemma walked_out_hand_over [simp]: "liars_walked_out (hand_over i now r) = liars_walked_out r"
  by (simp add: hand_over_def transferHost_def transferNarrator_def walked_out_players Let_def)

lemma hand_over_fields [simp]:
  "winner (hand_over i now r) = winner r" "phase (hand_over i now r) = phase r"
  by (simp_all add: hand_over_def transferHost_def transferNarrator_def Let_def)

lemma living_kill: "distinct_ids r \<Longrightarrow> living (kill i c r) = filter (\<lambda>p. pid p \<noteq> i) (living r)"
proof -
  have dead: "filter alive (upd_first (\<lambda>p. pid p = i) f ps) = filter (\<lambda>p. pid p \<noteq> i) (filter alive ps)"
    if "distinct (map pid ps)" "\<And>p. \<not> alive (f p)" for f ps
    using that by (induction ps) (auto intro!: filter_cong, metis image_eqI)
  assume "distinct_ids r"
  then show ?thesis
    unfolding living_def kill_def upd_player_def
    by (simp del: filter_filter) (rule dead; simp add: distinct_ids_def Let_def)
qed

text \<open>When the last living liar of an imposter game leaves, the
  game does not end: the win check that follows the departure finds no winner, the phase stays what
  it was, and every verdict from then on opens another round of clues.\<close>

theorem imposter_who_leaves_ends_nothing:
  assumes "mode r = ModeImposter" and "phase r \<noteq> Lobby" and "winner r = None"
    and "imposterEjections r = 0" and "finalGuessCorrect r = None" and "distinct_ids r"
    and "player_by_id r i = Some p" and "alive p"
    and "\<forall>q\<in>set (living r). is_mafia q \<longrightarrow> pid q = i"
  shows "winner (fst (player_leave newId now p r)) = None \<and>
         phase (fst (player_leave newId now p r)) = phase r \<and>
         afterVerdict t (fst (player_leave newId now p r)) = startRound t (fst (player_leave newId now p r))"
proof -
  let ?k = "kill i LeftGame r"
  let ?slots = "no_slots\<lparr>slot_victim := Some (pname p)\<rparr>"
  let ?r2 = "add_note DayEntry (fst (narrate NarrLeft ?slots ?k)) (snd (narrate NarrLeft ?slots ?k))"
  let ?h = "hashMultiplayerCredential r (newId @ '':left:'' @ i)"
  have i: "pid p = i" using assms(7) player_by_id_Some by blast
  have same: "players ?r2 = players ?k" "phase ?r2 = phase r" "winner ?r2 = None"
    "imposterEjections ?r2 = 0" "finalGuessCorrect ?r2 = None" "mode ?r2 = ModeImposter"
    using narrate_shape [of NarrLeft ?slots ?k] assms
    by (auto simp: add_note_def kill_def upd_player_def)
  have "\<not> list_ex is_mafia (living ?k)"
    using assms(9) by (auto simp: living_kill [OF assms(6)] list_ex_iff)
  then have w: "liars_walked_out ?r2"
    using same by (simp add: liars_walked_out_def living_def)
  have a: "announce_departure (pname p) now ?k = ?r2"
    using walked_out_undecided [OF w] by (simp add: announce_departure_def split_beta checkWinner_def)
  have res: "fst (player_leave newId now p r) = hand_over i now (upd_player i (depart now ?h) ?r2)"
    using assms(2,8) by (simp add: player_leave_def i a Let_def)
  have "liars_walked_out (fst (player_leave newId now p r))"
    using walked_out_depart [OF w] by (simp add: res)
  then show ?thesis
    using same by (simp add: walked_out_verdict) (simp add: res upd_player_def)
qed

definition imposter_table :: liars_room where
  "imposter_table = (sample_room ModeImposter [sample_player ''a'' Imposter, sample_player ''b'' Crew,
     sample_player ''c'' Crew, sample_player ''d'' Crew, sample_player ''e'' Crew])\<lparr>phase := Clue\<rparr>"

lemma imposter_who_leaves_ends_nothing_witness:
  "winner (fst (player_leave ''n'' 9 (sample_player ''a'' Imposter) imposter_table)) = None \<and>
   phase (fst (player_leave ''n'' 9 (sample_player ''a'' Imposter) imposter_table)) = phase imposter_table \<and>
   afterVerdict 20 (fst (player_leave ''n'' 9 (sample_player ''a'' Imposter) imposter_table)) =
     startRound 20 (fst (player_leave ''n'' 9 (sample_player ''a'' Imposter) imposter_table))"
  by (rule imposter_who_leaves_ends_nothing [where i = "''a''"])
    (simp_all add: imposter_table_def distinct_ids_def player_by_id_def living_def is_mafia_def)

end
