(* ===== verification/RoomPostgres.thy ===== *)
theory RoomPostgres
  imports GameEngine
begin

text \<open>
  The durable room store (\<^verbatim>\<open>features/things/shared/room-postgres.server.ts\<close> and
  \<^verbatim>\<open>room-postgres-engine.server.ts\<close>) and the official results it commits with a room
  (\<^verbatim>\<open>features/game-results/outbox.server.ts\<close>). The three tables are maps from their primary keys;
  a transaction either returns the new tables or throws and leaves the old ones; the row lock makes
  the transactions on one room a sequence, so a transaction is one function on the tables.
\<close>

section \<open>Official results\<close>

datatype result_outcome = Completed | DidNotFinish | Withdrawn | Disqualified

record official_player =
  op_playerId :: js_string
  op_outcome :: result_outcome
  op_rawScore :: "int option"
  op_placement :: "nat option"
  op_durationMs :: "int option"
  op_won :: "bool option"

record official_draft =
  od_gameKind :: js_string
  od_gameInstanceId :: js_string
  od_resultId :: js_string
  od_scope :: js_string
  od_players :: "official_player list"

datatype result_operation = RecordResult | CancelResult

record official_payload = official_draft +
  oe_channelId :: js_string
  oe_revision :: nat
  oe_operation :: result_operation
  oe_committedAt :: int

record official_envelope =
  en_payload :: official_payload
  en_payloadHash :: js_string

text \<open>\<^verbatim>\<open>JSON.stringify\<close> of the payload, with its keys in a fixed order, is the argument \<^verbatim>\<open>json\<close>.\<close>

definition officialResultPayloadHash ::
  "'a services_scheme \<Rightarrow> (official_payload \<Rightarrow> js_string) \<Rightarrow> official_payload \<Rightarrow> js_string" where
  "officialResultPayloadHash w json p = sha256_hex w (json p)"

definition sealOfficialGameResult ::
  "'a services_scheme \<Rightarrow> (official_payload \<Rightarrow> js_string) \<Rightarrow> js_string \<Rightarrow> nat \<Rightarrow> official_draft \<Rightarrow>
   official_envelope" where
  "sealOfficialGameResult w json channelId revision_no d =
     (let p = official_draft.extend d (official_payload.fields channelId revision_no RecordResult (wall_clock w))
      in \<lparr>en_payload = p, en_payloadHash = officialResultPayloadHash w json p\<rparr>)"

section \<open>The tables\<close>

record 'st pg_room =
  pr_schemaVersion :: nat
  pr_revision :: nat
  pr_state :: 'st
  pr_expiresAt :: int

record 'out pg_receipt =
  rc_fingerprint :: js_string
  rc_outcome :: 'out
  rc_revision :: nat

type_synonym room_key = "js_string \<times> js_string"
type_synonym action_key = "js_string \<times> js_string \<times> js_string"
type_synonym result_key = "js_string \<times> js_string \<times> nat"

record ('st, 'out) pg_db =
  db_rooms :: "room_key \<Rightarrow> 'st pg_room option"
  db_receipts :: "action_key \<Rightarrow> 'out pg_receipt option"
  db_outbox :: "result_key \<Rightarrow> official_envelope option"

datatype pg_error = RoomActionConflict | CannotPersistExpiry | ConflictingResult | CannotAllocate

text \<open>\<^verbatim>\<open>transaction(...)\<close>: a throw rolls everything back.\<close>

definition transact ::
  "('db \<Rightarrow> pg_error + ('db \<times> 'x)) \<Rightarrow> 'db \<Rightarrow> 'db \<times> (pg_error + 'x)" where
  "transact f db = (case f db of Inl e \<Rightarrow> (db, Inl e) | Inr (db', x) \<Rightarrow> (db', Inr x))"

section \<open>Creating, reading, deleting\<close>

definition createPostgresRoom ::
  "room_key \<Rightarrow> 'st pg_room \<Rightarrow> ('st, 'out) pg_db \<Rightarrow> ('st, 'out) pg_db \<times> bool" where
  "createPostgresRoom key room db =
     (case db_rooms db key of
        Some _ \<Rightarrow> (db, False)
      | None \<Rightarrow> (db\<lparr>db_rooms := (db_rooms db)(key \<mapsto> room)\<rparr>, True))"

definition readPostgresRoom :: "int \<Rightarrow> room_key \<Rightarrow> ('st, 'out) pg_db \<Rightarrow> 'st pg_room option" where
  "readPostgresRoom now key db =
     (case db_rooms db key of
        None \<Rightarrow> None
      | Some row \<Rightarrow> if now < pr_expiresAt row then Some row else None)"

text \<open>Deleting a room deletes its receipts (the foreign key cascades) and no result.\<close>

definition deletePostgresRoom ::
  "int \<Rightarrow> room_key \<Rightarrow> ('st \<Rightarrow> bool) \<Rightarrow> ('st, 'out) pg_db \<Rightarrow> ('st, 'out) pg_db \<times> bool" where
  "deletePostgresRoom now key authorize db =
     (case db_rooms db key of
        None \<Rightarrow> (db, True)
      | Some row \<Rightarrow>
          (if pr_expiresAt row \<le> now then (db, True)
           else if \<not> authorize (pr_state row) then (db, False)
           else (db\<lparr>db_rooms := (db_rooms db)(key := None),
                    db_receipts := (\<lambda>(k, i, a). if (k, i) = key then None else db_receipts db (k, i, a))\<rparr>,
                 True)))"

section \<open>A transition\<close>

record ('st, 'out) pg_transition =
  tr_state :: 'st
  tr_expiresAt :: int
  tr_outcome :: 'out
  tr_results :: "official_envelope list"
  tr_persist :: bool
  tr_recordAction :: bool

record pg_action =
  pa_id :: js_string
  pa_fingerprint :: js_string

record 'out pg_committed =
  cm_outcome :: 'out
  cm_revision :: nat
  cm_replayed :: bool

definition result_key_of :: "official_envelope \<Rightarrow> result_key" where
  "result_key_of e = (oe_channelId (en_payload e), od_resultId (en_payload e), oe_revision (en_payload e))"

fun insertResults ::
  "official_envelope list \<Rightarrow> (result_key \<Rightarrow> official_envelope option) \<Rightarrow>
   pg_error + (result_key \<Rightarrow> official_envelope option)" where
  "insertResults [] outbox = Inr outbox"
| "insertResults (e # es) outbox =
     (case outbox (result_key_of e) of
        None \<Rightarrow> insertResults es (outbox(result_key_of e \<mapsto> e))
      | Some old \<Rightarrow> (if en_payloadHash old = en_payloadHash e then insertResults es outbox
                     else Inl ConflictingResult))"

definition stored_receipt ::
  "room_key \<Rightarrow> pg_action option \<Rightarrow> ('st, 'out) pg_db \<Rightarrow> 'out pg_receipt option" where
  "stored_receipt key action db =
     (case action of None \<Rightarrow> None | Some a \<Rightarrow> db_receipts db (fst key, snd key, pa_id a))"

text \<open>The updates of a transition that is not a replay: the room, the receipt, the results.\<close>

definition commit_transition ::
  "int \<Rightarrow> room_key \<Rightarrow> pg_action option \<Rightarrow> ('st, 'out) pg_transition \<Rightarrow> 'st pg_room \<Rightarrow> ('st, 'out) pg_db \<Rightarrow>
   pg_error + (('st, 'out) pg_db \<times> 'out pg_committed option)" where
  "commit_transition now key action next room db =
     (if tr_expiresAt next \<le> now then Inl CannotPersistExpiry
      else
      let rev = pr_revision room + (if tr_persist next then 1 else 0);
          rooms = (if tr_persist next
                   then (db_rooms db)(key \<mapsto> room\<lparr>pr_state := tr_state next, pr_revision := rev,
                                                  pr_expiresAt := tr_expiresAt next\<rparr>)
                   else db_rooms db);
          receipts = (case action of
                        None \<Rightarrow> db_receipts db
                      | Some a \<Rightarrow>
                          (if tr_recordAction next
                           then (db_receipts db)((fst key, snd key, pa_id a) \<mapsto>
                                  \<lparr>rc_fingerprint = pa_fingerprint a, rc_outcome = tr_outcome next,
                                   rc_revision = rev\<rparr>)
                           else db_receipts db))
      in case insertResults (tr_results next) (db_outbox db) of
           Inl e \<Rightarrow> Inl e
         | Inr outbox \<Rightarrow>
             Inr (\<lparr>db_rooms = rooms, db_receipts = receipts, db_outbox = outbox\<rparr>,
                  Some \<lparr>cm_outcome = tr_outcome next, cm_revision = rev, cm_replayed = False\<rparr>))"

definition transition_body ::
  "int \<Rightarrow> room_key \<Rightarrow> pg_action option \<Rightarrow> ('st pg_room \<Rightarrow> ('st, 'out) pg_transition) \<Rightarrow> ('st, 'out) pg_db \<Rightarrow>
   pg_error + (('st, 'out) pg_db \<times> 'out pg_committed option)" where
  "transition_body now key action transition db =
     (case readPostgresRoom now key db of
        None \<Rightarrow> Inr (db, None)
      | Some room \<Rightarrow>
          (case (action, stored_receipt key action db) of
             (Some a, Some rc) \<Rightarrow>
               (if rc_fingerprint rc \<noteq> pa_fingerprint a then Inl RoomActionConflict
                else Inr (db, Some \<lparr>cm_outcome = rc_outcome rc, cm_revision = rc_revision rc,
                                    cm_replayed = True\<rparr>))
           | _ \<Rightarrow> commit_transition now key action (transition room) room db))"

definition transitionPostgresRoom ::
  "int \<Rightarrow> room_key \<Rightarrow> pg_action option \<Rightarrow> ('st pg_room \<Rightarrow> ('st, 'out) pg_transition) \<Rightarrow> ('st, 'out) pg_db \<Rightarrow>
   ('st, 'out) pg_db \<times> (pg_error + 'out pg_committed option)" where
  "transitionPostgresRoom now key action transition db = transact (transition_body now key action transition) db"

section \<open>The engine's wrapper\<close>

text \<open>
  \<^verbatim>\<open>use\<close> is the reducer, \<^verbatim>\<open>same\<close> the comparison of two serialised states, \<^verbatim>\<open>seal\<close> the results of a
  transition; \<^verbatim>\<open>record_action\<close> reads the outcome.
\<close>

definition game_transition ::
  "('st \<Rightarrow> 'st \<times> 'out) \<Rightarrow> ('st \<Rightarrow> 'st \<Rightarrow> bool) \<Rightarrow> ('st \<Rightarrow> 'st) \<Rightarrow> ('st \<Rightarrow> int) \<Rightarrow>
   ('st \<Rightarrow> 'st \<Rightarrow> official_envelope list) \<Rightarrow> ('out \<Rightarrow> bool) \<Rightarrow> 'st pg_room \<Rightarrow> ('st, 'out) pg_transition" where
  "game_transition use same applyExpiry expires_at results recordAction stored =
     (let before = pr_state stored;
          (room, outcome) = use before;
          room' = (if same room before then room else applyExpiry room)
      in \<lparr>tr_state = room', tr_expiresAt = expires_at room', tr_outcome = outcome,
          tr_results = results before room', tr_persist = (\<not> same room' before),
          tr_recordAction = recordAction outcome\<rparr>)"

definition withPostgresGameRoom ::
  "int \<Rightarrow> room_key \<Rightarrow> pg_action option \<Rightarrow> ('st \<Rightarrow> 'st \<times> 'out) \<Rightarrow> ('st \<Rightarrow> 'st \<Rightarrow> bool) \<Rightarrow> ('st \<Rightarrow> 'st) \<Rightarrow>
   ('st \<Rightarrow> int) \<Rightarrow> ('st \<Rightarrow> 'st \<Rightarrow> official_envelope list) \<Rightarrow> ('out \<Rightarrow> bool) \<Rightarrow> ('st, 'out) pg_db \<Rightarrow>
   ('st, 'out) pg_db \<times> (pg_error + 'out option)" where
  "withPostgresGameRoom now key action use same applyExpiry expires_at results recordAction db =
     (case transitionPostgresRoom now key action
             (game_transition use same applyExpiry expires_at results recordAction) db of
        (db', Inl e) \<Rightarrow> (db', Inl e)
      | (db', Inr c) \<Rightarrow> (db', Inr (map_option cm_outcome c)))"

definition createPostgresGameRoom ::
  "int \<Rightarrow> room_key \<Rightarrow> nat \<Rightarrow> 'st \<Rightarrow> int \<Rightarrow> ('st, 'out) pg_db \<Rightarrow> ('st, 'out) pg_db \<times> (pg_error + unit)" where
  "createPostgresGameRoom now key revision_no st expiresAt db =
     (if expiresAt \<le> now then (db, Inl CannotPersistExpiry)
      else case createPostgresRoom key \<lparr>pr_schemaVersion = 1, pr_revision = revision_no, pr_state = st,
                                        pr_expiresAt = expiresAt\<rparr> db of
        (db', True) \<Rightarrow> (db', Inr ())
      | (db', False) \<Rightarrow> (db', Inl CannotAllocate))"

definition loadPostgresGameRoom :: "int \<Rightarrow> room_key \<Rightarrow> ('st, 'out) pg_db \<Rightarrow> 'st option" where
  "loadPostgresGameRoom now key db = map_option pr_state (readPostgresRoom now key db)"

section \<open>What a transition does\<close>

lemma transition_gone:
  "readPostgresRoom now key db = None \<Longrightarrow> transitionPostgresRoom now key action t db = (db, Inr None)"
  by (simp add: transitionPostgresRoom_def transact_def transition_body_def)

lemma transition_replay:
  assumes "readPostgresRoom now key db = Some room" and "stored_receipt key (Some a) db = Some rc"
  shows "transitionPostgresRoom now key (Some a) t db =
           (db, if rc_fingerprint rc = pa_fingerprint a
                then Inr (Some \<lparr>cm_outcome = rc_outcome rc, cm_revision = rc_revision rc, cm_replayed = True\<rparr>)
                else Inl RoomActionConflict)"
  using assms by (simp add: transitionPostgresRoom_def transact_def transition_body_def)

lemma transition_fresh:
  assumes "readPostgresRoom now key db = Some room" and "stored_receipt key action db = None"
  shows "transitionPostgresRoom now key action t db =
           transact (commit_transition now key action (t room) room) db"
  using assms by (cases action) (simp_all add: transitionPostgresRoom_def transact_def transition_body_def)

text \<open>
  What the results make of the outbox: an entry that is there stays, else the first result with the key goes
  in; and they agree when no two entries under one key have different hashes.
\<close>

definition outbox_with ::
  "official_envelope list \<Rightarrow> (result_key \<Rightarrow> official_envelope option) \<Rightarrow> result_key \<Rightarrow> official_envelope option" where
  "outbox_with es outbox k =
     (case outbox k of Some e \<Rightarrow> Some e | None \<Rightarrow> find (\<lambda>e. result_key_of e = k) es)"

definition results_agree :: "official_envelope list \<Rightarrow> (result_key \<Rightarrow> official_envelope option) \<Rightarrow> bool" where
  "results_agree es outbox \<longleftrightarrow>
     list_all (\<lambda>e. map_option en_payloadHash (outbox_with es outbox (result_key_of e)) = Some (en_payloadHash e)) es"

lemma outbox_with_new: "outbox (result_key_of e) = None \<Longrightarrow> outbox_with (e # es) outbox = outbox_with es (outbox(result_key_of e \<mapsto> e))"
  by (auto simp: outbox_with_def fun_eq_iff split: option.split)

lemma outbox_with_old: "outbox (result_key_of e) = Some old \<Longrightarrow> outbox_with (e # es) outbox = outbox_with es outbox"
  by (auto simp: outbox_with_def fun_eq_iff split: option.split)

lemma insertResults_spec:
  "insertResults es outbox = (if results_agree es outbox then Inr (outbox_with es outbox) else Inl ConflictingResult)"
proof (induction es arbitrary: outbox)
  case Nil
  then show ?case by (simp add: results_agree_def outbox_with_def fun_eq_iff split: option.split)
next
  case (Cons x es)
  show ?case
  proof (cases "outbox (result_key_of x)")
    case None
    then have "outbox_with (x # es) outbox (result_key_of x) = Some x" by (simp add: outbox_with_def)
    then show ?thesis using Cons.IH None by (simp add: results_agree_def outbox_with_new)
  next
    case (Some old)
    then have "outbox_with es outbox (result_key_of x) = Some old" by (simp add: outbox_with_def)
    then show ?thesis using Cons.IH Some by (simp add: results_agree_def outbox_with_old)
  qed
qed

text \<open>The outbox only grows.\<close>

lemma insertResults_keeps:
  "insertResults es outbox = Inr outbox' \<Longrightarrow> outbox k = Some e \<Longrightarrow> outbox' k = Some e"
proof (induction es arbitrary: outbox)
  case (Cons x es)
  show ?case
  proof (cases "outbox (result_key_of x)")
    case None
    then have "k \<noteq> result_key_of x" using Cons.prems(2) by auto
    with None Cons show ?thesis by simp
  qed (use Cons in \<open>auto split: if_splits\<close>)
qed simp

lemma commit_cases:
  assumes "commit_transition now key action next room db = Inr (db', c)"
  shows "db_receipts db' k = db_receipts db k \<or>
           (\<exists>a. action = Some a \<and> k = (fst key, snd key, pa_id a) \<and> tr_recordAction next)"
    and "insertResults (tr_results next) (db_outbox db) = Inr (db_outbox db')"
    and "now < tr_expiresAt next"
    and "db_rooms db' = (if tr_persist next then (db_rooms db)(key \<mapsto> room\<lparr>pr_state := tr_state next,
             pr_revision := Suc (pr_revision room), pr_expiresAt := tr_expiresAt next\<rparr>) else db_rooms db)"
  using assms
  by (auto simp: commit_transition_def Let_def split: if_splits option.splits sum.splits)

section \<open>Exactly once\<close>

text \<open>
  A history of transactions on any rooms, as the row locks serialise them: each is a function on
  the tables of one of the kinds below. Time may pass in any way between them.
\<close>

datatype ('st, 'out) pg_call =
  PgCreate room_key "'st pg_room"
| PgDelete int room_key "'st \<Rightarrow> bool"
| PgTransition int room_key "pg_action option" "'st pg_room \<Rightarrow> ('st, 'out) pg_transition"

fun run_call :: "('st, 'out) pg_call \<Rightarrow> ('st, 'out) pg_db \<Rightarrow> ('st, 'out) pg_db" where
  "run_call (PgCreate key room) db = fst (createPostgresRoom key room db)"
| "run_call (PgDelete now key authorize) db = fst (deletePostgresRoom now key authorize db)"
| "run_call (PgTransition now key action t) db = fst (transitionPostgresRoom now key action t db)"

lemma transition_keeps_receipt:
  assumes "db_receipts db k = Some rc"
  shows "db_receipts (fst (transitionPostgresRoom now key action t db)) k = Some rc"
proof (cases "readPostgresRoom now key db")
  case None
  with assms show ?thesis by (simp add: transition_gone)
next
  case (Some room)
  show ?thesis
  proof (cases "stored_receipt key action db")
    case None
    show ?thesis
    proof (cases "commit_transition now key action (t room) room db")
      case (Inl e)
      with Some None assms show ?thesis by (simp add: transition_fresh transact_def)
    next
      case (Inr x)
      obtain db' c where x: "x = (db', c)" by fastforce
      have "db_receipts db' k = Some rc"
        using commit_cases(1) [OF Inr [unfolded x], of k] None assms by (auto simp: stored_receipt_def)
      with Some None Inr x show ?thesis by (simp add: transition_fresh transact_def)
    qed
  next
    case receipt: (Some old)
    then obtain a where "action = Some a" by (cases action) (auto simp: stored_receipt_def)
    with Some receipt assms show ?thesis by (simp add: transition_replay)
  qed
qed

text \<open>The room is in its table after each of the calls: no deletion of it has been granted.\<close>

fun stays_stored :: "room_key \<Rightarrow> ('st, 'out) pg_call list \<Rightarrow> ('st, 'out) pg_db \<Rightarrow> bool" where
  "stays_stored key [] db \<longleftrightarrow> True"
| "stays_stored key (c # cs) db \<longleftrightarrow> db_rooms (run_call c db) key \<noteq> None \<and> stays_stored key cs (run_call c db)"

lemma delete_keeps_receipt:
  assumes "db_receipts db (k, i, a) = Some rc" and "db_rooms (fst (deletePostgresRoom now key authorize db)) (k, i) \<noteq> None"
  shows "db_receipts (fst (deletePostgresRoom now key authorize db)) (k, i, a) = Some rc"
  using assms by (auto simp: deletePostgresRoom_def split: option.splits if_splits)

lemma run_call_keeps_receipt:
  assumes "db_receipts db (k, i, a) = Some rc" and "db_rooms (run_call c db) (k, i) \<noteq> None"
  shows "db_receipts (run_call c db) (k, i, a) = Some rc"
  using assms
  by (cases c) (auto simp: transition_keeps_receipt createPostgresRoom_def intro!: delete_keeps_receipt split: option.split)

lemma run_calls_keep_receipt:
  assumes "db_receipts db (k, i, a) = Some rc" and "stays_stored (k, i) cs db"
  shows "db_receipts (fold run_call cs db) (k, i, a) = Some rc"
  using assms
proof (induction cs arbitrary: db)
  case (Cons c cs)
  then show ?case using run_call_keeps_receipt [of db k i a rc c] by simp
qed simp

lemma transition_records:
  assumes "transitionPostgresRoom now key (Some a) t db = (db', Inr (Some c))" and "\<not> cm_replayed c"
    and "readPostgresRoom now key db = Some room" and "tr_recordAction (t room)"
  shows "db_receipts db' (fst key, snd key, pa_id a) =
           Some \<lparr>rc_fingerprint = pa_fingerprint a, rc_outcome = cm_outcome c, rc_revision = cm_revision c\<rparr>"
proof -
  have "stored_receipt key (Some a) db = None"
    using assms(1,2,3) by (cases "stored_receipt key (Some a) db") (auto simp: transition_replay split: if_splits)
  then show ?thesis
    using assms by (auto simp: transition_fresh transact_def commit_transition_def Let_def
        split: sum.splits if_splits)
qed

text \<open>C1. An action recorded by a committed transition happens once in the life of its
  room: whatever rooms are created, deleted and moved on afterwards, as long as this room is not itself
  deleted, sending the action again finds its receipt, returns the outcome and the revision of the first
  time and writes nothing; sending the same id with another fingerprint is refused and writes nothing.
  The transition function of the second call is never run. (Deleting a room deletes its receipts, so in
  a new room of the same code the id counts as new.)\<close>

theorem pg_action_exactly_once:
  assumes "transitionPostgresRoom now key (Some a) t db = (db1, Inr (Some c))" and "\<not> cm_replayed c"
    and "readPostgresRoom now key db = Some room" and "tr_recordAction (t room)"
    and "stays_stored key calls db1"
    and "readPostgresRoom now' key (fold run_call calls db1) = Some room'" and "pa_id b = pa_id a"
  shows "transitionPostgresRoom now' key (Some b) t' (fold run_call calls db1) =
           (fold run_call calls db1,
            if pa_fingerprint b = pa_fingerprint a
            then Inr (Some \<lparr>cm_outcome = cm_outcome c, cm_revision = cm_revision c, cm_replayed = True\<rparr>)
            else Inl RoomActionConflict)"
proof -
  have "db_receipts (fold run_call calls db1) (fst key, snd key, pa_id b) =
      Some \<lparr>rc_fingerprint = pa_fingerprint a, rc_outcome = cm_outcome c, rc_revision = cm_revision c\<rparr>"
    unfolding assms(7)
    by (rule run_calls_keep_receipt [OF transition_records [OF assms(1-4)]]) (simp add: assms(5))
  then show ?thesis
    using transition_replay [OF assms(6), of b] by (auto simp: stored_receipt_def)
qed

text \<open>A room of one counter, for the witness.\<close>

definition counter_db :: "(nat, nat) pg_db" where
  "counter_db = \<lparr>db_rooms = [(''liars'', ''ABCDEFG'') \<mapsto> \<lparr>pr_schemaVersion = 1, pr_revision = 0, pr_state = 5,
     pr_expiresAt = 100\<rparr>], db_receipts = Map.empty, db_outbox = Map.empty\<rparr>"

definition counter_step :: "nat pg_room \<Rightarrow> (nat, nat) pg_transition" where
  "counter_step room = \<lparr>tr_state = Suc (pr_state room), tr_expiresAt = 200, tr_outcome = pr_state room,
     tr_results = [], tr_persist = True, tr_recordAction = True\<rparr>"

definition counter_key :: room_key where
  "counter_key = (''liars'', ''ABCDEFG'')"

definition counter_action :: pg_action where
  "counter_action = \<lparr>pa_id = ''x'', pa_fingerprint = ''f''\<rparr>"

definition counter_calls :: "(nat, nat) pg_call list" where
  "counter_calls =
     [PgTransition 1 counter_key None counter_step, PgDelete 2 counter_key (\<lambda>st. False),
      PgCreate (''liars'', ''BBBBBBB'') \<lparr>pr_schemaVersion = 1, pr_revision = 0, pr_state = 0, pr_expiresAt = 90\<rparr>,
      PgDelete 3 (''liars'', ''BBBBBBB'') (\<lambda>st. True)]"

lemmas counter_defs = counter_key_def counter_action_def counter_db_def counter_step_def counter_calls_def
  transitionPostgresRoom_def transact_def transition_body_def readPostgresRoom_def stored_receipt_def
  commit_transition_def createPostgresRoom_def deletePostgresRoom_def

lemma pg_action_exactly_once_witness:
  "let db1 = fst (transitionPostgresRoom 0 counter_key (Some counter_action) counter_step counter_db)
   in transitionPostgresRoom 4 counter_key (Some counter_action) counter_step (fold run_call counter_calls db1) =
      (fold run_call counter_calls db1, Inr (Some \<lparr>cm_outcome = 5, cm_revision = 1, cm_replayed = True\<rparr>))"
proof -
  let ?db1 = "fst (transitionPostgresRoom 0 counter_key (Some counter_action) counter_step counter_db)"
  have step: "transitionPostgresRoom 0 counter_key (Some counter_action) counter_step counter_db =
      (?db1, Inr (Some \<lparr>cm_outcome = 5, cm_revision = 1, cm_replayed = False\<rparr>))"
    by (simp add: counter_defs)
  have stays: "stays_stored counter_key counter_calls ?db1" by (simp add: counter_defs)
  have live: "readPostgresRoom 4 counter_key (fold run_call counter_calls ?db1) =
      Some \<lparr>pr_schemaVersion = 1, pr_revision = 2, pr_state = 7, pr_expiresAt = 200\<rparr>"
    by (simp add: counter_defs)
  have room: "readPostgresRoom 0 counter_key counter_db =
      Some \<lparr>pr_schemaVersion = 1, pr_revision = 0, pr_state = 5, pr_expiresAt = 100\<rparr>"
    by (simp add: counter_defs)
  have rec: "tr_recordAction (counter_step room)" for room by (simp add: counter_step_def)
  have nr: "\<not> cm_replayed \<lparr>cm_outcome = (5::nat), cm_revision = 1, cm_replayed = False\<rparr>" by simp
  show ?thesis
    using pg_action_exactly_once [OF step nr room rec stays live, of counter_action counter_step] by (simp add: Let_def)
qed

text \<open>A deleted room loses its receipts: created anew under the same code it runs the same action again.\<close>

lemma deleted_room_forgets_actions:
  "snd (transitionPostgresRoom 3 counter_key (Some counter_action) counter_step
      (fold run_call [PgTransition 0 counter_key (Some counter_action) counter_step, PgDelete 1 counter_key (\<lambda>st. True),
         PgCreate counter_key \<lparr>pr_schemaVersion = 1, pr_revision = 0, pr_state = 30, pr_expiresAt = 90\<rparr>] counter_db)) =
   Inr (Some \<lparr>cm_outcome = 30, cm_revision = 1, cm_replayed = False\<rparr>)"
  by (simp add: counter_defs)

text \<open>C30. A transition writes all it returns or nothing, and what it answers says which. It
  throws, and writes nothing, exactly when the action's id is stored with another fingerprint, or the new
  state would already be expired, or a result has a key that the outbox or an earlier result of the same
  transition holds with another hash. It answers with a stored receipt and writes nothing, or finds no
  live room and writes nothing. Otherwise the room, the receipt and the results are all there: the room
  has the new state, expiry and a revision one higher, exactly when the state is to be persisted; there is
  a receipt with the fingerprint, the outcome and the revision answered, exactly when the action is to be
  recorded; the outbox has each result under its key, unless one of the same hash was there; and nothing
  else in the three tables has changed.\<close>

theorem pg_commit_is_atomic:
  assumes "transitionPostgresRoom now key action t db = (db', res)"
  shows "case readPostgresRoom now key db of
           None \<Rightarrow> db' = db \<and> res = Inr None
         | Some room \<Rightarrow>
             (case stored_receipt key action db of
                Some rc \<Rightarrow>
                  db' = db \<and>
                  res = (if rc_fingerprint rc = pa_fingerprint (the action)
                         then Inr (Some \<lparr>cm_outcome = rc_outcome rc, cm_revision = rc_revision rc, cm_replayed = True\<rparr>)
                         else Inl RoomActionConflict)
              | None \<Rightarrow>
                  if tr_expiresAt (t room) \<le> now then db' = db \<and> res = Inl CannotPersistExpiry
                  else if \<not> results_agree (tr_results (t room)) (db_outbox db) then db' = db \<and> res = Inl ConflictingResult
                  else \<exists>rev. rev = pr_revision room + (if tr_persist (t room) then 1 else 0) \<and>
                    res = Inr (Some \<lparr>cm_outcome = tr_outcome (t room), cm_revision = rev, cm_replayed = False\<rparr>) \<and>
                    (\<forall>k. db_rooms db' k =
                       (if k = key \<and> tr_persist (t room)
                        then Some (room\<lparr>pr_state := tr_state (t room), pr_revision := rev, pr_expiresAt := tr_expiresAt (t room)\<rparr>)
                        else db_rooms db k)) \<and>
                    (\<forall>k i a. db_receipts db' (k, i, a) =
                       (if (k, i) = key \<and> map_option pa_id action = Some a \<and> tr_recordAction (t room)
                        then Some \<lparr>rc_fingerprint = pa_fingerprint (the action), rc_outcome = tr_outcome (t room), rc_revision = rev\<rparr>
                        else db_receipts db (k, i, a))) \<and>
                    (\<forall>k. db_outbox db' k =
                       (case db_outbox db k of Some e \<Rightarrow> Some e | None \<Rightarrow> find (\<lambda>e. result_key_of e = k) (tr_results (t room)))))"
proof (cases "readPostgresRoom now key db")
  case None
  with assms show ?thesis by (simp add: transition_gone)
next
  case live: (Some room)
  show ?thesis
  proof (cases "stored_receipt key action db")
    case (Some rc)
    then obtain a where "action = Some a" by (cases action) (simp_all add: stored_receipt_def)
    with assms live Some show ?thesis by (simp add: transition_replay split: if_splits)
  next
    case None
    show ?thesis
      using assms live None
      by (cases key; cases action)
        (auto simp: transition_fresh transact_def commit_transition_def insertResults_spec outbox_with_def Let_def)
  qed
qed

text \<open>A room that returns two results, one of which is in the outbox already.\<close>

definition counter_result :: "js_string \<Rightarrow> js_string \<Rightarrow> official_envelope" where
  "counter_result i h =
     \<lparr>en_payload = \<lparr>od_gameKind = ''pairs'', od_gameInstanceId = ''g'', od_resultId = i, od_scope = ''round'',
        od_players = [], oe_channelId = ''c'', oe_revision = 1, oe_operation = RecordResult, oe_committedAt = 0\<rparr>,
      en_payloadHash = h\<rparr>"

definition scoring_step :: "nat pg_room \<Rightarrow> (nat, nat) pg_transition" where
  "scoring_step room = (counter_step room)\<lparr>tr_results := [counter_result ''r1'' ''h1'', counter_result ''r2'' ''h2'']\<rparr>"

definition scored_db :: "(nat, nat) pg_db" where
  "scored_db = counter_db\<lparr>db_outbox := [(''c'', ''r1'', 1) \<mapsto> counter_result ''r1'' ''h1'']\<rparr>"

lemma scoring_step_sel:
  "tr_results (scoring_step room) = [counter_result ''r1'' ''h1'', counter_result ''r2'' ''h2'']"
  "tr_expiresAt (scoring_step room) = 200" "tr_state (scoring_step room) = Suc (pr_state room)"
  "tr_outcome (scoring_step room) = pr_state room" "tr_persist (scoring_step room)" "tr_recordAction (scoring_step room)"
  by (simp_all add: scoring_step_def counter_step_def)

lemma scored_outbox:
  "db_outbox scored_db (''c'', ''r1'', Suc 0) = Some (counter_result ''r1'' ''h1'')"
  "db_outbox scored_db (''c'', ''r2'', Suc 0) = None"
  "result_key_of (counter_result i h) = (''c'', i, Suc 0)"
  by (simp_all add: scored_db_def counter_result_def result_key_of_def)

lemma pg_commit_is_atomic_witness:
  "let db' = fst (transitionPostgresRoom 0 counter_key (Some counter_action) scoring_step scored_db)
   in db_rooms db' counter_key = Some \<lparr>pr_schemaVersion = 1, pr_revision = 1, pr_state = 6, pr_expiresAt = 200\<rparr> \<and>
      db_receipts db' (''liars'', ''ABCDEFG'', ''x'') = Some \<lparr>rc_fingerprint = ''f'', rc_outcome = 5, rc_revision = 1\<rparr> \<and>
      db_outbox db' (''c'', ''r2'', 1) = Some (counter_result ''r2'' ''h2'') \<and>
      db_outbox db' (''c'', ''r1'', 1) = Some (counter_result ''r1'' ''h1'')"
proof -
  let ?step = "transitionPostgresRoom 0 counter_key (Some counter_action) scoring_step scored_db"
  have run: "?step = (fst ?step, snd ?step)" by simp
  have room: "readPostgresRoom 0 counter_key scored_db =
      Some \<lparr>pr_schemaVersion = 1, pr_revision = 0, pr_state = 5, pr_expiresAt = 100\<rparr>"
    by (simp add: counter_defs scored_db_def)
  have fresh: "stored_receipt counter_key (Some counter_action) scored_db = None"
    by (simp add: counter_defs scored_db_def)
  have agree: "results_agree [counter_result ''r1'' ''h1'', counter_result ''r2'' ''h2''] (db_outbox scored_db)"
    by (simp add: results_agree_def outbox_with_def result_key_of_def counter_result_def scored_db_def)
  have key: "counter_key = (''liars'', ''ABCDEFG'')" "pa_id counter_action = ''x''"
    "pa_fingerprint counter_action = ''f''"
    by (simp_all add: counter_key_def counter_action_def)
  show ?thesis
    using pg_commit_is_atomic [OF run, unfolded room fresh option.case] agree
    by (simp add: scoring_step_sel scored_outbox key Let_def)
qed

end
