(* ===== verification/LiarsRoom.thy ===== *)
theory LiarsRoom
  imports LiarsView RoomPostgres
begin

text \<open>
  Rooms and their two stores (\<^verbatim>\<open>liars-room-engine.server.ts\<close>, "Persistence" and "Public API"):
  creating, joining, reading, acting on and closing a room, over the in-memory store and over the
  durable one. The clock a call reads is the \<^verbatim>\<open>wall_clock\<close> of the room it loads.
\<close>

section \<open>Outcomes\<close>

datatype join_error =
  InviteExpired | GameStarted | RoomLocked | InvalidName js_string | NameTaken | RoomFull | RoomUnavailable

record join_success =
  js_roomId :: js_string
  js_playerId :: js_string
  js_playerToken :: js_string
  js_expiresAt :: int
  js_snapshot :: liars_snapshot

datatype read_result = ReadUnavailable | ReadUnchanged int | ReadView liars_snapshot

record join_input =
  ji_joinToken :: "js_string option"
  ji_name :: js_string
  ji_joinId :: js_string
  ji_hostToken :: "js_string option"

record create_input =
  ci_mode :: liars_mode
  ci_roomMode :: liars_room_mode
  ci_toggles :: "toggles_patch option"
  ci_timings :: "timings_patch option"
  ci_managed :: bool
  ci_officialResultChannelId :: "js_string option"

text \<open>What one call returns, whichever call it is.\<close>

datatype liars_outcome =
  OutJoin "join_error + join_success"
| OutRead read_result
| OutAction verdict "liars_snapshot option"

section \<open>A new room\<close>

definition new_room :: "services \<Rightarrow> js_string \<Rightarrow> js_string \<Rightarrow> js_string \<Rightarrow> int \<Rightarrow> create_input \<Rightarrow> liars_room" where
  "new_room w room_id hostToken joinToken expires input =
     \<lparr>sha256_hex = sha256_hex w, token_source = token_source w, token_cursor = token_cursor w,
      uuid_source = uuid_source w, uuid_cursor = uuid_cursor w,
      crypto_draw = crypto_draw w, crypto_cursor = crypto_cursor w, pick_draw = pick_draw w,
      pick_cursor = pick_cursor w, locale_compare = locale_compare w, wall_clock = wall_clock w,
      roomId = room_id, managed = ci_managed input,
      officialResultChannelId = ci_officialResultChannelId input, mode = ci_mode input,
      roomMode = ci_roomMode input, phase = Lobby, revision = 1, sequenceNo = 1,
      hostHash = hashMultiplayerCredential w hostToken, joinHash = hashMultiplayerCredential w joinToken,
      expiresAt = expires, gameNumber = 1, roundNo = 0, phaseStartedAt = wall_clock w, phaseEndsAt = 0,
      nightOpensAt = None, reportAt = None, pausedAt = None, lastActiveAt = wall_clock w,
      lineup = liarsDefaultLineup (ci_mode input) (LIARS_MIN_PLAYERS (ci_mode input)) None,
      lineupCustom = False,
      toggles = (case ci_toggles input of None \<Rightarrow> LIARS_DEFAULT_TOGGLES
                 | Some p \<Rightarrow> spread_toggles LIARS_DEFAULT_TOGGLES p),
      timings = (case ci_timings input of None \<Rightarrow> liarsDefaultTimings (ci_roomMode input)
                 | Some p \<Rightarrow> spread_timings (liarsDefaultTimings (ci_roomMode input)) p),
      players = [], hostPlayerId = None, joinLocked = None, hostDisconnectedSince = None, history = [],
      dawn = None, clueOrder = [], clueIndex = 0, clueRound = 0, clueFinishedBy = [],
      processedActions = [], joinReceiptIds = [], joinReceipts = [], ejectedJesterId = None,
      crewEjections = 0, imposterEjections = 0, finalGuessCorrect = None, roomWord = None,
      decoyWord = None, wordCategory = None, wordBoard = [], recentWords = [], recentNarrationIds = [],
      winner = None, lastEjectedName = None, graveyardBoard = [], revoteUsed = False, runoffIds = [],
      narratorPlayerId = None\<rparr>"

text \<open>The room and its two secrets; \<^verbatim>\<open>None\<close> when no free id was found.\<close>

definition create_room ::
  "(js_string \<Rightarrow> bool) \<Rightarrow> services \<Rightarrow> create_input \<Rightarrow> (liars_room \<times> js_string \<times> js_string) option" where
  "create_room roomExists w input =
     (let (hostToken, w1) = createMultiplayerCredential w;
          (joinToken, w2) = createMultiplayerCredential w1;
          expires = multiplayerLobbyExpiresAt (wall_clock w) 1
      in case createAvailableMultiplayerRoomId roomExists w2 of
           (None, _) \<Rightarrow> None
         | (Some i, w3) \<Rightarrow> Some (new_room w3 i hostToken joinToken expires input, hostToken, joinToken))"

section \<open>Joining\<close>

definition invite_refused :: "join_input \<Rightarrow> liars_room \<Rightarrow> bool" where
  "invite_refused i r \<longleftrightarrow>
     (case ji_joinToken i of
        None \<Rightarrow> managed r
      | Some t \<Rightarrow> \<not> multiplayerCredentialsMatch r t (joinHash r))"

definition receipt_player :: "join_receipt option \<Rightarrow> liars_room \<Rightarrow> player_state option" where
  "receipt_player receipt r = (case receipt of None \<Rightarrow> None | Some rc \<Rightarrow> player_by_id r (jr_playerId rc))"

text \<open>A receipt whose player is still here under the token it carries.\<close>

definition receipt_valid :: "join_receipt option \<Rightarrow> liars_room \<Rightarrow> bool" where
  "receipt_valid receipt r \<longleftrightarrow>
     (case (receipt, receipt_player receipt r) of
        (Some rc, Some p) \<Rightarrow> multiplayerCredentialsMatch r (jr_playerToken rc) (tokenHash p)
      | _ \<Rightarrow> False)"

definition admission_error :: "js_string \<Rightarrow> liars_room \<Rightarrow> join_error option" where
  "admission_error name r =
     (if phase r \<noteq> Lobby then Some GameStarted
      else if joinLocked r = Some True then Some RoomLocked
      else if length name < 1 then Some (InvalidName ''Enter your name'')
      else if LIARS_MAX_NAME_LENGTH < length name
      then Some (InvalidName (''Use '' @ nat_str LIARS_MAX_NAME_LENGTH @ '' characters or fewer''))
      else if list_ex (\<lambda>p. to_lower (pname p) = to_lower name) (players r) then Some NameTaken
      else if LIARS_MAX_PLAYERS (mode r) \<le> player_count r then Some RoomFull
      else None)"

definition new_player :: "js_string \<Rightarrow> js_string \<Rightarrow> js_string \<Rightarrow> int \<Rightarrow> player_state" where
  "new_player i name hashed now =
     \<lparr>pid = i, ready = Some True, startRequestId = None, startRequestedAt = None, pname = name,
      tokenHash = hashed, joinedAt = now, lastSeenAt = now, role = None, previousRole = None,
      alive = True, deathRound = None, deathCause = None, savedCount = 0, nightTarget = None,
      nightLocked = False, previousNightTarget = None, vote = None, voteLocked = False,
      readyToVote = False, pointedAt = None, roleWishes = [], graveyardVote = None, report = None,
      knowledge = [], lastWords = None, vigilanteUsed = False, guiltPending = False, pword = None,
      clueDone = False, leftAt = None\<rparr>"

definition follow_roster :: "liars_room \<Rightarrow> liars_room" where
  "follow_roster r =
     (if \<not> lineupCustom r \<or> liarsLineupTotal (lineup r) \<noteq> player_count r then reset_lineup r else r)"

definition claims_host :: "join_input \<Rightarrow> liars_room \<Rightarrow> bool" where
  "claims_host i r \<longleftrightarrow>
     (case ji_hostToken i of None \<Rightarrow> False | Some t \<Rightarrow> t \<noteq> [] \<and> multiplayerCredentialsMatch r t (hostHash r))"

text \<open>A new seat: the player's id, its token, and the room.\<close>

definition seat_player :: "join_input \<Rightarrow> liars_room \<Rightarrow> js_string \<times> js_string \<times> liars_room" where
  "seat_player i r =
     (let name = collapse_spaces (js_trim (ji_name i));
          (playerToken, r1) = createMultiplayerCredential r;
          (playerId, r2) = createMultiplayerCredential r1;
          player = new_player playerId name (hashMultiplayerCredential r playerToken) (wall_clock r);
          r3 = r2\<lparr>players := players r2 @ [player]\<rparr>;
          r4 = (if claims_host i r3 then r3\<lparr>hostPlayerId := Some playerId\<rparr> else r3);
          r5 = (if hostPlayerId r4 = None then r4\<lparr>hostPlayerId := Some playerId\<rparr> else r4)
      in (playerId, playerToken, follow_roster r5))"

definition next_receipt :: "js_string \<Rightarrow> js_string \<Rightarrow> liars_room \<Rightarrow> join_receipt" where
  "next_receipt playerId playerToken r =
     \<lparr>jr_playerId = playerId, jr_playerToken = playerToken,
      jr_expiresAt = min (expiresAt r) (wall_clock r + JOIN_RECEIPT_TTL_SECONDS * 1000)\<rparr>"

definition joined :: "join_receipt \<Rightarrow> liars_room \<Rightarrow> join_success" where
  "joined rc r =
     \<lparr>js_roomId = roomId r, js_playerId = jr_playerId rc, js_playerToken = jr_playerToken rc,
      js_expiresAt = expiresAt r, js_snapshot = snapshot r (Some (jr_playerId rc)) (wall_clock r)\<rparr>"

text \<open>The join of the durable store keeps its receipts in the room.\<close>

definition join_postgres :: "join_input \<Rightarrow> liars_room \<Rightarrow> liars_room \<times> (join_error + join_success)" where
  "join_postgres i r =
     (if invite_refused i r then (r, Inl InviteExpired)
      else
      let receipt = map_of (joinReceipts r) (ji_joinId i) in
      if (case receipt of None \<Rightarrow> False | Some rc \<Rightarrow> wall_clock r < jr_expiresAt rc) \<and> receipt_valid receipt r
      then (r, Inr (joined (the receipt) r))
      else
      case admission_error (collapse_spaces (js_trim (ji_name i))) r of
        Some e \<Rightarrow> (r, Inl e)
      | None \<Rightarrow>
          (case seat_player i r of (playerId, playerToken, r1) \<Rightarrow>
             (let rc = next_receipt playerId playerToken r1;
                  kept = filter (\<lambda>(_, x). wall_clock r1 < jr_expiresAt x) (joinReceipts r1);
                  r2 = r1\<lparr>joinReceipts := kept @ [(ji_joinId i, rc)]\<rparr>;
                  r3 = changed (r2\<lparr>joinReceiptIds := map fst (joinReceipts r2)\<rparr>)
              in (r3, Inr (joined rc r3)))))"

section \<open>The in-memory store\<close>

record memory_store =
  ms_rooms :: "js_string \<Rightarrow> liars_room option"
  ms_receipts :: "js_string \<Rightarrow> join_receipt option"

definition memoryReceiptKey :: "js_string \<Rightarrow> js_string \<Rightarrow> js_string" where
  "memoryReceiptKey room_id joinId = room_id @ '':'' @ joinId"

definition drop_receipts ::
  "js_string \<Rightarrow> js_string list \<Rightarrow> (js_string \<Rightarrow> join_receipt option) \<Rightarrow> js_string \<Rightarrow> join_receipt option" where
  "drop_receipts room_id joinIds receipts k =
     (if k \<in> memoryReceiptKey room_id ` set joinIds then None else receipts k)"

definition deleteRoom :: "liars_room \<Rightarrow> memory_store \<Rightarrow> memory_store" where
  "deleteRoom r st =
     st\<lparr>ms_rooms := (ms_rooms st)(roomId r := None),
        ms_receipts := drop_receipts (roomId r) (joinReceiptIds r) (ms_receipts st)\<rparr>"

definition loadRoom :: "int \<Rightarrow> js_string \<Rightarrow> memory_store \<Rightarrow> liars_room option \<times> memory_store" where
  "loadRoom now i st =
     (case ms_rooms st i of
        None \<Rightarrow> (None, st)
      | Some r \<Rightarrow> (if expiresAt r \<le> now then (None, deleteRoom r st) else (Some (r\<lparr>wall_clock := now\<rparr>), st)))"

definition saveRoom :: "liars_room \<Rightarrow> memory_store \<Rightarrow> memory_store" where
  "saveRoom r st =
     (let r' = applyRoomExpiry (wall_clock r) r
      in if expiresAt r' \<le> wall_clock r then deleteRoom r' st
         else st\<lparr>ms_rooms := (ms_rooms st)(roomId r := Some r')\<rparr>)"

text \<open>Two rooms serialise alike when they agree on everything but the services they run on.\<close>

definition same_state :: "liars_room \<Rightarrow> liars_room \<Rightarrow> bool" where
  "same_state a b \<longleftrightarrow> services.more a = services.more b"

text \<open>The official result of a room that has just ended.\<close>

definition result_player :: "liars_room \<Rightarrow> player_state \<Rightarrow> official_player" where
  "result_player r p =
     (let won = (case role p of None \<Rightarrow> False | Some x \<Rightarrow> Some (liarsRoleSide x) = winner r)
      in \<lparr>op_playerId = pid p, op_outcome = (if has_not_left p then Completed else Withdrawn),
          op_rawScore = None, op_placement = Some (if won then 1 else 2), op_durationMs = None, op_won = Some won\<rparr>)"

definition liarsOfficialResult ::
  "(official_payload \<Rightarrow> js_string) \<Rightarrow> liars_room \<Rightarrow> official_envelope option" where
  "liarsOfficialResult json r =
     (case officialResultChannelId r of
        None \<Rightarrow> None
      | Some channel \<Rightarrow>
          (if channel = [] \<or> phase r \<noteq> Ending \<or> winner r = None then None
           else Some (sealOfficialGameResult r json channel (revision r)
             \<lparr>od_gameKind = ''liars'', od_gameInstanceId = roomId r,
              od_resultId = ''game:'' @ nat_str (gameNumber r), od_scope = ''game'',
              od_players = map (result_player r) (filter (\<lambda>p. role p \<noteq> None) (players r))\<rparr>)))"

text \<open>
  The store hands out the stored object itself, so what the reducer wrote stays written whether or
  not the room is saved; the result is published when this call ended the game.
\<close>

definition withRoom ::
  "(official_payload \<Rightarrow> js_string) \<Rightarrow> int \<Rightarrow> js_string \<Rightarrow>
   (liars_room \<times> (js_string \<Rightarrow> join_receipt option) \<Rightarrow> (liars_room \<times> (js_string \<Rightarrow> join_receipt option)) \<times> 'a) \<Rightarrow>
   memory_store \<Rightarrow> memory_store \<times> 'a option \<times> official_envelope option" where
  "withRoom json now i use st =
     (case loadRoom now i st of
        (None, st1) \<Rightarrow> (st1, None, None)
      | (Some r, st1) \<Rightarrow>
          (case use (r, ms_receipts st1) of
             ((r', receipts), result) \<Rightarrow>
               (let st2 = st1\<lparr>ms_rooms := (ms_rooms st1)(i \<mapsto> r'), ms_receipts := receipts\<rparr>;
                    st3 = (if same_state r r' then st2 else saveRoom r' st2)
                in (st3, Some result, if phase r = Ending then None else liarsOfficialResult json r'))))"

text \<open>A reducer of rooms as a user of the store.\<close>

definition on_room ::
  "(liars_room \<Rightarrow> liars_room \<times> 'a) \<Rightarrow>
   liars_room \<times> (js_string \<Rightarrow> join_receipt option) \<Rightarrow> (liars_room \<times> (js_string \<Rightarrow> join_receipt option)) \<times> 'a" where
  "on_room f = (\<lambda>(r, receipts). case f r of (r', x) \<Rightarrow> ((r', receipts), x))"

definition readJoinReceipt ::
  "js_string \<Rightarrow> js_string \<Rightarrow> int \<Rightarrow> (js_string \<Rightarrow> join_receipt option) \<Rightarrow>
   join_receipt option \<times> (js_string \<Rightarrow> join_receipt option)" where
  "readJoinReceipt room_id joinId now receipts =
     (let key = memoryReceiptKey room_id joinId in
      case receipts key of
        None \<Rightarrow> (None, receipts(key := None))
      | Some rc \<Rightarrow> (if jr_expiresAt rc \<le> now then (None, receipts(key := None)) else (Some rc, receipts)))"

definition join_memory ::
  "join_input \<Rightarrow> liars_room \<times> (js_string \<Rightarrow> join_receipt option) \<Rightarrow>
   (liars_room \<times> (js_string \<Rightarrow> join_receipt option)) \<times> (join_error + join_success)" where
  "join_memory i = (\<lambda>(r, receipts).
     (if invite_refused i r then ((r, receipts), Inl InviteExpired)
      else
      (case readJoinReceipt (roomId r) (ji_joinId i) (wall_clock r) receipts of
         (receipt, receipts1) \<Rightarrow>
           (if receipt_valid receipt r then ((r, receipts1), Inr (joined (the receipt) r))
            else
            case admission_error (collapse_spaces (js_trim (ji_name i))) r of
              Some e \<Rightarrow> ((r, receipts1), Inl e)
            | None \<Rightarrow>
                (case seat_player i r of (playerId, playerToken, r1) \<Rightarrow>
                   (let rc = next_receipt playerId playerToken r1;
                        r2 = r1\<lparr>joinReceiptIds := (if ji_joinId i \<in> set (joinReceiptIds r1)
                               then joinReceiptIds r1 else joinReceiptIds r1 @ [ji_joinId i])\<rparr>;
                        r3 = changed r2
                    in ((r3, receipts1(memoryReceiptKey (roomId r) (ji_joinId i) \<mapsto> rc)),
                        Inr (joined rc r3))))))))"

definition sweep_rooms :: "int \<Rightarrow> js_string list \<Rightarrow> memory_store \<Rightarrow> memory_store" where
  "sweep_rooms now ids st =
     (let st1 = fold (\<lambda>i st. case ms_rooms st i of
                         None \<Rightarrow> st
                       | Some r \<Rightarrow> (if now < expiresAt r then st
                                    else st\<lparr>ms_rooms := (ms_rooms st)(i := None),
                                            ms_receipts := drop_receipts i (joinReceiptIds r) (ms_receipts st)\<rparr>))
                  ids st
      in st1\<lparr>ms_receipts := (\<lambda>k. case ms_receipts st1 k of
                                   None \<Rightarrow> None
                                 | Some rc \<Rightarrow> if jr_expiresAt rc \<le> now then None else Some rc)\<rparr>)"

section \<open>Reading and acting\<close>

text \<open>\<^verbatim>\<open>digest\<close> is the hash of a snapshot.\<close>

definition read_room ::
  "(liars_snapshot \<Rightarrow> js_string) \<Rightarrow> js_string \<Rightarrow> js_string option \<Rightarrow> js_string option \<Rightarrow> liars_room \<Rightarrow>
   liars_room \<times> read_result" where
  "read_room digest credential playerId lastDigest r =
     (if \<not> authenticate credential playerId r then (r, ReadUnavailable)
      else
      let now = wall_clock r;
          (idleFor, r1) = touch playerId now False r;
          r2 = advance now idleFor r1;
          view = snapshot r2 playerId now
      in (r2, if (case lastDigest of None \<Rightarrow> False | Some d \<Rightarrow> d \<noteq> [] \<and> d = digest view)
              then ReadUnchanged now else ReadView view))"

text \<open>An action's reply: the verdict, and the caller's snapshot unless the call was refused.\<close>

definition host_reply :: "host_input \<Rightarrow> liars_room \<Rightarrow> liars_room \<times> liars_outcome" where
  "host_reply i r =
     (case liarsHostReduce i r of (r', v) \<Rightarrow>
        (r', OutAction v (if v = VFail then None else Some (snapshot r' (hi_playerId i) (hi_now i)))))"

definition player_reply :: "player_input \<Rightarrow> liars_room \<Rightarrow> liars_room \<times> liars_outcome" where
  "player_reply i r =
     (case liarsPlayerReduce i r of (r', v) \<Rightarrow>
        (r', OutAction v (if v = VFail then None else Some (snapshot r' (Some (pi_playerId i)) (pi_now i)))))"

definition reply_accepted :: "liars_outcome \<Rightarrow> bool" where
  "reply_accepted x = (case x of OutAction v _ \<Rightarrow> accepted v | _ \<Rightarrow> True)"

definition authorizeLiarsSocket :: "int \<Rightarrow> js_string \<Rightarrow> js_string \<Rightarrow> js_string option \<Rightarrow> memory_store \<Rightarrow> bool \<times> memory_store" where
  "authorizeLiarsSocket now i credential playerId st =
     (case loadRoom now i st of
        (None, st1) \<Rightarrow> (False, st1)
      | (Some r, st1) \<Rightarrow> (authenticate credential playerId r, st1))"

definition closeLiarsRoom :: "int \<Rightarrow> js_string \<Rightarrow> js_string \<Rightarrow> memory_store \<Rightarrow> memory_store \<times> bool" where
  "closeLiarsRoom now i hostToken st =
     (case loadRoom now i st of
        (None, st1) \<Rightarrow> (st1, True)
      | (Some r, st1) \<Rightarrow>
          (if \<not> multiplayerCredentialsMatch r hostToken (hostHash r) then (st1, False)
           else (deleteRoom r st1, True)))"

section \<open>The durable store\<close>

type_synonym liars_db = "(liars_room, liars_outcome) pg_db"

definition liars_key :: "js_string \<Rightarrow> room_key" where
  "liars_key i = (''liars'', i)"

definition ending_results ::
  "(official_payload \<Rightarrow> js_string) \<Rightarrow> liars_room \<Rightarrow> liars_room \<Rightarrow> official_envelope list" where
  "ending_results json before after =
     (if phase before \<noteq> Ending \<and> phase after = Ending
      then (case liarsOfficialResult json after of None \<Rightarrow> [] | Some e \<Rightarrow> [e]) else [])"

definition with_durable_room ::
  "(official_payload \<Rightarrow> js_string) \<Rightarrow> int \<Rightarrow> js_string \<Rightarrow> pg_action option \<Rightarrow>
   (liars_room \<Rightarrow> liars_room \<times> liars_outcome) \<Rightarrow> liars_db \<Rightarrow> liars_db \<times> (pg_error + liars_outcome option)" where
  "with_durable_room json now i action use db =
     (case withPostgresGameRoom now (liars_key i) action (\<lambda>r. use (r\<lparr>wall_clock := now\<rparr>)) same_state
             (\<lambda>r. applyRoomExpiry (wall_clock r) r) expiresAt (ending_results json) reply_accepted db of
        (db', Inl RoomActionConflict) \<Rightarrow> (db', Inr None)
      | res \<Rightarrow> res)"

definition join_reply :: "join_input \<Rightarrow> liars_room \<Rightarrow> liars_room \<times> liars_outcome" where
  "join_reply i r = (case join_postgres i r of (r', x) \<Rightarrow> (r', OutJoin x))"

definition close_durable_room :: "int \<Rightarrow> js_string \<Rightarrow> js_string \<Rightarrow> liars_db \<Rightarrow> liars_db \<times> bool" where
  "close_durable_room now i hostToken db =
     deletePostgresRoom now (liars_key i) (\<lambda>r. multiplayerCredentialsMatch r hostToken (hostHash r)) db"

end
