(* ===== verification/LiarsInvariant.thy ===== *)
theory LiarsInvariant
  imports LiarsClockFacts LiarsRoom
begin

text \<open>
  The invariant of a room and its preservation by everything that can happen to a room: the
  advance, every host and player action, reads and joins. \<^verbatim>\<open>reachable\<close> is the step relation of one
  room's life; the invariant holds of every reachable room.
\<close>

section \<open>The parts the phase machine keeps\<close>

text \<open>The winner and the memory of narrations, which \<^verbatim>\<open>evolves\<close> does not fix.\<close>

definition outcome_frame :: "liars_room \<Rightarrow> liars_side option \<times> js_string list" where
  "outcome_frame r = (winner r, recentNarrationIds r)"

lemma outcome_frame_blocks [simp]:
  "outcome_frame (changed r) = outcome_frame r" "outcome_frame (upd_player i f r) = outcome_frame r"
  "outcome_frame (kill i c r) = outcome_frame r" "outcome_frame (enterPhase ph now r) = outcome_frame r"
  "outcome_frame (add_note hp t r) = outcome_frame r" "outcome_frame (count_ejection x r) = outcome_frame r"
  "outcome_frame (writeNightReports r) = outcome_frame r" "outcome_frame (r\<lparr>dawn := d\<rparr>) = outcome_frame r"
  "outcome_frame (clearRoundState r) = outcome_frame r" "outcome_frame (clue_moved now r) = outcome_frame r"
  "outcome_frame (shift_clocks dt r) = outcome_frame r"
  by (simp_all add: outcome_frame_def upd_player_def count_ejection_def kill_def add_note_def)

lemma outcome_frame_credential: "createMultiplayerCredential r = (t, r') \<Longrightarrow> outcome_frame r' = outcome_frame r"
  by (auto simp: createMultiplayerCredential_def outcome_frame_def)

lemma outcome_frame_fold:
  assumes "\<And>x r w. outcome_frame (fst (f x (r, w))) = outcome_frame r"
  shows "outcome_frame (fst (fold f xs (r, w))) = outcome_frame r"
proof (induction xs arbitrary: r w)
  case (Cons x xs)
  obtain r1 w1 where s: "f x (r, w) = (r1, w1)" by (cases "f x (r, w)")
  then show ?case using Cons.IH [of r1 w1] assms [of x r w] by simp
qed simp

lemma outcome_frame_escort_witness: "outcome_frame (escort_witness np a t r) = outcome_frame r"
proof -
  have "outcome_frame (escort_sees a t e r) = outcome_frame r" for e
  proof -
    let ?r0 = "upd_player (pid e) (remember (roundNo r) (Some (pname t)) (''it was '' @ pname (at_attacker a))) r"
    obtain k r1 where c: "createMultiplayerCredential ?r0 = (k, r1)" by fastforce
    then show ?thesis using outcome_frame_credential [OF c] by (simp add: escort_sees_def Let_def)
  qed
  then show ?thesis by (simp add: escort_witness_def split: option.split)
qed

lemma outcome_frame_escort_dies: "outcome_frame (fst (escort_dies a e (r, ds, ts))) = outcome_frame r"
  by (simp add: escort_dies_def Let_def)

lemma outcome_frame_mark_guilt [simp]: "outcome_frame (mark_guilt np a t r) = outcome_frame r"
  by (simp add: mark_guilt_def split: option.split)

lemma outcome_frame_land_attack: "outcome_frame (fst (land_attack np a t (r, ds, ts))) = outcome_frame r"
proof -
  let ?r1 = "kill (pid t) Killed r"
  let ?ds = "ds @ [death_of t False None Killed (if revealRoleOnDeath (toggles r) then role t else None)]"
  obtain r2 ds2 ts2 where e: "escort_dies a (the (np_escort np)) (?r1, ?ds, ts) = (r2, ds2, ts2)"
    by (metis prod_cases3)
  have "outcome_frame r2 = outcome_frame r"
    using outcome_frame_escort_dies [of a "the (np_escort np)" ?r1 ?ds ts] e by simp
  with e show ?thesis by (simp add: land_attack_def Let_def)
qed

lemma outcome_frame_resolve_attack: "outcome_frame (fst (resolve_attack np a (r, w))) = outcome_frame r"
proof -
  obtain ds ts where w: "w = (ds, ts)" by fastforce
  have "outcome_frame (fst (land_attack np a t (escort_witness np a t r, ds, ts))) = outcome_frame r" for t
    by (simp only: outcome_frame_land_attack outcome_frame_escort_witness)
  then show ?thesis
    using outcome_frame_escort_witness [of np a]
    by (simp add: resolve_attack_def w Let_def split: option.split)
qed

lemma outcome_frame_night_begun: "outcome_frame (night_begun r) = outcome_frame r"
  by (simp add: night_begun_def Let_def split: option.split)

lemma outcome_frame_spend_shot: "outcome_frame (spend_shot r) = outcome_frame r"
  by (simp add: spend_shot_def split: option.split)

lemma outcome_frame_night_outcome: "outcome_frame (fst (night_outcome r)) = outcome_frame r"
proof -
  let ?r = "night_begun r" and ?np = "night_plan_of (night_begun r)"
  let ?f = "fold (resolve_attack ?np) (mafia_attack ?r @ vigilante_attack ?r) (spend_shot ?r, [], [])"
  have "outcome_frame (fst ?f) = outcome_frame (spend_shot ?r)"
    by (rule outcome_frame_fold) (rule outcome_frame_resolve_attack)
  also have "\<dots> = outcome_frame r" by (simp only: outcome_frame_spend_shot outcome_frame_night_begun)
  finally have "outcome_frame (fst ?f) = outcome_frame r" .
  moreover have "outcome_frame (fst (land_guilt ?np ?f)) = outcome_frame (fst ?f)"
    by (simp add: land_guilt_def split_beta split: option.split)
  ultimately show ?thesis by (simp add: night_outcome_def Let_def)
qed

text \<open>What a step may leave: an open game with a bounded memory, or a decided one.\<close>

definition outcome_ok :: "liars_room \<Rightarrow> bool" where
  "outcome_ok r \<longleftrightarrow> (winner r \<noteq> None \<longleftrightarrow> phase r = Ending) \<and> length (recentNarrationIds r) \<le> 14"

definition open_ok :: "liars_room \<Rightarrow> bool" where
  "open_ok r \<longleftrightarrow> winner r = None \<and> length (recentNarrationIds r) \<le> 14"

lemma open_ok_frame: "outcome_frame r' = outcome_frame r \<Longrightarrow> open_ok r' = open_ok r"
  by (simp add: open_ok_def outcome_frame_def)

lemma outcome_ok_frame: "outcome_frame r' = outcome_frame r \<Longrightarrow> phase r' = phase r \<Longrightarrow> outcome_ok r' = outcome_ok r"
  by (simp add: outcome_ok_def outcome_frame_def)

lemma outcome_ok_open: "outcome_ok r \<Longrightarrow> phase r \<noteq> Ending \<Longrightarrow> open_ok r"
  by (auto simp: outcome_ok_def open_ok_def)

lemma open_ok_outcome: "open_ok r \<Longrightarrow> phase r \<noteq> Ending \<Longrightarrow> outcome_ok r"
  by (auto simp: outcome_ok_def open_ok_def)

lemma outcome_ok_enterPhase: "open_ok r \<Longrightarrow> ph \<noteq> Ending \<Longrightarrow> outcome_ok (enterPhase ph now r)"
  by (rule open_ok_outcome) (simp_all add: open_ok_frame [of "enterPhase ph now r" r])

lemma outcome_ok_finish: "length (recentNarrationIds r) \<le> 14 \<Longrightarrow> outcome_ok (finish w now r)"
  by (simp add: outcome_ok_def)

lemma outcome_ok_checkWinner: "outcome_ok r \<Longrightarrow> outcome_ok (fst (checkWinner now j r))"
  using checkWinner_cases [of now j r] by (auto simp: outcome_ok_def)

lemma open_ok_narrate: "open_ok r \<Longrightarrow> open_ok (snd (narrate outcome slots r))"
  by (simp add: narrate_def open_ok_def split_beta Let_def)
    (use liarsNarration_world [of outcome slots "recentNarrationIds r" r] in auto)

lemma narrate_bounded: "length (recentNarrationIds (snd (narrate outcome slots r))) \<le> 14"
  by (simp add: narrate_def split_beta Let_def)

lemma open_ok_blocks [simp]:
  "open_ok (changed r) = open_ok r" "open_ok (upd_player i f r) = open_ok r" "open_ok (kill i c r) = open_ok r"
  "open_ok (add_note hp t r) = open_ok r" "open_ok (count_ejection x r) = open_ok r"
  "open_ok (writeNightReports r) = open_ok r" "open_ok (r\<lparr>dawn := d\<rparr>) = open_ok r"
  "open_ok (clearRoundState r) = open_ok r" "open_ok (clue_moved now r) = open_ok r"
  "open_ok (enterPhase ph now r) = open_ok r" "open_ok (shift_clocks dt r) = open_ok r"
  by (rule open_ok_frame; simp)+

lemma outcome_ok_resolveNight: "open_ok r \<Longrightarrow> outcome_ok (resolveNight now r)"
proof -
  assume "open_ok r"
  obtain r1 ds ts where o: "night_outcome r = (r1, ds, ts)" by (metis prod_cases3)
  obtain t r2 where n: "night_narration ds r1 = (t, r2)" by (cases "night_narration ds r1")
  have "open_ok r1"
    using open_ok_frame [OF outcome_frame_night_outcome, of r] \<open>open_ok r\<close> o by simp
  then have "open_ok (snd (night_narration ds r1))"
    by (simp add: night_narration_def Let_def open_ok_narrate split: option.split)
  then have r2: "open_ok r2" using n by simp
  have fold_open: "open_ok (fold (\<lambda>name r. add_note NightEntry (f name) r) names s) = open_ok s" for f names s
    by (induction names arbitrary: s) simp_all
  have "open_ok (fold (\<lambda>name r. add_note NightEntry (name @ '' was seen moving.'') r)
      (corroboratedMovement r1) (add_note NightEntry t (r2\<lparr>dawn := Some d\<rparr>)))" for d
    unfolding fold_open using r2 by simp
  then show ?thesis
    unfolding resolveNight_def Let_def o n prod.case
    by (intro outcome_ok_checkWinner outcome_ok_enterPhase) simp_all
qed

lemma outcome_ok_startClueRound: "open_ok r \<Longrightarrow> outcome_ok (startClueRound now r)"
proof -
  assume o: "open_ok r"
  obtain k where "snd (shuffle pick (map pid (living r)) r) = r\<lparr>pick_cursor := k\<rparr>"
    using shuffle_world by blast
  with o show ?thesis
    by (simp add: startClueRound_def split_beta outcome_ok_enterPhase open_ok_def)
qed

lemma outcome_ok_startRound: "open_ok r \<Longrightarrow> outcome_ok (startRound now r)"
  by (simp add: startRound_def Let_def)
    (intro conjI impI outcome_ok_startClueRound outcome_ok_enterPhase; simp add: open_ok_def)

lemma outcome_ok_advanceClue: "open_ok r \<Longrightarrow> phase r = Clue \<Longrightarrow> outcome_ok (advanceClue now r)"
  unfolding advanceClue_def Let_def
  by (auto simp: open_ok_def intro!: outcome_ok_startClueRound outcome_ok_enterPhase open_ok_outcome)

lemma outcome_ok_resolveVote: "open_ok r \<Longrightarrow> outcome_ok (resolveVote now r)"
proof -
  assume o: "open_ok r"
  have o1: "open_ok (r\<lparr>lastEjectedName := n, ejectedJesterId := None\<rparr>)" for n
    using o by (simp add: open_ok_def)
  have e: "outcome_ok (eject p now s)" if "open_ok s" for p s
  proof -
    have "open_ok (s'\<lparr>ejectedJesterId := j\<rparr>) = open_ok s'" for s' j by (simp add: open_ok_def)
    with that have "open_ok (count_ejection x (if b then (kill i Ejected s)\<lparr>ejectedJesterId := j\<rparr> else kill i Ejected s))"
      for x b i j by simp
    then show ?thesis
      unfolding eject_def Let_def split_beta
      by (intro outcome_ok_enterPhase) (simp_all add: open_ok_narrate)
  qed
  have m: "outcome_ok (no_majority now s)" if "open_ok s" for s
    using that by (simp add: no_majority_def split_beta outcome_ok_enterPhase open_ok_narrate)
  have s: "outcome_ok (start_runoff tied now s)" if "open_ok s" for tied s
    unfolding start_runoff_def Let_def
    by (rule outcome_ok_enterPhase) (use that in \<open>simp_all, simp add: open_ok_def\<close>)
  show ?thesis
    unfolding resolveVote_def Let_def using e [OF o1] m [OF o1] s [OF o1] by (simp split: option.split)
qed

lemma outcome_ok_afterVerdict:
  assumes "open_ok r" and "phase r \<noteq> Ending" shows "outcome_ok (afterVerdict now r)"
proof -
  have "outcome_ok (fst (checkWinner now (ejectedJesterId r) r))"
    using assms by (intro outcome_ok_checkWinner open_ok_outcome)
  moreover have "open_ok (r\<lparr>finalGuessCorrect := None\<rparr>)" using assms(1) by (simp add: open_ok_def)
  ultimately show ?thesis
    using checkWinner_cases [of now "ejectedJesterId r" r] assms
    by (auto simp: afterVerdict_def outcome_ok_startRound outcome_ok_enterPhase)
qed

lemma outcome_ok_resolveFinalGuess:
  assumes "length (recentNarrationIds r) \<le> 14" shows "outcome_ok (resolveFinalGuess now g r)"
proof -
  have n: "recentNarrationIds (resolveFinalGuess now g r) = recentNarrationIds r"
  proof -
    have "recentNarrationIds (fst (checkWinner now j s)) = recentNarrationIds s" for j s
      using checkWinner_cases [of now j s] by auto
    then show ?thesis by (simp add: resolveFinalGuess_def Let_def split_beta add_note_def)
  qed
  then show ?thesis
    using assms resolveFinalGuess_winner resolveFinalGuess_phase by (simp add: outcome_ok_def)
qed

lemma outcome_ok_phase_step:
  assumes "outcome_ok r" and "phase_step r = Some r'" shows "outcome_ok r'"
proof -
  have ne: "phase r \<noteq> Ending" using assms(2) by (auto simp: phase_step_def)
  then have o: "open_ok r" using assms(1) outcome_ok_open by blast
  have "outcome_ok (startRound t r)" "outcome_ok (resolveNight t r)" "outcome_ok (enterPhase Deliberation t r)"
    "outcome_ok (enterPhase Vote t r)" "outcome_ok (resolveVote t r)" "outcome_ok (afterVerdict t r)"
    "outcome_ok (resolveFinalGuess t None r)" for t
    using o ne by (auto simp: open_ok_def intro!: outcome_ok_startRound outcome_ok_resolveNight
        outcome_ok_enterPhase outcome_ok_resolveVote outcome_ok_afterVerdict outcome_ok_resolveFinalGuess)
  moreover have "phase r = Clue \<Longrightarrow> outcome_ok (advanceClue t r)" for t
    using o by (rule outcome_ok_advanceClue)
  ultimately show ?thesis
    using assms(2) unfolding phase_step_def Let_def by (cases "phase r") auto
qed

interpretation decided: machine_invariant outcome_ok
proof
  show "outcome_ok r \<Longrightarrow> winner r = None \<Longrightarrow> phase_step r = Some r' \<Longrightarrow> outcome_ok r'" for r r'
    by (rule outcome_ok_phase_step)
  show "outcome_ok r \<Longrightarrow> outcome_ok (writeNightReports r)" for r
    using outcome_ok_frame [of "writeNightReports r" r] by simp
  show "outcome_ok r \<Longrightarrow> outcome_ok (shift_clocks d r)" for r d
    using outcome_ok_frame [of "shift_clocks d r" r] by simp
qed

end
