(* ===== verification/LiarsRoomOk.thy ===== *)
theory LiarsRoomOk
  imports LiarsInvariant
begin

text \<open>
  The invariant of a room over its whole life, the relation of reachable rooms, and what holds of
  every one of them.
\<close>

section \<open>The invariant\<close>

definition present :: "player_state list \<Rightarrow> js_string \<Rightarrow> bool" where
  "present ps i \<longleftrightarrow> (\<exists>p\<in>set ps. pid p = i \<and> leftAt p = None)"

definition seats_ok :: "player_state list \<Rightarrow> bool" where
  "seats_ok ps \<longleftrightarrow> distinct (map pid ps) \<and> distinct (map (\<lambda>p. to_lower (pname p)) ps) \<and> length ps \<le> 16 \<and>
     (\<forall>p\<in>set ps. alive p \<longrightarrow> leftAt p = None) \<and> (\<forall>p\<in>set ps. leftAt p \<noteq> Some 0)"

definition host_ok :: "liars_room \<Rightarrow> bool" where
  "host_ok r \<longleftrightarrow> (\<forall>i. hostPlayerId r = Some i \<longrightarrow> present (players r) i)"

definition lobby_ok :: "liars_room \<Rightarrow> bool" where
  "lobby_ok r \<longleftrightarrow> (phase r = Lobby \<longrightarrow> (\<forall>p\<in>set (players r). leftAt p = None))"

definition memory_ok :: "liars_room \<Rightarrow> bool" where
  "memory_ok r \<longleftrightarrow> length (graveyardBoard r) \<le> 8 \<and> length (processedActions r) \<le> 300 \<and>
     length (recentWords r) \<le> 40"

definition room_ok :: "liars_room \<Rightarrow> bool" where
  "room_ok r \<longleftrightarrow> seats_ok (players r) \<and> host_ok r \<and> lobby_ok r \<and> outcome_ok r \<and> memory_ok r"

section \<open>Transitions that keep the seats\<close>

definition same_seat :: "player_state \<Rightarrow> player_state \<Rightarrow> bool" where
  "same_seat p q \<longleftrightarrow> pid q = pid p \<and> pname q = pname p \<and> leftAt q = leftAt p \<and> (alive q \<longrightarrow> alive p)"

definition same_seats :: "player_state list \<Rightarrow> player_state list \<Rightarrow> bool" where
  "same_seats ps qs \<longleftrightarrow> list_all2 same_seat ps qs"

lemma same_seat_refl [simp]: "same_seat p p"
  by (simp add: same_seat_def)

lemma same_seats_refl [simp]: "same_seats ps ps"
  by (simp add: same_seats_def list.rel_refl)

lemma same_seats_trans: "same_seats ps qs \<Longrightarrow> same_seats qs us \<Longrightarrow> same_seats ps us"
  unfolding same_seats_def list_all2_conv_all_nth same_seat_def by metis

lemma evolves_same_seats: "evolves r r' \<Longrightarrow> same_seats (players r) (players r')"
  unfolding evolves_def same_seats_def
  by (auto elim!: list_all2_mono simp: evolved_def identity_def same_seat_def)

lemma same_seats_upd: "(\<And>p. same_seat p (f p)) \<Longrightarrow> same_seats ps (upd_first P f ps)"
  unfolding same_seats_def by (intro list_all2_upd_first) simp_all

lemma same_seats_map: "(\<And>p. same_seat p (f p)) \<Longrightarrow> same_seats ps (map f ps)"
  unfolding same_seats_def by (rule list_all2_map_same)

lemma same_seats_maps:
  assumes "same_seats ps qs"
  shows "map pid qs = map pid ps" "map pname qs = map pname ps" "map leftAt qs = map leftAt ps"
  using assms unfolding same_seats_def
  by (induction rule: list_all2_induct; simp add: same_seat_def)+

lemma same_seats_back:
  assumes "same_seats ps qs" and "q \<in> set qs"
  shows "\<exists>p\<in>set ps. same_seat p q"
  using assms unfolding same_seats_def by (induction rule: list_all2_induct) auto

lemma same_seats_forth:
  assumes "same_seats ps qs" and "p \<in> set ps"
  shows "\<exists>q\<in>set qs. same_seat p q"
  using assms unfolding same_seats_def by (induction rule: list_all2_induct) auto

lemma same_seats_present: "same_seats ps qs \<Longrightarrow> present ps i \<Longrightarrow> present qs i"
  unfolding present_def using same_seats_forth same_seat_def by metis

lemma same_seats_ok: "same_seats ps qs \<Longrightarrow> seats_ok ps \<Longrightarrow> seats_ok qs"
proof -
  assume s: "same_seats ps qs" and ok: "seats_ok ps"
  have n: "map (\<lambda>p. to_lower (pname p)) qs = map to_lower (map pname qs)" for qs :: "player_state list" by simp
  have l: "length qs = length ps" using same_seats_maps(1) [OF s] map_eq_imp_length_eq by blast
  show ?thesis
    using ok same_seats_maps [OF s] same_seats_back [OF s] unfolding seats_ok_def n l same_seat_def
    by metis
qed

text \<open>The general step: the seats are kept, the outcome is known to be consistent.\<close>

lemma room_ok_step:
  assumes "room_ok r" and "same_seats (players r) (players r')" and "outcome_ok r'"
    and "hostPlayerId r' = hostPlayerId r" and "phase r' = Lobby \<Longrightarrow> phase r = Lobby" and "memory_ok r'"
  shows "room_ok r'"
proof -
  have "host_ok r'"
    using assms(1,2,4) same_seats_present by (auto simp: room_ok_def host_ok_def)
  moreover have "lobby_ok r'"
    using assms(1,2,5) same_seats_back [OF assms(2)] unfolding room_ok_def lobby_ok_def same_seat_def by metis
  ultimately show ?thesis
    using assms same_seats_ok by (auto simp: room_ok_def)
qed

lemma room_ok_evolves:
  assumes "room_ok r" and "evolves r r'" and "outcome_ok r'" and "phase r' = Lobby \<Longrightarrow> phase r = Lobby"
  shows "room_ok r'"
  using assms evolves_setup [OF assms(2)] evolves_same_seats [OF assms(2)]
  by (intro room_ok_step [of r r']) (auto simp: memory_ok_def room_ok_def)

text \<open>A step that touches neither the seats nor the outcome nor the memories.\<close>

definition surface where
  "surface r = (outcome_frame r, phase r, hostPlayerId r, graveyardBoard r, processedActions r, recentWords r)"
  for r :: liars_room

lemma room_ok_surface:
  assumes "room_ok r" and "surface r' = surface r" and "same_seats (players r) (players r')"
  shows "room_ok r'"
  using assms outcome_ok_frame [of r' r]
  by (intro room_ok_step [of r r']) (auto simp: surface_def memory_ok_def room_ok_def)

lemma surface_blocks [simp]:
  "surface (changed r) = surface r" "surface (upd_player i f r) = surface r" "surface (kill i c r) = surface r"
  "surface (r\<lparr>players := ps\<rparr>) = surface r" "surface (snd (touch who now force r)) = surface r"
  by (simp_all add: surface_def outcome_frame_def upd_player_def kill_def changed_def applyRoomExpiry_def)

lemma room_ok_distinct: "room_ok r \<Longrightarrow> distinct_ids r"
  by (simp add: room_ok_def seats_ok_def distinct_ids_def)

section \<open>The touch and the advance\<close>

lemma touch_same_seats: "same_seats (players r) (players (snd (touch who now f r)))"
proof -
  have "same_seats (players r) (players (upd_player i (\<lambda>q. q\<lparr>lastSeenAt := x q\<rparr>) r))" for i x
    unfolding upd_player_def by (simp add: same_seats_upd same_seat_def)
  then show ?thesis by (simp add: touch_def Let_def split: option.split)
qed

lemma room_ok_touch: "room_ok r \<Longrightarrow> room_ok (snd (touch who now f r))"
  by (rule room_ok_surface [OF _ _ touch_same_seats]) simp_all

lemma phase_edge_not_lobby: "(phase_edge m)\<^sup>*\<^sup>* p q \<Longrightarrow> q = Lobby \<Longrightarrow> p = Lobby"
proof (induction rule: rtranclp_induct)
  case (step y z)
  have "\<not> phase_edge m y Lobby" by (cases y) (auto simp: opening_phase_def)
  with step show ?case by auto
qed

lemma advance_lobby: "phase (advance now idleFor r) = Lobby \<Longrightarrow> phase r = Lobby"
proof -
  assume l: "phase (advance now idleFor r) = Lobby"
  have "(phase_edge (mode r))\<^sup>*\<^sup>* (phase r) (phase (advance now idleFor r))"
    using legal_path.advance [of r "mode r" "phase r" now idleFor] by simp
  then show ?thesis using l by (rule phase_edge_not_lobby)
qed

lemma room_ok_advance: "room_ok r \<Longrightarrow> room_ok (advance now idleFor r)"
proof -
  assume ok: "room_ok r"
  show ?thesis
  proof (rule room_ok_evolves [OF ok evolves_advance])
    show "outcome_ok (advance now idleFor r)" using decided.advance ok by (simp add: room_ok_def)
  qed (rule advance_lobby)
qed

lemma room_ok_caught_up: "room_ok r \<Longrightarrow> room_ok (caught_up who now r)"
proof -
  assume "room_ok r"
  then have "room_ok (snd (touch who now True r))" by (rule room_ok_touch)
  then show ?thesis by (simp add: caught_up_def split_beta room_ok_advance)
qed

section \<open>The host's actions\<close>

lemma room_ok_fields:
  assumes "room_ok r" and "players r' = players r" and "surface r' = surface r"
  shows "room_ok r'"
  using assms by (intro room_ok_surface [of r r']) simp_all

lemma room_ok_changed [simp]: "room_ok r \<Longrightarrow> room_ok (changed r)"
  by (rule room_ok_fields) simp_all

lemma room_ok_admission: "room_ok r \<Longrightarrow> room_ok (fst (host_admission b r))"
  by (rule room_ok_fields, assumption)
    (auto simp: host_admission_def surface_def outcome_frame_def changed_def applyRoomExpiry_def)

lemma configure_parts_keep [simp]:
  "players (configure_roomMode m r) = players r" "surface (configure_roomMode m r) = surface r"
  "players (configure_toggles tp r) = players r" "surface (configure_toggles tp r) = surface r"
  "players (configure_timings ti r) = players r" "surface (configure_timings ti r) = surface r"
  "players (reset_lineup r) = players r" "surface (reset_lineup r) = surface r"
  by (simp_all add: configure_roomMode_def configure_toggles_def configure_timings_def reset_lineup_def
      surface_def outcome_frame_def Let_def split: option.split)

lemma host_configure_keeps:
  "players (fst (host_configure c r)) = players r" "surface (fst (host_configure c r)) = surface r"
proof -
  have "surface (r\<lparr>lineup := l, lineupCustom := b\<rparr>) = surface r" for l b and r :: liars_room
    by (simp add: surface_def outcome_frame_def)
  then show "players (fst (host_configure c r)) = players r" "surface (fst (host_configure c r)) = surface r"
    by (simp_all add: host_configure_def Let_def split: option.split sum.split)
qed

lemma room_ok_configure: "room_ok r \<Longrightarrow> room_ok (fst (host_configure c r))"
  by (rule room_ok_fields) (simp_all add: host_configure_keeps)

lemma nudge_same_seat: "same_seat p (if b then fst (nudge_player q t p) else p)"
proof -
  have "pname (fst (nudge_player q t p)) = pname p" "leftAt (fst (nudge_player q t p)) = leftAt p"
    "alive (fst (nudge_player q t p)) = alive p"
    by (simp_all add: nudge_player_def split: option.split)
  then show ?thesis by (simp add: same_seat_def)
qed

lemma room_ok_refused: "room_ok r \<Longrightarrow> room_ok (fst (start_refused newId confirmed r))"
proof (rule room_ok_surface)
  have "same_seats (players r) (map (\<lambda>p. if P p then fst (nudge_player q t p) else p) (players r))" for P q t
    by (rule same_seats_map) (rule nudge_same_seat)
  then show "same_seats (players r) (players (fst (start_refused newId confirmed r)))"
    by (simp add: start_refused_def requestMultiplayerReadiness_def Let_def)
qed (simp_all add: start_refused_def requestMultiplayerReadiness_def Let_def)

text \<open>A deal to players who are all here.\<close>

lemma room_ok_deal:
  assumes "seats_ok (players r)" and "\<forall>p\<in>set (players r). leftAt p = None" and "host_ok r"
    and "length (recentNarrationIds r) \<le> 14" and "length (processedActions r) \<le> 300" and "length (recentWords r) \<le> 40"
  shows "room_ok (dealGame now r)"
proof -
  obtain s where p: "players (dealGame now r) = map (deal_player s (dealt_roles r)) (players r)"
    using dealGame_players by blast
  have "seats_ok (players (dealGame now r))"
    using assms(1,2) by (simp add: p seats_ok_def o_def)
  moreover have "host_ok (dealGame now r)"
    using assms(3) by (fastforce simp: host_ok_def present_def p)
  ultimately show ?thesis
    using assms dealGame_recentWords [of now r]
    by (simp add: room_ok_def lobby_ok_def outcome_ok_def memory_ok_def)
qed

lemma seats_ok_filter: "seats_ok ps \<Longrightarrow> seats_ok (filter P ps)"
proof -
  assume a: "seats_ok ps"
  have "length (filter P ps) \<le> 16" using a order.trans [OF length_filter_le] by (auto simp: seats_ok_def)
  with a show ?thesis by (auto simp: seats_ok_def distinct_map_filter)
qed

lemma room_ok_start: "room_ok r \<Longrightarrow> room_ok (fst (host_start newId now ids r))"
proof (cases "snd (host_start newId now ids r) = VAccept")
  case False
  assume "room_ok r"
  moreover have "fst (host_start newId now ids r) = r \<or>
      (\<exists>c. fst (host_start newId now ids r) = fst (start_refused newId c r))"
    using False by (auto simp: host_start_def Let_def split: sum.split)
  ultimately show ?thesis using room_ok_refused by auto
next
  case True
  assume ok: "room_ok r"
  obtain r' where r': "host_start newId now ids r = (r', VAccept)" using True by (metis prod.collapse)
  have "player_count r \<le> LIARS_MAX_PLAYERS (mode r)"
    using ok by (simp add: room_ok_def seats_ok_def player_count_def LIARS_MAX_PLAYERS_def)
  then obtain r1 where d: "r' = dealGame now r1"
    and ps: "players r1 = filter multiplayerPlayerReady (players r)" and l: "phase r = Lobby"
    and h: "hostPlayerId r1 = hostPlayerId r"
    and same: "recentWords r1 = recentWords r" "processedActions r1 = processedActions r"
      "recentNarrationIds r1 = recentNarrationIds r"
    and hr: "\<forall>p\<in>set (players r). Some (pid p) = hostPlayerId r \<longrightarrow> multiplayerPlayerReady p"
    using host_start_accepted [OF r'] by blast
  have "host_ok r1"
    using ok h hr by (fastforce simp: room_ok_def host_ok_def present_def ps)
  then have "room_ok r'"
    unfolding d using ok l same
    by (intro room_ok_deal) (auto simp: ps room_ok_def lobby_ok_def outcome_ok_def memory_ok_def seats_ok_filter)
  then show ?thesis by (simp add: r')
qed

lemma room_ok_pass: "room_ok r \<Longrightarrow> room_ok (fst (host_pass i r))"
proof (cases "find (\<lambda>p. pid p = i \<and> has_not_left p) (players r)")
  case None
  assume "room_ok r"
  with None show ?thesis by (simp add: host_pass_def)
next
  case (Some t)
  assume ok: "room_ok r"
  have t: "t \<in> set (players r)" "has_not_left t" using find_SomeD [OF Some] by auto
  have "leftAt t \<noteq> Some 0" using ok t(1) by (simp add: room_ok_def seats_ok_def)
  then have "leftAt t = None" using t(2) by (auto simp: has_not_left_def split: option.splits)
  then have "present (players r) (pid t)" using t(1) by (auto simp: present_def)
  then have "room_ok (r\<lparr>hostPlayerId := Some (pid t)\<rparr>)"
    using ok by (simp add: room_ok_def host_ok_def lobby_ok_def outcome_ok_def memory_ok_def)
  with Some show ?thesis by (simp add: host_pass_def)
qed

section \<open>Departures\<close>

text \<open>What holds while a departing player may still hold the host's seat.\<close>

definition leaving_ok :: "js_string \<Rightarrow> liars_room \<Rightarrow> bool" where
  "leaving_ok i r \<longleftrightarrow> seats_ok (players r) \<and> lobby_ok r \<and> outcome_ok r \<and> memory_ok r \<and>
     (\<forall>j. hostPlayerId r = Some j \<longrightarrow> j \<noteq> i \<longrightarrow> present (players r) j)"

lemma pick_successor_present:
  "pick_successor r i now = Some p \<Longrightarrow> present (players r) (pid p)"
proof -
  assume a: "pick_successor r i now = Some p"
  have "p \<in> set (eligible_successors r i)"
    using a by (auto simp: pick_successor_def Let_def split: option.splits list.splits dest: find_SomeD)
  then show ?thesis by (auto simp: eligible_successors_def present_def)
qed

lemma hand_over_keeps [simp]:
  "players (hand_over i now r) = players r" "memory_ok (hand_over i now r) = memory_ok r"
  "outcome_ok (hand_over i now r) = outcome_ok r"
  by (simp_all add: hand_over_def transferHost_def transferNarrator_def memory_ok_def outcome_ok_def
      changed_def applyRoomExpiry_def Let_def)

lemma hand_over_host:
  "hostPlayerId (hand_over i now r) =
     (if hostPlayerId r = Some i then map_option pid (pick_successor r i now) else hostPlayerId r)"
  by (simp add: hand_over_def transferHost_def transferNarrator_def Let_def)

lemma leaving_hand_over: "leaving_ok i r \<Longrightarrow> room_ok (hand_over i now r)"
  by (auto simp: leaving_ok_def room_ok_def host_ok_def lobby_ok_def hand_over_host pick_successor_present)

lemma leaving_from_ok: "room_ok r \<Longrightarrow> leaving_ok i r"
  by (auto simp: leaving_ok_def room_ok_def host_ok_def)

lemma leaving_remove: "room_ok r \<Longrightarrow> leaving_ok i (remove_from_lobby i r)"
  by (auto simp: leaving_ok_def room_ok_def host_ok_def lobby_ok_def outcome_ok_def memory_ok_def
      remove_from_lobby_def present_def seats_ok_filter Let_def)

lemma leaving_evolves:
  assumes "leaving_ok i r" and "evolves r r'" and "outcome_ok r'" and "phase r' = Lobby \<Longrightarrow> phase r = Lobby"
  shows "leaving_ok i r'"
proof -
  note s = evolves_same_seats [OF assms(2)]
  have "lobby_ok r'"
    using assms(1,4) same_seats_back [OF s] unfolding leaving_ok_def lobby_ok_def same_seat_def by metis
  moreover have "hostPlayerId r' = hostPlayerId r" "memory_ok r' = memory_ok r"
    using evolves_setup [OF assms(2)] by (simp_all add: memory_ok_def)
  ultimately show ?thesis
    using assms(1,3) same_seats_ok [OF s] same_seats_present [OF s] by (simp add: leaving_ok_def)
qed

lemma leaving_depart:
  assumes "leaving_ok i r" and "i \<notin> set (alive_ids r)" and "phase r \<noteq> Lobby" and "0 < now"
  shows "leaving_ok i (upd_player i (depart now h) r)"
proof -
  let ?ps = "upd_first (\<lambda>p. pid p = i) (depart now h) (players r)"
  have maps: "map pid ?ps = map pid (players r)"
    "map (\<lambda>p. to_lower (pname p)) ?ps = map (\<lambda>p. to_lower (pname p)) (players r)"
    by (rule map_upd_first; simp add: depart_def)+
  have mem: "q \<in> set (players r) \<or> (\<exists>p\<in>set (players r). pid p = i \<and> q = depart now h p)" if "q \<in> set ?ps" for q
    using set_upd_firstD [OF that] by blast
  have dead: "\<not> alive p" if "p \<in> set (players r)" "pid p = i" for p
    using assms(2) that by (auto simp: in_alive_ids_iff)
  have "seats_ok ?ps"
    using assms(1,4) mem dead unfolding seats_ok_def maps leaving_ok_def
    by (fastforce simp: depart_def)
  moreover have "present ?ps j" if here: "present (players r) j" and ne: "j \<noteq> i" for j
  proof -
    obtain p where p: "p \<in> set (players r)" "pid p = j" "leftAt p = None"
      using here unfolding present_def by blast
    have "p \<in> set (upd_first (\<lambda>p. pid p = i) f xs)" if "p \<in> set xs" for f xs
      using that p(2) ne by (induction xs) auto
    with p show ?thesis unfolding present_def by blast
  qed
  ultimately show ?thesis
    using assms(1,3) by (auto simp: leaving_ok_def lobby_ok_def outcome_ok_def memory_ok_def upd_player_def)
qed

lemma phase_upd_player [simp]: "phase (upd_player i f r) = phase r"
  by (simp add: upd_player_def)

lemma outcome_ok_players [simp]:
  "outcome_ok (upd_player i f r) = outcome_ok r" "outcome_ok (kill i c r) = outcome_ok r"
  by (simp_all add: outcome_ok_def upd_player_def kill_def)

lemma announce_departure_eq:
  "announce_departure name now r =
     fst (checkWinner now None (add_note DayEntry (fst (narrate NarrLeft (no_slots\<lparr>slot_victim := Some name\<rparr>) r))
       (snd (narrate NarrLeft (no_slots\<lparr>slot_victim := Some name\<rparr>) r))))"
  by (simp add: announce_departure_def split_beta)

lemma announce_departure_evolves: "evolves r (announce_departure name now r)"
  unfolding announce_departure_eq by (intro evolves_then evolves_narrate)

lemma announce_departure_phase: "phase (announce_departure name now r) \<in> {phase r, Ending}"
proof -
  have "phase (fst (checkWinner now j s)) \<in> {phase s, Ending}" for j s
    using checkWinner_cases [of now j s] by auto
  from this [of None "add_note DayEntry (fst (narrate NarrLeft (no_slots\<lparr>slot_victim := Some name\<rparr>) r))
       (snd (narrate NarrLeft (no_slots\<lparr>slot_victim := Some name\<rparr>) r))"]
  show ?thesis unfolding announce_departure_eq by simp
qed

lemma announce_departure_outcome: "outcome_ok r \<Longrightarrow> outcome_ok (announce_departure name now r)"
proof -
  let ?n = "narrate NarrLeft (no_slots\<lparr>slot_victim := Some name\<rparr>) r"
  let ?r2 = "add_note DayEntry (fst ?n) (snd ?n)"
  assume o: "outcome_ok r"
  have p: "phase ?r2 = phase r" "winner ?r2 = winner r" by simp_all
  have "length (recentNarrationIds ?r2) \<le> 14" using narrate_bounded by (simp add: add_note_def)
  then have "outcome_ok ?r2" using o p by (simp add: outcome_ok_def)
  then show ?thesis unfolding announce_departure_eq by (rule outcome_ok_checkWinner)
qed

lemma leaving_announce:
  assumes "leaving_ok i r" and "phase r \<noteq> Lobby"
  shows "leaving_ok i (announce_departure name now r)" and "phase (announce_departure name now r) \<noteq> Lobby"
proof -
  show ph: "phase (announce_departure name now r) \<noteq> Lobby"
    using announce_departure_phase [of name now r] assms(2) by auto
  have "outcome_ok (announce_departure name now r)"
    using assms(1) by (intro announce_departure_outcome) (simp add: leaving_ok_def)
  with assms(1) show "leaving_ok i (announce_departure name now r)"
    by (rule leaving_evolves [OF _ announce_departure_evolves]) (use ph in simp)
qed

lemma leaving_kill: "leaving_ok i r \<Longrightarrow> leaving_ok i (kill i c r)"
  by (rule leaving_evolves [OF _ evolves_kill]) (simp_all add: leaving_ok_def)

lemma leaving_distinct: "leaving_ok i r \<Longrightarrow> distinct_ids r"
  by (simp add: leaving_ok_def seats_ok_def distinct_ids_def)

lemma leaving_killed_departed:
  assumes "leaving_ok i r" and "phase r \<noteq> Lobby" and "0 < now"
  shows "leaving_ok i (upd_player i (depart now h) (kill i c r))"
  using assms leaving_distinct [OF assms(1)] by (intro leaving_depart leaving_kill) (simp_all add: alive_ids_kill)

lemma room_ok_remove:
  assumes "room_ok r" and "0 < now" shows "room_ok (fst (host_remove newId now i r))"
proof (cases "player_by_id r i")
  case None
  with assms show ?thesis by (simp add: host_remove_def)
next
  case (Some t)
  note l = leaving_from_ok [OF assms(1), of i]
  have "\<not> alive t \<Longrightarrow> i \<notin> set (alive_ids r)"
    using alive_iff_in_alive_ids [OF room_ok_distinct [OF assms(1)] Some] by simp
  then have "leaving_ok i (if phase r = Lobby then remove_from_lobby i r
      else if alive t then announce_departure (pname t) now (upd_player i (depart now h) (kill i LeftGame r))
      else upd_player i (depart now h) r)" for h
    using assms l leaving_killed_departed leaving_depart leaving_remove
    by (auto intro!: leaving_announce(1))
  with Some show ?thesis by (simp add: host_remove_def Let_def leaving_hand_over)
qed

lemma room_ok_leave:
  assumes "room_ok r" and "0 < now" and "player_by_id r (pid p) = Some p"
  shows "room_ok (fst (player_leave newId now p r))"
proof -
  let ?i = "pid p"
  note l = leaving_from_ok [OF assms(1), of ?i]
  have e: "leaving_ok ?i (s\<lparr>expiresAt := x\<rparr>) = leaving_ok ?i s" for s x
    by (simp add: leaving_ok_def lobby_ok_def outcome_ok_def memory_ok_def)
  have "\<not> alive p \<Longrightarrow> ?i \<notin> set (alive_ids r)"
    using alive_iff_in_alive_ids [OF room_ok_distinct [OF assms(1)] assms(3)] by simp
  moreover have "?i \<notin> set (alive_ids (announce_departure (pname p) now (kill ?i LeftGame r)))"
    using room_ok_distinct [OF assms(1)] unfolding announce_departure_eq by (simp add: alive_ids_kill)
  ultimately have "phase r \<noteq> Lobby \<Longrightarrow> leaving_ok ?i (upd_player ?i (depart now h)
      (if alive p then announce_departure (pname p) now (kill ?i LeftGame r) else r))" for h
    using assms(2) l leaving_announce [OF leaving_kill [OF l]]
    by (auto intro!: leaving_depart)
  then show ?thesis
    using leaving_remove [OF assms(1), of ?i] by (simp add: player_leave_def Let_def leaving_hand_over e)
qed

section \<open>Every host action\<close>

lemma rematch_fields [simp]:
  "recentNarrationIds (rematch r) = []" "processedActions (rematch r) = processedActions r"
  "recentWords (rematch r) = recentWords r" "hostPlayerId (rematch r) = hostPlayerId r"
  "graveyardBoard (rematch r) = graveyardBoard r" "winner (rematch r) = None"
  "players (rematch r) = map clear_for_rematch (filter (\<lambda>p. leftAt p = None) (players r))"
  by (simp_all add: rematch_def reset_lineup_def)

lemma clear_for_rematch_simps [simp]:
  "pid (clear_for_rematch p) = pid p" "pname (clear_for_rematch p) = pname p"
  "leftAt (clear_for_rematch p) = leftAt p"
  by (simp_all add: clear_for_rematch_def)

lemma rematch_seats:
  assumes "room_ok r"
  shows "seats_ok (players (rematch r))" and "\<forall>p\<in>set (players (rematch r)). leftAt p = None"
    and "host_ok (rematch r)"
proof -
  have "seats_ok (filter (\<lambda>p. leftAt p = None) (players r))"
    using assms by (simp add: room_ok_def seats_ok_filter)
  then show "seats_ok (players (rematch r))" by (simp add: seats_ok_def o_def)
  show "\<forall>p\<in>set (players (rematch r)). leftAt p = None" by simp
  show "host_ok (rematch r)"
    using assms by (fastforce simp: room_ok_def host_ok_def present_def)
qed

lemma room_ok_replay: "room_ok r \<Longrightarrow> room_ok (dealGame now (rematch r))"
proof (rule room_ok_deal)
  assume ok: "room_ok r"
  show "seats_ok (players (rematch r))" "\<forall>p\<in>set (players (rematch r)). leftAt p = None" "host_ok (rematch r)"
    using ok by (rule rematch_seats)+
qed (simp_all add: room_ok_def memory_ok_def)

lemma room_ok_to_lobby: "room_ok r \<Longrightarrow> room_ok (to_lobby (rematch r))"
proof -
  assume ok: "room_ok r"
  have s: "same_seats ps (map (setMultiplayerPlayerReady False) ps)" for ps
    by (rule same_seats_map) (simp add: same_seat_def setMultiplayerPlayerReady_def)
  have "host_ok (to_lobby (rematch r))"
    using rematch_seats(3) [OF ok] same_seats_present [OF s [of "players (rematch r)"]]
    by (simp add: host_ok_def to_lobby_def)
  moreover have "seats_ok (players (to_lobby (rematch r)))"
    using same_seats_ok [OF s rematch_seats(1) [OF ok]] by (simp add: to_lobby_def)
  moreover have "lobby_ok (to_lobby (rematch r))"
    by (simp add: lobby_ok_def to_lobby_def setMultiplayerPlayerReady_def)
  ultimately show ?thesis
    using ok by (simp add: room_ok_def outcome_ok_def memory_ok_def to_lobby_def)
      (simp add: changed_def applyRoomExpiry_def)
qed

lemma room_ok_finish: "room_ok r \<Longrightarrow> room_ok (finish w now r)"
  by (rule room_ok_evolves [OF _ evolves_finish]) (simp_all add: room_ok_def outcome_ok_def)

lemma room_ok_clocks: "room_ok r \<Longrightarrow> room_ok (host_resume now r)"
  by (rule room_ok_fields, assumption)
    (simp_all add: host_resume_def surface_def outcome_frame_def Let_def changed_def applyRoomExpiry_def
      split: option.split)

lemma room_ok_host_step:
  assumes "room_ok r" and "0 < now" shows "room_ok (fst (host_step newId now a r))"
proof -
  have "room_ok (r\<lparr>phaseEndsAt := x\<rparr>)" "room_ok (r\<lparr>pausedAt := y\<rparr>)" for x y
    by (rule room_ok_fields [OF assms(1)]; simp add: surface_def outcome_frame_def)+
  then show ?thesis
    using assms
    by (cases a) (simp_all add: room_ok_admission room_ok_configure room_ok_start room_ok_pass room_ok_remove
        room_ok_replay room_ok_to_lobby room_ok_finish room_ok_clocks)
qed

lemma room_ok_remembered: "room_ok (fst st) \<Longrightarrow> room_ok (fst (remembered actionId st))"
proof (cases st)
  case (Pair r v)
  assume "room_ok (fst st)"
  then have "room_ok (r\<lparr>processedActions := rememberMultiplayerAction (processedActions r) actionId\<rparr>)"
    using Pair remember_bounded
    by (simp add: room_ok_def host_ok_def lobby_ok_def outcome_ok_def memory_ok_def)
  with Pair \<open>room_ok (fst st)\<close> show ?thesis by (simp add: remembered_def)
qed

lemma room_ok_host: "room_ok r \<Longrightarrow> 0 < hi_now i \<Longrightarrow> room_ok (fst (liarsHostReduce i r))"
  by (simp add: liarsHostReduce_def Let_def room_ok_caught_up room_ok_host_step room_ok_remembered)

section \<open>The players' actions\<close>

text \<open>Writing a private field of one player.\<close>

lemma room_ok_upd: "room_ok r \<Longrightarrow> (\<And>p. same_seat p (f p)) \<Longrightarrow> room_ok (upd_player i f r)"
  by (rule room_ok_surface [of r]) (simp_all, simp add: upd_player_def same_seats_upd)

lemma distinct_upd_first:
  assumes "distinct (map g ps)" and "distinct (map pid ps)" and "\<And>q. g (f q) = n"
    and "\<forall>q\<in>set ps. pid q \<noteq> i \<longrightarrow> g q \<noteq> n"
  shows "distinct (map g (upd_first (\<lambda>q. pid q = i) f ps))"
  using assms(1,2,4)
proof (induction ps)
  case (Cons q ps)
  show ?case
  proof (cases "pid q = i")
    case True
    then have "\<forall>s\<in>set ps. pid s \<noteq> i" using Cons.prems(2) by (simp, metis image_eqI)
    then have "n \<notin> g ` set ps" using Cons.prems(3) by auto
    then show ?thesis using True Cons.prems(1) by (simp add: assms(3))
  next
    case False
    have "g s \<noteq> g q" if "s \<in> set (upd_first (\<lambda>q. pid q = i) f ps)" for s
      using set_upd_firstD [OF that] False Cons.prems(1,3) assms(3) by (auto, metis image_eqI)
    then have "g q \<notin> g ` set (upd_first (\<lambda>q. pid q = i) f ps)" by (metis imageE)
    then show ?thesis using False Cons by simp
  qed
qed simp

lemma upd_first_present:
  assumes "\<And>q. pid (f q) = pid q" and "\<And>q. leftAt (f q) = leftAt q" and "present ps j"
  shows "present (upd_first P f ps) j"
  using assms(3) unfolding present_def by (induction ps) (auto simp: assms(1,2))

lemma room_ok_rename:
  assumes "room_ok r" and "p \<in> set (players r)" shows "room_ok (fst (player_rename name p r))"
proof (cases "phase r = Lobby \<and> \<not> name_clash (pid p) name r")
  case False
  with assms show ?thesis by (auto simp: player_rename_def unavailable_def)
next
  case True
  define f :: "player_state \<Rightarrow> player_state" where "f = (\<lambda>q. setMultiplayerPlayerReady False (q\<lparr>pname := name\<rparr>))"
  let ?ps = "upd_first (\<lambda>q. pid q = pid p) f (players r)"
  have f: "pid (f q) = pid q" "leftAt (f q) = leftAt q" "alive (f q) = alive q" "pname (f q) = name" for q
    by (simp_all add: f_def setMultiplayerPlayerReady_def)
  have other: "\<forall>q\<in>set (players r). pid q \<noteq> pid p \<longrightarrow> to_lower (pname q) \<noteq> to_lower name"
    using True by (auto simp: name_clash_def list_ex_iff)
  have ok: "seats_ok (players r)" using assms(1) by (simp add: room_ok_def)
  have "distinct (map (\<lambda>p. to_lower (pname p)) ?ps)"
    by (rule distinct_upd_first [of _ _ _ "to_lower name"]) (use ok other f in \<open>simp_all add: seats_ok_def\<close>)
  moreover have "map pid ?ps = map pid (players r)" by (rule map_upd_first) (simp add: f)
  moreover have mem: "q \<in> set (players r) \<or> (\<exists>s\<in>set (players r). q = f s)" if "q \<in> set ?ps" for q
    using set_upd_firstD [OF that] by blast
  then have "\<forall>q\<in>set ?ps. (alive q \<longrightarrow> leftAt q = None) \<and> leftAt q \<noteq> Some 0"
    using ok f unfolding seats_ok_def by metis
  ultimately have "seats_ok ?ps" using ok unfolding seats_ok_def by (metis length_upd_first)
  moreover have "present ?ps i" if "present (players r) i" for i
    by (rule upd_first_present [OF f(1) f(2) that])
  moreover have "\<forall>q\<in>set ?ps. leftAt q = None"
    using assms(1) True mem f(2) unfolding room_ok_def lobby_ok_def by metis
  ultimately have "room_ok (upd_player (pid p) f r)"
    using assms(1) by (auto simp: room_ok_def host_ok_def lobby_ok_def outcome_ok_def memory_ok_def upd_player_def)
  with True show ?thesis by (simp add: player_rename_def f_def)
qed

lemma room_ok_claim:
  assumes "room_ok r" and "p \<in> set (players r)" shows "room_ok (fst (player_claim now p r))"
proof -
  have "alive p \<Longrightarrow> present (players r) (pid p)"
    using assms unfolding room_ok_def seats_ok_def present_def by blast
  then have "alive p \<Longrightarrow> room_ok (r\<lparr>hostPlayerId := Some (pid p), hostDisconnectedSince := None\<rparr>)"
    using assms(1) by (simp add: room_ok_def host_ok_def lobby_ok_def outcome_ok_def memory_ok_def)
  then show ?thesis using assms(1) by (simp add: player_claim_def unavailable_def)
qed

lemma room_ok_last_words:
  assumes "room_ok r" shows "room_ok (fst (player_last_words words p r))"
proof -
  have u: "room_ok (upd_player i (\<lambda>q. q\<lparr>lastWords := w\<rparr>) r)" for i w
    by (rule room_ok_upd [OF assms]) (simp add: same_seat_def)
  have d: "room_ok (s\<lparr>dawn := x\<rparr>)" if "room_ok s" for s x
    by (rule room_ok_fields [OF that]) (simp_all add: surface_def outcome_frame_def)
  show ?thesis using assms by (simp add: player_last_words_def unavailable_def Let_def u d)
qed

lemma room_ok_board:
  assumes "room_ok r" and "length b \<le> 8" shows "room_ok (r\<lparr>graveyardBoard := b\<rparr>)"
  using assms by (simp add: room_ok_def host_ok_def lobby_ok_def outcome_ok_def memory_ok_def)

lemma room_ok_pin: "room_ok r \<Longrightarrow> room_ok (fst (player_pin actionId words p r))"
  by (simp add: player_pin_def room_ok_board LIARS_GRAVEYARD_BOARD_MAX_def Let_def)

lemma room_ok_unpin: "room_ok r \<Longrightarrow> room_ok (fst (player_unpin noteId p r))"
proof -
  assume ok: "room_ok r"
  have "length (filter (\<lambda>n. gn_id n \<noteq> noteId) (graveyardBoard r)) \<le> 8"
    using ok order.trans [OF length_filter_le] by (auto simp: room_ok_def memory_ok_def)
  with ok show ?thesis by (simp add: player_unpin_def room_ok_board)
qed

lemma room_ok_open: "room_ok r \<Longrightarrow> phase r \<noteq> Ending \<Longrightarrow> open_ok r"
  by (simp add: room_ok_def outcome_ok_open)

text \<open>A step of the machine taken by a player.\<close>

lemma room_ok_machine:
  assumes "room_ok r" and "evolves r r'" and "outcome_ok r'" and "phase r' \<noteq> Lobby"
  shows "room_ok r'"
  using assms by (intro room_ok_evolves [OF assms(1,2)]) simp_all

lemma advanceClue_not_lobby: "phase r = Clue \<Longrightarrow> phase (advanceClue now r) \<noteq> Lobby"
  using advanceClue_phase [of r now] by auto

lemma room_ok_guess: "room_ok r \<Longrightarrow> room_ok (fst (player_guess words now p r))"
proof -
  assume ok: "room_ok r"
  then have "room_ok (resolveFinalGuess now g r)" for g
    by (rule room_ok_machine [OF _ evolves_resolveFinalGuess outcome_ok_resolveFinalGuess])
      (use ok in \<open>simp_all add: room_ok_def outcome_ok_def\<close>)
  with ok show ?thesis by (simp add: player_guess_def unavailable_def)
qed

lemma room_ok_reports:
  assumes "room_ok r" shows "room_ok (writeNightReports r)"
  using assms evolves_writeNightReports [of r] outcome_ok_frame [of "writeNightReports r" r]
  by (intro room_ok_evolves [OF assms evolves_writeNightReports]) (simp_all add: room_ok_def)

lemma room_ok_early_report:
  assumes "room_ok r" shows "room_ok (early_report now r)"
proof -
  have "room_ok (r\<lparr>reportAt := a, phaseEndsAt := b\<rparr>)" for a b
    by (rule room_ok_fields [OF assms]) (simp_all add: surface_def outcome_frame_def)
  with assms show ?thesis by (simp add: early_report_def room_ok_reports split: option.split)
qed

lemma room_ok_night: 
  assumes "room_ok r"
  shows "room_ok (fst (night_lock rd now p r))" and "room_ok (fst (night_select rd t p r))"
proof -
  have l: "room_ok (upd_player i (\<lambda>q. q\<lparr>nightLocked := b\<rparr>) r)" for i b
    by (rule room_ok_upd [OF assms]) (simp add: same_seat_def)
  have n: "room_ok (upd_player i (\<lambda>q. q\<lparr>nightTarget := b\<rparr>) r)" for i b
    by (rule room_ok_upd [OF assms]) (simp add: same_seat_def)
  show "room_ok (fst (night_lock rd now p r))" "room_ok (fst (night_select rd t p r))"
    using assms by (simp_all add: night_lock_def night_select_def l n room_ok_early_report split: option.split)
qed

lemma room_ok_advanceClue:
  assumes "room_ok r" and "phase r = Clue" shows "room_ok (advanceClue now r)"
  using assms room_ok_open advanceClue_not_lobby
  by (intro room_ok_machine [OF assms(1) evolves_advanceClue] outcome_ok_advanceClue) simp_all

lemma room_ok_clue:
  assumes "room_ok r"
  shows "room_ok (fst (clue_turn said now p r))" and "room_ok (fst (clue_all_said now p r))"
proof -
  have u: "room_ok (upd_player i (\<lambda>q. q\<lparr>clueDone := d q\<rparr>) r)" for i d
    by (rule room_ok_upd [OF assms]) (simp add: same_seat_def)
  have f: "room_ok (r\<lparr>clueFinishedBy := x\<rparr>)" "room_ok (r\<lparr>clueFinishedBy := x, clueIndex := y\<rparr>)" for x y
    by (rule room_ok_fields [OF assms]; simp add: surface_def outcome_frame_def)+
  show "room_ok (fst (clue_turn said now p r))"
    using assms by (simp add: clue_turn_def Let_def u room_ok_advanceClue)
  show "room_ok (fst (clue_all_said now p r))"
    using assms by (simp add: clue_all_said_def Let_def f room_ok_advanceClue)
qed

lemma room_ok_day:
  assumes "room_ok r"
  shows "room_ok (fst (day_point t p r))" and "room_ok (fst (day_ready b now p r))"
proof -
  have u: "room_ok (upd_player i (\<lambda>q. q\<lparr>pointedAt := x\<rparr>) r)" for i x
    by (rule room_ok_upd [OF assms]) (simp add: same_seat_def)
  have v: "room_ok (upd_player i (\<lambda>q. q\<lparr>readyToVote := x\<rparr>) r)" for i x
    by (rule room_ok_upd [OF assms]) (simp add: same_seat_def)
  have e: "room_ok (enterPhase Vote now s)" if "room_ok s" "phase s = Deliberation" for s
    using that room_ok_open by (intro room_ok_machine [OF that(1) evolves_enterPhase] outcome_ok_enterPhase) simp_all
  show "room_ok (fst (day_point t p r))" "room_ok (fst (day_ready b now p r))"
    using assms by (simp_all add: day_point_def day_ready_def unavailable_def Let_def u v e)
qed

lemma room_ok_vote:
  assumes "room_ok r"
  shows "room_ok (fst (vote_lock now p r))" and "room_ok (fst (vote_cast t p r))"
proof -
  have u: "room_ok (upd_player i (\<lambda>q. q\<lparr>voteLocked := x\<rparr>) r)" for i x
    by (rule room_ok_upd [OF assms]) (simp add: same_seat_def)
  have v: "room_ok (upd_player i (\<lambda>q. q\<lparr>vote := x\<rparr>) r)" for i x
    by (rule room_ok_upd [OF assms]) (simp add: same_seat_def)
  have e: "room_ok (resolveVote now s)" if "room_ok s" "phase s = Vote" for s
    using that room_ok_open resolveVote_phase [of now s]
    by (intro room_ok_machine [OF that(1) evolves_resolveVote] outcome_ok_resolveVote) auto
  show "room_ok (fst (vote_lock now p r))" "room_ok (fst (vote_cast t p r))"
    using assms by (simp_all add: vote_lock_def vote_cast_def vote_refusal_def Let_def u v e)
qed

lemma room_ok_readiness: "room_ok r \<Longrightarrow> room_ok (fst (player_readiness b p r))"
  by (simp add: player_readiness_def unavailable_def room_ok_upd same_seat_def setMultiplayerPlayerReady_def)

lemma room_ok_wish: "room_ok r \<Longrightarrow> room_ok (fst (player_wish x b p r))"
  by (simp add: player_wish_def room_ok_upd same_seat_def)

lemma room_ok_graveyard_vote: "room_ok r \<Longrightarrow> room_ok (fst (player_graveyard_vote t p r))"
  by (simp add: player_graveyard_vote_def unavailable_def room_ok_upd same_seat_def)

lemma room_ok_living_only: "room_ok r \<Longrightarrow> room_ok (fst res) \<Longrightarrow> room_ok (fst (living_only p r res))"
  by (simp add: living_only_def)

lemma room_ok_player_step:
  assumes "room_ok r" and "0 < now" and "player_by_id r (pid p) = Some p"
  shows "room_ok (fst (player_step actionId newId now a p r))"
proof -
  have "p \<in> set (players r)" using player_by_id_Some [OF assms(3)] by simp
  with assms show ?thesis
    by (cases a) (simp_all add: room_ok_leave room_ok_rename room_ok_readiness room_ok_claim room_ok_last_words
        room_ok_wish room_ok_pin room_ok_unpin room_ok_graveyard_vote room_ok_guess room_ok_living_only
        room_ok_night room_ok_clue room_ok_day room_ok_vote)
qed

lemma room_ok_player: "room_ok r \<Longrightarrow> 0 < pi_now i \<Longrightarrow> room_ok (fst (liarsPlayerReduce i r))"
  using player_by_id_Some
  by (fastforce simp: liarsPlayerReduce_def Let_def room_ok_caught_up
      intro!: room_ok_player_step room_ok_remembered split: option.split)

end
