(* ===== verification/LiarsActionFacts.thy ===== *)
theory LiarsActionFacts
  imports LiarsRoomOk
begin

text \<open>
  Actions as commands: both reducers keep the contract of the memory of processed actions, a retry
  does nothing, a rejection changes nothing it should not, and what particular handlers do.
\<close>

section \<open>The memory of processed actions\<close>

lemma caught_up_processed [simp]: "processedActions (caught_up who now r) = processedActions r"
proof -
  have "processedActions (advance t d s) = processedActions s" for t d s
    using evolves_setup(5) [OF evolves_advance] .
  then show ?thesis by (simp add: caught_up_def split_beta)
qed

lemma processed_blocks [simp]:
  "processedActions (upd_player i f r) = processedActions r" "processedActions (kill i c r) = processedActions r"
  "processedActions (finish w now r) = processedActions r" "processedActions (hand_over i now r) = processedActions r"
  "processedActions (remove_from_lobby i r) = processedActions r"
  "processedActions (announce_departure name now r) = processedActions r"
  "processedActions (reset_lineup r) = processedActions r"
  using evolves_setup(5) [OF announce_departure_evolves, of name now r]
  by (simp_all add: upd_player_def kill_def finish_def hand_over_def transferHost_def transferNarrator_def
      remove_from_lobby_def reset_lineup_def Let_def)

lemma processed_machine [simp]:
  "processedActions (advanceClue now r) = processedActions r"
  "processedActions (resolveVote now r) = processedActions r"
  "processedActions (writeNightReports r) = processedActions r"
  "processedActions (resolveFinalGuess now g r) = processedActions r"
  using evolves_setup(5) evolves_advanceClue evolves_resolveVote evolves_writeNightReports
    evolves_resolveFinalGuess by blast+

lemma host_start_processed: "processedActions (fst (host_start newId now ids r)) = processedActions r"
  by (simp add: host_start_def start_refused_def split_beta Let_def split: sum.split)

lemma host_step_processed: "processedActions (fst (host_step newId now a r)) = processedActions r"
proof (cases a)
  case (GameConfigure c)
  have "surface (fst (host_configure c r)) = surface r" by (rule host_configure_keeps)
  with GameConfigure show ?thesis by (simp add: surface_def)
qed (simp_all add: host_admission_def host_start_processed host_resume_def host_pass_def host_remove_def
    to_lobby_def Let_def split: option.split)

lemma player_step_processed: "processedActions (fst (player_step actionId newId now a p r)) = processedActions r"
  by (cases a)
    (simp_all add: player_leave_def player_rename_def player_readiness_def player_claim_def player_last_words_def
      player_wish_def player_pin_def player_unpin_def player_graveyard_vote_def player_guess_def living_only_def
      night_lock_def night_select_def early_report_def clue_turn_def clue_all_said_def day_point_def
      day_ready_def vote_lock_def vote_cast_def unavailable_def Let_def split: option.split)

lemma remembered_contract:
  "processedActions (fst (remembered a st)) =
     (if accepted (snd st) then rememberMultiplayerAction (processedActions (fst st)) a
      else processedActions (fst st))"
  "snd (remembered a st) = snd st"
  by (cases st, simp add: remembered_def)+

interpretation host_commands: command_reducer processedActions liarsHostReduce hi_actionId accepted
  by unfold_locales
    (auto simp: liarsHostReduce_def Let_def remembered_contract host_step_processed split: if_splits)

interpretation player_commands: command_reducer processedActions liarsPlayerReduce pi_actionId accepted
  by unfold_locales
    (auto simp: liarsPlayerReduce_def Let_def remembered_contract player_step_processed
      split: if_splits option.splits)

text \<open>The event the engine emits for a player's command tells the truth: it is
  "accepted" exactly when the action was not remembered before and its handler accepted it.\<close>

theorem player_event_accepted_iff:
  "\<exists>e. last (fst (snd (applyGameCommand processedActions r
         (versionGameCommand ''liars'' (pi_actionId i) who (pi_action i)) now (silent (liarsPlayerReduce i))))) =
       CommandEvent e \<and>
     (ev_type e = CommandAccepted \<longleftrightarrow> pi_actionId i \<notin> set (processedActions r) \<and> snd (liarsPlayerReduce i r) = VAccept)"
  using player_commands.event_accepted_iff
    [of "versionGameCommand ''liars'' (pi_actionId i) who (pi_action i)" i "silent (liarsPlayerReduce i)" r "[]" now]
  by (simp add: versionGameCommand_def accepted_def silent_def split_beta)

section \<open>A remembered action stays remembered\<close>

lemma take_last_filter:
  "x \<in> set (take_last k xs) \<Longrightarrow> P x \<Longrightarrow> x \<in> set (take_last k (filter P xs))"
proof -
  assume a: "x \<in> set (take_last k xs)" "P x"
  let ?u = "take (length xs - k) xs" and ?v = "drop (length xs - k) xs"
  have "filter P xs = filter P ?u @ filter P ?v" by (simp flip: filter_append)
  moreover have "length (filter P ?v) \<le> k" using length_filter_le [of P ?v] by simp
  ultimately have "set (filter P ?v) \<subseteq> set (take_last k (filter P xs))"
    by (auto simp: take_last_def)
  with a show ?thesis by (auto simp: take_last_def)
qed

lemma remember_keeps_recent:
  assumes "x \<in> set (take_last k ids)" and "k < 300"
  shows "x \<in> set (take_last (Suc k) (rememberMultiplayerAction ids a))"
proof (cases "x = a")
  case True
  then show ?thesis by (simp add: rememberMultiplayerAction_def take_last_def)
next
  case False
  let ?f = "filter (\<lambda>y. y \<noteq> a) ids"
  have "x \<in> set (take_last k ?f)" using assms(1) False by (intro take_last_filter) simp_all
  moreover have "take_last (Suc k) (take_last 300 (?f @ [a])) = take_last k ?f @ [a]"
  proof -
    have "n - (n - 299 + k) + (n - 299) = n - k" for n :: nat using assms(2) by arith
    then show ?thesis using assms(2) by (simp add: take_last_def)
  qed
  ultimately show ?thesis by (simp add: rememberMultiplayerAction_def)
qed

lemma take_last_mono: "j \<le> k \<Longrightarrow> set (take_last j xs) \<subseteq> set (take_last k xs)"
  unfolding take_last_def by (rule set_drop_subset_set_drop) simp

context command_reducer begin

lemma recent_step:
  "x \<in> set (take_last k (processed s)) \<Longrightarrow> k < 300 \<Longrightarrow> x \<in> set (take_last (Suc k) (processed (fst (reduce i s))))"
  using processed_cases [of i s] remember_keeps_recent [of x k "processed s" "action_id i"]
    take_last_mono [of k "Suc k" "processed s"] by auto

lemma recent_run:
  "x \<in> set (take_last k (processed s)) \<Longrightarrow> k + length is \<le> 300 \<Longrightarrow>
   x \<in> set (take_last (k + length is) (processed (run is s)))"
proof (induction "is" arbitrary: k s)
  case (Cons i "is")
  have "x \<in> set (take_last (Suc k) (processed (fst (reduce i s))))"
    using Cons.prems by (intro recent_step) simp_all
  then have "x \<in> set (take_last (Suc k + length is) (processed (run is (fst (reduce i s)))))"
    using Cons.prems by (intro Cons.IH) simp_all
  then show ?case by simp
qed simp

lemma remembered_through:
  assumes "accepted (snd (reduce i s))" and "action_id i \<notin> set (processed s)" and "length is < 300"
  shows "multiplayerActionSeen (processed (run is (fst (reduce i s)))) (action_id i)"
proof -
  have "action_id i \<in> set (take_last 1 (processed (fst (reduce i s))))"
    using assms(1,2) accepted_recorded [of i s]
    by (simp add: multiplayerActionSeen_def rememberMultiplayerAction_def take_last_def)
  then have "action_id i \<in> set (take_last (1 + length is) (processed (run is (fst (reduce i s)))))"
    using assms(3) by (intro recent_run) simp_all
  from subsetD [OF set_take_last this] show ?thesis by (simp add: multiplayerActionSeen_def)
qed

end

section \<open>Host and players on one room\<close>

text \<open>The commands of a room, whoever sends them.\<close>

type_synonym liars_input = "host_input + player_input"

fun liars_reduce :: "liars_input \<Rightarrow> liars_room \<Rightarrow> liars_room \<times> verdict" where
  "liars_reduce (Inl h) r = liarsHostReduce h r"
| "liars_reduce (Inr p) r = liarsPlayerReduce p r"

fun liars_action_id :: "liars_input \<Rightarrow> js_string" where
  "liars_action_id (Inl h) = hi_actionId h"
| "liars_action_id (Inr p) = pi_actionId p"

interpretation commands: command_reducer processedActions liars_reduce liars_action_id accepted
proof
  fix i r
  show "accepted (snd (liars_reduce i r)) \<Longrightarrow>
      processedActions (fst (liars_reduce i r)) = rememberMultiplayerAction (processedActions r) (liars_action_id i) \<or>
      multiplayerActionSeen (processedActions r) (liars_action_id i) \<and>
      processedActions (fst (liars_reduce i r)) = processedActions r"
    by (cases i) (use host_commands.accepted_recorded player_commands.accepted_recorded in auto)
  show "\<not> accepted (snd (liars_reduce i r)) \<Longrightarrow> processedActions (fst (liars_reduce i r)) = processedActions r"
    by (cases i) (simp_all add: host_commands.rejected_unrecorded player_commands.rejected_unrecorded)
qed

text \<open>The room after a sequence of commands.\<close>

fun run_commands :: "liars_input list \<Rightarrow> liars_room \<Rightarrow> liars_room" where
  "run_commands [] r = r"
| "run_commands (i # is) r = run_commands is (fst (liars_reduce i r))"

lemma run_commands_eq: "run_commands is r = commands.run is r"
  by (induction "is" arbitrary: r) simp_all

text \<open>C22. A player's action runs once. After it was accepted, and after any fewer than three
  hundred commands of anybody, the same action id sent again, at any time and with any payload, does
  nothing but catch the room up with the clock and is answered "accepted", as long as the credentials
  it comes with still open the seat; when they no longer do (after leaving, or being removed), it is
  answered with a failure and nothing at all changes. (Three hundred is the length of the memory of
  processed actions.)\<close>

theorem retry_is_harmless:
  assumes "snd (liarsPlayerReduce i r) = VAccept" and "pi_actionId i \<notin> set (processedActions r)"
    and "length cmds < 300" and "pi_actionId j = pi_actionId i"
  shows "liarsPlayerReduce j (run_commands cmds (fst (liarsPlayerReduce i r))) =
           (let s = run_commands cmds (fst (liarsPlayerReduce i r)) in
            if player_authorised j s then (caught_up (Some (pi_playerId j)) (pi_now j) s, VAccept) else (s, VFail))"
  using commands.remembered_through [of "Inr i" r cmds] assms
  by (simp add: liarsPlayerReduce_def [of j] Let_def run_commands_eq)

lemma touch_find:
  assumes "player_by_id r i = Some p"
  shows "\<exists>q. player_by_id (snd (touch who now f r)) i = Some q \<and> pid q = pid p \<and> tokenHash q = tokenHash p \<and>
             ready q = ready p"
proof -
  have u: "\<exists>q. player_by_id (upd_player j (\<lambda>q. q\<lparr>lastSeenAt := t q\<rparr>) r) i = Some q \<and> pid q = pid p \<and>
      tokenHash q = tokenHash p \<and> ready q = ready p" for j t
    using assms by (auto simp: player_by_id_upd_player)
  have same: "player_by_id (s\<lparr>lastActiveAt := a\<rparr>) i = player_by_id s i"
    "player_by_id (s\<lparr>hostDisconnectedSince := b\<rparr>) i = player_by_id s i"
    "player_by_id (s\<lparr>narratorPlayerId := c\<rparr>) i = player_by_id s i" for s a b c
    by (simp_all add: player_by_id_def)
  show ?thesis
    using assms u by (simp add: touch_def Let_def same split: option.split)
qed

text \<open>A ready player says so again: the smallest accepted action.\<close>

definition ready_input :: player_input where
  "ready_input = \<lparr>pi_playerId = ''b'', pi_playerToken = ''t'', pi_actionId = ''x1'',
     pi_action = ReadinessSet True, pi_now = 5, pi_newId = ''n''\<rparr>"

lemma ready_input_reduce:
  "\<exists>q. liarsPlayerReduce ready_input five_room =
         ((snd (touch (Some ''b'') 5 True five_room))\<lparr>processedActions := [''x1'']\<rparr>, VAccept) \<and>
       player_by_id (snd (touch (Some ''b'') 5 True five_room)) ''b'' = Some q \<and> tokenHash q = sample_hash"
proof -
  let ?r1 = "snd (touch (Some ''b'') 5 True five_room)"
  have p: "player_by_id five_room ''b'' = Some (sample_player ''b'' Doctor)"
    by (simp add: player_by_id_def sample_defs)
  obtain q where q: "player_by_id ?r1 ''b'' = Some q" "pid q = ''b''" "tokenHash q = sample_hash"
      "ready q = Some True"
    using touch_find [OF p, of "Some ''b''" 5 True] by auto
  have c: "caught_up (Some ''b'') 5 five_room = ?r1"
    by (simp add: caught_up_def advance_def split_beta five_room_def)
  have "player_authorised ready_input five_room"
    using p by (simp add: player_authorised_def ready_input_def five_room_def)
  moreover have "phase ?r1 = Lobby" "processedActions ?r1 = []"
    by (simp_all add: five_room_def)
  ultimately have "liarsPlayerReduce ready_input five_room = (?r1\<lparr>processedActions := [''x1'']\<rparr>, VAccept)"
    using q by (simp add: liarsPlayerReduce_def ready_input_def c Let_def multiplayerActionSeen_def
        player_readiness_def multiplayerPlayerReady_def remembered_def rememberMultiplayerAction_def take_last_def)
  with q show ?thesis by blast
qed

lemma retry_is_harmless_witness:
  "snd (liarsPlayerReduce ready_input (fst (liarsPlayerReduce ready_input five_room))) = VAccept"
proof -
  obtain q where r: "liarsPlayerReduce ready_input five_room =
         ((snd (touch (Some ''b'') 5 True five_room))\<lparr>processedActions := [''x1'']\<rparr>, VAccept)"
    and q: "player_by_id (snd (touch (Some ''b'') 5 True five_room)) ''b'' = Some q" "tokenHash q = sample_hash"
    using ready_input_reduce by blast
  have h: "sha256_hex (snd (touch (Some ''b'') 5 True five_room)) = (\<lambda>_. sample_hash)"
    by (simp add: touch_def Let_def upd_player_def five_room_def split: option.split)
  have "player_authorised ready_input (run_commands [] (fst (liarsPlayerReduce ready_input five_room)))"
    using r q h by (simp add: player_authorised_def ready_input_def player_by_id_def)
  then show ?thesis
    using retry_is_harmless [of ready_input five_room "[]" ready_input] r by (simp add: five_room_def)
qed

section \<open>Rejections\<close>

text \<open>A rejected player action changes nothing: the room is the one the caller was
  caught up to, whatever the action and whatever made the engine reject it.\<close>

theorem player_rejection_is_pure:
  assumes "snd (liarsPlayerReduce i r) = VReject c m b"
  shows "fst (liarsPlayerReduce i r) = caught_up (Some (pi_playerId i)) (pi_now i) r"
proof -
  have "fst (player_step actionId newId now a p s) = s"
    if "snd (player_step actionId newId now a p s) = VReject c m b" for actionId newId now a p s
    using that
    by (cases a) (auto simp: player_leave_def player_rename_def player_readiness_def player_claim_def
        player_last_words_def player_wish_def player_pin_def player_unpin_def player_graveyard_vote_def
        player_guess_def living_only_def night_lock_def night_select_def clue_turn_def clue_all_said_def
        day_point_def day_ready_def vote_lock_def vote_cast_def unavailable_def Let_def
        split: if_splits option.splits)
  then show ?thesis
    using assms
    by (auto simp: liarsPlayerReduce_def Let_def remembered_def split: if_splits option.splits prod.splits)
      (metis fst_conv snd_conv)
qed

text \<open>A vote locked in the lobby is such a rejection.\<close>

definition early_lock :: player_input where
  "early_lock = ready_input\<lparr>pi_action := VoteLock 1\<rparr>"

lemma early_lock_rejected: "snd (liarsPlayerReduce early_lock five_room) = VReject PhaseEnded ''Voting has closed'' False"
proof -
  let ?r1 = "snd (touch (Some ''b'') 5 True five_room)"
  have p: "player_by_id five_room ''b'' = Some (sample_player ''b'' Doctor)"
    by (simp add: player_by_id_def sample_defs)
  obtain q where q: "player_by_id ?r1 ''b'' = Some q"
    using touch_find [OF p, of "Some ''b''" 5 True] by auto
  have c: "caught_up (Some ''b'') 5 five_room = ?r1"
    by (simp add: caught_up_def advance_def split_beta five_room_def)
  have "\<not> alive q \<Longrightarrow> False"
  proof -
    have "same_seats (players five_room) (players ?r1)" by (rule touch_same_seats)
    have "alive_ids ?r1 = alive_ids five_room"
      unfolding alive_ids_def living_def touch_def Let_def upd_player_def
      by (simp add: filter_upd_first_same split: option.split)
    moreover have "distinct_ids ?r1"
      using same_seats_maps(1) [OF touch_same_seats] distinct_five_room by (simp add: distinct_ids_def)
    moreover have "''b'' \<in> set (alive_ids five_room)" by (simp add: alive_ids_def living_def sample_defs)
    ultimately show "\<not> alive q \<Longrightarrow> False" using alive_iff_in_alive_ids [of ?r1 "''b''" q] q by simp
  qed
  moreover have "player_authorised early_lock five_room"
    using p by (simp add: player_authorised_def early_lock_def ready_input_def five_room_def)
  moreover have "phase ?r1 = Lobby" "processedActions ?r1 = []" by (simp_all add: five_room_def)
  ultimately show ?thesis
    using q by (auto simp: liarsPlayerReduce_def early_lock_def ready_input_def c Let_def
        multiplayerActionSeen_def living_only_def vote_lock_def vote_refusal_def remembered_def)
qed

lemma player_rejection_is_pure_witness:
  "fst (liarsPlayerReduce early_lock five_room) = caught_up (Some ''b'') 5 five_room"
  using player_rejection_is_pure [OF early_lock_rejected] by (simp add: early_lock_def ready_input_def)

text \<open>A host's configuration is not so careful: when its lineup is refused,
  the reply says so, but the room mode, the toggles and the timings of the same request stay
  applied, and no revision announces them.\<close>

theorem rejected_configure_keeps_settings:
  assumes "phase r = Lobby" and "\<not> managed r" and "cf_lineup c = Some l"
    and "liarsValidateLineup (mode r) l (player_count r) = Inl problem" and "\<not> cf_resetLineup c"
  shows "host_step newId now (GameConfigure c) r =
           (configure_timings (cf_timings c) (configure_toggles (cf_toggles c) (configure_roomMode (cf_roomMode c) r)),
            VReject LineupInvalid (snd problem) False) \<and>
         revision (fst (host_step newId now (GameConfigure c) r)) = revision r"
proof -
  have "mode (configure_timings ti (configure_toggles tp (configure_roomMode m r))) = mode r"
    "player_count (configure_timings ti (configure_toggles tp (configure_roomMode m r))) = player_count r"
    "revision (configure_timings ti (configure_toggles tp (configure_roomMode m r))) = revision r" for ti tp m
    by (simp_all add: configure_roomMode_def configure_toggles_def configure_timings_def player_count_def Let_def
        split: option.split)
  then show ?thesis using assms by (simp add: host_configure_def Let_def)
qed

definition bad_patch :: configure_patch where
  "bad_patch = \<lparr>cf_lineup = Some [], cf_resetLineup = False,
     cf_toggles = Some (\<lambda>k. if k = KRevealRoleOnDeath then Some False else None),
     cf_timings = None, cf_roomMode = None\<rparr>"

lemma rejected_configure_keeps_settings_witness:
  "revealRoleOnDeath (toggles (fst (host_step ''n'' 5 (GameConfigure bad_patch) five_room))) = False"
proof -
  obtain problem where "liarsValidateLineup (mode five_room) [] (player_count five_room) = Inl problem"
    by (simp add: liarsValidateLineup_def liarsLineupTotal_def liarsLineupEntries_def sample_defs player_count_def
        Let_def)
  then have "fst (host_step ''n'' 5 (GameConfigure bad_patch) five_room) =
      configure_timings None (configure_toggles (cf_toggles bad_patch) (configure_roomMode None five_room))"
    using rejected_configure_keeps_settings [of five_room bad_patch "[]" problem "''n''" 5]
    by (simp add: bad_patch_def five_room_def)
  then show ?thesis
    by (simp add: configure_timings_def configure_toggles_def configure_roomMode_def bad_patch_def Let_def
        spread_toggles_def)
qed

section \<open>Leaving a finished game\<close>

text \<open>An ending is not final: when the last living player of the mafia side leaves a
  mafia game that has already ended, the win check of the departure runs again and the town is
  declared the winner, whoever had won.\<close>

theorem ended_game_can_flip:
  assumes "mode r = ModeMafia" and "phase r = Ending" and "distinct_ids r"
    and "player_by_id r i = Some p" and "alive p" and "\<forall>q\<in>set (living r). is_mafia q \<longrightarrow> pid q = i"
  shows "winner (fst (player_leave newId now p r)) = Some Town \<and>
         phase (fst (player_leave newId now p r)) = Ending"
proof -
  let ?k = "kill i LeftGame r" and ?slots = "no_slots\<lparr>slot_victim := Some (pname p)\<rparr>"
  let ?r2 = "add_note DayEntry (fst (narrate NarrLeft ?slots ?k)) (snd (narrate NarrLeft ?slots ?k))"
  let ?h = "hashMultiplayerCredential r (newId @ '':left:'' @ i)"
  have i: "pid p = i" using assms(4) player_by_id_Some by blast
  have same: "players ?r2 = players ?k" "mode ?r2 = ModeMafia"
    using narrate_shape [of NarrLeft ?slots ?k] assms(1) by (auto simp: add_note_def kill_def upd_player_def)
  have l: "living ?r2 = filter (\<lambda>q. pid q \<noteq> i) (living r)"
    using living_kill [OF assms(3), of i LeftGame] same(1) by (simp add: living_def)
  have "filter (\<lambda>(_, x). liarsRoleSide x = MafiaSide) (map (\<lambda>q. (pid q, role_or_villager q)) (living ?r2)) = []"
    using assms(6) not_mafia_side unfolding l by (auto simp: filter_empty_conv)
  then have "liarsDetectWinner (win_input ?r2 None) = Some Town"
    using same(2) by (simp add: liarsDetectWinner_def win_input_def Let_def)
  then have a: "announce_departure (pname p) now ?k = finish Town now ?r2"
    by (simp add: announce_departure_eq checkWinner_def)
  have "fst (player_leave newId now p r) = hand_over i now (upd_player i (depart now ?h) (finish Town now ?r2))"
    using assms(2,5) by (simp add: player_leave_def i a Let_def)
  then show ?thesis by (simp add: upd_player_def)
qed

definition ended_room :: liars_room where
  "ended_room = (sample_room ModeMafia [sample_player ''a'' Mafia, sample_player ''b'' Villager])
     \<lparr>phase := Ending, winner := Some MafiaSide\<rparr>"

lemma ended_game_can_flip_witness:
  "winner (fst (player_leave ''n'' 9 (sample_player ''a'' Mafia) ended_room)) = Some Town \<and>
   phase (fst (player_leave ''n'' 9 (sample_player ''a'' Mafia) ended_room)) = Ending"
  by (rule ended_game_can_flip [where i = "''a''"])
    (simp_all add: ended_room_def distinct_ids_def player_by_id_def living_def is_mafia_def)

end
