(* ===== verification/LiarsViewFacts.thy ===== *)
theory LiarsViewFacts
  imports LiarsAlive LiarsSamples LiarsRoom
begin

text \<open>
  What a snapshot gives away. A room is veiled for a viewer by erasing the secrets the viewer has
  no right to; a living viewer outside the mafia side gets the same snapshot of the veiled room, so
  nothing erased can have reached them.
\<close>

section \<open>Veiling a room\<close>

text \<open>
  What a living viewer who is not of the mafia side may know of another player: the role only once
  that player is dead and the toggles reveal it; the vote only while a verdict is being shown; none of the
  private fields.
\<close>

definition veiled_player :: "liars_room \<Rightarrow> player_state \<Rightarrow> player_state \<Rightarrow> player_state" where
  "veiled_player r v p =
     (if pid p = pid v then p
      else p\<lparr>role := (if maySeeRole r (Some v) p then role p else None), tokenHash := [], nightTarget := None,
             previousNightTarget := None, graveyardVote := None, report := None, knowledge := [],
             lastWords := None, vigilanteUsed := False, guiltPending := False, pword := None,
             previousRole := None, startRequestId := None, startRequestedAt := None, joinedAt := 0,
             vote := (if phase r = Verdict then vote p else None), voteLocked := False,
             roleWishes := (if phase r = Lobby then roleWishes p else [])\<rparr>)"

definition veil :: "player_state \<Rightarrow> liars_room \<Rightarrow> liars_room" where
  "veil v r =
     r\<lparr>players := map (veiled_player r v) (players r), hostHash := [], joinHash := [], joinReceipts := [],
       joinReceiptIds := [], processedActions := [], roomWord := None, decoyWord := None, recentWords := [],
       recentNarrationIds := [], graveyardBoard := [], ejectedJesterId := None, crewEjections := 0,
       imposterEjections := 0, finalGuessCorrect := None, lastEjectedName := None, runoffIds := []\<rparr>"

lemma veiled_player_simps [simp]:
  "pid (veiled_player r v p) = pid p" "pname (veiled_player r v p) = pname p"
  "alive (veiled_player r v p) = alive p" "lastSeenAt (veiled_player r v p) = lastSeenAt p"
  "ready (veiled_player r v p) = ready p" "leftAt (veiled_player r v p) = leftAt p"
  "deathRound (veiled_player r v p) = deathRound p" "deathCause (veiled_player r v p) = deathCause p"
  "savedCount (veiled_player r v p) = savedCount p"
  "pointedAt (veiled_player r v p) = pointedAt p" "nightLocked (veiled_player r v p) = nightLocked p"
  "readyToVote (veiled_player r v p) = readyToVote p"
  by (simp_all add: veiled_player_def)

lemma veiled_self [simp]: "veiled_player r v v = v"
  by (simp add: veiled_player_def)

lemma veil_simps [simp]:
  "phase (veil v r) = phase r" "mode (veil v r) = mode r" "toggles (veil v r) = toggles r"
  "dawn (veil v r) = dawn r" "players (veil v r) = map (veiled_player r v) (players r)"
  "hostPlayerId (veil v r) = hostPlayerId r" "roundNo (veil v r) = roundNo r"
  by (simp_all add: veil_def)

lemma living_veil [simp]: "living (veil v r) = map (veiled_player r v) (living r)"
  by (simp add: living_def filter_map o_def)

lemma player_by_id_veil: "player_by_id (veil v r) i = map_option (veiled_player r v) (player_by_id r i)"
  by (simp add: player_by_id_def find_map_same)

lemma player_by_ref_veil: "player_by_ref (veil v r) i = map_option (veiled_player r v) (player_by_ref r i)"
  by (simp add: player_by_ref_def player_by_id_veil split: option.split)

section \<open>The parts of the snapshot\<close>

lemma connected_veiled [simp]: "connected_player (veiled_player r v p) now = connected_player p now"
  by (simp add: connected_player_def)

lemma ready_veiled [simp]: "multiplayerPlayerReady (veiled_player r v p) = multiplayerPlayerReady p"
  by (simp add: multiplayerPlayerReady_def)

lemma marksFor_veil: "marksFor (veil v r) (veiled_player r v p) = marksFor r p"
  by (cases "dawn r") (simp_all add: marksFor_def list_ex_iff split: option.split)

lemma vote_veiled: "phase r = Verdict \<Longrightarrow> vote (veiled_player r v p) = vote p"
  by (simp add: veiled_player_def)

lemma wishes_veiled: "phase r = Lobby \<Longrightarrow> roleWishes (veiled_player r v p) = roleWishes p"
  by (simp add: veiled_player_def)

lemma votes_for_veil: "phase r = Verdict \<Longrightarrow> votes_for (veil v r) i = votes_for r i"
  by (simp add: votes_for_def filter_map o_def vote_veiled)

text \<open>A living viewer outside the mafia side sees the role of others only when they are dead.\<close>

definition outsider :: "liars_room \<Rightarrow> player_state \<Rightarrow> bool" where
  "outsider r v \<longleftrightarrow> phase r \<noteq> Ending \<and> alive v \<and> \<not> is_mafia v"

lemma maySeeRole_outsider:
  assumes "outsider r v"
  shows "maySeeRole r (Some v) p \<longleftrightarrow>
     pid v = pid p \<or> \<not> alive p \<and> (if deathCause p = Some Ejected then revealEjectedRole (toggles r)
                                   else revealRoleOnDeath (toggles r))"
  using assms by (auto simp: maySeeRole_def outsider_def is_mafia_def split: option.splits)

lemma maySeeRole_veil:
  assumes "outsider r v"
  shows "maySeeRole (veil v r) (Some v) (veiled_player r v p) = maySeeRole r (Some v) p"
proof -
  have "outsider (veil v r) v" using assms by (simp add: outsider_def)
  then show ?thesis using maySeeRole_outsider assms by simp
qed

lemma summaryOf_veil:
  assumes "outsider r v"
  shows "summaryOf (veil v r) (Some v) now (veiled_player r v p) = summaryOf r (Some v) now p"
proof -
  have "(if maySeeRole r (Some v) p then role (veiled_player r v p) else None) =
      (if maySeeRole r (Some v) p then role p else None)"
    by (simp add: veiled_player_def)
  then show ?thesis
    using assms by (simp add: summaryOf_def marksFor_veil votes_for_veil maySeeRole_veil [OF assms] outsider_def)
qed

text \<open>Outside the mafia side the choices depend on who is alive, not on what they are.\<close>

lemma targetable_by_ids:
  assumes "liarsRoleSide x \<noteq> MafiaSide" and "map fst l = map fst l'"
  shows "liarsTargetableIds m x actor l prev rep = liarsTargetableIds m x actor l' prev rep"
proof -
  have "map fst (filter (\<lambda>(i, other). Q i) l) = filter Q (map fst l)" for Q and l :: "(js_string \<times> liars_role) list"
    by (induction l) auto
  then show ?thesis using assms by (simp add: liarsTargetableIds_def Let_def)
qed

lemma targetable_ids_veil:
  assumes "outsider r v" and "role v = Some x"
  shows "targetable_ids v x (veil v r) = targetable_ids v x r"
  unfolding targetable_ids_def
  using assms by (simp, intro targetable_by_ids) (simp_all add: outsider_def is_mafia_def o_def)

lemma private_view_veil:
  assumes "outsider r v"
  shows "private_view (veil v r) now v = private_view r now v"
proof -
  have nm: "\<not> is_mafia v" using assms by (simp add: outsider_def)
  have "(case role v of None \<Rightarrow> [] | Some x \<Rightarrow> targetable_ids v x (veil v r)) =
      (case role v of None \<Rightarrow> [] | Some x \<Rightarrow> targetable_ids v x r)"
    using targetable_ids_veil [OF assms] by (simp split: option.split)
  moreover have "wordCategory (veil v r) = wordCategory r" "wordBoard (veil v r) = wordBoard r"
    "reportAt (veil v r) = reportAt r"
    by (simp_all add: veil_def)
  ultimately show ?thesis
    using nm by (simp add: private_view_def ally_ids_def visible_report_def last_words_open_def)
qed

text \<open>C9. What a living player outside the mafia side is sent before the ending is computed
  from the veiled room, so nothing that is erased in it can have reached them. Erased of every other
  player: the token, the night target and the one of the night before, the vote and its lock (the votes
  only are kept while a verdict shows its counts), the vote of the dead, the report, the notebook, the last
  words not yet announced, the word, the spent shot, the guilt, the role (unless death and the toggles
  reveal it), the role of the last game, start requests, when they joined, and outside the lobby their
  wishes. Erased of the room: its credentials and receipts, its words, the dead board, the ejections and
  guesses the winner is decided by, and the runoff. Not erased, and so public: who is alive, present and
  ready, who points at whom, how often each was saved, how many have acted, the history and the dawn.\<close>

theorem town_view_is_veiled:
  assumes "player_by_id r i = Some v" and "phase r \<noteq> Ending" and "alive v" and "\<not> is_mafia v"
  shows "snapshot r (Some i) now = snapshot (veil v r) (Some i) now"
proof -
  have o: "outsider r v" using assms by (simp add: outsider_def)
  have v: "player_by_ref r (Some i) = Some v" "player_by_ref (veil v r) (Some i) = Some v"
    using assms(1) by (simp_all add: player_by_ref_def player_by_id_veil)
  have s: "map (summaryOf (veil v r) (Some v) now) (players (veil v r)) = map (summaryOf r (Some v) now) (players r)"
    by (simp add: summaryOf_veil [OF o])
  have w: "wishes_view (veil v r) (Some v) = wishes_view r (Some v)"
    by (simp add: wishes_view_def filter_map o_def player_count_def wishes_veiled) (simp add: veil_def)
  have c: "clue_view (veil v r) = clue_view r" "endingOf (veil v r) = endingOf r"
    using assms(2) by (simp_all add: clue_view_def current_speaker_def endingOf_def veil_def)
  have g: "graveyard_view (veil v r) (Some v) = graveyard_view r (Some v)"
    using assms(3) by (simp add: graveyard_view_def)
  have l: "length (filter nightLocked (living (veil v r))) = length (filter nightLocked (living r))"
    "length (living (veil v r)) = length (living r)"
    "length (filter readyToVote (living (veil v r))) = length (filter readyToVote (living r))"
    by (simp_all add: filter_map o_def)
  show ?thesis
    unfolding snapshot_def v Let_def s w c g l option.map private_view_veil [OF o]
    by (simp add: veil_def)
qed

text \<open>A vote in which one has voted.\<close>

definition voting_room :: liars_room where
  "voting_room = (sample_room ModeMafia [(sample_player ''a'' Mafia)\<lparr>vote := Some ''c'', voteLocked := True\<rparr>,
     sample_player ''b'' Doctor, sample_player ''c'' Detective, sample_player ''d'' Villager])\<lparr>phase := Vote\<rparr>"

lemma town_view_is_veiled_witness:
  "snapshot voting_room (Some ''d'') 5 = snapshot (veil (sample_player ''d'' Villager) voting_room) (Some ''d'') 5 \<and>
   map vote (players (veil (sample_player ''d'' Villager) voting_room)) = [None, None, None, None]"
proof
  show "snapshot voting_room (Some ''d'') 5 = snapshot (veil (sample_player ''d'' Villager) voting_room) (Some ''d'') 5"
    by (rule town_view_is_veiled) (simp_all add: player_by_id_def voting_room_def is_mafia_def)
  show "map vote (players (veil (sample_player ''d'' Villager) voting_room)) = [None, None, None, None]"
    by (simp add: veiled_player_def voting_room_def)
qed

text \<open>
  The count of saves is public whatever is announced: two summaries of players with different counts differ
  for every viewer, so a save that the dawn keeps anonymous can be read off the counts.
\<close>

lemma saved_count_is_public:
  "savedCount p \<noteq> savedCount q \<Longrightarrow> summaryOf r viewer now p \<noteq> summaryOf r' viewer' now' q"
  by (simp add: summaryOf_def)

section \<open>Imposters and the mole\<close>

text \<open>The mole knows the imposters and is unknown to them: a living imposter's
  snapshot gives no role for a living mole and does not list them among the allies.\<close>

theorem imposter_never_sees_the_mole:
  assumes "player_by_id r i = Some v" and "alive v" and "role v = Some Imposter" and "mode r = ModeImposter"
    and "phase r \<noteq> Ending" and "distinct_ids r" and "s \<in> set (players r)" and "alive s" and "role s = Some Mole"
  shows "sm_role (summaryOf r (Some v) now s) = None \<and> pid s \<notin> set (pv_allyIds (private_view r now v))"
proof -
  have no: "\<not> maySeeRole r (Some v) q" if "q \<in> set (players r)" "pid q = pid s" for q
  proof -
    have "player_by_id r (pid s) = Some q" using player_by_id_mem [OF assms(6) that(1)] unfolding that(2) .
    moreover have "player_by_id r (pid s) = Some s" by (rule player_by_id_mem [OF assms(6,7)])
    ultimately have q: "q = s" by simp
    have "pid v \<noteq> pid s"
    proof
      assume e: "pid v = pid s"
      have "pid v = i" using player_by_id_Some [OF assms(1)] by simp
      then have "player_by_id r (pid s) = Some v" using assms(1) unfolding e [symmetric] by (rule ssubst)
      then have "v = s" unfolding player_by_id_mem [OF assms(6,7)] by simp
      with assms(3,9) show False by simp
    qed
    then show ?thesis unfolding q using assms(2-5,8,9) by (simp add: maySeeRole_def)
  qed
  then have "pid s \<notin> set (ally_ids r v)" by (auto simp: ally_ids_def)
  moreover have "\<not> maySeeRole r (Some v) s" using no assms(7) by blast
  ultimately show ?thesis by (simp add: summaryOf_def private_view_def)
qed

definition mole_room :: liars_room where
  "mole_room = (sample_room ModeImposter [sample_player ''a'' Imposter, sample_player ''b'' Mole,
     sample_player ''c'' Crew, sample_player ''d'' Crew])\<lparr>phase := Clue\<rparr>"

lemma imposter_never_sees_the_mole_witness:
  "sm_role (summaryOf mole_room (Some (sample_player ''a'' Imposter)) 5 (sample_player ''b'' Mole)) = None \<and>
   pid (sample_player ''b'' Mole) \<notin> set (pv_allyIds (private_view mole_room 5 (sample_player ''a'' Imposter)))"
  by (rule imposter_never_sees_the_mole [where i = "''a''"])
    (simp_all add: mole_room_def player_by_id_def distinct_ids_def)

section \<open>The host's token\<close>

lemma host_step_not_fail: "snd (host_step newId now a r) \<noteq> VFail"
  by (cases a) (auto simp: host_admission_def host_configure_def host_start_def start_refused_def host_pass_def
      host_remove_def Let_def split: option.split sum.split prod.split)

lemma remembered_verdict: "snd (remembered actionId st) = snd st"
  by (cases st) (simp add: remembered_def)

text \<open>The host's token opens everybody's cards: an action sent with it and with any
  player's id, no token of that player needed, is answered with that player's own snapshot, their
  role, word, report and notebook included.\<close>

theorem host_token_reads_any_player:
  assumes "hi_hostToken i = Some t" and "multiplayerCredentialsMatch r t (hostHash r)"
  shows "\<exists>verdict sn. snd (host_reply i r) = OutAction verdict (Some sn) \<and>
           sn_player sn = map_option (private_view (fst (host_reply i r)) (hi_now i))
             (player_by_ref (fst (host_reply i r)) (hi_playerId i))"
proof -
  have "t \<noteq> []" using assms(2) by (auto simp: multiplayerCredentialsMatch_def)
  then have a: "host_authorised i r" using assms by (simp add: host_authorised_def)
  have "snd (liarsHostReduce i r) \<noteq> VFail"
    using a by (simp add: liarsHostReduce_def Let_def remembered_verdict host_step_not_fail)
  then show ?thesis
    by (simp add: host_reply_def split_beta snapshot_def Let_def)
qed

definition peek :: host_input where
  "peek = \<lparr>hi_hostToken = Some ''h'', hi_playerId = Some ''a'', hi_playerToken = None, hi_actionId = ''x'',
     hi_action = PhaseExtend, hi_now = 5, hi_newId = ''n''\<rparr>"

lemma host_token_reads_any_player_witness:
  "\<exists>verdict sn. snd (host_reply peek five_room) = OutAction verdict (Some sn) \<and>
     sn_player sn = map_option (private_view (fst (host_reply peek five_room)) 5)
       (player_by_ref (fst (host_reply peek five_room)) (Some ''a''))"
  using host_token_reads_any_player [of peek "''h''" five_room] by (simp add: peek_def five_room_def)

end
