(* ===== verification/LiarsReachable.thy ===== *)
theory LiarsReachable
  imports LiarsRoomOk
begin

text \<open>
  The life of a room as a step relation: created, then read, joined and acted on in any order, at
  any times and with any random draws, by callers who may be anyone. The invariant holds of every
  reachable room.
\<close>

section \<open>Joining and reading\<close>

text \<open>A fresh token is not the id of somebody in the room.\<close>

definition token_fresh :: "liars_room \<Rightarrow> bool" where
  "token_fresh r \<longleftrightarrow> token_source r (Suc (token_cursor r)) \<notin> pid ` set (players r)"

lemma room_ok_reset: "room_ok (reset_lineup r) = room_ok r"
  by (simp add: room_ok_def host_ok_def lobby_ok_def outcome_ok_def memory_ok_def reset_lineup_def)

lemma admission_None:
  assumes "admission_error name r = None"
  shows "phase r = Lobby" and "\<forall>p\<in>set (players r). to_lower (pname p) \<noteq> to_lower name"
    and "length (players r) < 16" and "name \<noteq> []" and "length name \<le> 24"
  using assms
  by (auto simp: admission_error_def LIARS_MAX_PLAYERS_def LIARS_MAX_NAME_LENGTH_def player_count_def
      list_ex_iff split: if_splits)

lemma follow_roster_simps [simp]:
  "players (follow_roster r) = players r" "hostPlayerId (follow_roster r) = hostPlayerId r"
  "phase (follow_roster r) = phase r" "outcome_ok (follow_roster r) = outcome_ok r"
  "memory_ok (follow_roster r) = memory_ok r" "joinReceipts (follow_roster r) = joinReceipts r"
  "wall_clock (follow_roster r) = wall_clock r" "sha256_hex (follow_roster r) = sha256_hex r"
  "expiresAt (follow_roster r) = expiresAt r" "roomId (follow_roster r) = roomId r"
  "managed (follow_roster r) = managed r" "joinHash (follow_roster r) = joinHash r"
  "joinLocked (follow_roster r) = joinLocked r" "joinReceiptIds (follow_roster r) = joinReceiptIds r"
  "mode (follow_roster r) = mode r"
  by (simp_all add: follow_roster_def reset_lineup_def outcome_ok_def memory_ok_def)

definition seated :: "join_input \<Rightarrow> js_string \<Rightarrow> liars_room \<Rightarrow> liars_room" where
  "seated i h r = r\<lparr>token_cursor := Suc (Suc (token_cursor r)),
     players := players r @ [new_player (token_source r (Suc (token_cursor r)))
       (collapse_spaces (js_trim (ji_name i)))
       (hashMultiplayerCredential r (token_source r (token_cursor r))) (wall_clock r)],
     hostPlayerId := Some h\<rparr>"

lemma seated_simps [simp]:
  "outcome_ok (seated i h r) = outcome_ok r" "memory_ok (seated i h r) = memory_ok r"
  "hostPlayerId (seated i h r) = Some h"
  by (simp_all add: seated_def outcome_ok_def memory_ok_def)

text \<open>A seat taken: the two tokens drawn, the new player at the end, and a host.\<close>

lemma seat_player_eq:
  "\<exists>h. h \<in> {the (hostPlayerId r), token_source r (Suc (token_cursor r))} \<and>
     (hostPlayerId r = None \<longrightarrow> h = token_source r (Suc (token_cursor r))) \<and>
     seat_player i r = (token_source r (Suc (token_cursor r)), token_source r (token_cursor r),
       follow_roster (seated i h r))"
proof -
  let ?id = "token_source r (Suc (token_cursor r))" and ?tok = "token_source r (token_cursor r)"
  let ?ps = "players r @ [new_player ?id (collapse_spaces (js_trim (ji_name i)))
           (hashMultiplayerCredential r ?tok) (wall_clock r)]"
  let ?r3 = "r\<lparr>token_cursor := Suc (Suc (token_cursor r)), players := ?ps\<rparr>"
  have "seat_player i r = (?id, ?tok, follow_roster
      (let r4 = (if claims_host i ?r3 then ?r3\<lparr>hostPlayerId := Some ?id\<rparr> else ?r3)
       in if hostPlayerId r4 = None then r4\<lparr>hostPlayerId := Some ?id\<rparr> else r4))"
    by (simp add: seat_player_def createMultiplayerCredential_def Let_def)
  moreover have "(let r4 = (if b then ?r3\<lparr>hostPlayerId := Some ?id\<rparr> else ?r3)
       in if hostPlayerId r4 = None then r4\<lparr>hostPlayerId := Some ?id\<rparr> else r4) =
      ?r3\<lparr>hostPlayerId := Some (if b \<or> hostPlayerId r = None then ?id else the (hostPlayerId r))\<rparr>" for b
    by (cases "hostPlayerId r") (auto simp: Let_def)
  ultimately show ?thesis
    by (intro exI [of _ "if claims_host i ?r3 \<or> hostPlayerId r = None then ?id else the (hostPlayerId r)"])
      (simp add: seated_def)
qed

lemma seat_player_shape:
  assumes "seat_player i r = (playerId, playerToken, r')"
  shows "playerId = token_source r (Suc (token_cursor r))" and "playerToken = token_source r (token_cursor r)"
    and "players r' = players r @ [new_player playerId (collapse_spaces (js_trim (ji_name i)))
                                     (hashMultiplayerCredential r playerToken) (wall_clock r)]"
    and "hostPlayerId r' \<in> {hostPlayerId r, Some playerId}" and "phase r' = phase r"
    and "outcome_ok r' = outcome_ok r" and "memory_ok r' = memory_ok r"
    and "joinReceipts r' = joinReceipts r" and "wall_clock r' = wall_clock r" and "sha256_hex r' = sha256_hex r"
    and "expiresAt r' = expiresAt r" and "roomId r' = roomId r" and "hostPlayerId r' \<noteq> None"
    and "managed r' = managed r" and "joinHash r' = joinHash r" and "joinLocked r' = joinLocked r"
proof -
  obtain h where "h \<in> {the (hostPlayerId r), token_source r (Suc (token_cursor r))} \<and>
      (hostPlayerId r = None \<longrightarrow> h = token_source r (Suc (token_cursor r))) \<and>
      seat_player i r = (token_source r (Suc (token_cursor r)), token_source r (token_cursor r),
        follow_roster (seated i h r))"
    using seat_player_eq [of r i] by (rule exE)
  then have h: "h \<in> {the (hostPlayerId r), token_source r (Suc (token_cursor r))}"
      "hostPlayerId r = None \<longrightarrow> h = token_source r (Suc (token_cursor r))"
    and "seat_player i r = (token_source r (Suc (token_cursor r)), token_source r (token_cursor r),
       follow_roster (seated i h r))"
    by simp_all
  then have e: "playerId = token_source r (Suc (token_cursor r))" "playerToken = token_source r (token_cursor r)"
      "r' = follow_roster (seated i h r)"
    using assms by simp_all
  show "playerId = token_source r (Suc (token_cursor r))" "playerToken = token_source r (token_cursor r)"
    by (fact e)+
  show "hostPlayerId r' \<in> {hostPlayerId r, Some playerId}"
    using h by (cases "hostPlayerId r") (auto simp: e seated_def)
  show "players r' = players r @ [new_player playerId (collapse_spaces (js_trim (ji_name i)))
                                     (hashMultiplayerCredential r playerToken) (wall_clock r)]"
    "phase r' = phase r" "outcome_ok r' = outcome_ok r" "memory_ok r' = memory_ok r"
    "joinReceipts r' = joinReceipts r" "wall_clock r' = wall_clock r" "sha256_hex r' = sha256_hex r"
    "expiresAt r' = expiresAt r" "roomId r' = roomId r" "hostPlayerId r' \<noteq> None"
    "managed r' = managed r" "joinHash r' = joinHash r" "joinLocked r' = joinLocked r"
    by (simp_all add: e) (simp_all add: seated_def)
qed

lemma room_ok_seat:
  assumes "room_ok r" and "token_fresh r" and "seat_player i r = (playerId, playerToken, r')"
    and "admission_error (collapse_spaces (js_trim (ji_name i))) r = None"
  shows "room_ok r'"
proof -
  let ?name = "collapse_spaces (js_trim (ji_name i))"
  let ?p = "new_player playerId ?name (hashMultiplayerCredential r playerToken) (wall_clock r)"
  note s = seat_player_shape [OF assms(3)] and a = admission_None [OF assms(4)]
  have fresh: "playerId \<notin> pid ` set (players r)" using assms(2) by (simp add: token_fresh_def s(1))
  have p: "pid ?p = playerId" "pname ?p = ?name" "leftAt ?p = None" "alive ?p"
    by (simp_all add: new_player_def)
  have "to_lower ?name \<notin> (\<lambda>p. to_lower (pname p)) ` set (players r)" using a(2) by fastforce
  then have "seats_ok (players r')"
    using assms(1) fresh a(3) p unfolding s(3) by (auto simp: seats_ok_def room_ok_def)
  moreover have "host_ok r'"
    using assms(1) s(4) p unfolding host_ok_def room_ok_def present_def s(3) by auto
  moreover have "lobby_ok r'"
    using assms(1) s(5) p unfolding lobby_ok_def room_ok_def s(3) by auto
  ultimately show ?thesis using assms(1) s(6,7) by (simp add: room_ok_def)
qed

lemma room_ok_receipts: "room_ok (r\<lparr>joinReceipts := x\<rparr>) = room_ok r" "room_ok (r\<lparr>joinReceiptIds := y\<rparr>) = room_ok r"
  by (simp_all add: room_ok_def host_ok_def lobby_ok_def outcome_ok_def memory_ok_def)

lemma room_ok_join_postgres: "room_ok r \<Longrightarrow> token_fresh r \<Longrightarrow> room_ok (fst (join_postgres i r))"
  using room_ok_seat [of r i]
  by (auto simp: join_postgres_def Let_def room_ok_receipts split: option.split prod.split)

lemma room_ok_join_memory: "room_ok r \<Longrightarrow> token_fresh r \<Longrightarrow> room_ok (fst (fst (join_memory i (r, receipts))))"
  using room_ok_seat [of r i]
  by (auto simp: join_memory_def Let_def room_ok_receipts split: option.split prod.split)

lemma room_ok_read: "room_ok r \<Longrightarrow> room_ok (fst (read_room digest c who d r))"
proof -
  assume "room_ok r"
  then have "room_ok (snd (touch who (wall_clock r) False r))" by (rule room_ok_touch)
  with \<open>room_ok r\<close> show ?thesis by (simp add: read_room_def Let_def split_beta room_ok_advance)
qed

text \<open>Two rooms that serialise alike are both good.\<close>

lemma same_state_fields:
  assumes "same_state a b"
  shows "players b = players a" "hostPlayerId b = hostPlayerId a" "phase b = phase a" "winner b = winner a"
    "recentNarrationIds b = recentNarrationIds a" "graveyardBoard b = graveyardBoard a"
    "processedActions b = processedActions a" "recentWords b = recentWords a"
  using assms by (cases a; cases b; simp add: same_state_def)+

lemma room_ok_same_state: "room_ok a \<Longrightarrow> same_state a b \<Longrightarrow> room_ok b"
  using same_state_fields [of a b]
  by (simp add: room_ok_def host_ok_def lobby_ok_def outcome_ok_def memory_ok_def)

lemma room_ok_expiry: "room_ok r \<Longrightarrow> room_ok (applyRoomExpiry t r)"
  by (simp add: applyRoomExpiry_def room_ok_def host_ok_def lobby_ok_def outcome_ok_def memory_ok_def)

lemma create_room_fields:
  "create_room ex w input = Some (r, h, j) \<Longrightarrow> players r = [] \<and> phase r = Lobby \<and> joinReceipts r = [] \<and>
     managed r = ci_managed input \<and> joinLocked r = None \<and> mode r = ci_mode input"
  by (auto simp: create_room_def new_room_def Let_def createMultiplayerCredential_def
      split: prod.splits option.splits)

lemma room_ok_create: "create_room ex w input = Some (r, h, j) \<Longrightarrow> room_ok r"
  by (auto simp: create_room_def new_room_def Let_def createMultiplayerCredential_def room_ok_def seats_ok_def
      host_ok_def lobby_ok_def outcome_ok_def memory_ok_def split: prod.splits option.splits)

section \<open>Reachable rooms\<close>

text \<open>
  \<^verbatim>\<open>reach_services\<close> is the passing of time and of random draws: anything but the stored state may
  change between two calls. \<^verbatim>\<open>reach_save\<close> is the renewal of the lease on a save.
\<close>

inductive reachable :: "liars_room \<Rightarrow> bool" where
  reach_create: "create_room ex w input = Some (r, h, j) \<Longrightarrow> reachable r"
| reach_services: "reachable r \<Longrightarrow> same_state r r' \<Longrightarrow> reachable r'"
| reach_save: "reachable r \<Longrightarrow> reachable (applyRoomExpiry t r)"
| reach_read: "reachable r \<Longrightarrow> reachable (fst (read_room digest c who d r))"
| reach_join: "reachable r \<Longrightarrow> token_fresh r \<Longrightarrow> reachable (fst (join_postgres i r))"
| reach_join_memory: "reachable r \<Longrightarrow> token_fresh r \<Longrightarrow> reachable (fst (fst (join_memory i (r, receipts))))"
| reach_host: "reachable r \<Longrightarrow> 0 < hi_now h \<Longrightarrow> reachable (fst (liarsHostReduce h r))"
| reach_player: "reachable r \<Longrightarrow> 0 < pi_now p \<Longrightarrow> reachable (fst (liarsPlayerReduce p r))"

lemma reachable_room_ok: "reachable r \<Longrightarrow> room_ok r"
proof (induction rule: reachable.induct)
  case (reach_services r r')
  then show ?case using room_ok_same_state by blast
qed (auto simp: room_ok_create room_ok_expiry room_ok_read room_ok_join_postgres room_ok_join_memory
    room_ok_host room_ok_player)

text \<open>A reachable room with a player in it, for the witnesses.\<close>

definition sample_services :: services where
  "sample_services = test_services\<lparr>wall_clock := 1000\<rparr>"

definition sample_input :: create_input where
  "sample_input = \<lparr>ci_mode = ModeMafia, ci_roomMode = SameRoom, ci_toggles = None, ci_timings = None,
     ci_managed = False, ci_officialResultChannelId = None\<rparr>"

definition created_room :: liars_room where
  "created_room = fst (the (create_room (\<lambda>_. False) sample_services sample_input))"

definition ann :: join_input where
  "ann = \<lparr>ji_joinToken = None, ji_name = '' Ann '', ji_joinId = ''j1'', ji_hostToken = None\<rparr>"

definition joined_room :: liars_room where
  "joined_room = fst (join_postgres ann created_room)"

lemma create_sample: "\<exists>h j. create_room (\<lambda>_. False) sample_services sample_input = Some (created_room, h, j)"
proof -
  have "fst (createAvailableMultiplayerRoomId (\<lambda>_. False) w) \<noteq> None" for w :: services
    by (simp add: createAvailableMultiplayerRoomId_def numeral_eq_Suc split_beta Let_def)
  then have "create_room (\<lambda>_. False) sample_services sample_input \<noteq> None"
    by (simp add: create_room_def Let_def split_beta split: option.split prod.split)
  then show ?thesis by (auto simp: created_room_def)
qed

lemma created_fields:
  "players created_room = [] \<and> phase created_room = Lobby \<and> joinReceipts created_room = [] \<and>
   managed created_room = False \<and> joinLocked created_room = None \<and> mode created_room = ModeMafia"
  using create_sample create_room_fields [of "\<lambda>_. False" sample_services sample_input created_room]
  by (auto simp: sample_input_def)

lemma reachable_created_room: "reachable created_room"
  using create_sample by (auto intro: reach_create)

lemma reachable_joined_room: "reachable joined_room"
  unfolding joined_room_def
  by (rule reach_join [OF reachable_created_room]) (simp add: token_fresh_def created_fields)

lemma joined_room_host: "\<exists>i. hostPlayerId joined_room = Some i"
proof -
  obtain i t r' where s: "seat_player ann created_room = (i, t, r')" by (metis prod_cases3)
  have "admission_error (collapse_spaces (js_trim (ji_name ann))) created_room = None"
    using created_fields by (simp add: admission_error_def ann_def js_trim_def is_space_def
        LIARS_MAX_NAME_LENGTH_def LIARS_MAX_PLAYERS_def player_count_def)
  then have "hostPlayerId joined_room = hostPlayerId r'"
    using s created_fields by (simp add: joined_room_def join_postgres_def invite_refused_def ann_def Let_def)
  with seat_player_shape(13) [OF s] show ?thesis by auto
qed

section \<open>What holds of every reachable room\<close>

text \<open>C23. The host's seat is never held by a ghost: in every reachable room the host, when
  there is one, is a player of the room who has not left it, whatever joins, departures, removals,
  hand-overs, claims, starts that drop unready players and rematches led there.\<close>

theorem host_is_present:
  assumes "reachable r" and "hostPlayerId r = Some i"
  shows "\<exists>p\<in>set (players r). pid p = i \<and> leftAt p = None"
  using reachable_room_ok [OF assms(1)] assms(2) by (auto simp: room_ok_def host_ok_def present_def)

text \<open>C27. A reachable room has a winner exactly when its phase is the ending: no
  path shows an ending without a winner or goes on playing a decided game.\<close>

theorem winner_exactly_at_ending:
  "reachable r \<Longrightarrow> winner r \<noteq> None \<longleftrightarrow> phase r = Ending"
  using reachable_room_ok by (auto simp: room_ok_def outcome_ok_def)

text \<open>C29. What is stored of a room is bounded: at most sixteen players with distinct ids
  and, whatever their case, distinct names; nobody who left counts as alive; at most eight notes of
  the dead, three hundred remembered actions, forty words and fourteen narrations.\<close>

theorem reachable_bounds:
  assumes "reachable r"
  shows "length (players r) \<le> 16 \<and> distinct (map pid (players r)) \<and>
         distinct (map (\<lambda>p. to_lower (pname p)) (players r)) \<and>
         (\<forall>p\<in>set (players r). alive p \<longrightarrow> leftAt p = None) \<and>
         length (graveyardBoard r) \<le> 8 \<and> length (processedActions r) \<le> 300 \<and>
         length (recentWords r) \<le> 40 \<and> length (recentNarrationIds r) \<le> 14"
  using reachable_room_ok [OF assms] by (simp add: room_ok_def seats_ok_def outcome_ok_def memory_ok_def)

lemma host_is_present_witness:
  "\<exists>i. hostPlayerId joined_room = Some i \<and> (\<exists>p\<in>set (players joined_room). pid p = i \<and> leftAt p = None)"
proof -
  obtain i where "hostPlayerId joined_room = Some i" using joined_room_host by blast
  with host_is_present [OF reachable_joined_room this] show ?thesis by blast
qed

lemma winner_exactly_at_ending_witness: "winner joined_room \<noteq> None \<longleftrightarrow> phase joined_room = Ending"
  by (rule winner_exactly_at_ending [OF reachable_joined_room])

lemma reachable_bounds_witness:
  "length (players joined_room) \<le> 16 \<and> distinct (map (\<lambda>p. to_lower (pname p)) (players joined_room))"
  using reachable_bounds [OF reachable_joined_room] by simp

end
