(* ===== verification/LiarsJoinFacts.thy ===== *)
theory LiarsJoinFacts
  imports LiarsReachable LiarsSamples
begin

text \<open>Joining: who is admitted, and that a join whose answer was lost can be repeated.\<close>

section \<open>The new seat\<close>

abbreviation clean_name :: "join_input \<Rightarrow> js_string" where
  "clean_name i \<equiv> collapse_spaces (js_trim (ji_name i))"

lemma new_player_simps [simp]:
  "pname (new_player i name h t) = name" "tokenHash (new_player i name h t) = h"
  "pid (new_player i name h t) = i" "leftAt (new_player i name h t) = None" "alive (new_player i name h t)"
  by (simp_all add: new_player_def)

text \<open>
  What joins rely on from \<^verbatim>\<open>node:crypto\<close>: a digest has sixty-four hexadecimal characters, a token
  is a short non-empty text.
\<close>

definition crypto_ok :: "liars_room \<Rightarrow> bool" where
  "crypto_ok r \<longleftrightarrow> (\<forall>x. length (sha256_hex r x) = 64) \<and>
     token_source r (token_cursor r) \<noteq> [] \<and> length (token_source r (token_cursor r)) \<le> 120"

lemma seated_lookup:
  assumes "seat_player i r = (playerId, playerToken, r1)" and "token_fresh r"
  shows "player_by_id r1 playerId =
           Some (new_player playerId (clean_name i) (hashMultiplayerCredential r playerToken) (wall_clock r))"
proof -
  note s = seat_player_shape [OF assms(1)]
  have "find (\<lambda>p. pid p = playerId) (players r) = None"
    using assms(2) unfolding s(1) token_fresh_def by (auto simp: find_None_iff) (metis image_eqI)
  moreover have "find P (xs @ [x]) = (case find P xs of None \<Rightarrow> if P x then Some x else None | Some y \<Rightarrow> Some y)"
    for P and x :: player_state and xs by (induction xs) auto
  ultimately show ?thesis by (simp add: player_by_id_def s(3))
qed

lemma invite_refused_cong:
  assumes "sha256_hex r' = sha256_hex r" and "managed r' = managed r" and "joinHash r' = joinHash r"
  shows "invite_refused i r' = invite_refused i r"
  using assms by (cases "ji_joinToken i")
    (simp_all add: invite_refused_def multiplayerCredentialsMatch_def hashMultiplayerCredential_def)

lemma own_token_matches:
  assumes "crypto_ok r" and "seat_player i r = (playerId, playerToken, r1)" and "sha256_hex s = sha256_hex r"
  shows "multiplayerCredentialsMatch s playerToken (hashMultiplayerCredential r playerToken)"
proof -
  have "playerToken \<noteq> []" "length playerToken \<le> 120"
    using assms(1) unfolding seat_player_shape(2) [OF assms(2)] crypto_ok_def by auto
  then have "multiplayerCredentialsMatch s playerToken (hashMultiplayerCredential s playerToken)"
    using assms(1,3) by (intro credential_matches_own_hash) (simp_all add: crypto_ok_def)
  then show ?thesis using assms(3) by (simp add: hashMultiplayerCredential_def)
qed

section \<open>Repeating a join\<close>

text \<open>The in-memory join that seats a new player.\<close>

lemma join_memory_new:
  assumes "\<not> invite_refused i r" and "\<not> receipt_valid (fst (readJoinReceipt (roomId r) (ji_joinId i) (wall_clock r) receipts)) r"
    and "admission_error (clean_name i) r = None" and "seat_player i r = (playerId, playerToken, r1)"
  shows "\<exists>ids receipts1. join_memory i (r, receipts) =
    ((changed (r1\<lparr>joinReceiptIds := ids\<rparr>),
      receipts1(memoryReceiptKey (roomId r) (ji_joinId i) \<mapsto> next_receipt playerId playerToken r1)),
     Inr (joined (next_receipt playerId playerToken r1) (changed (r1\<lparr>joinReceiptIds := ids\<rparr>))))"
proof -
  obtain rc receipts1 where rd: "readJoinReceipt (roomId r) (ji_joinId i) (wall_clock r) receipts = (rc, receipts1)"
    by fastforce
  let ?ids = "if ji_joinId i \<in> set (joinReceiptIds r1) then joinReceiptIds r1 else joinReceiptIds r1 @ [ji_joinId i]"
  have "join_memory i (r, receipts) =
    ((changed (r1\<lparr>joinReceiptIds := ?ids\<rparr>),
      receipts1(memoryReceiptKey (roomId r) (ji_joinId i) \<mapsto> next_receipt playerId playerToken r1)),
     Inr (joined (next_receipt playerId playerToken r1) (changed (r1\<lparr>joinReceiptIds := ?ids\<rparr>))))"
    using assms rd by (simp add: join_memory_def Let_def)
  then show ?thesis by blast
qed

text \<open>
  When the in-memory store seated a new player and the same request comes again before its receipt expires,
  it finds the receipt: the answer names the same player and token, and the room is unchanged.
\<close>

lemma memory_join_retry:
  assumes "\<not> invite_refused i r" and "admission_error (clean_name i) r = None"
    and "\<not> receipt_valid (fst (readJoinReceipt (roomId r) (ji_joinId i) (wall_clock r) receipts)) r"
    and "crypto_ok r" and "token_fresh r"
    and "join_memory i (r, receipts) = ((r', receipts'), Inr ok)"
    and "t < min (expiresAt r) (wall_clock r + 120000)"
  shows "\<exists>ok'. join_memory i (r'\<lparr>wall_clock := t\<rparr>, receipts') = ((r'\<lparr>wall_clock := t\<rparr>, receipts'), Inr ok') \<and>
           js_playerId ok' = js_playerId ok \<and> js_playerToken ok' = js_playerToken ok"
proof -
  obtain playerId playerToken r1 where s: "seat_player i r = (playerId, playerToken, r1)" by (metis prod_cases3)
  let ?rc = "next_receipt playerId playerToken r1" and ?key = "memoryReceiptKey (roomId r) (ji_joinId i)"
  note f = seat_player_shape [OF s]
  obtain ids receipts1 where j: "r' = changed (r1\<lparr>joinReceiptIds := ids\<rparr>)" "receipts' = receipts1(?key \<mapsto> ?rc)"
      "ok = joined ?rc r'"
    using join_memory_new [OF assms(1,3,2) s] assms(6) by auto
  let ?s = "r'\<lparr>wall_clock := t\<rparr>"
  have inv: "\<not> invite_refused i ?s"
    using assms(1) f(10,14,15) invite_refused_cong [of ?s r i] by (simp add: j(1))
  have rc: "readJoinReceipt (roomId ?s) (ji_joinId i) t receipts' = (Some ?rc, receipts')"
    using assms(7) f(9,11,12) by (simp add: readJoinReceipt_def Let_def j(1,2) next_receipt_def
        JOIN_RECEIPT_TTL_SECONDS_def min_le_iff_disj)
  have p: "player_by_id ?s playerId =
      Some (new_player playerId (clean_name i) (hashMultiplayerCredential r playerToken) (wall_clock r))"
    using seated_lookup [OF s assms(5)] by (simp add: player_by_id_def j(1))
  have "multiplayerCredentialsMatch ?s playerToken (hashMultiplayerCredential r playerToken)"
    by (rule own_token_matches [OF assms(4) s]) (simp add: j(1) f(10))
  then have v: "receipt_valid (Some ?rc) ?s"
    using p by (simp add: receipt_valid_def receipt_player_def next_receipt_def)
  have "join_memory i (?s, receipts') = ((?s, receipts'), Inr (joined ?rc ?s))"
    using inv rc v by (simp add: join_memory_def Let_def)
  then show ?thesis by (intro exI conjI, assumption) (simp_all add: j(3) joined_def)
qed

text \<open>Ann joins the sample table.\<close>

lemma ann_admitted: "admission_error (clean_name ann) (five_room\<lparr>joinReceipts := x\<rparr>) = None"
proof -
  have "clean_name ann = ''Ann''" by (simp add: ann_def js_trim_def is_space_def)
  then show ?thesis
    by (simp add: admission_error_def sample_defs to_lower_def lower_char_def LIARS_MAX_NAME_LENGTH_def
        LIARS_MAX_PLAYERS_def player_count_def)
qed

lemma ann_fresh: "token_fresh (five_room\<lparr>joinReceipts := x\<rparr>)" "crypto_ok (five_room\<lparr>joinReceipts := x\<rparr>)"
  by (simp_all add: token_fresh_def crypto_ok_def five_room_def five_players_def sample_room_def test_services_def
      nat_str.simps)

section \<open>Repeating a durable join\<close>

text \<open>Further joins of anybody, each at its own time.\<close>

fun run_joins :: "(int \<times> join_input) list \<Rightarrow> liars_room \<Rightarrow> liars_room" where
  "run_joins [] r = r"
| "run_joins ((t, i) # js) r = run_joins js (fst (join_postgres i (r\<lparr>wall_clock := t\<rparr>)))"

text \<open>What a durable join leaves behind, and every later one keeps while the receipt runs.\<close>

definition receipt_kept :: "js_string \<Rightarrow> join_receipt \<Rightarrow> player_state \<Rightarrow> liars_room \<Rightarrow> liars_room \<Rightarrow> bool" where
  "receipt_kept joinId rc p r s \<longleftrightarrow>
     map_of (joinReceipts s) joinId = Some rc \<and> player_by_id s (jr_playerId rc) = Some p \<and>
     sha256_hex s = sha256_hex r \<and> managed s = managed r \<and> joinHash s = joinHash r"

lemma receipt_kept_clock [simp]: "receipt_kept joinId rc p r (s\<lparr>wall_clock := t\<rparr>) = receipt_kept joinId rc p r s"
  by (simp add: receipt_kept_def player_by_id_def)

lemma map_of_filter_keeps: "map_of xs k = Some v \<Longrightarrow> P (k, v) \<Longrightarrow> map_of (filter P xs) k = Some v"
  by (induction xs) auto

lemma map_of_filter_none: "list_all (\<lambda>x. fst x = k \<longrightarrow> \<not> P x) xs \<Longrightarrow> map_of (filter P xs) k = None"
  by (induction xs) auto

text \<open>A durable join either leaves the room or seats a player behind the others.\<close>

lemma join_postgres_cases:
  obtains (same) x where "join_postgres i r = (r, x)"
  | (new) playerId playerToken r1 where "seat_player i r = (playerId, playerToken, r1)"
      "admission_error (clean_name i) r = None" "\<not> invite_refused i r"
      "join_postgres i r =
         (let all = filter (\<lambda>(_, x). wall_clock r < jr_expiresAt x) (joinReceipts r) @
                      [(ji_joinId i, next_receipt playerId playerToken r1)];
              r2 = changed (r1\<lparr>joinReceipts := all, joinReceiptIds := map fst all\<rparr>)
          in (r2, Inr (joined (next_receipt playerId playerToken r1) r2)))"
proof (cases "invite_refused i r \<or> (case map_of (joinReceipts r) (ji_joinId i) of None \<Rightarrow> False | Some rc \<Rightarrow> wall_clock r < jr_expiresAt rc) \<and>
    receipt_valid (map_of (joinReceipts r) (ji_joinId i)) r \<or> admission_error (clean_name i) r \<noteq> None")
  case True
  then show thesis
    by (intro same [of "snd (join_postgres i r)"]) (auto simp: join_postgres_def Let_def split: option.split)
next
  case False
  obtain playerId playerToken r1 where s: "seat_player i r = (playerId, playerToken, r1)" by (metis prod_cases3)
  note f = seat_player_shape [OF s]
  show thesis
    by (rule new [OF s]) (use False f(8,9) s in \<open>auto simp: join_postgres_def Let_def\<close>)
qed

lemma find_front: "find P xs = Some x \<Longrightarrow> find P (xs @ ys) = Some x"
  by (induction xs) (auto split: if_splits)

lemma join_keeps_receipt:
  assumes "receipt_kept joinId rc p r s" and "wall_clock s < jr_expiresAt rc"
  shows "receipt_kept joinId rc p r (fst (join_postgres i s))"
proof (cases rule: join_postgres_cases [of i s])
  case (same x)
  then show ?thesis using assms(1) by simp
next
  case (new playerId playerToken r1)
  note f = seat_player_shape [OF new(1)]
  have "map_of (filter (\<lambda>(_, x). wall_clock s < jr_expiresAt x) (joinReceipts s)) joinId = Some rc"
    using assms by (intro map_of_filter_keeps) (simp_all add: receipt_kept_def)
  moreover have "find (\<lambda>q. pid q = jr_playerId rc) (players s @ qs) = Some p" for qs
    using assms(1) by (simp add: receipt_kept_def player_by_id_def find_front)
  ultimately show ?thesis
    using assms(1) new(4) f(10,14,15) by (simp add: receipt_kept_def player_by_id_def f(3) Let_def)
qed

lemma joins_keep_receipt:
  "receipt_kept joinId rc p r s \<Longrightarrow> list_all (\<lambda>(t, _). t < jr_expiresAt rc) js \<Longrightarrow> receipt_kept joinId rc p r (run_joins js s)"
proof (induction js arbitrary: s)
  case (Cons x js)
  obtain t i where x: "x = (t, i)" by fastforce
  have "receipt_kept joinId rc p r (fst (join_postgres i (s\<lparr>wall_clock := t\<rparr>)))"
    using Cons.prems by (intro join_keeps_receipt) (simp_all add: x)
  then show ?case using Cons.IH Cons.prems(2) by (simp add: x)
qed simp

text \<open>C33. A join of the durable store can be repeated. When a join was granted, and the
  room held no running receipt under its join id, then after any further joins of anybody and until the
  receipt expires (two minutes, or the room's end), the same request is answered with the same player and
  token and leaves the room as it is. (A running receipt of a removed player under the same id is the case
  in which it does not hold; whoever leaves or is removed in between gets no seat back.)\<close>

theorem join_retry_returns_the_seat:
  assumes "join_postgres i r = (r', Inr ok)"
    and "list_all (\<lambda>(k, x). k = ji_joinId i \<longrightarrow> jr_expiresAt x \<le> wall_clock r) (joinReceipts r)"
    and "crypto_ok r" and "token_fresh r"
    and "list_all (\<lambda>(tj, _). tj < min (expiresAt r) (wall_clock r + 120000)) js"
    and "t < min (expiresAt r) (wall_clock r + 120000)"
  shows "\<exists>ok'. join_postgres i ((run_joins js r')\<lparr>wall_clock := t\<rparr>) = ((run_joins js r')\<lparr>wall_clock := t\<rparr>, Inr ok') \<and>
           js_playerId ok' = js_playerId ok \<and> js_playerToken ok' = js_playerToken ok"
proof -
  have fresh: "\<not> (case map_of (joinReceipts r) (ji_joinId i) of None \<Rightarrow> False | Some rc \<Rightarrow> wall_clock r < jr_expiresAt rc)"
    using assms(2) by (auto simp: list_all_iff dest!: map_of_SomeD split: option.split)
  obtain playerId playerToken r1 where s: "seat_player i r = (playerId, playerToken, r1)" by (metis prod_cases3)
  let ?rc = "next_receipt playerId playerToken r1" and ?h = "hashMultiplayerCredential r playerToken"
  let ?all = "filter (\<lambda>(_, x). wall_clock r < jr_expiresAt x) (joinReceipts r) @ [(ji_joinId i, ?rc)]"
  note f = seat_player_shape [OF s]
  have inv: "\<not> invite_refused i r" using assms(1) by (auto simp: join_postgres_def)
  have j: "r' = changed (r1\<lparr>joinReceipts := ?all, joinReceiptIds := map fst ?all\<rparr>)" "ok = joined ?rc r'"
    using assms(1) inv fresh s f(8,9) by (auto simp: join_postgres_def Let_def split: option.splits)
  let ?p = "new_player playerId (clean_name i) ?h (wall_clock r)"
  have none: "map_of (filter (\<lambda>(_, x). wall_clock r < jr_expiresAt x) (joinReceipts r)) (ji_joinId i) = None"
    using assms(2) by (intro map_of_filter_none) (auto simp: list_all_iff)
  have "player_by_id r1 playerId = Some ?p" by (rule seated_lookup [OF s assms(4)])
  then have kept: "receipt_kept (ji_joinId i) ?rc ?p r r'"
    using f(10,14,15) none by (simp add: receipt_kept_def j(1) player_by_id_def next_receipt_def map_add_def)
  have e: "jr_expiresAt ?rc = min (expiresAt r) (wall_clock r + 120000)"
    using f(9,11) by (simp add: next_receipt_def JOIN_RECEIPT_TTL_SECONDS_def)
  let ?s = "(run_joins js r')\<lparr>wall_clock := t\<rparr>"
  have k: "receipt_kept (ji_joinId i) ?rc ?p r ?s"
    using joins_keep_receipt [OF kept, of js] assms(5) unfolding e by simp
  have "\<not> invite_refused i ?s"
    using inv k invite_refused_cong [of ?s r i] by (simp add: receipt_kept_def)
  moreover have "multiplayerCredentialsMatch ?s playerToken ?h"
    by (rule own_token_matches [OF assms(3) s]) (use k in \<open>simp add: receipt_kept_def\<close>)
  then have "receipt_valid (Some ?rc) ?s"
    using k by (simp add: receipt_kept_def receipt_valid_def receipt_player_def next_receipt_def)
  moreover have "t < jr_expiresAt ?rc" unfolding e by (rule assms(6))
  ultimately have "join_postgres i ?s = (?s, Inr (joined ?rc ?s))"
    using k by (simp add: join_postgres_def receipt_kept_def Let_def)
  then show ?thesis by (intro exI conjI, assumption) (simp_all add: j(2) joined_def)
qed

text \<open>Bo joins in between.\<close>

definition bo :: join_input where
  "bo = \<lparr>ji_joinToken = None, ji_name = ''Bo'', ji_joinId = ''j2'', ji_hostToken = None\<rparr>"

lemma join_retry_returns_the_seat_witness:
  "\<exists>r' ok ok'. join_postgres ann five_room = (r', Inr ok) \<and>
     join_postgres ann ((run_joins [(3, bo), (4, ann)] r')\<lparr>wall_clock := 5\<rparr>) =
       ((run_joins [(3, bo), (4, ann)] r')\<lparr>wall_clock := 5\<rparr>, Inr ok') \<and>
     js_playerId ok' = js_playerId ok \<and> js_playerToken ok' = js_playerToken ok"
proof -
  have room: "five_room\<lparr>joinReceipts := []\<rparr> = five_room" by (simp add: five_room_def sample_room_def)
  obtain a b c where s: "seat_player ann five_room = (a, b, c)" by (metis prod_cases3)
  have inv: "\<not> invite_refused ann five_room" by (simp add: invite_refused_def ann_def five_room_def)
  have rs: "joinReceipts five_room = []" by (simp add: five_room_def sample_room_def)
  obtain r' ok where j: "join_postgres ann five_room = (r', Inr ok)"
    using inv s rs ann_admitted [of "[]"] unfolding room by (simp add: join_postgres_def receipt_valid_def Let_def)
  show ?thesis
    using join_retry_returns_the_seat [OF j, of "[(3, bo), (4, ann)]" 5] j ann_fresh [of "[]"]
    unfolding room by (simp add: rs del: run_joins.simps) (simp add: five_room_def del: run_joins.simps)
qed

section \<open>The durable store forgets to forget\<close>

text \<open>The durable store looks a receipt up from the oldest: when an earlier receipt of
  the same join id is still running but its player is gone, a new join succeeds and appends its own
  receipt behind it; the lookup still finds the old one, so repeating the join is refused because
  the name is taken, by the caller's own new seat.\<close>

theorem stale_receipt_blocks_retry:
  assumes "\<not> invite_refused i r" and "admission_error (clean_name i) r = None"
    and "map_of (joinReceipts r) (ji_joinId i) = Some old" and "wall_clock r < jr_expiresAt old"
    and "player_by_id r (jr_playerId old) = None" and "distinct (map fst (joinReceipts r))"
    and "jr_playerId old \<noteq> token_source r (Suc (token_cursor r))"
  shows "\<exists>ok. snd (join_postgres i r) = Inr ok \<and> snd (join_postgres i (fst (join_postgres i r))) = Inl NameTaken"
proof -
  obtain playerId playerToken r1 where s: "seat_player i r = (playerId, playerToken, r1)" by (metis prod_cases3)
  note f = seat_player_shape [OF s] and a = admission_None [OF assms(2)]
  let ?kept = "filter (\<lambda>(_, x). wall_clock r1 < jr_expiresAt x) (joinReceipts r1)"
  let ?all = "?kept @ [(ji_joinId i, next_receipt playerId playerToken r1)]"
  let ?r' = "changed (r1\<lparr>joinReceipts := ?all, joinReceiptIds := map fst ?all\<rparr>)"
  have "\<not> receipt_valid (Some old) r" using assms(5) by (simp add: receipt_valid_def receipt_player_def)
  then have j: "join_postgres i r = (?r', Inr (joined (next_receipt playerId playerToken r1) ?r'))"
    using assms(1-4) s by (simp add: join_postgres_def Let_def)
  have inv: "\<not> invite_refused i ?r'"
    using assms(1) f(10,14,15) invite_refused_cong [of ?r' r i] by simp
  have "(ji_joinId i, old) \<in> set ?kept"
    using assms(3,4) f(8,9) by (auto dest: map_of_SomeD)
  moreover have "distinct (map fst ?kept)" using assms(6) f(8) by (simp add: distinct_map_filter)
  ultimately have "map_of ?kept (ji_joinId i) = Some old" by (rule map_of_is_SomeI [rotated])
  then have look: "map_of (joinReceipts ?r') (ji_joinId i) = Some old" by simp
  have ps: "players ?r' = players r @ [new_player playerId (clean_name i) (hashMultiplayerCredential r playerToken) (wall_clock r)]"
    by (simp add: f(3))
  have "player_by_id ?r' (jr_playerId old) = None"
    using assms(5,7) f(1) unfolding player_by_id_def ps by (auto simp: find_None_iff)
  then have nv: "\<not> receipt_valid (Some old) ?r'" by (simp add: receipt_valid_def receipt_player_def)
  have "admission_error (clean_name i) ?r' = Some NameTaken"
    using a f(5,16) assms(2) unfolding admission_error_def ps
    by (auto split: if_splits)
  then have "snd (join_postgres i ?r') = Inl NameTaken"
    using inv look nv by (simp add: join_postgres_def Let_def)
  with j show ?thesis by simp
qed

lemma stale_receipt_blocks_retry_witness:
  "\<exists>ok. snd (join_postgres ann (five_room\<lparr>joinReceipts :=
           [(''j1'', \<lparr>jr_playerId = ''gone'', jr_playerToken = ''t'', jr_expiresAt = 100\<rparr>)]\<rparr>)) = Inr ok \<and>
     snd (join_postgres ann (fst (join_postgres ann (five_room\<lparr>joinReceipts :=
           [(''j1'', \<lparr>jr_playerId = ''gone'', jr_playerToken = ''t'', jr_expiresAt = 100\<rparr>)]\<rparr>)))) = Inl NameTaken"
proof (rule stale_receipt_blocks_retry)
  show "admission_error (clean_name ann) (five_room\<lparr>joinReceipts :=
           [(''j1'', \<lparr>jr_playerId = ''gone'', jr_playerToken = ''t'', jr_expiresAt = 100\<rparr>)]\<rparr>) = None"
    by (rule ann_admitted)
qed (simp_all add: invite_refused_def ann_def sample_defs player_by_id_def,
    simp_all add: sample_room_def test_services_def nat_str.simps)

end
