(* ===== verification/TwinDeck.thy ===== *)
theory TwinDeck
  imports Multiplayer
begin

text \<open>
  The deck of "Twin" (\<^verbatim>\<open>features/things/twin/twin-deck.ts\<close>, \<^verbatim>\<open>twin-symbols.ts\<close>): the finite
  projective plane of an order computed over its Galois field, the symbols painted on it, the plan
  of a deal, the seeded shuffle and the symbol two cards share. A field element is the integer that
  encodes its coefficients; a table is a list read at \<^verbatim>\<open>a * order + b\<close>. The caches of the source
  hold values of pure functions and are not modelled.
\<close>

unbundle bit_operations_syntax

section \<open>Galois fields\<close>

text \<open>Prime, degree and irreducible polynomial of the prime-power orders.\<close>

definition EXTENSIONS :: "int \<Rightarrow> (int \<times> nat \<times> int list) option" where
  "EXTENSIONS order =
     (if order = 4 then Some (2, 2, [1, 1, 1])
      else if order = 8 then Some (2, 3, [1, 1, 0, 1])
      else if order = 9 then Some (3, 2, [1, 0, 1])
      else None)"

definition field_prime :: "int \<Rightarrow> int" where
  "field_prime order = (case EXTENSIONS order of None \<Rightarrow> order | Some (p, _, _) \<Rightarrow> p)"

definition field_degree :: "int \<Rightarrow> nat" where
  "field_degree order = (case EXTENSIONS order of None \<Rightarrow> 1 | Some (_, d, _) \<Rightarrow> d)"

fun field_digits :: "int \<Rightarrow> nat \<Rightarrow> int \<Rightarrow> int list" where
  "field_digits prime 0 rest = []"
| "field_digits prime (Suc d) rest = (rest mod prime) # field_digits prime d (rest div prime)"

definition field_encode :: "int \<Rightarrow> int list \<Rightarrow> int" where
  "field_encode prime coefficients =
     fst (foldl (\<lambda>(total, index) c. (total + c * prime ^ index, Suc index)) (0, 0) coefficients)"

definition add_entry :: "int \<Rightarrow> int \<Rightarrow> int \<Rightarrow> int" where
  "add_entry order a b =
     (let p = field_prime order; d = field_degree order
      in field_encode p (map2 (\<lambda>x y. (x + y) mod p) (field_digits p d a) (field_digits p d b)))"

text \<open>The polynomial product, and its reduction from the top power down.\<close>

definition poly_product :: "int \<Rightarrow> nat \<Rightarrow> int list \<Rightarrow> int list \<Rightarrow> int list" where
  "poly_product p d left right =
     fold (\<lambda>(i, j) raw. raw[i + j := (raw ! (i + j) + left ! i * right ! j) mod p])
       (List.product [0..<d] [0..<d]) (replicate ((d - 1) * 2 + 1) 0)"

definition reduce_power :: "int \<Rightarrow> nat \<Rightarrow> int list \<Rightarrow> nat \<Rightarrow> int list \<Rightarrow> int list" where
  "reduce_power p d polynomial pw raw =
     (let coefficient = raw ! pw in
      if coefficient = 0 then raw
      else fold (\<lambda>index raw. raw[pw - d + index :=
                   (raw ! (pw - d + index) - coefficient * polynomial ! index + p * p) mod p])
             [0..<d] (raw[pw := 0]))"

definition multiply_entry :: "int \<Rightarrow> int \<Rightarrow> int \<Rightarrow> int" where
  "multiply_entry order a b =
     (let p = field_prime order; d = field_degree order;
          raw = poly_product p d (field_digits p d a) (field_digits p d b);
          raw' = (case EXTENSIONS order of
                    None \<Rightarrow> raw
                  | Some (_, _, polynomial) \<Rightarrow>
                      fold (reduce_power p d polynomial) (rev [d..<length raw]) raw)
      in field_encode p (take d raw'))"

definition field_table :: "int \<Rightarrow> (int \<Rightarrow> int \<Rightarrow> int) \<Rightarrow> int list" where
  "field_table order entry =
     concat (map (\<lambda>a. map (entry a) [0..order - 1]) [0..order - 1])"

definition table_at :: "int \<Rightarrow> int list \<Rightarrow> int \<Rightarrow> int \<Rightarrow> int" where
  "table_at order table a b = table ! nat (a * order + b)"

definition inverse_table :: "int \<Rightarrow> int list \<Rightarrow> int list" where
  "inverse_table order multiplyTable =
     fold (\<lambda>(a, b) inverses. if table_at order multiplyTable a b = 1 then inverses[nat a := b] else inverses)
       (List.product [1..order - 1] [1..order - 1]) (replicate (nat order) (- 1))"

record galois_field =
  gf_order :: int
  gf_add :: "int \<Rightarrow> int \<Rightarrow> int"
  gf_multiply :: "int \<Rightarrow> int \<Rightarrow> int"
  gf_inverse :: "int \<Rightarrow> int"

definition galoisField :: "int \<Rightarrow> galois_field" where
  "galoisField order =
     (let addTable = field_table order (add_entry order);
          multiplyTable = field_table order (multiply_entry order);
          inverses = inverse_table order multiplyTable
      in \<lparr>gf_order = order, gf_add = table_at order addTable, gf_multiply = table_at order multiplyTable,
          gf_inverse = (\<lambda>a. inverses ! nat a)\<rparr>)"

section \<open>The plane\<close>

definition twinDeckCapacity :: "int \<Rightarrow> int" where
  "twinDeckCapacity order = order * order + order + 1"

definition twinSymbolsPerCard :: "int \<Rightarrow> int" where
  "twinSymbolsPerCard order = order + 1"

text \<open>One turn of the three loops that collect the normalised points; \<^verbatim>\<open>seen\<close> holds their keys.\<close>

definition collect_point :: "galois_field \<Rightarrow> int list \<Rightarrow> int list list \<Rightarrow> int list list" where
  "collect_point field triple points =
     (case find (\<lambda>v. v \<noteq> 0) triple of
        None \<Rightarrow> points
      | Some lead \<Rightarrow>
          (let scale = gf_inverse field lead;
               normalised = map (\<lambda>v. gf_multiply field v scale) triple
           in if normalised \<in> set points then points else points @ [normalised]))"

definition plane_points :: "galois_field \<Rightarrow> int list list" where
  "plane_points field =
     (let axis = [0..gf_order field - 1]
      in fold (collect_point field)
           (concat (map (\<lambda>x. concat (map (\<lambda>y. map (\<lambda>z. [x, y, z]) axis) axis)) axis)) [])"

definition dot_product :: "galois_field \<Rightarrow> int list \<Rightarrow> int list \<Rightarrow> int" where
  "dot_product field point line =
     foldl (\<lambda>sum (coefficient, l). gf_add field sum (gf_multiply field coefficient l)) 0 (zip point line)"

definition plane_line :: "galois_field \<Rightarrow> int list list \<Rightarrow> int list \<Rightarrow> nat list" where
  "plane_line field points line =
     map fst (filter (\<lambda>(_, point). dot_product field point line = 0) (enumerate 0 points))"

definition twinPlane :: "int \<Rightarrow> nat list list" where
  "twinPlane order =
     (let field = galoisField order; points = plane_points field
      in map (plane_line field points) points)"

section \<open>Symbols and cards\<close>

text \<open>The ids of \<^verbatim>\<open>TWIN_SYMBOLS\<close>; the drawings are not modelled.\<close>

definition TWIN_SYMBOLS :: "js_string list" where
  "TWIN_SYMBOLS =
     [''ring'', ''triangle'', ''square'', ''pentagon'', ''hexagon'', ''teardrop'', ''crescent'', ''heart'',
      ''leaf'', ''capsule'', ''shield'', ''blob'', ''star4'', ''star5'', ''star6'', ''burst'', ''flower'',
      ''cross'', ''bolt'', ''wave'', ''spiral'', ''chevron'', ''hook'', ''infinity'', ''ladder'', ''eye'',
      ''key'', ''anchor'', ''triad'', ''window'', ''arrow'']"

definition TWIN_SYMBOL_COUNT :: int where
  "TWIN_SYMBOL_COUNT = int (length TWIN_SYMBOLS)"

text \<open>\<^verbatim>\<open>None\<close> is the thrown error.\<close>

definition twinSymbolIds :: "int \<Rightarrow> js_string list option" where
  "twinSymbolIds n =
     (if TWIN_SYMBOL_COUNT < n then None else Some (take (nat n) TWIN_SYMBOLS))"

record twin_card =
  tc_id :: js_string
  tc_symbolIds :: "js_string list"

definition twinDeck :: "int \<Rightarrow> twin_card list option" where
  "twinDeck order =
     (case twinSymbolIds (twinDeckCapacity order) of
        None \<Rightarrow> None
      | Some symbolIds \<Rightarrow>
          Some (map (\<lambda>(index, line). \<lparr>tc_id = ''o'' @ int_str order @ ''c'' @ nat_str index,
                                      tc_symbolIds = map (\<lambda>point. symbolIds ! point) line\<rparr>)
                 (enumerate 0 (twinPlane order))))"

text \<open>The index of the deck by id.\<close>

definition twinCardById :: "int \<Rightarrow> js_string \<Rightarrow> twin_card option" where
  "twinCardById order i =
     (case twinDeck order of None \<Rightarrow> None | Some deck \<Rightarrow> map_of (map (\<lambda>c. (tc_id c, c)) deck) i)"

text \<open>The single symbol two cards share.\<close>

definition twinMatch :: "twin_card \<Rightarrow> twin_card \<Rightarrow> js_string option" where
  "twinMatch left right =
     (case filter (\<lambda>i. i \<in> set (tc_symbolIds right)) (tc_symbolIds left) of
        [x] \<Rightarrow> Some x
      | _ \<Rightarrow> None)"

section \<open>Planning a deal\<close>

definition TWIN_ORDERS :: "int list" where
  "TWIN_ORDERS = [4, 5, 7]"

definition TWIN_MIN_HAND :: nat where "TWIN_MIN_HAND = 3"
definition TWIN_MAX_HAND :: nat where "TWIN_MAX_HAND = 10"
definition TWIN_DEFAULT_HAND :: nat where "TWIN_DEFAULT_HAND = 6"
definition TWIN_MAX_PLAYERS :: int where "TWIN_MAX_PLAYERS = 12"

definition twinAvailableOrders :: "int \<Rightarrow> int list" where
  "twinAvailableOrders symbolCount = filter (\<lambda>order. twinDeckCapacity order \<le> symbolCount) TWIN_ORDERS"

record twin_plan =
  plan_order :: int
  plan_handSize :: nat

text \<open>The loop over hand sizes from the wanted one down to the smallest.\<close>

fun plan_from :: "nat \<Rightarrow> int list \<Rightarrow> nat \<Rightarrow> twin_plan option" where
  "plan_from players orders 0 = None"
| "plan_from players orders (Suc h) =
     (if Suc h < TWIN_MIN_HAND then None
      else case find (\<lambda>order. int (players * Suc h + 1) \<le> twinDeckCapacity order) orders of
             Some order \<Rightarrow> Some \<lparr>plan_order = order, plan_handSize = Suc h\<rparr>
           | None \<Rightarrow> plan_from players orders h)"

definition planTwinDeck :: "nat \<Rightarrow> nat \<Rightarrow> int \<Rightarrow> twin_plan option" where
  "planTwinDeck players preferredHand symbolCount =
     plan_from players (twinAvailableOrders symbolCount) (max TWIN_MIN_HAND (min TWIN_MAX_HAND preferredHand))"

definition twinMaxPlayers :: "int \<Rightarrow> int" where
  "twinMaxPlayers symbolCount =
     (let orders = twinAvailableOrders symbolCount in
      if orders = [] then 0
      else min TWIN_MAX_PLAYERS ((Max (twinDeckCapacity ` set orders) - 1) div int TWIN_MIN_HAND))"

section \<open>The seeded shuffle\<close>

text \<open>\<^verbatim>\<open>twinRandom\<close>: thirty-two bit arithmetic; \<^verbatim>\<open>imul\<close> is the product of words.\<close>

definition twin_random :: "32 word \<Rightarrow> 32 word \<times> 32 word" where
  "twin_random state =
     (let state' = state + 0x6d2b79f5;
          value1 = (state' XOR drop_bit 15 state') * (1 OR state');
          value2 = (value1 + (value1 XOR drop_bit 7 value1) * (61 OR value1)) XOR value1
      in (value2 XOR drop_bit 14 value2, state'))"

text \<open>\<^verbatim>\<open>Math.floor(random() * n)\<close>.\<close>

definition twin_pick :: "32 word \<Rightarrow> nat \<Rightarrow> nat \<times> 32 word" where
  "twin_pick state n = (let (value, state') = twin_random state in (scale_draw value n, state'))"

definition shuffleTwinDeck :: "'a list \<Rightarrow> 32 word \<Rightarrow> 'a list" where
  "shuffleTwinDeck items seed = fst (shuffle twin_pick items seed)"

interpretation seeded: random_source twin_pick
  by unfold_locales (simp add: twin_pick_def scale_draw_below split_beta)

section \<open>Dealing\<close>

record twin_deal =
  deal_hands :: "twin_card list list"
  deal_middle :: twin_card

text \<open>\<^verbatim>\<open>None\<close> is a thrown error: no such deck, or too few cards.\<close>

definition dealTwin :: "twin_plan \<Rightarrow> nat \<Rightarrow> int \<Rightarrow> twin_deal option" where
  "dealTwin plan players seed =
     (case twinDeck (plan_order plan) of
        None \<Rightarrow> None
      | Some deck \<Rightarrow>
          (let shuffled = shuffleTwinDeck deck (word_of_int seed);
               h = plan_handSize plan
           in if length shuffled < players * h + 1 then None
              else Some \<lparr>deal_hands = map (\<lambda>seat. take h (drop (seat * h) shuffled)) [0..<players],
                         deal_middle = shuffled ! (players * h)\<rparr>))"


section \<open>The geometry\<close>

text \<open>
  What a plane of an order is: as many lines as the capacity, pairwise different, each of one more
  point than the order, and any two of them meeting in exactly one point.
\<close>

definition plane_ok :: "nat \<Rightarrow> nat list list \<Rightarrow> bool" where
  "plane_ok order ls \<longleftrightarrow>
     length ls = order * order + order + 1 \<and> distinct ls \<and>
     list_all (\<lambda>l. length l = Suc order \<and> distinct l \<and> list_all (\<lambda>p. p < order * order + order + 1) l) ls \<and>
     list_all (\<lambda>l. list_all (\<lambda>m. l = m \<or> length (filter (\<lambda>p. p \<in> set m) l) = 1) ls) ls"

lemma plane_ok_4: "plane_ok 4 (twinPlane 4)"
  by code_simp

lemma plane_ok_5: "plane_ok 5 (twinPlane 5)"
  by code_simp

lemma length_TWIN_SYMBOLS [simp]: "length TWIN_SYMBOLS = 31" "TWIN_SYMBOL_COUNT = 31"
  by (simp_all add: TWIN_SYMBOLS_def TWIN_SYMBOL_COUNT_def)

lemma distinct_TWIN_SYMBOLS: "distinct TWIN_SYMBOLS"
  by (simp add: TWIN_SYMBOLS_def)

lemma available_orders [simp]: "twinAvailableOrders 31 = [4, 5]"
  by (simp add: twinAvailableOrders_def TWIN_ORDERS_def twinDeckCapacity_def)

text \<open>Painting symbols on the points by an injective map keeps the meeting points.\<close>

lemma filter_map_inj:
  assumes "inj_on f A" and "set l \<subseteq> A" and "set m \<subseteq> A"
  shows "filter (\<lambda>i. i \<in> set (map f m)) (map f l) = map f (filter (\<lambda>p. p \<in> set m) l)"
  using assms by (induction l) (auto simp: inj_on_def)

lemma length_one_singleton: "length xs = 1 \<Longrightarrow> xs = [hd xs]"
  by (cases xs) auto

lemma twinMatch_painted:
  assumes "inj_on f A" and "set l \<subseteq> A" and "set m \<subseteq> A" and "length (filter (\<lambda>p. p \<in> set m) l) = 1"
    and "tc_symbolIds c = map f l" and "tc_symbolIds d = map f m"
  shows "\<exists>x. twinMatch c d = Some x \<and> set (tc_symbolIds c) \<inter> set (tc_symbolIds d) = {x}"
proof -
  let ?F = "filter (\<lambda>i. i \<in> set (tc_symbolIds d)) (tc_symbolIds c)"
  have "?F = map f (filter (\<lambda>p. p \<in> set m) l)"
    unfolding assms(5,6) by (rule filter_map_inj [OF assms(1-3)])
  then have "?F = [f (hd (filter (\<lambda>p. p \<in> set m) l))]"
    using length_one_singleton [OF assms(4)] by (metis list.map(1) list.map(2))
  then obtain x where F: "?F = [x]" by blast
  then have "set ?F = {x}" by simp
  then have "set (tc_symbolIds c) \<inter> set (tc_symbolIds d) = {x}" by auto
  with F show ?thesis by (simp add: twinMatch_def)
qed

text \<open>
  What every deck the program can deal from has.
\<close>

definition deck_ok :: "int \<Rightarrow> twin_card list \<Rightarrow> bool" where
  "deck_ok order deck \<longleftrightarrow>
     int (length deck) = twinDeckCapacity order \<and> distinct (map tc_id deck) \<and>
     (\<forall>c\<in>set deck. int (length (tc_symbolIds c)) = twinSymbolsPerCard order \<and> distinct (tc_symbolIds c)) \<and>
     (\<forall>c\<in>set deck. \<forall>d\<in>set deck. c \<noteq> d \<longrightarrow>
        (\<exists>x. twinMatch c d = Some x \<and> set (tc_symbolIds c) \<inter> set (tc_symbolIds d) = {x}))"

definition painted :: "int \<Rightarrow> js_string list \<Rightarrow> nat \<times> nat list \<Rightarrow> twin_card" where
  "painted order ids = (\<lambda>(index, line). \<lparr>tc_id = ''o'' @ int_str order @ ''c'' @ nat_str index,
                                         tc_symbolIds = map (\<lambda>point. ids ! point) line\<rparr>)"

lemma nat_str_distinct: "distinct (map nat_str [0..<31])"
  by code_simp

lemma deck_ok_painted:
  assumes plane: "plane_ok q ls" and n: "n = q * q + q + 1" and ids: "distinct ids" "length ids = n" and "n \<le> 31"
  shows "deck_ok (int q) (map (painted (int q) ids) (enumerate 0 ls))"
proof -
  let ?deck = "map (painted (int q) ids) (enumerate 0 ls)"
  have len: "length ls = n" using plane n by (simp add: plane_ok_def)
  have "map tc_id ?deck = map (\<lambda>i. ''o'' @ int_str (int q) @ ''c'' @ nat_str i) [0..<n]"
    by (rule nth_equalityI) (simp_all add: len nth_enumerate_eq painted_def)
  moreover have "distinct (map nat_str [0..<n])"
    using nat_str_distinct \<open>n \<le> 31\<close> by (auto simp: distinct_map inj_on_def)
  ultimately have ids': "distinct (map tc_id ?deck)"
    by (auto simp: distinct_map inj_on_def)
  have inj: "inj_on (\<lambda>p. ids ! p) {..<n}" using ids by (auto simp: inj_on_def nth_eq_iff_index_eq)
  have line: "length l = Suc q \<and> distinct l \<and> set l \<subseteq> {..<n}" if "l \<in> set ls" for l
    using plane that n by (auto simp: plane_ok_def list_all_iff)
  have card: "\<exists>i l. c = painted (int q) ids (i, l) \<and> l \<in> set ls \<and> i < n \<and> l = ls ! i" if "c \<in> set ?deck" for c
    using that len by (auto simp: in_set_enumerate_eq)
  have each: "int (length (tc_symbolIds c)) = twinSymbolsPerCard (int q) \<and> distinct (tc_symbolIds c)"
    if c: "c \<in> set ?deck" for c
  proof -
    obtain i l where "c = painted (int q) ids (i, l)" "l \<in> set ls" using card [OF c] by blast
    with line [of l] inj show ?thesis
      by (auto simp: painted_def twinSymbolsPerCard_def distinct_map intro: inj_on_subset)
  qed
  have pair: "\<exists>x. twinMatch c d = Some x \<and> set (tc_symbolIds c) \<inter> set (tc_symbolIds d) = {x}"
    if c: "c \<in> set ?deck" and d: "d \<in> set ?deck" and "c \<noteq> d" for c d
  proof -
    obtain i l where l: "c = painted (int q) ids (i, l)" "l \<in> set ls" "i < n" "l = ls ! i" using card [OF c] by blast
    obtain j m where m: "d = painted (int q) ids (j, m)" "m \<in> set ls" "j < n" "m = ls ! j" using card [OF d] by blast
    have "distinct ls" using plane by (simp add: plane_ok_def)
    then have "l \<noteq> m" using l m len \<open>c \<noteq> d\<close> by (metis nth_eq_iff_index_eq)
    then have "length (filter (\<lambda>p. p \<in> set m) l) = 1" using plane l(2) m(2) by (auto simp: plane_ok_def list_all_iff)
    with line [OF l(2)] line [OF m(2)] show ?thesis
      by (intro twinMatch_painted [OF inj]) (auto simp: l(1) m(1) painted_def)
  qed
  have "int (length ?deck) = twinDeckCapacity (int q)"
    using len n by (simp add: twinDeckCapacity_def)
  with ids' each pair show ?thesis unfolding deck_ok_def by blast
qed

lemma twinDeck_painted:
  "twinDeckCapacity order \<le> 31 \<Longrightarrow>
   twinDeck order = Some (map (painted order (take (nat (twinDeckCapacity order)) TWIN_SYMBOLS))
                           (enumerate 0 (twinPlane order)))"
  by (simp add: twinDeck_def twinSymbolIds_def painted_def)

lemma deck_exists:
  assumes "order = 4 \<or> order = 5"
  shows "\<exists>deck. twinDeck order = Some deck \<and> deck_ok order deck"
  using assms
proof
  assume o: "order = 4"
  have "deck_ok (int 4) (map (painted (int 4) (take 21 TWIN_SYMBOLS)) (enumerate 0 (twinPlane 4)))"
    by (rule deck_ok_painted [OF plane_ok_4, where n = 21]) (simp_all add: distinct_TWIN_SYMBOLS)
  then show ?thesis by (simp add: o twinDeck_painted twinDeckCapacity_def)
next
  assume o: "order = 5"
  have "deck_ok (int 5) (map (painted (int 5) (take 31 TWIN_SYMBOLS)) (enumerate 0 (twinPlane 5)))"
    by (rule deck_ok_painted [OF plane_ok_5, where n = 31]) (simp_all add: distinct_TWIN_SYMBOLS)
  then show ?thesis by (simp add: o twinDeck_painted twinDeckCapacity_def)
qed

end
