(* ===== verification/TwinRules.thy ===== *)
theory TwinRules
  imports Complex_Main TwinDeck
begin

text \<open>
  The rules of Twin as pure functions (\<^verbatim>\<open>features/things/twin/twin-rules.ts\<close>): timings, cooldowns, the
  time that gets ranked, when a heat closes, its outcome, the final order and the awards. Times that
  the server's validator rounds are integers; the two instants of a duel are rationals.
\<close>

section \<open>Timings\<close>

record twin_timing =
  dealingMs :: int
  defaultWindowMs :: int
  defaultGraceMs :: int
  minWindowMs :: int
  maxWindowMs :: int
  minGraceMs :: int
  maxGraceMs :: int
  settleDelayMs :: int
  defaultSettleHoldMs :: int
  minSettleHoldMs :: int
  maxSettleHoldMs :: int
  connectionHoldMs :: int
  duelPhotoFinishMs :: int
  minReactionMs :: int
  latencyAllowanceMs :: int

definition TWIN_TIMING :: twin_timing where
  "TWIN_TIMING =
     \<lparr>dealingMs = 2000, defaultWindowMs = 8000, defaultGraceMs = 2500, minWindowMs = 4000,
      maxWindowMs = 15000, minGraceMs = 1000, maxGraceMs = 5000, settleDelayMs = 600,
      defaultSettleHoldMs = 1650, minSettleHoldMs = 500, maxSettleHoldMs = 6000, connectionHoldMs = 420,
      duelPhotoFinishMs = 75, minReactionMs = 220, latencyAllowanceMs = 900\<rparr>"

text \<open>\<^verbatim>\<open>Math.round\<close> rounds halves up.\<close>

definition js_round :: "rat \<Rightarrow> int" where
  "js_round x = \<lfloor>x + 1 / 2\<rfloor>"

record duel_finish =
  df_marginMs :: "int option"
  df_tied :: bool

definition twinDuelFinish :: "rat \<Rightarrow> rat option \<Rightarrow> duel_finish" where
  "twinDuelFinish firstAt secondAt =
     (let marginMs = map_option (\<lambda>s. max 0 (js_round (s - firstAt))) secondAt
      in \<lparr>df_marginMs = marginMs,
          df_tied = (case marginMs of None \<Rightarrow> False | Some m \<Rightarrow> m \<le> duelPhotoFinishMs TWIN_TIMING)\<rparr>)"

definition TWIN_COOLDOWNS_MS :: "int list" where
  "TWIN_COOLDOWNS_MS = [1500, 2500, 4000]"

definition twinCooldownMs :: "nat \<Rightarrow> int" where
  "twinCooldownMs missesThisHeat =
     (if missesThisHeat = 0 then 0
      else TWIN_COOLDOWNS_MS ! (min missesThisHeat (length TWIN_COOLDOWNS_MS) - 1))"

definition recordTwinElapsed :: "int \<Rightarrow> int \<Rightarrow> int \<Rightarrow> int" where
  "recordTwinElapsed claimedMs arrivalElapsedMs window =
     (let claimed = max claimedMs (minReactionMs TWIN_TIMING);
          fl = arrivalElapsedMs - latencyAllowanceMs TWIN_TIMING
      in min window (max claimed fl))"

definition twinGraceEnd :: "int \<Rightarrow> int \<Rightarrow> int \<Rightarrow> int" where
  "twinGraceEnd now deadline grace = min deadline (now + grace)"

record heat_progress =
  hp_deadlineAt :: int
  hp_graceEndsAt :: "int option"
  hp_contenders :: nat
  hp_landed :: nat

definition twinHeatShouldClose :: "heat_progress \<Rightarrow> int \<Rightarrow> bool" where
  "twinHeatShouldClose progress now \<longleftrightarrow>
     (if hp_deadlineAt progress \<le> now then True
      else if (case hp_graceEndsAt progress of None \<Rightarrow> False | Some g \<Rightarrow> g \<le> now) then True
      else 0 < hp_contenders progress \<and> hp_contenders progress \<le> hp_landed progress)"

section \<open>The outcome of a heat\<close>

record heat_entry =
  he_playerId :: js_string
  he_elapsedMs :: "int option"
  he_misses :: nat

record heat_outcome =
  ho_ranked :: "js_string list"
  ho_winnerPlayerId :: "js_string option"
  ho_burned :: bool

text \<open>\<^verbatim>\<open>a || b\<close> on the numbers of a comparator.\<close>

definition cmp_or :: "int \<Rightarrow> int \<Rightarrow> int" where
  "cmp_or a b = (if a \<noteq> 0 then a else b)"

definition heat_compare :: "(js_string \<Rightarrow> js_string \<Rightarrow> int) \<Rightarrow> heat_entry \<Rightarrow> heat_entry \<Rightarrow> int" where
  "heat_compare localeCompare a b =
     cmp_or (the (he_elapsedMs a) - the (he_elapsedMs b))
       (cmp_or (int (he_misses a) - int (he_misses b)) (localeCompare (he_playerId a) (he_playerId b)))"

definition landed_entries :: "(js_string \<Rightarrow> js_string \<Rightarrow> int) \<Rightarrow> heat_entry list \<Rightarrow> heat_entry list" where
  "landed_entries localeCompare entries =
     sort_by (\<lambda>a b. heat_compare localeCompare a b \<le> 0) (filter (\<lambda>e. he_elapsedMs e \<noteq> None) entries)"

definition twinHeatOutcome :: "(js_string \<Rightarrow> js_string \<Rightarrow> int) \<Rightarrow> heat_entry list \<Rightarrow> heat_outcome" where
  "twinHeatOutcome localeCompare entries =
     (let landed = landed_entries localeCompare entries
      in \<lparr>ho_ranked = map he_playerId landed,
          ho_winnerPlayerId = (case landed of [] \<Rightarrow> None | e # _ \<Rightarrow> Some (he_playerId e)),
          ho_burned = (landed = [])\<rparr>)"

section \<open>The final order\<close>

record twin_stats =
  ts_playerId :: js_string
  ts_name :: js_string
  ts_cardsLeft :: nat
  ts_place :: "nat option"
  ts_connections :: nat
  ts_misses :: nat
  ts_longestChain :: nat
  ts_totalElapsedMs :: int
  ts_bestElapsedMs :: "int option"

definition finish_compare :: "twin_stats \<Rightarrow> twin_stats \<Rightarrow> int" where
  "finish_compare a b =
     (case (ts_place a, ts_place b) of
        (Some p, Some q) \<Rightarrow> int p - int q
      | (None, Some _) \<Rightarrow> 1
      | (Some _, None) \<Rightarrow> - 1
      | (None, None) \<Rightarrow>
          cmp_or (int (ts_cardsLeft a) - int (ts_cardsLeft b))
            (cmp_or (int (ts_misses a) - int (ts_misses b))
              (cmp_or (ts_totalElapsedMs a - ts_totalElapsedMs b)
                (int (ts_longestChain b) - int (ts_longestChain a)))))"

definition rankTwinFinish :: "twin_stats list \<Rightarrow> twin_stats list" where
  "rankTwinFinish stats = sort_by (\<lambda>a b. finish_compare a b \<le> 0) stats"

section \<open>Awards\<close>

definition twin_names :: "twin_stats list \<Rightarrow> js_string" where
  "twin_names stats =
     (let ns = map ts_name stats in
      if length ns \<le> 1 then (case ns of [] \<Rightarrow> [] | n # _ \<Rightarrow> n)
      else join_with '', '' (butlast ns) @ '' and '' @ last ns)"

text \<open>\<^verbatim>\<open>low\<close> is the smallest value worth naming; \<^verbatim>\<open>None\<close> stands for minus infinity.\<close>

definition twin_leaders ::
  "twin_stats list \<Rightarrow> (twin_stats \<Rightarrow> int option) \<Rightarrow> int option \<Rightarrow> (int \<times> twin_stats list) option" where
  "twin_leaders stats value low =
     (let scored = filter (\<lambda>p. case value p of None \<Rightarrow> False
                                 | Some m \<Rightarrow> (case low of None \<Rightarrow> True | Some l \<Rightarrow> l \<le> m)) stats in
      if scored = [] then None
      else let best = Max (set (map (\<lambda>p. the (value p)) scored))
           in Some (best, filter (\<lambda>p. value p = Some best) scored))"

record twin_award =
  ta_label :: js_string
  ta_name :: js_string
  ta_detail :: js_string

text \<open>\<^verbatim>\<open>seconds\<close> is \<^verbatim>\<open>(ms / 1000).toFixed(2)\<close>, of which nothing is assumed.\<close>

definition twinAwards :: "(int \<Rightarrow> js_string) \<Rightarrow> twin_stats list \<Rightarrow> nat \<Rightarrow> twin_award list" where
  "twinAwards seconds stats heats =
     (let winner = (case rankTwinFinish stats of [] \<Rightarrow> None | w # _ \<Rightarrow> Some w)
      in (case winner of
            Some w \<Rightarrow> (if ts_place w \<noteq> None
              then [\<lparr>ta_label = ''the win'', ta_name = ts_name w,
                     ta_detail = ''out of cards in '' @ nat_str heats @ '' '' @
                       (if heats = 1 then ''heat'' else ''heats'')\<rparr>] else [])
          | None \<Rightarrow> []) @
         (case twin_leaders stats (\<lambda>p. Some (int (ts_longestChain p))) (Some 2) of
            Some (best, ps) \<Rightarrow> [\<lparr>ta_label = ''longest chain'', ta_name = twin_names ps,
                                ta_detail = int_str best @ '' in a row''\<rparr>]
          | None \<Rightarrow> []) @
         (case twin_leaders stats (\<lambda>p. map_option uminus (ts_bestElapsedMs p)) None of
            Some (best, ps) \<Rightarrow> [\<lparr>ta_label = ''quickest eye'', ta_name = twin_names ps,
                                ta_detail = seconds (- best) @ ''s''\<rparr>]
          | None \<Rightarrow> []) @
         (case twin_leaders stats (\<lambda>p. Some (int (ts_connections p))) (Some 1) of
            Some (best, ps) \<Rightarrow> (if length ps < length stats
              then [\<lparr>ta_label = ''most connections'', ta_name = twin_names ps,
                     ta_detail = int_str best @ '' found''\<rparr>] else [])
          | None \<Rightarrow> []) @
         (let flawless = filter (\<lambda>p. ts_misses p = 0 \<and> 0 < ts_connections p) stats in
          if flawless \<noteq> [] \<and> length flawless < length stats
          then [\<lparr>ta_label = ''never flinched'', ta_name = twin_names flawless,
                 ta_detail = ''not one wrong tap''\<rparr>] else []) @
         (case twin_leaders stats (\<lambda>p. Some (int (ts_misses p))) (Some 3) of
            Some (best, ps) \<Rightarrow> [\<lparr>ta_label = ''the scattergun'', ta_name = twin_names ps,
                                ta_detail = int_str best @ '' wrong taps, and no regrets''\<rparr>]
          | None \<Rightarrow> []))"

definition twinHeadline :: "twin_stats list \<Rightarrow> js_string" where
  "twinHeadline stats =
     (case rankTwinFinish stats of
        [] \<Rightarrow> ''Nobody made it out.''
      | w # _ \<Rightarrow> (if ts_place w = None then ts_name w @ '' got closest.''
                  else ts_name w @ '' is out of cards.''))"

section \<open>What the rules promise\<close>

text \<open>
  A comparison that is a preorder: the contract of \<^verbatim>\<open>toSorted\<close>. The result is then sorted, and its
  first element is a least one.
\<close>

locale comparator =
  fixes le :: "'a \<Rightarrow> 'a \<Rightarrow> bool"
  assumes total: "le a b \<or> le b a"
    and trans: "le a b \<Longrightarrow> le b c \<Longrightarrow> le a c"
begin

lemma insert_by_sorted: "sorted_wrt le ys \<Longrightarrow> sorted_wrt le (insert_by le x ys)"
proof (induction ys)
  case (Cons y ys)
  then show ?case using total [of x y] by (auto intro: trans)
qed simp

lemma sort_by_sorted: "sorted_wrt le (sort_by le xs)"
  by (induction xs) (simp_all add: sort_by_def insert_by_sorted)

lemma head_least: "sort_by le xs = y # ys \<Longrightarrow> x \<in> set xs \<Longrightarrow> le y x"
proof -
  assume s: "sort_by le xs = y # ys" and "x \<in> set xs"
  then have "x \<in> set (y # ys)" by (metis set_sort_by)
  moreover have "sorted_wrt le (y # ys)" using sort_by_sorted [of xs] by (simp add: s)
  ultimately show ?thesis using total [of y y] by auto
qed

end

text \<open>The final order is a preorder whatever the statistics are.\<close>

interpretation finish_order: comparator "\<lambda>a b. finish_compare a b \<le> 0"
  by unfold_locales (auto simp: finish_compare_def cmp_or_def split: option.splits if_splits)

text \<open>The time recorded for a tap lies within the window; it is never below
  the reaction floor when the window is not, and never more than the latency allowance better than
  the time at which the answer arrived; an honest claim inside all three is recorded as it is.\<close>

theorem recorded_time_is_bounded:
  "recordTwinElapsed claimed arrival window \<le> window \<and>
   (220 \<le> window \<longrightarrow> 220 \<le> recordTwinElapsed claimed arrival window) \<and>
   min window (arrival - 900) \<le> recordTwinElapsed claimed arrival window \<and>
   (220 \<le> claimed \<and> claimed \<le> window \<and> arrival - 900 \<le> claimed \<longrightarrow>
      recordTwinElapsed claimed arrival window = claimed)"
  by (auto simp: recordTwinElapsed_def TWIN_TIMING_def)

lemma recorded_time_is_bounded_witness:
  "recordTwinElapsed 50 300 8000 \<le> 8000 \<and> 220 \<le> recordTwinElapsed 50 300 8000"
  using recorded_time_is_bounded [of 50 300 8000] by simp

end
