(* ===== verification/TwinState.thy ===== *)
theory TwinState
  imports TwinRules
begin

text \<open>
  The room of Twin and the clockwork of a game (\<^verbatim>\<open>features/things/twin/twin-room-engine.server.ts\<close>):
  players and hands, dealing, heats, their payout and the lazy advance. \<^verbatim>\<open>None\<close> of an operation on
  rooms is a thrown error. A card whose order the symbols cannot fill makes the source throw where
  the lookup of the model finds nothing; no room has such an order.
\<close>

section \<open>State\<close>

datatype twin_phase = TwinLobby | TwinDealing | TwinHeat | TwinSettle | TwinFinished | TwinClosed

record card_state =
  cs_cardId :: js_string
  cs_seed :: int

record dealt_card =
  dc_cardId :: js_string
  dc_symbolIds :: "js_string list"
  dc_seed :: int

record logged_connection =
  lc_playerId :: js_string
  lc_name :: js_string
  lc_card :: dealt_card
  lc_symbolId :: js_string
  lc_elapsedMs :: int
  lc_won :: bool

record logged_heat =
  lh_number :: nat
  lh_middle :: dealt_card
  lh_connections :: "logged_connection list"
  lh_missedBy :: "js_string list"
  lh_burned :: bool

record heat_result =
  hr_playerId :: js_string
  hr_name :: js_string
  hr_elapsedMs :: "int option"
  hr_misses :: nat
  hr_shed :: bool
  hr_won :: bool
  hr_connection :: "(dealt_card \<times> js_string) option"

record twin_player = readiness_record +
  tp_joinId :: "js_string option"
  tp_name :: js_string
  tp_tokenHash :: js_string
  tp_joinedAt :: int
  hand :: "card_state list"
  tp_lastSeenAt :: int
  heatId :: "js_string option"
  landedMs :: "int option"
  heatMisses :: nat
  cooldownUntil :: "int option"
  chain :: nat
  longestChain :: nat
  connections :: nat
  misses :: nat
  totalElapsedMs :: int
  bestElapsedMs :: "int option"
  place :: "nat option"
  withdrawn :: bool

record heat_state =
  ht_id :: js_string
  ht_number :: nat
  ht_middle :: card_state
  ht_revealAt :: int
  ht_deadlineAt :: int
  ht_graceEndsAt :: "int option"
  ht_resolvedAt :: "int option"
  ht_settleAt :: "int option"
  ht_nextHeatAt :: "int option"
  ht_results :: "heat_result list"
  ht_winnerPlayerId :: "js_string option"
  ht_burned :: bool

record twin_room = services +
  tw_roomId :: js_string
  tw_managed :: bool
  tw_officialResultChannelId :: "js_string option"
  tw_expiresAt :: int
  tw_revision :: nat
  tw_sequence :: nat
  tw_phase :: twin_phase
  tw_order :: int
  handSize :: nat
  requestedHandSize :: nat
  windowMs :: int
  graceMs :: int
  settleHoldMs :: int
  tw_hostHash :: js_string
  tw_joinHash :: js_string
  tw_hostPlayerId :: js_string
  tw_joinLocked :: "bool option"
  tw_processedActions :: "js_string list"
  tw_players :: "twin_player list"
  middle :: "card_state option"
  heat :: "heat_state option"
  tw_gameNumber :: nat
  heatCount :: nat
  nextPlace :: nat
  dealingUntil :: "int option"
  seedCounter :: int
  loggedHeats :: "logged_heat list"

definition TWIN_CONNECTED_WINDOW_MS :: int where "TWIN_CONNECTED_WINDOW_MS = 25000"
definition HOST_TAKEOVER_MS :: int where "HOST_TAKEOVER_MS = 35000"

section \<open>Room bookkeeping\<close>

definition twin_phaseKind :: "twin_room \<Rightarrow> room_phase_kind" where
  "twin_phaseKind r =
     (case tw_phase r of TwinLobby \<Rightarrow> KindLobby | TwinFinished \<Rightarrow> KindResults | TwinClosed \<Rightarrow> KindClosed
      | _ \<Rightarrow> KindActive)"

definition activePlayers :: "twin_room \<Rightarrow> twin_player list" where
  "activePlayers r = filter (\<lambda>p. \<not> withdrawn p) (tw_players r)"

definition twin_applyRoomExpiry :: "int \<Rightarrow> twin_room \<Rightarrow> twin_room" where
  "twin_applyRoomExpiry now r =
     r\<lparr>tw_expiresAt := multiplayerRoomExpiry (twin_phaseKind r) (length (activePlayers r)) (tw_expiresAt r) now\<rparr>"

definition twin_changed :: "twin_room \<Rightarrow> twin_room" where
  "twin_changed r =
     twin_applyRoomExpiry (wall_clock r) (r\<lparr>tw_revision := Suc (tw_revision r), tw_sequence := Suc (tw_sequence r)\<rparr>)"

definition twin_player_by_id :: "twin_room \<Rightarrow> js_string \<Rightarrow> twin_player option" where
  "twin_player_by_id r i = find (\<lambda>p. pid p = i) (tw_players r)"

definition upd_twin :: "js_string \<Rightarrow> (twin_player \<Rightarrow> twin_player) \<Rightarrow> twin_room \<Rightarrow> twin_room" where
  "upd_twin i f r = r\<lparr>tw_players := upd_first (\<lambda>p. pid p = i) f (tw_players r)\<rparr>"

definition twin_connected :: "int \<Rightarrow> twin_player \<Rightarrow> bool" where
  "twin_connected now p \<longleftrightarrow> now - tp_lastSeenAt p \<le> TWIN_CONNECTED_WINDOW_MS"

definition connectedPlayers :: "twin_room \<Rightarrow> int \<Rightarrow> twin_player list" where
  "connectedPlayers r now = filter (twin_connected now) (activePlayers r)"

definition seat_compare :: "(js_string \<Rightarrow> js_string \<Rightarrow> int) \<Rightarrow> twin_player \<Rightarrow> twin_player \<Rightarrow> int" where
  "seat_compare localeCompare a b = cmp_or (tp_joinedAt a - tp_joinedAt b) (localeCompare (pid a) (pid b))"

definition twin_transferHost :: "js_string \<Rightarrow> int \<Rightarrow> twin_room \<Rightarrow> twin_room" where
  "twin_transferHost leavingId now r =
     (if tw_hostPlayerId r \<noteq> leavingId then r
      else
      let remaining = filter (\<lambda>p. pid p \<noteq> leavingId) (activePlayers r);
          present = filter (twin_connected now) remaining;
          successor = sort_by (\<lambda>a b. seat_compare (locale_compare r) a b \<le> 0)
                        (if present \<noteq> [] then present else remaining)
      in r\<lparr>tw_hostPlayerId := (case successor of [] \<Rightarrow> [] | p # _ \<Rightarrow> pid p)\<rparr>)"

section \<open>Cards in play\<close>

definition dealtCard :: "twin_room \<Rightarrow> card_state \<Rightarrow> dealt_card option" where
  "dealtCard r c =
     map_option (\<lambda>d. \<lparr>dc_cardId = cs_cardId c, dc_symbolIds = tc_symbolIds d, dc_seed = cs_seed c\<rparr>)
       (twinCardById (tw_order r) (cs_cardId c))"

definition playerStats :: "twin_room \<Rightarrow> twin_stats list" where
  "playerStats r =
     map (\<lambda>p. \<lparr>ts_playerId = pid p, ts_name = tp_name p, ts_cardsLeft = length (hand p), ts_place = place p,
                ts_connections = connections p, ts_misses = misses p, ts_longestChain = longestChain p,
                ts_totalElapsedMs = totalElapsedMs p, ts_bestElapsedMs = bestElapsedMs p\<rparr>) (tw_players r)"

definition card_of :: "twin_room \<Rightarrow> card_state \<Rightarrow> twin_card option" where
  "card_of r c = twinCardById (tw_order r) (cs_cardId c)"

text \<open>The symbol two dealt cards share, when both are cards of the deck.\<close>

definition match_states :: "twin_room \<Rightarrow> card_state option \<Rightarrow> card_state option \<Rightarrow> js_string option" where
  "match_states r a b =
     (case (Option.bind a (card_of r), Option.bind b (card_of r)) of
        (Some x, Some y) \<Rightarrow> twinMatch x y
      | _ \<Rightarrow> None)"

definition top_card :: "twin_player \<Rightarrow> card_state option" where
  "top_card p = (case hand p of [] \<Rightarrow> None | c # _ \<Rightarrow> Some c)"

definition expectedSymbol :: "twin_room \<Rightarrow> twin_player \<Rightarrow> js_string option" where
  "expectedSymbol r p =
     match_states r (top_card p) (case heat r of Some h \<Rightarrow> Some (ht_middle h) | None \<Rightarrow> middle r)"

section \<open>Starting a heat\<close>

definition enter_heat :: "js_string \<Rightarrow> twin_player \<Rightarrow> twin_player" where
  "enter_heat i p = p\<lparr>heatId := Some i, landedMs := None, heatMisses := 0, cooldownUntil := None\<rparr>"

definition on_active :: "(twin_player \<Rightarrow> twin_player) \<Rightarrow> twin_player \<Rightarrow> twin_player" where
  "on_active f p = (if withdrawn p then p else f p)"

definition startHeat :: "int \<Rightarrow> twin_room \<Rightarrow> twin_room option" where
  "startHeat now r =
     (case middle r of
        None \<Rightarrow> None
      | Some m \<Rightarrow>
          (let n = Suc (heatCount r);
               (i, r1) = randomUUID r;
               revealAt = now + 150;
               h = \<lparr>ht_id = i, ht_number = n, ht_middle = m, ht_revealAt = revealAt,
                    ht_deadlineAt = revealAt + windowMs r, ht_graceEndsAt = None, ht_resolvedAt = None,
                    ht_settleAt = None, ht_nextHeatAt = None, ht_results = [],
                    ht_winnerPlayerId = None, ht_burned = False\<rparr>
           in Some (twin_changed (r1\<lparr>heatCount := n, heat := Some h,
                     tw_players := map (on_active (enter_heat i)) (tw_players r1),
                     tw_phase := TwinHeat, dealingUntil := None\<rparr>))))"

section \<open>The payout of a heat\<close>

definition heat_entries :: "heat_state \<Rightarrow> twin_room \<Rightarrow> heat_entry list" where
  "heat_entries h r =
     map (\<lambda>p. \<lparr>he_playerId = pid p,
                he_elapsedMs = (if heatId p = Some (ht_id h) then landedMs p else None),
                he_misses = (if heatId p = Some (ht_id h) then heatMisses p else 0)\<rparr>) (activePlayers r)"

definition count_connection :: "int \<Rightarrow> twin_player \<Rightarrow> twin_player" where
  "count_connection elapsed p =
     p\<lparr>connections := Suc (connections p), chain := Suc (chain p),
       longestChain := max (longestChain p) (Suc (chain p)),
       totalElapsedMs := totalElapsedMs p + elapsed,
       bestElapsedMs := Some (case bestElapsedMs p of None \<Rightarrow> elapsed | Some b \<Rightarrow> min b elapsed)\<rparr>"

text \<open>
  One turn of the loop over the ranked players. What the loop threads through is the room, the
  connections found so far and the next middle card.
\<close>

type_synonym payout = "twin_room \<times> logged_connection list \<times> card_state"

definition pay_ranked :: "heat_outcome \<Rightarrow> heat_state \<Rightarrow> payout \<Rightarrow> js_string \<Rightarrow> payout" where
  "pay_ranked outcome h st i =
     (case st of (r, conns, nextMiddle) \<Rightarrow>
        (case twin_player_by_id r i of
           None \<Rightarrow> (r, conns, nextMiddle)
         | Some p \<Rightarrow>
             (let shed = top_card p;
                  symbolId = match_states r shed (Some (ht_middle h));
                  elapsed = nullish (landedMs p) 0;
                  won = (Some i = ho_winnerPlayerId outcome);
                  conns' = (case (Option.bind shed (dealtCard r), symbolId) of
                              (Some dealt, Some s) \<Rightarrow>
                                (if s = [] then conns
                                 else conns @ [\<lparr>lc_playerId = pid p, lc_name = tp_name p, lc_card = dealt,
                                                lc_symbolId = s, lc_elapsedMs = elapsed, lc_won = won\<rparr>])
                            | _ \<Rightarrow> conns);
                  nextMiddle' = (case shed of Some c \<Rightarrow> if won then c else nextMiddle | None \<Rightarrow> nextMiddle);
                  p1 = count_connection elapsed p;
                  p2 = p1\<lparr>hand := tl (hand p1)\<rparr>;
                  out = (hand p2 = [] \<and> place p2 = None);
                  p3 = (if out then p2\<lparr>place := Some (nextPlace r)\<rparr> else p2);
                  r1 = upd_twin i (\<lambda>_. p3) r
              in (if out then r1\<lparr>nextPlace := Suc (nextPlace r)\<rparr> else r1, conns', nextMiddle'))))"

definition heat_result_of :: "heat_outcome \<Rightarrow> heat_state \<Rightarrow> logged_connection list \<Rightarrow> twin_player \<Rightarrow> heat_result" where
  "heat_result_of outcome h conns p =
     \<lparr>hr_playerId = pid p, hr_name = tp_name p,
      hr_elapsedMs = (if heatId p = Some (ht_id h) then landedMs p else None),
      hr_misses = (if heatId p = Some (ht_id h) then heatMisses p else 0),
      hr_shed = (pid p \<in> set (ho_ranked outcome)), hr_won = (Some (pid p) = ho_winnerPlayerId outcome),
      hr_connection = map_option (\<lambda>c. (lc_card c, lc_symbolId c)) (find (\<lambda>c. lc_playerId c = pid p) conns)\<rparr>"

text \<open>Nobody found it: every hand turns over.\<close>

definition rotate_hand :: "twin_player \<Rightarrow> twin_player" where
  "rotate_hand p = (if 1 < length (hand p) then p\<lparr>hand := tl (hand p) @ [hd (hand p)]\<rparr> else p)"

definition break_chain :: "heat_outcome \<Rightarrow> twin_player \<Rightarrow> twin_player" where
  "break_chain outcome p = (if pid p \<in> set (ho_ranked outcome) then p else p\<lparr>chain := 0\<rparr>)"

definition settleHeat :: "int \<Rightarrow> twin_room \<Rightarrow> twin_room \<times> logged_heat option" where
  "settleHeat now r =
     (case heat r of
        None \<Rightarrow> (r, None)
      | Some h \<Rightarrow>
          (if ht_results h \<noteq> [] then (r, None)
           else
           let outcome = twinHeatOutcome (locale_compare r) (heat_entries h r);
               mid = dealtCard r (ht_middle h);
               (r1, conns, nextMiddle) = foldl (pay_ranked outcome h) (r, [], ht_middle h) (ho_ranked outcome);
               r2 = r1\<lparr>tw_players := map (on_active (break_chain outcome)) (tw_players r1)\<rparr>;
               results = map (heat_result_of outcome h conns) (activePlayers r2);
               r3 = (if ho_burned outcome
                     then r2\<lparr>tw_players := map (on_active rotate_hand) (tw_players r2)\<rparr> else r2);
               r4 = twin_changed (r3\<lparr>middle := Some nextMiddle,
                      heat := Some (h\<lparr>ht_results := results, ht_winnerPlayerId := ho_winnerPlayerId outcome,
                                      ht_burned := ho_burned outcome,
                                      ht_nextHeatAt := Some (now + settleHoldMs r3)\<rparr>),
                      tw_phase := TwinSettle\<rparr>)
           in (r4, map_option (\<lambda>m. \<lparr>lh_number = ht_number h, lh_middle = m, lh_connections = conns,
                                    lh_missedBy = map hr_name (filter (\<lambda>x. \<not> hr_shed x) results),
                                    lh_burned = ho_burned outcome\<rparr>) mid)))"

section \<open>Dealing\<close>

text \<open>Hand the dealt cards out, each with the next layout seed.\<close>

fun seed_cards :: "twin_card list \<Rightarrow> int \<Rightarrow> card_state list \<times> int" where
  "seed_cards [] counter = ([], counter)"
| "seed_cards (c # cs) counter =
     (case seed_cards cs (counter + 1) of
        (states, counter') \<Rightarrow> (\<lparr>cs_cardId = tc_id c, cs_seed = counter + 1\<rparr> # states, counter'))"

definition fresh_hand :: "card_state list \<Rightarrow> twin_player \<Rightarrow> twin_player" where
  "fresh_hand cards p = p\<lparr>hand := cards, heatId := None, landedMs := None, heatMisses := 0, cooldownUntil := None\<rparr>"

fun deal_seats :: "twin_player list \<Rightarrow> twin_card list list \<Rightarrow> int \<Rightarrow> twin_player list \<times> int" where
  "deal_seats [] hands counter = ([], counter)"
| "deal_seats (p # ps) hands counter =
     (if withdrawn p
      then (case deal_seats ps hands counter of (ps', counter') \<Rightarrow> (p # ps', counter'))
      else (case seed_cards (hd hands) counter of
              (cards, counter1) \<Rightarrow>
                (case deal_seats ps (tl hands) counter1 of
                   (ps', counter') \<Rightarrow> (fresh_hand cards p # ps', counter'))))"

definition playable :: "twin_room \<Rightarrow> twin_card \<Rightarrow> twin_player \<Rightarrow> bool" where
  "playable r mid p \<longleftrightarrow>
     (case Option.bind (top_card p) (card_of r) of None \<Rightarrow> False | Some t \<Rightarrow> twinMatch t mid \<noteq> None)"

definition applyDeal :: "twin_plan \<Rightarrow> int \<Rightarrow> int \<Rightarrow> twin_room \<Rightarrow> twin_room option" where
  "applyDeal plan now seed r =
     (case dealTwin plan (length (activePlayers r)) seed of
        None \<Rightarrow> None
      | Some deal \<Rightarrow>
          (case deal_seats (tw_players r) (deal_hands deal) (seedCounter r) of
             (ps, counter) \<Rightarrow>
               (let r1 = r\<lparr>tw_order := plan_order plan, handSize := plan_handSize plan, tw_players := ps,
                           seedCounter := counter + 1,
                           middle := Some \<lparr>cs_cardId = tc_id (deal_middle deal), cs_seed = counter + 1\<rparr>\<rparr>
                in if list_all (playable r1 (deal_middle deal)) (activePlayers r1)
                   then Some (twin_changed (r1\<lparr>heat := None, tw_phase := TwinDealing,
                                dealingUntil := Some (now + dealingMs TWIN_TIMING)\<rparr>))
                   else None)))"

definition twin_plan_for :: "twin_room \<Rightarrow> twin_plan option" where
  "twin_plan_for r = planTwinDeck (length (activePlayers r)) (requestedHandSize r) TWIN_SYMBOL_COUNT"

definition clear_stats :: "twin_player \<Rightarrow> twin_player" where
  "clear_stats p =
     p\<lparr>chain := 0, longestChain := 0, connections := 0, misses := 0, totalElapsedMs := 0,
       bestElapsedMs := None, place := None\<rparr>"

text \<open>\<^verbatim>\<open>Some (r, False)\<close> is the refused rematch.\<close>

definition resetForRematch :: "int \<Rightarrow> int \<Rightarrow> twin_room \<Rightarrow> (twin_room \<times> bool) option" where
  "resetForRematch now seed r =
     (case twin_plan_for r of
        None \<Rightarrow> Some (r, False)
      | Some plan \<Rightarrow>
          map_option (\<lambda>r1. (r1\<lparr>tw_gameNumber := Suc (tw_gameNumber r1), heatCount := 0, nextPlace := 1,
                               tw_players := map (on_active clear_stats) (tw_players r1)\<rparr>, True))
            (applyDeal plan now seed r))"

section \<open>The clock\<close>

definition landed_count :: "heat_state \<Rightarrow> twin_room \<Rightarrow> nat" where
  "landed_count h r = length (filter (\<lambda>p. heatId p = Some (ht_id h) \<and> landedMs p \<noteq> None) (tw_players r))"

definition contenders :: "twin_room \<Rightarrow> int \<Rightarrow> nat" where
  "contenders r now = length (filter (\<lambda>p. hand p \<noteq> []) (connectedPlayers r now))"

definition close_heat :: "int \<Rightarrow> twin_room \<Rightarrow> twin_room" where
  "close_heat now r =
     (case heat r of
        None \<Rightarrow> r
      | Some h \<Rightarrow>
          (if ht_resolvedAt h = None \<and> ht_revealAt h \<le> now \<and>
              twinHeatShouldClose \<lparr>hp_deadlineAt = ht_deadlineAt h, hp_graceEndsAt = ht_graceEndsAt h,
                                   hp_contenders = contenders r now, hp_landed = landed_count h r\<rparr> now
           then twin_changed (r\<lparr>heat := Some (h\<lparr>ht_resolvedAt := Some now,
                                  ht_settleAt := Some (now + settleDelayMs TWIN_TIMING)\<rparr>)\<rparr>)
           else r))"

definition settle_due :: "int \<Rightarrow> twin_room \<Rightarrow> bool" where
  "settle_due now r \<longleftrightarrow>
     (case heat r of None \<Rightarrow> False
      | Some h \<Rightarrow> (case ht_settleAt h of None \<Rightarrow> False | Some t \<Rightarrow> t \<le> now))"

definition next_due :: "int \<Rightarrow> twin_room \<Rightarrow> bool" where
  "next_due now r \<longleftrightarrow>
     (case heat r of None \<Rightarrow> False
      | Some h \<Rightarrow> (case ht_nextHeatAt h of None \<Rightarrow> False | Some t \<Rightarrow> t \<noteq> 0 \<and> t \<le> now))"

definition begin_due :: "int \<Rightarrow> twin_room \<Rightarrow> twin_room option" where
  "begin_due now r =
     (if tw_phase r = TwinDealing \<and> (case dealingUntil r of None \<Rightarrow> False | Some t \<Rightarrow> t \<le> now)
      then startHeat now r else Some r)"

definition heat_due :: "int \<Rightarrow> twin_room \<Rightarrow> twin_room \<times> logged_heat list" where
  "heat_due now r =
     (if tw_phase r = TwinHeat \<and> heat r \<noteq> None
      then let r1 = close_heat now r in
           (if settle_due now r1
            then (case settleHeat now r1 of (r2, entry) \<Rightarrow> (r2, case entry of None \<Rightarrow> [] | Some e \<Rightarrow> [e]))
            else (r1, []))
      else (r, []))"

definition next_or_finish :: "int \<Rightarrow> twin_room \<Rightarrow> twin_room option" where
  "next_or_finish now r =
     (if tw_phase r = TwinSettle \<and> next_due now r
      then if list_ex (\<lambda>p. hand p = []) (activePlayers r)
           then Some (twin_changed (r\<lparr>tw_phase := TwinFinished\<rparr>))
           else startHeat now r
      else Some r)"

text \<open>The room and the heats that finished.\<close>

definition twin_advance :: "int \<Rightarrow> twin_room \<Rightarrow> (twin_room \<times> logged_heat list) option" where
  "twin_advance now r =
     Option.bind (begin_due now r) (\<lambda>r1.
       case heat_due now r1 of (r2, logged) \<Rightarrow> map_option (\<lambda>r3. (r3, logged)) (next_or_finish now r2))"

end
