(* ===== verification/TwinView.thy ===== *)
theory TwinView
  imports TwinState
begin

text \<open>
  The snapshot of a Twin room for one player (\<^verbatim>\<open>snapshot\<close> of \<^verbatim>\<open>twin-room-engine.server.ts\<close>, the types of
  \<^verbatim>\<open>twin/types.ts\<close>). The digest of a view is a hash of its JSON and is not modelled.
\<close>

record twin_summary =
  tsm_id :: js_string
  tsm_name :: js_string
  tsm_cardsLeft :: nat
  tsm_chain :: nat
  tsm_longestChain :: nat
  tsm_connections :: nat
  tsm_misses :: nat
  tsm_connected :: bool
  tsm_ready :: bool
  tsm_host :: bool
  tsm_place :: "nat option"
  tsm_withdrawn :: bool

record heat_snapshot =
  hs_id :: js_string
  hs_number :: nat
  hs_middle :: dealt_card
  hs_playedMiddle :: dealt_card
  hs_revealAt :: int
  hs_deadlineAt :: int
  hs_graceEndsAt :: "int option"
  hs_resolvedAt :: "int option"
  hs_settleAt :: "int option"
  hs_nextHeatAt :: "int option"
  hs_landedCount :: nat
  hs_results :: "heat_result list"
  hs_burned :: bool

record twin_private =
  tpv_playerId :: js_string
  tpv_ready :: bool
  tpv_startRequestId :: "js_string option"
  tpv_top :: "dealt_card option"
  tpv_rest :: "dealt_card list"
  tpv_landedMs :: "int option"
  tpv_misses :: nat
  tpv_cooldownUntil :: "int option"
  tpv_chain :: nat

record twin_ending =
  te_winnerPlayerId :: "js_string option"
  te_headline :: js_string
  te_awards :: "twin_award list"
  te_heatCount :: nat

record twin_snapshot =
  tsn_roomId :: js_string
  tsn_managed :: bool
  tsn_phase :: twin_phase
  tsn_serverNow :: int
  tsn_revision :: nat
  tsn_sequence :: nat
  tsn_expiresAt :: int
  tsn_gameNumber :: nat
  tsn_hostPlayerId :: js_string
  tsn_canControl :: bool
  tsn_joinLocked :: bool
  tsn_order :: int
  tsn_handSize :: nat
  tsn_windowMs :: int
  tsn_graceMs :: int
  tsn_players :: "twin_summary list"
  tsn_heat :: "heat_snapshot option"
  tsn_player :: "twin_private option"
  tsn_ending :: "twin_ending option"

definition current_host :: "twin_room \<Rightarrow> twin_player option" where
  "current_host r = find (\<lambda>p. pid p = tw_hostPlayerId r \<and> \<not> withdrawn p) (tw_players r)"

definition canControl :: "int \<Rightarrow> js_string \<Rightarrow> twin_room \<Rightarrow> bool" where
  "canControl now playerId r \<longleftrightarrow>
     playerId = tw_hostPlayerId r \<or>
     (case current_host r of None \<Rightarrow> True | Some h \<Rightarrow> HOST_TAKEOVER_MS < now - tp_lastSeenAt h)"

definition no_card :: dealt_card where
  "no_card = \<lparr>dc_cardId = [], dc_symbolIds = [], dc_seed = 0\<rparr>"

definition twin_summaryOf :: "twin_room \<Rightarrow> int \<Rightarrow> twin_player \<Rightarrow> twin_summary" where
  "twin_summaryOf r now p =
     \<lparr>tsm_id = pid p, tsm_name = tp_name p, tsm_cardsLeft = length (hand p), tsm_chain = chain p,
      tsm_longestChain = longestChain p, tsm_connections = connections p, tsm_misses = misses p,
      tsm_connected = twin_connected now p, tsm_ready = multiplayerPlayerReady p,
      tsm_host = (pid p = tw_hostPlayerId r), tsm_place = place p, tsm_withdrawn = withdrawn p\<rparr>"

definition heat_view :: "twin_room \<Rightarrow> heat_state \<Rightarrow> card_state \<Rightarrow> heat_snapshot" where
  "heat_view r h mid =
     \<lparr>hs_id = ht_id h, hs_number = ht_number h, hs_middle = nullish (dealtCard r mid) no_card,
      hs_playedMiddle = nullish (dealtCard r (ht_middle h)) no_card, hs_revealAt = ht_revealAt h,
      hs_deadlineAt = ht_deadlineAt h, hs_graceEndsAt = ht_graceEndsAt h, hs_resolvedAt = ht_resolvedAt h,
      hs_settleAt = ht_settleAt h, hs_nextHeatAt = ht_nextHeatAt h, hs_landedCount = landed_count h r,
      hs_results = ht_results h, hs_burned = ht_burned h\<rparr>"

definition in_heat :: "twin_room \<Rightarrow> twin_player \<Rightarrow> bool" where
  "in_heat r p \<longleftrightarrow> (case heat r of None \<Rightarrow> False | Some h \<Rightarrow> heatId p = Some (ht_id h))"

definition twin_private_view :: "twin_room \<Rightarrow> twin_player \<Rightarrow> twin_private" where
  "twin_private_view r v =
     \<lparr>tpv_playerId = pid v, tpv_ready = multiplayerPlayerReady v, tpv_startRequestId = startRequestId v,
      tpv_top = Option.bind (top_card v) (dealtCard r),
      tpv_rest = List.map_filter (dealtCard r) (tl (hand v)),
      tpv_landedMs = (if in_heat r v then landedMs v else None),
      tpv_misses = (if in_heat r v then heatMisses v else 0),
      tpv_cooldownUntil = (if in_heat r v then cooldownUntil v else None), tpv_chain = chain v\<rparr>"

definition twin_ending_of :: "(int \<Rightarrow> js_string) \<Rightarrow> twin_room \<Rightarrow> twin_ending" where
  "twin_ending_of seconds r =
     (let stats = playerStats r
      in \<lparr>te_winnerPlayerId = (case rankTwinFinish stats of [] \<Rightarrow> None | w # _ \<Rightarrow> Some (ts_playerId w)),
          te_headline = twinHeadline stats, te_awards = twinAwards seconds stats (heatCount r),
          te_heatCount = heatCount r\<rparr>)"

definition twin_snapshot_of :: "(int \<Rightarrow> js_string) \<Rightarrow> twin_room \<Rightarrow> js_string \<Rightarrow> twin_snapshot" where
  "twin_snapshot_of seconds r playerId =
     (let now = wall_clock r
      in \<lparr>tsn_roomId = tw_roomId r, tsn_managed = tw_managed r, tsn_phase = tw_phase r, tsn_serverNow = now,
          tsn_revision = tw_revision r, tsn_sequence = tw_sequence r, tsn_expiresAt = tw_expiresAt r,
          tsn_gameNumber = tw_gameNumber r, tsn_hostPlayerId = tw_hostPlayerId r,
          tsn_canControl = canControl now playerId r, tsn_joinLocked = (tw_joinLocked r = Some True),
          tsn_order = tw_order r, tsn_handSize = handSize r, tsn_windowMs = windowMs r, tsn_graceMs = graceMs r,
          tsn_players = map (twin_summaryOf r now) (tw_players r),
          tsn_heat = (case (heat r, middle r) of (Some h, Some m) \<Rightarrow> Some (heat_view r h m) | _ \<Rightarrow> None),
          tsn_player = map_option (twin_private_view r) (twin_player_by_id r playerId),
          tsn_ending = (if tw_phase r = TwinFinished then Some (twin_ending_of seconds r) else None)\<rparr>)"

end
