(* ===== verification/TwinPlay.thy ===== *)
theory TwinPlay
  imports TwinView GameEngine
begin

text \<open>
  The actions of a Twin room (\<^verbatim>\<open>applyTwinAction\<close> of \<^verbatim>\<open>twin-room-engine.server.ts\<close>): one definition per
  action, with its guards in the order of the source. A reducer returns the room, the log events it
  emitted and a verdict; \<^verbatim>\<open>None\<close> is a thrown error.
\<close>

section \<open>Actions and verdicts\<close>

datatype twin_action =
  TwGameStart "js_string list option"
| TwAdmissionSet bool
| TwHostPass js_string
| TwGameConfigure "nat option" "int option" "int option"
| TwGameReplay
| TwGameLobby
| TwTimingConfigure int
| TwHeatNext
| TwReadinessSet bool
| TwRename js_string
| TwTap js_string js_string int
| TwLeave

datatype twin_rejection =
  TwActionUnavailable | TwPlayersNotReady | TwHeatEnded | TwWrongSymbol | TwCoolingDown
| TwAlreadyLanded | TwNotHost | TwDeckTooSmall

datatype twin_verdict = TwFail | TwAccept | TwReject twin_rejection js_string

datatype twin_event = LogAppend "logged_heat list" | LogClear

type_synonym twin_step = "twin_room \<times> twin_event list \<times> twin_verdict"

definition emit_log :: "logged_heat list \<Rightarrow> twin_event list" where
  "emit_log entries = (if entries = [] then [] else [LogAppend entries])"

definition tw_unavailable :: "js_string \<Rightarrow> twin_room \<Rightarrow> twin_step" where
  "tw_unavailable msg r = (r, [], TwReject TwActionUnavailable msg)"

definition tw_done :: "twin_room \<Rightarrow> twin_step" where
  "tw_done r = (r, [], TwAccept)"

section \<open>What every player may do\<close>

definition twin_leave :: "int \<Rightarrow> twin_player \<Rightarrow> twin_room \<Rightarrow> twin_step" where
  "twin_leave now p r =
     (if withdrawn p then tw_done r
      else
      let r1 = upd_twin (pid p) (\<lambda>q. q\<lparr>withdrawn := True\<rparr>) (twin_transferHost (pid p) now r);
          r2 = (if activePlayers r1 = [] then r1\<lparr>tw_phase := TwinClosed\<rparr> else r1)
      in tw_done (twin_changed r2))"

definition twin_rename :: "js_string \<Rightarrow> twin_player \<Rightarrow> twin_room \<Rightarrow> twin_step" where
  "twin_rename nextName p r =
     (if tw_phase r \<noteq> TwinLobby then tw_unavailable ''Names only change in the lobby'' r
      else if list_ex (\<lambda>q. pid q \<noteq> pid p \<and> to_lower (tp_name q) = to_lower nextName) (activePlayers r)
      then tw_unavailable ''That name is already here'' r
      else tw_done (twin_changed
             (upd_twin (pid p) (\<lambda>q. setMultiplayerPlayerReady False (q\<lparr>tp_name := nextName\<rparr>)) r)))"

definition twin_readiness :: "bool \<Rightarrow> twin_player \<Rightarrow> twin_room \<Rightarrow> twin_step" where
  "twin_readiness b p r =
     (if tw_phase r \<noteq> TwinLobby then tw_unavailable ''Readiness can only change in the lobby'' r
      else if multiplayerPlayerReady p \<noteq> b
      then tw_done (twin_changed (upd_twin (pid p) (setMultiplayerPlayerReady b) r))
      else tw_done r)"

text \<open>The guards of a tap, in order.\<close>

definition tap_refusal :: "int \<Rightarrow> js_string \<Rightarrow> twin_player \<Rightarrow> twin_room \<Rightarrow> (twin_rejection \<times> js_string) option" where
  "tap_refusal now tappedHeat p r =
     (case heat r of
        None \<Rightarrow> Some (TwHeatEnded, ''That heat has ended'')
      | Some h \<Rightarrow>
          (if tw_phase r \<noteq> TwinHeat \<or> ht_id h \<noteq> tappedHeat then Some (TwHeatEnded, ''That heat has ended'')
           else if (case ht_settleAt h of None \<Rightarrow> False | Some t \<Rightarrow> t \<le> now)
           then Some (TwHeatEnded, ''That heat has ended'')
           else if now < ht_revealAt h then Some (TwHeatEnded, ''That heat has not started'')
           else if heatId p \<noteq> Some (ht_id h) then Some (TwHeatEnded, ''That heat has ended'')
           else if landedMs p \<noteq> None then Some (TwAlreadyLanded, ''You already found it'')
           else if (case cooldownUntil p of None \<Rightarrow> False | Some t \<Rightarrow> now < t)
           then Some (TwCoolingDown, ''Still cooling down'')
           else if hand p = [] then Some (TwActionUnavailable, ''Your hand is empty'')
           else if expectedSymbol r p = None then Some (TwActionUnavailable, ''There is nothing to match'')
           else None))"

definition miss_tap :: "int \<Rightarrow> twin_player \<Rightarrow> twin_player" where
  "miss_tap now p =
     p\<lparr>heatMisses := Suc (heatMisses p), misses := Suc (misses p),
       cooldownUntil := Some (now + twinCooldownMs (Suc (heatMisses p)))\<rparr>"

text \<open>First blood starts everyone else's clock.\<close>

definition land_tap :: "int \<Rightarrow> int \<Rightarrow> heat_state \<Rightarrow> twin_player \<Rightarrow> twin_room \<Rightarrow> twin_room" where
  "land_tap now elapsed h p r =
     (let r1 = upd_twin (pid p) (\<lambda>q. q\<lparr>landedMs :=
                 Some (recordTwinElapsed elapsed (now - ht_revealAt h) (windowMs r))\<rparr>) r;
          r2 = (if ht_graceEndsAt h = None
                then r1\<lparr>heat := Some (h\<lparr>ht_graceEndsAt := Some (twinGraceEnd now (ht_deadlineAt h) (graceMs r))\<rparr>)\<rparr>
                else r1)
      in twin_changed r2)"

definition twin_tap :: "int \<Rightarrow> js_string \<Rightarrow> js_string \<Rightarrow> int \<Rightarrow> twin_player \<Rightarrow> twin_room \<Rightarrow> twin_step option" where
  "twin_tap now tappedHeat symbolId elapsed p r =
     (case tap_refusal now tappedHeat p r of
        Some (code, msg) \<Rightarrow> Some (r, [], TwReject code msg)
      | None \<Rightarrow>
          (if Some symbolId \<noteq> expectedSymbol r p
           then Some (twin_changed (upd_twin (pid p) (miss_tap now) r), [], TwReject TwWrongSymbol ''Not that one'')
           else case heat r of
                  None \<Rightarrow> None
                | Some h \<Rightarrow> map_option (\<lambda>(r1, entries). (r1, emit_log entries, TwAccept))
                    (twin_advance now (land_tap now elapsed h p r))))"

section \<open>What the host may do\<close>

definition twin_admission :: "bool \<Rightarrow> twin_room \<Rightarrow> twin_step" where
  "twin_admission locked r =
     (if tw_phase r \<noteq> TwinLobby then tw_unavailable ''The room only locks in the lobby'' r
      else if tw_joinLocked r \<noteq> Some locked then tw_done (twin_changed (r\<lparr>tw_joinLocked := Some locked\<rparr>))
      else tw_done r)"

definition twin_host_pass :: "js_string \<Rightarrow> twin_room \<Rightarrow> twin_step" where
  "twin_host_pass targetId r =
     (case find (\<lambda>q. pid q = targetId) (activePlayers r) of
        None \<Rightarrow> tw_unavailable ''That player is not available'' r
      | Some q \<Rightarrow> tw_done (twin_changed (r\<lparr>tw_hostPlayerId := pid q\<rparr>)))"

definition twin_configure :: "nat option \<Rightarrow> int option \<Rightarrow> int option \<Rightarrow> twin_room \<Rightarrow> twin_step" where
  "twin_configure newHand newWindow newGrace r =
     (if tw_managed r then tw_unavailable ''The game-night settings are fixed'' r
      else if tw_phase r \<noteq> TwinLobby then tw_unavailable ''Settings only change in the lobby'' r
      else
      let r1 = r\<lparr>requestedHandSize := nullish newHand (requestedHandSize r),
                 windowMs := nullish newWindow (windowMs r), graceMs := nullish newGrace (graceMs r)\<rparr>
      in case twin_plan_for r1 of
           None \<Rightarrow> (r1, [], TwReject TwDeckTooSmall ''That is too many cards for this many players'')
         | Some plan \<Rightarrow>
             tw_done (twin_changed (r1\<lparr>tw_order := plan_order plan, handSize := plan_handSize plan\<rparr>)))"

definition twin_timing_configure :: "int \<Rightarrow> twin_room \<Rightarrow> twin_step" where
  "twin_timing_configure hold r =
     (if tw_managed r then tw_unavailable ''The game-night settings are fixed'' r
      else tw_done (twin_changed (r\<lparr>settleHoldMs := hold\<rparr>)))"

definition twin_unconfirmed :: "js_string list \<Rightarrow> twin_player \<Rightarrow> twin_player \<Rightarrow> bool" where
  "twin_unconfirmed confirmed p q \<longleftrightarrow>
     \<not> multiplayerPlayerReady q \<and>
     (pid q = pid p \<or> pid q \<notin> set confirmed \<or> \<not> truthy (startRequestId q))"

definition twin_start_refused :: "js_string \<Rightarrow> js_string list \<Rightarrow> twin_player \<Rightarrow> twin_room \<Rightarrow> twin_step" where
  "twin_start_refused newId confirmed p r =
     (let sel = (\<lambda>q. \<not> withdrawn q \<and> twin_unconfirmed confirmed p q);
          (ps, nudged) = requestMultiplayerReadiness sel (newId @ '':readiness'') (wall_clock r) (tw_players r);
          r1 = r\<lparr>tw_players := ps\<rparr>
      in (if nudged then twin_changed r1 else r1, [],
          TwReject TwPlayersNotReady
            (if list_ex (\<lambda>q. sel q \<and> pid q = pid p) (tw_players r) then ''Set yourself ready before starting''
             else ''Some players are not ready'')))"

definition twin_remove_unready :: "js_string list \<Rightarrow> twin_player \<Rightarrow> twin_room \<Rightarrow> twin_room" where
  "twin_remove_unready confirmed p r =
     (if confirmed = [] then r
      else twin_changed (r\<lparr>tw_players :=
             filter (\<lambda>q. multiplayerPlayerReady q \<or> pid q = pid p \<or> pid q \<notin> set confirmed) (tw_players r)\<rparr>))"

text \<open>\<^verbatim>\<open>pick(2 ** 31)\<close>: the seed of a deal.\<close>

definition draw_seed :: "twin_room \<Rightarrow> int \<times> twin_room" where
  "draw_seed r = (case pick r (2 ^ 31) of (k, r1) \<Rightarrow> (int k, r1))"

definition twin_start :: "js_string \<Rightarrow> int \<Rightarrow> js_string list option \<Rightarrow> twin_player \<Rightarrow> twin_room \<Rightarrow> twin_step option" where
  "twin_start newId now removePlayerIds p r =
     (let confirmed = nullish removePlayerIds [] in
      if list_ex (twin_unconfirmed confirmed p) (activePlayers r)
      then Some (twin_start_refused newId confirmed p r)
      else
      let r1 = twin_remove_unready confirmed p r in
      case twin_plan_for r1 of
        None \<Rightarrow> Some (r1, [], TwReject TwDeckTooSmall ''There are too many players for the deck'')
      | Some plan \<Rightarrow>
          (case draw_seed r1 of (seed, r2) \<Rightarrow>
             map_option (\<lambda>r3. (r3, [LogClear], TwAccept)) (applyDeal plan now seed r2)))"

definition twin_heat_next :: "int \<Rightarrow> heat_state \<Rightarrow> twin_room \<Rightarrow> twin_step option" where
  "twin_heat_next now h r =
     map_option (\<lambda>(r1, entries). (r1, emit_log entries, TwAccept))
       (twin_advance now (r\<lparr>heat := Some (h\<lparr>ht_nextHeatAt := Some now\<rparr>)\<rparr>))"

definition twin_replay :: "int \<Rightarrow> twin_room \<Rightarrow> twin_step option" where
  "twin_replay now r =
     (case draw_seed r of (seed, r1) \<Rightarrow>
        (case resetForRematch now seed r1 of
           None \<Rightarrow> None
         | Some (r2, True) \<Rightarrow> Some (r2, [LogClear], TwAccept)
         | Some (r2, False) \<Rightarrow>
             Some (r2, [LogClear], TwReject TwDeckTooSmall ''There are too many players for the deck'')))"

text \<open>Back to the lobby: empty hands, cleared statistics, and everyone but the host unready.\<close>

definition lobby_player :: "js_string \<Rightarrow> twin_player \<Rightarrow> twin_player" where
  "lobby_player hostId p = clear_stats ((setMultiplayerPlayerReady (pid p = hostId) p)\<lparr>hand := []\<rparr>)"

definition twin_to_lobby :: "twin_room \<Rightarrow> twin_step" where
  "twin_to_lobby r =
     (twin_changed (r\<lparr>tw_players := map (lobby_player (tw_hostPlayerId r)) (tw_players r),
                      tw_phase := TwinLobby, heat := None, middle := None, heatCount := 0, nextPlace := 1,
                      tw_gameNumber := Suc (tw_gameNumber r)\<rparr>), [LogClear], TwAccept)"

section \<open>The reducer\<close>

definition twin_host_step ::
  "js_string \<Rightarrow> int \<Rightarrow> twin_action \<Rightarrow> twin_player \<Rightarrow> twin_room \<Rightarrow> twin_step option" where
  "twin_host_step newId now a p r =
     (case a of
        TwAdmissionSet locked \<Rightarrow> Some (twin_admission locked r)
      | TwHostPass targetId \<Rightarrow> Some (twin_host_pass targetId r)
      | TwGameConfigure h w g \<Rightarrow> Some (twin_configure h w g r)
      | TwTimingConfigure hold \<Rightarrow> Some (twin_timing_configure hold r)
      | TwGameStart removed \<Rightarrow>
          (if tw_phase r = TwinLobby then twin_start newId now removed p r
           else Some (tw_unavailable ''That action is not available'' r))
      | TwHeatNext \<Rightarrow>
          (case heat r of
             Some h \<Rightarrow> (if tw_phase r = TwinSettle then twin_heat_next now h r
                        else Some (tw_unavailable ''That action is not available'' r))
           | None \<Rightarrow> Some (tw_unavailable ''That action is not available'' r))
      | TwGameReplay \<Rightarrow>
          (if tw_phase r = TwinFinished then twin_replay now r
           else Some (tw_unavailable ''That action is not available'' r))
      | TwGameLobby \<Rightarrow>
          (if tw_phase r = TwinFinished then Some (twin_to_lobby r)
           else Some (tw_unavailable ''That action is not available'' r))
      | _ \<Rightarrow> Some (tw_unavailable ''That action is not available'' r))"

definition twin_step_of ::
  "js_string \<Rightarrow> int \<Rightarrow> twin_action \<Rightarrow> twin_player \<Rightarrow> twin_room \<Rightarrow> twin_step option" where
  "twin_step_of newId now a p r =
     (case a of
        TwRename nextName \<Rightarrow> Some (twin_rename nextName p r)
      | TwReadinessSet b \<Rightarrow> Some (twin_readiness b p r)
      | TwTap tappedHeat symbolId elapsed \<Rightarrow> twin_tap now tappedHeat symbolId elapsed p r
      | _ \<Rightarrow>
          (if \<not> canControl now (pid p) r
           then Some (r, [], TwReject TwNotHost ''The host controls the game'')
           else twin_host_step newId now a p r))"

record twin_input =
  ti_playerId :: js_string
  ti_playerToken :: js_string
  ti_action :: twin_action
  ti_actionId :: "js_string option"
  ti_now :: int
  ti_newId :: js_string

definition ti_id :: "twin_input \<Rightarrow> js_string" where
  "ti_id i = nullish (ti_actionId i) (ti_newId i)"

definition authenticatedPlayer :: "js_string \<Rightarrow> js_string \<Rightarrow> twin_room \<Rightarrow> twin_player option" where
  "authenticatedPlayer playerId playerToken r =
     (case twin_player_by_id r playerId of
        None \<Rightarrow> None
      | Some p \<Rightarrow> (if multiplayerCredentialsMatch r playerToken (tp_tokenHash p) then Some p else None))"

definition validPlayer :: "js_string \<Rightarrow> js_string \<Rightarrow> twin_room \<Rightarrow> twin_player option" where
  "validPlayer playerId playerToken r =
     (case twin_player_by_id r playerId of
        None \<Rightarrow> None
      | Some p \<Rightarrow>
          (if \<not> withdrawn p \<and> multiplayerCredentialsMatch r playerToken (tp_tokenHash p) then Some p else None))"

text \<open>\<^verbatim>\<open>accept()\<close>: the action is remembered.\<close>

definition twin_accepted :: "js_string \<Rightarrow> twin_step \<Rightarrow> twin_step" where
  "twin_accepted actionId st =
     (case st of (r, events, v) \<Rightarrow>
        (if v = TwAccept
         then r\<lparr>tw_processedActions := rememberMultiplayerAction (tw_processedActions r) actionId\<rparr> else r,
         events, v))"

definition with_events :: "twin_event list \<Rightarrow> twin_step \<Rightarrow> twin_step" where
  "with_events first st = (case st of (r, events, v) \<Rightarrow> (r, first @ events, v))"

definition twinReduce :: "twin_input \<Rightarrow> twin_room \<Rightarrow> twin_step option" where
  "twinReduce i r =
     (case authenticatedPlayer (ti_playerId i) (ti_playerToken i) r of
        None \<Rightarrow> Some (r, [], TwFail)
      | Some authenticated \<Rightarrow>
          (if multiplayerActionSeen (tw_processedActions r) (ti_id i) then Some (twin_accepted (ti_id i) (tw_done r))
           else if ti_action i = TwLeave
           then Some (twin_accepted (ti_id i) (twin_leave (ti_now i) authenticated r))
           else if withdrawn authenticated then Some (r, [], TwFail)
           else
           Option.bind (twin_advance (ti_now i)
               (upd_twin (ti_playerId i) (\<lambda>p. p\<lparr>tp_lastSeenAt := ti_now i\<rparr>) r)) (\<lambda>(r1, entries).
             Option.bind (twin_player_by_id r1 (ti_playerId i)) (\<lambda>p.
               map_option (\<lambda>st. twin_accepted (ti_id i) (with_events (emit_log entries) st))
                 (twin_step_of (ti_newId i) (ti_now i) (ti_action i) p r1)))))"

end
