(* ===== verification/TwinRoom.thy ===== *)
theory TwinRoom
  imports TwinPlay RoomPostgres
begin

text \<open>
  Rooms of Twin and their stores (\<^verbatim>\<open>twin-room-engine.server.ts\<close>): creating, joining, reading and acting,
  over the in-memory store, which keeps the heat log apart, and over the durable one, which keeps
  it in the room. \<^verbatim>\<open>seconds\<close> is the formatting of a time in an award, \<^verbatim>\<open>digest\<close> the hash of a view.
  A thrown error is an outcome \<^verbatim>\<open>None\<close>; it leaves the durable store as it was.
\<close>

section \<open>Outcomes\<close>

datatype twin_join_error =
  TwInviteExpired js_string | TwGameStarted | TwRoomLocked | TwInvalidName | TwNameTaken | TwRoomFull

record twin_join_success =
  tjs_roomId :: js_string
  tjs_expiresAt :: int
  tjs_playerId :: js_string
  tjs_playerToken :: js_string
  tjs_snapshot :: twin_snapshot

datatype twin_read_result = TwReadUnavailable | TwReadUnchanged int | TwReadView twin_snapshot

datatype twin_outcome =
  TwOutJoin "twin_join_error + twin_join_success"
| TwOutRead twin_read_result
| TwOutAction twin_verdict "twin_snapshot option"

section \<open>A new room\<close>

definition twin_newPlayer :: "js_string \<Rightarrow> js_string \<Rightarrow> js_string \<Rightarrow> int \<Rightarrow> twin_player" where
  "twin_newPlayer i name hashed now =
     \<lparr>pid = i, ready = Some True, startRequestId = None, startRequestedAt = None, tp_joinId = None,
      tp_name = name, tp_tokenHash = hashed, tp_joinedAt = now, hand = [], tp_lastSeenAt = now,
      heatId = None, landedMs = None, heatMisses = 0, cooldownUntil = None, chain = 0, longestChain = 0,
      connections = 0, misses = 0, totalElapsedMs = 0, bestElapsedMs = None, place = None,
      withdrawn = False\<rparr>"

record twin_create_input =
  tci_hostName :: js_string
  tci_handSize :: "nat option"
  tci_windowMs :: "int option"
  tci_graceMs :: "int option"
  tci_settleHoldMs :: "int option"
  tci_managed :: bool
  tci_officialResultChannelId :: "js_string option"

definition new_twin_room ::
  "services \<Rightarrow> js_string \<Rightarrow> js_string \<Rightarrow> js_string \<Rightarrow> twin_player \<Rightarrow> int \<Rightarrow> twin_create_input \<Rightarrow> twin_room" where
  "new_twin_room w room_id hostToken joinToken host seed0 input =
     (let requested = nullish (tci_handSize input) TWIN_DEFAULT_HAND;
          plan = planTwinDeck 1 requested TWIN_SYMBOL_COUNT
      in services.extend w
        \<lparr>tw_roomId = room_id, tw_managed = tci_managed input,
         tw_officialResultChannelId = tci_officialResultChannelId input,
         tw_expiresAt = multiplayerLobbyExpiresAt (wall_clock w) 1, tw_revision = 1, tw_sequence = 1,
         tw_phase = TwinLobby, tw_order = (case plan of None \<Rightarrow> 4 | Some p \<Rightarrow> plan_order p),
         handSize = (case plan of None \<Rightarrow> TWIN_DEFAULT_HAND | Some p \<Rightarrow> plan_handSize p),
         requestedHandSize = requested,
         windowMs = nullish (tci_windowMs input) (defaultWindowMs TWIN_TIMING),
         graceMs = nullish (tci_graceMs input) (defaultGraceMs TWIN_TIMING),
         settleHoldMs = nullish (tci_settleHoldMs input) (defaultSettleHoldMs TWIN_TIMING),
         tw_hostHash = hashMultiplayerCredential w hostToken, tw_joinHash = hashMultiplayerCredential w joinToken,
         tw_hostPlayerId = pid host, tw_joinLocked = None, tw_processedActions = [], tw_players = [host],
         middle = None, heat = None, tw_gameNumber = 1, heatCount = 0, nextPlace = 1, dealingUntil = None,
         seedCounter = seed0, loggedHeats = []\<rparr>)"

text \<open>The room, the two room secrets and the host's token; \<^verbatim>\<open>seed0\<close> is the drawn layout seed.\<close>

definition createTwinRoom ::
  "(js_string \<Rightarrow> bool) \<Rightarrow> int \<Rightarrow> services \<Rightarrow> twin_create_input \<Rightarrow>
   (twin_room \<times> js_string \<times> js_string \<times> js_string) option" where
  "createTwinRoom roomExists seed0 w input =
     (case createAvailableMultiplayerRoomId roomExists w of
        (None, _) \<Rightarrow> None
      | (Some room_id, w0) \<Rightarrow>
          (let (hostToken, w1) = createMultiplayerCredential w0;
               (joinToken, w2) = createMultiplayerCredential w1;
               (playerToken, w3) = createMultiplayerCredential w2;
               (i, w4) = randomUUID w3;
               host = twin_newPlayer i (tci_hostName input) (hashMultiplayerCredential w playerToken) (wall_clock w)
           in Some (new_twin_room w4 room_id hostToken joinToken host seed0 input,
                    hostToken, joinToken, playerToken)))"

section \<open>Joining\<close>

record twin_join_input =
  tji_joinToken :: "js_string option"
  tji_name :: js_string
  tji_joinId :: "js_string option"
  tji_playerToken :: "js_string option"

definition twin_invite_refused :: "twin_join_input \<Rightarrow> twin_room \<Rightarrow> bool" where
  "twin_invite_refused i r \<longleftrightarrow>
     (tw_managed r \<and> \<not> truthy (tji_joinToken i)) \<or>
     (truthy (tji_joinToken i) \<and> \<not> multiplayerCredentialsMatch r (the (tji_joinToken i)) (tw_joinHash r))"

definition twin_attempt :: "twin_join_input \<Rightarrow> join_attempt option" where
  "twin_attempt i =
     (if truthy (tji_joinId i) \<and> truthy (tji_playerToken i)
      then Some \<lparr>ja_joinId = the (tji_joinId i), ja_playerToken = the (tji_playerToken i)\<rparr> else None)"

definition twin_admission_error :: "js_string \<Rightarrow> twin_room \<Rightarrow> twin_join_error option" where
  "twin_admission_error name r =
     (if tw_phase r \<noteq> TwinLobby then Some TwGameStarted
      else if tw_joinLocked r = Some True then Some TwRoomLocked
      else if twinMaxPlayers TWIN_SYMBOL_COUNT \<le> int (length (activePlayers r)) then Some TwRoomFull
      else if length name < 1 then Some TwInvalidName
      else if list_ex (\<lambda>p. to_lower (tp_name p) = to_lower name) (activePlayers r) then Some TwNameTaken
      else None)"

definition twin_follow_roster :: "twin_room \<Rightarrow> twin_room" where
  "twin_follow_roster r =
     (case twin_plan_for r of
        None \<Rightarrow> r
      | Some plan \<Rightarrow> r\<lparr>tw_order := plan_order plan, handSize := plan_handSize plan\<rparr>)"

definition twin_joined :: "(int \<Rightarrow> js_string) \<Rightarrow> js_string \<Rightarrow> js_string \<Rightarrow> twin_room \<Rightarrow> twin_join_success" where
  "twin_joined seconds playerId playerToken r =
     \<lparr>tjs_roomId = tw_roomId r, tjs_expiresAt = tw_expiresAt r, tjs_playerId = playerId,
      tjs_playerToken = playerToken, tjs_snapshot = twin_snapshot_of seconds r playerId\<rparr>"

definition twin_seat :: "js_string option \<Rightarrow> js_string \<Rightarrow> js_string \<Rightarrow> twin_room \<Rightarrow> js_string \<times> twin_room" where
  "twin_seat joinId playerToken name r =
     (let (i, r1) = randomUUID r;
          p = (twin_newPlayer i name (hashMultiplayerCredential r playerToken) (wall_clock r))\<lparr>tp_joinId := joinId\<rparr>
      in (i, twin_changed (twin_follow_roster (r1\<lparr>tw_players := tw_players r1 @ [p]\<rparr>))))"

definition twin_join ::
  "(int \<Rightarrow> js_string) \<Rightarrow> twin_join_input \<Rightarrow> twin_room \<Rightarrow> twin_room \<times> (twin_join_error + twin_join_success)" where
  "twin_join seconds i r =
     (if twin_invite_refused i r then (r, Inl (TwInviteExpired ''This invite is no longer valid''))
      else
      case resolveMultiplayerJoinAttempt tp_joinId tp_tokenHash (tw_players r) (twin_attempt i) r of
        (JoinConflict, r1) \<Rightarrow> (r1, Inl (TwInviteExpired ''This join attempt is no longer valid''))
      | (JoinRetry p t, r1) \<Rightarrow> (r1, Inr (twin_joined seconds (pid p) t r1))
      | (JoinNew joinId t, r1) \<Rightarrow>
          (let name = js_trim (tji_name i) in
           case twin_admission_error name r1 of
             Some e \<Rightarrow> (r1, Inl e)
           | None \<Rightarrow> (case twin_seat joinId t name r1 of (p, r2) \<Rightarrow> (r2, Inr (twin_joined seconds p t r2)))))"

section \<open>Reading\<close>

definition appendEmbeddedLog :: "logged_heat list \<Rightarrow> twin_room \<Rightarrow> twin_room" where
  "appendEmbeddedLog entries r =
     (if entries = [] then r else r\<lparr>loggedHeats := loggedHeats r @ entries\<rparr>)"

definition touch_twin :: "int \<Rightarrow> twin_player \<Rightarrow> twin_player" where
  "touch_twin now p = p\<lparr>tp_lastSeenAt := fst (touchMultiplayerPresence (tp_lastSeenAt p) now False)\<rparr>"

definition twin_view ::
  "(int \<Rightarrow> js_string) \<Rightarrow> (twin_snapshot \<Rightarrow> js_string) \<Rightarrow> js_string option \<Rightarrow> js_string \<Rightarrow> twin_room \<Rightarrow> twin_read_result" where
  "twin_view seconds digest lastDigest playerId r =
     (let view = twin_snapshot_of seconds r playerId in
      if (case lastDigest of None \<Rightarrow> False | Some d \<Rightarrow> d \<noteq> [] \<and> d = digest view)
      then TwReadUnchanged (tsn_serverNow view) else TwReadView view)"

text \<open>The room, the heats that finished and the answer. A join advances the room first.\<close>

definition readTwin ::
  "(int \<Rightarrow> js_string) \<Rightarrow> (twin_snapshot \<Rightarrow> js_string) \<Rightarrow> js_string \<Rightarrow> js_string \<Rightarrow> js_string option \<Rightarrow> twin_room \<Rightarrow>
   (twin_room \<times> logged_heat list \<times> twin_outcome) option" where
  "readTwin seconds digest playerId playerToken lastDigest r =
     (case validPlayer playerId playerToken r of
        None \<Rightarrow> Some (r, [], TwOutRead TwReadUnavailable)
      | Some p \<Rightarrow>
          map_option (\<lambda>(r1, entries). (r1, entries, TwOutRead (twin_view seconds digest lastDigest playerId r1)))
            (twin_advance (wall_clock r) (upd_twin playerId (touch_twin (wall_clock r)) r)))"

definition joinTwin ::
  "(int \<Rightarrow> js_string) \<Rightarrow> twin_join_input \<Rightarrow> twin_room \<Rightarrow> (twin_room \<times> logged_heat list \<times> twin_outcome) option" where
  "joinTwin seconds i r =
     map_option (\<lambda>(r1, entries). case twin_join seconds i r1 of (r2, x) \<Rightarrow> (r2, entries, TwOutJoin x))
       (twin_advance (wall_clock r) r)"

definition actTwin ::
  "(int \<Rightarrow> js_string) \<Rightarrow> twin_input \<Rightarrow> twin_room \<Rightarrow> (twin_room \<times> twin_event list \<times> twin_outcome) option" where
  "actTwin seconds i r =
     map_option (\<lambda>(r1, events, v). (r1, events,
         TwOutAction v (if v = TwFail then None else Some (twin_snapshot_of seconds r1 (ti_playerId i)))))
       (twinReduce i r)"

definition twin_reply_accepted :: "twin_outcome option \<Rightarrow> bool" where
  "twin_reply_accepted x = (case x of Some (TwOutAction v _) \<Rightarrow> v = TwAccept | _ \<Rightarrow> False)"

section \<open>The official result\<close>

definition twin_result_player :: "twin_room \<Rightarrow> nat \<times> twin_stats \<Rightarrow> official_player" where
  "twin_result_player r = (\<lambda>(index, s).
     \<lparr>op_playerId = ts_playerId s,
      op_outcome = (case twin_player_by_id r (ts_playerId s) of
                      None \<Rightarrow> Completed | Some p \<Rightarrow> if withdrawn p then Withdrawn else Completed),
      op_rawScore = Some (int (ts_connections s)), op_placement = Some (Suc index),
      op_durationMs = Some (ts_totalElapsedMs s), op_won = Some (index = 0)\<rparr>)"

definition twinOfficialResult ::
  "(official_payload \<Rightarrow> js_string) \<Rightarrow> twin_room \<Rightarrow> official_envelope option" where
  "twinOfficialResult json r =
     (case tw_officialResultChannelId r of
        None \<Rightarrow> None
      | Some channel \<Rightarrow>
          (if channel = [] \<or> tw_phase r \<noteq> TwinFinished then None
           else Some (sealOfficialGameResult r json channel 1
             \<lparr>od_gameKind = ''twin'', od_gameInstanceId = tw_roomId r,
              od_resultId = ''game:'' @ nat_str (tw_gameNumber r), od_scope = ''game'',
              od_players = map (twin_result_player r) (enumerate 0 (rankTwinFinish (playerStats r)))\<rparr>)))"

section \<open>The in-memory store\<close>

record twin_store =
  tms_rooms :: "js_string \<Rightarrow> twin_room option"
  tms_logs :: "js_string \<Rightarrow> logged_heat list option"

definition twin_loadRoom :: "int \<Rightarrow> js_string \<Rightarrow> twin_store \<Rightarrow> twin_room option \<times> twin_store" where
  "twin_loadRoom now i st =
     (case tms_rooms st i of
        None \<Rightarrow> (None, st)
      | Some r \<Rightarrow>
          (if tw_expiresAt r \<le> now then (None, st\<lparr>tms_rooms := (tms_rooms st)(i := None)\<rparr>)
           else (Some (r\<lparr>wall_clock := now\<rparr>), st)))"

definition twin_saveRoom :: "twin_room \<Rightarrow> twin_store \<Rightarrow> twin_store" where
  "twin_saveRoom r st =
     (let r' = twin_applyRoomExpiry (wall_clock r) r
      in if tw_expiresAt r' \<le> wall_clock r then st\<lparr>tms_rooms := (tms_rooms st)(tw_roomId r' := None)\<rparr>
         else st\<lparr>tms_rooms := (tms_rooms st)(tw_roomId r' := Some r')\<rparr>)"

definition appendLog :: "js_string \<Rightarrow> logged_heat list \<Rightarrow> twin_store \<Rightarrow> twin_store" where
  "appendLog i entries st =
     (if entries = [] then st
      else st\<lparr>tms_logs := (tms_logs st)(i := Some (nullish (tms_logs st i) [] @ entries))\<rparr>)"

definition clearLog :: "js_string \<Rightarrow> twin_store \<Rightarrow> twin_store" where
  "clearLog i st = st\<lparr>tms_logs := (tms_logs st)(i := None)\<rparr>"

definition twin_same_state :: "twin_room \<Rightarrow> twin_room \<Rightarrow> bool" where
  "twin_same_state a b \<longleftrightarrow> services.more a = services.more b"

text \<open>\<^verbatim>\<open>log_of\<close> writes the heats a join or a read finished, before the room is saved.\<close>

definition twin_withRoom ::
  "(official_payload \<Rightarrow> js_string) \<Rightarrow> int \<Rightarrow> js_string \<Rightarrow> ('e \<Rightarrow> twin_store \<Rightarrow> twin_store) \<Rightarrow>
   (twin_room \<Rightarrow> (twin_room \<times> 'e \<times> twin_outcome) option) \<Rightarrow> twin_store \<Rightarrow>
   twin_store \<times> ('e \<times> twin_outcome) option option \<times> official_envelope option" where
  "twin_withRoom json now i log_of use st =
     (case twin_loadRoom now i st of
        (None, st1) \<Rightarrow> (st1, Some None, None)
      | (Some r, st1) \<Rightarrow>
          (case use r of
             None \<Rightarrow> (st1, None, None)
           | Some (r', e, out) \<Rightarrow>
               (let st2 = log_of e (st1\<lparr>tms_rooms := (tms_rooms st1)(i \<mapsto> r')\<rparr>);
                    st3 = (if twin_same_state r r' then st2 else twin_saveRoom r' st2)
                in (st3, Some (Some (e, out)),
                    if tw_phase r \<noteq> TwinFinished \<and> tw_phase r' = TwinFinished
                    then twinOfficialResult json r' else None))))"

text \<open>The events of an action are written after the room, when the room still loads.\<close>

definition twin_log_event :: "js_string \<Rightarrow> twin_event \<Rightarrow> twin_store \<Rightarrow> twin_store" where
  "twin_log_event i e st = (case e of LogClear \<Rightarrow> clearLog i st | LogAppend entries \<Rightarrow> appendLog i entries st)"

definition applyTwinAction_memory ::
  "(official_payload \<Rightarrow> js_string) \<Rightarrow> (int \<Rightarrow> js_string) \<Rightarrow> int \<Rightarrow> js_string \<Rightarrow> twin_input \<Rightarrow> twin_store \<Rightarrow>
   twin_store \<times> twin_outcome option option" where
  "applyTwinAction_memory json seconds now i input st =
     (case twin_withRoom json now i (\<lambda>_ st. st) (actTwin seconds input) st of
        (st1, None, _) \<Rightarrow> (st1, None)
      | (st1, Some None, _) \<Rightarrow> (st1, Some None)
      | (st1, Some (Some (events, out)), _) \<Rightarrow>
          (if events = [] then (st1, Some (Some out))
           else case twin_loadRoom now i st1 of
                  (None, st2) \<Rightarrow> (st2, Some (Some out))
                | (Some _, st2) \<Rightarrow> (fold (twin_log_event i) events st2, Some (Some out))))"

definition readTwinLog_memory :: "int \<Rightarrow> js_string \<Rightarrow> js_string \<Rightarrow> js_string \<Rightarrow> twin_store \<Rightarrow> logged_heat list option \<times> twin_store" where
  "readTwinLog_memory now i playerId playerToken st =
     (case twin_loadRoom now i st of
        (None, st1) \<Rightarrow> (None, st1)
      | (Some r, st1) \<Rightarrow>
          (if validPlayer playerId playerToken r = None then (None, st1)
           else (Some (nullish (tms_logs st1 i) []), st1)))"

definition authorizeTwinSocket :: "int \<Rightarrow> js_string \<Rightarrow> js_string \<Rightarrow> js_string \<Rightarrow> twin_store \<Rightarrow> bool \<times> twin_store" where
  "authorizeTwinSocket now i playerId playerToken st =
     (case twin_loadRoom now i st of
        (None, st1) \<Rightarrow> (False, st1)
      | (Some r, st1) \<Rightarrow> (validPlayer playerId playerToken r \<noteq> None, st1))"

definition sweep_twin_rooms :: "int \<Rightarrow> js_string list \<Rightarrow> twin_store \<Rightarrow> twin_store" where
  "sweep_twin_rooms now ids st =
     fold (\<lambda>i st. case tms_rooms st i of
              None \<Rightarrow> st
            | Some r \<Rightarrow> (if now < tw_expiresAt r then st
                         else \<lparr>tms_rooms = (tms_rooms st)(i := None), tms_logs = (tms_logs st)(i := None)\<rparr>))
       ids st"

section \<open>The durable store\<close>

type_synonym twin_db = "(twin_room, twin_outcome option) pg_db"

definition twin_key :: "js_string \<Rightarrow> room_key" where
  "twin_key i = (''twin'', i)"

definition twin_ending_results ::
  "(official_payload \<Rightarrow> js_string) \<Rightarrow> twin_room \<Rightarrow> twin_room \<Rightarrow> official_envelope list" where
  "twin_ending_results json before after =
     (if tw_phase before \<noteq> TwinFinished \<and> tw_phase after = TwinFinished
      then (case twinOfficialResult json after of None \<Rightarrow> [] | Some e \<Rightarrow> [e]) else [])"

text \<open>In the durable store the log is part of the room.\<close>

definition embed_event :: "twin_event \<Rightarrow> twin_room \<Rightarrow> twin_room" where
  "embed_event e r = (case e of LogClear \<Rightarrow> r\<lparr>loggedHeats := []\<rparr> | LogAppend entries \<Rightarrow> appendEmbeddedLog entries r)"

definition act_durable ::
  "(int \<Rightarrow> js_string) \<Rightarrow> twin_input \<Rightarrow> twin_room \<Rightarrow> twin_room \<times> twin_outcome option" where
  "act_durable seconds i r =
     (case actTwin seconds i r of
        None \<Rightarrow> (r, None)
      | Some (r', events, out) \<Rightarrow> (fold embed_event events r', Some out))"

text \<open>\<^verbatim>\<open>with_entries\<close> appends the heats a read or a join finished.\<close>

definition with_entries ::
  "(twin_room \<Rightarrow> (twin_room \<times> logged_heat list \<times> twin_outcome) option) \<Rightarrow> twin_room \<Rightarrow> twin_room \<times> twin_outcome option" where
  "with_entries use r =
     (case use r of
        None \<Rightarrow> (r, None)
      | Some (r', entries, out) \<Rightarrow> (appendEmbeddedLog entries r', Some out))"

definition with_durable_twin ::
  "(official_payload \<Rightarrow> js_string) \<Rightarrow> int \<Rightarrow> js_string \<Rightarrow> pg_action option \<Rightarrow>
   (twin_room \<Rightarrow> twin_room \<times> twin_outcome option) \<Rightarrow> twin_db \<Rightarrow> twin_db \<times> (pg_error + twin_outcome option option)" where
  "with_durable_twin json now i action use db =
     (case withPostgresGameRoom now (twin_key i) action (\<lambda>r. use (r\<lparr>wall_clock := now\<rparr>)) twin_same_state
             (\<lambda>r. twin_applyRoomExpiry (wall_clock r) r) tw_expiresAt (twin_ending_results json)
             twin_reply_accepted db of
        (db', Inl RoomActionConflict) \<Rightarrow> (db', Inr None)
      | res \<Rightarrow> res)"

end
