(* ===== verification/TwinDeckFacts.thy ===== *)
theory TwinDeckFacts
  imports TwinDeck
begin

text \<open>
  What the deck of Twin promises: any two cards of a playable deck share exactly one symbol, the plan
  is the best the deck allows, and a deal gives everybody different cards.
\<close>

section \<open>The decks\<close>

text \<open>C11. For every order the symbol set can fill there is a deck; it has
  as many cards as the plane has lines, with different ids and one more symbol than the order on
  each, and any two different cards of it have exactly one symbol in common, which is the one
  the match of the two cards returns.\<close>

theorem any_two_cards_share_one_symbol:
  assumes "order \<in> set (twinAvailableOrders TWIN_SYMBOL_COUNT)"
  shows "\<exists>deck. twinDeck order = Some deck \<and> int (length deck) = twinDeckCapacity order \<and>
           distinct (map tc_id deck) \<and> (\<forall>c\<in>set deck. int (length (tc_symbolIds c)) = order + 1) \<and>
           (\<forall>c\<in>set deck. \<forall>d\<in>set deck. c \<noteq> d \<longrightarrow>
              (\<exists>x. twinMatch c d = Some x \<and> set (tc_symbolIds c) \<inter> set (tc_symbolIds d) = {x}))"
  using deck_exists [of order] assms by (auto simp: deck_ok_def twinSymbolsPerCard_def)

lemma any_two_cards_share_one_symbol_witness:
  "\<exists>deck. twinDeck 4 = Some deck \<and> int (length deck) = twinDeckCapacity 4 \<and>
     distinct (map tc_id deck) \<and> (\<forall>c\<in>set deck. int (length (tc_symbolIds c)) = 4 + 1) \<and>
     (\<forall>c\<in>set deck. \<forall>d\<in>set deck. c \<noteq> d \<longrightarrow>
        (\<exists>x. twinMatch c d = Some x \<and> set (tc_symbolIds c) \<inter> set (tc_symbolIds d) = {x}))"
  by (rule any_two_cards_share_one_symbol) simp

lemma in_deck_by_id:
  assumes "twinDeck order = Some deck" and "deck_ok order deck"
  shows "twinCardById order i = Some c \<longleftrightarrow> c \<in> set deck \<and> tc_id c = i"
proof -
  have "distinct (map fst (map (\<lambda>c. (tc_id c, c)) deck))"
    using assms(2) by (simp add: deck_ok_def comp_def)
  then have "map_of (map (\<lambda>c. (tc_id c, c)) deck) i = Some c \<longleftrightarrow> (i, c) \<in> set (map (\<lambda>c. (tc_id c, c)) deck)"
    by (rule map_of_eq_Some_iff)
  then show ?thesis by (auto simp: twinCardById_def assms(1))
qed

section \<open>Plans\<close>

text \<open>The search over hands and orders finds the first that fits.\<close>

lemma plan_from_Some:
  "plan_from n orders h = Some p \<Longrightarrow>
   TWIN_MIN_HAND \<le> plan_handSize p \<and> plan_handSize p \<le> h \<and> plan_order p \<in> set orders \<and>
   int (n * plan_handSize p + 1) \<le> twinDeckCapacity (plan_order p) \<and>
   (\<forall>k order. plan_handSize p < k \<and> k \<le> h \<and> order \<in> set orders \<longrightarrow> twinDeckCapacity order < int (n * k + 1))"
proof (induction n orders h rule: plan_from.induct)
  case (2 n orders h)
  show ?case
  proof (cases "find (\<lambda>order. int (n * Suc h + 1) \<le> twinDeckCapacity order) orders")
    case None
    with "2.prems" have r: "plan_from n orders h = Some p" by (simp split: if_splits)
    have "\<not> Suc h < TWIN_MIN_HAND" using "2.prems" by (simp split: if_splits)
    note IH = "2.IH" [OF this None r]
    from None have "\<forall>order\<in>set orders. twinDeckCapacity order < int (n * Suc h + 1)"
      by (simp add: find_None_iff_all not_le)
    with IH show ?thesis by (metis le_Suc_eq)
  next
    case (Some order)
    then have "order \<in> set orders \<and> int (n * Suc h + 1) \<le> twinDeckCapacity order" by (rule find_SomeD)
    with Some "2.prems" show ?thesis by (auto simp: algebra_simps split: if_splits)
  qed
qed simp

lemma plan_from_exists:
  "TWIN_MIN_HAND \<le> h \<Longrightarrow> order \<in> set orders \<Longrightarrow> int (n * TWIN_MIN_HAND + 1) \<le> twinDeckCapacity order \<Longrightarrow>
   \<exists>p. plan_from n orders h = Some p"
proof (induction n orders h rule: plan_from.induct)
  case (2 n orders h)
  show ?case
  proof (cases "find (\<lambda>order. int (n * Suc h + 1) \<le> twinDeckCapacity order) orders")
    case None
    have "Suc h \<noteq> TWIN_MIN_HAND"
    proof
      assume e: "Suc h = TWIN_MIN_HAND"
      have "\<not> int (n * Suc h + 1) \<le> twinDeckCapacity order"
        using None "2.prems"(2) unfolding find_None_iff_all by blast
      with "2.prems"(3) show False unfolding e by blast
    qed
    then have "TWIN_MIN_HAND \<le> h" using "2.prems"(1) by simp
    with "2.IH" [OF _ None] "2.prems" None show ?thesis by auto
  qed (use "2.prems" in auto)
qed (simp add: TWIN_MIN_HAND_def)

text \<open>A plan names an order the symbols can fill and a hand between
  three and what was asked for (at most ten); its deck has a card for every place in every hand and
  one for the middle, and no larger hand within what was asked for fits any deck.\<close>

theorem planned_deal_is_the_largest:
  assumes "planTwinDeck n preferred TWIN_SYMBOL_COUNT = Some p"
  shows "plan_order p \<in> {4, 5} \<and> 3 \<le> plan_handSize p \<and> plan_handSize p \<le> max 3 (min 10 preferred) \<and>
         int (n * plan_handSize p + 1) \<le> twinDeckCapacity (plan_order p) \<and>
         (\<forall>k. plan_handSize p < k \<and> k \<le> max 3 (min 10 preferred) \<longrightarrow> 31 < n * k + 1)"
proof -
  have "plan_from n [4, 5] (max 3 (min 10 preferred)) = Some p"
    using assms by (simp add: planTwinDeck_def TWIN_MIN_HAND_def TWIN_MAX_HAND_def)
  note f = plan_from_Some [OF this]
  have "31 < n * k + 1" if "plan_handSize p < k" "k \<le> max 3 (min 10 preferred)" for k
  proof -
    have "twinDeckCapacity 5 < int (n * k + 1)" using f that by simp
    then have "int 31 < int (n * k + 1)" by (simp add: twinDeckCapacity_def)
    then show ?thesis by (simp only: of_nat_less_iff)
  qed
  with f show ?thesis by (auto simp: TWIN_MIN_HAND_def)
qed

lemma planned_deal_is_the_largest_witness:
  "plan_order \<lparr>plan_order = 5, plan_handSize = 5\<rparr> \<in> {4, 5} \<and>
   3 \<le> plan_handSize \<lparr>plan_order = 5, plan_handSize = 5\<rparr> \<and>
   plan_handSize \<lparr>plan_order = 5, plan_handSize = 5\<rparr> \<le> max 3 (min 10 6) \<and>
   int (6 * plan_handSize \<lparr>plan_order = 5, plan_handSize = 5\<rparr> + 1) \<le>
     twinDeckCapacity (plan_order \<lparr>plan_order = 5, plan_handSize = 5\<rparr>) \<and>
   31 < 6 * 6 + (1 :: nat)"
proof -
  have "planTwinDeck 6 6 TWIN_SYMBOL_COUNT = Some \<lparr>plan_order = 5, plan_handSize = 5\<rparr>"
    by (simp add: planTwinDeck_def TWIN_MIN_HAND_def TWIN_MAX_HAND_def twinDeckCapacity_def eval_nat_numeral)
  from planned_deal_is_the_largest [OF this] show ?thesis by simp
qed

lemma plan_for_table:
  assumes "int n \<le> twinMaxPlayers TWIN_SYMBOL_COUNT"
  shows "\<exists>p. planTwinDeck n preferred TWIN_SYMBOL_COUNT = Some p"
proof -
  have "int n \<le> 10" using assms by (simp add: twinMaxPlayers_def twinDeckCapacity_def TWIN_MAX_PLAYERS_def TWIN_MIN_HAND_def)
  then have "int (n * TWIN_MIN_HAND + 1) \<le> twinDeckCapacity 5"
    by (simp add: TWIN_MIN_HAND_def twinDeckCapacity_def)
  then show ?thesis
    unfolding planTwinDeck_def by (intro plan_from_exists [where order = 5]) simp_all
qed

section \<open>Deals\<close>

lemma concat_take_drop:
  "n * h \<le> length xs \<Longrightarrow> concat (map (\<lambda>seat. take h (drop (seat * h) xs)) [0..<n]) = take (n * h) xs"
proof (induction n)
  case (Suc n)
  have "take (Suc n * h) xs = take (n * h) xs @ take h (drop (n * h) xs)"
    by (simp only: mult_Suc add.commute [of h] take_add)
  with Suc show ?case by simp
qed simp

lemma deal_ok:
  assumes "planTwinDeck n preferred TWIN_SYMBOL_COUNT = Some p"
  shows "\<exists>deck deal. twinDeck (plan_order p) = Some deck \<and> dealTwin p n seed = Some deal \<and>
           length (deal_hands deal) = n \<and> (\<forall>hand\<in>set (deal_hands deal). length hand = plan_handSize p) \<and>
           distinct (concat (deal_hands deal) @ [deal_middle deal]) \<and>
           set (concat (deal_hands deal) @ [deal_middle deal]) \<subseteq> set deck"
proof -
  have f: "plan_order p \<in> {4, 5}" "int (n * plan_handSize p + 1) \<le> twinDeckCapacity (plan_order p)"
    using plan_from_Some [of n "[4, 5]" "max TWIN_MIN_HAND (min TWIN_MAX_HAND preferred)" p] assms
    by (auto simp: planTwinDeck_def)
  obtain deck where d: "twinDeck (plan_order p) = Some deck" "deck_ok (plan_order p) deck"
    using deck_exists f(1) by blast
  define s where "s = shuffleTwinDeck deck (word_of_int seed)"
  have "distinct deck" using d(2) by (simp add: deck_ok_def distinct_map)
  then have ds: "distinct s" and ss: "set s = set deck" and ls: "length s = length deck"
    by (simp_all add: s_def shuffleTwinDeck_def seeded.shuffle_distinct seeded.shuffle_set seeded.shuffle_length)
  have "int (n * plan_handSize p + 1) \<le> int (length s)" using d(2) f(2) by (simp add: deck_ok_def ls)
  then have enough: "n * plan_handSize p < length s" by (simp only: of_nat_le_iff)
  define hands where "hands = map (\<lambda>seat. take (plan_handSize p) (drop (seat * plan_handSize p) s)) [0..<n]"
  have deal: "dealTwin p n seed = Some \<lparr>deal_hands = hands, deal_middle = s ! (n * plan_handSize p)\<rparr>"
    using enough by (simp add: dealTwin_def d(1) s_def hands_def Let_def)
  have "concat hands @ [s ! (n * plan_handSize p)] = take (Suc (n * plan_handSize p)) s"
    unfolding hands_def using enough by (simp add: concat_take_drop take_Suc_conv_app_nth)
  then have all: "distinct (concat hands @ [s ! (n * plan_handSize p)])"
    "set (concat hands @ [s ! (n * plan_handSize p)]) \<subseteq> set deck"
    using ds ss by (simp_all only: distinct_take set_take_subset flip: ss)
  have "length hand = plan_handSize p" if mem: "hand \<in> set hands" for hand
  proof -
    obtain seat where "seat < n" and h: "hand = take (plan_handSize p) (drop (seat * plan_handSize p) s)"
      using mem by (auto simp: hands_def)
    then have "Suc seat * plan_handSize p \<le> n * plan_handSize p" by (intro mult_le_mono) auto
    then show ?thesis using enough by (simp add: h)
  qed
  moreover have "length hands = n" by (simp add: hands_def)
  ultimately show ?thesis using d(1) deal all by (intro exI [of _ deck] exI [of _ "\<lparr>deal_hands = hands, deal_middle = s ! (n * plan_handSize p)\<rparr>"]) simp
qed

text \<open>Whatever the seed, a deal of a plan succeeds, gives every player a
  full hand, and no card occurs twice among the hands and the middle; all are cards of the plan's
  deck. So every top card has exactly one symbol in common with the middle.\<close>

theorem deal_gives_different_cards:
  assumes "planTwinDeck n preferred TWIN_SYMBOL_COUNT = Some p"
  shows "\<exists>deck deal. twinDeck (plan_order p) = Some deck \<and> dealTwin p n seed = Some deal \<and>
           length (deal_hands deal) = n \<and> (\<forall>hand\<in>set (deal_hands deal). length hand = plan_handSize p) \<and>
           distinct (concat (deal_hands deal) @ [deal_middle deal]) \<and>
           set (concat (deal_hands deal) @ [deal_middle deal]) \<subseteq> set deck"
  by (rule deal_ok [OF assms])

lemma deal_gives_different_cards_witness:
  "\<exists>deck deal. twinDeck 4 = Some deck \<and>
     dealTwin \<lparr>plan_order = 4, plan_handSize = 6\<rparr> 3 20260808 = Some deal \<and>
     length (deal_hands deal) = 3 \<and> (\<forall>hand\<in>set (deal_hands deal). length hand = 6) \<and>
     distinct (concat (deal_hands deal) @ [deal_middle deal]) \<and>
     set (concat (deal_hands deal) @ [deal_middle deal]) \<subseteq> set deck"
proof -
  have "planTwinDeck 3 6 TWIN_SYMBOL_COUNT = Some \<lparr>plan_order = 4, plan_handSize = 6\<rparr>"
    by (simp add: planTwinDeck_def TWIN_MIN_HAND_def TWIN_MAX_HAND_def twinDeckCapacity_def eval_nat_numeral)
  from deal_gives_different_cards [OF this, of 20260808] show ?thesis by simp
qed

end
