(* ===== verification/TwinOk.thy ===== *)
theory TwinOk
  imports TwinRoom TwinDeckFacts
begin

text \<open>
  The invariant of a Twin room: seats with different ids, at most ten of them taken, an order the
  symbols can fill, and, while a game is on, cards that are all different and all of the deck.
\<close>

section \<open>Cards in play\<close>

definition hand_ids :: "twin_player \<Rightarrow> js_string list" where
  "hand_ids p = map cs_cardId (hand p)"

text \<open>The cards in the hands of the players who have not left.\<close>

definition in_play :: "twin_player list \<Rightarrow> js_string multiset" where
  "in_play ps = mset (concat (map hand_ids (filter (\<lambda>p. \<not> withdrawn p) ps)))"

lemma in_play_simps [simp]:
  "in_play [] = {#}"
  "in_play (p # ps) = (if withdrawn p then in_play ps else mset (hand_ids p) + in_play ps)"
  by (simp_all add: in_play_def)

lemma in_play_append [simp]: "in_play (ps @ qs) = in_play ps + in_play qs"
  by (simp add: in_play_def)

lemma in_play_map:
  "(\<And>p. p \<in> set ps \<Longrightarrow> \<not> withdrawn p \<Longrightarrow> mset (hand_ids (f p)) = mset (hand_ids p)) \<Longrightarrow>
   (\<And>p. p \<in> set ps \<Longrightarrow> withdrawn (f p) = withdrawn p) \<Longrightarrow> in_play (map f ps) = in_play ps"
  by (induction ps) auto

lemma in_play_filter: "in_play (filter P ps) \<subseteq># in_play ps"
  by (induction ps) (auto intro: subset_mset.add_mono subset_mset.add_increasing)

lemma in_play_upd:
  "find P ps = Some p \<Longrightarrow> \<not> withdrawn p \<Longrightarrow> \<not> withdrawn (f p) \<Longrightarrow>
   in_play (upd_first P f ps) + mset (hand_ids p) = in_play ps + mset (hand_ids (f p))"
  by (induction ps) (auto split: if_splits simp: ac_simps)

lemma in_play_upd_same:
  "(\<And>p. hand (f p) = hand p) \<Longrightarrow> (\<And>p. withdrawn (f p) = withdrawn p) \<Longrightarrow> in_play (upd_first P f ps) = in_play ps"
  by (induction ps) (auto simp: hand_ids_def)

lemma in_play_upd_less:
  "(\<And>p. withdrawn (f p)) \<Longrightarrow> in_play (upd_first P f ps) \<subseteq># in_play ps"
  by (induction ps) (auto intro: subset_mset.add_increasing)

lemma in_play_elem: "p \<in> set ps \<Longrightarrow> \<not> withdrawn p \<Longrightarrow> c \<in> set (hand p) \<Longrightarrow> cs_cardId c \<in># in_play ps"
  by (auto simp: in_play_def hand_ids_def)

section \<open>The invariant\<close>

definition deck_ids :: "int \<Rightarrow> js_string set" where
  "deck_ids order = (case twinDeck order of None \<Rightarrow> {} | Some deck \<Rightarrow> tc_id ` set deck)"

text \<open>Every card on the table, the middle included, is of the deck and occurs once.\<close>

definition table_ok :: "int \<Rightarrow> card_state \<Rightarrow> twin_player list \<Rightarrow> bool" where
  "table_ok order m ps \<longleftrightarrow>
     (let table = add_mset (cs_cardId m) (in_play ps)
      in (\<forall>c. count table c \<le> 1) \<and> set_mset table \<subseteq> deck_ids order)"

definition playing :: "twin_phase \<Rightarrow> bool" where
  "playing ph \<longleftrightarrow> ph = TwinDealing \<or> ph = TwinHeat \<or> ph = TwinSettle"

definition seats_fine :: "twin_room \<Rightarrow> bool" where
  "seats_fine r \<longleftrightarrow>
     distinct (map pid (tw_players r)) \<and> length (activePlayers r) \<le> 10 \<and> inj (uuid_source r) \<and>
     (\<forall>p\<in>set (tw_players r). \<exists>k<uuid_cursor r. pid p = uuid_source r k) \<and>
     (tw_order r = 4 \<or> tw_order r = 5)"

definition cards_fine :: "twin_room \<Rightarrow> bool" where
  "cards_fine r \<longleftrightarrow>
     (playing (tw_phase r) \<longrightarrow> (\<exists>m. middle r = Some m \<and> table_ok (tw_order r) m (tw_players r))) \<and>
     (tw_phase r = TwinHeat \<longrightarrow> (\<exists>h. heat r = Some h \<and> middle r = Some (ht_middle h)))"

definition twin_ok :: "twin_room \<Rightarrow> bool" where
  "twin_ok r \<longleftrightarrow> seats_fine r \<and> cards_fine r"

lemma table_ok_mono:
  assumes "table_ok order m ps" and "add_mset (cs_cardId n) (in_play qs) \<subseteq># add_mset (cs_cardId m) (in_play ps)"
  shows "table_ok order n qs"
proof -
  have "count (add_mset (cs_cardId n) (in_play qs)) c \<le> count (add_mset (cs_cardId m) (in_play ps)) c" for c
    using assms(2) by (rule mset_subset_eq_count)
  moreover have "set_mset (add_mset (cs_cardId n) (in_play qs)) \<subseteq> set_mset (add_mset (cs_cardId m) (in_play ps))"
    using assms(2) by (rule set_mset_mono)
  ultimately show ?thesis using assms(1) unfolding table_ok_def Let_def by (meson le_trans subset_trans)
qed

lemma table_ok_shrink: "table_ok order m ps \<Longrightarrow> in_play qs \<subseteq># in_play ps \<Longrightarrow> table_ok order m qs"
  by (rule table_ok_mono) auto

lemma table_ok_same: "in_play qs = in_play ps \<Longrightarrow> table_ok order m qs = table_ok order m ps"
  by (simp add: table_ok_def)

section \<open>What bookkeeping leaves alone\<close>

lemma twin_changed_fields [simp]:
  "tw_players (twin_changed r) = tw_players r" "tw_phase (twin_changed r) = tw_phase r"
  "middle (twin_changed r) = middle r" "heat (twin_changed r) = heat r"
  "tw_order (twin_changed r) = tw_order r" "uuid_source (twin_changed r) = uuid_source r"
  "uuid_cursor (twin_changed r) = uuid_cursor r" "requestedHandSize (twin_changed r) = requestedHandSize r"
  "settleHoldMs (twin_changed r) = settleHoldMs r" "wall_clock (twin_changed r) = wall_clock r"
  "tw_processedActions (twin_changed r) = tw_processedActions r" "nextPlace (twin_changed r) = nextPlace r"
  "dealingUntil (twin_changed r) = dealingUntil r" "heatCount (twin_changed r) = heatCount r"
  "tw_hostPlayerId (twin_changed r) = tw_hostPlayerId r" "handSize (twin_changed r) = handSize r"
  "seedCounter (twin_changed r) = seedCounter r" "windowMs (twin_changed r) = windowMs r"
  "graceMs (twin_changed r) = graceMs r" "locale_compare (twin_changed r) = locale_compare r"
  by (simp_all add: twin_changed_def twin_applyRoomExpiry_def)

lemma activePlayers_changed [simp]: "activePlayers (twin_changed r) = activePlayers r"
  by (simp add: activePlayers_def)

lemma seats_fine_cong:
  assumes "map pid (tw_players r') = map pid (tw_players r)"
    and "length (activePlayers r') \<le> length (activePlayers r)"
    and "uuid_source r' = uuid_source r" and "uuid_cursor r \<le> uuid_cursor r'"
    and "tw_order r' = tw_order r \<or> tw_order r' = 4 \<or> tw_order r' = 5"
    and "seats_fine r"
  shows "seats_fine r'"
proof -
  have "pid ` set (tw_players r') = pid ` set (tw_players r)" using assms(1) by (metis set_map)
  then have "\<exists>q\<in>set (tw_players r). pid q = pid p" if "p \<in> set (tw_players r')" for p
    using that by (metis imageE imageI)
  with assms show ?thesis unfolding seats_fine_def by (metis le_trans less_le_trans)
qed

lemma length_active_same:
  assumes "map withdrawn (tw_players r') = map withdrawn (tw_players r)"
  shows "length (activePlayers r') = length (activePlayers r)"
proof -
  have n: "length (filter (\<lambda>p. \<not> withdrawn p) ps) = length (filter Not (map withdrawn ps))" for ps
    by (induction ps) auto
  show ?thesis unfolding activePlayers_def n assms ..
qed

lemma upd_twin_fields [simp]:
  "tw_phase (upd_twin i f r) = tw_phase r" "middle (upd_twin i f r) = middle r"
  "heat (upd_twin i f r) = heat r" "tw_order (upd_twin i f r) = tw_order r"
  "uuid_source (upd_twin i f r) = uuid_source r" "uuid_cursor (upd_twin i f r) = uuid_cursor r"
  "wall_clock (upd_twin i f r) = wall_clock r" "nextPlace (upd_twin i f r) = nextPlace r"
  "settleHoldMs (upd_twin i f r) = settleHoldMs r" "tw_processedActions (upd_twin i f r) = tw_processedActions r"
  "requestedHandSize (upd_twin i f r) = requestedHandSize r"
  by (simp_all add: upd_twin_def)

lemma cards_fine_cong:
  assumes "in_play (tw_players r') = in_play (tw_players r)" and "tw_phase r' = tw_phase r"
    and "middle r' = middle r" and "tw_order r' = tw_order r"
    and "map_option ht_middle (heat r') = map_option ht_middle (heat r)" and "cards_fine r"
  shows "cards_fine r'"
proof -
  have t: "table_ok order m (tw_players r') = table_ok order m (tw_players r)" for order m
    by (rule table_ok_same) (rule assms(1))
  show ?thesis
    using assms(6) unfolding cards_fine_def t assms(2-4)
    using assms(5) by (cases "heat r"; cases "heat r'") auto
qed

text \<open>An update of one player that moves neither seats nor cards keeps the invariant.\<close>

lemma twin_ok_upd:
  assumes "twin_ok r" and "\<And>p. pid (f p) = pid p \<and> withdrawn (f p) = withdrawn p \<and> hand (f p) = hand p"
  shows "twin_ok (upd_twin i f r)"
proof -
  have p: "map pid (tw_players (upd_twin i f r)) = map pid (tw_players r)"
    and w: "map withdrawn (tw_players (upd_twin i f r)) = map withdrawn (tw_players r)"
    using assms(2) by (simp_all add: upd_twin_def map_upd_first)
  have c: "in_play (tw_players (upd_twin i f r)) = in_play (tw_players r)"
    using assms(2) by (simp add: upd_twin_def in_play_upd_same)
  have "seats_fine (upd_twin i f r)"
    by (rule seats_fine_cong [of _ r]) (use assms(1) p length_active_same [OF w] in \<open>simp_all add: twin_ok_def\<close>)
  moreover have "cards_fine (upd_twin i f r)"
    by (rule cards_fine_cong [of _ r]) (use assms(1) c in \<open>simp_all add: twin_ok_def\<close>)
  ultimately show ?thesis by (simp add: twin_ok_def)
qed

lemma twin_ok_changed [simp]: "twin_ok (twin_changed r) = twin_ok r"
  by (simp add: twin_ok_def seats_fine_def cards_fine_def)

end
