(* ===== verification/TwinClockOk.thy ===== *)
theory TwinClockOk
  imports TwinOk
begin

text \<open>
  The clock of Twin keeps the invariant and never throws: heats start from a middle card, close, pay
  out and make way for the next; a deal puts different cards of one deck on the table.
\<close>

section \<open>Starting and closing a heat\<close>

lemma on_active_withdrawn [simp]: "(\<And>q. withdrawn (f q) = withdrawn q) \<Longrightarrow> withdrawn (on_active f p) = withdrawn p"
  by (simp add: on_active_def)

lemma on_active_pid [simp]: "(\<And>q. pid (f q) = pid q) \<Longrightarrow> pid (on_active f p) = pid p"
  by (simp add: on_active_def)

lemma on_active_hand [simp]: "(\<And>q. hand (f q) = hand q) \<Longrightarrow> hand (on_active f p) = hand p"
  by (simp add: on_active_def)

lemma in_play_hands:
  "(\<And>p. hand (f p) = hand p \<and> withdrawn (f p) = withdrawn p) \<Longrightarrow> in_play (map f ps) = in_play ps"
  by (rule in_play_map) (simp_all add: hand_ids_def)

lemma enter_heat_fields [simp]:
  "pid (enter_heat i p) = pid p" "withdrawn (enter_heat i p) = withdrawn p" "hand (enter_heat i p) = hand p"
  by (simp_all add: enter_heat_def)

lemma startHeat_ok:
  assumes "twin_ok r" and "playing (tw_phase r)"
  shows "\<exists>r'. startHeat now r = Some r' \<and> twin_ok r' \<and> tw_phase r' = TwinHeat \<and>
           map pid (tw_players r') = map pid (tw_players r) \<and> wall_clock r' = wall_clock r"
proof -
  obtain m where m: "middle r = Some m" "table_ok (tw_order r) m (tw_players r)"
    using assms by (auto simp: twin_ok_def cards_fine_def)
  obtain i where u: "randomUUID r = (i, r\<lparr>uuid_cursor := Suc (uuid_cursor r)\<rparr>)"
    by (simp add: randomUUID_def)
  obtain r' where r': "startHeat now r = Some r'" by (simp add: startHeat_def m u Let_def)
  have f: "tw_players r' = map (on_active (enter_heat i)) (tw_players r)" "tw_phase r' = TwinHeat"
    "middle r' = Some m" "tw_order r' = tw_order r" "uuid_source r' = uuid_source r"
    "uuid_cursor r' = Suc (uuid_cursor r)" "wall_clock r' = wall_clock r"
    "\<exists>h. heat r' = Some h \<and> ht_middle h = m"
    using r' by (auto simp: startHeat_def m u Let_def)
  have p: "map pid (tw_players r') = map pid (tw_players r)"
    and w: "map withdrawn (tw_players r') = map withdrawn (tw_players r)" by (simp_all add: f)
  have "seats_fine r'"
    by (rule seats_fine_cong [OF p, of]) (use assms(1) length_active_same [OF w] in \<open>simp_all add: twin_ok_def f\<close>)
  moreover have "in_play (tw_players r') = in_play (tw_players r)"
    unfolding f(1) by (rule in_play_hands) simp
  then have "table_ok (tw_order r') m (tw_players r')" using m(2) by (simp add: f(4) table_ok_def)
  then have "cards_fine r'" using f(2,3,8) by (auto simp: cards_fine_def)
  ultimately show ?thesis using r' p f(2,7) by (simp add: twin_ok_def)
qed

lemma twin_ok_heat:
  assumes "twin_ok r" and "heat r = Some h" and "ht_middle h' = ht_middle h"
  shows "twin_ok (r\<lparr>heat := Some h'\<rparr>)"
proof -
  have "cards_fine (r\<lparr>heat := Some h'\<rparr>)"
    by (rule cards_fine_cong [of _ r]) (use assms in \<open>simp_all add: twin_ok_def\<close>)
  then show ?thesis using assms(1) by (simp add: twin_ok_def seats_fine_def activePlayers_def)
qed

lemma close_heat_ok:
  "twin_ok r \<Longrightarrow> twin_ok (close_heat now r) \<and> tw_phase (close_heat now r) = tw_phase r \<and>
     tw_players (close_heat now r) = tw_players r \<and> wall_clock (close_heat now r) = wall_clock r"
  by (cases "heat r") (simp_all add: close_heat_def twin_ok_heat)

section \<open>The payout\<close>

lemma count_connection_fields [simp]:
  "pid (count_connection e p) = pid p" "withdrawn (count_connection e p) = withdrawn p"
  "hand (count_connection e p) = hand p" "place (count_connection e p) = place p"
  by (simp_all add: count_connection_def)

lemma twin_player_by_idD: "twin_player_by_id r i = Some p \<Longrightarrow> p \<in> set (tw_players r) \<and> pid p = i"
  unfolding twin_player_by_id_def by (drule find_SomeD) simp

lemma mset_hand_top: "top_card p = Some c \<Longrightarrow> mset (hand_ids p) = add_mset (cs_cardId c) (mset (map cs_cardId (tl (hand p))))"
  by (cases "hand p") (auto simp: top_card_def hand_ids_def)

text \<open>What one turn of the payout does to the table, for an active player.\<close>

lemma pay_ranked_table:
  assumes "pay_ranked outcome h (r, conns, n) i = (r', conns', n')"
    and "\<forall>p\<in>set (tw_players r). pid p = i \<longrightarrow> \<not> withdrawn p"
  shows "add_mset (cs_cardId n') (in_play (tw_players r')) \<subseteq># add_mset (cs_cardId n) (in_play (tw_players r))"
proof (cases "twin_player_by_id r i")
  case None
  then show ?thesis using assms(1) by (simp add: pay_ranked_def)
next
  case (Some p)
  have p: "\<not> withdrawn p" using twin_player_by_idD [OF Some] assms(2) by blast
  define q where "q = (let p2 = (count_connection (nullish (landedMs p) 0) p)\<lparr>hand := tl (hand p)\<rparr>
    in if hand p2 = [] \<and> place p2 = None then p2\<lparr>place := Some (nextPlace r)\<rparr> else p2)"
  have q: "hand q = tl (hand p)" "\<not> withdrawn q" using p by (simp_all add: q_def Let_def)
  have r': "tw_players r' = upd_first (\<lambda>p. pid p = i) (\<lambda>_. q) (tw_players r)"
    using assms(1) Some by (auto simp: pay_ranked_def Let_def q_def upd_twin_def split: if_splits)
  have n': "n' = (case top_card p of Some c \<Rightarrow> if Some i = ho_winnerPlayerId outcome then c else n | None \<Rightarrow> n)"
    using assms(1) Some by (auto simp: pay_ranked_def Let_def split: if_splits)
  have play: "in_play (tw_players r') + mset (hand_ids p) = in_play (tw_players r) + mset (hand_ids q)"
    unfolding r' by (rule in_play_upd) (use Some p q in \<open>simp_all add: twin_player_by_id_def\<close>)
  show ?thesis
  proof (cases "top_card p")
    case None
    then have "hand p = []" by (cases "hand p") (auto simp: top_card_def)
    then show ?thesis using play None by (simp add: n' hand_ids_def q)
  next
    case (Some c)
    have "mset (hand_ids p) = add_mset (cs_cardId c) (mset (hand_ids q))"
      using mset_hand_top [OF Some] by (simp add: hand_ids_def q)
    with play have "in_play (tw_players r) = add_mset (cs_cardId c) (in_play (tw_players r'))" by simp
    then show ?thesis using Some by (simp add: n')
  qed
qed

lemma map_upd_found: "find P xs = Some p \<Longrightarrow> g q = g p \<Longrightarrow> map g (upd_first P (\<lambda>_. q) xs) = map g xs"
  by (induction xs) (auto split: if_splits)

lemma pay_ranked_frame:
  assumes "pay_ranked outcome h (r, conns, n) i = (r', conns', n')"
  shows "map pid (tw_players r') = map pid (tw_players r) \<and>
         map withdrawn (tw_players r') = map withdrawn (tw_players r) \<and> tw_order r' = tw_order r \<and>
         uuid_source r' = uuid_source r \<and> uuid_cursor r' = uuid_cursor r \<and> heat r' = heat r \<and>
         wall_clock r' = wall_clock r \<and> settleHoldMs r' = settleHoldMs r"
proof (cases "twin_player_by_id r i")
  case (Some p)
  define q where "q = (let p2 = (count_connection (nullish (landedMs p) 0) p)\<lparr>hand := tl (hand p)\<rparr>
    in if hand p2 = [] \<and> place p2 = None then p2\<lparr>place := Some (nextPlace r)\<rparr> else p2)"
  have q: "pid q = pid p" "withdrawn q = withdrawn p" by (simp_all add: q_def Let_def)
  have r': "tw_players r' = upd_first (\<lambda>p. pid p = i) (\<lambda>_. q) (tw_players r)" "tw_order r' = tw_order r"
    "uuid_source r' = uuid_source r" "uuid_cursor r' = uuid_cursor r" "heat r' = heat r"
    "wall_clock r' = wall_clock r" "settleHoldMs r' = settleHoldMs r"
    using assms Some by (auto simp: pay_ranked_def Let_def q_def upd_twin_def split: if_splits)
  have f: "find (\<lambda>p. pid p = i) (tw_players r) = Some p" using Some by (simp add: twin_player_by_id_def)
  show ?thesis
    using r' map_upd_found [OF f, of pid q] map_upd_found [OF f, of withdrawn q] q by simp
qed (use assms in \<open>simp add: pay_ranked_def\<close>)

lemma active_by_frame:
  assumes "map pid ps = map pid qs" and "map withdrawn ps = map withdrawn qs"
    and "\<forall>q\<in>set qs. pid q = i \<longrightarrow> \<not> withdrawn q"
  shows "\<forall>p\<in>set ps. pid p = i \<longrightarrow> \<not> withdrawn p"
proof -
  have "length ps = length qs" using assms(1) by (rule map_eq_imp_length_eq)
  then show ?thesis using assms
    by (induction ps qs rule: list_induct2) auto
qed

lemma pay_all:
  assumes "foldl (pay_ranked outcome h) (r, conns, n) is = (r', conns', n')"
    and "\<forall>i\<in>set is. \<forall>p\<in>set (tw_players r). pid p = i \<longrightarrow> \<not> withdrawn p"
  shows "add_mset (cs_cardId n') (in_play (tw_players r')) \<subseteq># add_mset (cs_cardId n) (in_play (tw_players r)) \<and>
         map pid (tw_players r') = map pid (tw_players r) \<and>
         map withdrawn (tw_players r') = map withdrawn (tw_players r) \<and> tw_order r' = tw_order r \<and>
         uuid_source r' = uuid_source r \<and> uuid_cursor r' = uuid_cursor r \<and> heat r' = heat r \<and>
         wall_clock r' = wall_clock r \<and> settleHoldMs r' = settleHoldMs r"
  using assms
proof (induction "is" arbitrary: r conns n)
  case (Cons i "is")
  obtain r1 c1 n1 where s: "pay_ranked outcome h (r, conns, n) i = (r1, c1, n1)" by (metis prod_cases3)
  note f = pay_ranked_frame [OF s]
  have "add_mset (cs_cardId n1) (in_play (tw_players r1)) \<subseteq># add_mset (cs_cardId n) (in_play (tw_players r))"
    by (rule pay_ranked_table [OF s]) (use Cons.prems(2) in simp)
  moreover have "\<forall>j\<in>set is. \<forall>p\<in>set (tw_players r1). pid p = j \<longrightarrow> \<not> withdrawn p"
    using Cons.prems(2) f active_by_frame [of "tw_players r1" "tw_players r"] by (metis list.set_intros(2))
  then have "add_mset (cs_cardId n') (in_play (tw_players r')) \<subseteq># add_mset (cs_cardId n1) (in_play (tw_players r1)) \<and>
     map pid (tw_players r') = map pid (tw_players r1) \<and>
     map withdrawn (tw_players r') = map withdrawn (tw_players r1) \<and> tw_order r' = tw_order r1 \<and>
     uuid_source r' = uuid_source r1 \<and> uuid_cursor r' = uuid_cursor r1 \<and> heat r' = heat r1 \<and>
     wall_clock r' = wall_clock r1 \<and> settleHoldMs r' = settleHoldMs r1"
    using Cons.prems(1) s by (intro Cons.IH) simp_all
  ultimately show ?case using f by (auto intro: subset_mset.trans)
qed simp

lemma set_ranked: "i \<in> set (ho_ranked (twinHeatOutcome lc es)) \<Longrightarrow> \<exists>e\<in>set es. he_playerId e = i \<and> he_elapsedMs e \<noteq> None"
  by (auto simp: twinHeatOutcome_def landed_entries_def Let_def)

lemma ranked_active:
  assumes "distinct (map pid (tw_players r))" and "i \<in> set (ho_ranked (twinHeatOutcome lc (heat_entries h r)))"
  shows "\<forall>p\<in>set (tw_players r). pid p = i \<longrightarrow> \<not> withdrawn p"
proof -
  obtain q where "q \<in> set (tw_players r)" "\<not> withdrawn q" "pid q = i"
    using set_ranked [OF assms(2)] by (auto simp: heat_entries_def activePlayers_def)
  then show ?thesis using assms(1) by (metis distinct_map inj_onD)
qed

lemma break_chain_fields [simp]:
  "pid (break_chain o' p) = pid p" "withdrawn (break_chain o' p) = withdrawn p" "hand (break_chain o' p) = hand p"
  by (simp_all add: break_chain_def)

lemma rotate_hand_fields [simp]:
  "pid (rotate_hand p) = pid p" "withdrawn (rotate_hand p) = withdrawn p"
  "mset (hand_ids (rotate_hand p)) = mset (hand_ids p)"
  by (cases "hand p"; simp add: rotate_hand_def hand_ids_def)+

lemma in_play_rotate: "in_play (map (on_active rotate_hand) ps) = in_play ps"
  by (rule in_play_map) (auto simp: on_active_def)

lemma settleHeat_ok:
  assumes "twin_ok r" and "tw_phase r = TwinHeat" and "settleHeat now r = (r', entry)"
  shows "twin_ok r' \<and> map pid (tw_players r') = map pid (tw_players r) \<and> wall_clock r' = wall_clock r \<and>
         (tw_phase r' = TwinHeat \<or> tw_phase r' = TwinSettle)"
proof -
  obtain h where h: "heat r = Some h" "middle r = Some (ht_middle h)"
    and t: "table_ok (tw_order r) (ht_middle h) (tw_players r)"
    using assms(1,2) by (auto simp: twin_ok_def cards_fine_def playing_def)
  show ?thesis
  proof (cases "ht_results h = []")
    case False
    then show ?thesis using assms h by (simp add: settleHeat_def)
  next
    case True
    define outcome where "outcome = twinHeatOutcome (locale_compare r) (heat_entries h r)"
    obtain r1 conns n where pay: "foldl (pay_ranked outcome h) (r, [], ht_middle h) (ho_ranked outcome) = (r1, conns, n)"
      by (metis prod_cases3)
    have d: "distinct (map pid (tw_players r))" using assms(1) by (simp add: twin_ok_def seats_fine_def)
    have "\<forall>i\<in>set (ho_ranked outcome). \<forall>p\<in>set (tw_players r). pid p = i \<longrightarrow> \<not> withdrawn p"
      unfolding outcome_def using ranked_active [OF d] by blast
    note f = pay_all [OF pay this]
    have r': "tw_phase r' = TwinSettle" "middle r' = Some n" "tw_order r' = tw_order r1"
      "uuid_source r' = uuid_source r1" "uuid_cursor r' = uuid_cursor r1" "wall_clock r' = wall_clock r1"
      and ps: "tw_players r' = (if ho_burned outcome
         then map (on_active rotate_hand) (map (on_active (break_chain outcome)) (tw_players r1))
         else map (on_active (break_chain outcome)) (tw_players r1))"
      using assms(3) h True pay by (auto simp: settleHeat_def outcome_def [symmetric] Let_def)
    have p: "map pid (tw_players r') = map pid (tw_players r)"
      and w: "map withdrawn (tw_players r') = map withdrawn (tw_players r)" using f by (simp_all add: ps comp_def)
    have "in_play (map (on_active (break_chain outcome)) (tw_players r1)) = in_play (tw_players r1)"
      by (rule in_play_hands) simp
    then have "in_play (tw_players r') = in_play (tw_players r1)"
      by (simp only: ps in_play_rotate split: if_split) simp
    then have "table_ok (tw_order r') n (tw_players r')"
      using table_ok_mono [OF t, of n "tw_players r1"] f r'(3) by (simp add: table_ok_def)
    then have "cards_fine r'" using r' by (simp add: cards_fine_def)
    moreover have "seats_fine r'"
      by (rule seats_fine_cong [OF p])
        (use assms(1) length_active_same [OF w] f r' in \<open>simp_all add: twin_ok_def\<close>)
    ultimately show ?thesis using p r' f by (simp add: twin_ok_def)
  qed
qed

section \<open>The advance\<close>

lemma twin_ok_end: "twin_ok r \<Longrightarrow> \<not> playing ph \<Longrightarrow> twin_ok (r\<lparr>tw_phase := ph\<rparr>)"
  by (auto simp: twin_ok_def seats_fine_def cards_fine_def activePlayers_def playing_def)

lemma begin_due_ok:
  assumes "twin_ok r"
  shows "\<exists>r'. begin_due now r = Some r' \<and> twin_ok r' \<and> map pid (tw_players r') = map pid (tw_players r) \<and>
           wall_clock r' = wall_clock r"
  using startHeat_ok [OF assms, of now] assms by (auto simp: begin_due_def playing_def)

lemma heat_due_ok:
  assumes "twin_ok r" and "heat_due now r = (r', entries)"
  shows "twin_ok r' \<and> map pid (tw_players r') = map pid (tw_players r) \<and> wall_clock r' = wall_clock r"
proof (cases "tw_phase r = TwinHeat \<and> heat r \<noteq> None \<and> settle_due now (close_heat now r)")
  case True
  obtain entry where s: "settleHeat now (close_heat now r) = (r', entry)"
    using assms(2) True by (auto simp: heat_due_def Let_def split: prod.splits)
  show ?thesis
    using settleHeat_ok [OF _ _ s] close_heat_ok [OF assms(1), of now] True by simp
next
  case False
  then show ?thesis using assms close_heat_ok [OF assms(1), of now]
    by (auto simp: heat_due_def Let_def split: if_splits)
qed

lemma next_or_finish_ok:
  assumes "twin_ok r"
  shows "\<exists>r'. next_or_finish now r = Some r' \<and> twin_ok r' \<and> map pid (tw_players r') = map pid (tw_players r) \<and>
           wall_clock r' = wall_clock r"
proof (cases "tw_phase r = TwinSettle \<and> next_due now r \<and> \<not> list_ex (\<lambda>p. hand p = []) (activePlayers r)")
  case True
  then show ?thesis using startHeat_ok [OF assms, of now] by (auto simp: next_or_finish_def playing_def)
next
  case False
  then show ?thesis using assms twin_ok_end [OF assms, of TwinFinished]
    by (auto simp: next_or_finish_def playing_def)
qed

lemma twin_advance_ok:
  assumes "twin_ok r"
  shows "\<exists>r' entries. twin_advance now r = Some (r', entries) \<and> twin_ok r' \<and>
           map pid (tw_players r') = map pid (tw_players r) \<and> wall_clock r' = wall_clock r"
proof -
  obtain r1 where b: "begin_due now r = Some r1" "twin_ok r1" "map pid (tw_players r1) = map pid (tw_players r)"
    "wall_clock r1 = wall_clock r" using begin_due_ok [OF assms] by blast
  obtain r2 entries where h: "heat_due now r1 = (r2, entries)" by fastforce
  note h' = heat_due_ok [OF b(2) h]
  obtain r3 where n: "next_or_finish now r2 = Some r3" "twin_ok r3" "map pid (tw_players r3) = map pid (tw_players r2)"
    "wall_clock r3 = wall_clock r2" using next_or_finish_ok [of r2 now] h' by blast
  show ?thesis using b h h' n by (simp add: twin_advance_def)
qed

section \<open>Deals\<close>

lemma seed_cards_ids: "map cs_cardId (fst (seed_cards cs k)) = map tc_id cs"
proof (induction cs arbitrary: k)
  case (Cons c cs)
  then show ?case by (simp add: split_beta)
qed simp

lemma fresh_hand_fields [simp]:
  "pid (fresh_hand cs p) = pid p" "withdrawn (fresh_hand cs p) = withdrawn p" "hand (fresh_hand cs p) = cs"
  by (simp_all add: fresh_hand_def)

lemma deal_seats_table:
  assumes "deal_seats ps hands k = (ps', k')" and "length hands = length (filter (\<lambda>p. \<not> withdrawn p) ps)"
  shows "map pid ps' = map pid ps \<and> map withdrawn ps' = map withdrawn ps \<and>
         in_play ps' = mset (map tc_id (concat hands)) \<and>
         (\<forall>p\<in>set ps'. \<not> withdrawn p \<longrightarrow> (\<exists>cs\<in>set hands. hand_ids p = map tc_id cs))"
  using assms
proof (induction ps hands k arbitrary: ps' k' rule: deal_seats.induct)
  case (2 p ps hands k)
  show ?case
  proof (cases "withdrawn p")
    case True
    obtain qs k1 where q: "deal_seats ps hands k = (qs, k1)" by fastforce
    with True "2.prems" have "ps' = p # qs" by simp
    with "2.IH"(1) [OF True q] True "2.prems"(2) show ?thesis by auto
  next
    case False
    obtain cards k1 where c: "seed_cards (hd hands) k = (cards, k1)" by fastforce
    obtain qs k2 where q: "deal_seats ps (tl hands) k1 = (qs, k2)" by fastforce
    have ps': "ps' = fresh_hand cards p # qs" using False "2.prems"(1) c q by simp
    obtain h hs where hands: "hands = h # hs" using "2.prems"(2) False by (cases hands) auto
    have cards: "map cs_cardId cards = map tc_id h" using seed_cards_ids [of h k] c hands by simp
    have "map pid qs = map pid ps \<and> map withdrawn qs = map withdrawn ps \<and>
       in_play qs = mset (map tc_id (concat hs)) \<and>
       (\<forall>p\<in>set qs. \<not> withdrawn p \<longrightarrow> (\<exists>cs\<in>set hs. hand_ids p = map tc_id cs))"
      using "2.IH"(2) [OF False c [symmetric] q] hands "2.prems"(2) False by simp
    then show ?thesis using False cards by (auto simp: ps' hands hand_ids_def)
  qed
qed simp

lemma mset_distinct_count: "distinct xs \<Longrightarrow> count (mset xs) c \<le> 1"
  by (simp add: distinct_count_atmost_1)

lemma applyDeal_ok:
  assumes "seats_fine r" and plan: "twin_plan_for r = Some plan"
  shows "\<exists>r'. applyDeal plan now seed r = Some r' \<and> twin_ok r' \<and> tw_phase r' = TwinDealing \<and>
           map pid (tw_players r') = map pid (tw_players r) \<and> wall_clock r' = wall_clock r"
proof -
  let ?n = "length (activePlayers r)"
  obtain deck deal where d: "twinDeck (plan_order plan) = Some deck" "dealTwin plan ?n seed = Some deal"
    and hands: "length (deal_hands deal) = ?n" "\<forall>cs\<in>set (deal_hands deal). length cs = plan_handSize plan"
    and dist: "distinct (concat (deal_hands deal) @ [deal_middle deal])"
    and sub: "set (concat (deal_hands deal) @ [deal_middle deal]) \<subseteq> set deck"
    using deal_ok [OF plan [unfolded twin_plan_for_def], of seed] by blast
  have p: "plan_order plan \<in> {4, 5}" "TWIN_MIN_HAND \<le> plan_handSize plan"
    using plan_from_Some [of ?n "[4, 5]" _ plan] plan by (auto simp: twin_plan_for_def planTwinDeck_def)
  have deck: "deck_ok (plan_order plan) deck" using deck_exists [of "plan_order plan"] p(1) d(1) by auto
  obtain ps k where s: "deal_seats (tw_players r) (deal_hands deal) (seedCounter r) = (ps, k)" by fastforce
  have f: "map pid ps = map pid (tw_players r)" "map withdrawn ps = map withdrawn (tw_players r)"
    "in_play ps = mset (map tc_id (concat (deal_hands deal)))"
    and hand: "\<forall>p\<in>set ps. \<not> withdrawn p \<longrightarrow> (\<exists>cs\<in>set (deal_hands deal). hand_ids p = map tc_id cs)"
    using deal_seats_table [OF s] hands(1) by (auto simp: activePlayers_def)
  define m where "m = \<lparr>cs_cardId = tc_id (deal_middle deal), cs_seed = k + 1\<rparr>"
  define r1 where "r1 = r\<lparr>tw_order := plan_order plan, handSize := plan_handSize plan, tw_players := ps,
                           seedCounter := k + 1, middle := Some m\<rparr>"
  have inj: "inj_on tc_id (set deck)" using deck by (simp add: deck_ok_def distinct_map)
  have table: "table_ok (plan_order plan) m ps"
  proof -
    let ?cards = "concat (deal_hands deal) @ [deal_middle deal]"
    have t: "add_mset (cs_cardId m) (in_play ps) = mset (map tc_id ?cards)" by (simp add: f(3) m_def)
    have "distinct (map tc_id ?cards)" using dist inj sub by (meson distinct_map inj_on_subset)
    moreover have "set (map tc_id ?cards) \<subseteq> deck_ids (plan_order plan)"
      using sub by (auto simp: deck_ids_def d(1))
    ultimately show ?thesis
      unfolding table_ok_def Let_def t using mset_distinct_count [of "map tc_id ?cards"] by (simp del: map_append mset_append)
  qed
  have playable: "list_all (playable r1 (deal_middle deal)) (activePlayers r1)"
    unfolding list_all_iff
  proof
    fix p assume "p \<in> set (activePlayers r1)"
    then have "p \<in> set ps" "\<not> withdrawn p" by (auto simp: activePlayers_def r1_def)
    then obtain cs where cs: "cs \<in> set (deal_hands deal)" "hand_ids p = map tc_id cs" using hand by blast
    then have "length cs = plan_handSize plan" using hands(2) by blast
    then obtain c cs' where c: "cs = c # cs'" using p(2) by (cases cs) (auto simp: TWIN_MIN_HAND_def)
    then obtain t where t: "top_card p = Some t" "cs_cardId t = tc_id c"
      using cs(2) by (cases "hand p") (auto simp: top_card_def hand_ids_def)
    have "c \<in> set (concat (deal_hands deal))"
      unfolding set_concat by (rule UN_I [OF cs(1)]) (simp add: c)
    then have mem: "c \<in> set deck" "deal_middle deal \<in> set deck" "c \<noteq> deal_middle deal"
      using sub dist by auto
    then have "card_of r1 t = Some c"
      using in_deck_by_id [OF d(1) deck] by (simp add: card_of_def r1_def t(2))
    moreover have "\<exists>x. twinMatch c (deal_middle deal) = Some x" using deck mem unfolding deck_ok_def by blast
    ultimately show "playable r1 (deal_middle deal) p" by (auto simp: playable_def t(1))
  qed
  define r' where "r' = twin_changed (r1\<lparr>heat := None, tw_phase := TwinDealing, dealingUntil := Some (now + dealingMs TWIN_TIMING)\<rparr>)"
  have "applyDeal plan now seed r = Some r'"
    using d(2) s playable by (simp add: applyDeal_def r'_def r1_def m_def)
  moreover have "seats_fine r'"
  proof -
    have w: "length (activePlayers r') = length (activePlayers r)"
      by (rule length_active_same) (simp add: r'_def r1_def f)
    show ?thesis
      by (rule seats_fine_cong [of _ r]) (use assms(1) p(1) f(1) w in \<open>auto simp: r'_def r1_def\<close>)
  qed
  moreover have "cards_fine r'" using table by (simp add: cards_fine_def r'_def r1_def)
  ultimately show ?thesis using f(1) by (auto simp: twin_ok_def r'_def r1_def)
qed

end
