(* ===== verification/TwinReachable.thy ===== *)
theory TwinReachable
  imports TwinClockOk
begin

text \<open>
  Every action, read and join of Twin keeps the invariant and none of them throws; the rooms reachable
  from a creation, and what holds of them.
\<close>

section \<open>Actions\<close>

text \<open>A step is safe when it does not throw and leaves a room that keeps the invariant.\<close>

definition safe_step :: "twin_step option \<Rightarrow> bool" where
  "safe_step st \<longleftrightarrow> (\<exists>r events v. st = Some (r, events, v) \<and> twin_ok r)"

lemma safe_step_Some [simp]: "safe_step (Some (r, events, v)) = twin_ok r"
  by (simp add: safe_step_def)

lemma safe_step_simps [simp]:
  "safe_step (Some (tw_done r)) = twin_ok r" "safe_step (Some (tw_unavailable m r)) = twin_ok r"
  by (simp_all add: tw_done_def tw_unavailable_def)

text \<open>Fields that carry neither seats nor cards.\<close>

lemma twin_ok_fields [simp]:
  "twin_ok (r\<lparr>tw_hostPlayerId := a\<rparr>) = twin_ok r" "twin_ok (r\<lparr>tw_joinLocked := b\<rparr>) = twin_ok r"
  "twin_ok (r\<lparr>settleHoldMs := c\<rparr>) = twin_ok r" "twin_ok (r\<lparr>tw_processedActions := d\<rparr>) = twin_ok r"
  "twin_ok (r\<lparr>wall_clock := e\<rparr>) = twin_ok r" "twin_ok (r\<lparr>pick_cursor := k\<rparr>) = twin_ok r"
  "twin_ok (r\<lparr>loggedHeats := l\<rparr>) = twin_ok r" "twin_ok (r\<lparr>token_cursor := k\<rparr>) = twin_ok r"
  by (simp_all add: twin_ok_def seats_fine_def cards_fine_def activePlayers_def)

lemma transferHost_ok [simp]: "twin_ok (twin_transferHost i now r) = twin_ok r"
  by (simp add: twin_transferHost_def Let_def)

text \<open>In the lobby only the seats matter.\<close>

lemma twin_ok_lobby: "\<not> playing (tw_phase r) \<Longrightarrow> twin_ok r \<longleftrightarrow> seats_fine r"
  by (auto simp: twin_ok_def cards_fine_def playing_def)

lemma leave_ok: "twin_ok r \<Longrightarrow> safe_step (Some (twin_leave now p r))"
proof (cases "withdrawn p")
  case False
  assume ok: "twin_ok r"
  let ?r0 = "twin_transferHost (pid p) now r"
  let ?r1 = "upd_twin (pid p) (\<lambda>q. q\<lparr>withdrawn := True\<rparr>) ?r0"
  have ok0: "twin_ok ?r0" using ok by simp
  have ids: "map pid (tw_players ?r1) = map pid (tw_players ?r0)" by (simp add: upd_twin_def map_upd_first)
  have "length (filter (\<lambda>q. \<not> withdrawn q) (upd_first P (\<lambda>q. q\<lparr>withdrawn := True\<rparr>) ps)) \<le>
        length (filter (\<lambda>q. \<not> withdrawn q) ps)" for P and ps :: "twin_player list"
    by (induction ps) auto
  then have "length (activePlayers ?r1) \<le> length (activePlayers ?r0)" by (simp add: activePlayers_def upd_twin_def)
  then have "seats_fine ?r1" by (intro seats_fine_cong [OF ids]) (use ok0 in \<open>simp_all add: twin_ok_def\<close>)
  moreover have "in_play (tw_players ?r1) \<subseteq># in_play (tw_players ?r0)"
    by (simp add: upd_twin_def in_play_upd_less)
  then have "cards_fine ?r1"
    using ok0 table_ok_shrink [of _ _ "tw_players ?r0" "tw_players ?r1"] by (auto simp: twin_ok_def cards_fine_def)
  ultimately have "twin_ok ?r1" by (simp add: twin_ok_def)
  then show ?thesis using False by (simp add: twin_leave_def Let_def twin_ok_end playing_def)
qed (simp add: twin_leave_def)

lemma set_ready_fields [simp]:
  "pid (setMultiplayerPlayerReady b p) = pid p"
  "withdrawn (setMultiplayerPlayerReady b q) = withdrawn q" "hand (setMultiplayerPlayerReady b q) = hand q"
  by (simp_all add: setMultiplayerPlayerReady_def)

lemma rename_ok: "twin_ok r \<Longrightarrow> safe_step (Some (twin_rename n p r))"
  by (simp add: twin_rename_def twin_ok_upd)

lemma readiness_ok: "twin_ok r \<Longrightarrow> safe_step (Some (twin_readiness b p r))"
  by (simp add: twin_readiness_def twin_ok_upd)

lemma land_tap_ok:
  assumes "twin_ok r" and "heat r = Some h"
  shows "twin_ok (land_tap now e h p r)"
proof -
  have "twin_ok (upd_twin (pid p) (\<lambda>q. q\<lparr>landedMs := x\<rparr>) r)" for x
    using assms(1) by (rule twin_ok_upd) simp
  then show ?thesis
    using assms(2) twin_ok_heat [of "upd_twin (pid p) (\<lambda>q. q\<lparr>landedMs := x\<rparr>) r" h for x]
    by (simp add: land_tap_def Let_def)
qed

lemma refusal_None_heat: "tap_refusal now i p r = None \<Longrightarrow> \<exists>h. heat r = Some h"
  by (cases "heat r") (auto simp: tap_refusal_def)

lemma tap_ok: "twin_ok r \<Longrightarrow> safe_step (twin_tap now i s e p r)"
proof (cases "tap_refusal now i p r")
  case None
  assume ok: "twin_ok r"
  obtain h where h: "heat r = Some h" using refusal_None_heat [OF None] by blast
  have miss: "twin_ok (upd_twin (pid p) (miss_tap now) r)"
    using ok by (rule twin_ok_upd) (simp add: miss_tap_def)
  obtain r' entries where "twin_advance now (land_tap now e h p r) = Some (r', entries)" "twin_ok r'"
    using twin_advance_ok [OF land_tap_ok [OF ok h]] by blast
  then show ?thesis using None h miss by (simp add: twin_tap_def)
qed (simp add: twin_tap_def split: prod.splits)

lemma admission_ok: "twin_ok r \<Longrightarrow> safe_step (Some (twin_admission b r))"
  by (simp add: twin_admission_def)

lemma host_pass_ok: "twin_ok r \<Longrightarrow> safe_step (Some (twin_host_pass t r))"
  by (simp add: twin_host_pass_def split: option.splits)

lemma plan_orders: "twin_plan_for r = Some plan \<Longrightarrow> plan_order plan = 4 \<or> plan_order plan = 5"
  using plan_from_Some [of "length (activePlayers r)" "[4, 5]" _ plan] by (auto simp: twin_plan_for_def planTwinDeck_def)

lemma seats_fine_fields [simp]:
  "seats_fine (r\<lparr>requestedHandSize := a, windowMs := b, graceMs := c\<rparr>) = seats_fine r"
  "o' = 4 \<or> o' = 5 \<Longrightarrow> seats_fine (r\<lparr>tw_order := o', handSize := k\<rparr>) \<longleftrightarrow>
     seats_fine (r\<lparr>tw_order := 4\<rparr>)"
  by (auto simp: seats_fine_def activePlayers_def)

lemma seats_fine_order: "seats_fine r \<Longrightarrow> seats_fine (r\<lparr>tw_order := 4\<rparr>)"
  by (simp add: seats_fine_def activePlayers_def)

lemma configure_ok: "twin_ok r \<Longrightarrow> safe_step (Some (twin_configure a b c r))"
proof (cases "tw_managed r \<or> tw_phase r \<noteq> TwinLobby")
  case False
  assume ok: "twin_ok r"
  define r1 where "r1 = r\<lparr>requestedHandSize := nullish a (requestedHandSize r),
                 windowMs := nullish b (windowMs r), graceMs := nullish c (graceMs r)\<rparr>"
  have l: "tw_phase r1 = TwinLobby" using False by (simp add: r1_def)
  have s: "seats_fine r1" using ok by (simp add: r1_def twin_ok_def)
  then have "twin_ok r1" using l by (simp add: twin_ok_lobby playing_def)
  moreover have "twin_ok (r1\<lparr>tw_order := plan_order plan, handSize := plan_handSize plan\<rparr>)"
    if "twin_plan_for r1 = Some plan" for plan
    using seats_fine_order [OF s] plan_orders [OF that] l by (simp add: twin_ok_lobby playing_def)
  ultimately show ?thesis using False
    by (simp add: twin_configure_def r1_def [symmetric] split: option.splits)
qed (auto simp: twin_configure_def)

lemma timing_ok: "twin_ok r \<Longrightarrow> safe_step (Some (twin_timing_configure h r))"
  by (simp add: twin_timing_configure_def)

lemma nudge_fields [simp]:
  "withdrawn (fst (nudge_player q now p)) = withdrawn p" "hand (fst (nudge_player q now p)) = hand p"
  by (simp_all add: nudge_player_def split: option.splits)

lemma start_refused_ok:
  assumes "twin_ok r"
  shows "safe_step (Some (twin_start_refused i confirmed p r))"
proof -
  define f where "f = (\<lambda>sel q. if sel q then fst (nudge_player (i @ '':readiness'') (wall_clock r) q) else q :: twin_player)"
  have "twin_ok (r\<lparr>tw_players := map (f sel) (tw_players r)\<rparr>)" for sel
  proof -
    let ?r = "r\<lparr>tw_players := map (f sel) (tw_players r)\<rparr>"
    have p: "map pid (tw_players ?r) = map pid (tw_players r)"
      and w: "map withdrawn (tw_players ?r) = map withdrawn (tw_players r)" by (simp_all add: f_def)
    have "seats_fine ?r"
      by (rule seats_fine_cong [OF p]) (use assms length_active_same [OF w] in \<open>simp_all add: twin_ok_def\<close>)
    moreover have "in_play (tw_players ?r) = in_play (tw_players r)" by (simp add: in_play_hands f_def)
    then have "cards_fine ?r" by (rule cards_fine_cong [of _ r]) (use assms in \<open>simp_all add: twin_ok_def\<close>)
    ultimately show ?thesis by (simp add: twin_ok_def)
  qed
  moreover have "fst (requestMultiplayerReadiness sel (i @ '':readiness'') (wall_clock r) (tw_players r)) =
      map (f sel) (tw_players r)" for sel
    by (simp add: requestMultiplayerReadiness_def f_def)
  ultimately have ok: "twin_ok (r\<lparr>tw_players :=
      fst (requestMultiplayerReadiness sel (i @ '':readiness'') (wall_clock r) (tw_players r))\<rparr>)" for sel
    by metis
  show ?thesis unfolding twin_start_refused_def Let_def split_beta using ok by simp
qed

lemma remove_unready_seats:
  assumes "seats_fine r"
  shows "seats_fine (twin_remove_unready confirmed p r)"
proof (cases "confirmed = []")
  case False
  let ?P = "\<lambda>q. multiplayerPlayerReady q \<or> pid q = pid p \<or> pid q \<notin> set confirmed"
  have "length (filter (\<lambda>q. \<not> withdrawn q) (filter ?P ps)) \<le> length (filter (\<lambda>q. \<not> withdrawn q) ps)"
    for ps :: "twin_player list" by (induction ps) auto
  then have "length (filter (\<lambda>q. \<not> withdrawn q) (filter ?P (tw_players r))) \<le> 10"
    using assms unfolding seats_fine_def activePlayers_def by (meson le_trans)
  moreover have "distinct (map pid (filter ?P (tw_players r)))"
    using assms by (simp add: seats_fine_def distinct_map_filter)
  ultimately show ?thesis
    using assms False unfolding twin_remove_unready_def seats_fine_def activePlayers_def by simp
qed (use assms in \<open>simp add: twin_remove_unready_def\<close>)

lemma remove_unready_fields [simp]:
  "tw_phase (twin_remove_unready confirmed p r) = tw_phase r"
  "wall_clock (twin_remove_unready confirmed p r) = wall_clock r"
  by (simp_all add: twin_remove_unready_def)

lemma plan_exists: "seats_fine r \<Longrightarrow> \<exists>plan. twin_plan_for r = Some plan"
  unfolding twin_plan_for_def
  by (rule plan_for_table)
    (simp add: seats_fine_def twinMaxPlayers_def twinDeckCapacity_def TWIN_MAX_PLAYERS_def TWIN_MIN_HAND_def)

lemma draw_seed_eq: "draw_seed r = (seed, r') \<Longrightarrow> \<exists>k. r' = r\<lparr>pick_cursor := k\<rparr>"
  by (auto simp: draw_seed_def pick_def)

lemma seats_fine_pick [simp]: "seats_fine (r\<lparr>pick_cursor := k\<rparr>) = seats_fine r"
  by (simp add: seats_fine_def activePlayers_def)

lemma twin_plan_pick [simp]: "twin_plan_for (r\<lparr>pick_cursor := k\<rparr>) = twin_plan_for r"
  by (simp add: twin_plan_for_def activePlayers_def)

lemma start_ok:
  assumes "twin_ok r"
  shows "safe_step (twin_start i now removed p r)"
proof (cases "list_ex (twin_unconfirmed (nullish removed []) p) (activePlayers r)")
  case True
  then show ?thesis using start_refused_ok [OF assms] by (simp add: twin_start_def)
next
  case False
  define r1 where "r1 = twin_remove_unready (nullish removed []) p r"
  have s: "seats_fine r1" using assms by (simp add: r1_def remove_unready_seats twin_ok_def)
  obtain plan where plan: "twin_plan_for r1 = Some plan" using plan_exists [OF s] by blast
  obtain seed r2 where d: "draw_seed r1 = (seed, r2)" by fastforce
  obtain k where r2: "r2 = r1\<lparr>pick_cursor := k\<rparr>" using draw_seed_eq [OF d] by blast
  obtain r3 where "applyDeal plan now seed r2 = Some r3" "twin_ok r3"
    using applyDeal_ok [of r2 plan now seed] s plan r2 by auto
  then show ?thesis using False plan d by (simp add: twin_start_def r1_def Let_def)
qed

lemma heat_next_ok:
  assumes "twin_ok r" and "heat r = Some h"
  shows "safe_step (twin_heat_next now h r)"
proof -
  have "twin_ok (r\<lparr>heat := Some (h\<lparr>ht_nextHeatAt := Some now\<rparr>)\<rparr>)" by (rule twin_ok_heat [OF assms]) simp
  from twin_advance_ok [OF this, of now] show ?thesis by (auto simp: twin_heat_next_def)
qed

lemma clear_stats_fields [simp]:
  "pid (clear_stats p) = pid p" "withdrawn (clear_stats p) = withdrawn p" "hand (clear_stats p) = hand p"
  by (simp_all add: clear_stats_def)

lemma replay_ok:
  assumes "twin_ok r"
  shows "safe_step (twin_replay now r)"
proof -
  obtain seed r1 where d: "draw_seed r = (seed, r1)" by fastforce
  obtain k where r1: "r1 = r\<lparr>pick_cursor := k\<rparr>" using draw_seed_eq [OF d] by blast
  have s: "seats_fine r1" using assms r1 by (simp add: twin_ok_def)
  obtain plan where plan: "twin_plan_for r1 = Some plan" using plan_exists [OF s] by blast
  obtain r2 where r2: "applyDeal plan now seed r1 = Some r2" "twin_ok r2" using applyDeal_ok [OF s plan] by blast
  define r3 where "r3 = r2\<lparr>tw_gameNumber := Suc (tw_gameNumber r2), heatCount := 0, nextPlace := 1,
                           tw_players := map (on_active clear_stats) (tw_players r2)\<rparr>"
  have p: "map pid (tw_players r3) = map pid (tw_players r2)"
    and w: "map withdrawn (tw_players r3) = map withdrawn (tw_players r2)" by (simp_all add: r3_def)
  have "seats_fine r3"
    by (rule seats_fine_cong [OF p]) (use r2 length_active_same [OF w] in \<open>simp_all add: twin_ok_def r3_def\<close>)
  moreover have "in_play (tw_players r3) = in_play (tw_players r2)" by (simp add: in_play_hands r3_def)
  then have "cards_fine r3" by (rule cards_fine_cong [of _ r2]) (use r2 in \<open>simp_all add: twin_ok_def r3_def\<close>)
  ultimately have "twin_ok r3" by (simp add: twin_ok_def)
  then show ?thesis using d plan r2(1) by (simp add: twin_replay_def resetForRematch_def r3_def)
qed

lemma to_lobby_ok:
  assumes "twin_ok r"
  shows "safe_step (Some (twin_to_lobby r))"
proof -
  define r1 where "r1 = r\<lparr>tw_players := map (lobby_player (tw_hostPlayerId r)) (tw_players r),
                      tw_phase := TwinLobby, heat := None, middle := None, heatCount := 0, nextPlace := 1,
                      tw_gameNumber := Suc (tw_gameNumber r)\<rparr>"
  have p: "map pid (tw_players r1) = map pid (tw_players r)"
    and w: "map withdrawn (tw_players r1) = map withdrawn (tw_players r)"
    by (simp_all add: r1_def lobby_player_def)
  have "seats_fine r1"
    by (rule seats_fine_cong [OF p]) (use assms length_active_same [OF w] in \<open>simp_all add: twin_ok_def r1_def\<close>)
  then have "twin_ok r1" by (simp add: twin_ok_lobby playing_def r1_def)
  then show ?thesis by (simp add: twin_to_lobby_def r1_def)
qed

lemma host_step_ok: "twin_ok r \<Longrightarrow> safe_step (twin_host_step i now a p r)"
  by (cases a; cases "heat r")
    (simp_all add: twin_host_step_def admission_ok host_pass_ok configure_ok timing_ok start_ok heat_next_ok
      replay_ok to_lobby_ok)

lemma step_ok: "twin_ok r \<Longrightarrow> safe_step (twin_step_of i now a p r)"
  by (cases a) (simp_all add: twin_step_of_def rename_ok readiness_ok tap_ok host_step_ok)

lemma accepted_ok: "safe_step (Some st) \<Longrightarrow> safe_step (Some (twin_accepted i (with_events es st)))"
  by (cases st) (simp add: twin_accepted_def with_events_def)

lemma accepted_ok0: "safe_step (Some st) \<Longrightarrow> safe_step (Some (twin_accepted i st))"
  by (cases st) (simp add: twin_accepted_def)

lemma twin_player_by_id_same:
  assumes "map pid (tw_players r') = map pid (tw_players r)" and "twin_player_by_id r i = Some p"
  shows "\<exists>q. twin_player_by_id r' i = Some q"
proof -
  have "i \<in> set (map pid (tw_players r))" using twin_player_by_idD [OF assms(2)] by force
  then have "i \<in> set (map pid (tw_players r'))" by (simp only: assms(1))
  then have "twin_player_by_id r' i \<noteq> None" by (auto simp: twin_player_by_id_def find_None_iff)
  then show ?thesis by blast
qed

lemma twinReduce_ok:
  assumes "twin_ok r"
  shows "safe_step (twinReduce i r)"
proof (cases "authenticatedPlayer (ti_playerId i) (ti_playerToken i) r")
  case (Some a)
  then obtain p where a: "twin_player_by_id r (ti_playerId i) = Some p"
    by (auto simp: authenticatedPlayer_def split: option.splits)
  define r0 where "r0 = upd_twin (ti_playerId i) (\<lambda>p. p\<lparr>tp_lastSeenAt := ti_now i\<rparr>) r"
  have r0: "twin_ok r0" unfolding r0_def using assms by (rule twin_ok_upd) simp
  obtain r1 entries where adv: "twin_advance (ti_now i) r0 = Some (r1, entries)" "twin_ok r1"
    and ids: "map pid (tw_players r1) = map pid (tw_players r0)"
    using twin_advance_ok [OF r0] by blast
  have "map pid (tw_players r1) = map pid (tw_players r)"
    using ids by (simp add: r0_def upd_twin_def map_upd_first)
  then obtain q where q: "twin_player_by_id r1 (ti_playerId i) = Some q"
    using twin_player_by_id_same [OF _ a] by blast
  obtain st where st: "twin_step_of (ti_newId i) (ti_now i) (ti_action i) q r1 = Some st"
    and ok: "safe_step (Some st)"
    using step_ok [OF adv(2), of "ti_newId i" "ti_now i" "ti_action i" q] by (auto simp: safe_step_def)
  have "safe_step (Some (twin_accepted (ti_id i) (tw_done r)))"
    using assms by (intro accepted_ok0) simp
  moreover have "safe_step (Some (twin_accepted (ti_id i) (twin_leave (ti_now i) a r)))"
    using assms by (intro accepted_ok0 leave_ok)
  ultimately show ?thesis
    using Some assms adv(1) q st accepted_ok [OF ok, of "ti_id i" "emit_log entries"]
    by (simp add: twinReduce_def flip: r0_def)
qed (use assms in \<open>simp add: twinReduce_def\<close>)

section \<open>Joining and reading\<close>

lemma readTwin_ok:
  assumes "twin_ok r"
  shows "\<exists>r' entries out. readTwin f g i t d r = Some (r', entries, out) \<and> twin_ok r'"
proof (cases "validPlayer i t r")
  case (Some p)
  have "twin_ok (upd_twin i (touch_twin (wall_clock r)) r)"
    using assms by (rule twin_ok_upd) (simp add: touch_twin_def)
  from twin_advance_ok [OF this, of "wall_clock r"] Some show ?thesis by (auto simp: readTwin_def)
qed (use assms in \<open>simp add: readTwin_def\<close>)

lemma newPlayer_fields [simp]:
  "pid (twin_newPlayer i n h t) = i" "withdrawn (twin_newPlayer i n h t) = False"
  "hand (twin_newPlayer i n h t) = []"
  by (simp_all add: twin_newPlayer_def)

lemma seats_fine_seat:
  assumes "seats_fine r" and "length (activePlayers r) < 10" and "pid p = uuid_source r (uuid_cursor r)"
  shows "seats_fine (r\<lparr>uuid_cursor := Suc (uuid_cursor r), tw_players := tw_players r @ [p]\<rparr>)"
proof -
  have "pid p \<notin> pid ` set (tw_players r)"
  proof
    assume "pid p \<in> pid ` set (tw_players r)"
    then obtain k where "k < uuid_cursor r" "uuid_source r k = uuid_source r (uuid_cursor r)"
      using assms(1,3) by (force simp: seats_fine_def)
    then show False using assms(1) by (simp add: seats_fine_def inj_eq)
  qed
  moreover have "\<exists>k<Suc (uuid_cursor r). pid q = uuid_source r k" if "q \<in> set (tw_players r @ [p])" for q
    using that assms(1,3) by (auto simp: seats_fine_def less_Suc_eq)
  ultimately show ?thesis using assms by (auto simp: seats_fine_def activePlayers_def)
qed

lemma follow_roster_ok:
  "seats_fine r \<Longrightarrow> seats_fine (twin_follow_roster r) \<and> tw_phase (twin_follow_roster r) = tw_phase r"
proof (cases "twin_plan_for r")
  case (Some plan)
  assume "seats_fine r"
  then show ?thesis
    using plan_orders [OF Some] seats_fine_order [of r] Some by (simp add: twin_follow_roster_def)
qed (simp add: twin_follow_roster_def)

lemma seat_ok:
  assumes "twin_ok r" and "twin_admission_error n r = None"
  shows "twin_ok (snd (twin_seat j t n r))"
proof -
  have l: "tw_phase r = TwinLobby" "length (activePlayers r) < 10"
    using assms(2) by (auto simp: twin_admission_error_def twinMaxPlayers_def twinDeckCapacity_def
        TWIN_MAX_PLAYERS_def TWIN_MIN_HAND_def split: if_splits)
  define p where "p = (twin_newPlayer (uuid_source r (uuid_cursor r)) n (hashMultiplayerCredential r t) (wall_clock r))\<lparr>tp_joinId := j\<rparr>"
  define r1 where "r1 = r\<lparr>uuid_cursor := Suc (uuid_cursor r), tw_players := tw_players r @ [p]\<rparr>"
  have "seats_fine r1" unfolding r1_def
    by (rule seats_fine_seat) (use assms(1) l(2) in \<open>simp_all add: twin_ok_def p_def\<close>)
  then have "seats_fine (twin_follow_roster r1)" "tw_phase (twin_follow_roster r1) = TwinLobby"
    using follow_roster_ok [of r1] l(1) by (simp_all add: r1_def)
  then have "twin_ok (twin_follow_roster r1)" by (simp add: twin_ok_lobby playing_def)
  then show ?thesis by (simp add: twin_seat_def randomUUID_def r1_def p_def Let_def)
qed

lemma resolve_world:
  assumes "resolveMultiplayerJoinAttempt f g ps a r = (x, r')"
  shows "r' = r\<lparr>token_cursor := Suc (token_cursor r)\<rparr> \<or> r' = r"
  using assms by (auto simp: resolveMultiplayerJoinAttempt_def createMultiplayerCredential_def split: option.splits)

lemma join_ok:
  assumes "twin_ok r"
  shows "twin_ok (fst (twin_join f i r))"
proof (cases "twin_invite_refused i r")
  case False
  obtain x r1 where x: "resolveMultiplayerJoinAttempt tp_joinId tp_tokenHash (tw_players r) (twin_attempt i) r = (x, r1)"
    by fastforce
  have r1: "twin_ok r1" using resolve_world [OF x] assms by auto
  show ?thesis
  proof (cases x)
    case (JoinNew j t)
    then show ?thesis using False x r1 seat_ok [OF r1, of "js_trim (tji_name i)" j t]
      by (auto simp: twin_join_def Let_def split: option.splits prod.splits)
  qed (use False x r1 in \<open>simp_all add: twin_join_def\<close>)
qed (use assms in \<open>simp add: twin_join_def\<close>)

lemma joinTwin_ok:
  assumes "twin_ok r"
  shows "\<exists>r' entries out. joinTwin f i r = Some (r', entries, out) \<and> twin_ok r'"
proof -
  obtain r1 entries where a: "twin_advance (wall_clock r) r = Some (r1, entries)" "twin_ok r1"
    using twin_advance_ok [OF assms] by blast
  obtain r2 x where j: "twin_join f i r1 = (r2, x)" by fastforce
  then have "twin_ok r2" using join_ok [OF a(2), of f i] by simp
  then show ?thesis using a(1) j by (simp add: joinTwin_def)
qed

section \<open>Reachable rooms\<close>

text \<open>
  A room as it is created, and after every call, every passing of time and every save. The ids
  \<^verbatim>\<open>crypto.randomUUID\<close> gives are different.
\<close>

inductive twin_reachable :: "twin_room \<Rightarrow> bool" where
  created: "createTwinRoom ex seed0 w input = Some (r, h, j, t) \<Longrightarrow> inj (uuid_source w) \<Longrightarrow> twin_reachable r"
| acted: "twin_reachable r \<Longrightarrow> twinReduce i r = Some (r', events, v) \<Longrightarrow> twin_reachable r'"
| seen: "twin_reachable r \<Longrightarrow> readTwin f g i t d r = Some (r', entries, out) \<Longrightarrow> twin_reachable r'"
| entered: "twin_reachable r \<Longrightarrow> joinTwin f inp r = Some (r', entries, out) \<Longrightarrow> twin_reachable r'"
| elapsed: "twin_reachable r \<Longrightarrow> twin_reachable (r\<lparr>wall_clock := t\<rparr>)"
| kept: "twin_reachable r \<Longrightarrow> twin_reachable (twin_applyRoomExpiry now r)"
| logged: "twin_reachable r \<Longrightarrow> twin_reachable (r\<lparr>loggedHeats := l\<rparr>)"

lemma draw_chars_uuid: "uuid_source (snd (draw_chars n w)) = uuid_source w"
  by (induction n arbitrary: w) (auto simp: split_beta random_int_def)

lemma allocate_uuid: "uuid_source (snd (allocate_room_id n ex w)) = uuid_source w"
  by (induction n arbitrary: w) (auto simp: split_beta createMultiplayerRoomId_def draw_chars_uuid)

lemma created_ok:
  assumes "createTwinRoom ex seed0 w input = Some (r, h, j, t)" and "inj (uuid_source w)"
  shows "twin_ok r"
proof -
  obtain i w0 where a: "createAvailableMultiplayerRoomId ex w = (Some i, w0)"
    using assms(1) by (auto simp: createTwinRoom_def split: option.splits prod.splits)
  have u: "uuid_source w0 = uuid_source w"
    using allocate_uuid [of 5 ex w] a by (simp add: createAvailableMultiplayerRoomId_def)
  have plan: "\<exists>plan. planTwinDeck 1 k TWIN_SYMBOL_COUNT = Some plan" for k
    by (rule plan_for_table) (simp add: twinMaxPlayers_def twinDeckCapacity_def TWIN_MAX_PLAYERS_def TWIN_MIN_HAND_def)
  then obtain plan where p: "planTwinDeck 1 (nullish (tci_handSize input) TWIN_DEFAULT_HAND) 31 = Some plan"
    by (metis length_TWIN_SYMBOLS(2))
  have o: "plan_order plan = 4 \<or> plan_order plan = 5"
    using plan_from_Some [of 1 "[4, 5]" _ plan] p by (auto simp: planTwinDeck_def)
  have "tw_phase r = TwinLobby \<and> seats_fine r"
    using assms(1) a u assms(2) p o
    by (auto simp: createTwinRoom_def new_twin_room_def createMultiplayerCredential_def randomUUID_def Let_def
        seats_fine_def activePlayers_def services.defs)
  then show ?thesis by (simp add: twin_ok_lobby playing_def)
qed

lemma expiry_ok [simp]: "twin_ok (twin_applyRoomExpiry now r) = twin_ok r"
  by (simp add: twin_applyRoomExpiry_def twin_ok_def seats_fine_def cards_fine_def activePlayers_def)

lemma twin_reachable_ok: "twin_reachable r \<Longrightarrow> twin_ok r"
proof (induction rule: twin_reachable.induct)
  case (acted r i r' events v)
  then show ?case using twinReduce_ok [of r i] by simp
next
  case (seen r f g i t d r' entries out)
  then show ?case using readTwin_ok [of r f g i t d] by auto
next
  case (entered r f inp r' entries out)
  then show ?case using joinTwin_ok [of r f inp] by auto
qed (simp_all add: created_ok)

end
