(* ===== verification/TwinSamples.thy ===== *)
theory TwinSamples
  imports TwinReachable
begin

text \<open>
  A concrete game of Twin the witnesses evaluate: Ann opens a room, Bob joins, Ann
  starts, and the first heat is on; with code equations that keep large numbers out of unary.
\<close>

lemma draw_seed_code [code]:
  "draw_seed r = (uint (pick_draw r (pick_cursor r)) div 2, r\<lparr>pick_cursor := Suc (pick_cursor r)\<rparr>)"
proof -
  have "int ((unat v * 2 ^ 31) div 2 ^ 32) = uint v div 2" for v :: "32 word"
    by (simp add: zdiv_int)
  then show ?thesis by (simp add: draw_seed_def pick_def scale_draw_def)
qed

text \<open>The plane of order four, computed once.\<close>

lemma twinPlane_4:
  "twinPlane 4 =
     [[1,5,9,13,17], [0,5,6,7,8], [2,5,10,15,20], [4,5,12,14,19],
      [3,5,11,16,18], [0,1,2,3,4], [1,6,10,14,18], [1,8,12,16,20],
      [1,7,11,15,19], [0,9,10,11,12], [2,6,9,16,19], [4,8,9,15,18],
      [3,7,9,14,20], [0,17,18,19,20], [3,6,12,15,17], [2,8,11,14,17],
      [4,7,10,16,17], [0,13,14,15,16], [4,6,11,13,20], [3,8,10,13,19],
      [2,7,12,13,18]]"
  by code_simp

lemma twinPlane_code [code]:
  "twinPlane order =
     (if order = 4 then
     [[1,5,9,13,17], [0,5,6,7,8], [2,5,10,15,20], [4,5,12,14,19],
      [3,5,11,16,18], [0,1,2,3,4], [1,6,10,14,18], [1,8,12,16,20],
      [1,7,11,15,19], [0,9,10,11,12], [2,6,9,16,19], [4,8,9,15,18],
      [3,7,9,14,20], [0,17,18,19,20], [3,6,12,15,17], [2,8,11,14,17],
      [4,7,10,16,17], [0,13,14,15,16], [4,6,11,13,20], [3,8,10,13,19],
      [2,7,12,13,18]]
      else let field = galoisField order; points = plane_points field in map (plane_line field points) points)"
  by (simp add: twinPlane_4) (simp add: twinPlane_def)

definition twin_services :: services where
  "twin_services = test_services\<lparr>wall_clock := 1000\<rparr>"

definition sample_create :: twin_create_input where
  "sample_create = \<lparr>tci_hostName = ''A'', tci_handSize = Some 3, tci_windowMs = None, tci_graceMs = None,
     tci_settleHoldMs = None, tci_managed = False, tci_officialResultChannelId = None\<rparr>"

definition by_player :: "js_string \<Rightarrow> js_string \<Rightarrow> twin_action \<Rightarrow> js_string \<Rightarrow> int \<Rightarrow> twin_input" where
  "by_player i token a actionId now =
     \<lparr>ti_playerId = i, ti_playerToken = token, ti_action = a, ti_actionId = Some actionId, ti_now = now,
      ti_newId = ''new''\<rparr>"

definition lobby_room :: twin_room where
  "lobby_room = fst (the (createTwinRoom (\<lambda>_. False) 0 twin_services sample_create))"

definition joined_room :: twin_room where
  "joined_room = fst (the (joinTwin (\<lambda>_. [])
     \<lparr>tji_joinToken = None, tji_name = ''B'', tji_joinId = None, tji_playerToken = None\<rparr> lobby_room))"

definition dealt_room :: twin_room where
  "dealt_room = fst (the (twinReduce (by_player ''u0'' ''t2'' (TwGameStart None) ''a1'' 1000) joined_room))"

definition heat_room :: twin_room where
  "heat_room = fst (the (readTwin (\<lambda>_. []) (\<lambda>_. []) ''u0'' ''t2'' None (dealt_room\<lparr>wall_clock := 3000\<rparr>)))"

lemma reduced: "twin_reachable r \<Longrightarrow> twin_reachable (fst (the (twinReduce i r)))"
  using twinReduce_ok [OF twin_reachable_ok, of r i] twin_reachable.acted [of r i] by (auto simp: safe_step_def)

lemma read_again: "twin_reachable r \<Longrightarrow> twin_reachable (fst (the (readTwin f g i t d r)))"
  using readTwin_ok [OF twin_reachable_ok, of r f g i t d] twin_reachable.seen [of r f g i t d] by auto

lemma joined: "twin_reachable r \<Longrightarrow> twin_reachable (fst (the (joinTwin f i r)))"
  using joinTwin_ok [OF twin_reachable_ok, of r f i] twin_reachable.entered [of r f i] by auto

lemma created: "createTwinRoom ex s w c = Some st \<Longrightarrow> inj (uuid_source w) \<Longrightarrow> twin_reachable (fst st)"
  by (cases st) (auto intro: twin_reachable.created)

text \<open>Decimal digits read back.\<close>

lemma nat_str_value: "foldl (\<lambda>a c. a * 10 + (of_char c - 48)) 0 (nat_str n) = n"
  by (induction n rule: nat_str.induct) (subst nat_str.simps, auto)

lemma inj_nat_str: "inj nat_str"
  by (rule injI) (metis nat_str_value)

lemma lobby_reachable: "twin_reachable lobby_room"
proof -
  have "inj (uuid_source twin_services)"
    using inj_nat_str by (auto simp: twin_services_def test_services_def inj_on_def)
  moreover have "createTwinRoom (\<lambda>_. False) 0 twin_services sample_create \<noteq> None"
    by code_simp
  ultimately show ?thesis unfolding lobby_room_def by (metis created option.collapse)
qed

lemma heat_reachable: "twin_reachable heat_room"
  unfolding heat_room_def dealt_room_def joined_room_def
  by (intro read_again twin_reachable.elapsed reduced joined lobby_reachable)

text \<open>What the heat looks like: three cards each, nobody gone.\<close>

definition table_summary ::
  "twin_room \<Rightarrow> twin_phase \<times> int \<times> (int \<times> int \<times> int option \<times> heat_result list) option \<times>
     (js_string \<times> js_string list \<times> bool) list" where
  "table_summary r =
     (tw_phase r, settleHoldMs r,
      map_option (\<lambda>h. (ht_revealAt h, ht_deadlineAt h, ht_resolvedAt h, ht_results h)) (heat r),
      map (\<lambda>p. (pid p, hand_ids p, withdrawn p)) (tw_players r))"

lemma heat_room_table:
  "table_summary heat_room =
     (TwinHeat, 1650, Some (3150, 11150, None, []),
      [(''u0'', [''o4c11'', ''o4c13'', ''o4c1''], False), (''u1'', [''o4c10'', ''o4c18'', ''o4c16''], False)])"
  by code_simp

definition ann :: twin_player where "ann = hd (tw_players heat_room)"
definition bob :: twin_player where "bob = hd (tl (tw_players heat_room))"

lemma heat_room_seats:
  "tw_phase heat_room = TwinHeat \<and> heat heat_room \<noteq> None \<and> tw_players heat_room = [ann, bob] \<and>
   activePlayers heat_room = [ann, bob] \<and> hand ann \<noteq> [] \<and> hand bob \<noteq> []"
proof -
  obtain p q where "tw_players heat_room = [p, q]"
    using heat_room_table by (auto simp: table_summary_def map_eq_Cons_conv)
  with heat_room_table show ?thesis
    by (auto simp: table_summary_def activePlayers_def hand_ids_def ann_def bob_def)
qed

lemma heat_room_clock:
  "settleHoldMs heat_room = 1650 \<and>
   (\<exists>h. heat heat_room = Some h \<and> ht_results h = [] \<and> ht_resolvedAt h = None \<and> ht_revealAt h = 3150 \<and>
        ht_deadlineAt h = 11150)"
  using heat_room_table by (auto simp: table_summary_def)

end
