(* ===== verification/TwinFacts.thy ===== *)
theory TwinFacts
  imports TwinSamples
begin

text \<open>
  What holds of a game of Twin: every hand can be played, nothing throws, the payout of a heat, how a
  heat ends.
\<close>

section \<open>Every hand can be played\<close>

lemma table_cards:
  assumes "twin_ok r" and "playing (tw_phase r)"
  shows "\<exists>m deck. middle r = Some m \<and> twinDeck (tw_order r) = Some deck \<and> deck_ok (tw_order r) deck \<and>
           table_ok (tw_order r) m (tw_players r)"
proof -
  obtain m where "middle r = Some m" "table_ok (tw_order r) m (tw_players r)"
    using assms by (auto simp: twin_ok_def cards_fine_def)
  moreover have "\<exists>deck. twinDeck (tw_order r) = Some deck \<and> deck_ok (tw_order r) deck"
    using assms(1) by (intro deck_exists) (simp add: twin_ok_def seats_fine_def)
  ultimately show ?thesis by blast
qed

lemma deck_id_card:
  assumes "twinDeck order = Some deck" and "deck_ok order deck" and "i \<in> deck_ids order"
  shows "\<exists>c. twinCardById order i = Some c \<and> c \<in> set deck \<and> tc_id c = i"
proof -
  obtain c where "c \<in> set deck" "tc_id c = i" using assms(1,3) by (auto simp: deck_ids_def)
  then show ?thesis using in_deck_by_id [OF assms(1,2)] by blast
qed

lemma table_top_differs:
  assumes t: "table_ok order m ps" and "p \<in> set ps" "\<not> withdrawn p" "c \<in> set (hand p)"
  shows "cs_cardId c \<in> deck_ids order \<and> cs_cardId m \<in> deck_ids order \<and> cs_cardId c \<noteq> cs_cardId m"
proof -
  have mem: "cs_cardId c \<in># in_play ps" using assms(2-4) by (rule in_play_elem)
  have "count (add_mset (cs_cardId m) (in_play ps)) (cs_cardId m) \<le> 1" using t unfolding table_ok_def Let_def by blast
  then have "cs_cardId m \<notin># in_play ps" by (simp add: not_in_iff)
  with mem t show ?thesis by (auto simp: table_ok_def)
qed

lemma expected_symbol_exists:
  assumes ok: "twin_ok r" and heat: "tw_phase r = TwinHeat" "heat r = Some h"
    and p: "p \<in> set (activePlayers r)" "hand p = c # cs"
  shows "\<exists>s a b. expectedSymbol r p = Some s \<and> card_of r c = Some a \<and> card_of r (ht_middle h) = Some b \<and>
           set (tc_symbolIds a) \<inter> set (tc_symbolIds b) = {s}"
proof -
  obtain m deck where m: "middle r = Some m" and d: "twinDeck (tw_order r) = Some deck" "deck_ok (tw_order r) deck"
    and t: "table_ok (tw_order r) m (tw_players r)"
    using table_cards [OF ok] heat(1) by (auto simp: playing_def)
  have hm: "ht_middle h = m" using ok heat m by (simp add: twin_ok_def cards_fine_def)
  have diff: "cs_cardId c \<in> deck_ids (tw_order r)" "cs_cardId m \<in> deck_ids (tw_order r)" "cs_cardId c \<noteq> cs_cardId m"
    using table_top_differs [OF t, of p c] p by (auto simp: activePlayers_def)
  obtain a where a: "card_of r c = Some a" "a \<in> set deck" "tc_id a = cs_cardId c"
    using deck_id_card [OF d diff(1)] by (auto simp: card_of_def)
  obtain b where b: "card_of r m = Some b" "b \<in> set deck" "tc_id b = cs_cardId m"
    using deck_id_card [OF d diff(2)] by (auto simp: card_of_def)
  have "a \<noteq> b" using a(3) b(3) diff(3) by metis
  then obtain s where s: "twinMatch a b = Some s" "set (tc_symbolIds a) \<inter> set (tc_symbolIds b) = {s}"
    using d(2) a(2) b(2) unfolding deck_ok_def by blast
  then show ?thesis using a(1) b(1) p(2) heat(2)
    by (auto simp: expectedSymbol_def match_states_def top_card_def hm)
qed

text \<open>C7. In every heat of every reachable room, whatever was dealt, shed, rotated
  or abandoned before, each player who is still there and holds a card has exactly one symbol to
  hunt: it is the only symbol the top card and the middle card have in common.\<close>

theorem every_hand_is_playable:
  assumes "twin_reachable r" and "tw_phase r = TwinHeat" and "heat r = Some h"
    and "p \<in> set (activePlayers r)" and "hand p = c # cs"
  shows "\<exists>s a b. expectedSymbol r p = Some s \<and> card_of r c = Some a \<and> card_of r (ht_middle h) = Some b \<and>
           set (tc_symbolIds a) \<inter> set (tc_symbolIds b) = {s}"
  by (rule expected_symbol_exists [OF twin_reachable_ok [OF assms(1)] assms(2-5)])

lemma every_hand_is_playable_witness:
  "\<exists>s a. expectedSymbol heat_room ann = Some s \<and> card_of heat_room (hd (hand ann)) = Some a"
proof -
  obtain h where h: "heat heat_room = Some h" and ph: "tw_phase heat_room = TwinHeat"
    and p: "ann \<in> set (activePlayers heat_room)"
    using heat_room_seats by (metis list.set_intros(1) option.collapse)
  have "hand ann = hd (hand ann) # tl (hand ann)" using heat_room_seats by simp
  from every_hand_is_playable [OF heat_reachable ph h p this] show ?thesis by blast
qed

section \<open>Nothing throws\<close>

text \<open>C25. In a reachable room no action, read or join ends in one of the errors the code
  throws: no heat starts without a middle card, no deal runs out of cards or hands out a top card
  that cannot be matched; and no action is ever refused because the deck is too small.\<close>

theorem twin_never_throws:
  assumes "twin_reachable r"
  shows "(\<exists>r' events v. twinReduce i r = Some (r', events, v)) \<and>
         (\<exists>r' entries out. readTwin f g who token d r = Some (r', entries, out)) \<and>
         (\<exists>r' entries out. joinTwin f inp r = Some (r', entries, out)) \<and>
         (\<exists>plan. twin_plan_for r = Some plan)"
  using twinReduce_ok [of r i] readTwin_ok [of r f g who token d] joinTwin_ok [of r f inp] plan_exists [of r]
    twin_reachable_ok [OF assms] unfolding safe_step_def twin_ok_def by blast

lemma twin_never_throws_witness:
  "\<exists>st. twinReduce (by_player ''u0'' ''t2'' (TwHostPass ''u1'') ''a2'' 3200) heat_room = Some st"
  using twin_never_throws [OF heat_reachable,
      of "by_player ''u0'' ''t2'' (TwHostPass ''u1'') ''a2'' 3200"] by blast

lemma distinct_count_le: "(\<And>c. count (mset xs) c \<le> 1) \<Longrightarrow> distinct xs"
proof (induction xs)
  case (Cons x xs)
  have "count (mset xs) c \<le> count (mset (x # xs)) c" for c by simp
  then have "count (mset xs) c \<le> 1" for c using Cons.prems [of c] by (rule le_trans)
  moreover have "x \<notin> set xs" using Cons.prems [of x] by (auto simp flip: count_mset_0_iff)
  ultimately show ?case using Cons.IH by simp
qed simp

text \<open>C17. While a game is on, no card is twice among the middle and the hands of the players
  who are there, and all of them are cards of the deck of the room's order.\<close>

theorem no_card_twice:
  assumes "twin_reachable r" and "tw_phase r = TwinDealing \<or> tw_phase r = TwinHeat \<or> tw_phase r = TwinSettle"
  shows "\<exists>m deck. middle r = Some m \<and> twinDeck (tw_order r) = Some deck \<and>
           distinct (cs_cardId m # concat (map (\<lambda>p. map cs_cardId (hand p)) (activePlayers r))) \<and>
           set (cs_cardId m # concat (map (\<lambda>p. map cs_cardId (hand p)) (activePlayers r))) \<subseteq> tc_id ` set deck"
proof -
  obtain m deck where m: "middle r = Some m" "twinDeck (tw_order r) = Some deck"
    and t: "table_ok (tw_order r) m (tw_players r)"
    using table_cards [OF twin_reachable_ok [OF assms(1)]] assms(2) by (auto simp: playing_def)
  let ?cards = "cs_cardId m # concat (map (\<lambda>p. map cs_cardId (hand p)) (activePlayers r))"
  have e: "add_mset (cs_cardId m) (in_play (tw_players r)) = mset ?cards"
    by (simp add: in_play_def activePlayers_def hand_ids_def [abs_def])
  have "count (mset ?cards) c \<le> 1" for c using t unfolding table_ok_def Let_def e by blast
  then have "distinct ?cards" by (rule distinct_count_le)
  moreover have "set_mset (mset ?cards) \<subseteq> tc_id ` set deck"
    using t m(2) unfolding table_ok_def Let_def e by (simp add: deck_ids_def)
  ultimately show ?thesis using m by (simp del: distinct.simps)
qed

lemma no_card_twice_witness:
  "\<exists>m. middle heat_room = Some m \<and>
     distinct (cs_cardId m # map cs_cardId (hand ann) @ map cs_cardId (hand bob))"
proof -
  have ph: "tw_phase heat_room = TwinDealing \<or> tw_phase heat_room = TwinHeat \<or> tw_phase heat_room = TwinSettle"
    and seats: "activePlayers heat_room = [ann, bob]"
    using heat_room_seats by simp_all
  have "\<exists>m deck. middle heat_room = Some m \<and> twinDeck (tw_order heat_room) = Some deck \<and>
      distinct (cs_cardId m # map cs_cardId (hand ann) @ map cs_cardId (hand bob)) \<and>
      set (cs_cardId m # map cs_cardId (hand ann) @ map cs_cardId (hand bob)) \<subseteq> tc_id ` set deck"
    using no_card_twice [OF heat_reachable ph] unfolding seats by (simp only: list.map concat.simps append_Nil2)
  then show ?thesis by blast
qed

end
