(* ===== verification/TwinHeatFacts.thy ===== *)
theory TwinHeatFacts
  imports TwinReachable
begin

text \<open>
  What the payout of a heat gives to whom, the places of the players who go out, and how a heat ends.
\<close>

section \<open>The turn of one player\<close>

text \<open>Found in this heat.\<close>

definition landed_in :: "heat_state \<Rightarrow> twin_player \<Rightarrow> bool" where
  "landed_in h p \<longleftrightarrow> heatId p = Some (ht_id h) \<and> landedMs p \<noteq> None"

text \<open>A ranked player: the connection is counted, the top card is gone, an empty hand has a place.\<close>

definition paid :: "nat \<Rightarrow> twin_player \<Rightarrow> twin_player" where
  "paid k p =
     (let p2 = (count_connection (nullish (landedMs p) 0) p)\<lparr>hand := tl (hand p)\<rparr>
      in if hand p2 = [] \<and> place p2 = None then p2\<lparr>place := Some k\<rparr> else p2)"

definition goes_out :: "twin_player \<Rightarrow> bool" where
  "goes_out p \<longleftrightarrow> tl (hand p) = [] \<and> place p = None"

lemma paid_fields [simp]:
  "pid (paid k p) = pid p" "withdrawn (paid k p) = withdrawn p" "hand (paid k p) = tl (hand p)"
  "connections (paid k p) = Suc (connections p)" "chain (paid k p) = Suc (chain p)"
  "place (paid k p) = (if goes_out p then Some k else place p)"
  by (simp_all add: paid_def Let_def count_connection_def goes_out_def)

lemma pay_ranked_found:
  assumes "twin_player_by_id r i = Some p" and "pay_ranked outcome h (r, conns, n) i = (r', conns', n')"
  shows "tw_players r' = upd_first (\<lambda>q. pid q = i) (\<lambda>_. paid (nextPlace r) p) (tw_players r)"
    and "nextPlace r' = (if goes_out p then Suc (nextPlace r) else nextPlace r)"
    and "n' = (if Some i = ho_winnerPlayerId outcome then nullish (top_card p) n else n)"
  using assms
  by (auto simp: pay_ranked_def Let_def paid_def goes_out_def upd_twin_def count_connection_def
      split: if_splits option.splits)

lemma pay_ranked_missing:
  "twin_player_by_id r i = None \<Longrightarrow> pay_ranked outcome h (r, conns, n) i = (r, conns, n)"
  by (simp add: pay_ranked_def)

lemma by_id_upd:
  assumes "twin_player_by_id r i = Some p" and "pid q = i"
    and "tw_players r' = upd_first (\<lambda>p. pid p = i) (\<lambda>_. q) (tw_players r)"
  shows "twin_player_by_id r' j = (if j = i then Some q else twin_player_by_id r j)"
proof -
  have "find (\<lambda>p. pid p = i) (upd_first (\<lambda>p. pid p = i) (\<lambda>_. q) ps) = map_option (\<lambda>_. q) (find (\<lambda>p. pid p = i) ps)"
    for ps by (induction ps) (auto simp: assms(2))
  moreover have "find (\<lambda>p. pid p = j) (upd_first (\<lambda>p. pid p = i) (\<lambda>_. q) ps) = find (\<lambda>p. pid p = j) ps"
    if "j \<noteq> i" for ps using that by (induction ps) (auto simp: assms(2))
  ultimately show ?thesis using assms by (simp add: twin_player_by_id_def)
qed

lemma by_id_map:
  assumes "\<And>p. pid (f p) = pid p" and "tw_players r' = map f (tw_players r)"
  shows "twin_player_by_id r' j = map_option f (twin_player_by_id r j)"
proof -
  have "find (\<lambda>p. pid p = j) (map f ps) = map_option f (find (\<lambda>p. pid p = j) ps)" for ps
    using assms(1) by (induction ps) auto
  then show ?thesis using assms(2) by (simp add: twin_player_by_id_def)
qed

section \<open>The turns of all ranked players\<close>

text \<open>Each ranked player is paid once; the players who go out take the next places in ranked order.\<close>

lemma pay_seats:
  assumes "foldl (pay_ranked outcome h) (r, conns, n) is = (r', conns', n')" and "distinct is"
    and "twin_player_by_id r j = Some p"
  shows "\<exists>k. twin_player_by_id r' j = Some (if j \<in> set is then paid k p else p)"
  using assms
proof (induction "is" arbitrary: r conns n p)
  case (Cons i "is")
  obtain r1 c1 n1 where s: "pay_ranked outcome h (r, conns, n) i = (r1, c1, n1)" by (metis prod_cases3)
  have rest: "foldl (pay_ranked outcome h) (r1, c1, n1) is = (r', conns', n')" "distinct is" "i \<notin> set is"
    using Cons.prems s by simp_all
  note IH = Cons.IH [OF rest(1,2)] and j = Cons.prems(3)
  show ?case
  proof (cases "twin_player_by_id r i")
    case None
    then have "r1 = r" "j \<noteq> i" using s j by (auto simp: pay_ranked_missing)
    then show ?thesis using IH [of p] j by simp
  next
    case (Some q)
    have by_id: "twin_player_by_id r1 j = (if j = i then Some (paid (nextPlace r) q) else twin_player_by_id r j)"
      using Some twin_player_by_idD [OF Some] pay_ranked_found(1) [OF Some s] by (intro by_id_upd) auto
    show ?thesis
    proof (cases "j = i")
      case True
      then show ?thesis using IH [of "paid (nextPlace r) q"] by_id Some j rest(3) by auto
    next
      case False
      then show ?thesis using IH [of p] by_id j by simp
    qed
  qed
qed auto

definition place_of :: "twin_room \<Rightarrow> js_string \<Rightarrow> nat option" where
  "place_of r i = Option.bind (twin_player_by_id r i) place"

definition outgoing :: "twin_room \<Rightarrow> js_string list \<Rightarrow> js_string list" where
  "outgoing r is = filter (\<lambda>i. case twin_player_by_id r i of None \<Rightarrow> False | Some p \<Rightarrow> goes_out p) is"

lemma pay_places:
  assumes "foldl (pay_ranked outcome h) (r, conns, n) is = (r', conns', n')" and "distinct is"
  shows "map (place_of r') (outgoing r is) = map Some [nextPlace r..<nextPlace r'] \<and>
         nextPlace r' = nextPlace r + length (outgoing r is)"
  using assms
proof (induction "is" arbitrary: r conns n)
  case (Cons i "is")
  obtain r1 c1 n1 where s: "pay_ranked outcome h (r, conns, n) i = (r1, c1, n1)" by (metis prod_cases3)
  have rest: "foldl (pay_ranked outcome h) (r1, c1, n1) is = (r', conns', n')" "distinct is" "i \<notin> set is"
    using Cons.prems s by simp_all
  note IH = Cons.IH [OF rest(1,2)]
  show ?case
  proof (cases "twin_player_by_id r i")
    case None
    then have "r1 = r" using s by (simp add: pay_ranked_missing)
    then show ?thesis using IH None by (simp add: outgoing_def)
  next
    case (Some p)
    have by_id: "twin_player_by_id r1 j = (if j = i then Some (paid (nextPlace r) p) else twin_player_by_id r j)" for j
      using Some twin_player_by_idD [OF Some] pay_ranked_found(1) [OF Some s] by (intro by_id_upd) auto
    have same: "outgoing r1 is = outgoing r is"
      unfolding outgoing_def using rest(3) by (intro filter_cong refl) (auto simp: by_id)
    have next1: "nextPlace r1 = (if goes_out p then Suc (nextPlace r) else nextPlace r)"
      using pay_ranked_found(2) [OF Some s] .
    show ?thesis
    proof (cases "goes_out p")
      case False
      then show ?thesis using IH Some next1 same by (simp add: outgoing_def)
    next
      case True
      have "twin_player_by_id r' i = Some (paid (nextPlace r) p)"
        using pay_seats [OF rest(1,2), of i] by_id [of i] rest(3) by simp
      then have "place_of r' i = Some (nextPlace r)" using True by (simp add: place_of_def)
      moreover have out: "outgoing r (i # is) = i # outgoing r is" using True Some by (simp add: outgoing_def)
      have lt: "nextPlace r < nextPlace r'" using IH next1 True by simp
      ultimately show ?thesis using IH True next1 unfolding out upt_conv_Cons [OF lt] same by simp
    qed
  qed
qed (simp add: outgoing_def)

text \<open>The card that becomes the middle is the top card of the winner.\<close>

lemma pay_middle:
  assumes "foldl (pay_ranked outcome h) (r, conns, n) is = (r', conns', n')" and "distinct is"
  shows "n' = (case ho_winnerPlayerId outcome of None \<Rightarrow> n
               | Some w \<Rightarrow> (if w \<in> set is then (case twin_player_by_id r w of None \<Rightarrow> n | Some p \<Rightarrow> nullish (top_card p) n)
                            else n))"
  using assms
proof (induction "is" arbitrary: r conns n)
  case (Cons i "is")
  obtain r1 c1 n1 where s: "pay_ranked outcome h (r, conns, n) i = (r1, c1, n1)" by (metis prod_cases3)
  have rest: "foldl (pay_ranked outcome h) (r1, c1, n1) is = (r', conns', n')" "distinct is" "i \<notin> set is"
    using Cons.prems s by simp_all
  note IH = Cons.IH [OF rest(1,2)]
  show ?case
  proof (cases "twin_player_by_id r i")
    case None
    then have "r1 = r" "n1 = n" using s by (simp_all add: pay_ranked_missing)
    then show ?thesis using IH None by (simp split: option.splits)
  next
    case (Some p)
    have "twin_player_by_id r1 j = (if j = i then Some (paid (nextPlace r) p) else twin_player_by_id r j)" for j
      using Some twin_player_by_idD [OF Some] pay_ranked_found(1) [OF Some s] by (intro by_id_upd) auto
    then show ?thesis using IH Some pay_ranked_found(3) [OF Some s] rest(3)
      by (auto split: option.splits)
  qed
qed (simp split: option.splits)


section \<open>The ranking\<close>

text \<open>The ranked players are the ones who found it, each once, the fastest first.\<close>

lemma insert_by_refines:
  assumes "\<And>a b. le a b \<Longrightarrow> f a \<le> (f b :: int)" and "\<And>a b. \<not> le a b \<Longrightarrow> f b \<le> f a" and "sorted (map f ys)"
  shows "sorted (map f (insert_by le x ys))"
  using assms(3)
proof (induction ys)
  case (Cons y ys)
  show ?case
  proof (cases "le x y")
    case True
    then show ?thesis using Cons.prems assms(1) [of x y] by (auto intro: order_trans)
  next
    case False
    then show ?thesis using Cons assms(2) [of x y] by auto
  qed
qed simp

lemma sort_by_refines:
  assumes "\<And>a b. le a b \<Longrightarrow> f a \<le> (f b :: int)" and "\<And>a b. \<not> le a b \<Longrightarrow> f b \<le> f a"
  shows "sorted (map f (sort_by le xs))"
  by (induction xs) (simp_all add: sort_by_def insert_by_refines [of le f, OF assms])

lemma landed_entries_sorted: "sorted (map (\<lambda>e. the (he_elapsedMs e)) (landed_entries lc es))"
  unfolding landed_entries_def
  by (rule sort_by_refines) (auto simp: heat_compare_def cmp_or_def split: if_splits)

lemma set_landed_entries: "set (landed_entries lc es) = {e \<in> set es. he_elapsedMs e \<noteq> None}"
  by (auto simp: landed_entries_def)

lemma distinct_ranked:
  assumes "distinct (map he_playerId es)"
  shows "distinct (ho_ranked (twinHeatOutcome lc es))"
proof -
  have "mset (ho_ranked (twinHeatOutcome lc es)) = mset (map he_playerId (filter (\<lambda>e. he_elapsedMs e \<noteq> None) es))"
    by (simp add: twinHeatOutcome_def landed_entries_def Let_def)
  moreover have "distinct (map he_playerId (filter (\<lambda>e. he_elapsedMs e \<noteq> None) es))"
    using assms by (rule distinct_map_filter)
  ultimately show ?thesis using mset_eq_imp_distinct_iff by blast
qed

abbreviation outcome_of :: "heat_state \<Rightarrow> twin_room \<Rightarrow> heat_outcome" where
  "outcome_of h r \<equiv> twinHeatOutcome (locale_compare r) (heat_entries h r)"

definition entry_of :: "heat_state \<Rightarrow> twin_player \<Rightarrow> heat_entry" where
  "entry_of h p =
     \<lparr>he_playerId = pid p, he_elapsedMs = (if heatId p = Some (ht_id h) then landedMs p else None),
      he_misses = (if heatId p = Some (ht_id h) then heatMisses p else 0)\<rparr>"

lemma heat_entries_eq: "heat_entries h r = map (entry_of h) (activePlayers r)"
  by (simp add: heat_entries_def entry_of_def [abs_def])

lemma entry_of_fields [simp]:
  "he_playerId (entry_of h p) = pid p" "he_elapsedMs (entry_of h p) \<noteq> None \<longleftrightarrow> landed_in h p"
  "landed_in h p \<Longrightarrow> he_elapsedMs (entry_of h p) = landedMs p"
  by (auto simp: entry_of_def landed_in_def)

lemma set_landed: "set (landed_entries lc (heat_entries h r)) = entry_of h ` {p \<in> set (activePlayers r). landed_in h p}"
proof -
  have "{e \<in> entry_of h ` A. he_elapsedMs e \<noteq> None} = entry_of h ` {p \<in> A. landed_in h p}" for A
    using entry_of_fields(2) [of h] by blast
  then show ?thesis by (simp only: set_landed_entries heat_entries_eq set_map)
qed

lemma ranked_ids: "set (ho_ranked (outcome_of h r)) = pid ` {p \<in> set (activePlayers r). landed_in h p}"
  by (simp add: twinHeatOutcome_def Let_def set_landed image_image)

lemma distinct_outcome:
  assumes "distinct (map pid (tw_players r))"
  shows "distinct (ho_ranked (outcome_of h r))"
proof (rule distinct_ranked)
  show "distinct (map he_playerId (heat_entries h r))"
    using distinct_map_filter [OF assms] by (simp add: heat_entries_eq activePlayers_def comp_def)
qed

lemma active_by_id:
  assumes "distinct (map pid (tw_players r))" and "p \<in> set (activePlayers r)"
  shows "twin_player_by_id r (pid p) = Some p"
proof -
  have "p \<in> set (tw_players r)" using assms(2) by (simp add: activePlayers_def)
  then have "find (\<lambda>q. pid q = pid p) ps = Some p" if "distinct (map pid ps)" "p \<in> set ps" for ps
    using that by (induction ps) (auto simp: image_iff)
  then show ?thesis using assms by (simp add: twin_player_by_id_def activePlayers_def)
qed

lemma ranked_iff:
  assumes "distinct (map pid (tw_players r))" and "p \<in> set (activePlayers r)"
  shows "pid p \<in> set (ho_ranked (outcome_of h r)) \<longleftrightarrow> landed_in h p"
proof -
  have "q = p" if "q \<in> set (activePlayers r)" "pid q = pid p" for q
    using active_by_id [OF assms] active_by_id [OF assms(1) that(1)] that(2) by simp
  then show ?thesis using assms(2) by (auto simp: ranked_ids image_iff)
qed

lemma winner_is_fastest:
  assumes "distinct (map pid (tw_players r))" and "ho_winnerPlayerId (outcome_of h r) = Some w"
  shows "\<exists>q\<in>set (activePlayers r). pid q = w \<and> landed_in h q \<and>
           (\<forall>p\<in>set (activePlayers r). landed_in h p \<longrightarrow> the (landedMs q) \<le> the (landedMs p))"
proof -
  obtain e es where l: "landed_entries (locale_compare r) (heat_entries h r) = e # es" "he_playerId e = w"
    using assms(2) by (auto simp: twinHeatOutcome_def Let_def split: list.splits)
  then have "e \<in> entry_of h ` {p \<in> set (activePlayers r). landed_in h p}"
    unfolding set_landed [of "locale_compare r", symmetric] by simp
  then obtain q where q: "q \<in> set (activePlayers r)" "landed_in h q" "e = entry_of h q" by blast
  have "the (landedMs q) \<le> the (landedMs p)" if p: "p \<in> set (activePlayers r)" "landed_in h p" for p
  proof -
    have "entry_of h p \<in> set (e # es)"
      using p unfolding l(1) [symmetric] set_landed by blast
    then have "the (he_elapsedMs e) \<le> the (he_elapsedMs (entry_of h p))"
      using landed_entries_sorted [of "locale_compare r" "heat_entries h r"] unfolding l(1) by auto
    then show ?thesis using p q by simp
  qed
  moreover have "pid q = w" using l(2) q(3) by simp
  ultimately show ?thesis using q by blast
qed

lemma burned_iff: "ho_burned (outcome_of h r) \<longleftrightarrow> (\<forall>p\<in>set (activePlayers r). \<not> landed_in h p)"
proof -
  have "ho_burned (outcome_of h r) \<longleftrightarrow> set (ho_ranked (outcome_of h r)) = {}"
    by (simp add: twinHeatOutcome_def Let_def)
  then show ?thesis by (auto simp: ranked_ids)
qed

lemma no_winner_iff: "ho_winnerPlayerId (outcome_of h r) = None \<longleftrightarrow> ho_burned (outcome_of h r)"
  by (auto simp: twinHeatOutcome_def Let_def split: list.splits)

section \<open>The payout\<close>

text \<open>What a settled room is made of.\<close>

lemma settled_room:
  assumes "heat r = Some h" and "ht_results h = []" and "settleHeat now r = (r', entry)"
  shows "\<exists>r1 conns n. foldl (pay_ranked (outcome_of h r) h) (r, [], ht_middle h) (ho_ranked (outcome_of h r)) = (r1, conns, n) \<and>
     tw_players r' = map (on_active ((if ho_burned (outcome_of h r) then rotate_hand else id) \<circ>
       break_chain (outcome_of h r))) (tw_players r1) \<and>
     middle r' = Some n \<and> tw_phase r' = TwinSettle \<and> nextPlace r' = nextPlace r1"
proof -
  obtain r1 conns n where pay: "foldl (pay_ranked (outcome_of h r) h) (r, [], ht_middle h) (ho_ranked (outcome_of h r)) = (r1, conns, n)"
    by (metis prod_cases3)
  have "on_active f (on_active (break_chain oc) p) = on_active (f \<circ> break_chain oc) p" for f oc p
    by (simp add: on_active_def)
  then show ?thesis using assms pay
    by (auto simp: settleHeat_def Let_def comp_def on_active_def intro!: exI [of _ r1])
qed

definition after_heat :: "bool \<Rightarrow> heat_state \<Rightarrow> twin_player \<Rightarrow> twin_player \<Rightarrow> bool" where
  "after_heat burned h p q \<longleftrightarrow>
     \<not> withdrawn q \<and> connections q = connections p + (if landed_in h p then 1 else 0) \<and>
     chain q = (if landed_in h p then Suc (chain p) else 0) \<and>
     hand q = (if landed_in h p then tl (hand p) else if burned then rotate1 (hand p) else hand p)"

lemma rotate_hand_rotate1: "hand (rotate_hand p) = rotate1 (hand p)"
proof (cases "hand p")
  case (Cons c cs)
  then show ?thesis by (cases cs) (simp_all add: rotate_hand_def)
qed (simp add: rotate_hand_def)

lemma rotate_hand_counts [simp]:
  "connections (rotate_hand p) = connections p" "chain (rotate_hand p) = chain p" "place (rotate_hand p) = place p"
  by (simp_all add: rotate_hand_def)

lemma break_chain_counts [simp]:
  "connections (break_chain oc p) = connections p" "place (break_chain oc p) = place p"
  "chain (break_chain oc p) = (if pid p \<in> set (ho_ranked oc) then chain p else 0)"
  by (simp_all add: break_chain_def)

lemma payout_seat:
  assumes d: "distinct (map pid (tw_players r))" and h: "heat r = Some h" "ht_results h = []"
    and s: "settleHeat now r = (r', entry)" and p: "p \<in> set (activePlayers r)"
  shows "\<exists>q. twin_player_by_id r' (pid p) = Some q \<and> after_heat (ho_burned (outcome_of h r)) h p q"
proof -
  let ?oc = "outcome_of h r"
  let ?f = "on_active ((if ho_burned ?oc then rotate_hand else id) \<circ> break_chain ?oc)"
  obtain r1 conns n where pay: "foldl (pay_ranked ?oc h) (r, [], ht_middle h) (ho_ranked ?oc) = (r1, conns, n)"
    and ps: "tw_players r' = map ?f (tw_players r1)" using settled_room [OF h s] by blast
  obtain k where k: "twin_player_by_id r1 (pid p) = Some (if landed_in h p then paid k p else p)"
    using pay_seats [OF pay distinct_outcome [OF d] active_by_id [OF d p]] unfolding ranked_iff [OF d p] by blast
  have "twin_player_by_id r' (pid p) = Some (?f (if landed_in h p then paid k p else p))"
    using by_id_map [OF _ ps, of "pid p"] k by (simp add: on_active_def)
  moreover have "\<not> withdrawn p" using p by (simp add: activePlayers_def)
  moreover have "ho_burned ?oc \<Longrightarrow> \<not> landed_in h p" using p by (simp add: burned_iff)
  moreover have "landed_in h p \<Longrightarrow> pid p \<in> set (ho_ranked ?oc)" "\<not> landed_in h p \<Longrightarrow> pid p \<notin> set (ho_ranked ?oc)"
    using ranked_iff [OF d p] by blast+
  ultimately show ?thesis
    by (auto simp: after_heat_def on_active_def rotate_hand_rotate1)
qed

lemma payout_middle:
  assumes d: "distinct (map pid (tw_players r))" and h: "heat r = Some h" "ht_results h = []"
    and s: "settleHeat now r = (r', entry)"
  shows "if ho_burned (outcome_of h r) then middle r' = Some (ht_middle h)
         else \<exists>w\<in>set (activePlayers r). landed_in h w \<and> middle r' = Some (nullish (top_card w) (ht_middle h)) \<and>
                (\<forall>p\<in>set (activePlayers r). landed_in h p \<longrightarrow> the (landedMs w) \<le> the (landedMs p))"
proof -
  let ?oc = "outcome_of h r"
  obtain r1 conns n where pay: "foldl (pay_ranked ?oc h) (r, [], ht_middle h) (ho_ranked ?oc) = (r1, conns, n)"
    and m: "middle r' = Some n" using settled_room [OF h s] by blast
  note n = pay_middle [OF pay distinct_outcome [OF d]]
  show ?thesis
  proof (cases "ho_winnerPlayerId ?oc")
    case None
    then show ?thesis using n m no_winner_iff [of r h] by simp
  next
    case (Some w)
    obtain q where q: "q \<in> set (activePlayers r)" "pid q = w" "landed_in h q"
      and least: "\<forall>p\<in>set (activePlayers r). landed_in h p \<longrightarrow> the (landedMs q) \<le> the (landedMs p)"
      using winner_is_fastest [OF d Some] by blast
    have "w \<in> set (ho_ranked ?oc)" using ranked_iff [OF d q(1)] q by simp
    then have "n = nullish (top_card q) (ht_middle h)" using n Some active_by_id [OF d q(1)] q(2) by simp
    moreover have "\<not> ho_burned ?oc" using Some no_winner_iff [of r h] by auto
    ultimately show ?thesis using q least m by auto
  qed
qed

text \<open>A table for the witnesses: seats with hands and the times found, one heat on.\<close>

definition sample_seat :: "js_string \<Rightarrow> js_string list \<Rightarrow> int option \<Rightarrow> bool \<Rightarrow> twin_player" where
  "sample_seat i cards l gone =
     (twin_newPlayer i i [] 0)\<lparr>hand := map (\<lambda>c. \<lparr>cs_cardId = c, cs_seed = 0\<rparr>) cards, heatId := Some ''h1'',
        landedMs := l, withdrawn := gone\<rparr>"

definition sample_heat :: heat_state where
  "sample_heat =
     \<lparr>ht_id = ''h1'', ht_number = 1, ht_middle = \<lparr>cs_cardId = ''o4c0'', cs_seed = 0\<rparr>, ht_revealAt = 150,
      ht_deadlineAt = 8150, ht_graceEndsAt = Some 3500, ht_resolvedAt = None, ht_settleAt = None,
      ht_nextHeatAt = None, ht_results = [], ht_winnerPlayerId = None, ht_burned = False\<rparr>"

definition sample_table :: "twin_player list \<Rightarrow> twin_room" where
  "sample_table ps =
     (new_twin_room test_services ''ABCDEFG'' ''h'' ''j'' (twin_newPlayer ''a'' ''a'' [] 0) 0
        \<lparr>tci_hostName = ''a'', tci_handSize = Some 3, tci_windowMs = None, tci_graceMs = None,
         tci_settleHoldMs = None, tci_managed = False, tci_officialResultChannelId = None\<rparr>)
       \<lparr>tw_players := ps, tw_phase := TwinHeat, heat := Some sample_heat, middle := Some (ht_middle sample_heat)\<rparr>"

lemma sample_fields [simp]:
  "tw_players (sample_table ps) = ps" "heat (sample_table ps) = Some sample_heat" "ht_results sample_heat = []"
  "ht_id sample_heat = ''h1''" "pid (sample_seat i cards l g) = i" "tw_phase (sample_table ps) = TwinHeat"
  "withdrawn (sample_seat i cards l g) = g" "landedMs (sample_seat i cards l g) = l"
  "heatId (sample_seat i cards l g) = Some ''h1''" "place (sample_seat i cards l g) = None"
  "hand (sample_seat i cards l g) = map (\<lambda>c. \<lparr>cs_cardId = c, cs_seed = 0\<rparr>) cards"
  "nextPlace (sample_table ps) = 1" "landed_in sample_heat (sample_seat i cards l g) \<longleftrightarrow> l \<noteq> None"
  by (simp_all add: sample_table_def sample_heat_def sample_seat_def twin_newPlayer_def landed_in_def
      new_twin_room_def Let_def services.defs)

text \<open>C13. When a heat that has not been paid out is settled, every player who found the symbol
  sheds exactly the top card and gains a connection and a link of the chain; nobody else sheds and
  their chains end. The fastest's card becomes the middle. If nobody found it the middle stays and
  every hand turns over by one card.\<close>

theorem heat_payout:
  assumes "distinct (map pid (tw_players r))" and "heat r = Some h" and "ht_results h = []"
    and "settleHeat now r = (r', entry)" and "p \<in> set (activePlayers r)"
  shows "let burned = (\<forall>q\<in>set (activePlayers r). \<not> landed_in h q) in
    tw_phase r' = TwinSettle \<and>
    (\<exists>q. twin_player_by_id r' (pid p) = Some q \<and> \<not> withdrawn q \<and>
       connections q = connections p + (if landed_in h p then 1 else 0) \<and>
       chain q = (if landed_in h p then Suc (chain p) else 0) \<and>
       hand q = (if landed_in h p then tl (hand p) else if burned then rotate1 (hand p) else hand p)) \<and>
    (if burned then middle r' = Some (ht_middle h)
     else \<exists>w\<in>set (activePlayers r). landed_in h w \<and> middle r' = Some (nullish (top_card w) (ht_middle h)) \<and>
            (\<forall>q\<in>set (activePlayers r). landed_in h q \<longrightarrow> the (landedMs w) \<le> the (landedMs q)))"
  unfolding Let_def burned_iff [symmetric]
  using settled_room [OF assms(2-4)] payout_seat [OF assms] payout_middle [OF assms(1-4)]
  by (auto simp: after_heat_def)

lemma heat_payout_witness:
  "\<exists>r' entry q. settleHeat 4000 (sample_table [sample_seat ''a'' [''o4c1'', ''o4c2''] (Some 900) False,
      sample_seat ''b'' [''o4c3'', ''o4c4''] None False]) = (r', entry) \<and>
     twin_player_by_id r' ''a'' = Some q \<and> map cs_cardId (hand q) = [''o4c2'']"
proof -
  let ?a = "sample_seat ''a'' [''o4c1'', ''o4c2''] (Some 900) False"
  let ?b = "sample_seat ''b'' [''o4c3'', ''o4c4''] None False"
  let ?r = "sample_table [?a, ?b]"
  obtain r' entry where s: "settleHeat 4000 ?r = (r', entry)" by fastforce
  have a: "?a \<in> set (activePlayers ?r)" by (simp add: activePlayers_def)
  obtain q where "twin_player_by_id r' (pid ?a) = Some q" "hand q = tl (hand ?a)"
    using heat_payout [OF _ _ _ s a] by (auto simp: Let_def)
  with s show ?thesis by auto
qed

section \<open>Places\<close>

lemma sorted_places:
  assumes "sorted (map f xs)" and "i < length xs" and "j < length xs" and "f (xs ! i) < (f (xs ! j) :: int)"
  shows "i < j"
proof (rule ccontr)
  assume "\<not> i < j"
  then have "map f xs ! j \<le> map f xs ! i" using assms(1,2) by (intro sorted_nth_mono) simp_all
  then show False using assms by simp
qed

lemma outgoing_entries:
  assumes "distinct (map pid (tw_players r))"
  shows "outgoing r (ho_ranked (outcome_of h r)) = map he_playerId (filter
           (\<lambda>e. case twin_player_by_id r (he_playerId e) of None \<Rightarrow> False | Some p \<Rightarrow> goes_out p)
           (landed_entries (locale_compare r) (heat_entries h r)))"
  by (simp add: outgoing_def twinHeatOutcome_def Let_def filter_map comp_def)

text \<open>Players who empty their hands in the same heat get different
  places, the faster one the better place.\<close>

theorem faster_player_goes_out_first:
  assumes "distinct (map pid (tw_players r))" and "heat r = Some h" and "ht_results h = []"
    and "settleHeat now r = (r', entry)"
    and "p \<in> set (activePlayers r)" and "landed_in h p" and "hand p = [c]" and "place p = None"
    and "q \<in> set (activePlayers r)" and "landed_in h q" and "hand q = [d]" and "place q = None"
    and "the (landedMs p) < the (landedMs q)"
  shows "\<exists>k l. place_of r' (pid p) = Some k \<and> place_of r' (pid q) = Some l \<and>
           nextPlace r \<le> k \<and> k < l \<and> l < nextPlace r'"
proof -
  let ?oc = "outcome_of h r"
  obtain r1 conns n where pay: "foldl (pay_ranked ?oc h) (r, [], ht_middle h) (ho_ranked ?oc) = (r1, conns, n)"
    and ps: "tw_players r' = map (on_active ((if ho_burned ?oc then rotate_hand else id) \<circ> break_chain ?oc)) (tw_players r1)"
    and np: "nextPlace r' = nextPlace r1" using settled_room [OF assms(2-4)] by blast
  have same: "place_of r' i = place_of r1 i" for i
  proof -
    have "twin_player_by_id r' i = map_option (on_active ((if ho_burned ?oc then rotate_hand else id) \<circ> break_chain ?oc))
        (twin_player_by_id r1 i)"
      by (rule by_id_map [OF _ ps]) (simp add: on_active_def)
    then show ?thesis by (cases "twin_player_by_id r1 i") (simp_all add: place_of_def on_active_def)
  qed
  define K where "K = filter (\<lambda>e. case twin_player_by_id r (he_playerId e) of None \<Rightarrow> False | Some p \<Rightarrow> goes_out p)
     (landed_entries (locale_compare r) (heat_entries h r))"
  have places: "map (place_of r') (map he_playerId K) = map Some [nextPlace r..<nextPlace r']"
    using pay_places [OF pay distinct_outcome [OF assms(1)]] outgoing_entries [OF assms(1)]
    by (simp add: same [abs_def] np K_def)
  have K: "entry_of h a \<in> set K" if "a \<in> set (activePlayers r)" "landed_in h a" "hand a = [x]" "place a = None" for a x
    using that active_by_id [OF assms(1) that(1)] by (auto simp: K_def set_landed goes_out_def)
  obtain i where i: "i < length K" "K ! i = entry_of h p" using K [OF assms(5-8)] by (auto simp: in_set_conv_nth)
  obtain j where j: "j < length K" "K ! j = entry_of h q" using K [OF assms(9-12)] by (auto simp: in_set_conv_nth)
  have sorted: "sorted (map (\<lambda>e. the (he_elapsedMs e)) K)"
    unfolding K_def by (rule sorted_filter [OF landed_entries_sorted])
  have "the (he_elapsedMs (K ! i)) < the (he_elapsedMs (K ! j))"
    unfolding i(2) j(2) using assms(6,10,13) by simp
  then have "i < j" using sorted_places [OF sorted i(1) j(1)] by blast
  have len: "length K = nextPlace r' - nextPlace r" using arg_cong [OF places, of length] by simp
  have nth: "place_of r' (he_playerId (K ! m)) = Some (nextPlace r + m)" if "m < length K" for m
    using arg_cong [OF places, of "\<lambda>xs. xs ! m"] that len by simp
  have "place_of r' (pid p) = Some (nextPlace r + i)" "place_of r' (pid q) = Some (nextPlace r + j)"
    using nth [OF i(1)] nth [OF j(1)] unfolding i(2) j(2) by simp_all
  moreover have "nextPlace r + j < nextPlace r'" using j(1) len by simp
  ultimately show ?thesis using \<open>i < j\<close> by simp
qed

lemma faster_player_goes_out_first_witness:
  "\<exists>r' entry k l. settleHeat 4000 (sample_table [sample_seat ''a'' [''o4c1''] (Some 1200) False,
      sample_seat ''b'' [''o4c3''] (Some 900) False]) = (r', entry) \<and>
     place_of r' ''b'' = Some k \<and> place_of r' ''a'' = Some l \<and> k < l"
proof -
  let ?a = "sample_seat ''a'' [''o4c1''] (Some 1200) False"
  let ?b = "sample_seat ''b'' [''o4c3''] (Some 900) False"
  let ?r = "sample_table [?a, ?b]"
  obtain r' entry where s: "settleHeat 4000 ?r = (r', entry)" by fastforce
  have d: "distinct (map pid (tw_players ?r))" by simp
  have a: "?a \<in> set (activePlayers ?r)" "landed_in sample_heat ?a" "hand ?a = [\<lparr>cs_cardId = ''o4c1'', cs_seed = 0\<rparr>]"
    "place ?a = None" by (simp_all add: activePlayers_def)
  have b: "?b \<in> set (activePlayers ?r)" "landed_in sample_heat ?b" "hand ?b = [\<lparr>cs_cardId = ''o4c3'', cs_seed = 0\<rparr>]"
    "place ?b = None" by (simp_all add: activePlayers_def)
  have "the (landedMs ?b) < the (landedMs ?a)" by simp
  from faster_player_goes_out_first [OF d sample_fields(2,3) s b a this]
  show ?thesis using s by auto
qed

end
