(* ===== verification/TwinProgress.thy ===== *)
theory TwinProgress
  imports TwinHeatFacts TwinSamples
begin

text \<open>
  How a heat ends: reads alone move a heat on, and a player who found the symbol and leaves ends it
  for the others.
\<close>

section \<open>Closing and settling\<close>

lemma close_heat_closed: "heat r = Some h \<Longrightarrow> ht_resolvedAt h \<noteq> None \<Longrightarrow> close_heat now r = r"
  by (auto simp: close_heat_def)

lemma close_heat_closes:
  assumes "heat r = Some h" and "ht_resolvedAt h = None" and "ht_revealAt h \<le> now"
    and "twinHeatShouldClose \<lparr>hp_deadlineAt = ht_deadlineAt h, hp_graceEndsAt = ht_graceEndsAt h,
           hp_contenders = contenders r now, hp_landed = landed_count h r\<rparr> now"
  shows "close_heat now r = twin_changed (r\<lparr>heat := Some (h\<lparr>ht_resolvedAt := Some now, ht_settleAt := Some (now + 600)\<rparr>)\<rparr>)"
  using assms by (simp add: close_heat_def TWIN_TIMING_def)

lemma heat_due_closes:
  assumes "tw_phase r = TwinHeat" and "heat r = Some h" and "ht_resolvedAt h = None" and "ht_revealAt h \<le> now"
    and "twinHeatShouldClose \<lparr>hp_deadlineAt = ht_deadlineAt h, hp_graceEndsAt = ht_graceEndsAt h,
           hp_contenders = contenders r now, hp_landed = landed_count h r\<rparr> now"
  shows "heat_due now r =
     (twin_changed (r\<lparr>heat := Some (h\<lparr>ht_resolvedAt := Some now, ht_settleAt := Some (now + 600)\<rparr>)\<rparr>), [])"
  using assms(1,2) by (simp add: heat_due_def close_heat_closes [OF assms(2-5)] settle_due_def Let_def)

lemma heat_due_settles:
  assumes "tw_phase r = TwinHeat" and "heat r = Some h" and "ht_resolvedAt h \<noteq> None"
    and "ht_settleAt h = Some s" and "s \<le> now" and "settleHeat now r = (r', entry)"
  shows "\<exists>es. heat_due now r = (r', es)"
  using assms by (auto simp: heat_due_def close_heat_closed settle_due_def Let_def)

lemma pay_heatCount:
  "foldl (pay_ranked outcome h) (r, conns, n) is = (r', conns', n') \<Longrightarrow> heatCount r' = heatCount r"
proof (induction "is" arbitrary: r conns n)
  case (Cons i "is")
  obtain r1 c1 n1 where s: "pay_ranked outcome h (r, conns, n) i = (r1, c1, n1)" by (metis prod_cases3)
  then have "heatCount r1 = heatCount r"
    by (auto simp: pay_ranked_def upd_twin_def Let_def split: option.splits if_splits)
  then show ?case using Cons s by simp
qed simp

text \<open>What settling does to the clock.\<close>

lemma settle_clock:
  assumes "heat r = Some h" and "ht_results h = []" and "settleHeat now r = (r', entry)"
    and "distinct (map pid (tw_players r))"
  shows "tw_phase r' = TwinSettle \<and> heatCount r' = heatCount r \<and>
         (\<exists>h'. heat r' = Some h' \<and> ht_nextHeatAt h' = Some (now + settleHoldMs r) \<and>
               ht_burned h' = ho_burned (outcome_of h r))"
proof -
  let ?oc = "outcome_of h r"
  obtain r1 conns n where pay: "foldl (pay_ranked ?oc h) (r, [], ht_middle h) (ho_ranked ?oc) = (r1, conns, n)"
    by (metis prod_cases3)
  have "\<forall>i\<in>set (ho_ranked ?oc). \<forall>p\<in>set (tw_players r). pid p = i \<longrightarrow> \<not> withdrawn p"
    using ranked_active [OF assms(4)] by blast
  then have "settleHoldMs r1 = settleHoldMs r" "heatCount r1 = heatCount r"
    using pay_all [OF pay] pay_heatCount [OF pay] by simp_all
  then show ?thesis using assms(1-3) pay by (auto simp: settleHeat_def Let_def)
qed

lemma startHeat_clock:
  "startHeat now r = Some r' \<Longrightarrow> tw_phase r' = TwinHeat \<and> heatCount r' = Suc (heatCount r)"
  by (auto simp: startHeat_def randomUUID_def Let_def split: option.splits)

section \<open>Reads move a heat on\<close>

text \<open>C34. Three reads finish an overdue heat with no action of anyone: the first one past
  the deadline closes it, one at least 600 ms later pays it out, and one after the hold starts the
  next heat or, when somebody is out of cards, ends the game.\<close>

theorem heat_moves_on:
  assumes "twin_reachable r" and "tw_phase r = TwinHeat" and "heat r = Some h" and "ht_results h = []"
    and "ht_resolvedAt h = None" and "ht_revealAt h \<le> t1" and "ht_deadlineAt h \<le> t1"
    and "t1 + 600 \<le> t2" and "0 \<le> t2" and "0 < settleHoldMs r" and "t2 + settleHoldMs r \<le> t3"
  shows "\<exists>r1 e1 r2 e2 r3 e3.
     twin_advance t1 r = Some (r1, e1) \<and> tw_phase r1 = TwinHeat \<and>
     twin_advance t2 r1 = Some (r2, e2) \<and> tw_phase r2 = TwinSettle \<and>
     twin_advance t3 r2 = Some (r3, e3) \<and>
     (if \<exists>p\<in>set (activePlayers r2). hand p = [] then tw_phase r3 = TwinFinished
      else tw_phase r3 = TwinHeat \<and> heatCount r3 = Suc (heatCount r))"
proof -
  let ?h1 = "h\<lparr>ht_resolvedAt := Some t1, ht_settleAt := Some (t1 + 600)\<rparr>"
  define r1 where "r1 = twin_changed (r\<lparr>heat := Some ?h1\<rparr>)"
  have ok: "twin_ok r" using assms(1) by (rule twin_reachable_ok)
  then have d: "distinct (map pid (tw_players r))" by (simp add: twin_ok_def seats_fine_def)
  have due1: "heat_due t1 r = (r1, [])"
    unfolding r1_def by (rule heat_due_closes [OF assms(2,3,5,6)]) (use assms(7) in \<open>simp add: twinHeatShouldClose_def\<close>)
  have r1: "tw_phase r1 = TwinHeat" "heat r1 = Some ?h1" "tw_players r1 = tw_players r"
    "settleHoldMs r1 = settleHoldMs r" "heatCount r1 = heatCount r"
    using assms(2) by (simp_all add: r1_def)
  have adv1: "twin_advance t1 r = Some (r1, [])"
    using assms(2) due1 r1 by (simp add: twin_advance_def begin_due_def next_or_finish_def)
  have ok1: "twin_ok r1" using twin_advance_ok [OF ok, of t1] adv1 by simp
  obtain r2 entry where s: "settleHeat t2 r1 = (r2, entry)" by fastforce
  obtain es where due2: "heat_due t2 r1 = (r2, es)"
    using heat_due_settles [OF r1(1,2) _ _ assms(8) s] by auto
  obtain h2 where r2: "tw_phase r2 = TwinSettle" "heatCount r2 = heatCount r" "heat r2 = Some h2"
    "ht_nextHeatAt h2 = Some (t2 + settleHoldMs r)"
    using settle_clock [OF r1(2) _ s] d r1 assms(4) by auto
  have adv2: "twin_advance t2 r1 = Some (r2, es)"
    using r1(1) due2 r2 assms(10) by (simp add: twin_advance_def begin_due_def next_or_finish_def next_due_def)
  have ok2: "twin_ok r2" using twin_advance_ok [OF ok1, of t2] adv2 by simp
  have due3: "next_due t3 r2" using r2 assms(9-11) by (simp add: next_due_def)
  have adv3: "twin_advance t3 r2 = map_option (\<lambda>r3. (r3, [])) (next_or_finish t3 r2)"
    using r2 by (simp add: twin_advance_def begin_due_def heat_due_def)
  have "\<exists>r3. next_or_finish t3 r2 = Some r3 \<and>
     (if \<exists>p\<in>set (activePlayers r2). hand p = [] then tw_phase r3 = TwinFinished
      else tw_phase r3 = TwinHeat \<and> heatCount r3 = Suc (heatCount r))"
  proof (cases "\<exists>p\<in>set (activePlayers r2). hand p = []")
    case True
    then show ?thesis using r2(1) due3 by (simp add: next_or_finish_def list_ex_iff)
  next
    case False
    obtain r3 where "startHeat t3 r2 = Some r3"
      using startHeat_ok [OF ok2, of t3] r2(1) by (auto simp: playing_def)
    then show ?thesis using False r2(1,2) due3 startHeat_clock [of t3 r2 r3]
      by (auto simp: next_or_finish_def list_ex_iff)
  qed
  then obtain r3 where "next_or_finish t3 r2 = Some r3"
    "if \<exists>p\<in>set (activePlayers r2). hand p = [] then tw_phase r3 = TwinFinished
      else tw_phase r3 = TwinHeat \<and> heatCount r3 = Suc (heatCount r)" by blast
  then show ?thesis using adv1 adv2 adv3 r1(1) r2(1) by auto
qed

lemma heat_moves_on_witness:
  "\<exists>r1 e1 r2 e2. twin_advance 12000 heat_room = Some (r1, e1) \<and> twin_advance 13000 r1 = Some (r2, e2) \<and>
     tw_phase r2 = TwinSettle"
proof -
  obtain h where h: "heat heat_room = Some h" "ht_results h = []" "ht_resolvedAt h = None"
    "ht_revealAt h = 3150" "ht_deadlineAt h = 11150" using heat_room_clock by blast
  have hold: "settleHoldMs heat_room = 1650" and ph: "tw_phase heat_room = TwinHeat"
    using heat_room_clock heat_room_seats by blast+
  have "ht_revealAt h \<le> 12000" "ht_deadlineAt h \<le> 12000" "(12000 :: int) + 600 \<le> 13000"
    "0 \<le> (13000 :: int)" "0 < settleHoldMs heat_room" "13000 + settleHoldMs heat_room \<le> 15000"
    using h hold by simp_all
  from heat_moves_on [OF heat_reachable ph h(1-3) this] show ?thesis by blast
qed

section \<open>A player who leaves after finding the symbol\<close>

text \<open>A player who found the symbol and left still counts among those who are
  in, but no longer among those who could answer. With as many such players as contenders the next
  read closes the heat, inside the grace the others were given, and 600 ms later it is paid out; when
  none of the others has found it by then the heat is burned, although it was solved.\<close>

theorem leaver_closes_the_heat:
  assumes "distinct (map pid (tw_players r))" and "tw_phase r = TwinHeat" and "heat r = Some h"
    and "ht_results h = []" and "ht_resolvedAt h = None" and "ht_revealAt h \<le> now"
    and "now + 600 < ht_deadlineAt h" and "ht_graceEndsAt h = Some g" and "now + 600 < g"
    and "\<forall>p\<in>set (activePlayers r). \<not> landed_in h p"
    and "0 < contenders r now"
    and "contenders r now \<le> length (filter (\<lambda>p. withdrawn p \<and> landed_in h p) (tw_players r))"
  shows "\<exists>r1 r2 es h2. heat_due now r = (r1, []) \<and> heat_due (now + 600) r1 = (r2, es) \<and>
     tw_phase r2 = TwinSettle \<and> heat r2 = Some h2 \<and> ht_burned h2"
proof -
  let ?h1 = "h\<lparr>ht_resolvedAt := Some now, ht_settleAt := Some (now + 600)\<rparr>"
  define r1 where "r1 = twin_changed (r\<lparr>heat := Some ?h1\<rparr>)"
  have "length (filter (\<lambda>p. withdrawn p \<and> landed_in h p) ps) \<le> length (filter (landed_in h) ps)" for ps
    by (induction ps) auto
  then have "contenders r now \<le> landed_count h r"
    using assms(12) unfolding landed_count_def landed_in_def [symmetric] by (rule le_trans [rotated])
  then have due1: "heat_due now r = (r1, [])"
    unfolding r1_def by (intro heat_due_closes [OF assms(2,3,5,6)]) (use assms(11) in \<open>simp add: twinHeatShouldClose_def\<close>)
  have r1: "tw_phase r1 = TwinHeat" "heat r1 = Some ?h1" "tw_players r1 = tw_players r"
    using assms(2) by (simp_all add: r1_def)
  obtain r2 entry where s: "settleHeat (now + 600) r1 = (r2, entry)" by fastforce
  obtain es where due2: "heat_due (now + 600) r1 = (r2, es)"
    using heat_due_settles [OF r1(1,2) _ _ order_refl s] by auto
  have "landed_in ?h1 p = landed_in h p" for p by (simp add: landed_in_def)
  then have "ho_burned (outcome_of ?h1 r1)"
    using assms(10) by (simp add: burned_iff activePlayers_def r1(3))
  then show ?thesis using settle_clock [OF r1(2) _ s] assms(1,4) r1(3) due1 due2 by auto
qed

lemma leaver_closes_the_heat_witness:
  "\<exists>r1 r2 es h2. heat_due 2000 (sample_table [sample_seat ''a'' [''o4c1'', ''o4c2''] (Some 900) True,
        sample_seat ''b'' [''o4c3'', ''o4c4''] None False]) = (r1, []) \<and>
     heat_due 2600 r1 = (r2, es) \<and> heat r2 = Some h2 \<and> ht_burned h2"
proof -
  let ?r = "sample_table [sample_seat ''a'' [''o4c1'', ''o4c2''] (Some 900) True,
      sample_seat ''b'' [''o4c3'', ''o4c4''] None False]"
  have c: "contenders ?r 2000 = 1"
    by (simp add: contenders_def connectedPlayers_def activePlayers_def twin_connected_def TWIN_CONNECTED_WINDOW_MS_def)
      (simp add: sample_seat_def twin_newPlayer_def)
  have "\<exists>r1 r2 es h2. heat_due 2000 ?r = (r1, []) \<and> heat_due (2000 + 600) r1 = (r2, es) \<and>
     tw_phase r2 = TwinSettle \<and> heat r2 = Some h2 \<and> ht_burned h2"
    by (rule leaver_closes_the_heat [of _ sample_heat _ 3500])
      (simp_all only: c, simp_all add: activePlayers_def, simp_all add: sample_heat_def)
  then show ?thesis by auto
qed

end
