(* ===== verification/Json.thy ===== *)
theory Json
  imports Prelude
begin

text \<open>
  Values of type \<^verbatim>\<open>unknown\<close> that come out of \<^verbatim>\<open>JSON.parse\<close>, and the tests the sources make on them
  before they trust one.
\<close>

text \<open>
  A JavaScript number where only integers are used: \<^verbatim>\<open>None\<close> is every number that is not an integer,
  so that \<^verbatim>\<open>Number.isInteger(x)\<close> is \<^verbatim>\<open>x \<noteq> None\<close>.
\<close>

type_synonym js_number = "int option"

datatype json =
  JNull
| JBool bool
| JNumber js_number
| JString js_string
| JArray "json list"
| JObject "(js_string \<times> json) list"

text \<open>\<^verbatim>\<open>"key" in value\<close>, and the value under the key; an array has none of the keys asked for.\<close>

definition json_field :: "js_string \<Rightarrow> json \<Rightarrow> json option" where
  "json_field k v = (case v of JObject fields \<Rightarrow> map_of fields k | _ \<Rightarrow> None)"

text \<open>\<^verbatim>\<open>typeof value === "string"\<close> with the string.\<close>

definition json_string :: "json \<Rightarrow> js_string option" where
  "json_string v = (case v of JString s \<Rightarrow> Some s | _ \<Rightarrow> None)"

definition json_number :: "json \<Rightarrow> js_number option" where
  "json_number v = (case v of JNumber n \<Rightarrow> Some n | _ \<Rightarrow> None)"

text \<open>\<^verbatim>\<open>Array.isArray(value)\<close> with the elements.\<close>

definition json_array :: "json \<Rightarrow> json list option" where
  "json_array v = (case v of JArray vs \<Rightarrow> Some vs | _ \<Rightarrow> None)"

lemma json_simps [simp]:
  "json_field k (JObject fields) = map_of fields k" "json_string (JString s) = Some s"
  "json_number (JNumber n) = Some n" "json_array (JArray vs) = Some vs"
  by (simp_all add: json_field_def json_string_def json_number_def json_array_def)

text \<open>\<^verbatim>\<open>xs.map(f)\<close> that stops at the first refused element.\<close>

fun map_while_some :: "('a \<Rightarrow> 'b option) \<Rightarrow> 'a list \<Rightarrow> 'b list option" where
  "map_while_some f [] = Some []"
| "map_while_some f (x # xs) =
     (case f x of None \<Rightarrow> None | Some y \<Rightarrow> map_option (\<lambda>ys. y # ys) (map_while_some f xs))"

lemma map_while_some_all: "(\<And>x. x \<in> set xs \<Longrightarrow> f (g x) = Some x) \<Longrightarrow> map_while_some f (map g xs) = Some xs"
  by (induction xs) auto

end
