(* ===== verification/PairsRules.thy ===== *)
theory PairsRules
  imports TwinDeck Json
begin

text \<open>
  The card game "Pairs" on one device (\<^verbatim>\<open>features/things/pairs/pairs-rules.ts\<close>): the layout, the turn
  of one action, the winners, and the journal a reload replays. \<^verbatim>\<open>Inl\<close> is a thrown error. An action
  that the source answers with the very same game object is \<^verbatim>\<open>None\<close>.
\<close>

section \<open>State\<close>

datatype pairs_suit = Spades | Hearts | Clubs | Diamonds

record pairs_card =
  card_rank :: js_string
  card_suit :: pairs_suit

definition PAIRS_SIZES :: "nat list" where
  "PAIRS_SIZES = [3, 6, 10]"

definition PAIRS_RANKS :: "js_string list" where
  "PAIRS_RANKS = [''A'', ''K'', ''Q'', ''J'', ''10'', ''9'', ''8'', ''7'', ''6'', ''5'']"

datatype pairs_action = PairsFlip js_number | PairsContinue | PairsUndo | PairsSkip

datatype pairs_phase = PairsPlaying | PairsReview | PairsFinished

datatype pairs_outcome = PairsMatch | PairsMiss

record pairs_turn =
  matched :: "nat list"
  selected :: "nat list"
  scores :: "nat list"
  turn :: nat
  tries :: nat
  pairs_phase :: pairs_phase
  outcome :: "pairs_outcome option"

record pairs_game = pairs_turn +
  pairs_cards :: "pairs_card list"
  pairs_names :: "js_string list"
  previous :: "pairs_turn option"

section \<open>The layout\<close>

text \<open>One step of the generator; the state is a number the bit operators read modulo \<^verbatim>\<open>2^32\<close>.\<close>

definition pairs_random :: "32 word \<Rightarrow> 32 word \<times> 32 word" where
  "pairs_random randomState =
     (let randomState' = randomState + 0x6d2b79f5;
          value1 = (randomState' XOR drop_bit 15 randomState') * (1 OR randomState');
          value2 = value1 XOR (value1 + (value1 XOR drop_bit 7 value1) * (61 OR value1))
      in (value2 XOR drop_bit 14 value2, randomState'))"

definition pairs_pick :: "32 word \<Rightarrow> nat \<Rightarrow> nat \<times> 32 word" where
  "pairs_pick randomState n = (let (value, randomState') = pairs_random randomState in (scale_draw value n, randomState'))"

definition pair_of_rank :: "nat \<times> js_string \<Rightarrow> pairs_card list" where
  "pair_of_rank = (\<lambda>(index, rank).
     [\<lparr>card_rank = rank, card_suit = (if index mod 2 = 0 then Spades else Clubs)\<rparr>,
      \<lparr>card_rank = rank, card_suit = (if index mod 2 = 0 then Hearts else Diamonds)\<rparr>])"

definition sorted_cards :: "nat \<Rightarrow> pairs_card list" where
  "sorted_cards pairCount = concat (map pair_of_rank (enumerate 0 (take pairCount PAIRS_RANKS)))"

definition createPairsGame :: "js_number \<Rightarrow> nat \<Rightarrow> js_string list \<Rightarrow> js_string + pairs_game" where
  "createPairsGame seed pairCount names =
     (case seed of
        None \<Rightarrow> Inl ''Invalid shuffle''
      | Some s \<Rightarrow>
          (if s < 0 \<or> 4294967295 < s then Inl ''Invalid shuffle''
           else if pairCount \<notin> set PAIRS_SIZES \<or> length names < 1 \<or> 6 < length names
           then Inl ''Choose a table size and one to six players''
           else
           let trimmed = map js_trim names in
           if list_ex (\<lambda>name. name = [] \<or> 24 < length name) trimmed \<or> \<not> distinct (map to_lower trimmed)
           then Inl ''Give each player a different name''
           else Inr \<lparr>matched = [], selected = [], scores = map (\<lambda>_. 0) trimmed, turn = 0, tries = 0,
                     pairs_phase = PairsPlaying, outcome = None,
                     pairs_cards = fst (shuffle pairs_pick (sorted_cards pairCount) (word_of_int s)),
                     pairs_names = trimmed, previous = None\<rparr>))"

section \<open>Actions\<close>

definition checkpoint :: "pairs_game \<Rightarrow> pairs_turn" where
  "checkpoint g =
     \<lparr>matched = matched g, selected = [], scores = scores g, turn = turn g, tries = tries g,
      pairs_phase = PairsPlaying, outcome = None\<rparr>"

text \<open>\<^verbatim>\<open>{ ...game, ...previous }\<close>.\<close>

definition with_turn :: "pairs_turn \<Rightarrow> pairs_game \<Rightarrow> pairs_game" where
  "with_turn t g = pairs_turn.extend t (pairs_turn.more g)"

definition next_turn :: "pairs_game \<Rightarrow> nat" where
  "next_turn g = (turn g + 1) mod length (pairs_names g)"

definition pairs_undo :: "pairs_game \<Rightarrow> pairs_game option" where
  "pairs_undo g = map_option (\<lambda>t. (with_turn t g)\<lparr>previous := None\<rparr>) (previous g)"

definition pairs_continue :: "pairs_game \<Rightarrow> pairs_game option" where
  "pairs_continue g =
     (if pairs_phase g \<noteq> PairsReview then None
      else Some (g\<lparr>turn := (if outcome g = Some PairsMiss then next_turn g else turn g), selected := [],
                   pairs_phase := (if length (matched g) = length (pairs_cards g) then PairsFinished else PairsPlaying),
                   outcome := None\<rparr>))"

definition pairs_skip :: "pairs_game \<Rightarrow> pairs_game option" where
  "pairs_skip g =
     (if pairs_phase g \<noteq> PairsPlaying \<or> length (pairs_names g) = 1 then None
      else Some (g\<lparr>previous := Some (checkpoint g), selected := [], turn := next_turn g\<rparr>))"

text \<open>\<^verbatim>\<open>game.cards[index]\<close> of an index that names a card.\<close>

definition flippable :: "pairs_game \<Rightarrow> js_number \<Rightarrow> nat option" where
  "flippable g index =
     (case index of
        None \<Rightarrow> None
      | Some i \<Rightarrow>
          (if 0 \<le> i \<and> nat i < length (pairs_cards g) \<and> nat i \<notin> set (selected g) \<and> nat i \<notin> set (matched g)
           then Some (nat i) else None))"

definition same_rank :: "pairs_game \<Rightarrow> nat \<Rightarrow> nat \<Rightarrow> bool" where
  "same_rank g i j \<longleftrightarrow> card_rank (pairs_cards g ! i) = card_rank (pairs_cards g ! j)"

definition award :: "bool \<Rightarrow> nat \<Rightarrow> nat list \<Rightarrow> nat list" where
  "award m t xs = map (\<lambda>(index, score). score + (if m \<and> index = t then 1 else 0)) (enumerate 0 xs)"

definition pairs_flip :: "js_number \<Rightarrow> pairs_game \<Rightarrow> pairs_game option" where
  "pairs_flip index g =
     (if pairs_phase g \<noteq> PairsPlaying then None
      else case flippable g index of
        None \<Rightarrow> None
      | Some i \<Rightarrow>
          (let sel = selected g @ [i];
               prev = (if selected g = [] then Some (checkpoint g) else previous g) in
           if length sel = 1 then Some (g\<lparr>selected := sel, previous := prev\<rparr>)
           else
           let m = same_rank g (sel ! 0) (sel ! 1) in
           Some (g\<lparr>previous := prev, selected := sel, tries := tries g + 1, pairs_phase := PairsReview,
                   outcome := Some (if m then PairsMatch else PairsMiss),
                   matched := (if m then matched g @ sel else matched g),
                   scores := award m (turn g) (scores g)\<rparr>)))"

definition applyPairsAction :: "pairs_game \<Rightarrow> pairs_action \<Rightarrow> pairs_game option" where
  "applyPairsAction g a =
     (case a of
        PairsUndo \<Rightarrow> pairs_undo g
      | PairsContinue \<Rightarrow> pairs_continue g
      | PairsSkip \<Rightarrow> pairs_skip g
      | PairsFlip index \<Rightarrow> pairs_flip index g)"

definition pairsWinners :: "pairs_game \<Rightarrow> js_string list" where
  "pairsWinners g =
     map snd (filter (\<lambda>(index, name). scores g ! index = Max (set (scores g))) (enumerate 0 (pairs_names g)))"

section \<open>The journal\<close>

record pairs_record =
  pr_seed :: int
  pr_pairCount :: nat
  pr_names :: "js_string list"
  pr_actions :: "pairs_action list"

definition parseAction :: "json \<Rightarrow> pairs_action option" where
  "parseAction v =
     (case json_field ''type'' v of
        Some (JString t) \<Rightarrow>
          (case (if t = ''flip'' then json_field ''index'' v else None) of
             Some (JNumber (Some i)) \<Rightarrow> (if 0 \<le> i \<and> i < 20 then Some (PairsFlip (Some i)) else None)
           | _ \<Rightarrow> (if t = ''continue'' then Some PairsContinue
                   else if t = ''undo'' then Some PairsUndo
                   else if t = ''skip'' then Some PairsSkip else None))
      | _ \<Rightarrow> None)"

text \<open>The replay: every action must parse and change the game.\<close>

fun replay_actions :: "pairs_game \<Rightarrow> json list \<Rightarrow> (pairs_action list \<times> pairs_game) option" where
  "replay_actions g [] = Some ([], g)"
| "replay_actions g (raw # rest) =
     (case parseAction raw of
        None \<Rightarrow> None
      | Some a \<Rightarrow> (case applyPairsAction g a of
                    None \<Rightarrow> None
                  | Some g' \<Rightarrow> map_option (\<lambda>(as, g''). (a # as, g'')) (replay_actions g' rest)))"

definition parse_size :: "json \<Rightarrow> nat option" where
  "parse_size v = (case v of JNumber (Some i) \<Rightarrow> (if i = 3 \<or> i = 6 \<or> i = 10 then Some (nat i) else None) | _ \<Rightarrow> None)"

definition restorePairsRecord :: "json \<Rightarrow> (pairs_record \<times> pairs_game) option" where
  "restorePairsRecord v =
     (if json_field ''version'' v \<noteq> Some (JNumber (Some 1)) then None
      else
      Option.bind (Option.bind (json_field ''seed'' v) json_number) (\<lambda>seed.
      Option.bind (Option.bind (json_field ''pairCount'' v) parse_size) (\<lambda>pairCount.
      Option.bind (Option.bind (json_field ''names'' v) json_array) (\<lambda>rawNames.
      Option.bind (Option.bind (json_field ''actions'' v) json_array) (\<lambda>rawActions.
      if 4000 < length rawActions then None
      else
      Option.bind (map_while_some json_string rawNames) (\<lambda>names.
      case createPairsGame seed pairCount names of
        Inl _ \<Rightarrow> None
      | Inr g \<Rightarrow>
          map_option (\<lambda>(as, g'). (\<lparr>pr_seed = the seed, pr_pairCount = pairCount, pr_names = names, pr_actions = as\<rparr>, g'))
            (replay_actions g rawActions)))))))"

end
