(* ===== verification/PairsFacts.thy ===== *)
theory PairsFacts
  imports PairsRules
begin

text \<open>
  What holds of every game of Pairs that the rules can reach: the accounts add up, the game can always
  be finished, an undo takes back one try, and a journal replays to the very game it was written in.
\<close>

section \<open>Playing\<close>

fun play_pairs :: "pairs_game \<Rightarrow> pairs_action list \<Rightarrow> pairs_game option" where
  "play_pairs g [] = Some g"
| "play_pairs g (a # as) = Option.bind (applyPairsAction g a) (\<lambda>g'. play_pairs g' as)"

lemma play_append: "play_pairs g (as @ bs) = Option.bind (play_pairs g as) (\<lambda>g'. play_pairs g' bs)"
  by (induction "as" arbitrary: g) (auto split: bind_splits)

text \<open>The generator is that of Twin, written in another order.\<close>

lemma pairs_random_eq: "pairs_random = twin_random"
  by (rule ext) (simp add: pairs_random_def twin_random_def Let_def xor.commute)

lemma pairs_pick_eq: "pairs_pick = twin_pick"
  by (intro ext) (simp add: pairs_pick_def twin_pick_def pairs_random_eq)

interpretation pairs_source: random_source pairs_pick
  unfolding pairs_pick_eq by (rule seeded.random_source_axioms)

section \<open>Every rank twice\<close>

definition ranks_twice :: "pairs_card list \<Rightarrow> bool" where
  "ranks_twice cs \<longleftrightarrow> (\<forall>r\<in>set (map card_rank cs). count_list (map card_rank cs) r = 2)"

lemma ranks_twice_mset:
  assumes "mset cs = mset ds"
  shows "ranks_twice cs = ranks_twice ds"
proof -
  have e: "mset (map card_rank cs) = mset (map card_rank ds)" using assms by simp
  have "count_list (map card_rank cs) r = count_list (map card_rank ds) r" for r
    using arg_cong [OF e, of "\<lambda>m. count m r"] by (simp only: count_mset)
  then show ?thesis unfolding ranks_twice_def mset_eq_setD [OF e] by simp
qed

lemma sorted_cards_ranks: "n \<in> set PAIRS_SIZES \<Longrightarrow> ranks_twice (sorted_cards n)"
proof -
  have "list_all (\<lambda>n. list_all (\<lambda>r. count_list (map card_rank (sorted_cards n)) r = 2)
      (map card_rank (sorted_cards n))) PAIRS_SIZES"
    by code_simp
  moreover assume "n \<in> set PAIRS_SIZES"
  ultimately show ?thesis unfolding ranks_twice_def list_all_iff by blast
qed

lemma partner_exists:
  assumes "ranks_twice cs" and "i < length cs"
  shows "\<exists>j<length cs. j \<noteq> i \<and> (\<forall>k<length cs. card_rank (cs ! k) = card_rank (cs ! i) \<longleftrightarrow> k = i \<or> k = j)"
proof -
  let ?K = "{k. k < length cs \<and> card_rank (cs ! k) = card_rank (cs ! i)}"
  have "length (filter ((=) (card_rank (cs ! i))) (map card_rank cs)) = 2"
    using assms unfolding ranks_twice_def count_list_eq_length_filter by simp
  moreover have "filter ((=) (card_rank (cs ! i))) (map card_rank cs) =
      map card_rank (filter (\<lambda>c. card_rank c = card_rank (cs ! i)) cs)"
    by (simp add: filter_map comp_def eq_commute)
  ultimately have "length (filter (\<lambda>c. card_rank c = card_rank (cs ! i)) cs) = 2" by simp
  then have "card ?K = 2" by (simp add: length_filter_conv_card)
  then obtain x y where K: "?K = {x, y}" "x \<noteq> y" by (auto simp: card_2_iff)
  have i: "i \<in> ?K" using assms(2) by simp
  then obtain j where "?K = {i, j}" "j \<noteq> i" using K by (metis doubleton_eq_iff insertE singletonD)
  then show ?thesis by blast
qed

section \<open>The invariant\<close>

text \<open>
  A turn: different cards of the layout, the matched ones with their partners, the points of all
  players the number of matched pairs, and what each phase says about the selection.
\<close>

definition closed_pairs :: "pairs_card list \<Rightarrow> nat list \<Rightarrow> bool" where
  "closed_pairs cs m \<longleftrightarrow> (\<forall>i\<in>set m. \<forall>k<length cs. card_rank (cs ! k) = card_rank (cs ! i) \<longrightarrow> k \<in> set m)"

definition phase_fine :: "nat \<Rightarrow> nat list \<Rightarrow> nat list \<Rightarrow> pairs_phase \<Rightarrow> pairs_outcome option \<Rightarrow> bool" where
  "phase_fine n m s ph out \<longleftrightarrow>
     (case ph of
        PairsPlaying \<Rightarrow> length s \<le> 1 \<and> set s \<inter> set m = {} \<and> out = None \<and> length m < n
      | PairsReview \<Rightarrow> length s = 2 \<and> out \<noteq> None
      | PairsFinished \<Rightarrow> s = [] \<and> out = None \<and> length m = n)"

definition turn_fine :: "pairs_card list \<Rightarrow> nat \<Rightarrow> 'a pairs_turn_scheme \<Rightarrow> bool" where
  "turn_fine cs n t \<longleftrightarrow>
     distinct (matched t) \<and> set (matched t) \<subseteq> {..<length cs} \<and> closed_pairs cs (matched t) \<and>
     length (scores t) = n \<and> 2 * sum_list (scores t) = length (matched t) \<and> turn t < n \<and>
     distinct (selected t) \<and> set (selected t) \<subseteq> {..<length cs} \<and>
     phase_fine (length cs) (matched t) (selected t) (pairs_phase t) (outcome t)"

definition pairs_ok :: "pairs_game \<Rightarrow> bool" where
  "pairs_ok g \<longleftrightarrow>
     ranks_twice (pairs_cards g) \<and> pairs_names g \<noteq> [] \<and>
     turn_fine (pairs_cards g) (length (pairs_names g)) g \<and>
     (\<forall>t. previous g = Some t \<longrightarrow> turn_fine (pairs_cards g) (length (pairs_names g)) t)"

lemma pairs_ok_length: "ranks_twice cs \<Longrightarrow> cs \<noteq> [] \<Longrightarrow> 2 \<le> length cs"
  using partner_exists [of cs 0] by (cases cs; cases "tl cs") auto

lemma created_pairs_ok:
  assumes "createPairsGame seed n names = Inr g"
  shows "pairs_ok g \<and> mset (pairs_cards g) = mset (sorted_cards n) \<and> pairs_names g = map js_trim names"
proof -
  obtain s where s: "seed = Some s" "n \<in> set PAIRS_SIZES" "names \<noteq> []"
    and g: "g = \<lparr>matched = [], selected = [], scores = map (\<lambda>_. 0) (map js_trim names), turn = 0, tries = 0,
                     pairs_phase = PairsPlaying, outcome = None,
                     pairs_cards = fst (shuffle pairs_pick (sorted_cards n) (word_of_int s)),
                     pairs_names = map js_trim names, previous = None\<rparr>"
    using assms by (auto simp: createPairsGame_def Let_def split: option.splits if_splits)
  have m: "mset (pairs_cards g) = mset (sorted_cards n)" by (simp add: g pairs_source.shuffle_mset)
  then have r: "ranks_twice (pairs_cards g)" using sorted_cards_ranks [OF s(2)] ranks_twice_mset by blast
  have "sorted_cards n \<noteq> []" using s(2) by (auto simp: PAIRS_SIZES_def sorted_cards_def PAIRS_RANKS_def pair_of_rank_def)
  then have "pairs_cards g \<noteq> []" using m by (metis mset_zero_iff)
  moreover have "sum_list (map (\<lambda>_. 0 :: nat) xs) = 0" for xs :: "js_string list" by (induction xs) auto
  ultimately show ?thesis using m r s(3)
    by (auto simp: g pairs_ok_def turn_fine_def closed_pairs_def phase_fine_def comp_def)
qed

lemma checkpoint_fields [simp]:
  "matched (checkpoint g) = matched g" "selected (checkpoint g) = []" "scores (checkpoint g) = scores g"
  "turn (checkpoint g) = turn g" "tries (checkpoint g) = tries g" "pairs_phase (checkpoint g) = PairsPlaying"
  "outcome (checkpoint g) = None"
  by (simp_all add: checkpoint_def)

lemma checkpoint_fine:
  "turn_fine cs n g \<Longrightarrow> pairs_phase g = PairsPlaying \<Longrightarrow> turn_fine cs n (checkpoint g)"
  by (auto simp: turn_fine_def phase_fine_def)

lemma with_turn_fields [simp]:
  "matched (with_turn t g) = matched t" "selected (with_turn t g) = selected t" "scores (with_turn t g) = scores t"
  "turn (with_turn t g) = turn t" "tries (with_turn t g) = tries t" "pairs_phase (with_turn t g) = pairs_phase t"
  "outcome (with_turn t g) = outcome t" "pairs_cards (with_turn t g) = pairs_cards g"
  "pairs_names (with_turn t g) = pairs_names g"
  by (cases t; cases g; simp add: with_turn_def pairs_turn.defs)+

lemma undo_ok: "pairs_ok g \<Longrightarrow> pairs_undo g = Some g' \<Longrightarrow> pairs_ok g'"
  by (auto simp: pairs_undo_def pairs_ok_def turn_fine_def)

lemma next_turn_less: "pairs_ok g \<Longrightarrow> next_turn g < length (pairs_names g)"
  by (simp add: next_turn_def pairs_ok_def)

lemma length_matched_le: "turn_fine cs n t \<Longrightarrow> length (matched t) \<le> length cs"
proof -
  assume t: "turn_fine cs n t"
  then have "card (set (matched t)) \<le> card {..<length cs}" by (intro card_mono) (auto simp: turn_fine_def)
  with t show ?thesis by (simp add: turn_fine_def distinct_card)
qed

lemma continue_ok:
  assumes "pairs_ok g" and "pairs_continue g = Some g'"
  shows "pairs_ok g'"
proof -
  define ended where "ended = (length (matched g) = length (pairs_cards g))"
  define t where "t = (if outcome g = Some PairsMiss then next_turn g else turn g)"
  have g': "g' = g\<lparr>turn := t, selected := [], pairs_phase := (if ended then PairsFinished else PairsPlaying),
      outcome := None\<rparr>" using assms(2) by (simp add: pairs_continue_def ended_def t_def split: if_splits)
  have g: "turn_fine (pairs_cards g) (length (pairs_names g)) g" using assms(1) by (simp add: pairs_ok_def)
  then have "t < length (pairs_names g)" using next_turn_less [OF assms(1)] by (simp add: t_def turn_fine_def)
  then have "turn_fine (pairs_cards g) (length (pairs_names g)) g'"
    using g length_matched_le [OF g] by (cases "ended") (simp_all add: turn_fine_def phase_fine_def g' ended_def)
  then show ?thesis using assms(1) by (simp add: pairs_ok_def g')
qed

lemma skip_ok:
  assumes "pairs_ok g" and "pairs_skip g = Some g'"
  shows "pairs_ok g'"
proof -
  have g': "g' = g\<lparr>previous := Some (checkpoint g), selected := [], turn := next_turn g\<rparr>"
    and p: "pairs_phase g = PairsPlaying" using assms(2) by (simp_all add: pairs_skip_def split: if_splits)
  have g: "turn_fine (pairs_cards g) (length (pairs_names g)) g" using assms(1) by (simp add: pairs_ok_def)
  then have "turn_fine (pairs_cards g) (length (pairs_names g)) g'"
    using next_turn_less [OF assms(1)] p by (simp add: turn_fine_def phase_fine_def g')
  then show ?thesis using assms(1) checkpoint_fine [OF g p] by (simp add: pairs_ok_def g')
qed

text \<open>One point for the player whose turn it is.\<close>

lemma award_False [simp]: "award False t xs = xs"
  by (simp add: award_def case_prod_beta')

lemma length_award [simp]: "length (award m t xs) = length xs"
  by (simp add: award_def)

lemma sum_award: "t < length xs \<Longrightarrow> sum_list (award True t xs) = Suc (sum_list xs)"
proof -
  assume t: "t < length xs"
  have "award True t xs = xs[t := Suc (xs ! t)]"
    using t by (intro nth_equalityI) (auto simp: award_def nth_enumerate_eq nth_list_update)
  then show ?thesis using t by (simp add: sum_list_update)
qed

lemma flippable_Some:
  "flippable g index = Some i \<longleftrightarrow> index = Some (int i) \<and> i < length (pairs_cards g) \<and> i \<notin> set (selected g) \<and> i \<notin> set (matched g)"
  by (auto simp: flippable_def split: option.splits)

text \<open>A flip is a first card or the second one.\<close>

lemma pairs_flip_cases:
  assumes "pairs_flip index g = Some g'" and "pairs_ok g"
  obtains (first) i where "flippable g index = Some i" "selected g = []" "pairs_phase g = PairsPlaying"
      "g' = g\<lparr>selected := [i], previous := Some (checkpoint g)\<rparr>"
  | (second) i j where "flippable g index = Some j" "selected g = [i]" "pairs_phase g = PairsPlaying"
      "g' = g\<lparr>selected := [i, j], tries := tries g + 1, pairs_phase := PairsReview,
              outcome := Some (if same_rank g i j then PairsMatch else PairsMiss),
              matched := (if same_rank g i j then matched g @ [i, j] else matched g),
              scores := award (same_rank g i j) (turn g) (scores g)\<rparr>"
proof -
  obtain k where k: "pairs_phase g = PairsPlaying" "flippable g index = Some k"
    using assms(1) by (auto simp: pairs_flip_def split: if_splits option.splits)
  then have "length (selected g) \<le> 1" using assms(2) by (simp add: pairs_ok_def turn_fine_def phase_fine_def)
  then consider "selected g = []" | i where "selected g = [i]" by (cases "selected g") auto
  then show thesis
  proof cases
    case 1
    then show thesis using assms(1) k by (intro first) (auto simp: pairs_flip_def)
  next
    case (2 i)
    then show thesis using assms(1) k by (intro second) (auto simp: pairs_flip_def Let_def)
  qed
qed

lemma closed_match:
  assumes "ranks_twice cs" and "closed_pairs cs m" and "i < length cs" and "j < length cs" and "i \<noteq> j"
    and "card_rank (cs ! i) = card_rank (cs ! j)"
  shows "closed_pairs cs (m @ [i, j])"
proof -
  obtain p where "\<forall>k<length cs. card_rank (cs ! k) = card_rank (cs ! i) \<longleftrightarrow> k = i \<or> k = p"
    using partner_exists [OF assms(1,3)] by blast
  then have "\<forall>k<length cs. card_rank (cs ! k) = card_rank (cs ! i) \<longleftrightarrow> k = i \<or> k = j"
    using assms(4-6) by metis
  then show ?thesis using assms(2,6) by (auto simp: closed_pairs_def)
qed

lemma flip_ok:
  assumes "pairs_ok g" and "pairs_flip index g = Some g'"
  shows "pairs_ok g'"
  using assms(2,1)
proof (cases rule: pairs_flip_cases)
  case (first i)
  then show ?thesis
    using assms(1) checkpoint_fine [of "pairs_cards g" "length (pairs_names g)" g]
    by (auto simp: pairs_ok_def turn_fine_def phase_fine_def flippable_Some)
next
  case (second i j)
  have g: "turn_fine (pairs_cards g) (length (pairs_names g)) g" "ranks_twice (pairs_cards g)"
    using assms(1) by (simp_all add: pairs_ok_def)
  have ij: "i < length (pairs_cards g)" "j < length (pairs_cards g)" "i \<noteq> j" "i \<notin> set (matched g)" "j \<notin> set (matched g)"
    using g second by (auto simp: turn_fine_def phase_fine_def flippable_Some)
  have t: "turn g < length (scores g)" using g by (simp add: turn_fine_def)
  have "turn_fine (pairs_cards g) (length (pairs_names g)) g'"
  proof (cases "same_rank g i j")
    case True
    then have "closed_pairs (pairs_cards g) (matched g @ [i, j])"
      using g ij by (intro closed_match) (simp_all add: turn_fine_def same_rank_def)
    then show ?thesis using g ij True sum_award [OF t]
      by (simp add: second turn_fine_def phase_fine_def)
  next
    case False
    then show ?thesis using g ij by (simp add: second turn_fine_def phase_fine_def)
  qed
  then show ?thesis using assms(1) by (simp add: pairs_ok_def second)
qed

lemma apply_pairs_ok: "pairs_ok g \<Longrightarrow> applyPairsAction g a = Some g' \<Longrightarrow> pairs_ok g'"
  by (cases a) (auto simp: applyPairsAction_def intro: undo_ok continue_ok skip_ok flip_ok)

lemma play_ok: "pairs_ok g \<Longrightarrow> play_pairs g as = Some g' \<Longrightarrow> pairs_ok g'"
  by (induction "as" arbitrary: g) (auto split: bind_splits intro: apply_pairs_ok)

text \<open>No action touches the layout or the names.\<close>

lemma apply_frame:
  "applyPairsAction g a = Some g' \<Longrightarrow> pairs_cards g' = pairs_cards g \<and> pairs_names g' = pairs_names g"
  by (cases a)
    (auto simp: applyPairsAction_def pairs_undo_def pairs_continue_def pairs_skip_def pairs_flip_def Let_def
      split: if_splits option.splits)

lemma play_frame:
  "play_pairs g as = Some g' \<Longrightarrow> pairs_cards g' = pairs_cards g \<and> pairs_names g' = pairs_names g"
  by (induction "as" arbitrary: g) (auto split: bind_splits dest: apply_frame)

section \<open>A sample game\<close>

text \<open>Shuffle 7 of the small table, for two players, and the game after the kings have been found.\<close>

definition sample_pairs :: pairs_game where
  "sample_pairs =
     \<lparr>matched = [], selected = [], scores = [0, 0], turn = 0, tries = 0, pairs_phase = PairsPlaying, outcome = None,
      pairs_cards =
        [\<lparr>card_rank = ''Q'', card_suit = Spades\<rparr>, \<lparr>card_rank = ''A'', card_suit = Hearts\<rparr>,
         \<lparr>card_rank = ''K'', card_suit = Clubs\<rparr>, \<lparr>card_rank = ''K'', card_suit = Diamonds\<rparr>,
         \<lparr>card_rank = ''Q'', card_suit = Hearts\<rparr>, \<lparr>card_rank = ''A'', card_suit = Spades\<rparr>],
      pairs_names = [''Ada'', ''Bo''], previous = None\<rparr>"

definition sample_opening :: "pairs_action list" where
  "sample_opening = [PairsFlip (Some 2), PairsFlip (Some 3), PairsContinue]"

definition sample_kings :: pairs_game where
  "sample_kings =
     sample_pairs\<lparr>matched := [2, 3], scores := [1, 0], tries := 1, previous := Some (checkpoint sample_pairs)\<rparr>"

lemma sample_pairs_created: "createPairsGame (Some 7) 3 ['' Ada'', ''Bo''] = Inr sample_pairs"
  by code_simp

lemma sample_pairs_played: "play_pairs sample_pairs sample_opening = Some sample_kings"
  by code_simp

section \<open>The end of a game\<close>

lemma finished_scores:
  assumes "pairs_ok g" and "pairs_phase g = PairsFinished"
  shows "2 * sum_list (scores g) = length (pairs_cards g)"
  using assms by (simp add: pairs_ok_def turn_fine_def phase_fine_def)

lemma finished_matched:
  assumes "pairs_ok g" and "pairs_phase g = PairsFinished"
  shows "length (matched g) = length (pairs_cards g)"
  using assms by (simp add: pairs_ok_def turn_fine_def phase_fine_def)

lemma winner_exists:
  assumes "pairs_ok g"
  shows "pairsWinners g \<noteq> []"
proof -
  have l: "length (scores g) = length (pairs_names g)" "scores g \<noteq> []"
    using assms by (auto simp: pairs_ok_def turn_fine_def)
  have "Max (set (scores g)) \<in> set (scores g)" using l(2) by (intro Max_in) auto
  then obtain i where "i < length (scores g)" "scores g ! i = Max (set (scores g))" by (auto simp: in_set_conv_nth)
  then have "(i, pairs_names g ! i) \<in> set (filter (\<lambda>(index, name). scores g ! index = Max (set (scores g)))
      (enumerate 0 (pairs_names g)))"
    using l(1) by (auto simp: in_set_enumerate_eq)
  then show ?thesis unfolding pairsWinners_def by (metis length_map length_pos_if_in_set list.size(3) not_less0)
qed

text \<open>From any game a pair is still to be found, and finding it leaves fewer.\<close>

lemma flip_card:
  assumes "pairs_phase g = PairsPlaying" and "selected g = []" and "i < length (pairs_cards g)" and "i \<notin> set (matched g)"
  shows "applyPairsAction g (PairsFlip (Some (int i))) = Some (g\<lparr>selected := [i], previous := Some (checkpoint g)\<rparr>)"
  using assms by (simp add: applyPairsAction_def pairs_flip_def flippable_def)

lemma flip_partner:
  assumes "pairs_phase g = PairsPlaying" and "selected g = [i]" and "j < length (pairs_cards g)" and "j \<noteq> i"
    and "j \<notin> set (matched g)" and "same_rank g i j"
  shows "\<exists>g'. applyPairsAction g (PairsFlip (Some (int j))) = Some g' \<and> pairs_phase g' = PairsReview \<and>
           length (matched g') = Suc (Suc (length (matched g)))"
  using assms by (auto simp: applyPairsAction_def pairs_flip_def flippable_def Let_def)

lemma finish_selected:
  assumes ok: "pairs_ok g" and ph: "pairs_phase g = PairsPlaying" and sel: "selected g = [i]"
  shows "\<exists>j g'. applyPairsAction g (PairsFlip (Some (int j))) = Some g' \<and> pairs_phase g' = PairsReview \<and>
           length (matched g) < length (matched g')"
proof -
  have g: "turn_fine (pairs_cards g) (length (pairs_names g)) g" "ranks_twice (pairs_cards g)"
    using ok by (simp_all add: pairs_ok_def)
  have i: "i < length (pairs_cards g)" "i \<notin> set (matched g)" "closed_pairs (pairs_cards g) (matched g)"
    using g ph sel by (simp_all add: turn_fine_def phase_fine_def)
  obtain j where j: "j < length (pairs_cards g)" "j \<noteq> i" "card_rank (pairs_cards g ! j) = card_rank (pairs_cards g ! i)"
    using partner_exists [OF g(2) i(1)] by blast
  have "j \<notin> set (matched g)" using i j unfolding closed_pairs_def by metis
  then show ?thesis using flip_partner [OF ph sel j(1,2)] j(3) by (fastforce simp: same_rank_def)
qed

lemma finish_playing:
  assumes ok: "pairs_ok g" and ph: "pairs_phase g = PairsPlaying"
  shows "\<exists>as g'. play_pairs g as = Some g' \<and> pairs_phase g' = PairsReview \<and> length (matched g) < length (matched g')"
proof -
  have g: "turn_fine (pairs_cards g) (length (pairs_names g)) g" using ok by (simp add: pairs_ok_def)
  then have "length (selected g) \<le> 1" using ph by (simp add: turn_fine_def phase_fine_def)
  then consider "selected g = []" | i where "selected g = [i]" by (cases "selected g") auto
  then show ?thesis
  proof cases
    case (2 i)
    obtain j g' where "applyPairsAction g (PairsFlip (Some (int j))) = Some g'" "pairs_phase g' = PairsReview"
      "length (matched g) < length (matched g')" using finish_selected [OF ok ph 2] by blast
    then show ?thesis by (intro exI [of _ "[PairsFlip (Some (int j))]"]) simp
  next
    case 1
    have "distinct (matched g)" "set (matched g) \<subseteq> {..<length (pairs_cards g)}" "length (matched g) < length (pairs_cards g)"
      using g ph by (simp_all add: turn_fine_def phase_fine_def)
    then have "set (matched g) \<noteq> {..<length (pairs_cards g)}" by (metis card_lessThan distinct_card less_irrefl)
    then obtain i where i: "i < length (pairs_cards g)" "i \<notin> set (matched g)"
      using \<open>set (matched g) \<subseteq> {..<length (pairs_cards g)}\<close> by blast
    define g1 where "g1 = g\<lparr>selected := [i], previous := Some (checkpoint g)\<rparr>"
    have a: "applyPairsAction g (PairsFlip (Some (int i))) = Some g1"
      unfolding g1_def by (rule flip_card [OF ph 1 i])
    have "pairs_phase g1 = PairsPlaying" "selected g1 = [i]" "matched g1 = matched g" using ph by (simp_all add: g1_def)
    then obtain j g' where "applyPairsAction g1 (PairsFlip (Some (int j))) = Some g'" "pairs_phase g' = PairsReview"
      "length (matched g) < length (matched g')" using finish_selected [OF apply_pairs_ok [OF ok a]] by metis
    then show ?thesis using a
      by (intro exI [of _ "[PairsFlip (Some (int i)), PairsFlip (Some (int j))]"]) simp
  qed
qed

lemma continue_review:
  assumes "pairs_phase g = PairsReview"
  shows "\<exists>g'. applyPairsAction g PairsContinue = Some g' \<and> matched g' = matched g \<and>
           (pairs_phase g' = PairsFinished \<or> pairs_phase g' = PairsPlaying)"
  using assms by (auto simp: applyPairsAction_def pairs_continue_def)

lemma can_finish:
  assumes "pairs_ok g"
  shows "\<exists>as g'. play_pairs g as = Some g' \<and> pairs_phase g' = PairsFinished"
  using assms
proof (induction "length (pairs_cards g) - length (matched g)" arbitrary: g rule: less_induct)
  case less
  have from_playing: "\<exists>as g'. play_pairs g1 as = Some g' \<and> pairs_phase g' = PairsFinished"
    if ok1: "pairs_ok g1" and ph1: "pairs_phase g1 = PairsPlaying" and same: "pairs_cards g1 = pairs_cards g"
      and m: "length (matched g) \<le> length (matched g1)" for g1
  proof -
    obtain as g2 where g2: "play_pairs g1 as = Some g2" "pairs_phase g2 = PairsReview"
      "length (matched g1) < length (matched g2)" using finish_playing [OF ok1 ph1] by blast
    obtain g3 where g3: "applyPairsAction g2 PairsContinue = Some g3" "matched g3 = matched g2"
      "pairs_phase g3 = PairsFinished \<or> pairs_phase g3 = PairsPlaying" using continue_review [OF g2(2)] by blast
    have ok3: "pairs_ok g3" using apply_pairs_ok [OF play_ok [OF ok1 g2(1)] g3(1)] .
    have c3: "pairs_cards g3 = pairs_cards g" using play_frame [OF g2(1)] apply_frame [OF g3(1)] same by simp
    have "length (matched g3) \<le> length (pairs_cards g)"
      using ok3 length_matched_le [of "pairs_cards g3" "length (pairs_names g3)" g3] by (simp add: pairs_ok_def c3)
    then have "\<exists>bs g'. play_pairs g3 bs = Some g' \<and> pairs_phase g' = PairsFinished"
      using less.hyps [of g3] ok3 c3 g2(3) g3(2) m by simp
    then obtain bs g' where "play_pairs g3 bs = Some g'" "pairs_phase g' = PairsFinished" by blast
    then show ?thesis using g2(1) g3(1) by (intro exI [of _ "as @ PairsContinue # bs"]) (simp add: play_append)
  qed
  show ?case
  proof (cases "pairs_phase g")
    case PairsPlaying
    then show ?thesis using from_playing [of g] less.prems by simp
  next
    case PairsFinished
    then show ?thesis by (intro exI [of _ "[]"]) simp
  next
    case PairsReview
    obtain g1 where g1: "applyPairsAction g PairsContinue = Some g1" "matched g1 = matched g"
      "pairs_phase g1 = PairsFinished \<or> pairs_phase g1 = PairsPlaying" using continue_review [OF PairsReview] by blast
    have "\<exists>as g'. play_pairs g1 as = Some g' \<and> pairs_phase g' = PairsFinished"
    proof (cases "pairs_phase g1 = PairsPlaying")
      case True
      then show ?thesis
        using from_playing [of g1] apply_pairs_ok [OF less.prems g1(1)] apply_frame [OF g1(1)] g1(2) by simp
    qed (use g1(3) in \<open>auto intro: exI [of _ "[]"]\<close>)
    then obtain as g' where "play_pairs g1 as = Some g'" "pairs_phase g' = PairsFinished" by blast
    then show ?thesis using g1(1) by (intro exI [of _ "PairsContinue # as"]) simp
  qed
qed

text \<open>C26. Whatever has been played since a game was created, undos and skips
  included, some further actions finish it; then every card is matched, the points are as many as
  the pairs, and there is a winner.\<close>

theorem pairs_game_can_be_finished:
  assumes "createPairsGame seed n names = Inr g0" and "play_pairs g0 as = Some g"
  shows "\<exists>bs g'. play_pairs g bs = Some g' \<and> pairs_phase g' = PairsFinished \<and>
           sum_list (scores g') = n \<and> length (matched g') = 2 * n \<and> pairsWinners g' \<noteq> []"
proof -
  have n: "n \<in> set PAIRS_SIZES" using assms(1) by (auto simp: createPairsGame_def Let_def split: option.splits if_splits)
  have c: "pairs_ok g0" "mset (pairs_cards g0) = mset (sorted_cards n)" using created_pairs_ok [OF assms(1)] by blast+
  have ok: "pairs_ok g" using play_ok [OF c(1) assms(2)] .
  obtain bs g' where g': "play_pairs g bs = Some g'" "pairs_phase g' = PairsFinished" using can_finish [OF ok] by blast
  have ok': "pairs_ok g'" using play_ok [OF ok g'(1)] .
  have "length (sorted_cards n) = 2 * n"
    using n by (auto simp: PAIRS_SIZES_def sorted_cards_def PAIRS_RANKS_def pair_of_rank_def)
  moreover have "pairs_cards g' = pairs_cards g0" using play_frame [OF g'(1)] play_frame [OF assms(2)] by simp
  ultimately have l: "length (pairs_cards g') = 2 * n" using c(2) mset_eq_length by metis
  have "sum_list (scores g') = n" using finished_scores [OF ok' g'(2)] l by linarith
  moreover have "length (matched g') = 2 * n" using finished_matched [OF ok' g'(2)] l by (rule trans)
  ultimately show ?thesis using g' winner_exists [OF ok'] by (intro exI [of _ bs] exI [of _ g'] conjI)
qed

theorem pairs_game_can_be_finished_witness:
  "\<exists>bs g'. play_pairs sample_kings bs = Some g' \<and> pairs_phase g' = PairsFinished \<and>
     sum_list (scores g') = 3 \<and> length (matched g') = 2 * 3 \<and> pairsWinners g' \<noteq> []"
  by (rule pairs_game_can_be_finished [OF sample_pairs_created sample_pairs_played])

section \<open>Taking back a try\<close>

text \<open>Once two cards have been turned, whatever they were and whether or
  not the review is over, an undo gives back the game in which they were face down, with nothing
  further to undo.\<close>

theorem pairs_undo_takes_back_a_try:
  assumes "createPairsGame seed n names = Inr g0" and "play_pairs g0 as = Some g"
    and "pairs_phase g = PairsPlaying" and "selected g = []"
    and "play_pairs g [PairsFlip i, PairsFlip j] = Some g1"
    and "g2 = g1 \<or> applyPairsAction g1 PairsContinue = Some g2"
  shows "applyPairsAction g2 PairsUndo = Some (g\<lparr>previous := None\<rparr>)"
proof -
  have ok: "pairs_ok g" using play_ok assms(2) created_pairs_ok [OF assms(1)] by blast
  have out: "outcome g = None" using ok assms(3) by (simp add: pairs_ok_def turn_fine_def phase_fine_def)
  obtain ga where ga: "pairs_flip i g = Some ga" "pairs_flip j ga = Some g1"
    using assms(5) by (auto simp: applyPairsAction_def split: bind_splits)
  obtain k where a: "ga = g\<lparr>selected := [k], previous := Some (checkpoint g)\<rparr>"
    using ga(1) ok assms(4) by (cases rule: pairs_flip_cases) auto
  have g1: "previous g1 = Some (checkpoint g)"
    using ga(2) flip_ok [OF ok ga(1)] by (cases rule: pairs_flip_cases) (auto simp: a)
  have "pairs_cards g1 = pairs_cards g" "pairs_names g1 = pairs_names g" using play_frame [OF assms(5)] by simp_all
  with g1 have g2: "previous g2 = Some (checkpoint g)" "pairs_cards g2 = pairs_cards g" "pairs_names g2 = pairs_names g"
    using assms(6) by (auto simp: applyPairsAction_def pairs_continue_def split: if_splits)
  have "(with_turn (checkpoint g) g2)\<lparr>previous := None\<rparr> = g\<lparr>previous := None\<rparr>"
    by (rule pairs_game.equality) (use g2 assms(3,4) out in simp_all)
  then show ?thesis using g2(1) by (simp add: applyPairsAction_def pairs_undo_def)
qed

definition sample_miss :: pairs_game where
  "sample_miss = sample_kings\<lparr>selected := [0, 1], tries := 2, pairs_phase := PairsReview, outcome := Some PairsMiss,
     previous := Some (checkpoint sample_kings)\<rparr>"

theorem pairs_undo_takes_back_a_try_witness:
  "applyPairsAction (sample_miss\<lparr>turn := 1, selected := [], pairs_phase := PairsPlaying, outcome := None\<rparr>) PairsUndo =
     Some (sample_kings\<lparr>previous := None\<rparr>)"
proof (rule pairs_undo_takes_back_a_try [OF sample_pairs_created sample_pairs_played])
  show "pairs_phase sample_kings = PairsPlaying" by code_simp
  show "selected sample_kings = []" by code_simp
  show "play_pairs sample_kings [PairsFlip (Some 0), PairsFlip (Some 1)] = Some sample_miss" by code_simp
  have "applyPairsAction sample_miss PairsContinue =
      Some (sample_miss\<lparr>turn := 1, selected := [], pairs_phase := PairsPlaying, outcome := None\<rparr>)" by code_simp
  then show "sample_miss\<lparr>turn := 1, selected := [], pairs_phase := PairsPlaying, outcome := None\<rparr> = sample_miss \<or>
      applyPairsAction sample_miss PairsContinue =
        Some (sample_miss\<lparr>turn := 1, selected := [], pairs_phase := PairsPlaying, outcome := None\<rparr>)" by (rule disjI2)
qed

section \<open>The journal\<close>

text \<open>What a record of a game is stored as.\<close>

definition action_json :: "pairs_action \<Rightarrow> json" where
  "action_json a =
     (case a of
        PairsFlip index \<Rightarrow> JObject [(''type'', JString ''flip''), (''index'', JNumber index)]
      | PairsContinue \<Rightarrow> JObject [(''type'', JString ''continue'')]
      | PairsUndo \<Rightarrow> JObject [(''type'', JString ''undo'')]
      | PairsSkip \<Rightarrow> JObject [(''type'', JString ''skip'')])"

definition record_json :: "pairs_record \<Rightarrow> json" where
  "record_json rec =
     JObject [(''version'', JNumber (Some 1)), (''seed'', JNumber (Some (pr_seed rec))),
       (''pairCount'', JNumber (Some (int (pr_pairCount rec)))),
       (''names'', JArray (map JString (pr_names rec))), (''actions'', JArray (map action_json (pr_actions rec)))]"

lemma parse_applied:
  assumes "pairs_ok g" and "length (pairs_cards g) \<le> 20" and "applyPairsAction g a = Some g'"
  shows "parseAction (action_json a) = Some a"
proof (cases a)
  case (PairsFlip index)
  then obtain i where "index = Some (int i)" "i < length (pairs_cards g)"
    using assms(1,3) by (auto simp: applyPairsAction_def flippable_Some elim!: pairs_flip_cases)
  then show ?thesis using PairsFlip assms(2) by (simp add: parseAction_def action_json_def)
qed (simp_all add: parseAction_def action_json_def)

lemma replay_played:
  "pairs_ok g \<Longrightarrow> length (pairs_cards g) \<le> 20 \<Longrightarrow> play_pairs g as = Some g' \<Longrightarrow>
   replay_actions g (map action_json as) = Some (as, g')"
proof (induction "as" arbitrary: g)
  case (Cons a as)
  obtain g1 where g1: "applyPairsAction g a = Some g1" "play_pairs g1 as = Some g'"
    using Cons.prems(3) by (auto split: bind_splits)
  have "replay_actions g1 (map action_json as) = Some (as, g')"
    using Cons.IH [OF apply_pairs_ok [OF Cons.prems(1) g1(1)] _ g1(2)] Cons.prems(2) apply_frame [OF g1(1)] by simp
  then show ?case using g1(1) parse_applied [OF Cons.prems(1,2) g1(1)] by simp
qed simp

text \<open>C35. A journal written while playing, of at most 4000 actions, restores to the
  record it was written from and to the very game that was on the table.\<close>

theorem pairs_journal_restores:
  assumes "createPairsGame (Some seed) n names = Inr g0" and "play_pairs g0 as = Some g" and "length as \<le> 4000"
  shows "restorePairsRecord (record_json \<lparr>pr_seed = seed, pr_pairCount = n, pr_names = names, pr_actions = as\<rparr>) =
           Some (\<lparr>pr_seed = seed, pr_pairCount = n, pr_names = names, pr_actions = as\<rparr>, g)"
proof -
  have n: "n \<in> set PAIRS_SIZES" using assms(1) by (auto simp: createPairsGame_def Let_def split: if_splits)
  have c: "pairs_ok g0" "mset (pairs_cards g0) = mset (sorted_cards n)" using created_pairs_ok [OF assms(1)] by blast+
  have "length (pairs_cards g0) = length (sorted_cards n)" using c(2) by (rule mset_eq_length)
  also have "\<dots> \<le> 20" using n by (auto simp: PAIRS_SIZES_def sorted_cards_def PAIRS_RANKS_def pair_of_rank_def)
  finally have "replay_actions g0 (map action_json as) = Some (as, g)" using replay_played c(1) assms(2) by blast
  moreover have "map_while_some json_string (map JString names) = Some names" by (rule map_while_some_all) simp
  moreover have "parse_size (JNumber (Some (int n))) = Some n" using n by (auto simp: parse_size_def PAIRS_SIZES_def)
  ultimately show ?thesis using assms(1,3) by (simp add: restorePairsRecord_def record_json_def)
qed

theorem pairs_journal_restores_witness:
  "restorePairsRecord
     (record_json \<lparr>pr_seed = 7, pr_pairCount = 3, pr_names = ['' Ada'', ''Bo''], pr_actions = sample_opening\<rparr>) =
     Some (\<lparr>pr_seed = 7, pr_pairCount = 3, pr_names = ['' Ada'', ''Bo''], pr_actions = sample_opening\<rparr>, sample_kings)"
  by (rule pairs_journal_restores [OF sample_pairs_created sample_pairs_played]) (simp add: sample_opening_def)

end
