(* ===== verification/PairsRace.thy ===== *)
theory PairsRace
  imports PairsRules RoomPostgres
begin

text \<open>
  The race of two phones over one layout of Pairs: its rules and what a phone is shown
  (\<^verbatim>\<open>features/things/pairs/pairs-race-rules.ts\<close>), and the room it is kept in
  (\<^verbatim>\<open>pairs-race.server.ts\<close>), which is a row of the durable store.
\<close>

section \<open>State\<close>

record pairs_racer =
  rr_id :: js_string
  rr_name :: js_string
  rr_tokenHash :: js_string
  rr_ready :: bool
  rr_wins :: nat
  rr_game :: "pairs_game option"
  rr_unlockAt :: int

datatype race_phase = RaceLobby | RacePlaying | RaceReveal | RaceFinished

record pairs_race =
  ra_roomId :: js_string
  ra_expiresAt :: int
  ra_pairCount :: nat
  ra_phase :: race_phase
  ra_round :: nat
  ra_players :: "pairs_racer list"
  ra_winnerId :: "js_string option"
  ra_conceded :: bool
  ra_startsAt :: int

datatype race_action =
  RaceReady bool
| RaceBegin
| RaceFlip js_number nat
| RaceConcede

record race_row =
  rw_id :: js_string
  rw_name :: js_string
  rw_ready :: bool
  rw_wins :: nat
  rw_pairs :: nat
  rw_tries :: nat

record race_snapshot =
  rs_roomId :: js_string
  rs_expiresAt :: int
  rs_revision :: nat
  rs_serverNow :: int
  rs_pairCount :: nat
  rs_phase :: race_phase
  rs_round :: nat
  rs_players :: "race_row list"
  rs_playerId :: js_string
  rs_game :: "pairs_game option"
  rs_winnerId :: "js_string option"
  rs_conceded :: bool
  rs_startsAt :: int

definition racer :: "js_string \<Rightarrow> pairs_race \<Rightarrow> pairs_racer option" where
  "racer playerId room = find (\<lambda>p. rr_id p = playerId) (ra_players room)"

definition set_racer :: "js_string \<Rightarrow> (pairs_racer \<Rightarrow> pairs_racer) \<Rightarrow> pairs_race \<Rightarrow> pairs_race" where
  "set_racer playerId f room = room\<lparr>ra_players := upd_first (\<lambda>p. rr_id p = playerId) f (ra_players room)\<rparr>"

definition none_ready :: "pairs_racer list \<Rightarrow> pairs_racer list" where
  "none_ready ps = map (\<lambda>p. p\<lparr>rr_ready := False\<rparr>) ps"

section \<open>The rules\<close>

text \<open>\<^verbatim>\<open>applyPairsAction\<close> returns the same object, \<^verbatim>\<open>None\<close> here, only outside a review.\<close>

definition reviewed :: "int \<Rightarrow> pairs_racer \<Rightarrow> bool" where
  "reviewed now p = (case rr_game p of None \<Rightarrow> False | Some g \<Rightarrow> pairs_phase g = PairsReview \<and> rr_unlockAt p \<le> now)"

definition continued :: "pairs_game \<Rightarrow> pairs_game" where
  "continued g = nullish (applyPairsAction g PairsContinue) g"

definition advancePairsRacer :: "int \<Rightarrow> pairs_racer \<Rightarrow> pairs_racer" where
  "advancePairsRacer now p =
     (if reviewed now p then p\<lparr>rr_game := map_option continued (rr_game p), rr_unlockAt := 0\<rparr> else p)"

fun start_racers :: "int \<Rightarrow> nat \<Rightarrow> bool \<Rightarrow> pairs_racer list \<Rightarrow> js_string + pairs_racer list" where
  "start_racers seed pairCount rematch [] = Inr []"
| "start_racers seed pairCount rematch (p # ps) =
     (case createPairsGame (Some seed) pairCount [rr_name p] of
        Inl e \<Rightarrow> Inl e
      | Inr g \<Rightarrow>
          (case start_racers seed pairCount rematch ps of
             Inl e \<Rightarrow> Inl e
           | Inr ps' \<Rightarrow> Inr (p\<lparr>rr_ready := False, rr_wins := (if rematch then 0 else rr_wins p),
                               rr_game := Some g, rr_unlockAt := 0\<rparr> # ps')))"

definition race_begin :: "int \<Rightarrow> int \<Rightarrow> pairs_race \<Rightarrow> js_string + (pairs_race \<times> js_string option)" where
  "race_begin now seed room =
     (if ra_phase room = RacePlaying then Inr (room, Some ''The round is already playing'')
      else if length (ra_players room) \<noteq> 2 \<or> list_ex (\<lambda>p. \<not> rr_ready p) (ra_players room)
      then Inr (room, Some ''Both players need to be ready'')
      else
      let rematch = (ra_phase room = RaceFinished) in
      case start_racers seed (ra_pairCount room) rematch (ra_players room) of
        Inl e \<Rightarrow> Inl e
      | Inr ps \<Rightarrow>
          Inr (room\<lparr>ra_round := (if rematch then 1 else ra_round room + 1), ra_phase := RacePlaying,
                    ra_winnerId := None, ra_conceded := False, ra_startsAt := now + 3000, ra_players := ps\<rparr>, None))"

definition race_concede :: "pairs_racer \<Rightarrow> pairs_race \<Rightarrow> pairs_race \<times> js_string option" where
  "race_concede p room =
     (if ra_phase room \<noteq> RacePlaying then (room, Some ''There is no live round to concede'')
      else case find (\<lambda>q. rr_id q \<noteq> rr_id p) (ra_players room) of
        None \<Rightarrow> (room, Some ''There is no opponent'')
      | Some opponent \<Rightarrow>
          (room\<lparr>ra_players := none_ready (upd_first (\<lambda>q. rr_id q \<noteq> rr_id p) (\<lambda>q. q\<lparr>rr_wins := 2\<rparr>) (ra_players room)),
                ra_winnerId := Some (rr_id opponent), ra_phase := RaceFinished, ra_conceded := True\<rparr>, None))"

text \<open>The racer after a flip that was accepted.\<close>

definition flipped_racer :: "int \<Rightarrow> pairs_game \<Rightarrow> pairs_racer \<Rightarrow> pairs_racer" where
  "flipped_racer now g p =
     p\<lparr>rr_game := Some g,
       rr_unlockAt := (if pairs_phase g = PairsReview
                       then now + (if outcome g = Some PairsMatch then 1300 else 1400) else rr_unlockAt p)\<rparr>"

definition race_won :: "pairs_racer \<Rightarrow> pairs_race \<Rightarrow> pairs_race" where
  "race_won p room =
     room\<lparr>ra_players := none_ready (ra_players room), ra_winnerId := Some (rr_id p),
          ra_phase := (if rr_wins p = 2 then RaceFinished else RaceReveal)\<rparr>"

definition race_flip ::
  "int \<Rightarrow> js_number \<Rightarrow> nat \<Rightarrow> pairs_racer \<Rightarrow> pairs_race \<Rightarrow> pairs_race \<times> js_string option" where
  "race_flip now index round_no p room =
     (if ra_phase room \<noteq> RacePlaying \<or> round_no \<noteq> ra_round room \<or> rr_game p = None
      then (room, Some ''That round has ended'')
      else if now < ra_startsAt room then (room, Some ''The round is about to start'')
      else
      let p1 = advancePairsRacer now p;
          room1 = set_racer (rr_id p) (\<lambda>_. p1) room in
      case Option.bind (rr_game p1) (\<lambda>g. applyPairsAction g (PairsFlip index)) of
        None \<Rightarrow> (room1, Some ''That card is not available yet'')
      | Some g \<Rightarrow>
          let p2 = flipped_racer now g p1;
              won = (length (matched g) = length (pairs_cards g));
              p3 = (if won then p2\<lparr>rr_wins := rr_wins p2 + 1\<rparr> else p2);
              room3 = set_racer (rr_id p) (\<lambda>_. p3) room1
          in (if won then race_won p3 room3 else room3, None))"

text \<open>\<^verbatim>\<open>Inl\<close> is an error thrown; a refusal comes with the room, which a refused flip may have advanced.\<close>

definition applyPairsRaceAction ::
  "pairs_race \<Rightarrow> js_string \<Rightarrow> race_action \<Rightarrow> int \<Rightarrow> int \<Rightarrow> js_string + (pairs_race \<times> js_string option)" where
  "applyPairsRaceAction room playerId action now seed =
     (case racer playerId room of
        None \<Rightarrow> Inr (room, Some ''This player is no longer here'')
      | Some p \<Rightarrow>
          (case action of
             RaceReady b \<Rightarrow>
               (if ra_phase room = RacePlaying then Inr (room, Some ''The round is already playing'')
                else Inr (set_racer playerId (\<lambda>p. p\<lparr>rr_ready := b\<rparr>) room, None))
           | RaceBegin \<Rightarrow> race_begin now seed room
           | RaceConcede \<Rightarrow> Inr (race_concede p room)
           | RaceFlip index round_no \<Rightarrow> Inr (race_flip now index round_no p room)))"

section \<open>What a phone is shown\<close>

definition masked_cards :: "pairs_game \<Rightarrow> pairs_card list" where
  "masked_cards g =
     map (\<lambda>(index, card). if index \<in> set (selected g) \<or> index \<in> set (matched g) then card
                          else \<lparr>card_rank = [], card_suit = Spades\<rparr>)
       (enumerate 0 (pairs_cards g))"

definition private_game :: "int \<Rightarrow> pairs_racer \<Rightarrow> pairs_game option" where
  "private_game now p =
     map_option (\<lambda>g. let g' = (if reviewed now p then continued g else g)
                     in g'\<lparr>pairs_cards := masked_cards g', previous := None\<rparr>) (rr_game p)"

text \<open>\<^verbatim>\<open>matched.length / 2\<close>: the matched cards are even in number in every game there is.\<close>

definition race_row_of :: "pairs_racer \<Rightarrow> race_row" where
  "race_row_of p =
     \<lparr>rw_id = rr_id p, rw_name = rr_name p, rw_ready = rr_ready p, rw_wins = rr_wins p,
      rw_pairs = (case rr_game p of None \<Rightarrow> 0 | Some g \<Rightarrow> length (matched g) div 2),
      rw_tries = (case rr_game p of None \<Rightarrow> 0 | Some g \<Rightarrow> tries g)\<rparr>"

definition pairsRaceSnapshot :: "pairs_race \<Rightarrow> js_string \<Rightarrow> nat \<Rightarrow> int \<Rightarrow> js_string + race_snapshot" where
  "pairsRaceSnapshot room playerId revision_no now =
     (case racer playerId room of
        None \<Rightarrow> Inl ''Player not found''
      | Some p \<Rightarrow>
          Inr \<lparr>rs_roomId = ra_roomId room, rs_expiresAt = ra_expiresAt room, rs_revision = revision_no,
               rs_serverNow = now, rs_pairCount = ra_pairCount room, rs_phase = ra_phase room,
               rs_round = ra_round room, rs_players = map race_row_of (ra_players room),
               rs_playerId = playerId, rs_game = private_game now p, rs_winnerId = ra_winnerId room,
               rs_conceded = ra_conceded room, rs_startsAt = ra_startsAt room\<rparr>)"

section \<open>The room\<close>

definition RACE_KIND :: js_string where
  "RACE_KIND = ''pairs-race''"

record race_outcome =
  ro_accepted :: bool
  ro_error :: "js_string option"
  ro_snapshot :: "race_snapshot option"

record race_identity =
  ri_roomId :: js_string
  ri_playerId :: js_string
  ri_playerToken :: js_string

record race_command = race_identity +
  ri_actionId :: js_string
  ri_action :: race_action

datatype race_failure = RaceThrew js_string | RaceStoreThrew pg_error

type_synonym race_db = "(pairs_race, race_outcome) pg_db"

text \<open>
  \<^verbatim>\<open>transitionPostgresRoom\<close> with a transition that may throw: it is run only when the room is live and
  there is no receipt, and its error leaves the tables alone.
\<close>

definition attempt_transition ::
  "int \<Rightarrow> room_key \<Rightarrow> pg_action option \<Rightarrow> ('st pg_room \<Rightarrow> js_string + ('st, 'out) pg_transition) \<Rightarrow> ('st, 'out) pg_db \<Rightarrow>
   ('st, 'out) pg_db \<times> (race_failure + 'out pg_committed option)" where
  "attempt_transition clk key action f db =
     (case Option.bind (if stored_receipt key action db = None then readPostgresRoom clk key db else None)
             (\<lambda>room. case f room of Inl e \<Rightarrow> Some e | Inr _ \<Rightarrow> None) of
        Some e \<Rightarrow> (db, Inl (RaceThrew e))
      | None \<Rightarrow>
          (case transitionPostgresRoom clk key action (\<lambda>room. projr (f room)) db of
             (db', Inl e) \<Rightarrow> (db', Inl (RaceStoreThrew e))
           | (db', Inr c) \<Rightarrow> (db', Inr c)))"

definition race_authenticate :: "'a services_scheme \<Rightarrow> pairs_race \<Rightarrow> 'b race_identity_scheme \<Rightarrow> bool" where
  "race_authenticate w room i \<longleftrightarrow>
     list_ex (\<lambda>p. rr_id p = ri_playerId i \<and> multiplayerCredentialsMatch w (ri_playerToken i) (rr_tokenHash p))
       (ra_players room)"

text \<open>The name as \<^verbatim>\<open>createPairsGame(0, pairCount, [name]).names[0]\<close> checks and trims it.\<close>

definition race_name :: "nat \<Rightarrow> js_string \<Rightarrow> js_string + js_string" where
  "race_name pairCount name = (case createPairsGame (Some 0) pairCount [name] of Inl e \<Rightarrow> Inl e | Inr g \<Rightarrow> Inr (pairs_names g ! 0))"

definition new_racer :: "'a services_scheme \<Rightarrow> js_string \<Rightarrow> js_string \<Rightarrow> js_string \<Rightarrow> pairs_racer" where
  "new_racer w playerId name playerToken =
     \<lparr>rr_id = playerId, rr_name = name, rr_tokenHash = hashMultiplayerCredential w playerToken, rr_ready = False,
      rr_wins = 0, rr_game = None, rr_unlockAt = 0\<rparr>"

definition RACE_LIFETIME :: int where
  "RACE_LIFETIME = 6 * 60 * 60 * 1000"

definition new_race :: "int \<Rightarrow> nat \<Rightarrow> pairs_racer \<Rightarrow> js_string \<Rightarrow> pairs_race" where
  "new_race now pairCount p roomId =
     \<lparr>ra_roomId = roomId, ra_expiresAt = now + RACE_LIFETIME, ra_pairCount = pairCount, ra_phase = RaceLobby,
      ra_round = 0, ra_players = [p], ra_winnerId = None, ra_conceded = False, ra_startsAt = 0\<rparr>"

text \<open>The attempts to allocate a room id; the ids are drawn one after another.\<close>

fun allocate_race ::
  "nat \<Rightarrow> (js_string \<Rightarrow> pairs_race) \<Rightarrow> 'a services_scheme \<Rightarrow> race_db \<Rightarrow> race_db \<times> 'a services_scheme \<times> pairs_race option" where
  "allocate_race 0 mk w db = (db, w, None)"
| "allocate_race (Suc attempts) mk w db =
     (let (roomId, w') = createMultiplayerRoomId w;
          st = mk roomId;
          (db', created) = createPostgresRoom (RACE_KIND, roomId)
            \<lparr>pr_schemaVersion = 1, pr_revision = 1, pr_state = st, pr_expiresAt = ra_expiresAt st\<rparr> db
      in if created then (db', w', Some st) else allocate_race attempts mk w' db')"

definition createPairsRace ::
  "nat \<Rightarrow> js_string \<Rightarrow> 'a services_scheme \<Rightarrow> race_db \<Rightarrow>
   race_db \<times> 'a services_scheme \<times> (js_string + (race_identity \<times> race_snapshot))" where
  "createPairsRace pairCount name w db =
     (case race_name pairCount name of
        Inl e \<Rightarrow> (db, w, Inl e)
      | Inr trimmed \<Rightarrow>
          (let (playerToken, w1) = createMultiplayerCredential w;
               (playerId, w2) = randomUUID w1;
               now = wall_clock w2;
               (db', w3, made) = allocate_race 5 (new_race now pairCount (new_racer w2 playerId trimmed playerToken)) w2 db
           in case made of
                None \<Rightarrow> (db', w3, Inl ''Could not allocate a table'')
              | Some st \<Rightarrow>
                  (case pairsRaceSnapshot st playerId 1 now of
                     Inl e \<Rightarrow> (db', w3, Inl e)
                   | Inr s \<Rightarrow> (db', w3, Inr (\<lparr>ri_roomId = ra_roomId st, ri_playerId = playerId,
                                              ri_playerToken = playerToken\<rparr>, s)))))"

text \<open>The outcome of a join is the snapshot; it is stored with no receipt, so only its snapshot is used.\<close>

definition race_transition ::
  "pairs_race \<Rightarrow> race_outcome \<Rightarrow> bool \<Rightarrow> bool \<Rightarrow> (pairs_race, race_outcome) pg_transition" where
  "race_transition room out persist recordAction =
     \<lparr>tr_state = room, tr_expiresAt = ra_expiresAt room, tr_outcome = out, tr_results = [], tr_persist = persist,
      tr_recordAction = recordAction\<rparr>"

definition shown :: "race_snapshot \<Rightarrow> race_outcome" where
  "shown s = \<lparr>ro_accepted = True, ro_error = None, ro_snapshot = Some s\<rparr>"

definition race_join ::
  "'a services_scheme \<Rightarrow> race_identity \<Rightarrow> js_string \<Rightarrow> int \<Rightarrow> pairs_race pg_room \<Rightarrow>
   js_string + (pairs_race, race_outcome) pg_transition" where
  "race_join w i name now stored =
     (let room = pr_state stored in
      case racer (ri_playerId i) room of
        Some existing \<Rightarrow>
          (if \<not> multiplayerCredentialsMatch w (ri_playerToken i) (rr_tokenHash existing)
           then Inl ''That join is no longer valid''
           else map_sum id (\<lambda>s. race_transition room (shown s) False True)
                  (pairsRaceSnapshot room (rr_id existing) (pr_revision stored) now))
      | None \<Rightarrow>
          (if 2 \<le> length (ra_players room) then Inl ''This table already has two players''
           else if ra_phase room \<noteq> RaceLobby then Inl ''This match has already started''
           else if list_ex (\<lambda>p. to_lower (rr_name p) = to_lower name) (ra_players room)
           then Inl ''That name is already at the table''
           else
           let room' = room\<lparr>ra_players := ra_players room @ [new_racer w (ri_playerId i) name (ri_playerToken i)]\<rparr>
           in map_sum id (\<lambda>s. race_transition room' (shown s) True True)
                (pairsRaceSnapshot room' (ri_playerId i) (pr_revision stored + 1) now)))"

definition joinPairsRace ::
  "race_identity \<Rightarrow> js_string \<Rightarrow> int \<Rightarrow> 'a services_scheme \<Rightarrow> race_db \<Rightarrow> race_db \<times> (race_failure + race_snapshot)" where
  "joinPairsRace i name clk w db =
     (case race_name 3 name of
        Inl e \<Rightarrow> (db, Inl (RaceThrew e))
      | Inr trimmed \<Rightarrow>
          (case attempt_transition clk (RACE_KIND, ri_roomId i) None (race_join w i trimmed (wall_clock w)) db of
             (db', Inl e) \<Rightarrow> (db', Inl e)
           | (db', Inr None) \<Rightarrow> (db', Inl (RaceThrew ''That table has expired''))
           | (db', Inr (Some c)) \<Rightarrow> (db', Inr (the (ro_snapshot (cm_outcome c))))))"

definition readPairsRace ::
  "race_identity \<Rightarrow> int \<Rightarrow> 'a services_scheme \<Rightarrow> race_db \<Rightarrow> js_string + race_snapshot option" where
  "readPairsRace i clk w db =
     (case readPostgresRoom clk (RACE_KIND, ri_roomId i) db of
        None \<Rightarrow> Inr None
      | Some stored \<Rightarrow>
          (if \<not> race_authenticate w (pr_state stored) i then Inr None
           else map_sum id Some (pairsRaceSnapshot (pr_state stored) (ri_playerId i) (pr_revision stored) (wall_clock w))))"

definition race_apply ::
  "'a services_scheme \<Rightarrow> race_command \<Rightarrow> int \<Rightarrow> int \<Rightarrow> pairs_race pg_room \<Rightarrow>
   js_string + (pairs_race, race_outcome) pg_transition" where
  "race_apply w i now seed stored =
     (let room = pr_state stored in
      if \<not> race_authenticate w room i
      then Inr (race_transition room
             \<lparr>ro_accepted = False, ro_error = Some ''This player session has expired'', ro_snapshot = None\<rparr> False False)
      else case applyPairsRaceAction room (ri_playerId i) (ri_action i) now seed of
        Inl e \<Rightarrow> Inl e
      | Inr (room', err) \<Rightarrow>
          map_sum id (\<lambda>s. race_transition room' \<lparr>ro_accepted = (err = None), ro_error = err, ro_snapshot = Some s\<rparr> True True)
            (pairsRaceSnapshot room' (ri_playerId i) (pr_revision stored + 1) now))"

text \<open>\<^verbatim>\<open>json\<close> is \<^verbatim>\<open>JSON.stringify\<close> of the input; the seed is a draw of 32 bits.\<close>

definition commandPairsRace ::
  "(race_command \<Rightarrow> js_string) \<Rightarrow> race_command \<Rightarrow> int \<Rightarrow> 32 word \<Rightarrow> 'a services_scheme \<Rightarrow> race_db \<Rightarrow>
   race_db \<times> (race_failure + race_outcome)" where
  "commandPairsRace json i clk seed w db =
     (case attempt_transition clk (RACE_KIND, ri_roomId i)
             (Some \<lparr>pa_id = ri_actionId i, pa_fingerprint = sha256_hex w (json i)\<rparr>)
             (race_apply w i (wall_clock w) (uint seed)) db of
        (db', Inl e) \<Rightarrow> (db', Inl e)
      | (db', Inr None) \<Rightarrow>
          (db', Inr \<lparr>ro_accepted = False, ro_error = Some ''That table has expired'', ro_snapshot = None\<rparr>)
      | (db', Inr (Some c)) \<Rightarrow> (db', Inr (cm_outcome c)))"

end
