(* ===== verification/PairsRaceFacts.thy ===== *)
theory PairsRaceFacts
  imports PairsFacts PairsRace
begin

text \<open>
  The race of Pairs: what holds of every room a history of calls can store, that a command never
  throws, and that a phone is shown nothing of the cards it has not turned.
\<close>

section \<open>Names\<close>

definition good_name :: "js_string \<Rightarrow> bool" where
  "good_name name \<longleftrightarrow> js_trim name \<noteq> [] \<and> length (js_trim name) \<le> 24"

lemma solo_game:
  assumes "good_name name" and "n \<in> set PAIRS_SIZES" and "0 \<le> s" and "s \<le> 4294967295"
  shows "\<exists>g. createPairsGame (Some s) n [name] = Inr g \<and> pairs_ok g \<and>
           pairs_cards g = fst (shuffle pairs_pick (sorted_cards n) (word_of_int s))"
proof -
  have "\<exists>g. createPairsGame (Some s) n [name] = Inr g \<and>
          pairs_cards g = fst (shuffle pairs_pick (sorted_cards n) (word_of_int s))"
    using assms by (auto simp: createPairsGame_def good_name_def)
  then show ?thesis using created_pairs_ok by blast
qed

lemma race_name_good:
  assumes "race_name n name = Inr t"
  shows "good_name t \<and> n \<in> set PAIRS_SIZES"
proof -
  obtain g where g: "createPairsGame (Some 0) n [name] = Inr g" "t = pairs_names g ! 0"
    using assms by (auto simp: race_name_def split: sum.splits)
  have "t = js_trim name" using g created_pairs_ok [OF g(1)] by simp
  then show ?thesis using g(1) by (auto simp: createPairsGame_def good_name_def Let_def split: if_splits)
qed

section \<open>The invariant of a race\<close>

text \<open>
  A race is the best of three rounds: in every phase the rounds and the wins say the same, both racers
  of a round have the same layout, and a finished race has one player with two wins, the winner.
\<close>

definition racer_ok :: "pairs_racer \<Rightarrow> bool" where
  "racer_ok p \<longleftrightarrow> good_name (rr_name p) \<and> (\<forall>g. rr_game p = Some g \<longrightarrow> pairs_ok g)"

definition racer_cards :: "pairs_racer \<Rightarrow> pairs_card list option" where
  "racer_cards p = map_option pairs_cards (rr_game p)"

definition same_layout :: "pairs_racer list \<Rightarrow> bool" where
  "same_layout ps \<longleftrightarrow> (\<exists>cards. \<forall>p\<in>set ps. racer_cards p = Some cards)"

definition score_fine :: "race_phase \<Rightarrow> nat \<Rightarrow> js_string option \<Rightarrow> pairs_racer list \<Rightarrow> bool" where
  "score_fine ph round_no winner ps \<longleftrightarrow>
     (case ph of
        RaceLobby \<Rightarrow> round_no = 0 \<and> winner = None \<and> (\<forall>p\<in>set ps. rr_wins p = 0)
      | RacePlaying \<Rightarrow> length ps = 2 \<and> (\<forall>p\<in>set ps. rr_wins p \<le> 1) \<and> round_no = Suc (sum_list (map rr_wins ps)) \<and>
          winner = None \<and> same_layout ps
      | RaceReveal \<Rightarrow> length ps = 2 \<and> (\<forall>p\<in>set ps. rr_wins p \<le> 1) \<and> round_no = sum_list (map rr_wins ps) \<and>
          (\<exists>p\<in>set ps. winner = Some (rr_id p) \<and> rr_wins p = 1)
      | RaceFinished \<Rightarrow> length ps = 2 \<and> 1 \<le> round_no \<and> round_no \<le> 3 \<and>
          (\<exists>p\<in>set ps. winner = Some (rr_id p) \<and> rr_wins p = 2 \<and> (\<forall>q\<in>set ps. rr_id q \<noteq> rr_id p \<longrightarrow> rr_wins q \<le> 1)))"

definition race_ok :: "pairs_race \<Rightarrow> bool" where
  "race_ok room \<longleftrightarrow>
     ra_pairCount room \<in> set PAIRS_SIZES \<and> ra_players room \<noteq> [] \<and> length (ra_players room) \<le> 2 \<and>
     distinct (map rr_id (ra_players room)) \<and> (\<forall>p\<in>set (ra_players room). racer_ok p) \<and>
     score_fine (ra_phase room) (ra_round room) (ra_winnerId room) (ra_players room)"

text \<open>What the invariant reads of a racer.\<close>

definition racer_face :: "pairs_racer \<Rightarrow> js_string \<times> js_string \<times> nat \<times> pairs_card list option" where
  "racer_face p = (rr_id p, rr_name p, rr_wins p, racer_cards p)"

lemma racer_in: "racer i room = Some p \<Longrightarrow> p \<in> set (ra_players room) \<and> rr_id p = i"
  using find_SomeD by (force simp: racer_def)

lemma score_faces:
  assumes "map racer_face ps = map racer_face qs" and "length ps \<le> 2" and "score_fine ph n w ps"
  shows "score_fine ph n w qs"
proof -
  have l: "length qs = length ps" using assms(1) by (rule map_eq_imp_length_eq [symmetric])
  consider "ps = []" "qs = []" | a a' where "ps = [a]" "qs = [a']" | a b a' b' where "ps = [a, b]" "qs = [a', b']"
    using assms(2) l by (cases ps; cases qs; cases "tl ps"; cases "tl qs") auto
  then show ?thesis
    using assms(1,3) by cases (auto simp: score_fine_def racer_face_def same_layout_def split: race_phase.splits)
qed

lemma race_ok_faces:
  assumes "race_ok room" and "map racer_face ps = map racer_face (ra_players room)" and "\<forall>p\<in>set ps. racer_ok p"
  shows "race_ok (room\<lparr>ra_players := ps\<rparr>)"
proof -
  have l: "length ps = length (ra_players room)" using assms(2) by (rule map_eq_imp_length_eq)
  have "map rr_id ps = map rr_id (ra_players room)"
    using arg_cong [OF assms(2), of "map fst"] by (simp add: racer_face_def comp_def)
  then have "distinct (map rr_id ps)" using assms(1) by (simp add: race_ok_def)
  moreover have "score_fine (ra_phase room) (ra_round room) (ra_winnerId room) ps"
    using score_faces [OF assms(2) [symmetric]] assms(1) by (simp add: race_ok_def)
  ultimately show ?thesis using assms(1,3) l by (auto simp: race_ok_def)
qed

lemma race_ok_set_racer:
  assumes "race_ok room" and "\<And>p. p \<in> set (ra_players room) \<Longrightarrow> rr_id p = i \<Longrightarrow> racer_face (f p) = racer_face p \<and> racer_ok (f p)"
  shows "race_ok (set_racer i f room)"
proof -
  have "map racer_face (upd_first (\<lambda>p. rr_id p = i) f ps) = map racer_face ps"
    if "\<And>p. p \<in> set ps \<Longrightarrow> rr_id p = i \<Longrightarrow> racer_face (f p) = racer_face p" for ps
    using that by (induction ps) auto
  moreover have "\<forall>p\<in>set (upd_first (\<lambda>p. rr_id p = i) f (ra_players room)). racer_ok p"
    using assms by (auto simp: race_ok_def dest!: set_upd_firstD)
  ultimately show ?thesis unfolding set_racer_def using assms by (intro race_ok_faces) auto
qed

lemma new_race_ok:
  assumes "race_name n name = Inr t"
  shows "race_ok (new_race now n (new_racer w i t tok) roomId)"
  using race_name_good [OF assms] by (simp add: race_ok_def new_race_def new_racer_def racer_ok_def score_fine_def)

lemma joined_race_ok:
  assumes "race_ok room" and "racer i room = None" and "length (ra_players room) < 2" and "ra_phase room = RaceLobby"
    and "good_name t"
  shows "race_ok (room\<lparr>ra_players := ra_players room @ [new_racer w i t tok]\<rparr>)"
  using assms by (auto simp: race_ok_def new_racer_def racer_ok_def score_fine_def racer_def find_None_iff)

section \<open>Every action keeps it\<close>

lemma start_racers_all:
  assumes "\<forall>p\<in>set ps. good_name (rr_name p)" and "n \<in> set PAIRS_SIZES" and "0 \<le> s" and "s \<le> 4294967295"
  shows "\<exists>qs. start_racers s n rematch ps = Inr qs \<and> map rr_id qs = map rr_id ps \<and>
           map rr_wins qs = map (\<lambda>p. if rematch then 0 else rr_wins p) ps \<and>
           (\<forall>q\<in>set qs. racer_ok q \<and> racer_cards q = Some (fst (shuffle pairs_pick (sorted_cards n) (word_of_int s))))"
  using assms(1)
proof (induction ps)
  case (Cons p ps)
  obtain g where "createPairsGame (Some s) n [rr_name p] = Inr g" "pairs_ok g"
    "pairs_cards g = fst (shuffle pairs_pick (sorted_cards n) (word_of_int s))"
    using solo_game [OF _ assms(2-4)] Cons.prems by auto
  then show ?case using Cons by (auto simp: racer_ok_def racer_cards_def)
qed simp

lemma two_racers:
  assumes "race_ok room" and "length (ra_players room) = 2"
  obtains a b where "ra_players room = [a, b]" "rr_id a \<noteq> rr_id b"
  using assms by (auto simp: race_ok_def length_Suc_conv numeral_2_eq_2)

lemma begin_ok:
  assumes "race_ok room" and "0 \<le> s" and "s \<le> 4294967295"
  shows "\<exists>room' err. race_begin now s room = Inr (room', err) \<and> race_ok room' \<and>
           ra_roomId room' = ra_roomId room \<and> ra_expiresAt room' = ra_expiresAt room \<and>
           map rr_id (ra_players room') = map rr_id (ra_players room)"
proof (cases "ra_phase room \<noteq> RacePlaying \<and> length (ra_players room) = 2 \<and> \<not> list_ex (\<lambda>p. \<not> rr_ready p) (ra_players room)")
  case True
  let ?rematch = "ra_phase room = RaceFinished"
  have r: "\<forall>p\<in>set (ra_players room). good_name (rr_name p)" "ra_pairCount room \<in> set PAIRS_SIZES"
    using assms(1) by (auto simp: race_ok_def racer_ok_def)
  obtain qs where qs: "start_racers s (ra_pairCount room) ?rematch (ra_players room) = Inr qs"
    "map rr_id qs = map rr_id (ra_players room)"
    "map rr_wins qs = map (\<lambda>p. if ?rematch then 0 else rr_wins p) (ra_players room)"
    "\<forall>q\<in>set qs. racer_ok q" "same_layout qs"
    using start_racers_all [OF r assms(2,3), of ?rematch] unfolding same_layout_def by blast
  obtain a b where ab: "ra_players room = [a, b]" "rr_id a \<noteq> rr_id b" using two_racers [OF assms(1)] True by blast
  obtain c d where cd: "qs = [c, d]" using qs(2) ab by (auto simp: map_eq_Cons_conv)
  have "score_fine RacePlaying (if ?rematch then 1 else ra_round room + 1) None qs"
    using qs(3,5) True assms(1) by (cases "ra_phase room") (auto simp: ab cd race_ok_def score_fine_def)
  then have "race_ok (room\<lparr>ra_round := (if ?rematch then 1 else ra_round room + 1), ra_phase := RacePlaying,
      ra_winnerId := None, ra_conceded := False, ra_startsAt := now + 3000, ra_players := qs\<rparr>)"
    using qs(2,4) assms(1) ab by (simp add: race_ok_def cd)
  then show ?thesis using True qs(1,2) by (simp add: race_begin_def)
qed (use assms(1) in \<open>auto simp: race_begin_def\<close>)

lemma upd_other: "upd_first P f [a, b] = (if P a then [f a, b] else if P b then [a, f b] else [a, b])"
  by simp

lemma concede_ok:
  assumes "race_ok room" and "p \<in> set (ra_players room)"
  shows "race_ok (fst (race_concede p room))"
proof (cases "ra_phase room = RacePlaying")
  case True
  then have "length (ra_players room) = 2" using assms(1) by (simp add: race_ok_def score_fine_def)
  then obtain a b where ab: "ra_players room = [a, b]" "rr_id a \<noteq> rr_id b" using two_racers [OF assms(1)] by blast
  have w: "rr_wins a \<le> 1" "rr_wins b \<le> 1" "ra_round room = Suc (rr_wins a + rr_wins b)" "racer_ok a" "racer_ok b"
    using assms(1) True by (simp_all add: ab race_ok_def score_fine_def)
  have "p = a \<or> p = b" using assms(2) ab by simp
  then show ?thesis
    using assms(1) True ab w by (auto simp: race_concede_def race_ok_def score_fine_def none_ready_def racer_ok_def)
qed (use assms(1) in \<open>simp add: race_concede_def\<close>)

lemma continued_game: "pairs_ok g \<Longrightarrow> pairs_ok (continued g) \<and> pairs_cards (continued g) = pairs_cards g"
  using apply_pairs_ok [of g PairsContinue] apply_frame [of g PairsContinue]
  by (cases "applyPairsAction g PairsContinue") (simp_all add: continued_def)

lemma advance_face: "racer_ok p \<Longrightarrow> racer_face (advancePairsRacer now p) = racer_face p \<and> racer_ok (advancePairsRacer now p)"
  using continued_game
  by (auto simp: advancePairsRacer_def racer_face_def racer_cards_def racer_ok_def reviewed_def split: option.splits)

lemma only_racer:
  assumes "race_ok room" and "racer i room = Some p" and "q \<in> set (ra_players room)" and "rr_id q = i"
  shows "q = p"
proof -
  have "distinct (map rr_id (ra_players room))" using assms(1) by (simp add: race_ok_def)
  then show ?thesis using racer_in [OF assms(2)] assms(3,4) by (auto simp: distinct_map inj_on_def)
qed

lemma racer_set_racer: "racer i room = Some p \<Longrightarrow> rr_id q = i \<Longrightarrow> racer i (set_racer i (\<lambda>_. q) room) = Some q"
proof -
  have "find (\<lambda>p. rr_id p = i) xs = Some p \<Longrightarrow> rr_id q = i \<Longrightarrow>
      find (\<lambda>p. rr_id p = i) (upd_first (\<lambda>p. rr_id p = i) (\<lambda>_. q) xs) = Some q" for xs
    by (induction xs) (auto split: if_splits)
  then show "racer i room = Some p \<Longrightarrow> rr_id q = i \<Longrightarrow> racer i (set_racer i (\<lambda>_. q) room) = Some q"
    by (simp add: racer_def set_racer_def)
qed

lemma replaced_ok:
  assumes "race_ok room" and "racer i room = Some p" and "racer_face q = racer_face p" and "racer_ok q"
  shows "race_ok (set_racer i (\<lambda>_. q) room) \<and> racer i (set_racer i (\<lambda>_. q) room) = Some q"
proof
  show "race_ok (set_racer i (\<lambda>_. q) room)"
    using only_racer [OF assms(1,2)] assms(3,4) by (intro race_ok_set_racer [OF assms(1)]) auto
  have "rr_id q = i" using assms(3) racer_in [OF assms(2)] by (simp add: racer_face_def)
  then show "racer i (set_racer i (\<lambda>_. q) room) = Some q" by (rule racer_set_racer [OF assms(2)])
qed

lemma set_racer_fields [simp]:
  "ra_roomId (set_racer i f room) = ra_roomId room" "ra_expiresAt (set_racer i f room) = ra_expiresAt room"
  "ra_phase (set_racer i f room) = ra_phase room" "ra_round (set_racer i f room) = ra_round room"
  by (simp_all add: set_racer_def)

lemma won_ok:
  assumes ok: "race_ok room" and ph: "ra_phase room = RacePlaying" and p: "racer i room = Some p"
  shows "race_ok (race_won (p\<lparr>rr_wins := rr_wins p + 1\<rparr>) (set_racer i (\<lambda>_. p\<lparr>rr_wins := rr_wins p + 1\<rparr>) room))"
proof -
  have "length (ra_players room) = 2" using ok ph by (simp add: race_ok_def score_fine_def)
  then obtain a b where ab: "ra_players room = [a, b]" "rr_id a \<noteq> rr_id b" using two_racers [OF ok] by blast
  have w: "rr_wins a \<le> 1" "rr_wins b \<le> 1" "ra_round room = Suc (rr_wins a + rr_wins b)" "racer_ok a" "racer_ok b"
    using ok ph by (simp_all add: ab race_ok_def score_fine_def)
  have "p = a \<and> i = rr_id a \<or> p = b \<and> i = rr_id b" using racer_in [OF p] ab by auto
  then show ?thesis
    using ok ab w by (auto simp: race_won_def set_racer_def race_ok_def score_fine_def none_ready_def racer_ok_def)
qed

lemma flip_race_ok:
  assumes ok: "race_ok room" and p: "racer i room = Some p"
  shows "race_ok (fst (race_flip now index n p room))"
proof (cases "ra_phase room \<noteq> RacePlaying \<or> n \<noteq> ra_round room \<or> rr_game p = None \<or> now < ra_startsAt room")
  case False
  have i: "rr_id p = i" "racer_ok p" using racer_in [OF p] ok by (auto simp: race_ok_def)
  define p1 where "p1 = advancePairsRacer now p"
  define room1 where "room1 = set_racer i (\<lambda>_. p1) room"
  have p1: "racer_face p1 = racer_face p" "racer_ok p1" using advance_face [OF i(2)] by (simp_all add: p1_def)
  have r1: "race_ok room1" "racer i room1 = Some p1" using replaced_ok [OF ok p p1] by (simp_all add: room1_def)
  have ph1: "ra_phase room1 = RacePlaying" using False by (simp add: room1_def)
  show ?thesis
  proof (cases "Option.bind (rr_game p1) (\<lambda>g. applyPairsAction g (PairsFlip index))")
    case None
    then show ?thesis using False r1(1) i(1) by (auto simp: race_flip_def Let_def simp flip: p1_def room1_def)
  next
    case (Some g)
    obtain g1 where g1: "rr_game p1 = Some g1" "applyPairsAction g1 (PairsFlip index) = Some g"
      using Some by (auto split: bind_splits)
    define p2 where "p2 = flipped_racer now g p1"
    have g: "pairs_ok g" "pairs_cards g = pairs_cards g1"
      using apply_pairs_ok [OF _ g1(2)] apply_frame [OF g1(2)] p1(2) g1(1) by (auto simp: racer_ok_def)
    have p2: "racer_face p2 = racer_face p1" "racer_ok p2"
      using g g1(1) p1(2) by (simp_all add: p2_def flipped_racer_def racer_face_def racer_cards_def racer_ok_def)
    have r2: "race_ok (set_racer i (\<lambda>_. p2) room1)" "racer i (set_racer i (\<lambda>_. p2) room1) = Some p2"
      using replaced_ok [OF r1 p2] by simp_all
    have twice: "set_racer i (\<lambda>_. q') (set_racer i (\<lambda>_. q) room1) = set_racer i (\<lambda>_. q') room1" if "rr_id q = i" for q q'
    proof -
      have "upd_first (\<lambda>p. rr_id p = i) (\<lambda>_. q') (upd_first (\<lambda>p. rr_id p = i) (\<lambda>_. q) xs) =
          upd_first (\<lambda>p. rr_id p = i) (\<lambda>_. q') xs" for xs using that by (induction xs) auto
      then show ?thesis by (simp add: set_racer_def)
    qed
    have id2: "rr_id p2 = i" using racer_in [OF r2(2)] by blast
    have w: "race_ok (race_won (p2\<lparr>rr_wins := rr_wins p2 + 1\<rparr>) (set_racer i (\<lambda>_. p2\<lparr>rr_wins := rr_wins p2 + 1\<rparr>) room1))"
      using won_ok [OF r2(1) _ r2(2)] ph1 unfolding twice [OF id2] by simp
    show ?thesis
      using False Some r2(1) w i(1) by (auto simp: race_flip_def Let_def simp flip: p1_def room1_def p2_def)
  qed
qed (use ok in \<open>auto simp: race_flip_def\<close>)

text \<open>An action keeps the seats, the id and the expiry of the room.\<close>

lemma ids_none_ready [simp]: "map rr_id (none_ready ps) = map rr_id ps"
  by (simp add: none_ready_def)

lemma ids_set_racer:
  "(\<And>p. rr_id p = i \<Longrightarrow> rr_id (f p) = i) \<Longrightarrow> map rr_id (ra_players (set_racer i f room)) = map rr_id (ra_players room)"
proof -
  assume f: "\<And>p. rr_id p = i \<Longrightarrow> rr_id (f p) = i"
  have "map rr_id (upd_first (\<lambda>p. rr_id p = i) f xs) = map rr_id xs" for xs using f by (induction xs) auto
  then show ?thesis by (simp add: set_racer_def)
qed

lemma race_won_fields [simp]:
  "map rr_id (ra_players (race_won p room)) = map rr_id (ra_players room)"
  "ra_roomId (race_won p room) = ra_roomId room" "ra_expiresAt (race_won p room) = ra_expiresAt room"
  by (simp_all add: race_won_def)

lemma advance_id [simp]: "rr_id (advancePairsRacer now p) = rr_id p"
  by (simp add: advancePairsRacer_def)

lemma flip_frame:
  "map rr_id (ra_players (fst (race_flip now index n p room))) = map rr_id (ra_players room) \<and>
   ra_roomId (fst (race_flip now index n p room)) = ra_roomId room \<and>
   ra_expiresAt (fst (race_flip now index n p room)) = ra_expiresAt room"
  by (auto simp: race_flip_def Let_def flipped_racer_def ids_set_racer split: option.split)

lemma concede_frame:
  "map rr_id (ra_players (fst (race_concede p room))) = map rr_id (ra_players room) \<and>
   ra_roomId (fst (race_concede p room)) = ra_roomId room \<and>
   ra_expiresAt (fst (race_concede p room)) = ra_expiresAt room"
  by (auto simp: race_concede_def map_upd_first split: option.split)

lemma race_action_ok:
  assumes "race_ok room" and "0 \<le> s" and "s \<le> 4294967295"
  shows "\<exists>room' err. applyPairsRaceAction room i a now s = Inr (room', err) \<and> race_ok room' \<and>
           ra_roomId room' = ra_roomId room \<and> ra_expiresAt room' = ra_expiresAt room \<and>
           map rr_id (ra_players room') = map rr_id (ra_players room)"
proof (cases "racer i room")
  case None
  then show ?thesis using assms(1) by (simp add: applyPairsRaceAction_def)
next
  case (Some p)
  show ?thesis
  proof (cases a)
    case (RaceReady b)
    have "race_ok (set_racer i (\<lambda>p. p\<lparr>rr_ready := b\<rparr>) room)"
      using assms(1)
      by (intro race_ok_set_racer [OF assms(1)]) (auto simp: racer_face_def racer_cards_def race_ok_def racer_ok_def)
    then show ?thesis using Some RaceReady assms(1) by (simp add: applyPairsRaceAction_def ids_set_racer)
  next
    case RaceBegin
    then show ?thesis using Some begin_ok [OF assms, of now] by (simp add: applyPairsRaceAction_def)
  next
    case (RaceFlip index n)
    have "race_ok (fst (race_flip now index n p room))" by (rule flip_race_ok [OF assms(1) Some])
    then show ?thesis using Some RaceFlip flip_frame [of now index n p room]
      by (cases "race_flip now index n p room") (simp add: applyPairsRaceAction_def)
  next
    case RaceConcede
    have "race_ok (fst (race_concede p room))" using concede_ok [OF assms(1)] racer_in [OF Some] by blast
    then show ?thesis using Some RaceConcede concede_frame [of p room]
      by (cases "race_concede p room") (simp add: applyPairsRaceAction_def)
  qed
qed

section \<open>The stored rooms\<close>

datatype race_call =
  CallCreate nat js_string
| CallJoin race_identity js_string
| CallCommand race_command "32 word"

text \<open>A call, the services it finds when it starts and the clock of the database when it runs.\<close>

fun run_race :: "(race_command \<Rightarrow> js_string) \<Rightarrow> services \<times> int \<times> race_call \<Rightarrow> race_db \<Rightarrow> race_db" where
  "run_race json (w, clk, CallCreate n name) db = fst (createPairsRace n name w db)"
| "run_race json (w, clk, CallJoin i name) db = fst (joinPairsRace i name clk w db)"
| "run_race json (w, clk, CallCommand i seed) db = fst (commandPairsRace json i clk seed w db)"

definition no_races :: "race_db \<Rightarrow> bool" where
  "no_races db \<longleftrightarrow> (\<forall>i. db_rooms db (RACE_KIND, i) = None)"

definition stored_ok :: "js_string \<Rightarrow> pairs_race pg_room \<Rightarrow> bool" where
  "stored_ok i st \<longleftrightarrow> race_ok (pr_state st) \<and> ra_expiresAt (pr_state st) = pr_expiresAt st"

definition race_db_ok :: "race_db \<Rightarrow> bool" where
  "race_db_ok db \<longleftrightarrow> (\<forall>i st. db_rooms db (RACE_KIND, i) = Some st \<longrightarrow> stored_ok i st)"

lemma live_stored: "race_db_ok db \<Longrightarrow> readPostgresRoom clk (RACE_KIND, i) db = Some st \<Longrightarrow> stored_ok i st \<and> clk < pr_expiresAt st"
  by (auto simp: race_db_ok_def readPostgresRoom_def split: option.splits if_splits)

lemma transition_rooms:
  assumes t: "transitionPostgresRoom clk key action t db = (db', res)"
  shows "db_rooms db' = db_rooms db \<or>
         (\<exists>room. readPostgresRoom clk key db = Some room \<and> stored_receipt key action db = None \<and>
            db_rooms db' = (db_rooms db)(key \<mapsto> room\<lparr>pr_state := tr_state (t room),
              pr_revision := Suc (pr_revision room), pr_expiresAt := tr_expiresAt (t room)\<rparr>))"
proof (cases "readPostgresRoom clk key db")
  case None
  then show ?thesis using t by (simp add: transition_gone)
next
  case live: (Some room)
  show ?thesis
  proof (cases "stored_receipt key action db")
    case fresh: None
    have tr: "transact (commit_transition clk key action (t room) room) db = (db', res)"
      using t unfolding transition_fresh [OF live fresh] .
    show ?thesis
    proof (cases "commit_transition clk key action (t room) room db")
      case (Inl e)
      then show ?thesis using tr by (simp add: transact_def)
    next
      case (Inr x)
      then have "commit_transition clk key action (t room) room db = Inr (db', snd x)"
        using tr by (cases x) (simp add: transact_def)
      from commit_cases(4) [OF this] show ?thesis using live fresh by (cases "tr_persist (t room)") simp_all
    qed
  next
    case (Some rc)
    then obtain a where a: "action = Some a" by (cases action) (simp_all add: stored_receipt_def)
    have r: "stored_receipt key (Some a) db = Some rc" using Some unfolding a .
    have "db' = db" using t unfolding a transition_replay [OF live r] by simp
    then show ?thesis by simp
  qed
qed

lemma attempt_rooms:
  "db_rooms (fst (attempt_transition clk key action f db)) = db_rooms db \<or>
   (\<exists>room t. readPostgresRoom clk key db = Some room \<and> f room = Inr t \<and>
      db_rooms (fst (attempt_transition clk key action f db)) = (db_rooms db)(key \<mapsto> room\<lparr>pr_state := tr_state t,
        pr_revision := Suc (pr_revision room), pr_expiresAt := tr_expiresAt t\<rparr>))"
proof (cases "Option.bind (if stored_receipt key action db = None then readPostgresRoom clk key db else None)
             (\<lambda>room. case f room of Inl e \<Rightarrow> Some e | Inr _ \<Rightarrow> None)")
  case None
  obtain db' res where r: "transitionPostgresRoom clk key action (\<lambda>room. projr (f room)) db = (db', res)" by fastforce
  have e: "fst (attempt_transition clk key action f db) = db'"
    using None r by (cases res) (simp_all add: attempt_transition_def)
  show ?thesis
    using transition_rooms [OF r]
  proof (elim disjE exE conjE)
    fix room
    assume room: "readPostgresRoom clk key db = Some room" "stored_receipt key action db = None"
      and db': "db_rooms db' = (db_rooms db)(key \<mapsto> room\<lparr>pr_state := tr_state (projr (f room)),
              pr_revision := Suc (pr_revision room), pr_expiresAt := tr_expiresAt (projr (f room))\<rparr>)"
    obtain t where "f room = Inr t" using None room by (cases "f room") simp_all
    then show ?thesis using room(1) db' by (intro disjI2 exI [of _ room] exI [of _ t]) (simp add: e)
  qed (simp add: e)
qed (simp add: attempt_transition_def)

lemma attempt_ok:
  assumes "race_db_ok db"
    and "\<And>st t. stored_ok i st \<Longrightarrow> f st = Inr t \<Longrightarrow> race_ok (tr_state t) \<and> tr_expiresAt t = ra_expiresAt (tr_state t)"
  shows "race_db_ok (fst (attempt_transition clk (RACE_KIND, i) action f db))"
  using attempt_rooms [of clk "(RACE_KIND, i)" action f db]
proof (elim disjE exE conjE)
  fix room t
  assume r: "readPostgresRoom clk (RACE_KIND, i) db = Some room" "f room = Inr t"
  have "race_ok (tr_state t) \<and> tr_expiresAt t = ra_expiresAt (tr_state t)"
    using assms(2) live_stored [OF assms(1) r(1)] r(2) by blast
  moreover assume "db_rooms (fst (attempt_transition clk (RACE_KIND, i) action f db)) =
    (db_rooms db)((RACE_KIND, i) \<mapsto> room\<lparr>pr_state := tr_state t, pr_revision := Suc (pr_revision room),
        pr_expiresAt := tr_expiresAt t\<rparr>)"
  ultimately show ?thesis using assms(1) by (auto simp: race_db_ok_def stored_ok_def)
qed (use assms(1) in \<open>simp add: race_db_ok_def\<close>)

lemma map_sum_Inr: "map_sum id g x = Inr y \<longleftrightarrow> (\<exists>z. x = Inr z \<and> y = g z)"
  by (cases x) auto

lemma seed_small: "uint (seed :: 32 word) \<le> 4294967295"
proof -
  have "uint seed < 2 ^ LENGTH(32)" by (rule unsigned_less)
  then show ?thesis by simp
qed

lemma snapshot_some: "racer i room = Some p \<Longrightarrow> \<exists>s. pairsRaceSnapshot room i n now = Inr s"
  by (simp add: pairsRaceSnapshot_def)

lemma join_step_ok:
  assumes "stored_ok k st" and "race_name 3 name = Inr t" and "race_join w i t now st = Inr tr"
  shows "race_ok (tr_state tr) \<and> tr_expiresAt tr = ra_expiresAt (tr_state tr)"
proof (cases "racer (ri_playerId i) (pr_state st)")
  case None
  then show ?thesis
    using assms race_name_good [OF assms(2)] joined_race_ok [OF _ None, of t w "ri_playerToken i"]
    by (auto simp: race_join_def Let_def race_transition_def stored_ok_def map_sum_Inr split: if_splits)
next
  case (Some p)
  then show ?thesis using assms
    by (auto simp: race_join_def Let_def race_transition_def stored_ok_def map_sum_Inr split: if_splits)
qed

lemma stored_action:
  assumes "stored_ok k st"
  obtains room' err where "applyPairsRaceAction (pr_state st) i a now (uint (seed :: 32 word)) = Inr (room', err)"
    "race_ok room'" "ra_roomId room' = ra_roomId (pr_state st)" "ra_expiresAt room' = pr_expiresAt st"
    "map rr_id (ra_players room') = map rr_id (ra_players (pr_state st))"
proof -
  have "race_ok (pr_state st)" "ra_expiresAt (pr_state st) = pr_expiresAt st" using assms by (simp_all add: stored_ok_def)
  then show thesis
    using race_action_ok [OF _ _ seed_small [of seed], of "pr_state st" i a now] that by fastforce
qed

lemma apply_ok:
  assumes "stored_ok k st" and "race_apply w i now (uint (seed :: 32 word)) st = Inr tr"
  shows "race_ok (tr_state tr) \<and> tr_expiresAt tr = ra_expiresAt (tr_state tr)"
proof -
  obtain room' err where "applyPairsRaceAction (pr_state st) (ri_playerId i) (ri_action i) now (uint seed) = Inr (room', err)"
    "race_ok room'" by (rule stored_action [OF assms(1)])
  then show ?thesis using assms
    by (auto simp: race_apply_def Let_def race_transition_def stored_ok_def map_sum_Inr split: if_splits)
qed

lemma allocate_ok:
  assumes "race_db_ok db" and "\<And>i. race_ok (mk i)"
  shows "race_db_ok (fst (allocate_race n mk w db))"
  using assms(1)
proof (induction n arbitrary: w db)
  case (Suc n)
  obtain i w' where r: "createMultiplayerRoomId w = (i, w')" by fastforce
  show ?case
  proof (cases "db_rooms db (RACE_KIND, i)")
    case None
    then show ?thesis using r Suc.prems assms(2)
      by (auto simp: createPostgresRoom_def Let_def race_db_ok_def stored_ok_def)
  next
    case (Some st)
    then show ?thesis using r Suc.IH [OF Suc.prems] by (simp add: createPostgresRoom_def)
  qed
qed simp

lemma create_race_ok:
  assumes "race_db_ok db"
  shows "race_db_ok (fst (createPairsRace n name w db))"
proof (cases "race_name n name")
  case (Inr t)
  obtain tok w1 i w2 where w: "createMultiplayerCredential w = (tok, w1)" "randomUUID w1 = (i, w2)" by fastforce
  have "race_db_ok (fst (allocate_race 5 (new_race (wall_clock w2) n (new_racer w2 i t tok)) w2 db))"
    by (rule allocate_ok [OF assms new_race_ok [OF Inr]])
  then show ?thesis
    by (auto simp: createPairsRace_def Inr w Let_def split: prod.splits option.splits sum.splits)
qed (use assms in \<open>simp add: createPairsRace_def\<close>)

lemma join_race_ok:
  assumes "race_db_ok db"
  shows "race_db_ok (fst (joinPairsRace i name clk w db))"
proof (cases "race_name 3 name")
  case (Inr t)
  have "race_db_ok (fst (attempt_transition clk (RACE_KIND, ri_roomId i) None (race_join w i t (wall_clock w)) db))"
    by (rule attempt_ok [OF assms join_step_ok [OF _ Inr]])
  then show ?thesis by (auto simp: joinPairsRace_def Inr split: prod.splits option.splits sum.splits)
qed (use assms in \<open>simp add: joinPairsRace_def\<close>)

lemma command_race_ok:
  assumes "race_db_ok db"
  shows "race_db_ok (fst (commandPairsRace json i clk seed w db))"
proof -
  have "race_db_ok (fst (attempt_transition clk (RACE_KIND, ri_roomId i)
      (Some \<lparr>pa_id = ri_actionId i, pa_fingerprint = sha256_hex w (json i)\<rparr>) (race_apply w i (wall_clock w) (uint seed)) db))"
    by (rule attempt_ok [OF assms apply_ok])
  then show ?thesis by (auto simp: commandPairsRace_def split: prod.splits option.splits sum.splits)
qed

lemma run_races_ok: "race_db_ok db \<Longrightarrow> race_db_ok (fold (run_race json) calls db)"
proof (induction calls arbitrary: db)
  case (Cons c calls)
  obtain w clk a where c: "c = (w, clk, a)" by (cases c)
  have "race_db_ok (run_race json c db)"
    by (cases a) (simp_all add: c create_race_ok join_race_ok command_race_ok Cons.prems)
  then show ?case using Cons.IH by simp
qed simp

lemma no_races_ok: "no_races db \<Longrightarrow> race_db_ok db"
  by (simp add: no_races_def race_db_ok_def)

lemma wins_of_finished:
  assumes "race_ok room" and "p \<in> set (ra_players room)"
  shows "rr_wins p \<le> 2 \<and> (rr_wins p = 2 \<longleftrightarrow> ra_phase room = RaceFinished \<and> ra_winnerId room = Some (rr_id p))"
proof (cases "ra_phase room = RaceFinished")
  case True
  obtain q where q: "q \<in> set (ra_players room)" "ra_winnerId room = Some (rr_id q)" "rr_wins q = 2"
    "\<forall>r\<in>set (ra_players room). rr_id r \<noteq> rr_id q \<longrightarrow> rr_wins r \<le> 1"
    using assms(1) True by (auto simp: race_ok_def score_fine_def)
  show ?thesis
  proof (cases "rr_id p = rr_id q")
    case same: True
    have "distinct (map rr_id (ra_players room))" using assms(1) by (simp add: race_ok_def)
    then have "p = q" using same assms(2) q(1) by (auto simp: distinct_map inj_on_def)
    then show ?thesis using q True by simp
  next
    case False
    then have "rr_wins p \<le> 1" using q(4) assms(2) by blast
    then show ?thesis using False q(2) by simp
  qed
next
  case False
  then have "rr_wins p \<le> 1"
    using assms by (cases "ra_phase room") (auto simp: race_ok_def score_fine_def)
  then show ?thesis using False by simp
qed

text \<open>C10. Whatever is created, joined and sent, in whatever order and at
  whatever times, each stored race has at most two players with different ids, nobody has more than
  two wins, a player has two exactly when the race is finished and they are its winner, and a round
  being played is the first, second or third, is numbered by the wins so far and has both players on
  the same layout.\<close>

theorem pairs_race_is_best_of_three:
  assumes "no_races db" and "db_rooms (fold (run_race json) calls db) (RACE_KIND, i) = Some stored"
    and "room = pr_state stored"
  shows "length (ra_players room) \<le> 2 \<and> distinct (map rr_id (ra_players room)) \<and>
         (\<forall>p\<in>set (ra_players room). rr_wins p \<le> 2 \<and>
            (rr_wins p = 2 \<longleftrightarrow> ra_phase room = RaceFinished \<and> ra_winnerId room = Some (rr_id p))) \<and>
         (ra_phase room = RacePlaying \<longrightarrow>
            1 \<le> ra_round room \<and> ra_round room \<le> 3 \<and> ra_round room = Suc (sum_list (map rr_wins (ra_players room))) \<and>
            (\<exists>cards. \<forall>p\<in>set (ra_players room). \<exists>g. rr_game p = Some g \<and> pairs_cards g = cards))"
proof -
  have ok: "race_ok room"
    using run_races_ok [OF no_races_ok [OF assms(1)], of json calls] assms(2,3) by (simp add: race_db_ok_def stored_ok_def)
  have playing: "1 \<le> ra_round room \<and> ra_round room \<le> 3 \<and> ra_round room = Suc (sum_list (map rr_wins (ra_players room))) \<and>
      (\<exists>cards. \<forall>p\<in>set (ra_players room). \<exists>g. rr_game p = Some g \<and> pairs_cards g = cards)"
    if ph: "ra_phase room = RacePlaying"
  proof -
    have l: "length (ra_players room) = 2" using ok ph by (simp add: race_ok_def score_fine_def)
    obtain a b where ab: "ra_players room = [a, b]" using two_racers [OF ok l] by blast
    have "rr_wins a \<le> 1" "rr_wins b \<le> 1" "ra_round room = Suc (sum_list (map rr_wins (ra_players room)))"
      using ok ph by (simp_all add: race_ok_def score_fine_def ab)
    moreover have "\<exists>cards. \<forall>p\<in>set (ra_players room). \<exists>g. rr_game p = Some g \<and> pairs_cards g = cards"
      using ok ph by (simp add: race_ok_def score_fine_def same_layout_def racer_cards_def)
    moreover have "ra_round room \<le> 3" using calculation(1-3) by (simp add: ab)
    ultimately show ?thesis by simp
  qed
  show ?thesis
  proof (intro conjI ballI impI)
    show "length (ra_players room) \<le> 2" "distinct (map rr_id (ra_players room))" using ok by (simp_all add: race_ok_def)
  qed (use wins_of_finished [OF ok] playing in blast)+
qed

section \<open>A command is answered\<close>

lemma apply_answers:
  assumes "stored_ok k st"
  shows "\<exists>t. race_apply w i now (uint (seed :: 32 word)) st = Inr t \<and> tr_expiresAt t = pr_expiresAt st \<and> tr_results t = []"
proof (cases "race_authenticate w (pr_state st) i")
  case True
  obtain room' err where r: "applyPairsRaceAction (pr_state st) (ri_playerId i) (ri_action i) now (uint seed) = Inr (room', err)"
    "ra_expiresAt room' = pr_expiresAt st" "map rr_id (ra_players room') = map rr_id (ra_players (pr_state st))"
    by (rule stored_action [OF assms])
  have "ri_playerId i \<in> set (map rr_id (ra_players (pr_state st)))"
    using True by (force simp: race_authenticate_def list_ex_iff)
  then have "ri_playerId i \<in> set (map rr_id (ra_players room'))" using r(3) by simp
  then obtain p where "racer (ri_playerId i) room' = Some p"
    unfolding racer_def by (cases "find (\<lambda>p. rr_id p = ri_playerId i) (ra_players room')") (auto simp: find_None_iff)
  then show ?thesis using True r(1,2) by (simp add: race_apply_def Let_def pairsRaceSnapshot_def race_transition_def)
next
  case False
  then show ?thesis using assms by (simp add: race_apply_def Let_def race_transition_def stored_ok_def)
qed

lemma attempt_throws:
  assumes "\<And>st. readPostgresRoom clk key db = Some st \<Longrightarrow>
      \<exists>t. f st = Inr t \<and> clk < tr_expiresAt t \<and> tr_results t = []"
    and "snd (attempt_transition clk key (Some a) f db) = Inl e"
  shows "e = RaceStoreThrew RoomActionConflict \<and> fst (attempt_transition clk key (Some a) f db) = db \<and>
         (\<exists>rc. db_receipts db (fst key, snd key, pa_id a) = Some rc \<and> rc_fingerprint rc \<noteq> pa_fingerprint a)"
proof (cases "readPostgresRoom clk key db")
  case None
  then show ?thesis using assms(2)
    by (cases "stored_receipt key (Some a) db = None") (simp_all add: attempt_transition_def transition_gone)
next
  case live: (Some st)
  obtain t where t: "f st = Inr t" "clk < tr_expiresAt t" "tr_results t = []" using assms(1) [OF live] by blast
  show ?thesis
  proof (cases "stored_receipt key (Some a) db")
    case None
    have "commit_transition clk key (Some a) t st db \<noteq> Inl e'" for e'
      using t by (simp add: commit_transition_def Let_def)
    then obtain x where "commit_transition clk key (Some a) t st db = Inr x" by (cases "commit_transition clk key (Some a) t st db") auto
    then show ?thesis
      using assms(2) live None t(1) transition_fresh [OF live None, of "\<lambda>room. projr (f room)"]
      by (cases x) (simp add: attempt_transition_def transact_def)
  next
    case (Some rc)
    then have "db_receipts db (fst key, snd key, pa_id a) = Some rc" by (simp add: stored_receipt_def)
    then show ?thesis
      using assms(2) Some transition_replay [OF live Some, of "\<lambda>room. projr (f room)"]
      by (auto simp: attempt_transition_def split: if_splits)
  qed
qed

text \<open>C32. Whatever has been stored, a command of whoever it is with whatever it
  asks for is answered: nothing is thrown, neither by the rules nor by the deal nor by the snapshot,
  except when an action id is sent again with another input, and then nothing is written.\<close>

theorem pairs_command_is_answered:
  assumes "no_races db" and "db1 = fold (run_race json) calls db"
    and "snd (commandPairsRace json i clk seed w db1) = Inl e"
  shows "e = RaceStoreThrew RoomActionConflict \<and> fst (commandPairsRace json i clk seed w db1) = db1 \<and>
         (\<exists>rc. db_receipts db1 (RACE_KIND, ri_roomId i, ri_actionId i) = Some rc \<and>
            rc_fingerprint rc \<noteq> sha256_hex w (json i))"
proof -
  let ?a = "\<lparr>pa_id = ri_actionId i, pa_fingerprint = sha256_hex w (json i)\<rparr>"
  let ?f = "race_apply w i (wall_clock w) (uint seed)"
  obtain db' res where r: "attempt_transition clk (RACE_KIND, ri_roomId i) (Some ?a) ?f db1 = (db', res)" by fastforce
  have ok: "race_db_ok db1" unfolding assms(2) by (rule run_races_ok [OF no_races_ok [OF assms(1)]])
  have res: "res = Inl e" "fst (commandPairsRace json i clk seed w db1) = db'"
    using assms(3) r by (auto simp: commandPairsRace_def split: sum.splits option.splits)
  have f: "\<exists>t. ?f st = Inr t \<and> clk < tr_expiresAt t \<and> tr_results t = []"
    if "readPostgresRoom clk (RACE_KIND, ri_roomId i) db1 = Some st" for st
    using live_stored [OF ok that] apply_answers [of "ri_roomId i" st w i "wall_clock w" seed] by fastforce
  have "snd (attempt_transition clk (RACE_KIND, ri_roomId i) (Some ?a) ?f db1) = Inl e" using r res(1) by simp
  from attempt_throws [OF f this] show ?thesis using r res(2) by simp
qed

section \<open>What a phone is shown\<close>

text \<open>The cards of a racer that lie face up.\<close>

definition face_up :: "int \<Rightarrow> pairs_racer \<Rightarrow> nat set" where
  "face_up now p =
     (case rr_game p of None \<Rightarrow> {} | Some g \<Rightarrow> set (matched g) \<union> (if reviewed now p then {} else set (selected g)))"

text \<open>Two racers with the same game but for the cards that lie face down and what an undo would restore.\<close>

definition same_table :: "int \<Rightarrow> pairs_racer \<Rightarrow> pairs_racer \<Rightarrow> bool" where
  "same_table now p q \<longleftrightarrow>
     (case (rr_game p, rr_game q) of
        (None, None) \<Rightarrow> True
      | (Some g, Some h) \<Rightarrow>
          pairs_turn.truncate g = pairs_turn.truncate h \<and> pairs_names g = pairs_names h \<and>
          length (pairs_cards g) = length (pairs_cards h) \<and> reviewed now p = reviewed now q \<and>
          (\<forall>k\<in>face_up now p. k < length (pairs_cards g) \<longrightarrow> pairs_cards g ! k = pairs_cards h ! k)
      | _ \<Rightarrow> False)"

text \<open>
  Two rooms that agree on what is public and on the table of one player; of the other player only the
  row of the score.
\<close>

definition same_shown :: "js_string \<Rightarrow> int \<Rightarrow> pairs_race \<Rightarrow> pairs_race \<Rightarrow> bool" where
  "same_shown i now r r' \<longleftrightarrow>
     (ra_roomId r, ra_expiresAt r, ra_pairCount r, ra_phase r, ra_round r, ra_winnerId r, ra_conceded r, ra_startsAt r) =
     (ra_roomId r', ra_expiresAt r', ra_pairCount r', ra_phase r', ra_round r', ra_winnerId r', ra_conceded r', ra_startsAt r') \<and>
     map race_row_of (ra_players r) = map race_row_of (ra_players r') \<and>
     rel_option (same_table now) (racer i r) (racer i r')"

lemma turn_eq:
  assumes "pairs_turn.truncate g = pairs_turn.truncate (h :: pairs_game)"
  shows "matched g = matched h" "selected g = selected h" "scores g = scores h" "turn g = turn h" "tries g = tries h"
    "pairs_phase g = pairs_phase h" "outcome g = outcome h"
  using assms by (simp_all add: pairs_turn.truncate_def)

lemma masked_eq:
  assumes "matched g = matched h" and "selected g = selected h" and "length (pairs_cards g) = length (pairs_cards h)"
    and "\<forall>k\<in>set (matched g) \<union> set (selected g). k < length (pairs_cards g) \<longrightarrow> pairs_cards g ! k = pairs_cards h ! k"
  shows "masked_cards g = masked_cards h"
  using assms by (intro nth_equalityI) (auto simp: masked_cards_def nth_enumerate_eq)

lemma same_private:
  assumes "same_table now p q"
  shows "private_game now p = private_game now q"
proof (cases "rr_game p")
  case None
  then show ?thesis using assms by (simp add: same_table_def private_game_def split: option.splits)
next
  case (Some g)
  then obtain h where h: "rr_game q = Some h" using assms by (auto simp: same_table_def split: option.splits)
  have e: "pairs_turn.truncate g = pairs_turn.truncate h" "pairs_names g = pairs_names h"
    "length (pairs_cards g) = length (pairs_cards h)" "reviewed now p = reviewed now q"
    "\<forall>k\<in>face_up now p. k < length (pairs_cards g) \<longrightarrow> pairs_cards g ! k = pairs_cards h ! k"
    using assms Some h by (simp_all add: same_table_def)
  note t = turn_eq [OF e(1)]
  show ?thesis
  proof (cases "reviewed now p")
    case True
    have p: "pairs_phase g = PairsReview" using True Some by (simp add: reviewed_def)
    have c: "continued k = k\<lparr>turn := (if outcome k = Some PairsMiss then next_turn k else turn k), selected := [],
          pairs_phase := (if length (matched k) = length (pairs_cards k) then PairsFinished else PairsPlaying),
          outcome := None\<rparr>" if "pairs_phase k = PairsReview" for k
      using that by (simp add: continued_def applyPairsAction_def pairs_continue_def)
    have m: "masked_cards (continued g) = masked_cards (continued h)"
      using p t e Some True by (intro masked_eq) (simp_all add: c face_up_def)
    have "(continued g)\<lparr>pairs_cards := masked_cards (continued g), previous := None\<rparr> =
        (continued h)\<lparr>pairs_cards := masked_cards (continued h), previous := None\<rparr>"
      unfolding m using p t e(2,3)
      by (intro pairs_game.equality) (simp_all add: c next_turn_def)
    then show ?thesis using Some h True e(4) by (simp add: private_game_def Let_def)
  next
    case False
    have m: "masked_cards g = masked_cards h"
      using t e(3,5) Some False by (intro masked_eq) (simp_all add: face_up_def)
    have "g\<lparr>pairs_cards := masked_cards g, previous := None\<rparr> = h\<lparr>pairs_cards := masked_cards h, previous := None\<rparr>"
      unfolding m using t e(2) by (intro pairs_game.equality) simp_all
    then show ?thesis using Some h False e(4) by (simp add: private_game_def Let_def)
  qed
qed

text \<open>C18. What a phone is shown depends on nothing of its own layout but the
  cards that lie face up at that moment, and on nothing of the other player's table but the pairs and
  tries of the score: two rooms that agree on these give the same snapshot, even where the stored room
  still has the cards of a review that has run out.\<close>

theorem pairs_snapshot_hides_cards:
  assumes "same_shown i now r r'"
  shows "pairsRaceSnapshot r i n now = pairsRaceSnapshot r' i n now"
proof (cases "racer i r")
  case None
  then show ?thesis using assms by (auto simp: same_shown_def pairsRaceSnapshot_def)
next
  case (Some p)
  have e: "(ra_roomId r, ra_expiresAt r, ra_pairCount r, ra_phase r, ra_round r, ra_winnerId r, ra_conceded r, ra_startsAt r) =
     (ra_roomId r', ra_expiresAt r', ra_pairCount r', ra_phase r', ra_round r', ra_winnerId r', ra_conceded r', ra_startsAt r')"
    "map race_row_of (ra_players r) = map race_row_of (ra_players r')" "rel_option (same_table now) (racer i r) (racer i r')"
    using assms by (auto simp: same_shown_def)
  then obtain q where "racer i r' = Some q" "same_table now p q" using Some by (auto simp: option_rel_Some1)
  then show ?thesis using e(1,2) Some same_private [of now p q] by (simp add: pairsRaceSnapshot_def)
qed

end
