(* ===== verification/PairsRaceSamples.thy ===== *)
theory PairsRaceSamples
  imports PairsRaceFacts
begin

text \<open>
  Races to which the claims about the race of Pairs are applied: Ann opens a table, Bo joins, both are
  ready, the first round begins, and Ann finds the kings.
\<close>

definition no_db :: race_db where
  "no_db = \<lparr>db_rooms = (\<lambda>_. None), db_receipts = (\<lambda>_. None), db_outbox = (\<lambda>_. None)\<rparr>"

lemma no_races_no_db: "no_races no_db"
  by (simp add: no_races_def no_db_def)

definition ann_sends :: "js_string \<Rightarrow> race_action \<Rightarrow> race_command" where
  "ann_sends i a = \<lparr>ri_roomId = ''AAAAAAA'', ri_playerId = ''u0'', ri_playerToken = ''t0'', ri_actionId = i, ri_action = a\<rparr>"

definition bo_sends :: "js_string \<Rightarrow> race_action \<Rightarrow> race_command" where
  "bo_sends i a = \<lparr>ri_roomId = ''AAAAAAA'', ri_playerId = ''b'', ri_playerToken = ''tb'', ri_actionId = i, ri_action = a\<rparr>"

definition sample_calls :: "(services \<times> int \<times> race_call) list" where
  "sample_calls = map (\<lambda>(t, c). (test_services\<lparr>wall_clock := t\<rparr>, t, c))
     [(0, CallCreate 3 ''Ann''),
      (1000, CallJoin \<lparr>ri_roomId = ''AAAAAAA'', ri_playerId = ''b'', ri_playerToken = ''tb''\<rparr> ''Bo''),
      (2000, CallCommand (ann_sends ''1'' (RaceReady True)) 0),
      (3000, CallCommand (bo_sends ''2'' (RaceReady True)) 0),
      (4000, CallCommand (bo_sends ''3'' RaceBegin) 7),
      (8000, CallCommand (ann_sends ''4'' (RaceFlip (Some 2) 1)) 0),
      (8000, CallCommand (ann_sends ''5'' (RaceFlip (Some 3) 1)) 0)]"

definition sample_racer :: "js_string \<Rightarrow> js_string \<Rightarrow> pairs_game \<Rightarrow> int \<Rightarrow> pairs_racer" where
  "sample_racer i name g t =
     \<lparr>rr_id = i, rr_name = name, rr_tokenHash = replicate 64 (CHR ''0''), rr_ready = False, rr_wins = 0,
      rr_game = Some g, rr_unlockAt = t\<rparr>"

definition sample_race :: pairs_race where
  "sample_race =
     (let g = sample_pairs\<lparr>scores := [0], pairs_names := [''Bo'']\<rparr> in
      \<lparr>ra_roomId = ''AAAAAAA'', ra_expiresAt = 21600000, ra_pairCount = 3, ra_phase = RacePlaying, ra_round = 1,
       ra_players =
         [sample_racer ''u0'' ''Ann''
            (g\<lparr>matched := [2, 3], selected := [2, 3], scores := [1], tries := 1, pairs_phase := PairsReview,
               outcome := Some PairsMatch, pairs_names := [''Ann''], previous := Some (checkpoint g)\<rparr>) 9300,
          sample_racer ''b'' ''Bo'' g 0],
       ra_winnerId = None, ra_conceded = False, ra_startsAt = 7000\<rparr>)"

lemma sample_race_stored:
  "db_rooms (fold (run_race (\<lambda>_. [])) sample_calls no_db) (RACE_KIND, ''AAAAAAA'') =
     Some \<lparr>pr_schemaVersion = 1, pr_revision = 7, pr_state = sample_race, pr_expiresAt = 21600000\<rparr>"
  by code_simp

theorem pairs_race_is_best_of_three_witness:
  "1 \<le> ra_round sample_race \<and> ra_round sample_race \<le> 3 \<and>
     ra_round sample_race = Suc (sum_list (map rr_wins (ra_players sample_race)))"
proof -
  have "ra_phase sample_race = RacePlaying" by (simp add: sample_race_def Let_def)
  then show ?thesis
    using pairs_race_is_best_of_three [OF no_races_no_db sample_race_stored, of sample_race] by simp
qed

text \<open>Ann sends her second message under the id of the first.\<close>

definition padded :: "js_string \<Rightarrow> js_string" where
  "padded s = take 64 (s @ replicate 64 (CHR ''0''))"

definition tagged :: "race_command \<Rightarrow> js_string" where
  "tagged c = (case ri_action c of RaceReady b \<Rightarrow> (if b then ''1'' else ''2'') | _ \<Rightarrow> ''3'')"

definition padded_services :: services where
  "padded_services = test_services\<lparr>sha256_hex := padded\<rparr>"

definition reused_calls :: "(services \<times> int \<times> race_call) list" where
  "reused_calls = [(padded_services, 0, CallCreate 3 ''Ann''),
     (padded_services, 0, CallCommand (ann_sends ''1'' (RaceReady True)) 0)]"

lemma reused_id_conflicts:
  "snd (commandPairsRace tagged (ann_sends ''1'' (RaceReady False)) 0 0 padded_services
          (fold (run_race tagged) reused_calls no_db)) = Inl (RaceStoreThrew RoomActionConflict)"
  by code_simp

theorem pairs_command_is_answered_witness:
  "fst (commandPairsRace tagged (ann_sends ''1'' (RaceReady False)) 0 0 padded_services
          (fold (run_race tagged) reused_calls no_db)) = fold (run_race tagged) reused_calls no_db"
  using pairs_command_is_answered [OF no_races_no_db refl reused_id_conflicts] by blast

text \<open>The room with Ann's queen and ace exchanged and Bo on another layout.\<close>

definition other_race :: pairs_race where
  "other_race = sample_race\<lparr>ra_players := map (\<lambda>p. p\<lparr>rr_game := map_option
     (\<lambda>g. g\<lparr>pairs_cards := (if rr_id p = ''b'' then rotate1 (pairs_cards g)
        else (pairs_cards g)[0 := pairs_cards g ! 1, 1 := pairs_cards g ! 0]), previous := None\<rparr>) (rr_game p)\<rparr>)
     (ra_players sample_race)\<rparr>"

lemma sample_same_shown: "same_shown ''u0'' 9000 sample_race other_race"
  by code_simp

theorem pairs_snapshot_hides_cards_witness:
  "pairsRaceSnapshot sample_race ''u0'' 7 9000 = pairsRaceSnapshot other_race ''u0'' 7 9000 \<and> sample_race \<noteq> other_race"
proof
  show "pairsRaceSnapshot sample_race ''u0'' 7 9000 = pairsRaceSnapshot other_race ''u0'' 7 9000"
    by (rule pairs_snapshot_hides_cards [OF sample_same_shown])
  show "sample_race \<noteq> other_race" by code_simp
qed

end
