(* ===== verification/TicketStore.thy ===== *)
theory TicketStore
  imports Multiplayer "HOL-Library.Char_ord" "HOL-Library.List_Lexorder"
begin

text \<open>
  Tickets as the database keeps them (\<^verbatim>\<open>features/tickets/store.server.ts\<close>, \<^verbatim>\<open>capacity.server.ts\<close>): the
  tables a ticket touches, issuance under the capacity of its type and its event, redemption, refunds
  and disputes. A transaction is one function on the tables, since the row locks put the transactions
  on an event in a sequence; \<^verbatim>\<open>now()\<close> is an argument. A violated constraint throws: \<^verbatim>\<open>None\<close>, and the
  tables are what they were.
\<close>

section \<open>Tables\<close>

datatype ticket_status = TicketValid | TicketVoid | TicketRefunded

datatype ticket_kind = PaidTicket | FreeTicket | CompTicket

record ticket_row =
  tk_id :: js_string
  tk_accessReference :: "js_string option"
  tk_eventSlug :: js_string
  tk_ticketTypeId :: js_string
  tk_kind :: ticket_kind
  tk_status :: ticket_status
  tk_holderName :: js_string
  tk_email :: "js_string option"
  tk_emailHash :: "js_string option"
  tk_orderId :: js_string
  tk_parentTicketId :: "js_string option"
  tk_issuedAt :: int
  tk_redeemedAt :: "int option"
  tk_redeemedBy :: "js_string option"
  tk_redeemedOffline :: "bool option"
  tk_paymentRef :: "js_string option"
  tk_checkoutRef :: "js_string option"
  tk_amountPaidMinor :: "int option"
  tk_currency :: "js_string option"
  tk_refundedAt :: "int option"
  tk_refundRef :: "js_string option"
  tk_notes :: "js_string option"

datatype event_status = EventDraft | EventPublished | EventSoldOut | EventCancelled | EventArchived

record event_row =
  ev_slug :: js_string
  ev_capacity :: "int option"
  ev_status :: event_status
  ev_startsAt :: int
  ev_endsAt :: "int option"

record type_row =
  ty_eventSlug :: js_string
  ty_id :: js_string
  ty_quantity :: int
  ty_perPersonLimit :: int
  ty_salesStart :: "int option"
  ty_salesEnd :: "int option"
  ty_hidden :: bool

record checkout_row =
  co_eventSlug :: js_string
  co_ticketTypeId :: js_string
  co_quantity :: nat
  co_emailHash :: js_string
  co_reference :: "js_string option"
  co_status :: js_string
  co_expiresAt :: "int option"

record exchange_row =
  ex_id :: js_string
  ex_ticketId :: js_string
  ex_orderId :: js_string
  ex_eventSlug :: js_string
  ex_toTicketTypeId :: js_string
  ex_status :: js_string

record transfer_row =
  tf_ticketId :: js_string
  tf_status :: js_string

record participant_row =
  pt_ticketId :: js_string
  pt_status :: js_string
  pt_checkedInAt :: "int option"

record ticket_db =
  events_tb :: "event_row list"
  types_tb :: "type_row list"
  tickets_tb :: "ticket_row list"
  checkouts_tb :: "checkout_row list"
  exchanges_tb :: "exchange_row list"
  transfers_tb :: "transfer_row list"
  participants_tb :: "participant_row list"

text \<open>\<^verbatim>\<open>/^[0-9A-HJKMNP-TV-Z]{16}$/\<close>.\<close>

definition ticket_char :: "char \<Rightarrow> bool" where
  "ticket_char c \<longleftrightarrow> c \<in> set ''0123456789ABCDEFGHJKMNPQRSTVWXYZ''"

definition isValidTicketId :: "js_string \<Rightarrow> bool" where
  "isValidTicketId s \<longleftrightarrow> length s = 16 \<and> list_all ticket_char s"

definition ticket_by_id :: "js_string \<Rightarrow> ticket_db \<Rightarrow> ticket_row option" where
  "ticket_by_id i db = find (\<lambda>t. tk_id t = i) (tickets_tb db)"

text \<open>\<^verbatim>\<open>update tickets set ... where ...\<close>, and the same of the participants.\<close>

definition update_tickets :: "(ticket_row \<Rightarrow> bool) \<Rightarrow> (ticket_row \<Rightarrow> ticket_row) \<Rightarrow> ticket_db \<Rightarrow> ticket_db" where
  "update_tickets P f db = db\<lparr>tickets_tb := map (\<lambda>t. if P t then f t else t) (tickets_tb db)\<rparr>"

definition update_participants ::
  "(participant_row \<Rightarrow> bool) \<Rightarrow> (participant_row \<Rightarrow> participant_row) \<Rightarrow> ticket_db \<Rightarrow> ticket_db" where
  "update_participants P f db = db\<lparr>participants_tb := map (\<lambda>p. if P p then f p else p) (participants_tb db)\<rparr>"

definition set_participants :: "js_string list \<Rightarrow> js_string \<Rightarrow> ticket_db \<Rightarrow> ticket_db" where
  "set_participants ids st = update_participants (\<lambda>p. pt_ticketId p \<in> set ids) (\<lambda>p. p\<lparr>pt_status := st\<rparr>)"

section \<open>Capacity\<close>

definition active_checkout_hold :: "int \<Rightarrow> checkout_row \<Rightarrow> bool" where
  "active_checkout_hold now c \<longleftrightarrow>
     (co_status c \<in> {''creating'', ''pending''} \<and> (case co_expiresAt c of None \<Rightarrow> False | Some e \<Rightarrow> now < e)) \<or>
     co_status c \<in> {''payment_pending'', ''fulfilling'', ''payment_mismatch''}"

definition active_exchange_hold :: "exchange_row \<Rightarrow> bool" where
  "active_exchange_hold x \<longleftrightarrow> ex_status x \<in> {''processing'', ''awaiting_payment'', ''refund_pending''}"

text \<open>\<^verbatim>\<open>$n::text is null or column = $n\<close>.\<close>

definition any_or :: "'a option \<Rightarrow> 'a \<Rightarrow> bool" where
  "any_or wanted v \<longleftrightarrow> wanted = None \<or> wanted = Some v"

definition countCheckoutHolds ::
  "int \<Rightarrow> js_string \<Rightarrow> js_string option \<Rightarrow> js_string option \<Rightarrow> js_string option \<Rightarrow> ticket_db \<Rightarrow> nat" where
  "countCheckoutHolds now slug typeId emailHash excludeReference db =
     sum_list (map co_quantity (filter (\<lambda>c. co_eventSlug c = slug \<and> any_or typeId (co_ticketTypeId c) \<and>
        any_or emailHash (co_emailHash c) \<and> (excludeReference = None \<or> co_reference c \<noteq> excludeReference) \<and>
        active_checkout_hold now c) (checkouts_tb db)))"

definition countExchangeHolds ::
  "js_string \<Rightarrow> js_string option \<Rightarrow> js_string option \<Rightarrow> js_string option \<Rightarrow> js_string option \<Rightarrow> ticket_db \<Rightarrow> nat" where
  "countExchangeHolds slug typeId emailHash orderId excludeExchangeId db =
     length (filter (\<lambda>x. ex_eventSlug x = slug \<and> any_or typeId (ex_toTicketTypeId x) \<and>
        (case ticket_by_id (ex_ticketId x) db of
           None \<Rightarrow> False
         | Some t \<Rightarrow> emailHash = None \<or> tk_emailHash t = emailHash) \<and>
        any_or orderId (ex_orderId x) \<and> (excludeExchangeId = None \<or> excludeExchangeId \<noteq> Some (ex_id x)) \<and>
        active_exchange_hold x) (exchanges_tb db))"

definition sold_where :: "(ticket_row \<Rightarrow> bool) \<Rightarrow> ticket_db \<Rightarrow> nat" where
  "sold_where P db = length (filter (\<lambda>t. P t \<and> tk_status t = TicketValid) (tickets_tb db))"

definition of_type :: "js_string \<Rightarrow> js_string \<Rightarrow> ticket_row \<Rightarrow> bool" where
  "of_type slug typeId t \<longleftrightarrow> tk_eventSlug t = slug \<and> tk_ticketTypeId t = typeId"

definition sold_of_type :: "js_string \<Rightarrow> js_string \<Rightarrow> ticket_db \<Rightarrow> nat" where
  "sold_of_type slug typeId = sold_where (of_type slug typeId)"

definition sold_of_event :: "js_string \<Rightarrow> ticket_db \<Rightarrow> nat" where
  "sold_of_event slug = sold_where (\<lambda>t. tk_eventSlug t = slug)"

section \<open>The sales window\<close>

datatype sales_state = OnSale | NotYet int | SalesClosed | SalesSoldOut | SalesCancelled

definition isUpcoming :: "event_row \<Rightarrow> int \<Rightarrow> bool" where
  "isUpcoming e now \<longleftrightarrow> now \<le> nullish (ev_endsAt e) (ev_startsAt e)"

text \<open>The dates are timestamps of the database, which \<^verbatim>\<open>Date.parse\<close> reads back.\<close>

definition ticketTypeSalesState :: "event_row \<Rightarrow> type_row \<Rightarrow> int \<Rightarrow> int \<Rightarrow> sales_state" where
  "ticketTypeSalesState e ty sold now =
     (if ev_status e = EventCancelled then SalesCancelled
      else if ev_status e = EventSoldOut then SalesSoldOut
      else if \<not> isUpcoming e now then SalesClosed
      else case ty_salesStart ty of
        Some opens \<Rightarrow>
          (if now < opens then NotYet opens
           else if (case ty_salesEnd ty of None \<Rightarrow> False | Some closes \<Rightarrow> closes < now) then SalesClosed
           else if ty_quantity ty \<le> sold then SalesSoldOut else OnSale)
      | None \<Rightarrow>
          (if (case ty_salesEnd ty of None \<Rightarrow> False | Some closes \<Rightarrow> closes < now) then SalesClosed
           else if ty_quantity ty \<le> sold then SalesSoldOut else OnSale))"

section \<open>Issuance\<close>

record new_ticket =
  nt_id :: js_string
  nt_holderName :: js_string
  nt_parentTicketId :: "js_string option"
  nt_amountPaidMinor :: "int option"

record issue_input =
  is_eventSlug :: js_string
  is_ticketTypeId :: js_string
  is_kind :: ticket_kind
  is_orderId :: js_string
  is_email :: "js_string option"
  is_emailHash :: "js_string option"
  is_paymentRef :: "js_string option"
  is_checkoutRef :: "js_string option"
  is_capacityHoldReference :: "js_string option"
  is_amountPaidMinor :: "int option"
  is_currency :: "js_string option"
  is_notes :: "js_string option"
  is_bypassCapacity :: bool
  is_enforceSalesWindow :: bool

datatype issue_outcome =
  IssuedTickets "ticket_row list"
| IssueSoldOut int
| IssuePerPersonLimit int
| IssueNotOnSale
| IssueUnknownType

definition inserted_row :: "int \<Rightarrow> issue_input \<Rightarrow> new_ticket \<Rightarrow> ticket_row" where
  "inserted_row now i n =
     \<lparr>tk_id = nt_id n, tk_accessReference = None, tk_eventSlug = is_eventSlug i, tk_ticketTypeId = is_ticketTypeId i,
      tk_kind = is_kind i, tk_status = TicketValid, tk_holderName = nt_holderName n, tk_email = is_email i,
      tk_emailHash = is_emailHash i, tk_orderId = is_orderId i, tk_parentTicketId = nt_parentTicketId n,
      tk_issuedAt = now, tk_redeemedAt = None, tk_redeemedBy = None, tk_redeemedOffline = None,
      tk_paymentRef = is_paymentRef i, tk_checkoutRef = is_checkoutRef i,
      tk_amountPaidMinor = (case nt_amountPaidMinor n of None \<Rightarrow> is_amountPaidMinor i | Some a \<Rightarrow> Some a),
      tk_currency = is_currency i, tk_refundedAt = None, tk_refundRef = None, tk_notes = is_notes i\<rparr>"

text \<open>The primary key, and the parent that has to be a ticket of the same event.\<close>

definition insertable :: "ticket_row \<Rightarrow> ticket_row list \<Rightarrow> bool" where
  "insertable t ts \<longleftrightarrow>
     list_all (\<lambda>u. tk_id u \<noteq> tk_id t) ts \<and>
     (case tk_parentTicketId t of
        None \<Rightarrow> True
      | Some parent \<Rightarrow> list_ex (\<lambda>u. tk_id u = parent \<and> tk_eventSlug u = tk_eventSlug t) (ts @ [t]))"

fun insert_rows :: "ticket_row list \<Rightarrow> ticket_row list \<Rightarrow> ticket_row list option" where
  "insert_rows [] ts = Some ts"
| "insert_rows (t # rest) ts = (if insertable t ts then insert_rows rest (ts @ [t]) else None)"

definition per_person_held :: "int \<Rightarrow> issue_input \<Rightarrow> js_string \<Rightarrow> ticket_db \<Rightarrow> nat" where
  "per_person_held now i emailHash db =
     sold_where (\<lambda>t. of_type (is_eventSlug i) (is_ticketTypeId i) t \<and> tk_emailHash t = Some emailHash) db
     + countCheckoutHolds now (is_eventSlug i) (Some (is_ticketTypeId i)) (Some emailHash) (is_capacityHoldReference i) db
     + countExchangeHolds (is_eventSlug i) (Some (is_ticketTypeId i)) (Some emailHash) None None db"

definition type_remaining :: "int \<Rightarrow> issue_input \<Rightarrow> type_row \<Rightarrow> ticket_db \<Rightarrow> int" where
  "type_remaining now i ty db =
     max 0 (ty_quantity ty - int (sold_of_type (is_eventSlug i) (is_ticketTypeId i) db)
        - int (countCheckoutHolds now (is_eventSlug i) (Some (is_ticketTypeId i)) None (is_capacityHoldReference i) db)
        - int (countExchangeHolds (is_eventSlug i) (Some (is_ticketTypeId i)) None None None db))"

text \<open>\<^verbatim>\<open>None\<close> is \<^verbatim>\<open>Number.POSITIVE_INFINITY\<close>.\<close>

definition event_remaining :: "int \<Rightarrow> issue_input \<Rightarrow> event_row \<Rightarrow> ticket_db \<Rightarrow> int option" where
  "event_remaining now i e db =
     map_option (\<lambda>cap. max 0 (cap - int (sold_of_event (is_eventSlug i) db)
        - int (countCheckoutHolds now (is_eventSlug i) None None (is_capacityHoldReference i) db))) (ev_capacity e)"

definition tickets_remaining :: "int \<Rightarrow> issue_input \<Rightarrow> event_row \<Rightarrow> type_row \<Rightarrow> ticket_db \<Rightarrow> int" where
  "tickets_remaining now i e ty db =
     (case event_remaining now i e db of
        None \<Rightarrow> type_remaining now i ty db
      | Some r \<Rightarrow> min (type_remaining now i ty db) r)"

definition capacity_refusal :: "int \<Rightarrow> issue_input \<Rightarrow> nat \<Rightarrow> event_row \<Rightarrow> type_row \<Rightarrow> ticket_db \<Rightarrow> issue_outcome option" where
  "capacity_refusal now i n e ty db =
     (if is_bypassCapacity i then None
      else if (case is_emailHash i of None \<Rightarrow> False | Some h \<Rightarrow> h \<noteq> [] \<and> ty_perPersonLimit ty < int (per_person_held now i h db + n))
      then Some (IssuePerPersonLimit (ty_perPersonLimit ty))
      else if tickets_remaining now i e ty db < int n then Some (IssueSoldOut (tickets_remaining now i e ty db))
      else None)"

definition window_refusal :: "int \<Rightarrow> issue_input \<Rightarrow> event_row \<Rightarrow> type_row \<Rightarrow> issue_outcome option" where
  "window_refusal now i e ty =
     (if \<not> is_enforceSalesWindow i then None
      else if ty_hidden ty then Some IssueUnknownType
      else if ticketTypeSalesState e ty 0 now \<noteq> OnSale then Some IssueNotOnSale
      else None)"

definition insertTicketsWithCapacity ::
  "int \<Rightarrow> issue_input \<Rightarrow> new_ticket list \<Rightarrow> ticket_db \<Rightarrow> ticket_db \<times> issue_outcome option" where
  "insertTicketsWithCapacity now i newTickets db =
     (case find (\<lambda>e. ev_slug e = is_eventSlug i) (events_tb db) of
        None \<Rightarrow> (db, Some IssueUnknownType)
      | Some e \<Rightarrow>
          (case find (\<lambda>ty. ty_eventSlug ty = is_eventSlug i \<and> ty_id ty = is_ticketTypeId i) (types_tb db) of
             None \<Rightarrow> (db, Some IssueUnknownType)
           | Some ty \<Rightarrow>
               (case window_refusal now i e ty of
                  Some refused \<Rightarrow> (db, Some refused)
                | None \<Rightarrow>
                    (case capacity_refusal now i (length newTickets) e ty db of
                       Some refused \<Rightarrow> (db, Some refused)
                     | None \<Rightarrow>
                         (let rows = map (inserted_row now i) newTickets in
                          case insert_rows rows (tickets_tb db) of
                            None \<Rightarrow> (db, None)
                          | Some ts \<Rightarrow> (db\<lparr>tickets_tb := ts\<rparr>, Some (IssuedTickets rows)))))))"

section \<open>Redemption\<close>

datatype redeem_row = Claimed ticket_row | NotClaimed "ticket_row option"

definition getTicket :: "js_string \<Rightarrow> ticket_db \<Rightarrow> ticket_row option" where
  "getTicket i db =
     (if \<not> isValidTicketId i then None
      else case ticket_by_id i db of
        Some t \<Rightarrow> Some t
      | None \<Rightarrow> find (\<lambda>t. tk_accessReference t = Some i) (tickets_tb db))"

definition pending_transfer :: "js_string \<Rightarrow> ticket_db \<Rightarrow> bool" where
  "pending_transfer i db \<longleftrightarrow> list_ex (\<lambda>f. tf_ticketId f = i \<and> tf_status f = ''pending'') (transfers_tb db)"

definition redeemable :: "js_string \<Rightarrow> ticket_row \<Rightarrow> bool" where
  "redeemable i t \<longleftrightarrow> tk_id t = i \<and> tk_redeemedAt t = None \<and> tk_status t = TicketValid"

definition redeemed_row :: "int \<Rightarrow> js_string option \<Rightarrow> bool \<Rightarrow> ticket_row \<Rightarrow> ticket_row" where
  "redeemed_row now redeemedBy offline t =
     t\<lparr>tk_redeemedAt := Some now, tk_redeemedBy := redeemedBy,
       tk_redeemedOffline := (if offline then Some True else None)\<rparr>"

definition claimRedemption ::
  "int \<Rightarrow> js_string \<Rightarrow> js_string option \<Rightarrow> bool \<Rightarrow> ticket_db \<Rightarrow> ticket_db \<times> redeem_row" where
  "claimRedemption now i redeemedBy offline db =
     (if \<not> isValidTicketId i then (db, NotClaimed None)
      else if ticket_by_id i db = None \<or> pending_transfer i db \<or> \<not> list_ex (redeemable i) (tickets_tb db)
      then (db, NotClaimed (ticket_by_id i db))
      else
      let db1 = update_tickets (redeemable i) (redeemed_row now redeemedBy offline) db;
          db2 = update_participants (\<lambda>p. pt_ticketId p = i \<and> pt_status p = ''active'')
                  (\<lambda>p. p\<lparr>pt_checkedInAt := Some (nullish (pt_checkedInAt p) now)\<rparr>) db1
      in (db2, Claimed (the (ticket_by_id i db1))))"

definition releaseRedemption :: "js_string \<Rightarrow> ticket_db \<Rightarrow> ticket_db" where
  "releaseRedemption i db =
     (if \<not> isValidTicketId i \<or> ticket_by_id i db = None then db
      else update_participants (\<lambda>p. pt_ticketId p = i \<and> pt_status p = ''active'') (\<lambda>p. p\<lparr>pt_checkedInAt := None\<rparr>)
             (update_tickets (\<lambda>t. tk_id t = i)
                (\<lambda>t. t\<lparr>tk_redeemedAt := None, tk_redeemedBy := None, tk_redeemedOffline := None\<rparr>) db))"

section \<open>Status, refunds and disputes\<close>

definition coalesce :: "'a option \<Rightarrow> 'a option \<Rightarrow> 'a option" where
  "coalesce a b = (case a of None \<Rightarrow> b | Some x \<Rightarrow> Some x)"

text \<open>\<^verbatim>\<open>refunded\<close> is whether the new status is that; it is never \<^verbatim>\<open>valid\<close>.\<close>

definition markTicketStatus :: "int \<Rightarrow> js_string \<Rightarrow> bool \<Rightarrow> js_string option \<Rightarrow> ticket_db \<Rightarrow> ticket_db" where
  "markTicketStatus now i refunded refundRef db =
     (if \<not> isValidTicketId i \<or> ticket_by_id i db = None then db
      else set_participants [i] (if refunded then ''refunded'' else ''void'')
             (update_tickets (\<lambda>t. tk_id t = i)
                (\<lambda>t. t\<lparr>tk_status := (if refunded then TicketRefunded else TicketVoid),
                       tk_refundedAt := (if refunded then Some now else tk_refundedAt t),
                       tk_refundRef := coalesce refundRef (tk_refundRef t)\<rparr>) db))"

text \<open>The tickets of a payment, \<^verbatim>\<open>order by issued_at, id\<close>.\<close>

definition paid_by :: "js_string \<Rightarrow> ticket_row \<Rightarrow> bool" where
  "paid_by paymentRef t \<longleftrightarrow> tk_paymentRef t = Some paymentRef"

definition payment_order :: "js_string \<Rightarrow> ticket_db \<Rightarrow> ticket_row list" where
  "payment_order paymentRef db = sort_key tk_issuedAt (sort_key tk_id (filter (paid_by paymentRef) (tickets_tb db)))"

definition price_of :: "ticket_row \<Rightarrow> int" where
  "price_of t = nullish (tk_amountPaidMinor t) 0"

text \<open>The tickets a cumulative refund covers.\<close>

fun covered_rows :: "int \<Rightarrow> ticket_row list \<Rightarrow> ticket_row list" where
  "covered_rows remaining [] = []"
| "covered_rows remaining (t # ts) =
     (if price_of t \<le> 0 \<or> remaining < price_of t then []
      else t # covered_rows (remaining - price_of t) ts)"

definition refund_coverage :: "int option \<Rightarrow> ticket_row list \<Rightarrow> ticket_row list" where
  "refund_coverage amountRefunded order =
     (case amountRefunded of
        None \<Rightarrow> order
      | Some a \<Rightarrow> (if 0 < a \<and> a < sum_list (map price_of order) then covered_rows a order else order))"

definition refund_rows :: "int \<Rightarrow> js_string \<Rightarrow> js_string list \<Rightarrow> ticket_db \<Rightarrow> ticket_db" where
  "refund_rows now refundRef ids db =
     set_participants ids ''refunded''
       (update_tickets (\<lambda>t. tk_id t \<in> set ids)
          (\<lambda>t. t\<lparr>tk_status := TicketRefunded, tk_refundedAt := Some now, tk_refundRef := Some refundRef\<rparr>) db)"

definition void_rows :: "(ticket_row \<Rightarrow> bool) \<Rightarrow> js_string \<Rightarrow> ticket_db \<Rightarrow> ticket_db" where
  "void_rows P refundRef db =
     (let ids = map tk_id (filter P (tickets_tb db)) in
      set_participants ids ''void''
        (update_tickets P (\<lambda>t. t\<lparr>tk_status := TicketVoid, tk_refundRef := Some refundRef\<rparr>) db))"

definition markOrderRefunded :: "int \<Rightarrow> js_string \<Rightarrow> js_string \<Rightarrow> int option \<Rightarrow> ticket_db \<Rightarrow> ticket_db \<times> js_string list" where
  "markOrderRefunded now paymentRef refundRef amountRefunded db =
     (let toRefund = map tk_id (filter (\<lambda>t. tk_status t \<noteq> TicketRefunded)
                       (refund_coverage amountRefunded (payment_order paymentRef db)))
      in if toRefund = [] then (db, []) else (refund_rows now refundRef toRefund db, toRefund))"

definition markOrderRefundPending :: "js_string \<Rightarrow> js_string \<Rightarrow> ticket_db \<Rightarrow> ticket_db" where
  "markOrderRefundPending paymentRef refundRef =
     void_rows (\<lambda>t. paid_by paymentRef t \<and> tk_status t = TicketValid) refundRef"

definition markTicketOrderRefundPending :: "js_string \<Rightarrow> js_string \<Rightarrow> ticket_db \<Rightarrow> ticket_db" where
  "markTicketOrderRefundPending orderId refundRef =
     void_rows (\<lambda>t. tk_orderId t = orderId \<and> tk_status t = TicketValid) refundRef"

definition markTicketOrderRefunded :: "int \<Rightarrow> js_string \<Rightarrow> js_string \<Rightarrow> ticket_db \<Rightarrow> ticket_db" where
  "markTicketOrderRefunded now orderId refundRef db =
     refund_rows now refundRef
       (map tk_id (filter (\<lambda>t. tk_orderId t = orderId \<and> tk_status t \<noteq> TicketRefunded) (tickets_tb db))) db"

definition markRefundFailed :: "js_string \<Rightarrow> ticket_db \<Rightarrow> ticket_db" where
  "markRefundFailed refundRef db =
     (let failed = (\<lambda>t. tk_refundRef t = Some refundRef \<and> tk_status t = TicketRefunded);
          ids = map tk_id (filter failed (tickets_tb db))
      in set_participants ids ''void''
           (update_tickets failed (\<lambda>t. t\<lparr>tk_status := TicketVoid, tk_refundedAt := None\<rparr>) db))"

definition markOrderDisputed :: "js_string \<Rightarrow> js_string \<Rightarrow> ticket_db \<Rightarrow> ticket_db" where
  "markOrderDisputed paymentRef disputeRef =
     void_rows (\<lambda>t. paid_by paymentRef t \<and> tk_status t = TicketValid) disputeRef"

definition restoreDisputedTickets :: "js_string \<Rightarrow> js_string \<Rightarrow> ticket_db \<Rightarrow> ticket_db" where
  "restoreDisputedTickets paymentRef disputeRef db =
     (let disputed = (\<lambda>t. paid_by paymentRef t \<and> tk_status t = TicketVoid \<and> tk_refundRef t = Some disputeRef \<and>
                          tk_refundedAt t = None);
          ids = map tk_id (filter disputed (tickets_tb db))
      in set_participants ids ''active''
           (update_tickets disputed (\<lambda>t. t\<lparr>tk_status := TicketValid, tk_refundRef := None\<rparr>) db))"

section \<open>The refund of one ticket, exchanges, invitations and cancellation\<close>

text \<open>
  \<^verbatim>\<open>refundTicket\<close> (\<^verbatim>\<open>checkout.server.ts\<close>) takes the ticket out of use in the transaction that reserves the
  refund. \<^verbatim>\<open>snapshot\<close> is the row read before it, \<^verbatim>\<open>amounts\<close> what is asked of each payment, and
  \<^verbatim>\<open>returnRequest\<close> whether the current holder's confirmed request was found, if one was named. What these
  operations write besides tickets, participants and transfers (refund allocations, return requests, links,
  assignments, the audit) is not modelled.
\<close>

datatype refund_start = RefundRefused nat js_string | RefundAlready ticket_row | RefundPrepared ticket_row

definition takeTicketForRefund ::
  "js_string \<Rightarrow> ticket_row \<Rightarrow> int list \<Rightarrow> bool option \<Rightarrow> ticket_db \<Rightarrow> ticket_db \<times> refund_start" where
  "takeTicketForRefund i snapshot amounts returnRequest db =
     (case ticket_by_id i db of
        None \<Rightarrow> (db, RefundRefused 404 ''Ticket not found'')
      | Some t \<Rightarrow>
          if tk_status t = TicketRefunded then (db, RefundAlready t)
          else if tk_status t \<noteq> TicketValid then (db, RefundRefused 409 ''This ticket is not refundable'')
          else if tk_redeemedAt t \<noteq> None then (db, RefundRefused 409 ''This ticket has already checked in'')
          else if nullish (tk_paymentRef t) [] = [] \<or> price_of t = 0 \<or> nullish (tk_currency t) [] = []
          then (db, RefundRefused 400 ''This ticket has no refundable payment'')
          else if tk_paymentRef t \<noteq> tk_paymentRef snapshot \<or> tk_amountPaidMinor t \<noteq> tk_amountPaidMinor snapshot \<or>
                  tk_currency t \<noteq> tk_currency snapshot \<or> sum_list amounts \<noteq> price_of t
          then (db, RefundRefused 409 ''The ticket changed while its refund was being prepared. Try again.'')
          else if list_ex (\<lambda>x. ex_ticketId x = i \<and> ex_status x \<in> {''processing'', ''awaiting_payment'', ''refund_pending''})
                    (exchanges_tb db)
          then (db, RefundRefused 409 ''Finish or cancel the ticket change first'')
          else if list_ex (\<lambda>f. tf_ticketId f = i \<and> tf_status f = ''accepted'') (transfers_tb db) \<and> returnRequest = None
          then (db, RefundRefused 409 ''A transferred ticket needs the current holder's consent before refund'')
          else if list_ex (\<lambda>f. tf_ticketId f = i \<and> tf_status f = ''accepted'') (transfers_tb db) \<and> returnRequest = Some False
          then (db, RefundRefused 409 ''Current-holder consent is missing or no longer matches this ticket'')
          else
          let db1 = db\<lparr>transfers_tb := map (\<lambda>f. if tf_ticketId f = i \<and> tf_status f = ''pending''
                                                then f\<lparr>tf_status := ''invalidated''\<rparr> else f) (transfers_tb db)\<rparr>;
              db2 = update_tickets (\<lambda>t. tk_id t = i) (\<lambda>t. t\<lparr>tk_status := TicketVoid\<rparr>) db1
          in (set_participants [i] ''void'' db2, RefundPrepared t))"

text \<open>What a refusal of the provider does, at once or reported later, when nothing was refunded before it.\<close>

definition restoreTicketAfterFailedRefund :: "js_string \<Rightarrow> ticket_db \<Rightarrow> ticket_db" where
  "restoreTicketAfterFailedRefund i db =
     update_participants (\<lambda>p. pt_ticketId p = i \<and> pt_status p = ''void'') (\<lambda>p. p\<lparr>pt_status := ''active''\<rparr>)
       (update_tickets (\<lambda>t. tk_id t = i \<and> tk_status t = TicketVoid) (\<lambda>t. t\<lparr>tk_status := TicketValid\<rparr>) db)"

text \<open>A refund or a dispute of the payment of an exchange (\<^verbatim>\<open>exchange.server.ts\<close>).\<close>

definition setExchangeTicketValidity :: "js_string \<Rightarrow> bool \<Rightarrow> js_string option \<Rightarrow> ticket_db \<Rightarrow> ticket_db" where
  "setExchangeTicketValidity i valid reference db =
     set_participants [i] (if valid then ''active'' else ''void'')
       (update_tickets (\<lambda>t. tk_id t = i \<and> tk_status t = (if valid then TicketVoid else TicketValid))
          (\<lambda>t. t\<lparr>tk_status := (if valid then TicketValid else TicketVoid), tk_refundRef := reference\<rparr>) db)"

text \<open>An invitation of staff is taken back; an event is cancelled and its tickets without a payment void.\<close>

definition voidInvitedTicket :: "js_string \<Rightarrow> ticket_db \<Rightarrow> ticket_db" where
  "voidInvitedTicket i db =
     update_participants (\<lambda>p. pt_ticketId p = i \<and> pt_status p = ''active'') (\<lambda>p. p\<lparr>pt_status := ''void''\<rparr>)
       (update_tickets (\<lambda>t. tk_id t = i \<and> tk_status t = TicketValid) (\<lambda>t. t\<lparr>tk_status := TicketVoid\<rparr>) db)"

definition voidComplimentaryTickets :: "js_string \<Rightarrow> ticket_db \<Rightarrow> ticket_db" where
  "voidComplimentaryTickets slug db =
     (let free = (\<lambda>t. tk_eventSlug t = slug \<and> tk_paymentRef t = None \<and> tk_status t = TicketValid);
          ids = map tk_id (filter free (tickets_tb db))
      in update_participants (\<lambda>p. pt_ticketId p \<in> set ids \<and> pt_status p = ''active'') (\<lambda>p. p\<lparr>pt_status := ''void''\<rparr>)
           (update_tickets free (\<lambda>t. t\<lparr>tk_status := TicketVoid\<rparr>) db))"

section \<open>Reconciling refunds\<close>

text \<open>
  \<^verbatim>\<open>reconcilePaymentRefunds\<close> (\<^verbatim>\<open>checkout.server.ts\<close>): the refunds the payment provider lists for a payment, the
  amount its charge reports, and what cheaper exchanges have already taken from it.
\<close>

record provider_refund =
  rf_id :: js_string
  rf_succeeded :: bool
  rf_amountMinor :: int

definition reconcilePaymentRefunds ::
  "int \<Rightarrow> js_string \<Rightarrow> int \<Rightarrow> provider_refund list \<Rightarrow> int \<Rightarrow> ticket_db \<Rightarrow> ticket_db \<times> js_string list" where
  "reconcilePaymentRefunds now paymentRef authoritativeAmountMinor refunds exchangeRefundedMinor db =
     (let succeeded = filter rf_succeeded refunds;
          amountRefundedMinor = max authoritativeAmountMinor (sum_list (map rf_amountMinor succeeded));
          cancellationRefundedMinor = max 0 (amountRefundedMinor - exchangeRefundedMinor)
      in if amountRefundedMinor = 0 \<or> cancellationRefundedMinor = 0 then (db, [])
         else markOrderRefunded now paymentRef (if succeeded = [] then paymentRef else rf_id (last succeeded))
                (Some cancellationRefundedMinor) db)"

section \<open>The manifest of the door\<close>

text \<open>\<^verbatim>\<open>/^[a-z0-9]+(?:-[a-z0-9]+)*$/\<close>, read from the left; the flag says that a dash or the end may follow.\<close>

definition slug_char :: "char \<Rightarrow> bool" where
  "slug_char c \<longleftrightarrow> c \<in> set ''abcdefghijklmnopqrstuvwxyz0123456789''"

fun slug_from :: "bool \<Rightarrow> js_string \<Rightarrow> bool" where
  "slug_from ok [] = ok"
| "slug_from ok (c # s) = (if c = CHR ''-'' then ok \<and> slug_from False s else slug_char c \<and> slug_from True s)"

definition isValidEventSlug :: "js_string \<Rightarrow> bool" where
  "isValidEventSlug slug \<longleftrightarrow> slug_from False slug \<and> 2 \<le> length slug \<and> length slug \<le> 80"

text \<open>Valid tickets of an event, by the reference that is current.\<close>

definition current_reference :: "ticket_row \<Rightarrow> js_string" where
  "current_reference t = nullish (tk_accessReference t) (tk_id t)"

definition listValidTicketIds :: "js_string \<Rightarrow> ticket_db \<Rightarrow> js_string list" where
  "listValidTicketIds slug db =
     (if \<not> isValidEventSlug slug then []
      else map current_reference (filter (\<lambda>t. tk_eventSlug t = slug \<and> tk_status t = TicketValid) (tickets_tb db)))"

end
