(* ===== verification/TicketDoor.thy ===== *)
theory TicketDoor
  imports TicketStore Json
begin

text \<open>
  The door: the code on a ticket (\<^verbatim>\<open>features/tickets/types.ts\<close>, \<^verbatim>\<open>qr.server.ts\<close>), redeeming what was scanned
  (\<^verbatim>\<open>redeemTicket\<close> of \<^verbatim>\<open>tickets.server.ts\<close>), the offline state of a scanning device
  (\<^verbatim>\<open>door-queue.ts\<close>), and the scan and the replay of \<^verbatim>\<open>ui/DoorScanner.tsx\<close> that use them.
\<close>

section \<open>The code on a ticket\<close>

definition TICKET_QR_VERSION :: js_string where
  "TICKET_QR_VERSION = ''mah1''"

text \<open>\<^verbatim>\<open>/^[A-Za-z0-9_-]{22}$/\<close>.\<close>

definition signature_char :: "char \<Rightarrow> bool" where
  "signature_char c \<longleftrightarrow>
     c \<in> set ''ABCDEFGHIJKLMNOPQRSTUVWXYZabcdefghijklmnopqrstuvwxyz0123456789_-''"

definition signature_shape :: "js_string \<Rightarrow> bool" where
  "signature_shape s \<longleftrightarrow> length s = 22 \<and> list_all signature_char s"

text \<open>\<^verbatim>\<open>s.split(c)\<close>.\<close>

fun split_on :: "char \<Rightarrow> js_string \<Rightarrow> js_string list" where
  "split_on c [] = [[]]"
| "split_on c (x # s) =
     (if x = c then [] # split_on c s
      else case split_on c s of w # ws \<Rightarrow> (x # w) # ws | [] \<Rightarrow> [[x]])"

text \<open>\<^verbatim>\<open>/^https?:\/\//i\<close>.\<close>

definition http_url :: "js_string \<Rightarrow> bool" where
  "http_url s \<longleftrightarrow> starts_with ''http://'' (to_lower s) \<or> starts_with ''https://'' (to_lower s)"

text \<open>
  \<^verbatim>\<open>new URL(value)\<close> is a service of the platform: \<^verbatim>\<open>None\<close> when it throws, else the first value of the query
  parameter \<^verbatim>\<open>t\<close> and the path.
\<close>

type_synonym url_parser = "js_string \<Rightarrow> (js_string option \<times> js_string) option"

definition extractPayloadFromUrl :: "url_parser \<Rightarrow> js_string \<Rightarrow> js_string option" where
  "extractPayloadFromUrl parse_url v =
     (if \<not> http_url v then None
      else case parse_url v of
        None \<Rightarrow> None
      | Some (fromQuery, pathname) \<Rightarrow>
          (if truthy fromQuery then fromQuery
           else case rev (filter (\<lambda>w. w \<noteq> []) (split_on (CHR ''/'') pathname)) of
             [] \<Rightarrow> None
           | w # ws \<Rightarrow> Some w))"

definition parseTicketQrPayload :: "url_parser \<Rightarrow> js_string \<Rightarrow> (js_string \<times> js_string) option" where
  "parseTicketQrPayload parse_url raw =
     (let trimmed = js_trim raw in
      if trimmed = [] then None
      else case split_on (CHR ''.'') (nullish (extractPayloadFromUrl parse_url trimmed) trimmed) of
        [version, ticketId, signature] \<Rightarrow>
          (if version \<noteq> TICKET_QR_VERSION then None
           else if \<not> isValidTicketId ticketId then None
           else if \<not> signature_shape signature then None
           else Some (ticketId, signature))
      | _ \<Rightarrow> None)"

definition formatTicketQrPayload :: "js_string \<Rightarrow> js_string \<Rightarrow> js_string" where
  "formatTicketQrPayload ticketId signature = TICKET_QR_VERSION @ ''.'' @ ticketId @ ''.'' @ signature"

definition scanned_id :: "url_parser \<Rightarrow> js_string \<Rightarrow> js_string option" where
  "scanned_id parse_url raw =
     (case parseTicketQrPayload parse_url raw of
        Some (ticketId, signature) \<Rightarrow> Some ticketId
      | None \<Rightarrow> (let typed = to_upper (js_trim raw) in if isValidTicketId typed then Some typed else None))"

definition MANIFEST_HASH_LENGTH :: nat where
  "MANIFEST_HASH_LENGTH = 24"

definition hashTicketId :: "'a services_scheme \<Rightarrow> js_string \<Rightarrow> js_string" where
  "hashTicketId w ticketId = take MANIFEST_HASH_LENGTH (sha256_hex w ticketId)"

text \<open>
  \<^verbatim>\<open>signatureFor\<close> is the keyed hash of the version and the id in base64url, cut to 22 characters; the keyed hash
  is a service, \<^verbatim>\<open>None\<close> where the signing key is missing.
\<close>

definition signatureFor :: "(js_string \<Rightarrow> js_string option) \<Rightarrow> js_string \<Rightarrow> js_string option" where
  "signatureFor hmac ticketId = map_option (take 22) (hmac (TICKET_QR_VERSION @ ''.'' @ ticketId))"

definition verifyTicketSignature :: "(js_string \<Rightarrow> js_string option) \<Rightarrow> js_string \<Rightarrow> js_string \<Rightarrow> bool" where
  "verifyTicketSignature hmac ticketId signature \<longleftrightarrow> isValidTicketId ticketId \<and> signatureFor hmac ticketId = Some signature"

definition buildTicketQrPayload :: "(js_string \<Rightarrow> js_string option) \<Rightarrow> js_string \<Rightarrow> js_string option" where
  "buildTicketQrPayload hmac ticketId =
     (if \<not> isValidTicketId ticketId then None
      else map_option (formatTicketQrPayload ticketId) (signatureFor hmac ticketId))"

section \<open>Redeeming\<close>

datatype redeem_outcome =
  Admitted ticket_row
| AlreadyRedeemed ticket_row int
| VoidTicket ticket_row
| WrongEvent ticket_row
| InvalidTicket
| TicketNotFound

record redeem_input =
  ri_scanned :: js_string
  ri_eventSlug :: js_string
  ri_redeemedBy :: "js_string option"
  ri_offline :: bool

definition redeemTicket ::
  "url_parser \<Rightarrow> (js_string \<Rightarrow> js_string option) \<Rightarrow> int \<Rightarrow> redeem_input \<Rightarrow> ticket_db \<Rightarrow> ticket_db \<times> redeem_outcome" where
  "redeemTicket parse_url hmac now i db =
     (case scanned_id parse_url (ri_scanned i) of
        None \<Rightarrow> (db, InvalidTicket)
      | Some ticketId \<Rightarrow>
          (if (case parseTicketQrPayload parse_url (ri_scanned i) of
                 None \<Rightarrow> False
               | Some (pid', signature) \<Rightarrow> \<not> verifyTicketSignature hmac pid' signature)
           then (db, InvalidTicket)
           else case getTicket ticketId db of
             None \<Rightarrow> (db, TicketNotFound)
           | Some existing \<Rightarrow>
               (if truthy (tk_accessReference existing) \<and> tk_accessReference existing \<noteq> Some ticketId then (db, InvalidTicket)
                else if tk_eventSlug existing \<noteq> ri_eventSlug i then (db, WrongEvent existing)
                else if tk_status existing \<noteq> TicketValid then (db, VoidTicket existing)
                else
                (case claimRedemption now (tk_id existing) (ri_redeemedBy i) (ri_offline i) db of
                   (db', Claimed t) \<Rightarrow> (db', Admitted t)
                 | (db', NotClaimed None) \<Rightarrow> (db', TicketNotFound)
                 | (db', NotClaimed (Some t)) \<Rightarrow>
                     (db', if tk_status t \<noteq> TicketValid then VoidTicket t
                           else case tk_redeemedAt t of
                             None \<Rightarrow> InvalidTicket
                           | Some at \<Rightarrow> AlreadyRedeemed t at)))))"

section \<open>The offline state of a device\<close>

record queued_redemption =
  qr_ticketId :: js_string
  qr_scannedAt :: js_string

record door_state =
  dm_manifest :: "js_string list"
  dm_admitted :: "js_string list"
  dm_queue :: "queued_redemption list"

datatype offline_outcome = AdmittedOffline | AlreadyOffline js_string | NotOnManifest

definition EMPTY_DOOR_STATE :: door_state where
  "EMPTY_DOOR_STATE = \<lparr>dm_manifest = [], dm_admitted = [], dm_queue = []\<rparr>"

definition MAX_OFFLINE_ADMISSIONS :: nat where
  "MAX_OFFLINE_ADMISSIONS = 5000"

text \<open>\<^verbatim>\<open>/^[a-f0-9]{24}$/\<close>.\<close>

definition manifest_hash :: "js_string \<Rightarrow> bool" where
  "manifest_hash s \<longleftrightarrow> length s = 24 \<and> list_all (\<lambda>c. c \<in> set ''abcdef0123456789'') s"

text \<open>\<^verbatim>\<open>[...new Set(xs)]\<close>: the first of equal elements stays.\<close>

definition set_order :: "'a list \<Rightarrow> 'a list" where
  "set_order xs = rev (remdups (rev xs))"

definition restore_admitted :: "json option \<Rightarrow> js_string list" where
  "restore_admitted v =
     (case Option.bind v json_array of
        None \<Rightarrow> []
      | Some entries \<Rightarrow>
          set_order (take_last MAX_OFFLINE_ADMISSIONS (filter manifest_hash (List.map_filter json_string entries))))"

text \<open>
  \<^verbatim>\<open>Number.isFinite(Date.parse(s))\<close> is the argument \<^verbatim>\<open>is_date\<close>: what else than the format of \<^verbatim>\<open>toISOString\<close> it
  accepts is left to the platform.
\<close>

definition restore_entry :: "(js_string \<Rightarrow> bool) \<Rightarrow> json \<Rightarrow> queued_redemption option" where
  "restore_entry is_date v =
     (case (Option.bind (json_field ''ticketId'' v) json_string, Option.bind (json_field ''scannedAt'' v) json_string) of
        (Some ticketId, Some scannedAt) \<Rightarrow>
          (if isValidTicketId ticketId \<and> is_date scannedAt
           then Some \<lparr>qr_ticketId = ticketId, qr_scannedAt = scannedAt\<rparr> else None)
      | _ \<Rightarrow> None)"

fun restore_queue :: "(js_string \<Rightarrow> bool) \<Rightarrow> queued_redemption list \<Rightarrow> json list \<Rightarrow> queued_redemption list" where
  "restore_queue is_date queue [] = queue"
| "restore_queue is_date queue (v # vs) =
     (case restore_entry is_date v of
        None \<Rightarrow> restore_queue is_date queue vs
      | Some q \<Rightarrow>
          (if qr_ticketId q \<in> set (map qr_ticketId queue) then restore_queue is_date queue vs
           else restore_queue is_date (queue @ [q]) vs))"

definition restoreDoorOfflineState :: "(js_string \<Rightarrow> bool) \<Rightarrow> js_string list \<Rightarrow> json \<Rightarrow> door_state" where
  "restoreDoorOfflineState is_date manifest stored =
     (case stored of
        JObject kvs \<Rightarrow>
          \<lparr>dm_manifest = manifest, dm_admitted = restore_admitted (map_of kvs ''admitted''),
           dm_queue = (case Option.bind (map_of kvs ''queue'') json_array of
                         None \<Rightarrow> []
                       | Some entries \<Rightarrow> restore_queue is_date [] (take_last MAX_OFFLINE_ADMISSIONS entries))\<rparr>
      | _ \<Rightarrow> EMPTY_DOOR_STATE\<lparr>dm_manifest := manifest\<rparr>)"

definition recordOfflineScan :: "js_string \<Rightarrow> js_string \<Rightarrow> js_string \<Rightarrow> door_state \<Rightarrow> door_state \<times> offline_outcome" where
  "recordOfflineScan ticketId ticketHash scannedAt st =
     (if ticketHash \<notin> set (dm_manifest st) then (st, NotOnManifest)
      else if ticketHash \<in> set (dm_admitted st)
      then (st, AlreadyOffline (case find (\<lambda>q. qr_ticketId q = ticketId) (dm_queue st) of
                                  None \<Rightarrow> scannedAt | Some q \<Rightarrow> qr_scannedAt q))
      else (\<lparr>dm_manifest = dm_manifest st, dm_admitted = dm_admitted st @ [ticketHash],
             dm_queue = dm_queue st @ [\<lparr>qr_ticketId = ticketId, qr_scannedAt = scannedAt\<rparr>]\<rparr>, AdmittedOffline))"

definition clearSynced :: "js_string list \<Rightarrow> door_state \<Rightarrow> door_state" where
  "clearSynced synced st = st\<lparr>dm_queue := filter (\<lambda>q. qr_ticketId q \<notin> set synced) (dm_queue st)\<rparr>"

definition applyManifest :: "js_string list \<Rightarrow> door_state \<Rightarrow> door_state" where
  "applyManifest manifest st = st\<lparr>dm_manifest := manifest\<rparr>"

definition pendingCount :: "door_state \<Rightarrow> nat" where
  "pendingCount st = length (dm_queue st)"

section \<open>The scanner\<close>

text \<open>What the scanner writes to the storage of the session.\<close>

definition door_json :: "door_state \<Rightarrow> json" where
  "door_json st =
     JObject [(''admitted'', JArray (map JString (dm_admitted st))),
       (''queue'', JArray (map (\<lambda>q. JObject [(''ticketId'', JString (qr_ticketId q)),
                                              (''scannedAt'', JString (qr_scannedAt q))]) (dm_queue st)))]"

datatype scan_result = ScanAdmitted | ScanQueued | ScanAlready | ScanRejected

text \<open>
  \<^verbatim>\<open>handleScan\<close> once the repeats of the camera and the choice within a group are over: online it asks the server,
  and decides by itself when there is no connection.
\<close>

definition scan_online ::
  "url_parser \<Rightarrow> (js_string \<Rightarrow> js_string option) \<Rightarrow> int \<Rightarrow> js_string \<Rightarrow> js_string \<Rightarrow> ticket_db \<Rightarrow> ticket_db \<times> scan_result" where
  "scan_online parse_url hmac now slug raw db =
     (case scanned_id parse_url raw of
        None \<Rightarrow> (db, ScanRejected)
      | Some ticketId \<Rightarrow>
          (case redeemTicket parse_url hmac now
                  \<lparr>ri_scanned = raw, ri_eventSlug = slug, ri_redeemedBy = Some ''door'', ri_offline = False\<rparr> db of
             (db', Admitted t) \<Rightarrow> (db', ScanAdmitted)
           | (db', AlreadyRedeemed t at) \<Rightarrow> (db', ScanAlready)
           | (db', _) \<Rightarrow> (db', ScanRejected)))"

definition scan_offline ::
  "'a services_scheme \<Rightarrow> url_parser \<Rightarrow> js_string \<Rightarrow> js_string \<Rightarrow> door_state \<Rightarrow> door_state \<times> scan_result" where
  "scan_offline w parse_url scannedAt raw st =
     (case scanned_id parse_url raw of
        None \<Rightarrow> (st, ScanRejected)
      | Some ticketId \<Rightarrow>
          (case recordOfflineScan ticketId (hashTicketId w ticketId) scannedAt st of
             (st', AdmittedOffline) \<Rightarrow> (st', ScanQueued)
           | (st', AlreadyOffline t) \<Rightarrow> (st', ScanAlready)
           | (st', NotOnManifest) \<Rightarrow> (st', ScanRejected)))"

text \<open>
  \<^verbatim>\<open>syncQueue\<close> while the connection lasts for \<^verbatim>\<open>n\<close> more calls: an entry counts as synced whatever the server
  answered about it.
\<close>

fun sync_calls ::
  "url_parser \<Rightarrow> (js_string \<Rightarrow> js_string option) \<Rightarrow> int \<Rightarrow> js_string \<Rightarrow> nat \<Rightarrow> queued_redemption list \<Rightarrow> ticket_db \<Rightarrow>
   ticket_db \<times> js_string list" where
  "sync_calls parse_url hmac now slug 0 queue db = (db, [])"
| "sync_calls parse_url hmac now slug (Suc n) [] db = (db, [])"
| "sync_calls parse_url hmac now slug (Suc n) (q # queue) db =
     (let (db1, out) = redeemTicket parse_url hmac now
            \<lparr>ri_scanned = qr_ticketId q, ri_eventSlug = slug, ri_redeemedBy = Some ''door-offline'', ri_offline = True\<rparr> db;
          (db2, synced) = sync_calls parse_url hmac now slug n queue db1
      in (db2, qr_ticketId q # synced))"

definition syncQueue ::
  "url_parser \<Rightarrow> (js_string \<Rightarrow> js_string option) \<Rightarrow> int \<Rightarrow> js_string \<Rightarrow> nat \<Rightarrow> ticket_db \<Rightarrow> door_state \<Rightarrow> ticket_db \<times> door_state" where
  "syncQueue parse_url hmac now slug n db st =
     (let (db', synced) = sync_calls parse_url hmac now slug n (dm_queue st) db
      in (db', if synced = [] then st else clearSynced synced st))"

definition buildDoorManifest :: "'a services_scheme \<Rightarrow> js_string \<Rightarrow> ticket_db \<Rightarrow> js_string list" where
  "buildDoorManifest w slug db = map (hashTicketId w) (listValidTicketIds slug db)"

end
