(* ===== verification/TicketFacts.thy ===== *)
theory TicketFacts
  imports TicketStore
begin

text \<open>
  What the ticket store promises: no type and no event is oversold by issuance, whatever else happens to
  the tickets; a won dispute is the exception; a ticket is redeemed once; and what cumulative refunds do
  to the tickets of a payment.
\<close>

section \<open>Operations as data\<close>

datatype ticket_op =
  OpIssue issue_input "new_ticket list"
| OpClaim js_string "js_string option" bool
| OpRelease js_string
| OpStatus js_string bool "js_string option"
| OpOrderRefunded js_string js_string "int option"
| OpOrderRefundPending js_string js_string
| OpTicketOrderRefundPending js_string js_string
| OpTicketOrderRefunded js_string js_string
| OpRefundFailed js_string
| OpDisputed js_string js_string
| OpDisputeWon js_string js_string
| OpRefundStart js_string ticket_row "int list" "bool option"
| OpRefundRefused js_string
| OpExchangeValidity js_string bool "js_string option"
| OpInvitationCancelled js_string
| OpEventCancelled js_string

fun run_op :: "int \<times> ticket_op \<Rightarrow> ticket_db \<Rightarrow> ticket_db" where
  "run_op (now, OpIssue i ns) db = fst (insertTicketsWithCapacity now i ns db)"
| "run_op (now, OpClaim i by offline) db = fst (claimRedemption now i by offline db)"
| "run_op (now, OpRelease i) db = releaseRedemption i db"
| "run_op (now, OpStatus i refunded ref) db = markTicketStatus now i refunded ref db"
| "run_op (now, OpOrderRefunded p ref a) db = fst (markOrderRefunded now p ref a db)"
| "run_op (now, OpOrderRefundPending p ref) db = markOrderRefundPending p ref db"
| "run_op (now, OpTicketOrderRefundPending i ref) db = markTicketOrderRefundPending i ref db"
| "run_op (now, OpTicketOrderRefunded i ref) db = markTicketOrderRefunded now i ref db"
| "run_op (now, OpRefundFailed ref) db = markRefundFailed ref db"
| "run_op (now, OpDisputed p ref) db = markOrderDisputed p ref db"
| "run_op (now, OpDisputeWon p ref) db = restoreDisputedTickets p ref db"
| "run_op (now, OpRefundStart i snapshot amounts req) db = fst (takeTicketForRefund i snapshot amounts req db)"
| "run_op (now, OpRefundRefused i) db = restoreTicketAfterFailedRefund i db"
| "run_op (now, OpExchangeValidity i valid ref) db = setExchangeTicketValidity i valid ref db"
| "run_op (now, OpInvitationCancelled i) db = voidInvitedTicket i db"
| "run_op (now, OpEventCancelled slug) db = voidComplimentaryTickets slug db"

text \<open>The operations that make a ticket valid again, none of which looks at the capacity.\<close>

definition puts_back :: "ticket_op \<Rightarrow> bool" where
  "puts_back op \<longleftrightarrow>
     (case op of OpDisputeWon p r \<Rightarrow> True | OpRefundRefused i \<Rightarrow> True | OpExchangeValidity i valid r \<Rightarrow> valid | _ \<Rightarrow> False)"

section \<open>Frames\<close>

lemma update_tickets_tables [simp]:
  "events_tb (update_tickets P f db) = events_tb db" "types_tb (update_tickets P f db) = types_tb db"
  "checkouts_tb (update_tickets P f db) = checkouts_tb db" "exchanges_tb (update_tickets P f db) = exchanges_tb db"
  "transfers_tb (update_tickets P f db) = transfers_tb db"
  "tickets_tb (update_tickets P f db) = map (\<lambda>t. if P t then f t else t) (tickets_tb db)"
  by (simp_all add: update_tickets_def)

lemma update_participants_tables [simp]:
  "events_tb (update_participants P f db) = events_tb db" "types_tb (update_participants P f db) = types_tb db"
  "checkouts_tb (update_participants P f db) = checkouts_tb db"
  "exchanges_tb (update_participants P f db) = exchanges_tb db"
  "transfers_tb (update_participants P f db) = transfers_tb db"
  "tickets_tb (update_participants P f db) = tickets_tb db"
  by (simp_all add: update_participants_def)

lemma set_participants_tables [simp]:
  "events_tb (set_participants is st db) = events_tb db" "types_tb (set_participants is st db) = types_tb db"
  "checkouts_tb (set_participants is st db) = checkouts_tb db"
  "exchanges_tb (set_participants is st db) = exchanges_tb db"
  "transfers_tb (set_participants is st db) = transfers_tb db"
  "tickets_tb (set_participants is st db) = tickets_tb db"
  by (simp_all add: set_participants_def)

lemmas ticket_ops = claimRedemption_def releaseRedemption_def markTicketStatus_def markOrderRefunded_def
  refund_rows_def void_rows_def markOrderRefundPending_def markTicketOrderRefundPending_def
  markTicketOrderRefunded_def markRefundFailed_def markOrderDisputed_def restoreDisputedTickets_def
  restoreTicketAfterFailedRefund_def setExchangeTicketValidity_def voidInvitedTicket_def voidComplimentaryTickets_def Let_def

text \<open>
  Apart from issuance, an operation rewrites rows one by one. What each one leaves of a row: its identity
  and its sale always; no row becomes valid but by an operation that puts tickets back; no redemption is lost but by a release.
\<close>

definition same_sale :: "ticket_row \<Rightarrow> ticket_row \<Rightarrow> bool" where
  "same_sale t u \<longleftrightarrow> tk_id u = tk_id t \<and> tk_eventSlug u = tk_eventSlug t \<and> tk_ticketTypeId u = tk_ticketTypeId t \<and>
     tk_paymentRef u = tk_paymentRef t \<and> tk_issuedAt u = tk_issuedAt t \<and> tk_amountPaidMinor u = tk_amountPaidMinor t"

definition no_revival :: "ticket_row \<Rightarrow> ticket_row \<Rightarrow> bool" where
  "no_revival t u \<longleftrightarrow> (tk_status u = TicketValid \<longrightarrow> tk_status t = TicketValid)"

definition stays_redeemed :: "ticket_row \<Rightarrow> ticket_row \<Rightarrow> bool" where
  "stays_redeemed t u \<longleftrightarrow> (tk_redeemedAt t \<noteq> None \<longrightarrow> tk_redeemedAt u \<noteq> None)"

definition rows_kept :: "ticket_op \<Rightarrow> ticket_row \<Rightarrow> ticket_row \<Rightarrow> bool" where
  "rows_kept op t u \<longleftrightarrow> same_sale t u \<and> (puts_back op \<or> no_revival t u) \<and>
     (op = OpRelease (tk_id t) \<or> stays_redeemed t u)"

lemma list_all2_if: "(\<And>t. R t t) \<Longrightarrow> (\<And>t. P t \<Longrightarrow> R t (f t)) \<Longrightarrow> list_all2 R ts (map (\<lambda>t. if P t then f t else t) ts)"
  by (induction ts) auto

lemma rows_kept_refl: "rows_kept op t t"
  by (simp add: rows_kept_def same_sale_def no_revival_def stays_redeemed_def)

lemma list_all2_kept: "list_all2 (rows_kept op) ts ts"
  by (simp add: list_all2_same rows_kept_refl)

lemma refund_start_rows:
  "tickets_tb (fst (takeTicketForRefund i s as q db)) = tickets_tb db \<or>
   tickets_tb (fst (takeTicketForRefund i s as q db)) =
     map (\<lambda>t. if tk_id t = i then t\<lparr>tk_status := TicketVoid\<rparr> else t) (tickets_tb db)"
  by (simp add: takeTicketForRefund_def Let_def split: option.split)

lemma refund_start_tables:
  "events_tb (fst (takeTicketForRefund i s as q db)) = events_tb db"
  "types_tb (fst (takeTicketForRefund i s as q db)) = types_tb db"
  by (simp_all add: takeTicketForRefund_def Let_def split: option.split)

lemma refund_start_kept:
  "list_all2 (rows_kept (OpRefundStart i s as q)) (tickets_tb db) (tickets_tb (fst (takeTicketForRefund i s as q db)))"
  using refund_start_rows [of i s as q db]
  by (auto simp: list_all2_kept rows_kept_def same_sale_def no_revival_def stays_redeemed_def
      intro!: list_all2_if rows_kept_refl)

lemma run_op_rows:
  assumes "\<forall>i ns. op \<noteq> OpIssue i ns"
  shows "list_all2 (rows_kept op) (tickets_tb db) (tickets_tb (run_op (now, op) db))"
  using assms
  by (cases op)
    (auto simp: ticket_ops list_all2_kept redeemed_row_def redeemable_def puts_back_def refund_start_kept
      intro!: list_all2_if rows_kept_refl simp: rows_kept_def same_sale_def no_revival_def stays_redeemed_def)

lemma insert_rows_Some: "insert_rows rows ts = Some ts' \<Longrightarrow> ts' = ts @ rows"
proof (induction rows arbitrary: ts)
  case (Cons t rows)
  then have "insert_rows rows (ts @ [t]) = Some ts'" by (simp split: if_splits)
  from Cons.IH [OF this] show ?case by simp
qed simp

lemma insert_rows_distinct:
  "insert_rows rows ts = Some ts' \<Longrightarrow> distinct (map tk_id ts) \<Longrightarrow> distinct (map tk_id ts')"
proof (induction rows arbitrary: ts)
  case (Cons t rows)
  then have i: "insertable t ts" "insert_rows rows (ts @ [t]) = Some ts'" by (simp_all split: if_splits)
  then have "distinct (map tk_id (ts @ [t]))" using Cons.prems(2) by (auto simp: insertable_def list_all_iff)
  with Cons.IH [OF i(2)] show ?case by blast
qed simp

lemma issue_rows:
  obtains (refused) "tickets_tb (run_op (now, OpIssue i ns) db) = tickets_tb db"
  | (accepted) e ty where "find (\<lambda>e. ev_slug e = is_eventSlug i) (events_tb db) = Some e"
      "find (\<lambda>ty. ty_eventSlug ty = is_eventSlug i \<and> ty_id ty = is_ticketTypeId i) (types_tb db) = Some ty"
      "capacity_refusal now i (length ns) e ty db = None"
      "insert_rows (map (inserted_row now i) ns) (tickets_tb db) = Some (tickets_tb (run_op (now, OpIssue i ns) db))"
proof (cases "tickets_tb (run_op (now, OpIssue i ns) db) = tickets_tb db")
  case False
  then show thesis
    by (auto simp: insertTicketsWithCapacity_def Let_def split: option.splits intro: accepted)
qed

lemma run_op_tables:
  "events_tb (run_op c db) = events_tb db \<and> types_tb (run_op c db) = types_tb db"
proof -
  obtain now op where c: "c = (now, op)" by fastforce
  show ?thesis unfolding c
    by (cases op) (simp_all add: ticket_ops insertTicketsWithCapacity_def refund_start_tables split: option.split)
qed

section \<open>Never oversold\<close>

definition type_of :: "js_string \<Rightarrow> js_string \<Rightarrow> ticket_db \<Rightarrow> type_row option" where
  "type_of slug typeId db = find (\<lambda>ty. ty_eventSlug ty = slug \<and> ty_id ty = typeId) (types_tb db)"

definition event_of :: "js_string \<Rightarrow> ticket_db \<Rightarrow> event_row option" where
  "event_of slug db = find (\<lambda>e. ev_slug e = slug) (events_tb db)"

definition within_capacity :: "ticket_db \<Rightarrow> bool" where
  "within_capacity db \<longleftrightarrow>
     (\<forall>slug typeId ty. type_of slug typeId db = Some ty \<longrightarrow> int (sold_of_type slug typeId db) \<le> ty_quantity ty) \<and>
     (\<forall>slug e cap. event_of slug db = Some e \<longrightarrow> ev_capacity e = Some cap \<longrightarrow> int (sold_of_event slug db) \<le> cap)"

lemma sold_where_le:
  assumes "list_all2 R (tickets_tb db) (tickets_tb db')" and "\<And>t u. R t u \<Longrightarrow> P u = P t \<and> no_revival t u"
  shows "sold_where P db' \<le> sold_where P db"
proof -
  have "length (filter (\<lambda>t. P t \<and> tk_status t = TicketValid) us) \<le> length (filter (\<lambda>t. P t \<and> tk_status t = TicketValid) ts)"
    if "list_all2 R ts us" for ts us
    using that by induction (use assms(2) in \<open>auto simp: no_revival_def\<close>)
  with assms(1) show ?thesis by (simp add: sold_where_def)
qed

lemma within_capacity_le:
  assumes "within_capacity db" and "events_tb db' = events_tb db" and "types_tb db' = types_tb db"
    and "\<And>slug typeId. sold_of_type slug typeId db' \<le> sold_of_type slug typeId db"
    and "\<And>slug. sold_of_event slug db' \<le> sold_of_event slug db"
  shows "within_capacity db'"
  unfolding within_capacity_def
proof (intro conjI allI impI)
  fix slug typeId ty assume "type_of slug typeId db' = Some ty"
  then have "int (sold_of_type slug typeId db) \<le> ty_quantity ty"
    using assms(1,3) by (simp add: within_capacity_def type_of_def)
  then show "int (sold_of_type slug typeId db') \<le> ty_quantity ty" using assms(4) [of slug typeId] by linarith
next
  fix slug e cap assume "event_of slug db' = Some e" "ev_capacity e = Some cap"
  then have "int (sold_of_event slug db) \<le> cap" using assms(1,2) by (simp add: within_capacity_def event_of_def)
  then show "int (sold_of_event slug db') \<le> cap" using assms(5) [of slug] by linarith
qed

lemma sold_after_insert:
  assumes "tickets_tb db' = tickets_tb db @ map (inserted_row now i) ns"
  shows "sold_of_type slug typeId db' = sold_of_type slug typeId db +
           (if is_eventSlug i = slug \<and> is_ticketTypeId i = typeId then length ns else 0)"
    and "sold_of_event slug db' = sold_of_event slug db + (if is_eventSlug i = slug then length ns else 0)"
  using assms
  by (simp_all add: sold_of_type_def sold_of_event_def sold_where_def of_type_def filter_map comp_def inserted_row_def)

lemma room_for_issue:
  assumes "capacity_refusal now i n e ty db = None" and "\<not> is_bypassCapacity i" and "0 < n"
  shows "int (sold_of_type (is_eventSlug i) (is_ticketTypeId i) db + n
            + countCheckoutHolds now (is_eventSlug i) (Some (is_ticketTypeId i)) None (is_capacityHoldReference i) db
            + countExchangeHolds (is_eventSlug i) (Some (is_ticketTypeId i)) None None None db) \<le> ty_quantity ty"
    and "ev_capacity e = Some cap \<Longrightarrow> int (sold_of_event (is_eventSlug i) db + n
            + countCheckoutHolds now (is_eventSlug i) None None (is_capacityHoldReference i) db) \<le> cap"
proof -
  have r: "int n \<le> tickets_remaining now i e ty db"
    using assms(1,2) by (simp add: capacity_refusal_def split: if_splits)
  then have "int n \<le> type_remaining now i ty db"
    by (simp add: tickets_remaining_def split: option.splits)
  then show "int (sold_of_type (is_eventSlug i) (is_ticketTypeId i) db + n
            + countCheckoutHolds now (is_eventSlug i) (Some (is_ticketTypeId i)) None (is_capacityHoldReference i) db
            + countExchangeHolds (is_eventSlug i) (Some (is_ticketTypeId i)) None None None db) \<le> ty_quantity ty"
    using assms(3) by (simp add: type_remaining_def)
  assume "ev_capacity e = Some cap"
  with r assms(3) show "int (sold_of_event (is_eventSlug i) db + n
            + countCheckoutHolds now (is_eventSlug i) None None (is_capacityHoldReference i) db) \<le> cap"
    by (auto simp: tickets_remaining_def event_remaining_def max_def split: if_splits)
qed

lemma issue_within:
  assumes "within_capacity db" and "\<not> is_bypassCapacity i"
  shows "within_capacity (run_op (now, OpIssue i ns) db)"
proof (cases rule: issue_rows [of now i ns db])
  case refused
  then show ?thesis
    using assms(1) run_op_tables [of "(now, OpIssue i ns)" db]
    by (intro within_capacity_le [OF assms(1)]) (simp_all add: sold_of_type_def sold_of_event_def sold_where_def)
next
  case (accepted e ty)
  let ?db = "run_op (now, OpIssue i ns) db"
  have t: "events_tb ?db = events_tb db" "types_tb ?db = types_tb db" using run_op_tables by blast+
  have "tickets_tb ?db = tickets_tb db @ map (inserted_row now i) ns" by (rule insert_rows_Some [OF accepted(4)])
  note sold = sold_after_insert [OF this]
  show ?thesis
  proof (cases "ns = []")
    case True
    then show ?thesis using sold t by (intro within_capacity_le [OF assms(1)]) simp_all
  next
    case False
    then have n: "0 < length ns" by simp
    note room = room_for_issue [OF accepted(3) assms(2) n]
    show ?thesis
      unfolding within_capacity_def
    proof (intro conjI allI impI)
      fix slug typeId ty' assume ty': "type_of slug typeId ?db = Some ty'"
      then have old: "int (sold_of_type slug typeId db) \<le> ty_quantity ty'"
        using assms(1) t by (simp add: within_capacity_def type_of_def)
      show "int (sold_of_type slug typeId ?db) \<le> ty_quantity ty'"
      proof (cases "is_eventSlug i = slug \<and> is_ticketTypeId i = typeId")
        case True
        then have "ty' = ty" using ty' t accepted(2) by (simp add: type_of_def)
        then show ?thesis using True sold(1) [of slug typeId] room(1) by simp
      qed (use old sold(1) [of slug typeId] in auto)
    next
      fix slug e' cap assume e': "event_of slug ?db = Some e'" "ev_capacity e' = Some cap"
      then have old: "int (sold_of_event slug db) \<le> cap"
        using assms(1) t by (simp add: within_capacity_def event_of_def)
      show "int (sold_of_event slug ?db) \<le> cap"
      proof (cases "is_eventSlug i = slug")
        case True
        then have "e' = e" using e' t accepted(1) by (simp add: event_of_def)
        then show ?thesis using True sold(2) [of slug] room(2) [of cap] e'(2) by simp
      qed (use old sold(2) [of slug] in auto)
    qed
  qed
qed

text \<open>Operations that may not make room: everything but a staff bypass and what puts tickets back.\<close>

definition capped :: "ticket_op \<Rightarrow> bool" where
  "capped op \<longleftrightarrow> (case op of OpIssue i ns \<Rightarrow> \<not> is_bypassCapacity i | _ \<Rightarrow> \<not> puts_back op)"

lemma run_op_within:
  assumes "within_capacity db" and "capped op"
  shows "within_capacity (run_op (now, op) db)"
proof (cases "\<exists>i ns. op = OpIssue i ns")
  case True
  then show ?thesis using assms issue_within by (auto simp: capped_def)
next
  case False
  then have kept: "list_all2 (rows_kept op) (tickets_tb db) (tickets_tb (run_op (now, op) db))" by (intro run_op_rows) blast
  have nd: "\<not> puts_back op" using assms(2) False by (cases op) (simp_all add: capped_def)
  have "sold_where P (run_op (now, op) db) \<le> sold_where P db"
    if "\<And>t u. same_sale t u \<Longrightarrow> P u = P t" for P
    using that nd by (intro sold_where_le [OF kept]) (simp_all add: rows_kept_def)
  then have "sold_of_type slug typeId (run_op (now, op) db) \<le> sold_of_type slug typeId db"
    and "sold_of_event slug (run_op (now, op) db) \<le> sold_of_event slug db" for slug typeId
    by (simp_all add: sold_of_type_def sold_of_event_def of_type_def same_sale_def)
  then show ?thesis using run_op_tables [of "(now, op)" db] by (intro within_capacity_le [OF assms(1)]) auto
qed

text \<open>C2. Whatever is issued, redeemed, released, voided, refunded, disputed and cancelled,
  in whatever order and at whatever times, no ticket type has more valid tickets than its quantity and no
  event more than its capacity, as long as staff do not bypass the check and no ticket is put back: no
  dispute is won and no refund of a single ticket is refused by the provider. (Completed changes of a
  ticket's type and edits of the quantities themselves are not among the operations.)\<close>

theorem tickets_never_oversold:
  assumes "within_capacity db" and "list_all (\<lambda>(now, op). capped op) ops"
  shows "within_capacity (fold run_op ops db)"
  using assms
proof (induction ops arbitrary: db)
  case (Cons c ops)
  obtain now op where c: "c = (now, op)" by fastforce
  show ?case using Cons.IH [of "run_op c db"] run_op_within [OF Cons.prems(1), of op now] Cons.prems(2) by (simp add: c)
qed simp

section \<open>A ticket is redeemed once\<close>

definition ids_distinct :: "ticket_db \<Rightarrow> bool" where
  "ids_distinct db \<longleftrightarrow> distinct (map tk_id (tickets_tb db))"

definition redeemed :: "js_string \<Rightarrow> ticket_db \<Rightarrow> bool" where
  "redeemed i db \<longleftrightarrow> (\<exists>t\<in>set (tickets_tb db). tk_id t = i \<and> tk_redeemedAt t \<noteq> None)"

text \<open>The tickets that operations let in.\<close>

definition admitted_by :: "int \<times> ticket_op \<Rightarrow> ticket_db \<Rightarrow> js_string list" where
  "admitted_by c db =
     (case c of
        (now, OpClaim i by offline) \<Rightarrow>
          (case snd (claimRedemption now i by offline db) of Claimed t \<Rightarrow> [i] | NotClaimed _ \<Rightarrow> [])
      | _ \<Rightarrow> [])"

fun admissions :: "(int \<times> ticket_op) list \<Rightarrow> ticket_db \<Rightarrow> js_string list" where
  "admissions [] db = []"
| "admissions (c # cs) db = admitted_by c db @ admissions cs (run_op c db)"

definition releases :: "js_string \<Rightarrow> (int \<times> ticket_op) list \<Rightarrow> nat" where
  "releases i ops = length (filter (\<lambda>c. snd c = OpRelease i) ops)"

lemma ids_kept:
  assumes "list_all2 (rows_kept op) ts us"
  shows "map tk_id us = map tk_id ts"
  using assms by induction (auto simp: rows_kept_def same_sale_def)

lemma run_op_ids:
  assumes "ids_distinct db"
  shows "ids_distinct (run_op (now, op) db)"
proof (cases "\<exists>i ns. op = OpIssue i ns")
  case True
  then obtain i ns where op: "op = OpIssue i ns" by blast
  show ?thesis unfolding op
    by (cases rule: issue_rows [of now i ns db])
      (use assms in \<open>auto simp: ids_distinct_def dest: insert_rows_distinct\<close>)
next
  case False
  then have "list_all2 (rows_kept op) (tickets_tb db) (tickets_tb (run_op (now, op) db))" by (intro run_op_rows) blast
  from ids_kept [OF this] show ?thesis using assms by (simp add: ids_distinct_def)
qed

lemma redeemed_kept:
  assumes "list_all2 (rows_kept op) ts us" and "op \<noteq> OpRelease i"
    and "\<exists>t\<in>set ts. tk_id t = i \<and> tk_redeemedAt t \<noteq> None"
  shows "\<exists>u\<in>set us. tk_id u = i \<and> tk_redeemedAt u \<noteq> None"
  using assms by induction (auto simp: rows_kept_def same_sale_def stays_redeemed_def)

lemma run_op_redeemed:
  assumes "redeemed i db" and "op \<noteq> OpRelease i"
  shows "redeemed i (run_op (now, op) db)"
proof (cases "\<exists>j ns. op = OpIssue j ns")
  case True
  then obtain j ns where op: "op = OpIssue j ns" by blast
  show ?thesis unfolding op
    by (cases rule: issue_rows [of now j ns db])
      (use assms(1) in \<open>auto simp: redeemed_def dest!: insert_rows_Some\<close>)
next
  case False
  then have "list_all2 (rows_kept op) (tickets_tb db) (tickets_tb (run_op (now, op) db))" by (intro run_op_rows) blast
  from redeemed_kept [OF this assms(2)] show ?thesis using assms(1) by (simp add: redeemed_def)
qed

lemma claim_redeems:
  assumes "ids_distinct db" and "snd (claimRedemption now i by offline db) = Claimed t"
  shows "\<not> redeemed i db \<and> redeemed i (run_op (now, OpClaim i by offline) db)"
proof -
  have c: "isValidTicketId i" "list_ex (redeemable i) (tickets_tb db)"
    "\<not> (ticket_by_id i db = None \<or> pending_transfer i db \<or> \<not> list_ex (redeemable i) (tickets_tb db))"
    using assms(2) by (auto simp: claimRedemption_def split: if_splits)
  obtain u where u: "u \<in> set (tickets_tb db)" "redeemable i u" using c(2) by (auto simp: list_ex_iff)
  have only: "v = u" if "v \<in> set (tickets_tb db)" "tk_id v = i" for v
  proof -
    have "tk_id v = tk_id u" using u(2) that(2) by (simp add: redeemable_def)
    then show ?thesis
      using assms(1) that(1) u(1) by (auto simp: ids_distinct_def distinct_map dest: inj_onD)
  qed
  have before: "\<not> redeemed i db"
  proof
    assume "redeemed i db"
    then obtain v where "v \<in> set (tickets_tb db)" "tk_id v = i" "tk_redeemedAt v \<noteq> None" by (auto simp: redeemed_def)
    then show False using only [of v] u(2) by (simp add: redeemable_def)
  qed
  have rows: "tickets_tb (run_op (now, OpClaim i by offline) db) =
      map (\<lambda>t. if redeemable i t then redeemed_row now by offline t else t) (tickets_tb db)"
    using c by (auto simp: claimRedemption_def Let_def)
  have "redeemed_row now by offline u \<in> set (tickets_tb (run_op (now, OpClaim i by offline) db))"
    unfolding rows using u by force
  moreover have "tk_id (redeemed_row now by offline u) = i" "tk_redeemedAt (redeemed_row now by offline u) \<noteq> None"
    using u(2) by (simp_all add: redeemed_row_def redeemable_def)
  ultimately show ?thesis using before unfolding redeemed_def by blast
qed

definition is_claim :: "ticket_op \<Rightarrow> bool" where
  "is_claim op \<longleftrightarrow> (case op of OpClaim j by' offline \<Rightarrow> True | _ \<Rightarrow> False)"

lemma admitted_by_only_claims: "\<not> is_claim op \<Longrightarrow> admitted_by (now, op) db = []"
  by (cases op) (simp_all add: admitted_by_def is_claim_def)

lemma admitted_by_OpClaim:
  "i \<in> set (admitted_by (now, OpClaim j by' offline) db) \<Longrightarrow>
   \<exists>t. snd (claimRedemption now j by' offline db) = Claimed t \<and> j = i"
  by (cases "snd (claimRedemption now j by' offline db)") (simp_all add: admitted_by_def)

lemma admitted_by_claim:
  assumes d: "ids_distinct db" and i: "i \<in> set (admitted_by (now, op) db)"
  shows "admitted_by (now, op) db = [i] \<and> \<not> redeemed i db \<and> redeemed i (run_op (now, op) db) \<and> op \<noteq> OpRelease i"
proof -
  have "is_claim op" using admitted_by_only_claims [of op now db] i by (cases "is_claim op") simp_all
  then obtain j by' offline where op: "op = OpClaim j by' offline" by (cases op) (simp_all add: is_claim_def)
  obtain t where t: "snd (claimRedemption now j by' offline db) = Claimed t" "j = i"
    using admitted_by_OpClaim i unfolding op by blast
  have claim: "snd (claimRedemption now i by' offline db) = Claimed t" using t(1) unfolding t(2) .
  have "admitted_by (now, OpClaim i by' offline) db = [i]" by (simp add: admitted_by_def claim)
  then show ?thesis using claim_redeems [OF d claim] unfolding op t(2) by (simp only: simp_thms ticket_op.distinct)
qed

lemma admissions_bound:
  assumes "ids_distinct db"
  shows "count_list (admissions ops db) i \<le> (if redeemed i db then 0 else 1) + releases i ops"
  using assms
proof (induction ops arbitrary: db)
  case (Cons c ops)
  have d: "ids_distinct (run_op c db)" using run_op_ids [OF Cons.prems] by (cases c) simp
  have IH: "count_list (admissions ops (run_op c db)) i \<le> (if redeemed i (run_op c db) then 0 else 1) + releases i ops"
    by (rule Cons.IH [OF d])
  have split: "count_list (admissions (c # ops) db) i =
      count_list (admitted_by c db) i + count_list (admissions ops (run_op c db)) i" by simp
  have rel: "releases i (c # ops) = (if snd c = OpRelease i then 1 else 0) + releases i ops" by (simp add: releases_def)
  show ?case
  proof (cases "i \<in> set (admitted_by c db)")
    case True
    have a: "admitted_by c db = [i]" "\<not> redeemed i db" "redeemed i (run_op c db)" "snd c \<noteq> OpRelease i"
      using admitted_by_claim [of db i "fst c" "snd c"] Cons.prems True by simp_all
    then have "count_list (admitted_by c db) i = 1" by simp
    then show ?thesis using IH split rel a by simp
  next
    case False
    then have z: "count_list (admitted_by c db) i = 0" by (simp add: count_list_0_iff)
    show ?thesis
    proof (cases "snd c = OpRelease i")
      case True
      have "count_list (admissions ops (run_op c db)) i \<le> 1 + releases i ops" using IH by (cases "redeemed i (run_op c db)") simp_all
      then show ?thesis using split rel z True by (cases "redeemed i db") simp_all
    next
      case not_rel: False
      have "redeemed i db \<Longrightarrow> redeemed i (run_op c db)" using run_op_redeemed [of i db "snd c" "fst c"] not_rel by simp
      then show ?thesis using IH split rel z not_rel
        by (cases "redeemed i db"; cases "redeemed i (run_op c db)") simp_all
    qed
  qed
qed simp

text \<open>C6. However many times it is claimed at the server, by doors that are connected or by
  devices handing in their queues, in whatever order with issues, refunds, voids, disputes and other
  tickets, the server grants the claim of a ticket at most once more than staff have taken an admission
  back. (What a device lets in while it is offline is decided there, and only claimed afterwards.)\<close>

theorem ticket_admits_once:
  assumes "ids_distinct db"
  shows "count_list (admissions ops db) i \<le> Suc (releases i ops)"
  using admissions_bound [OF assms, of ops i] by (cases "redeemed i db") simp_all

section \<open>Cumulative refunds\<close>

definition status_of :: "js_string \<Rightarrow> ticket_db \<Rightarrow> ticket_status option" where
  "status_of i db = map_option tk_status (ticket_by_id i db)"

definition covered :: "js_string \<Rightarrow> int \<Rightarrow> ticket_db \<Rightarrow> js_string set" where
  "covered paymentRef a db = tk_id ` set (refund_coverage (Some a) (payment_order paymentRef db))"

lemma covered_rows_subset: "set (covered_rows a ts) \<subseteq> set ts"
  by (induction ts arbitrary: a) auto

lemma covered_rows_mono: "a \<le> b \<Longrightarrow> set (covered_rows a ts) \<subseteq> set (covered_rows b ts)"
proof (induction ts arbitrary: a b)
  case (Cons t ts)
  have "set (covered_rows (a - price_of t) ts) \<subseteq> set (covered_rows (b - price_of t) ts)"
    using Cons.IH [of "a - price_of t" "b - price_of t"] Cons.prems by simp
  then show ?case using Cons.prems by auto
qed simp

lemma coverage_mono: "0 < a \<Longrightarrow> a \<le> b \<Longrightarrow> set (refund_coverage (Some a) ts) \<subseteq> set (refund_coverage (Some b) ts)"
  using covered_rows_mono [of a b ts] covered_rows_subset [of a ts] by (auto simp: refund_coverage_def)

lemma coverage_subset: "set (refund_coverage a ts) \<subseteq> set ts"
  using covered_rows_subset by (simp add: refund_coverage_def split: option.split)

lemma set_payment_order: "set (payment_order p db) = {t \<in> set (tickets_tb db). paid_by p t}"
  by (auto simp: payment_order_def)

text \<open>The coverage reads the sale of a row, which no refund changes.\<close>

lemma sort_key_map: "sort_key k (map f xs) = map f (sort_key (\<lambda>x. k (f x)) xs)"
proof -
  have "insort_key k (f x) (map f ys) = map f (insort_key (\<lambda>x. k (f x)) x ys)" for x ys
    by (induction ys) simp_all
  then show ?thesis by (induction xs) simp_all
qed

lemma payment_order_map:
  assumes "tickets_tb db' = map f (tickets_tb db)" and "\<And>t. same_sale t (f t)"
  shows "payment_order p db' = map f (payment_order p db)"
proof -
  have k: "tk_id (f t) = tk_id t" "tk_issuedAt (f t) = tk_issuedAt t" "paid_by p (f t) = paid_by p t" for t
    using assms(2) [of t] by (simp_all add: same_sale_def paid_by_def)
  show ?thesis unfolding payment_order_def assms(1) by (simp add: filter_map comp_def sort_key_map k)
qed

lemma covered_rows_map: "(\<And>t. price_of (f t) = price_of t) \<Longrightarrow> covered_rows a (map f ts) = map f (covered_rows a ts)"
  by (induction ts arbitrary: a) simp_all

lemma refund_coverage_map:
  assumes "\<And>t. same_sale t (f t)"
  shows "refund_coverage a (map f ts) = map f (refund_coverage a ts)"
proof -
  have p: "price_of (f t) = price_of t" for t using assms [of t] by (simp add: same_sale_def price_of_def)
  then have "sum_list (map price_of (map f ts)) = sum_list (map price_of ts)" by (simp add: comp_def)
  then show ?thesis using covered_rows_map [of f, OF p] by (simp add: refund_coverage_def split: option.split)
qed

lemma covered_map:
  assumes "tickets_tb db' = map f (tickets_tb db)" and "\<And>t. same_sale t (f t)"
  shows "covered p a db' = covered p a db"
proof -
  have i: "tk_id (f t) = tk_id t" for t using assms(2) by (simp add: same_sale_def)
  show ?thesis
    unfolding covered_def payment_order_map [OF assms] refund_coverage_map [of f, OF assms(2)]
    by (simp add: image_image i)
qed

text \<open>What one report of a refund does to the rows.\<close>

definition refund_row :: "int \<Rightarrow> js_string \<Rightarrow> js_string set \<Rightarrow> ticket_row \<Rightarrow> ticket_row" where
  "refund_row now refundRef ids t =
     (if tk_id t \<in> ids \<and> tk_status t \<noteq> TicketRefunded
      then t\<lparr>tk_status := TicketRefunded, tk_refundedAt := Some now, tk_refundRef := Some refundRef\<rparr> else t)"

lemma same_sale_refund_row: "same_sale t (refund_row now r ids t)"
  by (simp add: refund_row_def same_sale_def)

lemma one_row:
  assumes "ids_distinct db" and "t \<in> set (tickets_tb db)" and "u \<in> set (tickets_tb db)" and "tk_id t = tk_id u"
  shows "t = u"
  using assms by (auto simp: ids_distinct_def distinct_map inj_on_def)

lemma markOrderRefunded_rows:
  assumes d: "ids_distinct db"
  shows "tickets_tb (fst (markOrderRefunded now p r (Some a) db)) = map (refund_row now r (covered p a db)) (tickets_tb db)"
proof -
  let ?cov = "refund_coverage (Some a) (payment_order p db)"
  let ?ids = "map tk_id (filter (\<lambda>t. tk_status t \<noteq> TicketRefunded) ?cov)"
  have iff: "tk_id t \<in> set ?ids \<longleftrightarrow> tk_id t \<in> covered p a db \<and> tk_status t \<noteq> TicketRefunded"
    if "t \<in> set (tickets_tb db)" for t
  proof -
    have sub: "set ?cov \<subseteq> set (tickets_tb db)" using coverage_subset set_payment_order by fastforce
    have "u = t" if "u \<in> set ?cov" "tk_id u = tk_id t" for u
      using one_row [OF d _ \<open>t \<in> set (tickets_tb db)\<close>, of u] that sub by blast
    then show ?thesis by (auto simp: covered_def)
  qed
  show ?thesis
  proof (cases "?ids = []")
    case True
    then have "refund_row now r (covered p a db) t = t" if "t \<in> set (tickets_tb db)" for t
      using iff [OF that] unfolding True refund_row_def by (cases "tk_status t = TicketRefunded") simp_all
    then show ?thesis using True by (simp add: markOrderRefunded_def Let_def map_idI)
  next
    case False
    then show ?thesis using iff by (simp add: markOrderRefunded_def Let_def refund_rows_def refund_row_def)
  qed
qed

lemma status_after_refund:
  assumes "ids_distinct db"
  shows "status_of i (fst (markOrderRefunded now p r (Some a) db)) =
           (if i \<in> covered p a db then Some TicketRefunded else status_of i db)"
proof -
  let ?f = "refund_row now r (covered p a db)"
  have k: "tk_id (?f t) = tk_id t" for t using same_sale_refund_row by (simp add: same_sale_def)
  have by_id: "ticket_by_id i (fst (markOrderRefunded now p r (Some a) db)) = map_option ?f (ticket_by_id i db)"
    unfolding ticket_by_id_def markOrderRefunded_rows [OF assms] by (rule find_map_same) (simp add: k)
  show ?thesis
  proof (cases "ticket_by_id i db")
    case None
    then have "i \<notin> tk_id ` set (tickets_tb db)" by (auto simp: ticket_by_id_def find_None_iff)
    moreover have "covered p a db \<subseteq> tk_id ` set (tickets_tb db)"
      using coverage_subset set_payment_order by (fastforce simp: covered_def)
    ultimately show ?thesis using by_id None by (auto simp: status_of_def)
  next
    case (Some t)
    then have "tk_id t = i" by (auto simp: ticket_by_id_def dest: find_SomeD)
    then show ?thesis using by_id Some by (simp add: status_of_def refund_row_def)
  qed
qed

text \<open>The reports of a payment as they arrive: when, under which refund, and the cumulative amount.\<close>

fun run_reports :: "js_string \<Rightarrow> (int \<times> js_string \<times> int) list \<Rightarrow> ticket_db \<Rightarrow> ticket_db" where
  "run_reports p [] db = db"
| "run_reports p ((now, r, a) # reports) db = run_reports p reports (fst (markOrderRefunded now p r (Some a) db))"

lemma run_reports_status:
  assumes "ids_distinct db"
  shows "status_of i (run_reports p reports db) =
           (if \<exists>c\<in>set reports. i \<in> covered p (snd (snd c)) db then Some TicketRefunded else status_of i db)"
  using assms
proof (induction reports arbitrary: db)
  case (Cons c reports)
  obtain now r a where c: "c = (now, r, a)" by (cases c)
  let ?db = "fst (markOrderRefunded now p r (Some a) db)"
  have rows: "tickets_tb ?db = map (refund_row now r (covered p a db)) (tickets_tb db)"
    by (rule markOrderRefunded_rows [OF Cons.prems])
  have "map tk_id (tickets_tb ?db) = map tk_id (tickets_tb db)"
    unfolding rows using same_sale_refund_row by (simp add: same_sale_def)
  then have d: "ids_distinct ?db" using Cons.prems by (simp add: ids_distinct_def)
  have cov: "covered p b ?db = covered p b db" for b by (rule covered_map [OF rows same_sale_refund_row])
  show ?case using Cons.IH [OF d] status_after_refund [OF Cons.prems, of i now p r a] by (simp add: c cov)
qed simp

text \<open>C8. The provider reports the cumulative amount refunded of a payment, and may
  report it late, twice or out of order: after any number of positive reports the tickets that are refunded
  are those the largest of them covers by itself, and every other ticket is as it was.\<close>

theorem cumulative_refunds_agree:
  assumes "ids_distinct db" and "reports \<noteq> []" and "list_all (\<lambda>c. 0 < snd (snd c)) reports"
  shows "status_of i (run_reports p reports db) =
           status_of i (fst (markOrderRefunded now p r (Some (Max (set (map (\<lambda>c. snd (snd c)) reports)))) db))"
proof -
  let ?as = "set (map (\<lambda>c. snd (snd c)) reports)"
  have fin: "finite ?as" "?as \<noteq> {}" using assms(2) by simp_all
  have "(\<exists>c\<in>set reports. i \<in> covered p (snd (snd c)) db) \<longleftrightarrow> (\<exists>a\<in>?as. i \<in> covered p a db)" by auto
  also have "\<dots> \<longleftrightarrow> i \<in> covered p (Max ?as) db"
  proof
    assume "\<exists>a\<in>?as. i \<in> covered p a db"
    then obtain a where a: "a \<in> ?as" "i \<in> covered p a db" by blast
    then have "0 < a" using assms(3) by (auto simp: list_all_iff)
    then show "i \<in> covered p (Max ?as) db"
      using a coverage_mono [of a "Max ?as"] Max_ge [OF fin(1) a(1)] unfolding covered_def by blast
  next
    assume "i \<in> covered p (Max ?as) db"
    then show "\<exists>a\<in>?as. i \<in> covered p a db" using Max_in [OF fin] by blast
  qed
  finally show ?thesis
    unfolding run_reports_status [OF assms(1)] status_after_refund [OF assms(1)] by simp
qed

section \<open>One ticket of an order is refunded\<close>

lemma covered_first:
  assumes "payment_order p db = t # ts" and "0 < price_of t" and "price_of t \<le> a"
  shows "tk_id t \<in> covered p a db"
  using assms by (simp add: covered_def refund_coverage_def)

lemma markTicketStatus_rows:
  assumes "isValidTicketId i" and "ticket_by_id i db \<noteq> None"
  shows "\<exists>f. tickets_tb (markTicketStatus now i refunded ref db) = map f (tickets_tb db) \<and> (\<forall>t. same_sale t (f t))"
  using assms unfolding markTicketStatus_def
  by (intro exI [of _ "\<lambda>t. if tk_id t = i then t\<lparr>tk_status := (if refunded then TicketRefunded else TicketVoid),
        tk_refundedAt := (if refunded then Some now else tk_refundedAt t), tk_refundRef := coalesce ref (tk_refundRef t)\<rparr> else t"])
    (auto simp: same_sale_def)

text \<open>C20. The holder of one ticket of an order gets that ticket refunded, which marks
  it and makes the provider report its price as refunded of the payment. The reconciliation of that report,
  which counts no refunds of single tickets, also refunds the first ticket of the order, whoever holds it.\<close>

theorem single_refund_takes_another:
  assumes "ids_distinct db" and "payment_order p db = first # others" and "u \<in> set others"
    and "isValidTicketId (tk_id u)" and "0 < price_of first" and "price_of first \<le> price_of u"
    and "rf_succeeded refund" and "rf_amountMinor refund = price_of u"
  shows "status_of (tk_id first)
           (fst (reconcilePaymentRefunds now p (price_of u) [refund] 0
              (markTicketStatus now (tk_id u) True (Some groupRef) db))) = Some TicketRefunded"
proof -
  let ?db = "markTicketStatus now (tk_id u) True (Some groupRef) db"
  have "u \<in> set (payment_order p db)" using assms(2,3) by simp
  then have "u \<in> set (tickets_tb db)" by (simp add: set_payment_order)
  then have "ticket_by_id (tk_id u) db \<noteq> None" by (auto simp: ticket_by_id_def find_None_iff)
  then obtain f where f: "tickets_tb ?db = map f (tickets_tb db)" "\<And>t. same_sale t (f t)"
    using markTicketStatus_rows [OF assms(4)] by blast
  have "map tk_id (tickets_tb ?db) = map tk_id (tickets_tb db)" using f by (simp add: same_sale_def)
  then have d: "ids_distinct ?db" using assms(1) by (simp add: ids_distinct_def)
  have "tk_id first \<in> covered p (price_of u) ?db"
    unfolding covered_map [OF f] by (rule covered_first [OF assms(2,5,6)])
  moreover have "fst (reconcilePaymentRefunds now p (price_of u) [refund] 0 ?db) =
      fst (markOrderRefunded now p (rf_id refund) (Some (price_of u)) ?db)"
    using assms(5-8) by (simp add: reconcilePaymentRefunds_def Let_def)
  ultimately show ?thesis using status_after_refund [OF d] by simp
qed

section \<open>Sample tables\<close>

definition sample_ticket :: "js_string \<Rightarrow> int \<Rightarrow> ticket_row" where
  "sample_ticket i at =
     \<lparr>tk_id = i, tk_accessReference = None, tk_eventSlug = ''gala'', tk_ticketTypeId = ''std'', tk_kind = PaidTicket,
      tk_status = TicketValid, tk_holderName = ''Ann'', tk_email = None, tk_emailHash = None, tk_orderId = ''o1'',
      tk_parentTicketId = None, tk_issuedAt = at, tk_redeemedAt = None, tk_redeemedBy = None,
      tk_redeemedOffline = None, tk_paymentRef = Some ''pi1'', tk_checkoutRef = None, tk_amountPaidMinor = Some 1500,
      tk_currency = Some ''gbp'', tk_refundedAt = None, tk_refundRef = None, tk_notes = None\<rparr>"

definition ticket_a :: js_string where
  "ticket_a = ''AAAAAAAAAAAAAAAA''"

definition ticket_b :: js_string where
  "ticket_b = ''BBBBBBBBBBBBBBBB''"

definition ticket_c :: js_string where
  "ticket_c = ''CCCCCCCCCCCCCCCC''"

text \<open>An event with two places, both sold to one order.\<close>

definition sold_out_db :: ticket_db where
  "sold_out_db =
     \<lparr>events_tb = [\<lparr>ev_slug = ''gala'', ev_capacity = Some 2, ev_status = EventPublished, ev_startsAt = 1000, ev_endsAt = None\<rparr>],
      types_tb = [\<lparr>ty_eventSlug = ''gala'', ty_id = ''std'', ty_quantity = 2, ty_perPersonLimit = 4, ty_salesStart = None,
                   ty_salesEnd = None, ty_hidden = False\<rparr>],
      tickets_tb = [sample_ticket ticket_a 1, sample_ticket ticket_b 2], checkouts_tb = [], exchanges_tb = [],
      transfers_tb = [], participants_tb = []\<rparr>"

definition sample_issue :: issue_input where
  "sample_issue =
     \<lparr>is_eventSlug = ''gala'', is_ticketTypeId = ''std'', is_kind = PaidTicket, is_orderId = ''o2'', is_email = None,
      is_emailHash = None, is_paymentRef = Some ''pi2'', is_checkoutRef = None, is_capacityHoldReference = None,
      is_amountPaidMinor = Some 1500, is_currency = Some ''gbp'', is_notes = None, is_bypassCapacity = False,
      is_enforceSalesWindow = True\<rparr>"

definition new_c :: new_ticket where
  "new_c = \<lparr>nt_id = ticket_c, nt_holderName = ''Cy'', nt_parentTicketId = None, nt_amountPaidMinor = None\<rparr>"

lemma sold_out_within: "within_capacity sold_out_db"
  by (auto simp: within_capacity_def type_of_def event_of_def sold_out_db_def sold_of_type_def sold_of_event_def
      sold_where_def of_type_def sample_ticket_def split: if_splits)

lemma sold_out_distinct: "ids_distinct sold_out_db"
  by code_simp

definition sample_ops :: "(int \<times> ticket_op) list" where
  "sample_ops = [(10, OpIssue sample_issue [new_c]), (11, OpClaim ticket_a None False), (12, OpClaim ticket_a None True),
     (12, OpRefundStart ticket_b (sample_ticket ticket_b 2) [1500] None), (13, OpStatus ticket_b True None),
     (14, OpIssue sample_issue [new_c])]"

theorem tickets_never_oversold_witness:
  "within_capacity (fold run_op sample_ops sold_out_db) \<and>
   map tk_id (tickets_tb (fold run_op sample_ops sold_out_db)) = [ticket_a, ticket_b, ticket_c]"
proof
  have "list_all (\<lambda>(now, op). capped op) sample_ops" by code_simp
  then show "within_capacity (fold run_op sample_ops sold_out_db)"
    by (rule tickets_never_oversold [OF sold_out_within])
  show "map tk_id (tickets_tb (fold run_op sample_ops sold_out_db)) = [ticket_a, ticket_b, ticket_c]" by code_simp
qed

theorem ticket_admits_once_witness:
  "count_list (admissions sample_ops sold_out_db) ticket_a \<le> Suc (releases ticket_a sample_ops)"
  by (rule ticket_admits_once [OF sold_out_distinct])

definition sample_reports :: "(int \<times> js_string \<times> int) list" where
  "sample_reports = [(20, ''re2'', 3000), (21, ''re1'', 1500), (22, ''re2'', 3000)]"

theorem cumulative_refunds_agree_witness:
  "status_of ticket_b (run_reports ''pi1'' sample_reports sold_out_db) =
     status_of ticket_b (fst (markOrderRefunded 9 ''pi1'' ''re'' (Some (Max (set (map (\<lambda>c. snd (snd c)) sample_reports)))) sold_out_db))"
  by (rule cumulative_refunds_agree [OF sold_out_distinct]) (simp_all add: sample_reports_def)

theorem single_refund_takes_another_witness:
  "status_of ticket_a
     (fst (reconcilePaymentRefunds 9 ''pi1'' 1500 [\<lparr>rf_id = ''re'', rf_succeeded = True, rf_amountMinor = 1500\<rparr>] 0
        (markTicketStatus 9 ticket_b True (Some ''group'') sold_out_db))) = Some TicketRefunded"
proof -
  have o: "payment_order ''pi1'' sold_out_db = sample_ticket ticket_a 1 # [sample_ticket ticket_b 2]" by code_simp
  have v: "isValidTicketId (tk_id (sample_ticket ticket_b 2))" by code_simp
  show ?thesis
    using single_refund_takes_another [OF sold_out_distinct o _ v, of "\<lparr>rf_id = ''re'', rf_succeeded = True, rf_amountMinor = 1500\<rparr>"
        9 "''group''"]
    by (simp add: sample_ticket_def price_of_def)
qed

text \<open>
  A refund of one ticket frees its place, the place is sold again, and the provider refuses the refund:
  the ticket is put back with no look at the capacity. Likewise a dispute frees the places of an order,
  they are sold again, and winning the dispute brings the first tickets back. Either way three valid
  tickets where there are two places.
\<close>

lemma failed_refund_oversells:
  "sold_of_event ''gala''
     (fold run_op [(10, OpRefundStart ticket_a (sample_ticket ticket_a 1) [1500] None), (11, OpIssue sample_issue [new_c]),
        (12, OpRefundRefused ticket_a)] sold_out_db) = 3"
  by code_simp

lemma won_dispute_oversells:
  "sold_of_event ''gala''
     (fold run_op [(10, OpDisputed ''pi1'' ''dp''), (11, OpIssue sample_issue [new_c]), (12, OpDisputeWon ''pi1'' ''dp'')]
        sold_out_db) = 3"
  by code_simp

end
