(* ===== verification/TicketDoorFacts.thy ===== *)
theory TicketDoorFacts
  imports TicketDoor TicketFacts
begin

text \<open>
  The door: the code of a ticket reads back as the ticket, a device that works offline lets a ticket in once
  and loses nothing in a reload, and what it does not know of admissions online.
\<close>

section \<open>The code of a ticket\<close>

lemma split_on_free: "c \<notin> set a \<Longrightarrow> split_on c a = [a]"
  by (induction a) auto

lemma split_on_append: "c \<notin> set a \<Longrightarrow> split_on c (a @ c # s) = a # split_on c s"
  by (induction a) auto

lemma ticket_char_alnum: "ticket_char c \<Longrightarrow> \<not> is_space c \<and> c \<noteq> CHR ''.'' \<and> upper_char c = [c]"
proof -
  have "list_all (\<lambda>c. \<not> is_space c \<and> c \<noteq> CHR ''.'' \<and> upper_char c = [c]) ''0123456789ABCDEFGHJKMNPQRSTVWXYZ''"
    by code_simp
  then show "ticket_char c \<Longrightarrow> \<not> is_space c \<and> c \<noteq> CHR ''.'' \<and> upper_char c = [c]"
    unfolding ticket_char_def list_all_iff by blast
qed

lemma signature_char_plain: "signature_char c \<Longrightarrow> \<not> is_space c \<and> c \<noteq> CHR ''.''"
proof -
  have "list_all (\<lambda>c. \<not> is_space c \<and> c \<noteq> CHR ''.'')
      ''ABCDEFGHIJKLMNOPQRSTUVWXYZabcdefghijklmnopqrstuvwxyz0123456789_-''" by code_simp
  then show "signature_char c \<Longrightarrow> \<not> is_space c \<and> c \<noteq> CHR ''.''" unfolding signature_char_def list_all_iff by blast
qed

lemma js_trim_plain:
  assumes "s \<noteq> []" and "\<not> is_space (hd s)" and "\<not> is_space (last s)"
  shows "js_trim s = s"
proof -
  have front: "dropWhile is_space s = s" using assms(1,2) by (cases s) simp_all
  have "dropWhile is_space (rev s) = rev s" using assms(1,3) by (cases s rule: rev_cases) simp_all
  with front show ?thesis by (simp add: js_trim_def)
qed

lemma js_trim_no_space: "list_all (\<lambda>c. \<not> is_space c) s \<Longrightarrow> js_trim s = s"
proof (cases "s = []")
  case False
  moreover assume "list_all (\<lambda>c. \<not> is_space c) s"
  ultimately show ?thesis by (intro js_trim_plain) (simp_all add: list_all_iff)
qed (simp add: js_trim_def)

lemma format_parses:
  assumes "isValidTicketId i" and "signature_shape g"
  shows "parseTicketQrPayload parse_url (formatTicketQrPayload i g) = Some (i, g)"
proof -
  define code where "code = formatTicketQrPayload i g"
  have i: "CHR ''.'' \<notin> set i" using assms(1) ticket_char_alnum by (auto simp: isValidTicketId_def list_all_iff)
  have g: "CHR ''.'' \<notin> set g" "g \<noteq> []" using assms(2) signature_char_plain by (auto simp: signature_shape_def list_all_iff)
  have s: "code = ''mah1'' @ CHR ''.'' # i @ CHR ''.'' # g"
    by (simp add: code_def formatTicketQrPayload_def TICKET_QR_VERSION_def)
  have parts: "split_on (CHR ''.'') code = [''mah1'', i, g]"
    unfolding s using i g(1) by (simp add: split_on_append split_on_free)
  have "\<not> is_space (last code)"
    using assms(2) g(2) signature_char_plain [of "last g"] by (simp add: s signature_shape_def list_all_iff)
  moreover have "\<not> is_space (hd code)" by (simp add: s is_space_def)
  moreover have ne: "code \<noteq> []" by (simp add: s)
  ultimately have trim: "js_trim code = code" by (intro js_trim_plain)
  have "\<not> http_url code" by (simp add: http_url_def s to_lower_def lower_char_def starts_with_def Let_def)
  then have "parseTicketQrPayload parse_url code = Some (i, g)"
    using assms parts ne by (simp add: parseTicketQrPayload_def trim extractPayloadFromUrl_def TICKET_QR_VERSION_def)
  then show ?thesis unfolding code_def .
qed

lemma to_upper_id: "list_all ticket_char s \<Longrightarrow> to_upper s = s"
  using ticket_char_alnum by (induction s) (auto simp: to_upper_def)

text \<open>Characters whose capitals are those of a ticket id: no separator of a code and no scheme of a URL.\<close>

lemma lower_char_colon: "lower_char c = CHR '':'' \<Longrightarrow> c = CHR '':''"
proof (rule ccontr)
  assume l: "lower_char c = CHR '':''" and "c \<noteq> CHR '':''"
  define n where "n = (of_char c :: nat)"
  have r: "(65 \<le> n \<and> n \<le> 90) \<or> (192 \<le> n \<and> n \<le> 222)" and "lower_char c = char_of (n + 32)"
    using l \<open>c \<noteq> CHR '':''\<close> by (auto simp: lower_char_def n_def Let_def split: if_splits)
  then have "of_char (char_of (n + 32) :: char) = (of_char (CHR '':'') :: nat)" using l by simp
  then have "(n + 32) mod 256 = 58" by simp
  with r show False by auto
qed

lemma typed_char_plain:
  assumes "list_all ticket_char (upper_char c)"
  shows "c \<noteq> CHR ''.'' \<and> lower_char c \<noteq> CHR '':''"
proof -
  have "\<not> list_all ticket_char (upper_char (CHR ''.''))" "\<not> list_all ticket_char (upper_char (CHR '':''))" by code_simp+
  then show ?thesis using assms lower_char_colon by blast
qed

lemma typed_id_parses_not:
  assumes "isValidTicketId (to_upper (js_trim typed))"
  shows "parseTicketQrPayload parse_url typed = None"
proof -
  define u where "u = js_trim typed"
  have "list_all ticket_char (upper_char c)" if "c \<in> set u" for c
    using assms that by (auto simp: u_def isValidTicketId_def to_upper_def list_all_iff)
  then have c: "c \<noteq> CHR ''.'' \<and> lower_char c \<noteq> CHR '':''" if "c \<in> set u" for c using that typed_char_plain by blast
  have "CHR '':'' \<notin> set (to_lower u)" using c unfolding to_lower_def by fastforce
  then have "\<not> http_url u" by (auto simp: http_url_def starts_with_def dest!: arg_cong [where f = set] in_set_takeD)
  moreover have "split_on (CHR ''.'') u = [u]" using c by (intro split_on_free) blast
  ultimately show ?thesis by (simp add: parseTicketQrPayload_def u_def extractPayloadFromUrl_def Let_def)
qed

text \<open>C36. The code printed for a ticket is read back as that ticket with a signature
  that verifies, so a scan of it gets past the checks on the code; and the id typed in by hand, in capitals
  or not and with blanks around it, is read as the same ticket.\<close>

theorem ticket_code_names_its_ticket:
  assumes "buildTicketQrPayload hmac i = Some code"
    and "\<And>h. hmac (TICKET_QR_VERSION @ ''.'' @ i) = Some h \<Longrightarrow> signature_shape (take 22 h)"
  shows "scanned_id parse_url code = Some i \<and>
         (\<exists>g. parseTicketQrPayload parse_url code = Some (i, g) \<and> verifyTicketSignature hmac i g) \<and>
         scanned_id parse_url i = Some i \<and>
         (\<forall>typed. to_upper (js_trim typed) = i \<longrightarrow> scanned_id parse_url typed = Some i)"
proof -
  obtain h where h: "isValidTicketId i" "hmac (TICKET_QR_VERSION @ ''.'' @ i) = Some h"
    "code = formatTicketQrPayload i (take 22 h)"
    using assms(1) by (auto simp: buildTicketQrPayload_def signatureFor_def split: if_splits)
  have p: "parseTicketQrPayload parse_url code = Some (i, take 22 h)"
    unfolding h(3) by (rule format_parses [OF h(1) assms(2) [OF h(2)]])
  have "verifyTicketSignature hmac i (take 22 h)" using h by (simp add: verifyTicketSignature_def signatureFor_def)
  moreover have typed: "scanned_id parse_url t = Some i" if "to_upper (js_trim t) = i" for t
    using typed_id_parses_not [of t parse_url] h(1) that by (simp add: scanned_id_def)
  moreover have "to_upper (js_trim i) = i"
  proof -
    have c: "list_all ticket_char i" using h(1) by (simp add: isValidTicketId_def)
    then have "js_trim i = i" using ticket_char_alnum by (intro js_trim_no_space) (auto simp: list_all_iff)
    with to_upper_id [OF c] show ?thesis by simp
  qed
  ultimately show ?thesis using p by (simp add: scanned_id_def)
qed

section \<open>A shift at the door\<close>

datatype door_event =
  DoorScan js_string js_string
| DoorSynced "js_string list"
| DoorRefresh "js_string list"
| DoorReload "js_string list"

fun run_door :: "'a services_scheme \<Rightarrow> (js_string \<Rightarrow> bool) \<Rightarrow> door_event list \<Rightarrow> door_state \<Rightarrow> door_state" where
  "run_door w is_date [] st = st"
| "run_door w is_date (DoorScan i t # evs) st = run_door w is_date evs (fst (recordOfflineScan i (hashTicketId w i) t st))"
| "run_door w is_date (DoorSynced ids # evs) st = run_door w is_date evs (clearSynced ids st)"
| "run_door w is_date (DoorRefresh m # evs) st = run_door w is_date evs (applyManifest m st)"
| "run_door w is_date (DoorReload m # evs) st =
     run_door w is_date evs (restoreDoorOfflineState is_date m (door_json st))"

text \<open>The tickets a shift lets in.\<close>

fun let_in :: "'a services_scheme \<Rightarrow> (js_string \<Rightarrow> bool) \<Rightarrow> door_event list \<Rightarrow> door_state \<Rightarrow> js_string list" where
  "let_in w is_date [] st = []"
| "let_in w is_date (DoorScan i t # evs) st =
     (if snd (recordOfflineScan i (hashTicketId w i) t st) = AdmittedOffline then [i] else []) @
     let_in w is_date evs (fst (recordOfflineScan i (hashTicketId w i) t st))"
| "let_in w is_date (DoorSynced ids # evs) st = let_in w is_date evs (clearSynced ids st)"
| "let_in w is_date (DoorRefresh m # evs) st = let_in w is_date evs (applyManifest m st)"
| "let_in w is_date (DoorReload m # evs) st =
     let_in w is_date evs (restoreDoorOfflineState is_date m (door_json st))"

fun no_reload :: "door_event \<Rightarrow> door_event" where
  "no_reload (DoorReload m) = DoorRefresh m"
| "no_reload ev = ev"

text \<open>What scans are made of: ids, dates, and hashes in hexadecimal.\<close>

definition fine_scan :: "'a services_scheme \<Rightarrow> (js_string \<Rightarrow> bool) \<Rightarrow> door_event \<Rightarrow> bool" where
  "fine_scan w is_date ev \<longleftrightarrow>
     (case ev of DoorScan i t \<Rightarrow> isValidTicketId i \<and> is_date t \<and> manifest_hash (hashTicketId w i) | _ \<Rightarrow> True)"

definition scans :: "door_event list \<Rightarrow> nat" where
  "scans evs = length (filter (\<lambda>ev. case ev of DoorScan i t \<Rightarrow> True | _ \<Rightarrow> False) evs)"

definition door_ok :: "'a services_scheme \<Rightarrow> (js_string \<Rightarrow> bool) \<Rightarrow> door_state \<Rightarrow> bool" where
  "door_ok w is_date st \<longleftrightarrow>
     distinct (dm_admitted st) \<and> list_all manifest_hash (dm_admitted st) \<and>
     distinct (map qr_ticketId (dm_queue st)) \<and>
     list_all (\<lambda>q. isValidTicketId (qr_ticketId q) \<and> is_date (qr_scannedAt q) \<and>
        hashTicketId w (qr_ticketId q) \<in> set (dm_admitted st)) (dm_queue st) \<and>
     length (dm_queue st) \<le> length (dm_admitted st)"

lemma door_ok_empty: "door_ok w is_date EMPTY_DOOR_STATE"
  by (simp add: door_ok_def EMPTY_DOOR_STATE_def)

lemma take_last_all: "length xs \<le> n \<Longrightarrow> take_last n xs = xs"
  by (simp add: take_last_def)

lemma set_order_distinct: "distinct xs \<Longrightarrow> set_order xs = xs"
  by (simp add: set_order_def distinct_remdups_id)

lemma restore_queue_own:
  "distinct (map qr_ticketId (queue @ qs)) \<Longrightarrow> list_all (\<lambda>q. isValidTicketId (qr_ticketId q) \<and> is_date (qr_scannedAt q)) qs \<Longrightarrow>
   restore_queue is_date queue
     (map (\<lambda>q. JObject [(''ticketId'', JString (qr_ticketId q)), (''scannedAt'', JString (qr_scannedAt q))]) qs) = queue @ qs"
proof (induction qs arbitrary: queue)
  case (Cons q qs)
  have "restore_entry is_date (JObject [(''ticketId'', JString (qr_ticketId q)), (''scannedAt'', JString (qr_scannedAt q))]) = Some q"
    using Cons.prems(2) by (simp add: restore_entry_def)
  moreover have "qr_ticketId q \<notin> set (map qr_ticketId queue)" using Cons.prems(1) by auto
  ultimately show ?case using Cons.IH [of "queue @ [q]"] Cons.prems by simp
qed simp

lemma map_filter_strings: "List.map_filter json_string (map JString xs) = xs"
  by (induction xs) (simp_all add: List.map_filter_def)

lemma reload_own:
  assumes "door_ok w is_date st" and "length (dm_admitted st) \<le> MAX_OFFLINE_ADMISSIONS"
  shows "restoreDoorOfflineState is_date m (door_json st) = applyManifest m st"
proof -
  have a: "restore_admitted (Some (JArray (map JString (dm_admitted st)))) = dm_admitted st"
  proof -
    have "filter manifest_hash (dm_admitted st) = dm_admitted st"
      using assms(1) by (simp add: door_ok_def list_all_iff filter_id_conv)
    then show ?thesis
      using assms by (simp add: restore_admitted_def map_filter_strings take_last_all set_order_distinct door_ok_def)
  qed
  have "restore_queue is_date [] (map (\<lambda>q. JObject [(''ticketId'', JString (qr_ticketId q)),
      (''scannedAt'', JString (qr_scannedAt q))]) (dm_queue st)) = dm_queue st"
    using assms(1) restore_queue_own [of "[]" "dm_queue st" is_date] by (simp add: door_ok_def list_all_iff)
  moreover have "length (dm_queue st) \<le> MAX_OFFLINE_ADMISSIONS" using assms by (simp add: door_ok_def)
  ultimately show ?thesis
    using a by (simp add: restoreDoorOfflineState_def door_json_def applyManifest_def take_last_all)
qed

lemma scan_cases:
  obtains (in_now) "snd (recordOfflineScan i h t st) = AdmittedOffline" "h \<notin> set (dm_admitted st)"
      "fst (recordOfflineScan i h t st) = st\<lparr>dm_admitted := dm_admitted st @ [h],
         dm_queue := dm_queue st @ [\<lparr>qr_ticketId = i, qr_scannedAt = t\<rparr>]\<rparr>"
  | (not_in) "snd (recordOfflineScan i h t st) \<noteq> AdmittedOffline" "fst (recordOfflineScan i h t st) = st"
  by (cases "h \<notin> set (dm_manifest st) \<or> h \<in> set (dm_admitted st)") (auto simp: recordOfflineScan_def)

lemma scan_ok:
  assumes "door_ok w is_date st" and "fine_scan w is_date (DoorScan i t)"
  shows "door_ok w is_date (fst (recordOfflineScan i (hashTicketId w i) t st)) \<and>
         length (dm_admitted (fst (recordOfflineScan i (hashTicketId w i) t st))) \<le> Suc (length (dm_admitted st))"
proof (cases rule: scan_cases [of i "hashTicketId w i" t st])
  case in_now
  have "i \<notin> set (map qr_ticketId (dm_queue st))"
    using assms(1) in_now(2) by (auto simp: door_ok_def list_all_iff)
  then show ?thesis using assms in_now(2)
    unfolding in_now(3) by (auto simp: door_ok_def fine_scan_def list_all_iff)
next
  case not_in
  then show ?thesis using assms(1) by simp
qed

lemma clear_ok: "door_ok w is_date st \<Longrightarrow> door_ok w is_date (clearSynced ids st)"
  using le_trans [OF length_filter_le [of _ "dm_queue st"]]
  by (auto simp: door_ok_def clearSynced_def list_all_iff distinct_map_filter)

lemma manifest_ok: "door_ok w is_date (applyManifest m st) = door_ok w is_date st"
  by (simp add: door_ok_def applyManifest_def)

lemma shift_as_one:
  assumes "door_ok w is_date st" and "list_all (fine_scan w is_date) evs"
    and "length (dm_admitted st) + scans evs \<le> MAX_OFFLINE_ADMISSIONS"
  shows "run_door w is_date evs st = run_door w is_date (map no_reload evs) st \<and>
         let_in w is_date evs st = let_in w is_date (map no_reload evs) st"
  using assms
proof (induction evs arbitrary: st)
  case (Cons ev evs)
  show ?case
  proof (cases ev)
    case (DoorScan i t)
    have f: "fine_scan w is_date (DoorScan i t)" using Cons.prems(2) DoorScan by simp
    show ?thesis
      using Cons.IH [of "fst (recordOfflineScan i (hashTicketId w i) t st)"] scan_ok [OF Cons.prems(1) f] Cons.prems(2,3)
      by (simp add: DoorScan scans_def)
  next
    case (DoorSynced ids)
    then show ?thesis using Cons.IH [OF clear_ok [OF Cons.prems(1)]] Cons.prems(2,3) by (simp add: scans_def clearSynced_def)
  next
    case (DoorRefresh m)
    then show ?thesis using Cons.IH [of "applyManifest m st"] Cons.prems by (simp add: scans_def manifest_ok) (simp add: applyManifest_def)
  next
    case (DoorReload m)
    have r: "restoreDoorOfflineState is_date m (door_json st) = applyManifest m st"
      using Cons.prems(3) by (intro reload_own [OF Cons.prems(1)]) simp
    have l: "length (dm_admitted (applyManifest m st)) = length (dm_admitted st)" by (simp add: applyManifest_def)
    show ?thesis using Cons.IH [of "applyManifest m st"] Cons.prems l by (simp add: DoorReload scans_def manifest_ok r)
  qed
qed simp

text \<open>C24. A reload of the page, at any moment of a shift of at most 5000 scans, is nothing
  but a refresh of the manifest: the device ends in the same state and has let in the same tickets.\<close>

theorem reload_keeps_the_shift:
  assumes "list_all (fine_scan w is_date) evs" and "scans evs \<le> 5000"
  shows "run_door w is_date evs EMPTY_DOOR_STATE = run_door w is_date (map no_reload evs) EMPTY_DOOR_STATE \<and>
         let_in w is_date evs EMPTY_DOOR_STATE = let_in w is_date (map no_reload evs) EMPTY_DOOR_STATE"
  using assms by (intro shift_as_one [OF door_ok_empty]) (simp_all add: EMPTY_DOOR_STATE_def MAX_OFFLINE_ADMISSIONS_def)

text \<open>A device keeps what it let in until the server has it, and lets nothing in again.\<close>

definition synced_in :: "js_string \<Rightarrow> door_event list \<Rightarrow> bool" where
  "synced_in i evs \<longleftrightarrow> list_ex (\<lambda>ev. case ev of DoorSynced ids \<Rightarrow> i \<in> set ids | _ \<Rightarrow> False) evs"

lemma shift_admissions:
  assumes "door_ok w is_date st" and "list_all (fine_scan w is_date) evs"
    and "length (dm_admitted st) + scans evs \<le> MAX_OFFLINE_ADMISSIONS"
  shows "distinct (map (hashTicketId w) (let_in w is_date evs st)) \<and>
         hashTicketId w ` set (let_in w is_date evs st) \<inter> set (dm_admitted st) = {} \<and>
         (\<forall>i. i \<in> qr_ticketId ` set (dm_queue st) \<union> set (let_in w is_date evs st) \<longrightarrow> \<not> synced_in i evs \<longrightarrow>
            i \<in> qr_ticketId ` set (dm_queue (run_door w is_date evs st)))"
  using assms
proof (induction evs arbitrary: st)
  case (Cons ev evs)
  show ?case
  proof (cases ev)
    case (DoorScan i t)
    have f: "fine_scan w is_date (DoorScan i t)" using Cons.prems(2) DoorScan by simp
    note IH = Cons.IH [of "fst (recordOfflineScan i (hashTicketId w i) t st)"]
    have sy: "synced_in j (ev # evs) = synced_in j evs" for j by (simp add: synced_in_def DoorScan)
    show ?thesis
      using IH scan_ok [OF Cons.prems(1) f] Cons.prems(2,3)
      by (cases rule: scan_cases [of i "hashTicketId w i" t st])
        (auto simp: DoorScan scans_def synced_in_def image_iff)
  next
    case (DoorSynced ids)
    have "length (dm_admitted (clearSynced ids st)) = length (dm_admitted st)" "dm_admitted (clearSynced ids st) = dm_admitted st"
      by (simp_all add: clearSynced_def)
    then show ?thesis
      using Cons.IH [OF clear_ok [OF Cons.prems(1)], of ids] Cons.prems(2,3)
      by (simp add: DoorSynced scans_def synced_in_def) (auto simp: clearSynced_def image_iff)
  next
    case (DoorRefresh m)
    have "dm_admitted (applyManifest m st) = dm_admitted st" "dm_queue (applyManifest m st) = dm_queue st"
      by (simp_all add: applyManifest_def)
    then show ?thesis
      using Cons.IH [of "applyManifest m st"] Cons.prems by (simp add: DoorRefresh scans_def manifest_ok synced_in_def)
  next
    case (DoorReload m)
    have r: "restoreDoorOfflineState is_date m (door_json st) = applyManifest m st"
      using Cons.prems(3) by (intro reload_own [OF Cons.prems(1)]) simp
    have "dm_admitted (applyManifest m st) = dm_admitted st" "dm_queue (applyManifest m st) = dm_queue st"
      by (simp_all add: applyManifest_def)
    then show ?thesis
      using Cons.IH [of "applyManifest m st"] Cons.prems by (simp add: DoorReload scans_def manifest_ok synced_in_def r)
  qed
qed (simp add: synced_in_def)

text \<open>C14. Through any shift of at most 5000 scans, with replays, refreshes and reloads anywhere,
  a device that decides by itself lets no ticket in twice, and a ticket it let in stays in its queue until a
  replay has named it.\<close>

theorem device_admits_once:
  assumes "list_all (fine_scan w is_date) evs" and "scans evs \<le> 5000"
  shows "distinct (let_in w is_date evs EMPTY_DOOR_STATE) \<and>
         (\<forall>i. i \<in> set (let_in w is_date evs EMPTY_DOOR_STATE) \<longrightarrow>
            synced_in i evs \<or> i \<in> set (map qr_ticketId (dm_queue (run_door w is_date evs EMPTY_DOOR_STATE))))"
proof -
  have "length (dm_admitted EMPTY_DOOR_STATE) + scans evs \<le> MAX_OFFLINE_ADMISSIONS"
    using assms(2) by (simp add: EMPTY_DOOR_STATE_def MAX_OFFLINE_ADMISSIONS_def)
  from shift_admissions [OF door_ok_empty assms(1) this]
  have "distinct (map (hashTicketId w) (let_in w is_date evs EMPTY_DOOR_STATE))"
    "\<forall>i. i \<in> set (let_in w is_date evs EMPTY_DOOR_STATE) \<longrightarrow> \<not> synced_in i evs \<longrightarrow>
       i \<in> qr_ticketId ` set (dm_queue (run_door w is_date evs EMPTY_DOOR_STATE))" by blast+
  then show ?thesis by (auto simp: distinct_map)
qed

section \<open>What a device does not know\<close>

lemma getTicketD:
  assumes "getTicket i db = Some t"
  shows "t \<in> set (tickets_tb db) \<and> (tk_id t = i \<or> tk_accessReference t = Some i)"
  using assms by (auto simp: getTicket_def ticket_by_id_def split: if_splits option.splits dest: find_SomeD)

lemma redeem_admits:
  assumes "redeemTicket parse_url hmac now inp db = (db', Admitted t)" and "scanned_id parse_url (ri_scanned inp) = Some i"
  shows "\<exists>u. u \<in> set (tickets_tb db) \<and> (tk_id u = i \<or> tk_accessReference u = Some i) \<and>
           (truthy (tk_accessReference u) \<longrightarrow> tk_accessReference u = Some i) \<and> tk_eventSlug u = ri_eventSlug inp \<and>
           tk_status u = TicketValid \<and> claimRedemption now (tk_id u) (ri_redeemedBy inp) (ri_offline inp) db = (db', Claimed t)"
proof -
  obtain u where u: "getTicket i db = Some u" using assms
    by (cases "getTicket i db") (auto simp: redeemTicket_def split: if_splits)
  then show ?thesis
    using assms getTicketD [OF u]
    by (intro exI [of _ u])
      (auto simp: redeemTicket_def split: if_splits prod.splits redeem_row.splits option.splits)
qed

lemma claimed_row_listed:
  assumes "claimRedemption now (tk_id u) by' offline db = (db', Claimed t)" and "u \<in> set (tickets_tb db)"
  shows "\<exists>v\<in>set (tickets_tb db'). tk_id v = tk_id u \<and> tk_accessReference v = tk_accessReference u \<and>
           tk_eventSlug v = tk_eventSlug u \<and> tk_status v = tk_status u"
proof -
  have "tickets_tb db' = map (\<lambda>t. if redeemable (tk_id u) t then redeemed_row now by' offline t else t) (tickets_tb db)"
    using assms(1) by (auto simp: claimRedemption_def Let_def split: if_splits)
  then have "(if redeemable (tk_id u) u then redeemed_row now by' offline u else u) \<in> set (tickets_tb db')"
    using assms(2) by auto
  moreover have "tk_id (redeemed_row now by' offline u) = tk_id u"
    "tk_accessReference (redeemed_row now by' offline u) = tk_accessReference u"
    "tk_eventSlug (redeemed_row now by' offline u) = tk_eventSlug u"
    "tk_status (redeemed_row now by' offline u) = tk_status u" by (simp_all add: redeemed_row_def)
  ultimately show ?thesis by (cases "redeemable (tk_id u) u") force+
qed

text \<open>The server lets a ticket in, the device fetches the manifest of that
  moment, and the connection drops: the same code shown again is let in again, and queued. The manifest lists
  the tickets that have been redeemed, and the device only remembers the ones it let in by itself.\<close>

theorem door_forgets_online_admissions:
  assumes "scan_online parse_url hmac now slug raw db = (db1, ScanAdmitted)"
    and "scanned_id parse_url raw = Some i" and "isValidEventSlug slug"
    and "list_all (\<lambda>t. tk_accessReference t \<noteq> Some []) (tickets_tb db)"
    and "hashTicketId w i \<notin> set (dm_admitted st)"
  shows "snd (scan_offline w parse_url at raw (applyManifest (buildDoorManifest w slug db1) st)) = ScanQueued"
proof -
  obtain t where t: "redeemTicket parse_url hmac now
      \<lparr>ri_scanned = raw, ri_eventSlug = slug, ri_redeemedBy = Some ''door'', ri_offline = False\<rparr> db = (db1, Admitted t)"
    using assms(1,2) by (auto simp: scan_online_def split: prod.splits redeem_outcome.splits)
  from redeem_admits [OF t, of i] assms(2) obtain u where u: "u \<in> set (tickets_tb db)" "tk_id u = i \<or> tk_accessReference u = Some i"
    "truthy (tk_accessReference u) \<longrightarrow> tk_accessReference u = Some i" "tk_eventSlug u = slug" "tk_status u = TicketValid"
    "claimRedemption now (tk_id u) (Some ''door'') False db = (db1, Claimed t)" by auto
  have "tk_accessReference u \<noteq> Some []" using assms(4) u(1) by (simp add: list_all_iff)
  then have cur: "current_reference u = i"
    using u(2,3) by (cases "tk_accessReference u") (auto simp: current_reference_def)
  obtain v where v: "v \<in> set (tickets_tb db1)" "tk_id v = tk_id u" "tk_accessReference v = tk_accessReference u"
    "tk_eventSlug v = slug" "tk_status v = TicketValid" using claimed_row_listed [OF u(6,1)] u(4,5) by auto
  have "current_reference v = i" using cur v by (simp add: current_reference_def)
  then have "i \<in> set (listValidTicketIds slug db1)"
    using v assms(3) by (auto simp: listValidTicketIds_def intro!: rev_image_eqI)
  then have "hashTicketId w i \<in> set (buildDoorManifest w slug db1)" by (simp add: buildDoorManifest_def)
  then show ?thesis using assms(2,5) by (simp add: scan_offline_def recordOfflineScan_def applyManifest_def)
qed

section \<open>Sample shifts\<close>

definition no_urls :: url_parser where
  "no_urls v = None"

definition fixed_hmac :: "js_string \<Rightarrow> js_string option" where
  "fixed_hmac s = Some (replicate 43 (CHR ''x''))"

text \<open>A hash that is the id in lower case, so that different sample tickets have different hashes.\<close>

definition hex_services :: services where
  "hex_services = test_services\<lparr>sha256_hex := (\<lambda>s. take 64 (to_lower s @ replicate 64 (CHR ''0'')))\<rparr>"

definition any_date :: "js_string \<Rightarrow> bool" where
  "any_date s \<longleftrightarrow> True"

definition code_a :: js_string where
  "code_a = the (buildTicketQrPayload fixed_hmac ticket_a)"

theorem ticket_code_names_its_ticket_witness:
  "scanned_id no_urls code_a = Some ticket_a \<and> scanned_id no_urls ticket_a = Some ticket_a \<and>
   scanned_id no_urls ''  aaaaaaaaaaaaaaaa '' = Some ticket_a"
proof -
  have b: "buildTicketQrPayload fixed_hmac ticket_a = Some code_a" by code_simp
  have g: "signature_shape (take 22 h)" if "fixed_hmac (TICKET_QR_VERSION @ ''.'' @ ticket_a) = Some h" for h
  proof -
    have "h = replicate 43 (CHR ''x'')" using that by (simp add: fixed_hmac_def)
    moreover have "signature_shape (take 22 (replicate 43 (CHR ''x'')))" by code_simp
    ultimately show ?thesis by simp
  qed
  have "to_upper (js_trim ''  aaaaaaaaaaaaaaaa '') = ticket_a" by code_simp
  then show ?thesis using ticket_code_names_its_ticket [OF b g] by blast
qed

definition sample_shift :: "door_event list" where
  "sample_shift =
     (let manifest = map (hashTicketId hex_services) [ticket_a, ticket_b, ticket_c] in
      [DoorRefresh manifest, DoorScan ticket_a ''t1'', DoorScan ticket_b ''t2'', DoorReload manifest, DoorScan ticket_a ''t3'',
       DoorSynced [ticket_a], DoorScan ticket_a ''t4'', DoorScan ticket_c ''t5'', DoorReload manifest])"

lemma sample_shift_fine: "list_all (fine_scan hex_services any_date) sample_shift"
  by code_simp

lemma sample_shift_scans: "scans sample_shift \<le> 5000"
  by code_simp

theorem reload_keeps_the_shift_witness:
  "run_door hex_services any_date sample_shift EMPTY_DOOR_STATE =
     run_door hex_services any_date (map no_reload sample_shift) EMPTY_DOOR_STATE \<and>
   let_in hex_services any_date sample_shift EMPTY_DOOR_STATE = [ticket_a, ticket_b, ticket_c]"
proof
  show "run_door hex_services any_date sample_shift EMPTY_DOOR_STATE =
      run_door hex_services any_date (map no_reload sample_shift) EMPTY_DOOR_STATE"
    using reload_keeps_the_shift [OF sample_shift_fine sample_shift_scans] by (rule conjunct1)
  show "let_in hex_services any_date sample_shift EMPTY_DOOR_STATE = [ticket_a, ticket_b, ticket_c]" by code_simp
qed

theorem device_admits_once_witness:
  "distinct (let_in hex_services any_date sample_shift EMPTY_DOOR_STATE)"
  using device_admits_once [OF sample_shift_fine sample_shift_scans] by (rule conjunct1)

lemma sample_online: "snd (scan_online no_urls fixed_hmac 5 ''gala'' code_a sold_out_db) = ScanAdmitted"
  by code_simp

theorem door_forgets_online_admissions_witness:
  "snd (scan_offline hex_services no_urls ''t'' code_a
     (applyManifest (buildDoorManifest hex_services ''gala'' (fst (scan_online no_urls fixed_hmac 5 ''gala'' code_a sold_out_db)))
        EMPTY_DOOR_STATE)) = ScanQueued"
proof (rule door_forgets_online_admissions [where i = ticket_a])
  show "scan_online no_urls fixed_hmac 5 ''gala'' code_a sold_out_db =
      (fst (scan_online no_urls fixed_hmac 5 ''gala'' code_a sold_out_db), ScanAdmitted)"
    by (simp add: prod_eq_iff sample_online)
  show "scanned_id no_urls code_a = Some ticket_a" by code_simp
  show "isValidEventSlug ''gala''" by code_simp
  show "list_all (\<lambda>t. tk_accessReference t \<noteq> Some []) (tickets_tb sold_out_db)" by code_simp
  show "hashTicketId hex_services ticket_a \<notin> set (dm_admitted EMPTY_DOOR_STATE)" by (simp add: EMPTY_DOOR_STATE_def)
qed

end
