(* ===== verification/RoomLock.thy ===== *)
theory RoomLock
  imports Multiplayer
begin

text \<open>
  The lock every writer to a Redis room takes (\<^verbatim>\<open>withMultiplayerRoomLock\<close> of
  \<^verbatim>\<open>features/things/shared/room-primitives.server.ts\<close>), as a system of concurrent calls over one
  Redis key. An \<^verbatim>\<open>await\<close> of the source is a point where other calls and the clock may move, so each
  call is a state between two awaits and every event of the system is one turn: a request that
  Redis executes, its reply, a timer, the end of the guarded work.

  One clock serves Redis and \<^verbatim>\<open>performance.now()\<close>. The owners are fresh random credentials. The
  network answers a request at most \<^verbatim>\<open>L\<close> milliseconds after Redis ran it, or it fails: a request can
  fail before or after it was executed.
\<close>

section \<open>The Redis key\<close>

definition ROOM_LOCK_TTL_MS :: int where "ROOM_LOCK_TTL_MS = 15000"
definition ROOM_LOCK_RENEW_INTERVAL_MS :: int where "ROOM_LOCK_RENEW_INTERVAL_MS = 5000"
definition ROOM_LOCK_RENEW_RETRY_MS :: int where "ROOM_LOCK_RENEW_RETRY_MS = 500"
definition ROOM_LOCK_ATTEMPTS :: nat where "ROOM_LOCK_ATTEMPTS = 12"
definition ROOM_LOCK_RETRY_BASE_MS :: int where "ROOM_LOCK_RETRY_BASE_MS = 20"
definition ROOM_LOCK_RETRY_JITTER_MS :: int where "ROOM_LOCK_RETRY_JITTER_MS = 25"

lemmas lock_constants = ROOM_LOCK_TTL_MS_def ROOM_LOCK_RENEW_INTERVAL_MS_def ROOM_LOCK_RENEW_RETRY_MS_def
  ROOM_LOCK_ATTEMPTS_def ROOM_LOCK_RETRY_BASE_MS_def ROOM_LOCK_RETRY_JITTER_MS_def

text \<open>The value and the moment it expires.\<close>

type_synonym lock_cell = "(js_string \<times> int) option"

definition lock_get :: "int \<Rightarrow> lock_cell \<Rightarrow> js_string option" where
  "lock_get now c = (case c of None \<Rightarrow> None | Some (v, e) \<Rightarrow> if now < e then Some v else None)"

text \<open>\<^verbatim>\<open>SET key value NX PX ttl\<close>.\<close>

definition lock_set_nx :: "int \<Rightarrow> js_string \<Rightarrow> lock_cell \<Rightarrow> lock_cell \<times> bool" where
  "lock_set_nx now v c = (if lock_get now c = None then (Some (v, now + ROOM_LOCK_TTL_MS), True) else (c, False))"

definition RELEASE_LOCK_SCRIPT :: "int \<Rightarrow> js_string \<Rightarrow> lock_cell \<Rightarrow> lock_cell" where
  "RELEASE_LOCK_SCRIPT now v c = (if lock_get now c = Some v then None else c)"

definition RENEW_LOCK_SCRIPT :: "int \<Rightarrow> js_string \<Rightarrow> lock_cell \<Rightarrow> lock_cell \<times> bool" where
  "RENEW_LOCK_SCRIPT now v c =
     (if lock_get now c = Some v then (Some (v, now + ROOM_LOCK_TTL_MS), True) else (c, False))"

lemmas lock_scripts = lock_set_nx_def RELEASE_LOCK_SCRIPT_def RENEW_LOCK_SCRIPT_def lock_get_def

section \<open>A call\<close>

datatype 'r lock_outcome = Returned 'r | UseThrew js_string | RedisThrew | RoomBusy

text \<open>
  \<^verbatim>\<open>LkAsk\<close>: about to send the \<^verbatim>\<open>SET\<close>; \<^verbatim>\<open>LkAsked\<close>: executed, its reply under way; \<^verbatim>\<open>LkSleep\<close>: the wait
  before the next attempt; \<^verbatim>\<open>LkWork\<close>: \<^verbatim>\<open>use\<close> is running; \<^verbatim>\<open>LkSettle\<close>: \<^verbatim>\<open>finally\<close>, waiting for a
  renewal in flight; \<^verbatim>\<open>LkRelease\<close>: the verdict on the lease is taken, the release is under way.
\<close>

datatype 'r lock_phase =
  LkAsk
| LkAsked bool int
| LkSleep int
| LkWork
| LkSettle "js_string + 'r"
| LkRelease "js_string + 'r" bool
| LkDone "'r lock_outcome"

datatype renewal = RnOff | RnTimer int | RnAsked | RnReply bool int

record lock_attempt =
  la_acquired :: bool
  la_contended :: bool
  la_waitMs :: int

record 'r lock_call =
  lk_owner :: js_string
  lk_startedAt :: int
  lk_attempt :: nat
  lk_contended :: bool
  lk_onAttempt :: "lock_attempt option"
  lk_phase :: "'r lock_phase"
  lk_stopped :: bool
  lk_leaseLost :: bool
  lk_leaseValidUntil :: int
  lk_renewal :: renewal

definition lock_call_start :: "int \<Rightarrow> js_string \<Rightarrow> 'r lock_call" where
  "lock_call_start now owner_token =
     \<lparr>lk_owner = owner_token, lk_startedAt = now, lk_attempt = 0, lk_contended = False, lk_onAttempt = None,
      lk_phase = LkAsk, lk_stopped = False, lk_leaseLost = False, lk_leaseValidUntil = 0, lk_renewal = RnOff\<rparr>"

definition report_attempt :: "int \<Rightarrow> bool \<Rightarrow> 'r lock_call \<Rightarrow> 'r lock_call" where
  "report_attempt now acquired c =
     c\<lparr>lk_onAttempt := Some \<lparr>la_acquired = acquired, la_contended = lk_contended c,
         la_waitMs = now - lk_startedAt c\<rparr>\<rparr>"

definition scheduleRenewal :: "int \<Rightarrow> int \<Rightarrow> 'r lock_call \<Rightarrow> 'r lock_call" where
  "scheduleRenewal now delayMs c =
     (if lk_stopped c \<or> lk_leaseLost c then c\<lparr>lk_renewal := RnOff\<rparr> else c\<lparr>lk_renewal := RnTimer (now + delayMs)\<rparr>)"

text \<open>The reply to the \<^verbatim>\<open>SET\<close>: start to work, or sleep for 20 to 44 ms.\<close>

definition set_replied :: "int \<Rightarrow> int \<Rightarrow> bool \<Rightarrow> 'r lock_call \<Rightarrow> 'r lock_call" where
  "set_replied now jitter acquired c =
     (if acquired
      then scheduleRenewal now ROOM_LOCK_RENEW_INTERVAL_MS
             ((report_attempt now True c)\<lparr>lk_phase := LkWork, lk_leaseValidUntil := now + ROOM_LOCK_TTL_MS\<rparr>)
      else c\<lparr>lk_contended := True, lk_phase := LkSleep (now + ROOM_LOCK_RETRY_BASE_MS + jitter)\<rparr>)"

text \<open>The end of the sleep: the next turn of the loop, or \<^verbatim>\<open>MultiplayerRoomBusyError\<close>.\<close>

definition lock_woken :: "int \<Rightarrow> 'r lock_call \<Rightarrow> 'r lock_call" where
  "lock_woken now c =
     (let c' = c\<lparr>lk_attempt := Suc (lk_attempt c)\<rparr>
      in if lk_attempt c' < ROOM_LOCK_ATTEMPTS then c'\<lparr>lk_phase := LkAsk\<rparr>
         else (report_attempt now False c')\<lparr>lk_phase := LkDone RoomBusy\<rparr>)"

definition renewal_replied :: "int \<Rightarrow> bool \<Rightarrow> 'r lock_call \<Rightarrow> 'r lock_call" where
  "renewal_replied now renewed c =
     (if \<not> renewed then c\<lparr>lk_leaseLost := True, lk_renewal := RnOff\<rparr>
      else scheduleRenewal now ROOM_LOCK_RENEW_INTERVAL_MS (c\<lparr>lk_leaseValidUntil := now + ROOM_LOCK_TTL_MS\<rparr>))"

definition renewal_failed :: "int \<Rightarrow> 'r lock_call \<Rightarrow> 'r lock_call" where
  "renewal_failed now c =
     (if lk_leaseValidUntil c \<le> now then c\<lparr>lk_leaseLost := True, lk_renewal := RnOff\<rparr>
      else scheduleRenewal now ROOM_LOCK_RENEW_RETRY_MS c)"

text \<open>\<^verbatim>\<open>use\<close> has returned or thrown: \<^verbatim>\<open>stopped = true\<close> and a pending timer is cleared.\<close>

definition work_ended :: "js_string + 'r \<Rightarrow> 'r lock_call \<Rightarrow> 'r lock_call" where
  "work_ended res c =
     c\<lparr>lk_phase := LkSettle res, lk_stopped := True,
       lk_renewal := (case lk_renewal c of RnTimer _ \<Rightarrow> RnOff | rn \<Rightarrow> rn)\<rparr>"

definition lease_settled :: "int \<Rightarrow> js_string + 'r \<Rightarrow> 'r lock_call \<Rightarrow> 'r lock_call" where
  "lease_settled now res c =
     c\<lparr>lk_phase := LkRelease res (lk_leaseLost c \<or> lk_leaseValidUntil c \<le> now)\<rparr>"

text \<open>After \<^verbatim>\<open>finally\<close>: an exception of \<^verbatim>\<open>use\<close> goes on; a doubtful lease turns a result into an error.\<close>

definition lock_outcome_of :: "js_string + 'r \<Rightarrow> bool \<Rightarrow> 'r lock_outcome" where
  "lock_outcome_of res leaseInvalid =
     (case res of Inl e \<Rightarrow> UseThrew e | Inr x \<Rightarrow> (if leaseInvalid then RoomBusy else Returned x))"

section \<open>The system\<close>

record 'r lock_world =
  lw_now :: int
  lw_cell :: lock_cell
  lw_calls :: "'r lock_call list"

datatype 'r lock_event =
  Tick nat
| NewCall js_string
| SetRuns nat
| SetReplies nat int
| SetFails nat
| SleepEnds nat
| TimerFires nat
| RenewRuns nat
| RenewReplies nat
| RenewFails nat
| WorkEnds nat "js_string + 'r"
| RenewalSettles nat
| ReleaseRuns nat
| ReleaseFails nat

definition put_call :: "nat \<Rightarrow> 'r lock_call \<Rightarrow> 'r lock_world \<Rightarrow> 'r lock_world" where
  "put_call i c w = w\<lparr>lw_calls := (lw_calls w)[i := c]\<rparr>"

text \<open>A turn of one call: the key and the call afterwards, \<^verbatim>\<open>None\<close> where the event cannot happen.\<close>

definition call_turn ::
  "int \<Rightarrow> int \<Rightarrow> 'r lock_event \<Rightarrow> lock_cell \<Rightarrow> 'r lock_call \<Rightarrow> (lock_cell \<times> 'r lock_call) option" where
  "call_turn L now ev cell c =
     (case ev of
        SetRuns _ \<Rightarrow>
          (if lk_phase c = LkAsk
           then (let (cell', ok) = lock_set_nx now (lk_owner c) cell
                 in Some (cell', c\<lparr>lk_phase := LkAsked ok now\<rparr>)) else None)
      | SetReplies _ jitter \<Rightarrow>
          (case lk_phase c of
             LkAsked ok ran_at \<Rightarrow>
               (if now \<le> ran_at + L \<and> 0 \<le> jitter \<and> jitter < ROOM_LOCK_RETRY_JITTER_MS
                then Some (cell, set_replied now jitter ok c) else None)
           | _ \<Rightarrow> None)
      | SetFails _ \<Rightarrow>
          (case lk_phase c of
             LkAsk \<Rightarrow> Some (cell, c\<lparr>lk_phase := LkDone RedisThrew\<rparr>)
           | LkAsked _ _ \<Rightarrow> Some (cell, c\<lparr>lk_phase := LkDone RedisThrew\<rparr>)
           | _ \<Rightarrow> None)
      | SleepEnds _ \<Rightarrow>
          (case lk_phase c of
             LkSleep until_ms \<Rightarrow> (if until_ms \<le> now then Some (cell, lock_woken now c) else None)
           | _ \<Rightarrow> None)
      | TimerFires _ \<Rightarrow>
          (case lk_renewal c of
             RnTimer due \<Rightarrow> (if due \<le> now then Some (cell, c\<lparr>lk_renewal := RnAsked\<rparr>) else None)
           | _ \<Rightarrow> None)
      | RenewRuns _ \<Rightarrow>
          (if lk_renewal c = RnAsked
           then (let (cell', ok) = RENEW_LOCK_SCRIPT now (lk_owner c) cell
                 in Some (cell', c\<lparr>lk_renewal := RnReply ok now\<rparr>)) else None)
      | RenewReplies _ \<Rightarrow>
          (case lk_renewal c of
             RnReply ok ran_at \<Rightarrow> (if now \<le> ran_at + L then Some (cell, renewal_replied now ok c) else None)
           | _ \<Rightarrow> None)
      | RenewFails _ \<Rightarrow>
          (case lk_renewal c of
             RnAsked \<Rightarrow> Some (cell, renewal_failed now c)
           | RnReply _ _ \<Rightarrow> Some (cell, renewal_failed now c)
           | _ \<Rightarrow> None)
      | WorkEnds _ res \<Rightarrow> (if lk_phase c = LkWork then Some (cell, work_ended res c) else None)
      | RenewalSettles _ \<Rightarrow>
          (case lk_phase c of
             LkSettle res \<Rightarrow> (if lk_renewal c = RnOff then Some (cell, lease_settled now res c) else None)
           | _ \<Rightarrow> None)
      | ReleaseRuns _ \<Rightarrow>
          (case lk_phase c of
             LkRelease res bad \<Rightarrow>
               Some (RELEASE_LOCK_SCRIPT now (lk_owner c) cell, c\<lparr>lk_phase := LkDone (lock_outcome_of res bad)\<rparr>)
           | _ \<Rightarrow> None)
      | ReleaseFails _ \<Rightarrow>
          (case lk_phase c of
             LkRelease res bad \<Rightarrow> Some (cell, c\<lparr>lk_phase := LkDone (lock_outcome_of res bad)\<rparr>)
           | _ \<Rightarrow> None)
      | _ \<Rightarrow> None)"

fun event_call :: "'r lock_event \<Rightarrow> nat option" where
  "event_call (Tick _) = None"
| "event_call (NewCall _) = None"
| "event_call (SetRuns i) = Some i"
| "event_call (SetReplies i _) = Some i"
| "event_call (SetFails i) = Some i"
| "event_call (SleepEnds i) = Some i"
| "event_call (TimerFires i) = Some i"
| "event_call (RenewRuns i) = Some i"
| "event_call (RenewReplies i) = Some i"
| "event_call (RenewFails i) = Some i"
| "event_call (WorkEnds i _) = Some i"
| "event_call (RenewalSettles i) = Some i"
| "event_call (ReleaseRuns i) = Some i"
| "event_call (ReleaseFails i) = Some i"

definition lock_step :: "int \<Rightarrow> 'r lock_event \<Rightarrow> 'r lock_world \<Rightarrow> 'r lock_world option" where
  "lock_step L ev w =
     (case ev of
        Tick d \<Rightarrow> Some (w\<lparr>lw_now := lw_now w + int d\<rparr>)
      | NewCall owner_token \<Rightarrow>
          (if owner_token \<in> lk_owner ` set (lw_calls w) then None
           else Some (w\<lparr>lw_calls := lw_calls w @ [lock_call_start (lw_now w) owner_token]\<rparr>))
      | _ \<Rightarrow>
          (case event_call ev of
             None \<Rightarrow> None
           | Some i \<Rightarrow>
               (if i < length (lw_calls w)
                then map_option (\<lambda>(cell, c). put_call i c (w\<lparr>lw_cell := cell\<rparr>))
                       (call_turn L (lw_now w) ev (lw_cell w) (lw_calls w ! i))
                else None)))"

fun lock_run :: "int \<Rightarrow> 'r lock_event list \<Rightarrow> 'r lock_world \<Rightarrow> 'r lock_world option" where
  "lock_run L [] w = Some w"
| "lock_run L (ev # evs) w = Option.bind (lock_step L ev w) (lock_run L evs)"

definition lock_idle :: "'r lock_world" where
  "lock_idle = \<lparr>lw_now = 0, lw_cell = None, lw_calls = []\<rparr>"

definition lock_working :: "'r lock_world \<Rightarrow> nat \<Rightarrow> bool" where
  "lock_working w i \<longleftrightarrow> i < length (lw_calls w) \<and> lk_phase (lw_calls w ! i) = LkWork"

definition lock_returned :: "'r lock_world \<Rightarrow> nat \<Rightarrow> bool" where
  "lock_returned w i \<longleftrightarrow>
     i < length (lw_calls w) \<and> (case lk_phase (lw_calls w ! i) of LkDone (Returned _) \<Rightarrow> True | _ \<Rightarrow> False)"

definition lock_held :: "'r lock_world \<Rightarrow> nat \<Rightarrow> bool" where
  "lock_held w i \<longleftrightarrow>
     i < length (lw_calls w) \<and> lock_get (lw_now w) (lw_cell w) = Some (lk_owner (lw_calls w ! i))"

end
