(* ===== verification/RoomLockFacts.thy ===== *)
theory RoomLockFacts
  imports RoomLock
begin

text \<open>
  What the room lock promises: at any moment at most one call holds the key; a call whose work has
  outlived its lease by the reply delay never reports success; a key nobody renews is free after
  its time to live.
\<close>

section \<open>One call at a time\<close>

lemma lock_stepE:
  assumes "lock_step L ev w = Some w'"
  obtains (tick) d where "ev = Tick d" "w' = w\<lparr>lw_now := lw_now w + int d\<rparr>"
  | (call) v where "ev = NewCall v" "v \<notin> lk_owner ` set (lw_calls w)"
      "w' = w\<lparr>lw_calls := lw_calls w @ [lock_call_start (lw_now w) v]\<rparr>"
  | (turn) i cell c where "event_call ev = Some i" "i < length (lw_calls w)"
      "call_turn L (lw_now w) ev (lw_cell w) (lw_calls w ! i) = Some (cell, c)"
      "w' = put_call i c (w\<lparr>lw_cell := cell\<rparr>)"
  using assms by (cases ev) (auto simp: lock_step_def split: if_splits)

lemmas call_turn_defs = call_turn_def set_replied_def lock_woken_def renewal_replied_def renewal_failed_def
  work_ended_def lease_settled_def scheduleRenewal_def report_attempt_def

lemma call_turn_owner: "call_turn L now ev cell c = Some (cell', c') \<Longrightarrow> lk_owner c' = lk_owner c"
  by (auto simp: call_turn_defs Let_def split_beta split: lock_event.splits lock_phase.splits renewal.splits if_splits)

text \<open>What a turn does to the key: nothing, take it when it is free, renew it or drop it when it is one's own.\<close>

lemma call_turn_cell:
  assumes "call_turn L now ev cell c = Some (cell', c')"
  shows "cell' = cell
    \<or> lock_get now cell = None \<and> cell' = Some (lk_owner c, now + ROOM_LOCK_TTL_MS)
        \<and> lk_phase c = LkAsk \<and> c' = c\<lparr>lk_phase := LkAsked True now\<rparr>
    \<or> lock_get now cell = Some (lk_owner c) \<and> cell' = Some (lk_owner c, now + ROOM_LOCK_TTL_MS)
        \<and> c' = c\<lparr>lk_renewal := RnReply True now\<rparr>
    \<or> lock_get now cell = Some (lk_owner c) \<and> cell' = None
        \<and> (\<exists>res bad. lk_phase c = LkRelease res bad \<and> c' = c\<lparr>lk_phase := LkDone (lock_outcome_of res bad)\<rparr>)"
  using assms
  by (auto simp: call_turn_def lock_set_nx_def RELEASE_LOCK_SCRIPT_def RENEW_LOCK_SCRIPT_def Let_def
      split: lock_event.splits lock_phase.splits renewal.splits if_splits)

lemma schedule_frame [simp]:
  "lk_renewal (scheduleRenewal now d c) \<noteq> RnReply ok t" "lk_renewal (scheduleRenewal now d c) \<noteq> RnAsked"
  "lk_phase (scheduleRenewal now d c) = lk_phase c" "lk_owner (scheduleRenewal now d c) = lk_owner c"
  "lk_leaseValidUntil (scheduleRenewal now d c) = lk_leaseValidUntil c"
  "lk_leaseLost (scheduleRenewal now d c) = lk_leaseLost c"
  by (simp_all add: scheduleRenewal_def)

section \<open>The invariant\<close>

text \<open>
  A running lease that is not known to be lost: the key is this call's until some moment \<^verbatim>\<open>e\<close>, and
  the call believes in it for at most the reply delay longer.
\<close>

definition running_lease :: "int \<Rightarrow> int \<Rightarrow> lock_cell \<Rightarrow> 'r lock_call \<Rightarrow> bool" where
  "running_lease L now cell c \<longleftrightarrow> lk_leaseLost c \<or>
     (\<exists>e. lk_leaseValidUntil c \<le> e + L \<and> (now < e \<longrightarrow> cell = Some (lk_owner c, e)) \<and>
          (\<forall>t. lk_renewal c = RnReply True t \<longrightarrow> e = t + ROOM_LOCK_TTL_MS))"

definition lease_ok :: "int \<Rightarrow> int \<Rightarrow> lock_cell \<Rightarrow> 'r lock_call \<Rightarrow> bool" where
  "lease_ok L now cell c \<longleftrightarrow>
     (case lk_phase c of
        LkAsk \<Rightarrow> lk_renewal c = RnOff \<and> \<not> lk_leaseLost c
      | LkAsked ok t \<Rightarrow> lk_renewal c = RnOff \<and> \<not> lk_leaseLost c \<and>
          (ok \<longrightarrow> now < t + ROOM_LOCK_TTL_MS \<longrightarrow> cell = Some (lk_owner c, t + ROOM_LOCK_TTL_MS))
      | LkSleep _ \<Rightarrow> lk_renewal c = RnOff \<and> \<not> lk_leaseLost c
      | LkWork \<Rightarrow> running_lease L now cell c
      | LkSettle _ \<Rightarrow> running_lease L now cell c
      | _ \<Rightarrow> True)"

definition cell_ok :: "int \<Rightarrow> lock_cell \<Rightarrow> bool" where
  "cell_ok now cell \<longleftrightarrow> (\<forall>v e. cell = Some (v, e) \<longrightarrow> e \<le> now + ROOM_LOCK_TTL_MS)"

lemma running_leaseI:
  "lk_leaseValidUntil c \<le> e + L \<Longrightarrow> (now < e \<Longrightarrow> cell = Some (lk_owner c, e)) \<Longrightarrow>
   (\<And>t. lk_renewal c = RnReply True t \<Longrightarrow> e = t + ROOM_LOCK_TTL_MS) \<Longrightarrow> running_lease L now cell c"
  by (auto simp: running_lease_def)

lemma running_lease_mono:
  assumes "running_lease L now cell c" "\<And>e. now' < e \<Longrightarrow> now < e \<and> (cell = Some (lk_owner c, e) \<longrightarrow> cell' = Some (lk_owner c, e))"
  shows "running_lease L now' cell' c"
  using assms unfolding running_lease_def by blast

lemma lease_ok_later: "lease_ok L now cell c \<Longrightarrow> now \<le> now' \<Longrightarrow> lease_ok L now' cell c"
  by (auto simp: lease_ok_def split: lock_phase.splits intro: running_lease_mono)

text \<open>Another call's turn leaves a running lease alone.\<close>

lemma lease_ok_other:
  assumes ok: "lease_ok L now cell c" and o: "lk_owner c \<noteq> v"
    and cell': "cell' = cell \<or> lock_get now cell = None \<and> cell' = Some (v, e')
      \<or> lock_get now cell = Some v \<and> (cell' = Some (v, e') \<or> cell' = None)"
  shows "lease_ok L now cell' c"
proof -
  have keep: "cell' = Some (lk_owner c, e)" if "now < e" "cell = Some (lk_owner c, e)" for e
    using cell' o that by (auto simp: lock_get_def)
  show ?thesis
    using ok keep by (auto simp: lease_ok_def split: lock_phase.splits intro: running_lease_mono)
qed

lemma running_lease_renew_runs:
  assumes "running_lease L now cell c" and "cell_ok now cell"
    and "RENEW_LOCK_SCRIPT now (lk_owner c) cell = (cell', ok)" and "lk_renewal c = RnAsked"
  shows "running_lease L now cell' (c\<lparr>lk_renewal := RnReply ok now\<rparr>)"
proof (cases "lk_leaseLost c")
  case False
  then obtain e where e: "lk_leaseValidUntil c \<le> e + L" "now < e \<longrightarrow> cell = Some (lk_owner c, e)"
    using assms(1) by (auto simp: running_lease_def)
  show ?thesis
  proof (cases ok)
    case True
    then have "cell' = Some (lk_owner c, now + ROOM_LOCK_TTL_MS)"
      using assms(3) by (auto simp: RENEW_LOCK_SCRIPT_def split: if_splits)
    moreover have "e \<le> now + ROOM_LOCK_TTL_MS"
      using e(2) assms(2) by (cases "now < e") (auto simp: cell_ok_def lock_constants)
    ultimately show ?thesis
      using e(1) by (intro running_leaseI [where e = "now + ROOM_LOCK_TTL_MS"]) auto
  next
    case no: False
    then have "cell' = cell" using assms(3) by (auto simp: RENEW_LOCK_SCRIPT_def split: if_splits)
    with e no show ?thesis by (intro running_leaseI [where e = e]) auto
  qed
qed (simp add: running_lease_def)

lemma running_lease_cong:
  "running_lease L now cell c \<Longrightarrow> lk_owner c' = lk_owner c \<Longrightarrow> lk_leaseValidUntil c' = lk_leaseValidUntil c \<Longrightarrow>
   (lk_leaseLost c \<Longrightarrow> lk_leaseLost c') \<Longrightarrow> (\<And>t. lk_renewal c' = RnReply True t \<Longrightarrow> lk_renewal c = RnReply True t) \<Longrightarrow>
   running_lease L now cell c'"
  by (auto simp: running_lease_def)

lemma running_lease_replied:
  assumes "running_lease L now cell c" and "lk_renewal c = RnReply ok t" and "now \<le> t + L"
  shows "running_lease L now cell (renewal_replied now ok c)"
proof (cases "lk_leaseLost c \<or> \<not> ok")
  case True
  then show ?thesis by (auto simp: running_lease_def renewal_replied_def)
next
  case False
  then obtain e where "now < e \<longrightarrow> cell = Some (lk_owner c, e)" "e = t + ROOM_LOCK_TTL_MS"
    using assms(1,2) by (auto simp: running_lease_def)
  with False assms(3) show ?thesis
    by (intro running_leaseI [where e = e]) (auto simp: renewal_replied_def)
qed

lemma running_lease_failed:
  "running_lease L now cell c \<Longrightarrow> running_lease L now cell (renewal_failed now c)"
  by (erule running_lease_cong) (auto simp: renewal_failed_def split: if_splits)

lemma running_lease_ended:
  "running_lease L now cell c \<Longrightarrow> running_lease L now cell (work_ended res c)"
  by (erule running_lease_cong) (auto simp: work_ended_def split: renewal.splits)

lemma running_lease_start:
  assumes "now < t + ROOM_LOCK_TTL_MS \<longrightarrow> cell = Some (lk_owner c, t + ROOM_LOCK_TTL_MS)" and "now \<le> t + L"
  shows "running_lease L now cell (set_replied now j True c)"
  using assms
  by (intro running_leaseI [where e = "t + ROOM_LOCK_TTL_MS"])
     (auto simp: set_replied_def report_attempt_def)

lemma phase_frame [simp]:
  "lk_phase (renewal_replied now ok c) = lk_phase c" "lk_phase (renewal_failed now c) = lk_phase c"
  "lk_phase (work_ended res c) = LkSettle res" "lk_phase (set_replied now j True c) = LkWork"
  by (simp_all add: renewal_replied_def renewal_failed_def work_ended_def set_replied_def
      report_attempt_def)

lemma lease_ok_turn:
  assumes turn: "call_turn L now ev cell c = Some (cell', c')" and ok: "lease_ok L now cell c"
    and cell: "cell_ok now cell"
  shows "lease_ok L now cell' c'"
proof (cases "lk_phase c = LkWork \<or> (\<exists>res. lk_phase c = LkSettle res)")
  case True
  then have run: "running_lease L now cell c" using ok by (auto simp: lease_ok_def)
  show ?thesis
  proof (cases ev)
    case (RenewRuns i)
    then show ?thesis
      using True turn running_lease_renew_runs [OF run cell]
      by (auto simp: call_turn_def lease_ok_def split_beta split: if_splits)
  next
    case (RenewReplies i)
    then show ?thesis
      using True turn running_lease_replied [OF run]
      by (auto simp: call_turn_def lease_ok_def split: renewal.splits if_splits)
  next
    case (RenewFails i)
    then show ?thesis
      using True turn running_lease_failed [OF run]
      by (auto simp: call_turn_def lease_ok_def split: renewal.splits if_splits)
  next
    case (WorkEnds i res)
    then show ?thesis
      using True turn running_lease_ended [OF run]
      by (auto simp: call_turn_def lease_ok_def split: renewal.splits if_splits)
  next
    case (TimerFires i)
    then show ?thesis
      using True turn running_lease_cong [OF run, of "c\<lparr>lk_renewal := RnAsked\<rparr>"]
      by (auto simp: call_turn_def lease_ok_def split: renewal.splits if_splits)
  qed (use turn True in \<open>auto simp: call_turn_def lease_ok_def lease_settled_def split: renewal.splits if_splits\<close>)
next
  case False
  show ?thesis
  proof (cases ev)
    case (SetReplies i j)
    then obtain got t where asked: "lk_phase c = LkAsked got t" and "now \<le> t + L"
      and c': "c' = set_replied now j got c" "cell' = cell"
      using turn by (auto simp: call_turn_def split: lock_phase.splits if_splits)
    show ?thesis
    proof (cases got)
      case True
      then show ?thesis
        using asked ok c' \<open>now \<le> t + L\<close> running_lease_start [of now t cell c L j]
        by (simp add: lease_ok_def)
    next
      case no: False
      then show ?thesis using asked ok c' by (simp add: lease_ok_def set_replied_def)
    qed
  qed (insert turn ok False, (cases "lk_phase c";
       auto simp: call_turn_def lease_ok_def lock_set_nx_def lock_woken_def Let_def split_beta
         report_attempt_def renewal_failed_def renewal_replied_def split: if_splits renewal.splits)+)
qed

section \<open>The system's invariant\<close>

definition lock_inv :: "int \<Rightarrow> 'r lock_world \<Rightarrow> bool" where
  "lock_inv L w \<longleftrightarrow> distinct (map lk_owner (lw_calls w)) \<and> cell_ok (lw_now w) (lw_cell w) \<and>
     (\<forall>c\<in>set (lw_calls w). lease_ok L (lw_now w) (lw_cell w) c)"

lemma lock_inv_idle: "lock_inv L lock_idle"
  by (simp add: lock_inv_def lock_idle_def cell_ok_def)

lemma owners_put:
  "i < length cs \<Longrightarrow> lk_owner c = lk_owner (cs ! i) \<Longrightarrow> map lk_owner (cs[i := c]) = map lk_owner cs"
  by (metis list_update_id map_update)

lemma lock_inv_step:
  assumes "lock_step L ev w = Some w'" and inv: "lock_inv L w"
  shows "lock_inv L w'"
  using assms(1)
proof (cases rule: lock_stepE)
  case (tick d)
  then show ?thesis using inv by (auto simp: lock_inv_def cell_ok_def intro: lease_ok_later)
next
  case (call v)
  then show ?thesis using inv by (auto simp: lock_inv_def lock_call_start_def lease_ok_def)
next
  case (turn i cell c)
  let ?c = "lw_calls w ! i"
  have mem: "?c \<in> set (lw_calls w)" using turn(2) by simp
  note own = call_turn_owner [OF turn(3)] and cells = call_turn_cell [OF turn(3)]
  have cell_ok': "cell_ok (lw_now w) cell"
    using cells inv by (elim disjE) (simp_all add: lock_inv_def cell_ok_def)
  have mine: "lease_ok L (lw_now w) cell c"
    using lease_ok_turn [OF turn(3)] inv mem by (simp add: lock_inv_def)
  have others: "lease_ok L (lw_now w) cell (lw_calls w ! k)" if "k < length (lw_calls w)" "k \<noteq> i" for k
  proof -
    have o: "lk_owner (lw_calls w ! k) \<noteq> lk_owner ?c"
      using inv that turn(2) nth_eq_iff_index_eq [of "map lk_owner (lw_calls w)" k i]
      by (auto simp: lock_inv_def)
    have ok: "lease_ok L (lw_now w) (lw_cell w) (lw_calls w ! k)"
      using inv that(1) by (simp add: lock_inv_def)
    show ?thesis by (rule lease_ok_other [OF ok o]) (use cells in blast)
  qed
  have "lease_ok L (lw_now w) cell x" if x: "x \<in> set ((lw_calls w)[i := c])" for x
  proof -
    obtain k where "k < length (lw_calls w)" "x = (lw_calls w)[i := c] ! k"
      using x by (auto simp: in_set_conv_nth)
    then show ?thesis using mine others by (cases "k = i") auto
  qed
  then show ?thesis
    using inv turn(2,4) cell_ok' owners_put [OF turn(2) own] by (simp add: lock_inv_def put_call_def)
qed

lemma lock_run_induct:
  assumes "lock_run L es w = Some w'" and "P w" and "\<And>ev v v'. lock_step L ev v = Some v' \<Longrightarrow> P v \<Longrightarrow> P v'"
  shows "P w'"
  using assms(1,2)
proof (induction es arbitrary: w)
  case (Cons ev es)
  then obtain v where "lock_step L ev w = Some v" "lock_run L es v = Some w'"
    by (auto split: bind_splits)
  with Cons assms(3) show ?case by blast
qed simp

lemma lock_inv_run: "lock_run L es w = Some w' \<Longrightarrow> lock_inv L w \<Longrightarrow> lock_inv L w'"
  by (erule lock_run_induct) (auto intro: lock_inv_step)

section \<open>A stale call\<close>

text \<open>
  \<^verbatim>\<open>stale T\<close>: the key is not this call's, and it was not from the moment \<^verbatim>\<open>T\<close> on; it believes in its
  lease until \<^verbatim>\<open>T + L\<close> at most.
\<close>

definition stale :: "int \<Rightarrow> int \<Rightarrow> int \<Rightarrow> lock_cell \<Rightarrow> 'r lock_call \<Rightarrow> bool" where
  "stale L T now cell c \<longleftrightarrow>
     (lk_phase c = LkWork \<or> (\<exists>res. lk_phase c = LkSettle res)) \<and> lock_get now cell \<noteq> Some (lk_owner c) \<and>
     (lk_leaseLost c \<or>
        lk_leaseValidUntil c \<le> T + L \<and> (\<forall>t. lk_renewal c = RnReply True t \<longrightarrow> t + ROOM_LOCK_TTL_MS \<le> T))"

definition doomed :: "int \<Rightarrow> int \<Rightarrow> int \<Rightarrow> lock_cell \<Rightarrow> 'r lock_call \<Rightarrow> bool" where
  "doomed L T now cell c \<longleftrightarrow>
     stale L T now cell c \<or> (\<exists>res. lk_phase c = LkRelease res True) \<or>
     (\<exists>out. lk_phase c = LkDone out \<and> (\<forall>x. out \<noteq> Returned x))"

lemma loses_the_key_is_stale:
  assumes "lease_ok L now cell c" and "lk_phase c = LkWork" and "lock_get now cell \<noteq> Some (lk_owner c)"
  shows "stale L now now cell c"
proof (cases "lk_leaseLost c")
  case False
  then obtain e where e: "lk_leaseValidUntil c \<le> e + L" "now < e \<longrightarrow> cell = Some (lk_owner c, e)"
      "\<forall>t. lk_renewal c = RnReply True t \<longrightarrow> e = t + ROOM_LOCK_TTL_MS"
    using assms(1,2) by (auto simp: lease_ok_def running_lease_def)
  have "e \<le> now" using e(2) assms(3) by (cases "now < e") (auto simp: lock_get_def)
  with e assms show ?thesis by (auto simp: stale_def)
qed (use assms in \<open>simp add: stale_def\<close>)

lemma stale_turn:
  assumes turn: "call_turn L now ev cell c = Some (cell', c')" and st: "stale L T now cell c"
  shows "stale L T now cell' c' \<or> (\<exists>res bad. lk_phase c' = LkRelease res bad \<and> (T + L \<le> now \<longrightarrow> bad))"
proof (cases ev)
  case (RenewReplies i)
  then show ?thesis
    using assms by (auto simp: call_turn_def stale_def renewal_replied_def split: renewal.splits if_splits)
next
  case (RenewRuns i)
  then show ?thesis
    using assms by (auto simp: call_turn_def stale_def RENEW_LOCK_SCRIPT_def split: if_splits)
next
  case (RenewFails i)
  then show ?thesis
    using assms by (auto simp: call_turn_def stale_def renewal_failed_def split: renewal.splits if_splits)
qed (use assms in \<open>auto simp: call_turn_def stale_def work_ended_def lease_settled_def
       split: renewal.splits if_splits lock_phase.splits\<close>)

lemma stale_other:
  assumes "stale L T now cell c" and "lk_owner c \<noteq> v"
    and "cell' = cell \<or> cell' = None \<or> (\<exists>e'. cell' = Some (v, e'))"
  shows "stale L T now cell' c"
  using assms by (auto simp: stale_def lock_get_def split: if_splits)

lemma stale_later: "stale L T now cell c \<Longrightarrow> now \<le> now' \<Longrightarrow> stale L T now' cell c"
  by (auto simp: stale_def lock_get_def split: option.splits if_splits)

text \<open>What one event means to one call: its own turn, a turn of another on the key, or time.\<close>

lemma lock_step_call:
  assumes "lock_step L ev w = Some w'" and inv: "lock_inv L w" and i: "i < length (lw_calls w)"
  obtains (own) "call_turn L (lw_now w) ev (lw_cell w) (lw_calls w ! i) = Some (lw_cell w', lw_calls w' ! i)"
      "lw_now w' = lw_now w" "i < length (lw_calls w')"
  | (other) v where "lw_calls w' ! i = lw_calls w ! i" "lw_now w' = lw_now w" "i < length (lw_calls w')"
      "lk_owner (lw_calls w ! i) \<noteq> v"
      "lw_cell w' = lw_cell w \<or> lw_cell w' = None \<or> (\<exists>e'. lw_cell w' = Some (v, e'))"
  | (later) "lw_calls w' ! i = lw_calls w ! i" "lw_cell w' = lw_cell w" "lw_now w \<le> lw_now w'"
      "i < length (lw_calls w')"
  using assms(1)
proof (cases rule: lock_stepE)
  case (tick d)
  then show ?thesis using later i by simp
next
  case (call v)
  then show ?thesis using later i by (simp add: nth_append)
next
  case (turn k cell c)
  show ?thesis
  proof (cases "k = i")
    case True
    then show ?thesis using own turn i by (simp add: put_call_def)
  next
    case False
    have "lk_owner (lw_calls w ! i) \<noteq> lk_owner (lw_calls w ! k)"
      using inv i turn(2) False nth_eq_iff_index_eq [of "map lk_owner (lw_calls w)" i k]
      by (auto simp: lock_inv_def)
    then show ?thesis
      using False turn i call_turn_cell [OF turn(3)] by (intro other) (auto simp: put_call_def)
  qed
qed

definition past :: "'r lock_call \<Rightarrow> bool" where
  "past c \<longleftrightarrow> (case lk_phase c of LkRelease _ _ \<Rightarrow> True | LkDone _ \<Rightarrow> True | _ \<Rightarrow> False)"

lemma past_turn: "call_turn L now ev cell c = Some (cell', c') \<Longrightarrow> past c \<Longrightarrow> past c'"
  by (auto simp: past_def call_turn_def renewal_replied_def renewal_failed_def
      split: lock_event.splits lock_phase.splits renewal.splits if_splits prod.splits)

lemma stale_step:
  assumes "lock_step L ev w = Some w'" and "lock_inv L w" and "i < length (lw_calls w)"
    and d: "stale L T (lw_now w) (lw_cell w) (lw_calls w ! i) \<or> past (lw_calls w ! i)"
  shows "i < length (lw_calls w') \<and> (stale L T (lw_now w') (lw_cell w') (lw_calls w' ! i) \<or> past (lw_calls w' ! i))"
  using assms(1-3)
proof (cases rule: lock_step_call)
  case own
  then show ?thesis using d stale_turn [OF own(1), of T] past_turn [OF own(1)] by (auto simp: past_def)
next
  case (other v)
  then show ?thesis using d stale_other [of L T "lw_now w" "lw_cell w" "lw_calls w ! i" v "lw_cell w'"] by auto
next
  case later
  then show ?thesis using d stale_later [of L T "lw_now w" "lw_cell w" "lw_calls w ! i" "lw_now w'"] by auto
qed

lemma doomed_turn:
  assumes "call_turn L now ev cell c = Some (cell', c')" and "T + L \<le> now" and "doomed L T now cell c"
  shows "doomed L T now cell' c'"
  using assms(3) unfolding doomed_def [of _ _ _ cell]
proof (elim disjE exE conjE)
  assume "stale L T now cell c"
  then show ?thesis using stale_turn [OF assms(1), of T] assms(2) by (auto simp: doomed_def)
qed (use assms(1) in \<open>auto simp: call_turn_def doomed_def lock_outcome_of_def renewal_replied_def renewal_failed_def
       split: lock_event.splits renewal.splits if_splits sum.splits prod.splits\<close>)

lemma doomed_step:
  assumes "lock_step L ev w = Some w'" and "lock_inv L w" and "i < length (lw_calls w)"
    and late: "T + L \<le> lw_now w" and d: "doomed L T (lw_now w) (lw_cell w) (lw_calls w ! i)"
  shows "i < length (lw_calls w') \<and> T + L \<le> lw_now w' \<and> doomed L T (lw_now w') (lw_cell w') (lw_calls w' ! i)"
  using assms(1-3)
proof (cases rule: lock_step_call)
  case own
  then show ?thesis using late d doomed_turn [OF own(1), of T] by auto
next
  case (other v)
  then show ?thesis
    using late d stale_other [of L T "lw_now w" "lw_cell w" "lw_calls w ! i" v "lw_cell w'"] by (auto simp: doomed_def)
next
  case later
  then show ?thesis
    using late d stale_later [of L T "lw_now w" "lw_cell w" "lw_calls w ! i" "lw_now w'"] by (auto simp: doomed_def)
qed

lemma stale_run:
  assumes "lock_run L es w = Some w'" and "lock_inv L w" and "i < length (lw_calls w)"
    and "stale L T (lw_now w) (lw_cell w) (lw_calls w ! i)"
  shows "i < length (lw_calls w') \<and> (stale L T (lw_now w') (lw_cell w') (lw_calls w' ! i) \<or> past (lw_calls w' ! i))"
proof -
  have "lock_inv L w' \<and> i < length (lw_calls w') \<and>
      (stale L T (lw_now w') (lw_cell w') (lw_calls w' ! i) \<or> past (lw_calls w' ! i))"
    using assms(1) by (rule lock_run_induct) (use assms in \<open>auto dest: lock_inv_step stale_step\<close>)
  then show ?thesis by simp
qed

lemma doomed_run:
  assumes "lock_run L es w = Some w'" and "lock_inv L w" and "i < length (lw_calls w)"
    and "T + L \<le> lw_now w" and "doomed L T (lw_now w) (lw_cell w) (lw_calls w ! i)"
  shows "\<not> lock_returned w' i"
proof -
  have "lock_inv L w' \<and> i < length (lw_calls w') \<and> T + L \<le> lw_now w' \<and>
      doomed L T (lw_now w') (lw_cell w') (lw_calls w' ! i)"
    using assms(1) by (rule lock_run_induct) (use assms in \<open>auto dest: lock_inv_step doomed_step\<close>)
  then show ?thesis
    by (auto simp: doomed_def stale_def lock_returned_def split: lock_phase.splits lock_outcome.splits)
qed

section \<open>Exclusion\<close>

text \<open>A call that works without the key and goes on for \<^verbatim>\<open>L\<close> more milliseconds does not report success.\<close>

lemma works_without_the_key:
  assumes inv: "lock_inv L w1" and i: "lock_working w1 i" and no: "\<not> lock_held w1 i"
    and r2: "lock_run L es w1 = Some w2" and i2: "lock_working w2 i" and late: "lw_now w1 + L \<le> lw_now w2"
    and r3: "lock_run L es' w2 = Some w3"
  shows "\<not> lock_returned w3 i"
proof -
  have len: "i < length (lw_calls w1)" using i by (simp add: lock_working_def)
  have "stale L (lw_now w1) (lw_now w1) (lw_cell w1) (lw_calls w1 ! i)"
    using inv i no by (intro loses_the_key_is_stale) (auto simp: lock_inv_def lock_working_def lock_held_def)
  then have "stale L (lw_now w1) (lw_now w2) (lw_cell w2) (lw_calls w2 ! i)"
    using stale_run [OF r2 inv len] i2 by (auto simp: past_def lock_working_def)
  then have "doomed L (lw_now w1) (lw_now w2) (lw_cell w2) (lw_calls w2 ! i)" by (simp add: doomed_def)
  then show ?thesis
    using doomed_run [OF r3 lock_inv_run [OF r2 inv]] late i2 by (simp add: lock_working_def)
qed

text \<open>C5
  Two calls that both report success were never at work together for as long as a reply of Redis
  may take: if both work at one moment and both still work \<^verbatim>\<open>L\<close> milliseconds later, at most one of
  them returns its result. With immediate replies (\<^verbatim>\<open>L = 0\<close>) two successful calls never overlap.
\<close>

theorem lock_keeps_writers_apart:
  assumes "lock_run L es1 lock_idle = Some w1" and "i \<noteq> j" and "lock_working w1 i" and "lock_working w1 j"
    and "lock_run L es2 w1 = Some w2" and "lock_working w2 i" and "lock_working w2 j"
    and "lw_now w1 + L \<le> lw_now w2" and "lock_run L es3 w2 = Some w3"
  shows "\<not> (lock_returned w3 i \<and> lock_returned w3 j)"
proof -
  have inv: "lock_inv L w1" using assms(1) lock_inv_idle by (rule lock_inv_run)
  have "lk_owner (lw_calls w1 ! i) \<noteq> lk_owner (lw_calls w1 ! j)"
    using inv assms(2-4) nth_eq_iff_index_eq [of "map lk_owner (lw_calls w1)" i j]
    by (auto simp: lock_inv_def lock_working_def)
  then have "\<not> lock_held w1 i \<or> \<not> lock_held w1 j" by (auto simp: lock_held_def)
  then show ?thesis using works_without_the_key [OF inv] assms by blast
qed

text \<open>Concrete turns: the renewal of the first call hangs until its lease has run out.\<close>

definition hanging_renewal :: "nat \<Rightarrow> nat lock_event list" where
  "hanging_renewal delay =
     [NewCall ''a'', SetRuns 0, Tick delay, SetReplies 0 0, Tick 5000, TimerFires 0, Tick (10000 - delay),
      NewCall ''b'', SetRuns 1, SetReplies 1 0]"

definition both_finish :: "nat lock_event list" where
  "both_finish =
     [WorkEnds 0 (Inr 7), RenewFails 0, RenewalSettles 0, ReleaseRuns 0,
      WorkEnds 1 (Inr 8), RenewalSettles 1, ReleaseRuns 1]"

lemmas lock_eval = lock_step_def call_turn_defs put_call_def lock_scripts lock_constants lock_idle_def
  lock_call_start_def hanging_renewal_def both_finish_def lock_working_def lock_returned_def lock_outcome_of_def

lemma lock_keeps_writers_apart_witness:
  "\<not> (lock_returned (the (lock_run 0 (hanging_renewal 0 @ both_finish) lock_idle)) 0 \<and>
      lock_returned (the (lock_run 0 (hanging_renewal 0 @ both_finish) lock_idle)) 1)"
proof -
  define w where "w = the (lock_run 0 (hanging_renewal 0) lock_idle)"
  have w: "lock_run 0 (hanging_renewal 0) lock_idle = Some w" "lock_working w 0" "lock_working w 1"
    by (simp_all add: w_def lock_eval)
  have "lock_run 0 both_finish w = Some (the (lock_run 0 (hanging_renewal 0 @ both_finish) lock_idle))"
    by (simp add: w_def lock_eval)
  then show ?thesis
    using lock_keeps_writers_apart [OF w(1) _ w(2,3), of "[]" w both_finish] w(2,3) by simp
qed

text \<open>
  The belief in the lease counts from the reply, not from the request: with a reply one millisecond
  late, both calls are at work at the same moment and both report success.
\<close>

lemma late_reply_lets_two_in:
  "\<exists>w w'. lock_run 1 (hanging_renewal 1) lock_idle = Some w \<and> lock_working w 0 \<and> lock_working w 1 \<and>
     lock_run 1 both_finish w = Some w' \<and> lock_returned w' 0 \<and> lock_returned w' 1"
  by (simp add: lock_eval)

section \<open>An abandoned lock\<close>

text \<open>A holder that dies without releasing blocks the room for its time to live and no longer: from any
  reachable state, if the key is left alone for fifteen seconds, the next call takes it at its first
  attempt and starts its work.
\<close>

theorem abandoned_lock_frees:
  assumes "lock_run L es lock_idle = Some w" and "v \<notin> lk_owner ` set (lw_calls w)" and "0 \<le> L"
  shows "\<exists>w'. lock_run L [Tick 15000, NewCall v, SetRuns (length (lw_calls w)), SetReplies (length (lw_calls w)) 0] w
            = Some w' \<and> lock_working w' (length (lw_calls w)) \<and> lock_held w' (length (lw_calls w))"
proof -
  have "cell_ok (lw_now w) (lw_cell w)"
    using lock_inv_run [OF assms(1) lock_inv_idle] by (simp add: lock_inv_def)
  then have free: "lock_get (lw_now w + 15000) (lw_cell w) = None"
    by (auto simp: cell_ok_def lock_get_def lock_constants split: option.splits)
  then show ?thesis
    using assms(2,3)
    by (simp add: lock_step_def call_turn_defs put_call_def lock_set_nx_def lock_call_start_def lock_working_def
        lock_held_def lock_constants nth_append Let_def)
       (simp add: lock_get_def)
qed

lemma abandoned_lock_frees_witness:
  "\<exists>w'. lock_run 1 [Tick 15000, NewCall ''c'', SetRuns 2, SetReplies 2 0]
          (the (lock_run 1 (hanging_renewal 1) lock_idle)) = Some w' \<and> lock_working w' 2 \<and> lock_held w' 2"
proof -
  define w where "w = the (lock_run 1 (hanging_renewal 1) lock_idle)"
  have w: "lock_run 1 (hanging_renewal 1) lock_idle = Some w" "length (lw_calls w) = 2"
    "''c'' \<notin> lk_owner ` set (lw_calls w)"
    by (simp_all add: w_def lock_eval)
  show ?thesis using abandoned_lock_frees [OF w(1,3)] w(2) unfolding w_def [symmetric] by simp
qed

end
