(* ===== verification/BrainRules.thy ===== *)
theory BrainRules
  imports Multiplayer
begin

text \<open>
  The rules of Same Brain (\<^verbatim>\<open>features/things/same-brain/same-brain-rules.ts\<close>, the types of \<^verbatim>\<open>types.ts\<close> and
  the question bank of \<^verbatim>\<open>same-brain-questions.ts\<close>): how an answer is reduced to what is compared, the
  grouping, the herd and its points, the odd one out, the winners and the timings.

  Answers are strings of 8-bit code units here, as everywhere: NFKD, the Unicode classes of letters and
  numbers and the combining marks are written out for the Latin-1 range. Two of its characters decompose
  to characters outside it: the fraction slash of the vulgar fractions, which the next step turns into a
  space and which is that space here, and the micro sign, which becomes a Greek letter and stays itself
  here.
\<close>

section \<open>Data\<close>

record brain_toggles =
  sayItAloud :: bool
  eliminateOddOne :: bool
  revealAuthors :: bool

record brain_timings =
  bt_prompt :: int
  bt_submit :: int
  bt_sayIt :: int
  bt_reveal :: int

record brain_answer =
  ba_playerId :: js_string
  ba_text :: js_string
  ba_normalised :: js_string

record brain_cluster =
  cl_label :: js_string
  cl_spellings :: "js_string list"
  cl_playerIds :: "js_string list"

text \<open>\<^verbatim>\<open>rd_split\<close> is \<^verbatim>\<open>noScoreReason === "split"\<close>.\<close>

record brain_result =
  rd_round :: int
  rd_question :: js_string
  rd_answers :: "brain_answer list"
  rd_clusters :: "brain_cluster list"
  rd_herdIndex :: "nat option"
  rd_pointsEach :: int
  rd_oddPlayerId :: "js_string option"
  rd_split :: bool
  rd_corrected :: bool

definition SAME_BRAIN_MIN_PLAYERS :: nat where "SAME_BRAIN_MIN_PLAYERS = 3"
definition SAME_BRAIN_MAX_PLAYERS :: nat where "SAME_BRAIN_MAX_PLAYERS = 16"
definition SAME_BRAIN_MAX_NAME_LENGTH :: nat where "SAME_BRAIN_MAX_NAME_LENGTH = 24"
definition SAME_BRAIN_MAX_ANSWER_LENGTH :: nat where "SAME_BRAIN_MAX_ANSWER_LENGTH = 32"
definition SAME_BRAIN_MIN_ROUNDS :: int where "SAME_BRAIN_MIN_ROUNDS = 3"
definition SAME_BRAIN_MAX_ROUNDS :: int where "SAME_BRAIN_MAX_ROUNDS = 20"
definition SAME_BRAIN_DEFAULT_ROUNDS :: int where "SAME_BRAIN_DEFAULT_ROUNDS = 8"
definition SAME_BRAIN_CONNECTED_WINDOW_MS :: int where "SAME_BRAIN_CONNECTED_WINDOW_MS = 25000"
definition SAME_BRAIN_HOST_CLAIM_AFTER_MS :: int where "SAME_BRAIN_HOST_CLAIM_AFTER_MS = 60000"
definition SAME_BRAIN_POINTS_MAJORITY :: int where "SAME_BRAIN_POINTS_MAJORITY = 2"
definition SAME_BRAIN_POINTS_UNANIMOUS :: int where "SAME_BRAIN_POINTS_UNANIMOUS = 1"

lemmas brain_limits = SAME_BRAIN_MIN_PLAYERS_def SAME_BRAIN_MAX_PLAYERS_def SAME_BRAIN_MAX_NAME_LENGTH_def
  SAME_BRAIN_MAX_ANSWER_LENGTH_def SAME_BRAIN_MIN_ROUNDS_def SAME_BRAIN_MAX_ROUNDS_def
  SAME_BRAIN_DEFAULT_ROUNDS_def SAME_BRAIN_CONNECTED_WINDOW_MS_def SAME_BRAIN_HOST_CLAIM_AFTER_MS_def
  SAME_BRAIN_POINTS_MAJORITY_def SAME_BRAIN_POINTS_UNANIMOUS_def

definition SAME_BRAIN_DEFAULT_TOGGLES :: brain_toggles where
  "SAME_BRAIN_DEFAULT_TOGGLES = \<lparr>sayItAloud = True, eliminateOddOne = False, revealAuthors = True\<rparr>"

definition SAME_BRAIN_DEFAULT_TIMINGS :: brain_timings where
  "SAME_BRAIN_DEFAULT_TIMINGS = \<lparr>bt_prompt = 4000, bt_submit = 45000, bt_sayIt = 4500, bt_reveal = 0\<rparr>"

section \<open>What an answer is compared by\<close>

text \<open>Lower case, NFKD and the removal of the combining marks, one code unit at a time.\<close>

definition fold_char :: "char \<Rightarrow> js_string" where
  "fold_char c = (let d = lower_char c; n = of_char d :: nat in
     if n = 160 then '' ''
     else if n = 168 \<or> n = 175 \<or> n = 180 \<or> n = 184 then '' ''
     else if n = 170 then ''a'' else if n = 186 then ''o''
     else if n = 178 then ''2'' else if n = 179 then ''3'' else if n = 185 then ''1''
     else if n = 188 then ''1 4'' else if n = 189 then ''1 2'' else if n = 190 then ''3 4''
     else if 224 \<le> n \<and> n \<le> 229 then ''a'' else if n = 231 then ''c''
     else if 232 \<le> n \<and> n \<le> 235 then ''e'' else if 236 \<le> n \<and> n \<le> 239 then ''i''
     else if n = 241 then ''n'' else if 242 \<le> n \<and> n \<le> 246 then ''o''
     else if 249 \<le> n \<and> n \<le> 252 then ''u'' else if n = 253 \<or> n = 255 then ''y'' else [d])"

text \<open>\<^verbatim>\<open>[\p{L}\p{N}\s-]\<close> of what is left after the folding.\<close>

definition word_char :: "char \<Rightarrow> bool" where
  "word_char c = (let n = of_char c :: nat in
     (48 \<le> n \<and> n \<le> 57) \<or> (65 \<le> n \<and> n \<le> 90) \<or> (97 \<le> n \<and> n \<le> 122) \<or> n = 45 \<or> n = 181 \<or>
     (192 \<le> n \<and> n \<noteq> 215 \<and> n \<noteq> 247) \<or> is_space c)"

definition noise_words :: "js_string list" where
  "noise_words = [''the'', ''a'', ''an'', ''some'', ''my'', ''your'', ''his'', ''her'', ''their'', ''its'', ''our'']"

text \<open>\<^verbatim>\<open>LEADING_NOISE\<close>: the first alternative that is followed by white space, with that white space.\<close>

fun strip_noise :: "js_string list \<Rightarrow> js_string \<Rightarrow> js_string" where
  "strip_noise [] s = s"
| "strip_noise (w # ws) s =
     (let rest = drop (length w) s in
      if starts_with w s \<and> rest \<noteq> [] \<and> is_space (hd rest) then dropWhile is_space rest else strip_noise ws s)"

definition normaliseAnswer :: "js_string \<Rightarrow> js_string" where
  "normaliseAnswer raw =
     (let folded = concat (map fold_char raw);
          bare = filter (\<lambda>c. c \<noteq> CHR 0x27) folded;
          words = map (\<lambda>c. if word_char c then c else CHR '' '') bare;
          tidy = js_trim (collapse_spaces words);
          named = strip_noise noise_words tidy;
          spaced = map (\<lambda>c. if c = CHR ''-'' then CHR '' '' else c) named
      in take SAME_BRAIN_MAX_ANSWER_LENGTH (js_trim (collapse_spaces spaced)))"

definition answerIsUsable :: "js_string \<Rightarrow> bool" where
  "answerIsUsable raw \<longleftrightarrow> normaliseAnswer raw \<noteq> []"

section \<open>Grouping\<close>

text \<open>One turn of the loop of \<^verbatim>\<open>clusterByExactMatch\<close>, on the map in insertion order.\<close>

fun add_to_cluster :: "brain_answer \<Rightarrow> brain_cluster list \<Rightarrow> brain_cluster list" where
  "add_to_cluster a [] =
     [\<lparr>cl_label = ba_normalised a, cl_spellings = [ba_normalised a], cl_playerIds = [ba_playerId a]\<rparr>]"
| "add_to_cluster a (g # gs) =
     (if cl_label g = ba_normalised a then g\<lparr>cl_playerIds := cl_playerIds g @ [ba_playerId a]\<rparr> # gs
      else g # add_to_cluster a gs)"

definition clusterByExactMatch :: "brain_answer list \<Rightarrow> brain_cluster list" where
  "clusterByExactMatch answers = foldl (\<lambda>gs a. add_to_cluster a gs) [] answers"

definition cluster_size :: "brain_cluster \<Rightarrow> nat" where
  "cluster_size g = length (cl_playerIds g)"

section \<open>The herd\<close>

text \<open>
  The groups are sorted with their positions, because \<^verbatim>\<open>clusters.indexOf(largest)\<close> finds the object,
  not an equal one. The result is the herd's index, the points and whether the room split.
\<close>

definition scoreClusters :: "brain_cluster list \<Rightarrow> nat \<Rightarrow> nat option \<times> int \<times> bool" where
  "scoreClusters clusters playerCount =
     (let sorted = sort_by (\<lambda>a b. cluster_size (snd b) \<le> cluster_size (snd a)) (enumerate 0 clusters) in
      case sorted of
        [] \<Rightarrow> (None, 0, True)
      | largest # _ \<Rightarrow>
          (if cluster_size (snd largest) < 2 then (None, 0, True)
           else
           let tied = filter (\<lambda>g. cluster_size (snd g) = cluster_size (snd largest)) sorted in
           if 1 < length tied then (None, 0, True)
           else (Some (fst largest),
                 if cluster_size (snd largest) = playerCount then SAME_BRAIN_POINTS_UNANIMOUS
                 else SAME_BRAIN_POINTS_MAJORITY, False)))"

definition oddPlayerOf :: "brain_cluster list \<Rightarrow> nat option \<Rightarrow> js_string option" where
  "oddPlayerOf clusters herdIndex =
     (case herdIndex of
        None \<Rightarrow> None
      | Some _ \<Rightarrow>
          (case filter (\<lambda>g. cluster_size g = 1) clusters of
             [loner] \<Rightarrow> Some (cl_playerIds loner ! 0)
           | _ \<Rightarrow> None))"

definition scoreRound :: "int \<Rightarrow> js_string \<Rightarrow> brain_answer list \<Rightarrow> nat \<Rightarrow> brain_result" where
  "scoreRound round_no question answers playerCount =
     (let clusters = clusterByExactMatch answers;
          (herdIndex, pointsEach, split) = scoreClusters clusters playerCount
      in \<lparr>rd_round = round_no, rd_question = question, rd_answers = answers, rd_clusters = clusters,
          rd_herdIndex = herdIndex, rd_pointsEach = pointsEach, rd_oddPlayerId = oddPlayerOf clusters herdIndex,
          rd_split = split, rd_corrected = False\<rparr>)"

section \<open>Winners\<close>

text \<open>A player as \<^verbatim>\<open>winnersOf\<close> reads it: the id, the score, whether out.\<close>

definition winnersOf :: "(js_string \<times> int \<times> bool) list \<Rightarrow> js_string list" where
  "winnersOf players =
     (let eligible = filter (\<lambda>(_, _, out). \<not> out) players;
          pool = (if eligible \<noteq> [] then eligible else players);
          best = foldr max (map (\<lambda>(_, score, _). score) pool) 0
      in if best = 0 then [] else map fst (filter (\<lambda>(_, score, _). score = best) pool))"

section \<open>Timings\<close>

record brain_timings_patch =
  patch_prompt :: "int option"
  patch_submit :: "int option"
  patch_sayIt :: "int option"
  patch_reveal :: "int option"

definition clamp :: "int \<Rightarrow> int \<Rightarrow> int \<Rightarrow> int" where
  "clamp low high v = max low (min high v)"

text \<open>\<^verbatim>\<open>sameBrainTimings({...base, ...overrides})\<close>, with the bounds of \<^verbatim>\<open>SAME_BRAIN_TIMING_BOUNDS\<close>.\<close>

definition sameBrainTimings :: "brain_timings \<Rightarrow> brain_timings_patch \<Rightarrow> brain_timings" where
  "sameBrainTimings base overrides =
     \<lparr>bt_prompt = clamp 2000 20000 (nullish (patch_prompt overrides) (bt_prompt base)),
      bt_submit = clamp 15000 180000 (nullish (patch_submit overrides) (bt_submit base)),
      bt_sayIt = clamp 3000 20000 (nullish (patch_sayIt overrides) (bt_sayIt base)),
      bt_reveal = clamp 0 120000 (nullish (patch_reveal overrides) (bt_reveal base))\<rparr>"

section \<open>Questions\<close>

definition SAME_BRAIN_QUESTIONS :: "js_string list" where
  "SAME_BRAIN_QUESTIONS =
     [''Name something in a kitchen drawer'',
      ''Name something you keep in a shed'',
      ''Name something on a fridge door'',
      ''Name something in a first aid kit'',
      ''Name something in a toolbox'',
      ''Name something you find under a sofa'',
      ''Name something in a bathroom cabinet'',
      ''Name something people keep but never use'',
      ''Name something you always lose'',
      ''Name something on a hotel bed'',
      ''Name something in a school bag'',
      ''Name something you would find in a glovebox'',
      ''Name a reason someone is late'',
      ''Name an excuse for leaving a party early'',
      ''Name something people lie about'',
      ''Name something people pretend to enjoy'',
      ''Name a thing people argue about in a car'',
      ''Name something you do when you are nervous'',
      ''Name a bad first date activity'',
      ''Name something people say when they have nothing to say'',
      ''Name a chore everyone puts off'',
      ''Name something you notice in someone else'' @ [CHR 0x27] @ ''s house'',
      ''Name a reason to leave a group chat'',
      ''Name something people brag about without meaning to'',
      ''Name something cold'',
      ''Name something that smells like childhood'',
      ''Name a sound that wakes you up'',
      ''Name something sticky'',
      ''Name something loud'',
      ''Name a smell nobody likes'',
      ''Name something that always tastes better outside'',
      ''Name a texture people hate'',
      ''Name something too bright'',
      ''Name a sound that means trouble'',
      ''Name somewhere you go to be alone'',
      ''Name a place with a bad queue'',
      ''Name somewhere you would not swim'',
      ''Name a place children love and adults do not'',
      ''Name somewhere you would hide'',
      ''Name a place that is always too warm'',
      ''Name somewhere you have fallen asleep by accident'',
      ''Name a place you dress up for'',
      ''Name somewhere you would not take a first date'',
      ''Name a room nobody sits in'',
      ''Name a topping people argue about'',
      ''Name something you eat standing up'',
      ''Name a food that is better cold'',
      ''Name something nobody finishes'',
      ''Name a sandwich filling'',
      ''Name a food you ate constantly as a child'',
      ''Name something you only eat at Christmas'',
      ''Name a drink that means the night is over'',
      ''Name a food that is impossible to eat neatly'',
      ''Name something people put on toast'',
      ''Name a job you would be terrible at'',
      ''Name someone you would not lend money to'',
      ''Name a job children want and adults do not'',
      ''Name someone everybody has in their family'',
      ''Name a job that looks easy and is not'',
      ''Name someone you should never argue with'',
      ''Name a job you would do for free'',
      ''Name someone who always knows everything'',
      ''Name the first thing you do in the morning'',
      ''Name something you do every single day without noticing'',
      ''Name a thing you keep meaning to start'',
      ''Name something you have not done in years'',
      ''Name a time of day that is always wasted'',
      ''Name something you only do when nobody is watching'',
      ''Name a habit you picked up from a parent'',
      ''Name something people are irrationally afraid of'',
      ''Name a bad thing to hear a pilot say'',
      ''Name something you should not do in a library'',
      ''Name a bad place to lose your phone'',
      ''Name something you would not touch'',
      ''Name a bad time for a phone to ring'',
      ''Name something you should never say at a wedding'',
      ''Name a bad thing to find in a hotel room'']"

definition sameBrainQuestion ::
  "('a services_scheme \<Rightarrow> nat \<Rightarrow> nat \<times> 'a services_scheme) \<Rightarrow> js_string list \<Rightarrow> 'a services_scheme \<Rightarrow>
   js_string \<times> 'a services_scheme" where
  "sameBrainQuestion draw recent w =
     (let fresh = filter (\<lambda>q. q \<notin> set recent) SAME_BRAIN_QUESTIONS;
          pool = (if fresh \<noteq> [] then fresh else SAME_BRAIN_QUESTIONS);
          (i, w') = draw w (length pool)
      in (pool ! i, w'))"

end
