(* ===== verification/BrainState.thy ===== *)
theory BrainState
  imports BrainRules GameEngine
begin

text \<open>
  The room of Same Brain and its clockwork (\<^verbatim>\<open>features/things/same-brain/same-brain-room-engine.server.ts\<close>):
  players, phases, rounds, scoring a round and taking a score back, and the snapshot of one viewer.
\<close>

section \<open>State\<close>

datatype brain_phase = BrLobby | BrPrompt | BrSubmit | BrSayIt | BrReveal | BrEnding

record brain_player = readiness_record +
  bp_name :: js_string
  bp_tokenHash :: js_string
  bp_joinedAt :: int
  bp_lastSeenAt :: int
  bp_score :: int
  bp_out :: bool
  bp_aloneCount :: int
  bp_answer :: "js_string option"
  bp_leftAt :: "int option"

record brain_receipt =
  jr_playerId :: js_string
  jr_playerToken :: js_string
  jr_expiresAt :: int

record brain_room = services +
  sb_roomId :: js_string
  sb_managed :: bool
  sb_officialResultChannelId :: "js_string option"
  sb_phase :: brain_phase
  sb_revision :: nat
  sb_sequence :: nat
  sb_hostHash :: js_string
  sb_joinHash :: js_string
  sb_expiresAt :: int
  sb_gameNumber :: nat
  sb_round :: int
  sb_rounds :: int
  sb_toggles :: brain_toggles
  sb_timings :: brain_timings
  sb_phaseStartedAt :: int
  sb_phaseEndsAt :: int
  sb_pausedAt :: "int option"
  sb_lastActiveAt :: int
  sb_players :: "brain_player list"
  sb_hostPlayerId :: "js_string option"
  sb_joinLocked :: "bool option"
  sb_hostDisconnectedSince :: "int option"
  sb_question :: "js_string option"
  sb_recentQuestions :: "js_string list"
  sb_result :: "brain_result option"
  sb_resultBaseline :: "brain_result option"
  sb_history :: "brain_result list"
  sb_processedActions :: "js_string list"
  sb_joinReceiptIds :: "js_string list"
  sb_joinReceipts :: "(js_string \<times> brain_receipt) list"
  sb_winnerIds :: "js_string list"

definition BRAIN_FINISHED_GRACE_SECONDS :: int where "BRAIN_FINISHED_GRACE_SECONDS = 20 * 60"
definition BRAIN_JOIN_RECEIPT_TTL_SECONDS :: int where "BRAIN_JOIN_RECEIPT_TTL_SECONDS = 2 * 60"

section \<open>Room bookkeeping\<close>

definition brain_phaseKind :: "brain_room \<Rightarrow> room_phase_kind" where
  "brain_phaseKind r =
     (case sb_phase r of BrLobby \<Rightarrow> KindLobby | BrEnding \<Rightarrow> KindResults | _ \<Rightarrow> KindActive)"

definition brain_presentPlayerCount :: "brain_room \<Rightarrow> nat" where
  "brain_presentPlayerCount r = length (filter (\<lambda>p. bp_leftAt p = None) (sb_players r))"

definition brain_applyRoomExpiry :: "int \<Rightarrow> brain_room \<Rightarrow> brain_room" where
  "brain_applyRoomExpiry now r =
     r\<lparr>sb_expiresAt := multiplayerRoomExpiry (brain_phaseKind r) (brain_presentPlayerCount r) (sb_expiresAt r) now\<rparr>"

definition brain_changed :: "brain_room \<Rightarrow> brain_room" where
  "brain_changed r =
     brain_applyRoomExpiry (wall_clock r) (r\<lparr>sb_revision := Suc (sb_revision r), sb_sequence := Suc (sb_sequence r)\<rparr>)"

definition brain_by_id :: "js_string \<Rightarrow> brain_room \<Rightarrow> brain_player option" where
  "brain_by_id i r = find (\<lambda>p. pid p = i) (sb_players r)"

definition upd_brain :: "js_string \<Rightarrow> (brain_player \<Rightarrow> brain_player) \<Rightarrow> brain_room \<Rightarrow> brain_room" where
  "upd_brain i f r = r\<lparr>sb_players := upd_first (\<lambda>p. pid p = i) f (sb_players r)\<rparr>"

definition still_in :: "brain_room \<Rightarrow> brain_player list" where
  "still_in r = filter (\<lambda>p. \<not> bp_out p) (sb_players r)"

definition brain_connected :: "int \<Rightarrow> brain_player \<Rightarrow> bool" where
  "brain_connected now p \<longleftrightarrow> now - bp_lastSeenAt p \<le> SAME_BRAIN_CONNECTED_WINDOW_MS"

text \<open>\<^verbatim>\<open>a.joinedAt - b.joinedAt || a.id.localeCompare(b.id)\<close>, not above zero.\<close>

definition seniority :: "(js_string \<Rightarrow> js_string \<Rightarrow> int) \<Rightarrow> brain_player \<Rightarrow> brain_player \<Rightarrow> bool" where
  "seniority cmp a b \<longleftrightarrow>
     (if bp_joinedAt a \<noteq> bp_joinedAt b then bp_joinedAt a \<le> bp_joinedAt b else cmp (pid a) (pid b) \<le> 0)"

definition next_host :: "js_string \<Rightarrow> int \<Rightarrow> brain_room \<Rightarrow> brain_player option" where
  "next_host leavingId now r =
     (let eligible = sort_by (seniority (locale_compare r))
            (filter (\<lambda>p. pid p \<noteq> leavingId \<and> \<not> bp_out p \<and> bp_leftAt p = None) (sb_players r))
      in case find (brain_connected now) eligible of
           Some p \<Rightarrow> Some p
         | None \<Rightarrow> (case eligible of [] \<Rightarrow> None | p # _ \<Rightarrow> Some p))"

definition brain_transferHost :: "js_string \<Rightarrow> int \<Rightarrow> brain_room \<Rightarrow> brain_room" where
  "brain_transferHost leavingId now r =
     (let nxt = next_host leavingId now r
      in r\<lparr>sb_hostPlayerId := map_option pid nxt,
           sb_hostDisconnectedSince :=
             (case nxt of None \<Rightarrow> None | Some p \<Rightarrow> if brain_connected now p then None else Some now)\<rparr>)"

section \<open>Phases and rounds\<close>

definition brain_phaseDuration :: "brain_room \<Rightarrow> brain_phase \<Rightarrow> int" where
  "brain_phaseDuration r phase =
     (case phase of
        BrPrompt \<Rightarrow> bt_prompt (sb_timings r)
      | BrSubmit \<Rightarrow> bt_submit (sb_timings r)
      | BrSayIt \<Rightarrow> bt_sayIt (sb_timings r)
      | BrReveal \<Rightarrow> bt_reveal (sb_timings r)
      | _ \<Rightarrow> 0)"

definition brain_enterPhase :: "brain_phase \<Rightarrow> int \<Rightarrow> brain_room \<Rightarrow> brain_room" where
  "brain_enterPhase phase now r =
     (let duration = brain_phaseDuration r phase
      in brain_changed (r\<lparr>sb_phase := phase, sb_phaseStartedAt := now,
                          sb_phaseEndsAt := (if 0 < duration then now + duration else 0)\<rparr>))"

text \<open>\<^verbatim>\<open>draw\<close> is the random source: the context's or \<^verbatim>\<open>randomInt\<close>.\<close>

type_synonym brain_draw = "brain_room \<Rightarrow> nat \<Rightarrow> nat \<times> brain_room"

definition brain_startRound :: "brain_draw \<Rightarrow> int \<Rightarrow> brain_room \<Rightarrow> brain_room" where
  "brain_startRound draw now r =
     (let r1 = r\<lparr>sb_round := sb_round r + 1, sb_result := None, sb_resultBaseline := None,
                 sb_players := map (\<lambda>p. p\<lparr>bp_answer := None\<rparr>) (sb_players r)\<rparr>;
          (question, r2) = sameBrainQuestion draw (sb_recentQuestions r1) r1
      in brain_enterPhase BrPrompt now
           (r2\<lparr>sb_question := Some question,
               sb_recentQuestions := take_last 40 (sb_recentQuestions r2 @ [question])\<rparr>))"

definition brain_finish :: "int \<Rightarrow> brain_room \<Rightarrow> brain_room" where
  "brain_finish now r =
     (let r1 = brain_enterPhase BrEnding now
                 (r\<lparr>sb_winnerIds := winnersOf (map (\<lambda>p. (pid p, bp_score p, bp_out p)) (sb_players r)),
                    sb_question := None\<rparr>)
      in r1\<lparr>sb_expiresAt := min (sb_expiresAt r1) (now + BRAIN_FINISHED_GRACE_SECONDS * 1000)\<rparr>)"

definition gameOver :: "brain_room \<Rightarrow> bool" where
  "gameOver r \<longleftrightarrow> sb_rounds r \<le> sb_round r \<or> eliminateOddOne (sb_toggles r) \<and> length (still_in r) < 2"

definition afterReveal :: "brain_draw \<Rightarrow> int \<Rightarrow> brain_room \<Rightarrow> brain_room" where
  "afterReveal draw now r = (if gameOver r then brain_finish now r else brain_startRound draw now r)"

section \<open>Scoring a round\<close>

definition everyoneAnswered :: "brain_room \<Rightarrow> bool" where
  "everyoneAnswered r \<longleftrightarrow> still_in r \<noteq> [] \<and> list_all (\<lambda>p. bp_answer p \<noteq> None) (still_in r)"

definition round_answers :: "brain_room \<Rightarrow> brain_answer list" where
  "round_answers r =
     List.map_filter
       (\<lambda>p. case bp_answer p of
              None \<Rightarrow> None
            | Some t \<Rightarrow> (if answerIsUsable t
                         then Some \<lparr>ba_playerId = pid p, ba_text = t, ba_normalised = normaliseAnswer t\<rparr> else None))
       (still_in r)"

definition computeResult :: "brain_room \<Rightarrow> brain_result" where
  "computeResult r = scoreRound (sb_round r) (nullish (sb_question r) []) (round_answers r) (length (still_in r))"

definition herd_of :: "brain_result \<Rightarrow> js_string list" where
  "herd_of d = (case rd_herdIndex d of None \<Rightarrow> [] | Some k \<Rightarrow> cl_playerIds (rd_clusters d ! k))"

text \<open>Scores up or down, \<^verbatim>\<open>sign\<close> being 1 or -1.\<close>

definition award_points :: "brain_result \<Rightarrow> int \<Rightarrow> brain_room \<Rightarrow> brain_room" where
  "award_points d sign r =
     fold (\<lambda>i. upd_brain i (\<lambda>p. p\<lparr>bp_score := bp_score p + sign * rd_pointsEach d\<rparr>)) (herd_of d) r"

definition mark_odd :: "brain_result \<Rightarrow> int \<Rightarrow> brain_room \<Rightarrow> brain_room" where
  "mark_odd d sign r =
     (if truthy (rd_oddPlayerId d)
      then upd_brain (the (rd_oddPlayerId d))
             (\<lambda>p. p\<lparr>bp_aloneCount := max 0 (bp_aloneCount p + sign),
                    bp_out := (if eliminateOddOne (sb_toggles r) then sign = 1 else bp_out p)\<rparr>) r
      else r)"

definition awardResult :: "brain_result \<Rightarrow> int \<Rightarrow> brain_room \<Rightarrow> brain_room" where
  "awardResult d sign r = mark_odd d sign (award_points d sign r)"

definition applyResult :: "brain_result \<Rightarrow> int \<Rightarrow> brain_room \<Rightarrow> brain_room" where
  "applyResult d now r =
     (let r1 = awardResult d 1 (r\<lparr>sb_result := Some d, sb_resultBaseline := Some d, sb_history := sb_history r @ [d]\<rparr>)
      in if sayItAloud (sb_toggles r1) \<and> rd_answers d \<noteq> [] then brain_enterPhase BrSayIt now r1
         else brain_enterPhase BrReveal now r1)"

definition closeSubmit :: "int \<Rightarrow> brain_room \<Rightarrow> brain_room" where
  "closeSubmit now r = applyResult (computeResult r) now (r\<lparr>sb_phaseEndsAt := now\<rparr>)"

section \<open>The clock\<close>

fun advance_from :: "nat \<Rightarrow> brain_draw \<Rightarrow> int \<Rightarrow> brain_room \<Rightarrow> brain_room" where
  "advance_from 0 draw now r = r"
| "advance_from (Suc guard) draw now r =
     (if sb_phaseEndsAt r = 0 \<or> now < sb_phaseEndsAt r then r
      else case sb_phase r of
        BrPrompt \<Rightarrow> advance_from guard draw now (brain_enterPhase BrSubmit now r)
      | BrSubmit \<Rightarrow> closeSubmit now r
      | BrSayIt \<Rightarrow> advance_from guard draw now (brain_enterPhase BrReveal now r)
      | BrReveal \<Rightarrow> advance_from guard draw now (afterReveal draw now r)
      | _ \<Rightarrow> r)"

definition brain_advance :: "brain_draw \<Rightarrow> int \<Rightarrow> brain_room \<Rightarrow> brain_room" where
  "brain_advance draw now r = (if sb_pausedAt r \<noteq> None then r else advance_from 8 draw now r)"

section \<open>The snapshot\<close>

record brain_summary =
  bs_id :: js_string
  bs_name :: js_string
  bs_connected :: bool
  bs_ready :: bool
  bs_host :: bool
  bs_left :: bool
  bs_score :: int
  bs_out :: bool
  bs_aloneCount :: int
  bs_answered :: bool

record brain_you =
  by_id :: js_string
  by_answer :: "js_string option"
  by_out :: bool
  by_startRequestId :: "js_string option"

record brain_snapshot =
  sn_roomId :: js_string
  sn_managed :: bool
  sn_phase :: brain_phase
  sn_revision :: nat
  sn_sequence :: nat
  sn_serverNow :: int
  sn_expiresAt :: int
  sn_round :: int
  sn_rounds :: int
  sn_toggles :: brain_toggles
  sn_timings :: brain_timings
  sn_phaseStartedAt :: int
  sn_phaseEndsAt :: int
  sn_paused :: bool
  sn_players :: "brain_summary list"
  sn_hostPlayerId :: "js_string option"
  sn_hostDisconnected :: bool
  sn_joinLocked :: bool
  sn_you :: "brain_you option"
  sn_question :: "js_string option"
  sn_result :: "brain_result option"
  sn_history :: "brain_result list"
  sn_winnerIds :: "js_string list"

definition brain_summaryOf :: "brain_room \<Rightarrow> int \<Rightarrow> brain_player \<Rightarrow> brain_summary" where
  "brain_summaryOf r now p =
     \<lparr>bs_id = pid p, bs_name = bp_name p, bs_connected = brain_connected now p, bs_ready = multiplayerPlayerReady p,
      bs_host = (sb_hostPlayerId r = Some (pid p)), bs_left = (bp_leftAt p \<noteq> None), bs_score = bp_score p,
      bs_out = bp_out p, bs_aloneCount = bp_aloneCount p, bs_answered = (bp_answer p \<noteq> None)\<rparr>"

definition brain_you_of :: "brain_player \<Rightarrow> brain_you" where
  "brain_you_of v = \<lparr>by_id = pid v, by_answer = bp_answer v, by_out = bp_out v, by_startRequestId = startRequestId v\<rparr>"

definition brain_host :: "brain_room \<Rightarrow> brain_player option" where
  "brain_host r = find (\<lambda>p. Some (pid p) = sb_hostPlayerId r) (sb_players r)"

definition brain_snapshot_of :: "brain_room \<Rightarrow> js_string option \<Rightarrow> int \<Rightarrow> brain_snapshot" where
  "brain_snapshot_of r viewerId now =
     \<lparr>sn_roomId = sb_roomId r, sn_managed = sb_managed r, sn_phase = sb_phase r, sn_revision = sb_revision r,
      sn_sequence = sb_sequence r, sn_serverNow = now, sn_expiresAt = sb_expiresAt r, sn_round = sb_round r,
      sn_rounds = sb_rounds r, sn_toggles = sb_toggles r, sn_timings = sb_timings r,
      sn_phaseStartedAt = sb_phaseStartedAt r, sn_phaseEndsAt = sb_phaseEndsAt r, sn_paused = (sb_pausedAt r \<noteq> None),
      sn_players = map (brain_summaryOf r now) (sb_players r), sn_hostPlayerId = sb_hostPlayerId r,
      sn_hostDisconnected = (case brain_host r of None \<Rightarrow> False | Some h \<Rightarrow> \<not> brain_connected now h),
      sn_joinLocked = (sb_joinLocked r = Some True),
      sn_you = map_option brain_you_of (find (\<lambda>p. Some (pid p) = viewerId) (sb_players r)),
      sn_question = (if sb_phase r = BrLobby then None else sb_question r),
      sn_result = (if sb_phase r = BrReveal \<or> sb_phase r = BrEnding then sb_result r else None),
      sn_history = (if sb_phase r = BrEnding then sb_history r else []), sn_winnerIds = sb_winnerIds r\<rparr>"

end
