(* ===== verification/BrainPlay.thy ===== *)
theory BrainPlay
  imports BrainState
begin

text \<open>
  The host's and the players' actions of Same Brain (\<^verbatim>\<open>applySameBrainHostAction\<close> and
  \<^verbatim>\<open>applySameBrainPlayerAction\<close> of \<^verbatim>\<open>same-brain-room-engine.server.ts\<close>): authorisation, the catching up with
  the clock, the memory of processed actions and every branch of the two handlers.
\<close>

section \<open>Actions and verdicts\<close>

record brain_toggles_patch =
  patch_sayItAloud :: "bool option"
  patch_eliminateOddOne :: "bool option"
  patch_revealAuthors :: "bool option"

datatype brain_host_action =
  BhConfigure "int option" "brain_toggles_patch option" "brain_timings_patch option"
| BhStart "js_string list"
| BhAdmission bool
| BhSkipQuestion
| BhExtend
| BhAdvance
| BhPause
| BhResume
| BhMerge int int int
| BhReset int
| BhRemove js_string
| BhPass js_string
| BhReplay
| BhLobby
| BhEnd

datatype brain_player_action =
  BpLeave
| BpRename js_string
| BpReadiness bool
| BpSubmit int js_string
| BpClear int
| BpClaim

datatype brain_rejection =
  BrRoomUnavailable | BrPhaseEnded | BrInvalidAnswer | BrActionUnavailable | BrOutOfGame | BrNotEnoughPlayers
| BrPlayersNotReady

text \<open>\<^verbatim>\<open>BvFail\<close>: refused without a snapshot; \<^verbatim>\<open>BvReject\<close>: refused with one.\<close>

datatype brain_verdict = BvAccept | BvReject brain_rejection js_string | BvFail

record brain_host_input =
  hi_hostToken :: "js_string option"
  hi_playerId :: "js_string option"
  hi_playerToken :: "js_string option"
  hi_actionId :: js_string
  hi_action :: brain_host_action
  hi_now :: int
  hi_newId :: js_string

record brain_player_input =
  pi_playerId :: js_string
  pi_playerToken :: js_string
  pi_actionId :: js_string
  pi_action :: brain_player_action
  pi_now :: int
  pi_newId :: js_string

type_synonym brain_step = "brain_room \<times> brain_verdict"

definition br_refuse :: "brain_rejection \<Rightarrow> js_string \<Rightarrow> brain_room \<Rightarrow> brain_step" where
  "br_refuse code message r = (r, BvReject code message)"

definition br_unavailable :: "js_string \<Rightarrow> brain_room \<Rightarrow> brain_step" where
  "br_unavailable message r = br_refuse BrActionUnavailable message r"

definition br_done :: "js_string \<Rightarrow> brain_room \<Rightarrow> brain_step" where
  "br_done actionId r =
     (r\<lparr>sb_processedActions := rememberMultiplayerAction (sb_processedActions r) actionId\<rparr>, BvAccept)"

section \<open>Presence\<close>

definition touch_player :: "int \<Rightarrow> bool \<Rightarrow> brain_player \<Rightarrow> brain_player" where
  "touch_player now force p = p\<lparr>bp_lastSeenAt := fst (touchMultiplayerPresence (bp_lastSeenAt p) now force)\<rparr>"

definition brain_touch :: "js_string option \<Rightarrow> int \<Rightarrow> bool \<Rightarrow> brain_room \<Rightarrow> brain_room" where
  "brain_touch playerId now force r =
     (let known = (case playerId of None \<Rightarrow> None | Some i \<Rightarrow> brain_by_id i r);
          r1 = (case known of None \<Rightarrow> r | Some p \<Rightarrow> upd_brain (pid p) (touch_player now force) r);
          r2 = (if force \<or> known = None \<or> MULTIPLAYER_PRESENCE_TOUCH_INTERVAL_MS \<le> now - sb_lastActiveAt r1
                then r1\<lparr>sb_lastActiveAt := now\<rparr> else r1)
      in r2\<lparr>sb_hostDisconnectedSince :=
              (case brain_host r2 of
                 None \<Rightarrow> None
               | Some h \<Rightarrow> if brain_connected now h then None
                           else Some (nullish (sb_hostDisconnectedSince r2) now))\<rparr>)"

section \<open>Before the game\<close>

definition br_admission :: "bool \<Rightarrow> js_string \<Rightarrow> brain_room \<Rightarrow> brain_step" where
  "br_admission locked a r =
     (if sb_phase r \<noteq> BrLobby then br_unavailable ''The room only locks in the lobby'' r
      else br_done a (if sb_joinLocked r \<noteq> Some locked then brain_changed (r\<lparr>sb_joinLocked := Some locked\<rparr>) else r))"

definition clampRounds :: "int \<Rightarrow> int" where
  "clampRounds v = max SAME_BRAIN_MIN_ROUNDS (min SAME_BRAIN_MAX_ROUNDS v)"

definition merge_toggles :: "brain_toggles \<Rightarrow> brain_toggles_patch \<Rightarrow> brain_toggles" where
  "merge_toggles t p =
     \<lparr>sayItAloud = nullish (patch_sayItAloud p) (sayItAloud t),
      eliminateOddOne = nullish (patch_eliminateOddOne p) (eliminateOddOne t),
      revealAuthors = nullish (patch_revealAuthors p) (revealAuthors t)\<rparr>"

definition br_configure ::
  "int option \<Rightarrow> brain_toggles_patch option \<Rightarrow> brain_timings_patch option \<Rightarrow> js_string \<Rightarrow> brain_room \<Rightarrow> brain_step" where
  "br_configure rounds_opt toggles_opt timings_opt a r =
     (if sb_managed r then br_unavailable ''The game-night settings are fixed'' r
      else if sb_phase r \<noteq> BrLobby then br_unavailable ''House rules are set before the game starts'' r
      else br_done a (brain_changed
        (r\<lparr>sb_rounds := (case rounds_opt of None \<Rightarrow> sb_rounds r | Some n \<Rightarrow> clampRounds n),
           sb_toggles := (case toggles_opt of None \<Rightarrow> sb_toggles r | Some p \<Rightarrow> merge_toggles (sb_toggles r) p),
           sb_timings := (case timings_opt of None \<Rightarrow> sb_timings r | Some p \<Rightarrow> sameBrainTimings (sb_timings r) p)\<rparr>)))"

definition fresh_scores :: "brain_player \<Rightarrow> brain_player" where
  "fresh_scores p = p\<lparr>bp_score := 0, bp_out := False, bp_aloneCount := 0, bp_answer := None\<rparr>"

definition unconfirmed_players :: "js_string list \<Rightarrow> brain_room \<Rightarrow> brain_player list" where
  "unconfirmed_players removed r =
     filter (\<lambda>p. Some (pid p) = sb_hostPlayerId r \<or> pid p \<notin> set removed \<or> \<not> truthy (startRequestId p))
       (multiplayerUnreadyPlayers (sb_players r))"

definition ask_unconfirmed :: "js_string \<Rightarrow> int \<Rightarrow> js_string list \<Rightarrow> brain_room \<Rightarrow> brain_room" where
  "ask_unconfirmed a now ids r =
     (case requestMultiplayerReadiness (\<lambda>p. pid p \<in> set ids) a now (sb_players r) of
        (ps, nudged) \<Rightarrow> (if nudged then brain_changed (r\<lparr>sb_players := ps\<rparr>) else r))"

definition br_start :: "js_string list \<Rightarrow> js_string \<Rightarrow> int \<Rightarrow> brain_room \<Rightarrow> brain_step" where
  "br_start removed a now r =
     (if sb_phase r \<noteq> BrLobby then br_unavailable ''Already playing'' r
      else if length (sb_players r) < SAME_BRAIN_MIN_PLAYERS
      then br_refuse BrNotEnoughPlayers ''3 people is the smallest game'' r
      else
      let unconfirmed = unconfirmed_players removed r in
      if unconfirmed \<noteq> []
      then br_refuse BrPlayersNotReady
             (join_with '', '' (map bp_name unconfirmed) @
              (if length unconfirmed = 1 then '' is not ready'' else '' are not ready''))
             (ask_unconfirmed a now (map pid unconfirmed) r)
      else
      let remaining = filter (\<lambda>p. multiplayerPlayerReady p \<or> pid p \<notin> set removed) (sb_players r) in
      if length remaining < SAME_BRAIN_MIN_PLAYERS
      then br_refuse BrNotEnoughPlayers ''3 ready people are needed to start'' r
      else
      let r1 = (if length remaining \<noteq> length (sb_players r) then brain_changed (r\<lparr>sb_players := remaining\<rparr>) else r)
      in br_done a (brain_startRound pick now
           (r1\<lparr>sb_round := 0, sb_history := [], sb_winnerIds := [], sb_players := map fresh_scores (sb_players r1)\<rparr>)))"

section \<open>The clock in the host's hands\<close>

definition br_skip :: "js_string \<Rightarrow> int \<Rightarrow> brain_room \<Rightarrow> brain_step" where
  "br_skip a now r =
     (if sb_phase r \<noteq> BrPrompt \<and> sb_phase r \<noteq> BrSubmit then br_unavailable ''There is no question to change'' r
      else br_done a (brain_startRound pick now (r\<lparr>sb_round := sb_round r - 1\<rparr>)))"

definition br_extend :: "js_string \<Rightarrow> brain_room \<Rightarrow> brain_step" where
  "br_extend a r =
     (if sb_phaseEndsAt r = 0 then br_unavailable ''Nothing is running down'' r
      else br_done a (brain_changed (r\<lparr>sb_phaseEndsAt := sb_phaseEndsAt r + 20000\<rparr>)))"

definition br_pause :: "js_string \<Rightarrow> int \<Rightarrow> brain_room \<Rightarrow> brain_step" where
  "br_pause a now r =
     (if sb_pausedAt r \<noteq> None then br_unavailable ''Already paused'' r
      else if sb_phase r = BrLobby \<or> sb_phase r = BrEnding then br_unavailable ''Nothing to pause'' r
      else if sb_phase r = BrSayIt then br_unavailable ''Let them say it first'' r
      else br_done a (brain_changed (r\<lparr>sb_pausedAt := Some now\<rparr>)))"

definition br_resume :: "js_string \<Rightarrow> int \<Rightarrow> brain_room \<Rightarrow> brain_step" where
  "br_resume a now r =
     (case sb_pausedAt r of
        None \<Rightarrow> br_unavailable ''Not paused'' r
      | Some t \<Rightarrow>
          br_done a (brain_changed
            (r\<lparr>sb_phaseEndsAt := (if sb_phaseEndsAt r \<noteq> 0 then sb_phaseEndsAt r + max 0 (now - t) else 0),
               sb_pausedAt := None\<rparr>)))"

text \<open>After the reveal the question is drawn with \<^verbatim>\<open>randomInt\<close>, not with the context's source.\<close>

definition br_advance :: "js_string \<Rightarrow> int \<Rightarrow> brain_room \<Rightarrow> brain_step" where
  "br_advance a now r =
     (case sb_phase r of
        BrSubmit \<Rightarrow> br_done a (closeSubmit now r)
      | BrPrompt \<Rightarrow> br_done a (brain_enterPhase BrSubmit now r)
      | BrSayIt \<Rightarrow> br_done a (brain_enterPhase BrReveal now r)
      | BrReveal \<Rightarrow> br_done a (afterReveal random_int now r)
      | _ \<Rightarrow> br_unavailable ''Nothing to skip'' r)"

section \<open>Correcting a result\<close>

text \<open>\<^verbatim>\<open>room.history[room.history.length - 1] = d\<close>; with no history the index is -1 and no element changes.\<close>

definition set_last :: "'a \<Rightarrow> 'a list \<Rightarrow> 'a list" where
  "set_last d xs = xs[length xs - 1 := d]"

definition replace_result :: "brain_result \<Rightarrow> brain_result \<Rightarrow> brain_room \<Rightarrow> brain_room" where
  "replace_result old d r =
     (let r1 = awardResult old (-1) r;
          r2 = awardResult d 1 (r1\<lparr>sb_result := Some d\<rparr>)
      in brain_changed (r2\<lparr>sb_history := set_last d (sb_history r2)\<rparr>))"

text \<open>
  \<^verbatim>\<open>room.result === room.resultBaseline\<close> compares references. In the in-memory store the two are one
  object until a merge makes a new one, which is marked \<^verbatim>\<open>corrected\<close>; a room read back from Redis or
  Postgres has two objects. \<^verbatim>\<open>shared\<close> tells the stores apart.
\<close>

definition br_reset :: "bool \<Rightarrow> int \<Rightarrow> js_string \<Rightarrow> brain_room \<Rightarrow> brain_step" where
  "br_reset shared round_no a r =
     (case sb_result r of
        None \<Rightarrow> br_unavailable ''There is no result to change'' r
      | Some old \<Rightarrow>
          (if sb_phase r \<noteq> BrReveal then br_unavailable ''There is no result to change'' r
           else if round_no \<noteq> sb_round r then br_refuse BrPhaseEnded ''That round has closed'' r
           else case sb_resultBaseline r of
             None \<Rightarrow> br_unavailable ''Nothing has been changed'' r
           | Some baseline \<Rightarrow>
               (if shared \<and> old = baseline then br_unavailable ''Nothing has been changed'' r
                else br_done a (replace_result old baseline r))))"

definition valid_index :: "int \<Rightarrow> 'a list \<Rightarrow> bool" where
  "valid_index i xs \<longleftrightarrow> 0 \<le> i \<and> i < int (length xs)"

definition absorb :: "brain_cluster \<Rightarrow> brain_cluster \<Rightarrow> brain_cluster" where
  "absorb g other =
     g\<lparr>cl_playerIds := cl_playerIds g @ cl_playerIds other, cl_spellings := cl_spellings g @ cl_spellings other\<rparr>"

definition drop_at :: "nat \<Rightarrow> 'a list \<Rightarrow> 'a list" where
  "drop_at i xs = take i xs @ drop (Suc i) xs"

definition merge_clusters :: "nat \<Rightarrow> nat \<Rightarrow> brain_cluster list \<Rightarrow> brain_cluster list" where
  "merge_clusters from_no to_no clusters =
     drop_at from_no (clusters[to_no := absorb (clusters ! to_no) (clusters ! from_no)])"

text \<open>The round scored again from the merged groups. The first award is taken back before the count of players.\<close>

definition merged_result :: "nat \<Rightarrow> nat \<Rightarrow> brain_result \<Rightarrow> brain_room \<Rightarrow> brain_result" where
  "merged_result from_no to_no d r =
     (let merged = merge_clusters from_no to_no (rd_clusters d);
          (herdIndex, pointsEach, split) = scoreClusters merged (length (still_in (awardResult d (-1) r)))
      in d\<lparr>rd_clusters := merged, rd_herdIndex := herdIndex, rd_pointsEach := pointsEach,
           rd_oddPlayerId := oddPlayerOf merged herdIndex, rd_split := split, rd_corrected := True\<rparr>)"

definition br_merge :: "int \<Rightarrow> int \<Rightarrow> int \<Rightarrow> js_string \<Rightarrow> brain_room \<Rightarrow> brain_step" where
  "br_merge round_no from_no to_no a r =
     (case sb_result r of
        None \<Rightarrow> br_unavailable ''There is no result to change'' r
      | Some old \<Rightarrow>
          (if sb_phase r \<noteq> BrReveal then br_unavailable ''There is no result to change'' r
           else if round_no \<noteq> sb_round r then br_refuse BrPhaseEnded ''That round has closed'' r
           else if from_no = to_no \<or> \<not> valid_index from_no (rd_clusters old) \<or> \<not> valid_index to_no (rd_clusters old)
           then br_unavailable ''Those are not two groups'' r
           else br_done a (replace_result old (merged_result (nat from_no) (nat to_no) old r) r)))"

section \<open>People\<close>

definition br_pass :: "js_string \<Rightarrow> js_string \<Rightarrow> brain_room \<Rightarrow> brain_step" where
  "br_pass target a r =
     (case find (\<lambda>p. pid p = target \<and> (bp_leftAt p = None \<or> bp_leftAt p = Some 0)) (sb_players r) of
        None \<Rightarrow> br_unavailable ''They are not here'' r
      | Some p \<Rightarrow> br_done a (brain_changed (r\<lparr>sb_hostPlayerId := Some (pid p)\<rparr>)))"

definition gone :: "js_string \<Rightarrow> int \<Rightarrow> brain_player \<Rightarrow> brain_player" where
  "gone hashed now p = p\<lparr>bp_out := True, bp_answer := None, bp_leftAt := Some now, bp_tokenHash := hashed\<rparr>"

definition without_player :: "js_string \<Rightarrow> brain_room \<Rightarrow> brain_room" where
  "without_player i r = r\<lparr>sb_players := filter (\<lambda>p. pid p \<noteq> i) (sb_players r)\<rparr>"

definition if_host_transfer :: "js_string \<Rightarrow> int \<Rightarrow> brain_room \<Rightarrow> brain_room" where
  "if_host_transfer i now r = (if sb_hostPlayerId r = Some i then brain_transferHost i now r else r)"

definition br_remove :: "js_string \<Rightarrow> js_string \<Rightarrow> js_string \<Rightarrow> int \<Rightarrow> brain_room \<Rightarrow> brain_step" where
  "br_remove target a newId now r =
     (case brain_by_id target r of
        None \<Rightarrow> br_unavailable ''They are not here'' r
      | Some p \<Rightarrow>
          br_done a (brain_changed (if_host_transfer target now
            (if sb_phase r = BrLobby then without_player target r
             else upd_brain target (gone (sha256_hex r (newId @ '':removed:'' @ pid p)) now) r))))"

definition cleared_table :: "brain_room \<Rightarrow> brain_room" where
  "cleared_table r =
     r\<lparr>sb_players := map (\<lambda>p. setMultiplayerPlayerReady True (fresh_scores p))
                       (filter (\<lambda>p. bp_leftAt p = None) (sb_players r)),
       sb_gameNumber := Suc (sb_gameNumber r), sb_round := 0, sb_result := None, sb_resultBaseline := None,
       sb_history := [], sb_winnerIds := [], sb_question := None\<rparr>"

definition br_again :: "bool \<Rightarrow> js_string \<Rightarrow> int \<Rightarrow> brain_room \<Rightarrow> brain_step" where
  "br_again replay a now r =
     br_done a (if replay then brain_startRound pick now (cleared_table r) else brain_enterPhase BrLobby now (cleared_table r))"

section \<open>The host's handler\<close>

definition brain_host_act :: "bool \<Rightarrow> brain_host_input \<Rightarrow> brain_room \<Rightarrow> brain_step" where
  "brain_host_act shared i r =
     (let a = hi_actionId i; now = hi_now i in
      case hi_action i of
        BhAdmission b \<Rightarrow> br_admission b a r
      | BhConfigure n t m \<Rightarrow> br_configure n t m a r
      | BhStart removed \<Rightarrow> br_start removed a now r
      | BhSkipQuestion \<Rightarrow> br_skip a now r
      | BhExtend \<Rightarrow> br_extend a r
      | BhPause \<Rightarrow> br_pause a now r
      | BhResume \<Rightarrow> br_resume a now r
      | BhAdvance \<Rightarrow> br_advance a now r
      | BhMerge n f t \<Rightarrow> br_merge n f t a r
      | BhReset n \<Rightarrow> br_reset shared n a r
      | BhPass t \<Rightarrow> br_pass t a r
      | BhRemove t \<Rightarrow> br_remove t a (hi_newId i) now r
      | BhReplay \<Rightarrow> br_again True a now r
      | BhLobby \<Rightarrow> br_again False a now r
      | BhEnd \<Rightarrow> br_done a (brain_finish now r))"

definition brain_is_host :: "brain_host_input \<Rightarrow> brain_room \<Rightarrow> bool" where
  "brain_is_host i r \<longleftrightarrow>
     (truthy (hi_hostToken i) \<and> multiplayerCredentialsMatch r (the (hi_hostToken i)) (sb_hostHash r)) \<or>
     (case Option.bind (hi_playerId i) (\<lambda>p. brain_by_id p r) of
        None \<Rightarrow> False
      | Some p \<Rightarrow> truthy (hi_playerToken i) \<and>
                  multiplayerCredentialsMatch r (the (hi_playerToken i)) (bp_tokenHash p) \<and>
                  sb_hostPlayerId r = Some (pid p))"

definition brain_host_reduce :: "bool \<Rightarrow> brain_host_input \<Rightarrow> brain_room \<Rightarrow> brain_step" where
  "brain_host_reduce shared i r =
     (if \<not> brain_is_host i r then (r, BvFail)
      else
      let r1 = brain_advance pick (hi_now i) (brain_touch (hi_playerId i) (hi_now i) True r) in
      if multiplayerActionSeen (sb_processedActions r1) (hi_actionId i) then (r1, BvAccept)
      else brain_host_act shared i r1)"

section \<open>The players' handler\<close>

definition br_leave :: "brain_player \<Rightarrow> js_string \<Rightarrow> js_string \<Rightarrow> int \<Rightarrow> brain_room \<Rightarrow> brain_step" where
  "br_leave p a newId now r =
     (let left = (if sb_phase r = BrLobby
                  then (let r1 = without_player (pid p) r
                        in if sb_players r1 = [] then r1\<lparr>sb_expiresAt := now\<rparr> else r1)
                  else (let r1 = upd_brain (pid p) (gone (sha256_hex r (newId @ '':left:'' @ pid p)) now) r
                        in if gameOver r1 then brain_finish now r1 else r1))
      in br_done a (brain_changed (if_host_transfer (pid p) now left)))"

definition br_rename :: "js_string \<Rightarrow> brain_player \<Rightarrow> js_string \<Rightarrow> brain_room \<Rightarrow> brain_step" where
  "br_rename name p a r =
     (if sb_phase r \<noteq> BrLobby then br_unavailable ''Names only change in the lobby'' r
      else if list_ex (\<lambda>q. pid q \<noteq> pid p \<and> to_lower (bp_name q) = to_lower name) (sb_players r)
      then br_unavailable ''That name is already here'' r
      else br_done a (brain_changed
             (upd_brain (pid p) (\<lambda>q. setMultiplayerPlayerReady False (q\<lparr>bp_name := name\<rparr>)) r)))"

definition br_readiness :: "bool \<Rightarrow> brain_player \<Rightarrow> js_string \<Rightarrow> brain_room \<Rightarrow> brain_step" where
  "br_readiness b p a r =
     (if sb_phase r \<noteq> BrLobby then br_unavailable ''Readiness only changes in the lobby'' r
      else br_done a (if multiplayerPlayerReady p \<noteq> b
                      then brain_changed (upd_brain (pid p) (setMultiplayerPlayerReady b) r) else r))"

definition br_claim :: "brain_player \<Rightarrow> js_string \<Rightarrow> int \<Rightarrow> brain_room \<Rightarrow> brain_step" where
  "br_claim p a now r =
     (case sb_hostDisconnectedSince r of
        None \<Rightarrow> br_unavailable ''The host is still here'' r
      | Some since \<Rightarrow>
          (if now - since < SAME_BRAIN_HOST_CLAIM_AFTER_MS then br_unavailable ''The host is still here'' r
           else br_done a (brain_changed (r\<lparr>sb_hostPlayerId := Some (pid p), sb_hostDisconnectedSince := None\<rparr>))))"

definition round_closed :: "int \<Rightarrow> brain_room \<Rightarrow> bool" where
  "round_closed round_no r \<longleftrightarrow>
     (sb_phase r \<noteq> BrSubmit \<and> sb_phase r \<noteq> BrPrompt) \<or> round_no \<noteq> sb_round r"

definition br_clear :: "int \<Rightarrow> brain_player \<Rightarrow> js_string \<Rightarrow> brain_room \<Rightarrow> brain_step" where
  "br_clear round_no p a r =
     (if bp_out p then br_refuse BrOutOfGame ''You are out of this game'' r
      else if round_closed round_no r then br_refuse BrPhaseEnded ''That round has closed'' r
      else br_done a (brain_changed (upd_brain (pid p) (\<lambda>q. q\<lparr>bp_answer := None\<rparr>) r)))"

definition br_submit :: "int \<Rightarrow> js_string \<Rightarrow> brain_player \<Rightarrow> js_string \<Rightarrow> int \<Rightarrow> brain_room \<Rightarrow> brain_step" where
  "br_submit round_no answer p a now r =
     (if bp_out p then br_refuse BrOutOfGame ''You are out of this game'' r
      else if round_closed round_no r then br_refuse BrPhaseEnded ''That round has closed'' r
      else if \<not> answerIsUsable answer then br_refuse BrInvalidAnswer ''Type a word or two'' r
      else
      let r1 = brain_changed (upd_brain (pid p)
                 (\<lambda>q. q\<lparr>bp_answer := Some (js_trim (take SAME_BRAIN_MAX_ANSWER_LENGTH answer))\<rparr>) r)
      in br_done a (if sb_phase r1 = BrSubmit \<and> everyoneAnswered r1 then closeSubmit now r1 else r1))"

definition brain_player_act :: "brain_player_input \<Rightarrow> brain_player \<Rightarrow> brain_room \<Rightarrow> brain_step" where
  "brain_player_act i p r =
     (let a = pi_actionId i; now = pi_now i in
      case pi_action i of
        BpLeave \<Rightarrow> br_leave p a (pi_newId i) now r
      | BpRename name \<Rightarrow> br_rename name p a r
      | BpReadiness b \<Rightarrow> br_readiness b p a r
      | BpClaim \<Rightarrow> br_claim p a now r
      | BpSubmit n t \<Rightarrow> br_submit n t p a now r
      | BpClear n \<Rightarrow> br_clear n p a r)"

text \<open>
  The player of the handler is the object of the room's list, so what \<^verbatim>\<open>touch\<close> and \<^verbatim>\<open>advance\<close> write is
  visible through it.
\<close>

definition brain_player_reduce :: "brain_player_input \<Rightarrow> brain_room \<Rightarrow> brain_step" where
  "brain_player_reduce i r =
     (case brain_by_id (pi_playerId i) r of
        None \<Rightarrow> (r, BvFail)
      | Some p \<Rightarrow>
          (if \<not> multiplayerCredentialsMatch r (pi_playerToken i) (bp_tokenHash p) then (r, BvFail)
           else
           let r1 = brain_advance pick (pi_now i) (brain_touch (Some (pid p)) (pi_now i) True r) in
           if multiplayerActionSeen (sb_processedActions r1) (pi_actionId i) then (r1, BvAccept)
           else brain_player_act i (nullish (brain_by_id (pi_playerId i) r1) p) r1))"

end
