(* ===== verification/BrainRoom.thy ===== *)
theory BrainRoom
  imports BrainPlay RoomPostgres
begin

text \<open>
  Rooms of Same Brain in the durable store (\<^verbatim>\<open>same-brain-room-engine.server.ts\<close>): creating, joining with a
  receipt that survives a lost reply, the two transactions of a read and of an action (the clock first),
  the official result, and the socket's authorisation. \<^verbatim>\<open>digest\<close> is the hash of a view.
\<close>

section \<open>Outcomes\<close>

datatype brain_join_error =
  BjInviteExpired | BjGameStarted | BjRoomLocked | BjInvalidName js_string | BjNameTaken | BjRoomFull

record brain_join_success =
  bj_roomId :: js_string
  bj_playerId :: js_string
  bj_playerToken :: js_string
  bj_expiresAt :: int
  bj_snapshot :: brain_snapshot

datatype brain_read_result = BrReadUnavailable | BrReadUnchanged int | BrReadView brain_snapshot

text \<open>\<^verbatim>\<open>BoPumped\<close> is the outcome of the transaction that only runs the clock.\<close>

datatype brain_outcome =
  BoPumped
| BoJoin "brain_join_error + brain_join_success"
| BoRead brain_read_result
| BoAction brain_verdict "brain_snapshot option"

section \<open>A new room\<close>

record brain_create_input =
  bci_rounds :: "int option"
  bci_toggles :: "brain_toggles_patch option"
  bci_timings :: "brain_timings_patch option"
  bci_managed :: bool
  bci_officialResultChannelId :: "js_string option"

definition new_brain_room :: "services \<Rightarrow> js_string \<Rightarrow> js_string \<Rightarrow> js_string \<Rightarrow> brain_create_input \<Rightarrow> brain_room" where
  "new_brain_room w room_id hostToken joinToken input =
     services.extend w
       \<lparr>sb_roomId = room_id, sb_managed = bci_managed input,
        sb_officialResultChannelId = bci_officialResultChannelId input, sb_phase = BrLobby, sb_revision = 1,
        sb_sequence = 1, sb_hostHash = hashMultiplayerCredential w hostToken,
        sb_joinHash = hashMultiplayerCredential w joinToken, sb_expiresAt = multiplayerLobbyExpiresAt (wall_clock w) 1,
        sb_gameNumber = 1, sb_round = 0, sb_rounds = clampRounds (nullish (bci_rounds input) SAME_BRAIN_DEFAULT_ROUNDS),
        sb_toggles = (case bci_toggles input of None \<Rightarrow> SAME_BRAIN_DEFAULT_TOGGLES
                      | Some p \<Rightarrow> merge_toggles SAME_BRAIN_DEFAULT_TOGGLES p),
        sb_timings = sameBrainTimings SAME_BRAIN_DEFAULT_TIMINGS
                       (nullish (bci_timings input) \<lparr>patch_prompt = None, patch_submit = None, patch_sayIt = None, patch_reveal = None\<rparr>),
        sb_phaseStartedAt = wall_clock w, sb_phaseEndsAt = 0, sb_pausedAt = None, sb_lastActiveAt = wall_clock w,
        sb_players = [], sb_hostPlayerId = None, sb_joinLocked = None, sb_hostDisconnectedSince = None,
        sb_question = None, sb_recentQuestions = [], sb_result = None, sb_resultBaseline = None, sb_history = [],
        sb_processedActions = [], sb_joinReceiptIds = [], sb_joinReceipts = [], sb_winnerIds = []\<rparr>"

text \<open>The room and its two secrets, the host's first.\<close>

definition createSameBrainRoom ::
  "(js_string \<Rightarrow> bool) \<Rightarrow> services \<Rightarrow> brain_create_input \<Rightarrow> (brain_room \<times> js_string \<times> js_string) option" where
  "createSameBrainRoom roomExists w input =
     (let (hostToken, w1) = createMultiplayerCredential w;
          (joinToken, w2) = createMultiplayerCredential w1
      in case createAvailableMultiplayerRoomId roomExists w2 of
           (None, _) \<Rightarrow> None
         | (Some room_id, w3) \<Rightarrow> Some (new_brain_room w3 room_id hostToken joinToken input, hostToken, joinToken))"

section \<open>Joining\<close>

record brain_join_input =
  bji_joinToken :: "js_string option"
  bji_name :: js_string
  bji_joinId :: js_string
  bji_hostToken :: "js_string option"

definition brain_invite_refused :: "brain_join_input \<Rightarrow> brain_room \<Rightarrow> bool" where
  "brain_invite_refused i r \<longleftrightarrow>
     (case bji_joinToken i of
        None \<Rightarrow> sb_managed r
      | Some t \<Rightarrow> \<not> multiplayerCredentialsMatch r t (sb_joinHash r))"

text \<open>A receipt that has not run out and still opens its player's seat.\<close>

definition live_receipt :: "js_string \<Rightarrow> brain_room \<Rightarrow> brain_receipt option" where
  "live_receipt joinId r =
     (case find (\<lambda>(j, _). j = joinId) (sb_joinReceipts r) of
        None \<Rightarrow> None
      | Some (_, rc) \<Rightarrow>
          (case brain_by_id (jr_playerId rc) r of
             None \<Rightarrow> None
           | Some p \<Rightarrow>
               (if wall_clock r < jr_expiresAt rc \<and> multiplayerCredentialsMatch r (jr_playerToken rc) (bp_tokenHash p)
                then Some rc else None)))"

definition brain_admission_error :: "js_string \<Rightarrow> brain_room \<Rightarrow> brain_join_error option" where
  "brain_admission_error name r =
     (if sb_phase r \<noteq> BrLobby then Some BjGameStarted
      else if sb_joinLocked r = Some True then Some BjRoomLocked
      else if length name < 1 then Some (BjInvalidName ''Enter your name'')
      else if SAME_BRAIN_MAX_NAME_LENGTH < length name then Some (BjInvalidName ''Use 24 characters or fewer'')
      else if list_ex (\<lambda>p. to_lower (bp_name p) = to_lower name) (sb_players r) then Some BjNameTaken
      else if SAME_BRAIN_MAX_PLAYERS \<le> length (sb_players r) then Some BjRoomFull
      else None)"

definition new_brain_player :: "js_string \<Rightarrow> js_string \<Rightarrow> js_string \<Rightarrow> int \<Rightarrow> brain_player" where
  "new_brain_player i name hashed now =
     \<lparr>pid = i, ready = Some True, startRequestId = None, startRequestedAt = None, bp_name = name,
      bp_tokenHash = hashed, bp_joinedAt = now, bp_lastSeenAt = now, bp_score = 0, bp_out = False,
      bp_aloneCount = 0, bp_answer = None, bp_leftAt = None\<rparr>"

definition host_after_join :: "brain_join_input \<Rightarrow> js_string \<Rightarrow> brain_room \<Rightarrow> js_string option" where
  "host_after_join i playerId r =
     (if truthy (bji_hostToken i) \<and> multiplayerCredentialsMatch r (the (bji_hostToken i)) (sb_hostHash r)
      then Some playerId
      else case sb_hostPlayerId r of None \<Rightarrow> Some playerId | Some h \<Rightarrow> Some h)"

text \<open>The token is drawn first, then the id.\<close>

definition brain_seat :: "brain_join_input \<Rightarrow> js_string \<Rightarrow> brain_room \<Rightarrow> js_string \<times> js_string \<times> brain_room" where
  "brain_seat i name r =
     (let (playerToken, r1) = createMultiplayerCredential r;
          (playerId, r2) = createMultiplayerCredential r1;
          now = wall_clock r;
          p = new_brain_player playerId name (hashMultiplayerCredential r playerToken) now;
          r3 = r2\<lparr>sb_players := sb_players r2 @ [p], sb_hostPlayerId := host_after_join i playerId r2\<rparr>;
          receipt = \<lparr>jr_playerId = playerId, jr_playerToken = playerToken,
                     jr_expiresAt = min (sb_expiresAt r3) (now + BRAIN_JOIN_RECEIPT_TTL_SECONDS * 1000)\<rparr>;
          receipts = filter (\<lambda>(_, rc). now < jr_expiresAt rc) (sb_joinReceipts r3) @ [(bji_joinId i, receipt)]
      in (playerId, playerToken,
          brain_changed (r3\<lparr>sb_joinReceipts := receipts, sb_joinReceiptIds := map fst receipts\<rparr>)))"

definition brain_joined :: "js_string \<Rightarrow> js_string \<Rightarrow> brain_room \<Rightarrow> brain_join_success" where
  "brain_joined playerId playerToken r =
     \<lparr>bj_roomId = sb_roomId r, bj_playerId = playerId, bj_playerToken = playerToken, bj_expiresAt = sb_expiresAt r,
      bj_snapshot = brain_snapshot_of r (Some playerId) (wall_clock r)\<rparr>"

definition brain_join :: "brain_join_input \<Rightarrow> brain_room \<Rightarrow> brain_room \<times> (brain_join_error + brain_join_success)" where
  "brain_join i r =
     (if brain_invite_refused i r then (r, Inl BjInviteExpired)
      else
      case live_receipt (bji_joinId i) r of
        Some rc \<Rightarrow> (r, Inr (brain_joined (jr_playerId rc) (jr_playerToken rc) r))
      | None \<Rightarrow>
          (let name = collapse_spaces (js_trim (bji_name i)) in
           case brain_admission_error name r of
             Some e \<Rightarrow> (r, Inl e)
           | None \<Rightarrow> (case brain_seat i name r of
                       (playerId, playerToken, r') \<Rightarrow> (r', Inr (brain_joined playerId playerToken r')))))"

section \<open>Reading and acting\<close>

definition brain_authenticate :: "js_string \<Rightarrow> js_string option \<Rightarrow> brain_room \<Rightarrow> bool" where
  "brain_authenticate credential playerId r =
     (case Option.bind playerId (\<lambda>i. brain_by_id i r) of
        Some p \<Rightarrow> bp_leftAt p = None \<and> multiplayerCredentialsMatch r credential (bp_tokenHash p)
      | None \<Rightarrow> multiplayerCredentialsMatch r credential (sb_hostHash r))"

definition brain_read ::
  "(brain_snapshot \<Rightarrow> js_string) \<Rightarrow> js_string \<Rightarrow> js_string option \<Rightarrow> js_string option \<Rightarrow> brain_room \<Rightarrow>
   brain_room \<times> brain_read_result" where
  "brain_read digest credential playerId lastDigest r =
     (if \<not> brain_authenticate credential playerId r then (r, BrReadUnavailable)
      else
      let now = wall_clock r;
          r1 = brain_touch playerId now False r;
          view = brain_snapshot_of r1 playerId now
      in (r1, if truthy lastDigest \<and> the lastDigest = digest view then BrReadUnchanged now else BrReadView view))"

text \<open>\<^verbatim>\<open>pump\<close>: the clock runs in a transaction of its own before a read or an action.\<close>

definition brain_pump :: "brain_draw \<Rightarrow> int \<Rightarrow> brain_room \<Rightarrow> brain_room \<times> brain_outcome" where
  "brain_pump draw now r = (brain_advance draw now r, BoPumped)"

definition host_outcome :: "brain_host_input \<Rightarrow> brain_room \<Rightarrow> brain_room \<times> brain_outcome" where
  "host_outcome i r =
     (case brain_host_reduce False i r of
        (r', v) \<Rightarrow> (r', BoAction v (if v = BvFail then None else Some (brain_snapshot_of r' (hi_playerId i) (hi_now i)))))"

definition player_outcome :: "brain_player_input \<Rightarrow> brain_room \<Rightarrow> brain_room \<times> brain_outcome" where
  "player_outcome i r =
     (case brain_player_reduce i r of
        (r', v) \<Rightarrow> (r', BoAction v (if v = BvFail then None
                                     else Some (brain_snapshot_of r' (Some (pi_playerId i)) (pi_now i)))))"

definition brain_accepted :: "brain_outcome \<Rightarrow> bool" where
  "brain_accepted out = (case out of BoAction v _ \<Rightarrow> v = BvAccept | _ \<Rightarrow> False)"

section \<open>The official result\<close>

definition by_score :: "(js_string \<Rightarrow> js_string \<Rightarrow> int) \<Rightarrow> brain_player \<Rightarrow> brain_player \<Rightarrow> bool" where
  "by_score cmp a b \<longleftrightarrow>
     (if bp_score a \<noteq> bp_score b then bp_score b \<le> bp_score a else cmp (pid a) (pid b) \<le> 0)"

text \<open>Equal scores share the placement of the first of them.\<close>

fun placements :: "nat \<Rightarrow> (int \<times> nat) option \<Rightarrow> brain_player list \<Rightarrow> (brain_player \<times> nat) list" where
  "placements index prior [] = []"
| "placements index prior (p # ps) =
     (let placement = (case prior of Some (s, k) \<Rightarrow> if bp_score p = s then k else Suc index | None \<Rightarrow> Suc index)
      in (p, placement) # placements (Suc index) (Some (bp_score p, placement)) ps)"

definition brain_result_player :: "brain_room \<Rightarrow> brain_player \<times> nat \<Rightarrow> official_player" where
  "brain_result_player r = (\<lambda>(p, placement).
     \<lparr>op_playerId = pid p, op_outcome = (if bp_leftAt p = None then Completed else Withdrawn),
      op_rawScore = Some (bp_score p), op_placement = Some placement, op_durationMs = None,
      op_won = Some (pid p \<in> set (sb_winnerIds r))\<rparr>)"

definition sameBrainOfficialResult :: "(official_payload \<Rightarrow> js_string) \<Rightarrow> brain_room \<Rightarrow> official_envelope option" where
  "sameBrainOfficialResult json r =
     (if \<not> truthy (sb_officialResultChannelId r) \<or> sb_phase r \<noteq> BrEnding then None
      else Some (sealOfficialGameResult r json (the (sb_officialResultChannelId r)) 1
        \<lparr>od_gameKind = ''same-brain'', od_gameInstanceId = sb_roomId r,
         od_resultId = ''game:'' @ nat_str (sb_gameNumber r), od_scope = ''game'',
         od_players = map (brain_result_player r)
           (placements 0 None (sort_by (by_score (locale_compare r)) (sb_players r)))\<rparr>))"

section \<open>The durable store\<close>

type_synonym brain_db = "(brain_room, brain_outcome) pg_db"

definition brain_key :: "js_string \<Rightarrow> room_key" where
  "brain_key i = (''same-brain'', i)"

definition brain_same_state :: "brain_room \<Rightarrow> brain_room \<Rightarrow> bool" where
  "brain_same_state a b \<longleftrightarrow> services.more a = services.more b"

definition brain_ending_results ::
  "(official_payload \<Rightarrow> js_string) \<Rightarrow> brain_room \<Rightarrow> brain_room \<Rightarrow> official_envelope list" where
  "brain_ending_results json before after =
     (if sb_phase before \<noteq> BrEnding \<and> sb_phase after = BrEnding
      then (case sameBrainOfficialResult json after of None \<Rightarrow> [] | Some e \<Rightarrow> [e]) else [])"

definition with_durable_brain ::
  "(official_payload \<Rightarrow> js_string) \<Rightarrow> int \<Rightarrow> js_string \<Rightarrow> pg_action option \<Rightarrow>
   (brain_room \<Rightarrow> brain_room \<times> brain_outcome) \<Rightarrow> brain_db \<Rightarrow> brain_db \<times> (pg_error + brain_outcome option)" where
  "with_durable_brain json now i action use db =
     (case withPostgresGameRoom now (brain_key i) action (\<lambda>r. use (r\<lparr>wall_clock := now\<rparr>)) brain_same_state
             (\<lambda>r. brain_applyRoomExpiry (wall_clock r) r) sb_expiresAt (brain_ending_results json)
             brain_accepted db of
        (db', Inl RoomActionConflict) \<Rightarrow> (db', Inr None)
      | res \<Rightarrow> res)"

text \<open>An action is two transactions: the clock, then the command with its receipt.\<close>

definition brain_pumped :: "(official_payload \<Rightarrow> js_string) \<Rightarrow> brain_draw \<Rightarrow> int \<Rightarrow> int \<Rightarrow> js_string \<Rightarrow> brain_db \<Rightarrow> brain_db" where
  "brain_pumped json draw clk now i db = fst (with_durable_brain json clk i None (brain_pump draw now) db)"

definition applySameBrainHostAction ::
  "(official_payload \<Rightarrow> js_string) \<Rightarrow> int \<Rightarrow> js_string \<Rightarrow> js_string \<Rightarrow> brain_host_input \<Rightarrow> brain_db \<Rightarrow>
   brain_db \<times> (pg_error + brain_outcome option)" where
  "applySameBrainHostAction json clk i fingerprint input db =
     with_durable_brain json clk i (Some \<lparr>pa_id = hi_actionId input, pa_fingerprint = fingerprint\<rparr>) (host_outcome input)
       (brain_pumped json pick clk (hi_now input) i db)"

definition applySameBrainPlayerAction ::
  "(official_payload \<Rightarrow> js_string) \<Rightarrow> int \<Rightarrow> js_string \<Rightarrow> js_string \<Rightarrow> brain_player_input \<Rightarrow> brain_db \<Rightarrow>
   brain_db \<times> (pg_error + brain_outcome option)" where
  "applySameBrainPlayerAction json clk i fingerprint input db =
     with_durable_brain json clk i (Some \<lparr>pa_id = pi_actionId input, pa_fingerprint = fingerprint\<rparr>) (player_outcome input)
       (brain_pumped json pick clk (pi_now input) i db)"

definition joinSameBrainRoom ::
  "(official_payload \<Rightarrow> js_string) \<Rightarrow> int \<Rightarrow> js_string \<Rightarrow> brain_join_input \<Rightarrow> brain_db \<Rightarrow>
   brain_db \<times> (pg_error + brain_outcome option)" where
  "joinSameBrainRoom json clk i input db =
     with_durable_brain json clk i None (\<lambda>r. case brain_join input r of (r', x) \<Rightarrow> (r', BoJoin x)) db"

definition readSameBrainSnapshot ::
  "(official_payload \<Rightarrow> js_string) \<Rightarrow> (brain_snapshot \<Rightarrow> js_string) \<Rightarrow> int \<Rightarrow> js_string \<Rightarrow> js_string \<Rightarrow> js_string option \<Rightarrow>
   js_string option \<Rightarrow> brain_db \<Rightarrow> brain_db \<times> (pg_error + brain_outcome option)" where
  "readSameBrainSnapshot json digest clk i credential playerId lastDigest db =
     with_durable_brain json clk i None
       (\<lambda>r. case brain_read digest credential playerId lastDigest r of (r', x) \<Rightarrow> (r', BoRead x))
       (brain_pumped json random_int clk clk i db)"

definition authorizeSameBrainSocket :: "int \<Rightarrow> js_string \<Rightarrow> js_string \<Rightarrow> js_string option \<Rightarrow> brain_db \<Rightarrow> bool" where
  "authorizeSameBrainSocket now i credential playerId db =
     (case loadPostgresGameRoom now (brain_key i) db of
        None \<Rightarrow> False
      | Some r \<Rightarrow> brain_authenticate credential playerId r)"

definition closeSameBrainRoom :: "int \<Rightarrow> js_string \<Rightarrow> js_string \<Rightarrow> brain_db \<Rightarrow> brain_db \<times> bool" where
  "closeSameBrainRoom now i hostToken db =
     deletePostgresRoom now (brain_key i) (\<lambda>r. multiplayerCredentialsMatch r hostToken (sb_hostHash r)) db"

end
