(* ===== verification/BrainRulesFacts.thy ===== *)
theory BrainRulesFacts
  imports BrainRules
begin

text \<open>
  What the rules of Same Brain compute: the groups are the answers with one normal form, in the order the
  forms were first given; the herd is the one strictly largest group of at least two.
\<close>

section \<open>Grouping\<close>

definition first_seen :: "'a list \<Rightarrow> 'a list" where
  "first_seen xs = rev (remdups (rev xs))"

lemma first_seen_simps [simp]:
  "first_seen [] = []"
  "first_seen (xs @ [x]) = (if x \<in> set xs then first_seen xs else first_seen xs @ [x])"
  "set (first_seen xs) = set xs" "distinct (first_seen xs)"
  by (simp_all add: first_seen_def)

definition answers_like :: "brain_answer list \<Rightarrow> js_string \<Rightarrow> brain_cluster" where
  "answers_like answers k =
     \<lparr>cl_label = k, cl_spellings = [k],
      cl_playerIds = map ba_playerId (filter (\<lambda>a. ba_normalised a = k) answers)\<rparr>"

lemma add_to_cluster_new:
  "ba_normalised a \<notin> cl_label ` set gs \<Longrightarrow>
   add_to_cluster a gs =
     gs @ [\<lparr>cl_label = ba_normalised a, cl_spellings = [ba_normalised a], cl_playerIds = [ba_playerId a]\<rparr>]"
  by (induction gs) auto

lemma add_to_cluster_known:
  "distinct (map cl_label gs) \<Longrightarrow> ba_normalised a \<in> cl_label ` set gs \<Longrightarrow>
   add_to_cluster a gs =
     map (\<lambda>g. if cl_label g = ba_normalised a then g\<lparr>cl_playerIds := cl_playerIds g @ [ba_playerId a]\<rparr> else g) gs"
proof (induction gs)
  case (Cons g gs)
  show ?case
  proof (cases "cl_label g = ba_normalised a")
    case True
    then have "cl_label h \<noteq> ba_normalised a" if "h \<in> set gs" for h
      using Cons.prems(1) that by (metis distinct.simps(2) image_eqI list.set_map list.simps(9))
    with True show ?thesis by (simp add: map_idI)
  next
    case False
    with Cons show ?thesis by auto
  qed
qed simp

text \<open>C15
  The loop over a mutable map agrees with its specification: one group per normal form, in the order of
  first appearance, holding the players who gave it in the order they answered.
\<close>

theorem exact_grouping:
  "clusterByExactMatch answers = map (answers_like answers) (first_seen (map ba_normalised answers))"
proof (induction answers rule: rev_induct)
  case (snoc a answers)
  let ?ks = "first_seen (map ba_normalised answers)"
  have labels: "cl_label ` set (map (answers_like answers) ?ks) = ba_normalised ` set answers"
    "distinct (map cl_label (map (answers_like answers) ?ks))"
    by (simp_all add: answers_like_def image_image comp_def)
  have step: "clusterByExactMatch (answers @ [a]) = add_to_cluster a (map (answers_like answers) ?ks)"
    using snoc by (simp add: clusterByExactMatch_def)
  show ?case
  proof (cases "ba_normalised a \<in> ba_normalised ` set answers")
    case True
    then have "ba_normalised a \<in> cl_label ` set (map (answers_like answers) ?ks)" by (simp only: labels(1))
    from add_to_cluster_known [OF labels(2) this] True show ?thesis
      unfolding step by (auto simp: answers_like_def)
  next
    case False
    then have "ba_normalised a \<notin> cl_label ` set (map (answers_like answers) ?ks)" unfolding labels(1) .
    note new = add_to_cluster_new [OF this]
    have none: "filter (\<lambda>b. ba_normalised b = ba_normalised a) answers = []"
      using False by (intro filter_False) (metis imageI)
    have same: "map (answers_like answers) ?ks = map (answers_like (answers @ [a])) ?ks"
      using False by (intro map_cong) (auto simp: answers_like_def)
    have "answers_like (answers @ [a]) (ba_normalised a) =
        \<lparr>cl_label = ba_normalised a, cl_spellings = [ba_normalised a], cl_playerIds = [ba_playerId a]\<rparr>"
      by (simp add: answers_like_def none)
    with False show ?thesis unfolding step new unfolding same by simp
  qed
qed (simp add: clusterByExactMatch_def)

text \<open>Every answer is in exactly one group: the groups together hold the players, as often as they answered.\<close>

lemma grouping_keeps_players:
  "mset (concat (map cl_playerIds (clusterByExactMatch answers))) = mset (map ba_playerId answers)"
proof -
  have step: "mset (concat (map cl_playerIds (add_to_cluster a gs))) =
      add_mset (ba_playerId a) (mset (concat (map cl_playerIds gs)))" for a gs
    by (induction gs) auto
  show ?thesis
    by (induction answers rule: rev_induct) (simp_all add: clusterByExactMatch_def step)
qed

section \<open>The herd\<close>

definition strictly_largest :: "brain_cluster list \<Rightarrow> nat \<Rightarrow> bool" where
  "strictly_largest gs i \<longleftrightarrow>
     i < length gs \<and> (\<forall>j<length gs. j \<noteq> i \<longrightarrow> cluster_size (gs ! j) < cluster_size (gs ! i))"

definition by_size :: "brain_cluster list \<Rightarrow> (nat \<times> brain_cluster) list" where
  "by_size gs = sort_by (\<lambda>a b. cluster_size (snd b) \<le> cluster_size (snd a)) (enumerate 0 gs)"

lemma by_size_mset: "mset (by_size gs) = mset (enumerate 0 gs)"
  by (simp add: by_size_def)

lemma by_size_head:
  assumes "by_size gs = g # rest" and "x \<in> set (by_size gs)"
  shows "cluster_size (snd x) \<le> cluster_size (snd g)"
proof -
  have "by_size gs = sort_by (\<lambda>a b. - int (cluster_size (snd a)) \<le> - int (cluster_size (snd b))) (enumerate 0 gs)"
    by (simp add: by_size_def)
  then have "sorted (map (\<lambda>x. - int (cluster_size (snd x))) (by_size gs))"
    using sort_by_key_sorted [of "\<lambda>x. - int (cluster_size (snd x))" "enumerate 0 gs"] by simp
  with assms show ?thesis by auto
qed

lemma in_by_size: "x \<in> set (by_size gs) \<longleftrightarrow> fst x < length gs \<and> snd x = gs ! fst x"
  by (cases x) (auto simp: by_size_def in_set_enumerate_eq)

lemma distinct_by_size: "distinct (map fst (by_size gs))"
proof -
  have "mset (map fst (by_size gs)) = mset [0..<length gs]"
    by (metis by_size_mset mset_map map_fst_enumerate plus_nat.add_0)
  then show ?thesis by (metis distinct_upt mset_eq_imp_distinct_iff)
qed

text \<open>Nobody ties with the head of the sorted groups exactly when it is strictly largest.\<close>

lemma alone_at_the_top:
  assumes s: "by_size gs = g # rest"
  shows "length (filter (\<lambda>x. cluster_size (snd x) = cluster_size (snd g)) (by_size gs)) \<le> 1
    \<longleftrightarrow> strictly_largest gs (fst g)"
proof -
  have g: "fst g < length gs" "snd g = gs ! fst g"
    using in_by_size [of g gs] s by auto
  have top: "cluster_size (gs ! j) \<le> cluster_size (snd g)" if "j < length gs" for j
    using by_size_head [OF s, of "(j, gs ! j)"] that by (simp add: in_by_size)
  have rest: "x \<in> set rest \<longleftrightarrow> fst x < length gs \<and> snd x = gs ! fst x \<and> fst x \<noteq> fst g" for x
  proof -
    have "x \<in> set (by_size gs) \<longleftrightarrow> x = g \<or> x \<in> set rest" by (simp add: s)
    moreover have "fst x \<noteq> fst g" if "x \<in> set rest" using distinct_by_size [of gs] imageI [OF that, of fst] by (simp add: s) (metis imageI)
    moreover have "x = g" if "fst x = fst g" "snd x = gs ! fst x" using that g by (simp add: prod_eq_iff)
    ultimately show ?thesis using in_by_size [of x gs] by blast
  qed
  have "length (filter (\<lambda>x. cluster_size (snd x) = cluster_size (snd g)) (by_size gs)) \<le> 1 \<longleftrightarrow>
      (\<forall>x\<in>set rest. cluster_size (snd x) \<noteq> cluster_size (snd g))"
    by (simp add: s filter_empty_conv)
  also have "\<dots> \<longleftrightarrow> (\<forall>j<length gs. j \<noteq> fst g \<longrightarrow> cluster_size (gs ! j) \<noteq> cluster_size (snd g))"
    using rest by (metis fst_conv snd_conv)
  also have "\<dots> \<longleftrightarrow> strictly_largest gs (fst g)"
    using top g by (auto simp: strictly_largest_def less_le)
  finally show ?thesis .
qed

lemma strictly_largest_unique: "strictly_largest gs i \<Longrightarrow> strictly_largest gs j \<Longrightarrow> i = j"
  by (auto simp: strictly_largest_def) (metis less_asym)

text \<open>C21
  The herd is the group that is strictly larger than every other and holds at least two people; it is
  worth one point when everybody still in the game is in it and two otherwise. There is a herd exactly
  when the room is not reported as split, and a split room scores nothing.
\<close>

theorem herd_is_the_strict_majority:
  "(fst (scoreClusters gs n) = Some i \<longleftrightarrow> strictly_largest gs i \<and> 2 \<le> cluster_size (gs ! i)) \<and>
   fst (snd (scoreClusters gs n)) =
     (case fst (scoreClusters gs n) of None \<Rightarrow> 0 | Some k \<Rightarrow> if cluster_size (gs ! k) = n then 1 else 2) \<and>
   snd (snd (scoreClusters gs n)) = (fst (scoreClusters gs n) = None)"
proof (cases "by_size gs")
  case Nil
  then have "gs = []" using by_size_mset [of gs] by (cases gs) auto
  then show ?thesis by (simp add: scoreClusters_def sort_by_def strictly_largest_def)
next
  case (Cons g rest)
  have g: "fst g < length gs" "snd g = gs ! fst g"
    using in_by_size [of g gs] Cons by auto
  have all: "scoreClusters gs n =
      (if cluster_size (gs ! fst g) < 2 \<or> \<not> strictly_largest gs (fst g) then (None, 0, True)
       else (Some (fst g), if cluster_size (gs ! fst g) = n then 1 else 2, False))"
    using alone_at_the_top [OF Cons] g
    by (auto simp: scoreClusters_def by_size_def [symmetric] Cons Let_def brain_limits not_less)
  have big: "cluster_size (gs ! i) \<le> cluster_size (gs ! fst g)" if "strictly_largest gs i"
    using by_size_head [OF Cons, of "(i, gs ! i)"] that g by (simp add: in_by_size strictly_largest_def)
  have "i = fst g" if "strictly_largest gs i"
    using big [OF that] that g by (auto simp: strictly_largest_def)
  then show ?thesis using all by (auto split: if_splits)
qed

end
