(* ===== verification/BrainLedger.thy ===== *)
theory BrainLedger
  imports BrainRoom BrainRulesFacts
begin

text \<open>
  The books of Same Brain: the score of every player is what the rounds of the history awarded, through
  corrections, removals and new games; and the room's clock: which phases run down, how far the rounds go.
\<close>

section \<open>The ledger\<close>

definition points_in :: "brain_result \<Rightarrow> js_string \<Rightarrow> int" where
  "points_in d i = int (count_list (herd_of d) i) * rd_pointsEach d"

definition ledger :: "brain_result list \<Rightarrow> js_string \<Rightarrow> int" where
  "ledger ds i = sum_list (map (\<lambda>d. points_in d i) ds)"

lemma ledger_simps [simp]:
  "ledger [] i = 0" "ledger (ds @ [d]) i = ledger ds i + points_in d i"
  by (simp_all add: ledger_def)

definition scores :: "brain_room \<Rightarrow> (js_string \<times> int) list" where
  "scores r = map (\<lambda>p. (pid p, bp_score p)) (sb_players r)"

text \<open>
  \<^verbatim>\<open>books_ok\<close>: ids are distinct, scores are the ledger's, the result on display is the last round of the
  history, and a lobby has no history.
\<close>

definition books_ok :: "brain_room \<Rightarrow> bool" where
  "books_ok r \<longleftrightarrow> distinct (map fst (scores r)) \<and> (\<forall>(i, s)\<in>set (scores r). s = ledger (sb_history r) i) \<and>
     (\<forall>d. sb_result r = Some d \<longrightarrow> sb_history r \<noteq> [] \<and> last (sb_history r) = d) \<and>
     (sb_phase r = BrLobby \<longrightarrow> sb_history r = [] \<and> sb_result r = None)"

lemma books_cong:
  "books_ok r \<Longrightarrow> scores r' = scores r \<Longrightarrow> sb_history r' = sb_history r \<Longrightarrow> sb_result r' = sb_result r \<Longrightarrow>
   (sb_phase r' = BrLobby \<Longrightarrow> sb_phase r = BrLobby) \<Longrightarrow> books_ok r'"
  by (simp add: books_ok_def)

text \<open>Fewer players, same history: still right.\<close>

lemma books_subset:
  "books_ok r \<Longrightarrow> set (scores r') \<subseteq> set (scores r) \<Longrightarrow> distinct (map fst (scores r')) \<Longrightarrow>
   sb_history r' = sb_history r \<Longrightarrow> sb_result r' = sb_result r \<Longrightarrow>
   (sb_phase r' = BrLobby \<Longrightarrow> sb_phase r = BrLobby) \<Longrightarrow> books_ok r'"
  by (auto simp: books_ok_def)

text \<open>A table with no history and everybody at zero.\<close>

lemma books_clear:
  "distinct (map fst (scores r)) \<Longrightarrow> (\<forall>(i, s)\<in>set (scores r). s = 0) \<Longrightarrow> sb_history r = [] \<Longrightarrow> sb_result r = None \<Longrightarrow> books_ok r"
  by (simp add: books_ok_def)

section \<open>What an operation leaves alone\<close>

lemma brain_changed_frame [frame, simp]:
  "sb_players (brain_changed r) = sb_players r" "sb_history (brain_changed r) = sb_history r"
  "sb_result (brain_changed r) = sb_result r" "sb_phase (brain_changed r) = sb_phase r"
  "sb_round (brain_changed r) = sb_round r" "sb_rounds (brain_changed r) = sb_rounds r"
  "sb_timings (brain_changed r) = sb_timings r" "sb_phaseEndsAt (brain_changed r) = sb_phaseEndsAt r"
  "sb_toggles (brain_changed r) = sb_toggles r" "sb_pausedAt (brain_changed r) = sb_pausedAt r"
  "sb_winnerIds (brain_changed r) = sb_winnerIds r" "sb_resultBaseline (brain_changed r) = sb_resultBaseline r"
  "sb_hostPlayerId (brain_changed r) = sb_hostPlayerId r" "scores (brain_changed r) = scores r" "sb_processedActions (brain_changed r) = sb_processedActions r"
  by (simp_all add: brain_changed_def brain_applyRoomExpiry_def scores_def)

lemma enterPhase_frame [frame, simp]:
  "sb_players (brain_enterPhase ph now r) = sb_players r" "sb_history (brain_enterPhase ph now r) = sb_history r"
  "sb_result (brain_enterPhase ph now r) = sb_result r" "sb_phase (brain_enterPhase ph now r) = ph"
  "sb_round (brain_enterPhase ph now r) = sb_round r" "sb_rounds (brain_enterPhase ph now r) = sb_rounds r"
  "sb_timings (brain_enterPhase ph now r) = sb_timings r" "sb_toggles (brain_enterPhase ph now r) = sb_toggles r"
  "sb_phaseEndsAt (brain_enterPhase ph now r) = (if 0 < brain_phaseDuration r ph then now + brain_phaseDuration r ph else 0)"
  "sb_pausedAt (brain_enterPhase ph now r) = sb_pausedAt r" "sb_winnerIds (brain_enterPhase ph now r) = sb_winnerIds r"
  "sb_resultBaseline (brain_enterPhase ph now r) = sb_resultBaseline r" "scores (brain_enterPhase ph now r) = scores r"
  "sb_processedActions (brain_enterPhase ph now r) = sb_processedActions r"
  "sb_hostPlayerId (brain_enterPhase ph now r) = sb_hostPlayerId r"
  by (simp_all add: brain_enterPhase_def Let_def scores_def)

lemma scores_fields [simp]:
  "scores (r\<lparr>sb_phase := a\<rparr>) = scores r" "scores (r\<lparr>sb_history := b\<rparr>) = scores r" "scores (r\<lparr>sb_result := c\<rparr>) = scores r"
  "scores (r\<lparr>sb_resultBaseline := d\<rparr>) = scores r" "scores (r\<lparr>sb_round := e\<rparr>) = scores r"
  "scores (r\<lparr>sb_winnerIds := f\<rparr>) = scores r" "scores (r\<lparr>sb_phaseEndsAt := g\<rparr>) = scores r"
  "scores (r\<lparr>sb_processedActions := h\<rparr>) = scores r" "scores (r\<lparr>sb_pausedAt := i\<rparr>) = scores r"
  "scores (r\<lparr>sb_hostPlayerId := j\<rparr>) = scores r" "scores (r\<lparr>sb_expiresAt := k\<rparr>) = scores r"
  "scores (r\<lparr>sb_joinLocked := l\<rparr>) = scores r" "scores (r\<lparr>sb_question := m\<rparr>) = scores r"
  "scores (r\<lparr>sb_hostDisconnectedSince := n\<rparr>) = scores r" "scores (r\<lparr>sb_lastActiveAt := q\<rparr>) = scores r"
  "scores (r\<lparr>wall_clock := t\<rparr>) = scores r" "scores (r\<lparr>sb_rounds := u\<rparr>) = scores r"
  "scores (r\<lparr>sb_toggles := v\<rparr>) = scores r" "scores (r\<lparr>sb_timings := w\<rparr>) = scores r"
  "scores (r\<lparr>sb_recentQuestions := x\<rparr>) = scores r"
  by (simp_all add: scores_def)

definition keeps_score :: "(brain_player \<Rightarrow> brain_player) \<Rightarrow> bool" where
  "keeps_score f \<longleftrightarrow> (\<forall>p. pid (f p) = pid p \<and> bp_score (f p) = bp_score p)"

lemma scores_upd [simp]: "keeps_score f \<Longrightarrow> scores (upd_brain i f r) = scores r"
  by (simp add: scores_def upd_brain_def keeps_score_def map_upd_first)

lemma upd_brain_frame [frame, simp]:
  "sb_history (upd_brain i f r) = sb_history r" "sb_result (upd_brain i f r) = sb_result r"
  "sb_phase (upd_brain i f r) = sb_phase r" "sb_round (upd_brain i f r) = sb_round r"
  "sb_rounds (upd_brain i f r) = sb_rounds r" "sb_timings (upd_brain i f r) = sb_timings r"
  "sb_phaseEndsAt (upd_brain i f r) = sb_phaseEndsAt r" "sb_toggles (upd_brain i f r) = sb_toggles r"
  "sb_resultBaseline (upd_brain i f r) = sb_resultBaseline r" "sb_pausedAt (upd_brain i f r) = sb_pausedAt r"
  "sb_processedActions (upd_brain i f r) = sb_processedActions r"
  "sb_hostPlayerId (upd_brain i f r) = sb_hostPlayerId r"
  by (simp_all add: upd_brain_def)

lemma fold_upd_frame: "(\<And>i r. g (upd_brain i f r) = g r) \<Longrightarrow> g (fold (\<lambda>i. upd_brain i f) is r) = g r"
  by (induction "is" arbitrary: r) auto

lemma award_points_frame [frame, simp]:
  "sb_history (award_points d s r) = sb_history r" "sb_result (award_points d s r) = sb_result r"
  "sb_phase (award_points d s r) = sb_phase r" "sb_round (award_points d s r) = sb_round r"
  "sb_rounds (award_points d s r) = sb_rounds r" "sb_timings (award_points d s r) = sb_timings r"
  "sb_phaseEndsAt (award_points d s r) = sb_phaseEndsAt r" "sb_toggles (award_points d s r) = sb_toggles r"
  "sb_resultBaseline (award_points d s r) = sb_resultBaseline r" "sb_pausedAt (award_points d s r) = sb_pausedAt r"
  "sb_processedActions (award_points d s r) = sb_processedActions r"
  unfolding award_points_def by (rule fold_upd_frame, simp)+

lemma mark_odd_frame [frame, simp]:
  "sb_history (mark_odd d s r) = sb_history r" "sb_result (mark_odd d s r) = sb_result r"
  "sb_phase (mark_odd d s r) = sb_phase r" "sb_round (mark_odd d s r) = sb_round r"
  "sb_rounds (mark_odd d s r) = sb_rounds r" "sb_timings (mark_odd d s r) = sb_timings r"
  "sb_phaseEndsAt (mark_odd d s r) = sb_phaseEndsAt r" "sb_toggles (mark_odd d s r) = sb_toggles r"
  "sb_resultBaseline (mark_odd d s r) = sb_resultBaseline r" "sb_pausedAt (mark_odd d s r) = sb_pausedAt r"
  "sb_processedActions (mark_odd d s r) = sb_processedActions r" "scores (mark_odd d s r) = scores r"
  by (simp_all add: mark_odd_def keeps_score_def)

lemma awardResult_frame [frame, simp]:
  "sb_history (awardResult d s r) = sb_history r" "sb_result (awardResult d s r) = sb_result r"
  "sb_phase (awardResult d s r) = sb_phase r" "sb_round (awardResult d s r) = sb_round r"
  "sb_rounds (awardResult d s r) = sb_rounds r" "sb_timings (awardResult d s r) = sb_timings r"
  "sb_phaseEndsAt (awardResult d s r) = sb_phaseEndsAt r" "sb_toggles (awardResult d s r) = sb_toggles r"
  "sb_resultBaseline (awardResult d s r) = sb_resultBaseline r" "sb_pausedAt (awardResult d s r) = sb_pausedAt r"
  "sb_processedActions (awardResult d s r) = sb_processedActions r"
  by (simp_all add: awardResult_def)

section \<open>What an award does to the scores\<close>

lemma upd_first_by_id:
  "distinct (map pid ps) \<Longrightarrow> upd_first (\<lambda>p. pid p = i) f ps = map (\<lambda>p. if pid p = i then f p else p) ps"
proof (induction ps)
  case (Cons p ps)
  show ?case
  proof (cases "pid p = i")
    case True
    then have "pid q \<noteq> i" if "q \<in> set ps" for q
      using Cons.prems imageI [OF that, of pid] by auto
    with True show ?thesis by (simp add: map_idI)
  qed (use Cons in simp)
qed simp

lemma scores_fst: "map fst (scores r) = map pid (sb_players r)"
  by (simp add: scores_def)

lemma scores_upd_add:
  "distinct (map fst (scores r)) \<Longrightarrow>
   scores (upd_brain i (\<lambda>p. p\<lparr>bp_score := bp_score p + k\<rparr>) r) =
     map (\<lambda>(j, s). (j, if j = i then s + k else s)) (scores r)"
proof -
  assume "distinct (map fst (scores r))"
  then have "distinct (map pid (sb_players r))" by (simp only: scores_fst)
  then show ?thesis by (simp add: scores_def upd_brain_def upd_first_by_id)
qed

lemma scores_award_points:
  assumes "distinct (map fst (scores r))"
  shows "scores (award_points d s r) = map (\<lambda>(j, x). (j, x + s * points_in d j)) (scores r)"
proof -
  have "scores (fold (\<lambda>i. upd_brain i (\<lambda>p. p\<lparr>bp_score := bp_score p + k\<rparr>)) is r) =
      map (\<lambda>(j, x). (j, x + int (count_list is j) * k)) (scores r)"
    if "distinct (map fst (scores r))" for "is" k r
    using that
  proof (induction "is" arbitrary: r)
    case (Cons i "is")
    let ?r1 = "upd_brain i (\<lambda>p. p\<lparr>bp_score := bp_score p + k\<rparr>) r"
    have "distinct (map fst (scores ?r1))"
      using Cons.prems by (simp add: scores_upd_add split_beta comp_def)
    from Cons.IH [OF this] show ?case
      by (simp add: scores_upd_add [OF Cons.prems] distrib_right split_beta comp_def)
  qed (simp add: case_prod_beta)
  from this [OF assms] show ?thesis by (simp add: award_points_def points_in_def mult.left_commute)
qed

lemma scores_awardResult:
  "distinct (map fst (scores r)) \<Longrightarrow>
   scores (awardResult d s r) = map (\<lambda>(j, x). (j, x + s * points_in d j)) (scores r)"
  by (simp add: awardResult_def scores_award_points)

text \<open>Taking a round's award back and giving another.\<close>

lemma books_swap:
  assumes ok: "books_ok r" and old: "sb_result r = Some old" and ph: "sb_phase r \<noteq> BrLobby"
  shows "books_ok (replace_result old d r)"
proof -
  obtain ds where ds: "sb_history r = ds @ [old]"
    using ok old by (cases "sb_history r" rule: rev_cases) (auto simp: books_ok_def)
  have dist: "distinct (map fst (scores r))" using ok by (simp add: books_ok_def)
  let ?r1 = "awardResult old (-1) r"
  have s1: "scores ?r1 = map (\<lambda>(j, x). (j, x - points_in old j)) (scores r)"
    using dist by (simp add: scores_awardResult)
  then have d1: "distinct (map fst (scores (?r1\<lparr>sb_result := Some d\<rparr>)))"
    using dist by (simp add: split_beta comp_def)
  have "scores (replace_result old d r) = map (\<lambda>(j, x). (j, x + points_in d j - points_in old j)) (scores r)"
    using scores_awardResult [OF d1, of d 1] s1
    by (simp add: replace_result_def Let_def split_beta comp_def algebra_simps)
  moreover have "sb_history (replace_result old d r) = ds @ [d]" "sb_result (replace_result old d r) = Some d"
    "sb_phase (replace_result old d r) = sb_phase r"
    using ds by (simp_all add: replace_result_def Let_def set_last_def)
  ultimately show ?thesis
    using ok dist ds ph by (auto simp: books_ok_def split_beta comp_def)
qed

end
