(* ===== verification/BrainReachable.thy ===== *)
theory BrainReachable
  imports BrainLedger
begin

text \<open>
  Every operation of Same Brain keeps the books and the clock in order; the rooms reachable from a
  creation by joins, reads, actions and time, and what holds of them.
\<close>

section \<open>The clock\<close>

definition brain_timings_ok :: "brain_timings \<Rightarrow> bool" where
  "brain_timings_ok t \<longleftrightarrow> 2000 \<le> bt_prompt t \<and> bt_prompt t \<le> 20000 \<and> 15000 \<le> bt_submit t \<and> bt_submit t \<le> 180000 \<and>
     3000 \<le> bt_sayIt t \<and> bt_sayIt t \<le> 20000 \<and> 0 \<le> bt_reveal t \<and> bt_reveal t \<le> 120000"

definition clock_ok :: "brain_room \<Rightarrow> bool" where
  "clock_ok r \<longleftrightarrow> brain_timings_ok (sb_timings r) \<and> 3 \<le> sb_rounds r \<and> sb_rounds r \<le> 20 \<and>
     0 \<le> sb_round r \<and> sb_round r \<le> sb_rounds r \<and>
     (sb_phase r = BrLobby \<or> sb_phase r = BrEnding \<longrightarrow> sb_phaseEndsAt r = 0) \<and>
     (sb_phase r = BrLobby \<longrightarrow> sb_round r = 0) \<and>
     (sb_phase r \<noteq> BrLobby \<and> sb_phase r \<noteq> BrEnding \<longrightarrow> 1 \<le> sb_round r)"

lemma timings_ok_bounded: "brain_timings_ok (sameBrainTimings base p)"
  by (auto simp: brain_timings_ok_def sameBrainTimings_def clamp_def)

lemma clock_cong:
  "clock_ok r \<Longrightarrow> sb_timings r' = sb_timings r \<Longrightarrow> sb_rounds r' = sb_rounds r \<Longrightarrow> sb_round r' = sb_round r \<Longrightarrow>
   sb_phase r' = sb_phase r \<Longrightarrow> (sb_phaseEndsAt r = 0 \<Longrightarrow> sb_phaseEndsAt r' = 0) \<Longrightarrow> clock_ok r'"
  by (auto simp: clock_ok_def)

lemma clock_enter:
  "clock_ok r \<Longrightarrow> ph \<noteq> BrLobby \<Longrightarrow> ph = BrEnding \<or> 1 \<le> sb_round r \<Longrightarrow> clock_ok (brain_enterPhase ph now r)"
  by (auto simp: clock_ok_def brain_phaseDuration_def split: brain_phase.splits)

definition room_fine :: "brain_room \<Rightarrow> bool" where
  "room_fine r \<longleftrightarrow> books_ok r \<and> clock_ok r"

section \<open>The clockwork\<close>

text \<open>A random source moves its cursor and nothing else.\<close>

definition fair_draw :: "brain_draw \<Rightarrow> bool" where
  "fair_draw draw \<longleftrightarrow> (\<forall>w n. \<exists>c k. snd (draw w n) = w\<lparr>crypto_cursor := c, pick_cursor := k\<rparr>)"

lemma startRound_fair:
  assumes draw: "fair_draw draw"
  shows "sb_phase (brain_startRound draw now r) = BrPrompt" "sb_round (brain_startRound draw now r) = sb_round r + 1"
    "scores (brain_startRound draw now r) = scores r" "sb_history (brain_startRound draw now r) = sb_history r"
    "sb_result (brain_startRound draw now r) = None" "sb_rounds (brain_startRound draw now r) = sb_rounds r"
    "sb_timings (brain_startRound draw now r) = sb_timings r"
    "sb_phaseEndsAt (brain_startRound draw now r) =
       (if 0 < bt_prompt (sb_timings r) then now + bt_prompt (sb_timings r) else 0)"
    "sb_toggles (brain_startRound draw now r) = sb_toggles r"
    "sb_pausedAt (brain_startRound draw now r) = sb_pausedAt r"
    "sb_processedActions (brain_startRound draw now r) = sb_processedActions r"
proof -
  let ?r1 = "r\<lparr>sb_round := sb_round r + 1, sb_result := None, sb_resultBaseline := None,
                 sb_players := map (\<lambda>p. p\<lparr>bp_answer := None\<rparr>) (sb_players r)\<rparr>"
  obtain q c k where q: "sameBrainQuestion draw (sb_recentQuestions ?r1) ?r1 = (q, ?r1\<lparr>crypto_cursor := c, pick_cursor := k\<rparr>)"
    using draw [unfolded fair_draw_def, THEN spec, THEN spec, of ?r1 "length (if filter (\<lambda>q. q \<notin> set (sb_recentQuestions r)) SAME_BRAIN_QUESTIONS \<noteq> []
        then filter (\<lambda>q. q \<notin> set (sb_recentQuestions r)) SAME_BRAIN_QUESTIONS else SAME_BRAIN_QUESTIONS)"]
    by (auto simp: sameBrainQuestion_def Let_def split_beta)
  note s = brain_startRound_def Let_def q prod.case
  show "sb_phase (brain_startRound draw now r) = BrPrompt" "sb_round (brain_startRound draw now r) = sb_round r + 1"
    "sb_history (brain_startRound draw now r) = sb_history r" "sb_result (brain_startRound draw now r) = None"
    "sb_rounds (brain_startRound draw now r) = sb_rounds r" "sb_timings (brain_startRound draw now r) = sb_timings r"
    "sb_toggles (brain_startRound draw now r) = sb_toggles r" "sb_pausedAt (brain_startRound draw now r) = sb_pausedAt r"
    "sb_processedActions (brain_startRound draw now r) = sb_processedActions r"
    unfolding s by simp_all
  show "scores (brain_startRound draw now r) = scores r" unfolding s by (simp add: scores_def comp_def)
  show "sb_phaseEndsAt (brain_startRound draw now r) =
       (if 0 < bt_prompt (sb_timings r) then now + bt_prompt (sb_timings r) else 0)"
    unfolding s by (simp add: brain_phaseDuration_def)
qed

lemma fair_draws [simp]: "fair_draw pick" "fair_draw random_int"
proof -
  have "snd (pick w n) = w\<lparr>crypto_cursor := crypto_cursor w, pick_cursor := Suc (pick_cursor w)\<rparr>" for w :: brain_room and n
    by (simp add: pick_def)
  then show "fair_draw pick" unfolding fair_draw_def by blast
  have "snd (random_int w n) = w\<lparr>crypto_cursor := Suc (crypto_cursor w), pick_cursor := pick_cursor w\<rparr>" for w :: brain_room and n
    by (simp add: random_int_def)
  then show "fair_draw random_int" unfolding fair_draw_def by blast
qed

lemma finish_frame [frame, simp]:
  "sb_phase (brain_finish now r) = BrEnding" "sb_phaseEndsAt (brain_finish now r) = 0"
  "scores (brain_finish now r) = scores r" "sb_history (brain_finish now r) = sb_history r"
  "sb_result (brain_finish now r) = sb_result r" "sb_round (brain_finish now r) = sb_round r"
  "sb_rounds (brain_finish now r) = sb_rounds r" "sb_timings (brain_finish now r) = sb_timings r"
  "sb_players (brain_finish now r) = sb_players r" "sb_processedActions (brain_finish now r) = sb_processedActions r"
  "sb_winnerIds (brain_finish now r) = winnersOf (map (\<lambda>p. (pid p, bp_score p, bp_out p)) (sb_players r))"
  by (simp_all add: brain_finish_def Let_def brain_phaseDuration_def)

lemma fine_enter:
  "room_fine r \<Longrightarrow> ph \<noteq> BrLobby \<Longrightarrow> ph = BrEnding \<or> 1 \<le> sb_round r \<Longrightarrow> room_fine (brain_enterPhase ph now r)"
  by (auto simp: room_fine_def intro: books_cong clock_enter)

lemma fine_start:
  assumes "room_fine r" and "fair_draw draw" and "sb_round r < sb_rounds r"
  shows "room_fine (brain_startRound draw now r)"
proof -
  note s = startRound_fair [OF assms(2)]
  have "books_ok (brain_startRound draw now r)"
    using assms(1) by (simp add: room_fine_def books_ok_def s)
  moreover have "clock_ok (brain_startRound draw now r)"
    using assms(1,3) by (simp add: room_fine_def clock_ok_def s)
  ultimately show ?thesis by (simp add: room_fine_def)
qed

lemma fine_finish: "room_fine r \<Longrightarrow> room_fine (brain_finish now r)"
  by (auto simp: room_fine_def clock_ok_def intro: books_cong)

lemma fine_afterReveal: "room_fine r \<Longrightarrow> fair_draw draw \<Longrightarrow> room_fine (afterReveal draw now r)"
  by (cases "gameOver r") (simp_all add: afterReveal_def fine_finish fine_start gameOver_def)

lemma applyResult_books:
  assumes ok: "books_ok r" and ph: "sb_phase r \<noteq> BrLobby"
  shows "books_ok (applyResult d now r)"
proof -
  let ?r0 = "r\<lparr>sb_result := Some d, sb_resultBaseline := Some d, sb_history := sb_history r @ [d]\<rparr>"
  have d: "distinct (map fst (scores ?r0))" using ok by (simp add: books_ok_def)
  have "scores (applyResult d now r) = map (\<lambda>(j, x). (j, x + points_in d j)) (scores r)"
    using scores_awardResult [OF d, of d 1] by (simp add: applyResult_def Let_def)
  moreover have "sb_history (applyResult d now r) = sb_history r @ [d]" "sb_result (applyResult d now r) = Some d"
    "sb_phase (applyResult d now r) \<noteq> BrLobby"
    by (simp_all add: applyResult_def Let_def)
  ultimately show ?thesis using ok ph by (auto simp: books_ok_def split_beta comp_def)
qed

lemma fine_closeSubmit: "room_fine r \<Longrightarrow> 1 \<le> sb_round r \<Longrightarrow> sb_phase r \<noteq> BrLobby \<Longrightarrow> room_fine (closeSubmit now r)"
proof -
  assume fine: "room_fine r" and n: "1 \<le> sb_round r" and ph: "sb_phase r \<noteq> BrLobby"
  have "books_ok (r\<lparr>sb_phaseEndsAt := now\<rparr>)" using fine by (auto simp: room_fine_def intro: books_cong)
  then have "books_ok (closeSubmit now r)" unfolding closeSubmit_def using ph by (intro applyResult_books) auto
  moreover have "clock_ok (closeSubmit now r)"
    using fine n by (auto simp: closeSubmit_def applyResult_def Let_def room_fine_def clock_ok_def)
  ultimately show ?thesis by (simp add: room_fine_def)
qed

lemma in_play_round: "room_fine r \<Longrightarrow> sb_phase r \<noteq> BrLobby \<Longrightarrow> sb_phase r \<noteq> BrEnding \<Longrightarrow> 1 \<le> sb_round r"
  by (simp add: room_fine_def clock_ok_def)

lemma fine_advance_from: "room_fine r \<Longrightarrow> fair_draw draw \<Longrightarrow> room_fine (advance_from n draw now r)"
proof (induction n arbitrary: r)
  case (Suc n)
  then show ?case
    using in_play_round [OF Suc.prems(1)]
    by (auto simp: fine_enter fine_closeSubmit fine_afterReveal split: brain_phase.split)
qed simp

lemma fine_advance: "room_fine r \<Longrightarrow> fair_draw draw \<Longrightarrow> room_fine (brain_advance draw now r)"
  by (simp add: brain_advance_def fine_advance_from)

section \<open>Actions\<close>

lemma fine_fields [simp]:
  "room_fine (brain_changed r) = room_fine r" "room_fine (r\<lparr>sb_processedActions := a\<rparr>) = room_fine r"
  "room_fine (r\<lparr>sb_hostPlayerId := b\<rparr>) = room_fine r" "room_fine (r\<lparr>sb_hostDisconnectedSince := c\<rparr>) = room_fine r"
  "room_fine (r\<lparr>sb_lastActiveAt := d\<rparr>) = room_fine r" "room_fine (r\<lparr>sb_pausedAt := e\<rparr>) = room_fine r"
  "room_fine (r\<lparr>sb_joinLocked := f\<rparr>) = room_fine r" "room_fine (r\<lparr>sb_expiresAt := g\<rparr>) = room_fine r"
  "room_fine (r\<lparr>wall_clock := h\<rparr>) = room_fine r"
  by (simp_all add: room_fine_def books_ok_def clock_ok_def)

lemma fine_upd [simp]: "keeps_score f \<Longrightarrow> room_fine (upd_brain i f r) = room_fine r"
  by (simp add: room_fine_def books_ok_def clock_ok_def)

lemma fine_done [simp]: "room_fine (fst (br_done a r)) = room_fine r"
  by (simp add: br_done_def)

lemma fine_refuse [simp]: "fst (br_refuse c m r) = r" "fst (br_unavailable m r) = r"
  by (simp_all add: br_refuse_def br_unavailable_def)

lemma keeps_score_touch [simp]: "keeps_score (touch_player now force)"
  by (simp add: keeps_score_def touch_player_def)

lemma fine_touch [simp]: "room_fine (brain_touch i now force r) = room_fine r"
  by (simp add: brain_touch_def Let_def split: option.splits)

lemma fine_transfer [simp]: "room_fine (if_host_transfer i now r) = room_fine r"
  by (simp add: if_host_transfer_def brain_transferHost_def Let_def)

lemma keeps_score_set_ready [simp]: "keeps_score (setMultiplayerPlayerReady b)"
  by (simp add: keeps_score_def setMultiplayerPlayerReady_def)

lemma fine_admission: "room_fine r \<Longrightarrow> room_fine (fst (br_admission b a r))"
  by (simp add: br_admission_def)

lemma fine_configure: "room_fine r \<Longrightarrow> room_fine (fst (br_configure n t m a r))"
proof (cases "sb_managed r \<or> sb_phase r \<noteq> BrLobby")
  case False
  assume fine: "room_fine r"
  let ?r1 = "r\<lparr>sb_rounds := (case n of None \<Rightarrow> sb_rounds r | Some n \<Rightarrow> clampRounds n),
           sb_toggles := (case t of None \<Rightarrow> sb_toggles r | Some p \<Rightarrow> merge_toggles (sb_toggles r) p),
           sb_timings := (case m of None \<Rightarrow> sb_timings r | Some p \<Rightarrow> sameBrainTimings (sb_timings r) p)\<rparr>"
  have "books_ok ?r1" using fine by (auto simp: room_fine_def intro: books_cong)
  moreover have "clock_ok ?r1"
    using fine False timings_ok_bounded
    by (auto simp: room_fine_def clock_ok_def clampRounds_def brain_limits split: option.splits)
  ultimately have "room_fine ?r1" by (simp add: room_fine_def)
  then show ?thesis using False by (simp add: br_configure_def)
qed (auto simp: br_configure_def)

lemma scores_filter:
  "distinct (map fst (scores r)) \<Longrightarrow>
   distinct (map fst (scores (r\<lparr>sb_players := filter P (sb_players r)\<rparr>))) \<and>
   set (scores (r\<lparr>sb_players := filter P (sb_players r)\<rparr>)) \<subseteq> set (scores r)"
  by (auto simp: scores_def comp_def distinct_map inj_on_def)

lemma fine_filter: "room_fine r \<Longrightarrow> room_fine (r\<lparr>sb_players := filter P (sb_players r)\<rparr>)"
  using scores_filter [of r P]
  by (auto simp: room_fine_def clock_ok_def intro: books_subset [of r] simp: books_ok_def)

text \<open>A table swept clean: everybody at zero, no history.\<close>

lemma fine_fresh:
  assumes fine: "room_fine r" and f: "\<And>p. pid (f p) = pid p \<and> bp_score (f p) = 0"
    and r': "sb_players r' = map f (filter P (sb_players r))" "sb_history r' = []" "sb_result r' = None"
      "sb_round r' = 0" "sb_rounds r' = sb_rounds r" "sb_timings r' = sb_timings r"
  shows "fair_draw draw \<Longrightarrow> room_fine (brain_startRound draw now r')" "room_fine (brain_enterPhase BrLobby now r')"
proof -
  have ids: "map fst (scores r') = map pid (filter P (sb_players r))"
    using f r'(1) by (simp add: scores_def comp_def)
  have dist: "distinct (map fst (scores r'))"
    using fine unfolding ids by (simp add: room_fine_def books_ok_def scores_fst distinct_map_filter)
  have zero: "\<forall>(i, s)\<in>set (scores r'). s = 0" using f r'(1) by (auto simp: scores_def)
  have c: "brain_timings_ok (sb_timings r')" "3 \<le> sb_rounds r'" "sb_rounds r' \<le> 20"
    using fine r' by (simp_all add: room_fine_def clock_ok_def)
  show "room_fine (brain_enterPhase BrLobby now r')"
    using dist zero c r' by (simp add: room_fine_def books_clear clock_ok_def brain_phaseDuration_def)
  assume draw: "fair_draw draw"
  note s = startRound_fair [OF draw]
  have "books_ok (brain_startRound draw now r')" using dist zero r' by (intro books_clear) (simp_all add: s)
  then show "room_fine (brain_startRound draw now r')" using c r' by (simp add: room_fine_def clock_ok_def s)
qed

lemma nudge_scores [simp]:
  "scores (r\<lparr>sb_players := fst (requestMultiplayerReadiness sel q now (sb_players r))\<rparr>) = scores r"
proof -
  have more: "bp_score (fst (nudge_player q now p)) = bp_score p" for p
    by (simp add: nudge_player_def split: option.splits)
  show ?thesis by (simp add: scores_def requestMultiplayerReadiness_def more)
qed

lemma fine_ask: "room_fine r \<Longrightarrow> room_fine (ask_unconfirmed a now ids r)"
proof -
  assume fine: "room_fine r"
  have "room_fine (r\<lparr>sb_players := fst (requestMultiplayerReadiness sel a now (sb_players r))\<rparr>)" for sel
    using fine by (auto simp: room_fine_def clock_ok_def intro: books_cong)
  with fine show ?thesis by (simp add: ask_unconfirmed_def split_beta)
qed

lemma length_filter_id: "length (filter P xs) = length xs \<Longrightarrow> filter P xs = xs"
  by (metis filter_True length_filter_less less_irrefl)

lemma fine_br_start: "room_fine r \<Longrightarrow> room_fine (fst (br_start removed a now r))"
proof -
  assume fine: "room_fine r"
  let ?rem = "filter (\<lambda>p. multiplayerPlayerReady p \<or> pid p \<notin> set removed) (sb_players r)"
  define r1 where "r1 = (if length ?rem \<noteq> length (sb_players r) then brain_changed (r\<lparr>sb_players := ?rem\<rparr>) else r)"
  have r1: "sb_players r1 = ?rem" "sb_rounds r1 = sb_rounds r" "sb_timings r1 = sb_timings r"
    using length_filter_id [of "\<lambda>p. multiplayerPlayerReady p \<or> pid p \<notin> set removed" "sb_players r"]
    by (auto simp: r1_def)
  show ?thesis
  proof (cases "sb_phase r \<noteq> BrLobby")
    case False
    then have "sb_result r1 = None" using fine by (auto simp: r1_def room_fine_def books_ok_def)
    then have "room_fine (brain_startRound pick now
        (r1\<lparr>sb_round := 0, sb_history := [], sb_winnerIds := [], sb_players := map fresh_scores (sb_players r1)\<rparr>))"
      using r1 by (intro fine_fresh(1) [OF fine, where f = fresh_scores]) (simp_all add: fresh_scores_def)
    then show ?thesis using fine fine_ask [OF fine] by (simp add: br_start_def Let_def r1_def)
  qed (use fine in \<open>simp add: br_start_def\<close>)
qed

lemma fine_again: "room_fine r \<Longrightarrow> room_fine (fst (br_again replay a now r))"
proof -
  assume fine: "room_fine r"
  have f: "pid (setMultiplayerPlayerReady True (fresh_scores p)) = pid p \<and>
      bp_score (setMultiplayerPlayerReady True (fresh_scores p)) = 0" for p
    by (simp add: setMultiplayerPlayerReady_def fresh_scores_def)
  have "room_fine (brain_startRound pick now (cleared_table r))" "room_fine (brain_enterPhase BrLobby now (cleared_table r))"
    using fine_fresh [OF fine f, of "cleared_table r"] by (simp_all add: cleared_table_def)
  then show ?thesis by (simp add: br_again_def)
qed

lemma fine_skip: "room_fine r \<Longrightarrow> room_fine (fst (br_skip a now r))"
proof (cases "sb_phase r \<noteq> BrPrompt \<and> sb_phase r \<noteq> BrSubmit")
  case False
  assume fine: "room_fine r"
  note s = startRound_fair [OF fair_draws(1)]
  have "books_ok (brain_startRound pick now (r\<lparr>sb_round := sb_round r - 1\<rparr>))"
    using fine by (auto simp: room_fine_def books_ok_def s)
  moreover have "clock_ok (brain_startRound pick now (r\<lparr>sb_round := sb_round r - 1\<rparr>))"
    using fine False by (auto simp: room_fine_def clock_ok_def s)
  ultimately have "room_fine (brain_startRound pick now (r\<lparr>sb_round := sb_round r - 1\<rparr>))" by (simp add: room_fine_def)
  then show ?thesis using False by (auto simp: br_skip_def)
qed (auto simp: br_skip_def)

lemma fine_ends:
  "room_fine r \<Longrightarrow> sb_phaseEndsAt r \<noteq> 0 \<or> e = 0 \<Longrightarrow> room_fine (r\<lparr>sb_phaseEndsAt := e\<rparr>)"
  by (auto simp: room_fine_def clock_ok_def books_ok_def)

lemma fine_extend: "room_fine r \<Longrightarrow> room_fine (fst (br_extend a r))"
  using fine_ends [of r] by (simp add: br_extend_def)

lemma fine_pause: "room_fine r \<Longrightarrow> room_fine (fst (br_pause a now r))"
  by (simp add: br_pause_def)

lemma fine_resume: "room_fine r \<Longrightarrow> room_fine (fst (br_resume a now r))"
  using fine_ends [of r "sb_phaseEndsAt r + max 0 (now - the (sb_pausedAt r))"] fine_ends [of r 0]
  by (auto simp: br_resume_def split: option.splits)

lemma fine_br_advance: "room_fine r \<Longrightarrow> room_fine (fst (br_advance a now r))"
  using in_play_round [of r]
  by (auto simp: br_advance_def fine_enter fine_closeSubmit fine_afterReveal split: brain_phase.split)

lemma fine_replace:
  assumes "room_fine r" and "sb_result r = Some old" and "sb_phase r \<noteq> BrLobby"
  shows "room_fine (replace_result old d r)"
  using assms books_swap [of r old d]
  by (auto simp: room_fine_def clock_ok_def replace_result_def Let_def)

lemma fine_reset: "room_fine r \<Longrightarrow> room_fine (fst (br_reset shared n a r))"
  by (auto simp: br_reset_def fine_replace split: option.splits)

lemma fine_merge: "room_fine r \<Longrightarrow> room_fine (fst (br_merge n f t a r))"
  by (auto simp: br_merge_def fine_replace split: option.splits)

lemma fine_pass: "room_fine r \<Longrightarrow> room_fine (fst (br_pass t a r))"
  by (simp add: br_pass_def split: option.splits)

lemma keeps_score_gone [simp]: "keeps_score (gone h now)"
  by (simp add: keeps_score_def gone_def)

lemma fine_without: "room_fine r \<Longrightarrow> room_fine (without_player i r)"
  by (simp add: without_player_def fine_filter)

lemma fine_remove: "room_fine r \<Longrightarrow> room_fine (fst (br_remove t a newId now r))"
  by (simp add: br_remove_def fine_without split: option.splits)

lemma fine_host_act: "room_fine r \<Longrightarrow> room_fine (fst (brain_host_act shared i r))"
  by (simp add: brain_host_act_def Let_def fine_admission fine_configure fine_br_start fine_skip fine_extend fine_pause
      fine_resume fine_br_advance fine_merge fine_reset fine_pass fine_remove fine_again fine_finish
      split: brain_host_action.split)

lemma fine_host_reduce: "room_fine r \<Longrightarrow> room_fine (fst (brain_host_reduce shared i r))"
  by (simp add: brain_host_reduce_def Let_def fine_host_act fine_advance)

lemma fine_leave: "room_fine r \<Longrightarrow> room_fine (fst (br_leave p a newId now r))"
  by (simp add: br_leave_def Let_def fine_without fine_finish)

lemma fine_rename: "room_fine r \<Longrightarrow> room_fine (fst (br_rename name p a r))"
  by (simp add: br_rename_def keeps_score_def setMultiplayerPlayerReady_def)

lemma fine_readiness: "room_fine r \<Longrightarrow> room_fine (fst (br_readiness b p a r))"
  by (simp add: br_readiness_def)

lemma fine_claim: "room_fine r \<Longrightarrow> room_fine (fst (br_claim p a now r))"
  by (simp add: br_claim_def split: option.splits)

lemma fine_clear: "room_fine r \<Longrightarrow> room_fine (fst (br_clear n p a r))"
  by (simp add: br_clear_def keeps_score_def)

lemma fine_submit: "room_fine r \<Longrightarrow> room_fine (fst (br_submit n t p a now r))"
  using in_play_round [of r]
  by (auto simp: br_submit_def Let_def keeps_score_def intro!: fine_closeSubmit)

lemma fine_player_reduce: "room_fine r \<Longrightarrow> room_fine (fst (brain_player_reduce i r))"
  by (simp add: brain_player_reduce_def brain_player_act_def Let_def fine_advance fine_leave fine_rename fine_readiness
      fine_claim fine_submit fine_clear split: option.splits brain_player_action.split)

section \<open>Joining and reading\<close>

text \<open>A fresh token is not the id of somebody in the room; the second token of a join is the id.\<close>

definition brain_token_fresh :: "brain_room \<Rightarrow> bool" where
  "brain_token_fresh r \<longleftrightarrow> token_source r (Suc (token_cursor r)) \<notin> pid ` set (sb_players r)"

lemma fine_seat:
  assumes fine: "room_fine r" and lobby: "sb_phase r = BrLobby" and fresh: "brain_token_fresh r"
    and seat: "brain_seat i name r = (playerId, playerToken, r')"
  shows "room_fine r'"
proof -
  define r3 where "r3 = (snd (createMultiplayerCredential (snd (createMultiplayerCredential r))))
      \<lparr>sb_players := sb_players r @ [new_brain_player (token_source r (Suc (token_cursor r))) name
          (hashMultiplayerCredential r (token_source r (token_cursor r))) (wall_clock r)]\<rparr>"
  have r': "scores r' = scores r3" "sb_history r' = sb_history r" "sb_result r' = sb_result r"
      "sb_phase r' = sb_phase r" "sb_round r' = sb_round r" "sb_rounds r' = sb_rounds r" "sb_timings r' = sb_timings r"
      "sb_phaseEndsAt r' = sb_phaseEndsAt r"
    using seat by (auto simp: brain_seat_def createMultiplayerCredential_def Let_def r3_def scores_def)
  have "scores r3 = scores r @ [(token_source r (Suc (token_cursor r)), 0)]"
    by (simp add: r3_def scores_def new_brain_player_def)
  then have "books_ok r'"
    using fine lobby fresh r' by (auto simp: room_fine_def books_ok_def scores_fst brain_token_fresh_def)
  moreover have "clock_ok r'" using fine r' by (auto simp: room_fine_def clock_ok_def)
  ultimately show ?thesis by (simp add: room_fine_def)
qed

lemma fine_join: "room_fine r \<Longrightarrow> brain_token_fresh r \<Longrightarrow> room_fine (fst (brain_join i r))"
  by (auto simp: brain_join_def brain_admission_error_def Let_def intro: fine_seat
      split: option.splits prod.splits if_splits)

lemma fine_read: "room_fine r \<Longrightarrow> room_fine (fst (brain_read digest c p d r))"
  by (simp add: brain_read_def Let_def)

lemma fine_new: "createSameBrainRoom ex w input = Some (r, h, j) \<Longrightarrow> room_fine r"
  using timings_ok_bounded
  by (auto simp: createSameBrainRoom_def new_brain_room_def room_fine_def books_ok_def clock_ok_def scores_def
      services.defs clampRounds_def brain_limits Let_def split: prod.splits option.splits)

section \<open>Reachable rooms\<close>

text \<open>
  Requests in any order, each against its own services: another clock, other tokens, other draws. The
  store may renew or run out a room's lease between them.
\<close>

inductive brain_reachable :: "brain_room \<Rightarrow> bool" where
  reach_new: "createSameBrainRoom ex w input = Some (r, hostToken, joinToken) \<Longrightarrow> brain_reachable r"
| reach_join: "brain_reachable r \<Longrightarrow> brain_token_fresh r \<Longrightarrow> brain_reachable (fst (brain_join i r))"
| reach_read: "brain_reachable r \<Longrightarrow> brain_reachable (fst (brain_read digest c p d r))"
| reach_pump: "brain_reachable r \<Longrightarrow> fair_draw draw \<Longrightarrow> brain_reachable (fst (brain_pump draw now r))"
| reach_host: "brain_reachable r \<Longrightarrow> brain_reachable (fst (brain_host_reduce shared hi r))"
| reach_player: "brain_reachable r \<Longrightarrow> brain_reachable (fst (brain_player_reduce pin r))"
| reach_lease: "brain_reachable r \<Longrightarrow> brain_reachable (brain_applyRoomExpiry now r)"
| reach_services: "brain_reachable r \<Longrightarrow> services.more r' = services.more r \<Longrightarrow> brain_reachable r'"

lemma fine_services: "services.more r' = services.more r \<Longrightarrow> room_fine r \<Longrightarrow> room_fine (r' :: brain_room)"
  by (cases r; cases r') (simp add: room_fine_def books_ok_def clock_ok_def scores_def)

lemma reachable_fine: "brain_reachable r \<Longrightarrow> room_fine r"
proof (induction rule: brain_reachable.induct)
  case (reach_lease r now)
  then show ?case by (simp add: brain_applyRoomExpiry_def)
qed (simp_all add: fine_new fine_join fine_read brain_pump_def fine_advance fine_host_reduce fine_player_reduce
      fine_services)

text \<open>C3
  The books balance: in every reachable room the players' ids are distinct, every score is exactly what
  the rounds of the history awarded to that player, and the result on display is the last of the history:
  through a spoken round, a merge of groups, a reset, a removal, a skipped question or a new game.
\<close>

theorem scores_match_history:
  assumes "brain_reachable r"
  shows "distinct (map pid (sb_players r)) \<and>
    (\<forall>p\<in>set (sb_players r). bp_score p = ledger (sb_history r) (pid p)) \<and>
    (\<forall>d. sb_result r = Some d \<longrightarrow> sb_history r \<noteq> [] \<and> last (sb_history r) = d)"
proof -
  have "books_ok r" using reachable_fine [OF assms] by (simp add: room_fine_def)
  moreover have "map fst (scores r) = map pid (sb_players r)" by (rule scores_fst)
  ultimately show ?thesis by (auto simp: books_ok_def) (auto simp: scores_def)
qed

definition settled :: "int \<Rightarrow> brain_room \<Rightarrow> bool" where
  "settled now r \<longleftrightarrow> sb_phaseEndsAt r = 0 \<or> now < sb_phaseEndsAt r"

lemma settled_after [simp]:
  "settled now (brain_enterPhase ph now r)" "settled now (brain_finish now r)" "settled now (closeSubmit now r)"
  by (auto simp: settled_def closeSubmit_def applyResult_def Let_def)

lemma settled_afterReveal: "fair_draw draw \<Longrightarrow> settled now (afterReveal draw now r)"
  using startRound_fair(8) [of draw now r]
  by (cases "gameOver r") (simp_all add: afterReveal_def settled_def)

lemma advance_settled: "settled now r \<Longrightarrow> advance_from n draw now r = r"
  by (cases n) (auto simp: settled_def)

lemma advance_settles:
  assumes "clock_ok r" and draw: "fair_draw draw"
  shows "settled now (advance_from (Suc n) draw now r)"
proof (cases "settled now r")
  case False
  then have "\<not> (sb_phaseEndsAt r = 0 \<or> now < sb_phaseEndsAt r)" "sb_phase r \<noteq> BrLobby" "sb_phase r \<noteq> BrEnding"
    using assms(1) by (auto simp: settled_def clock_ok_def)
  then show ?thesis
    by (cases "sb_phase r") (simp_all add: advance_settled settled_afterReveal [OF draw])
next
  case True
  then show ?thesis by (simp only: advance_settled)
qed

text \<open>C28
  The lazy clock needs no second look: in every reachable room, after one call of the advance the room is
  paused, waits for nothing, or its deadline is still ahead. Eight turns of the loop are always enough.
\<close>

theorem brain_clock_catches_up:
  assumes "brain_reachable r" and "fair_draw draw"
  shows "let r' = brain_advance draw now r
         in sb_pausedAt r' \<noteq> None \<or> sb_phaseEndsAt r' = 0 \<or> now < sb_phaseEndsAt r'"
proof (cases "sb_pausedAt r")
  case None
  have "clock_ok r" using reachable_fine [OF assms(1)] by (simp add: room_fine_def)
  then have "settled now (advance_from (Suc 7) draw now r)" using assms(2) by (rule advance_settles)
  with None show ?thesis by (auto simp: brain_advance_def settled_def Let_def eval_nat_numeral)
qed (simp add: brain_advance_def)

end
