(* ===== verification/BrainVeil.thy ===== *)
theory BrainVeil
  imports BrainReachable
begin

text \<open>
  What the answers of the others can change while a round is open: nothing a viewer is shown. A room is
  hushed for a viewer by blanking every other answer; hushing commutes with the clock, with reads and with
  every action, as long as none of them closes the round.
\<close>

section \<open>Hushing\<close>

definition hush :: "js_string option \<Rightarrow> brain_player \<Rightarrow> brain_player" where
  "hush v p = (if Some (pid p) = v then p else p\<lparr>bp_answer := map_option (\<lambda>_. []) (bp_answer p)\<rparr>)"

definition hushed :: "js_string option \<Rightarrow> brain_room \<Rightarrow> brain_room" where
  "hushed v r = r\<lparr>sb_players := map (hush v) (sb_players r)\<rparr>"

definition answers_open :: "brain_room \<Rightarrow> bool" where
  "answers_open r \<longleftrightarrow> sb_phase r = BrPrompt \<or> sb_phase r = BrSubmit"

lemma hush_simps [simp]:
  "pid (hush v p) = pid p" "ready (hush v p) = ready p" "startRequestId (hush v p) = startRequestId p"
  "startRequestedAt (hush v p) = startRequestedAt p" "bp_name (hush v p) = bp_name p"
  "bp_tokenHash (hush v p) = bp_tokenHash p" "bp_joinedAt (hush v p) = bp_joinedAt p"
  "bp_lastSeenAt (hush v p) = bp_lastSeenAt p" "bp_score (hush v p) = bp_score p" "bp_out (hush v p) = bp_out p"
  "bp_aloneCount (hush v p) = bp_aloneCount p" "bp_leftAt (hush v p) = bp_leftAt p"
  "bp_answer (hush v p) = None \<longleftrightarrow> bp_answer p = None"
  by (simp_all add: hush_def)

lemma hush_idem [simp]: "hush v (hush v p) = hush v p"
  by (cases p) (simp add: hush_def option.map_comp comp_def)

lemma hushed_idem [simp]: "hushed v (hushed v r) = hushed v r"
  by (simp add: hushed_def comp_def)

lemma hushed_fields [simp]:
  "sb_phase (hushed v r) = sb_phase r" "sb_players (hushed v r) = map (hush v) (sb_players r)"
  "sb_round (hushed v r) = sb_round r" "sb_rounds (hushed v r) = sb_rounds r" "sb_toggles (hushed v r) = sb_toggles r"
  "sb_timings (hushed v r) = sb_timings r" "sb_phaseEndsAt (hushed v r) = sb_phaseEndsAt r"
  "sb_pausedAt (hushed v r) = sb_pausedAt r" "sb_lastActiveAt (hushed v r) = sb_lastActiveAt r"
  "sb_hostPlayerId (hushed v r) = sb_hostPlayerId r" "sb_hostHash (hushed v r) = sb_hostHash r"
  "sb_hostDisconnectedSince (hushed v r) = sb_hostDisconnectedSince r" "sb_managed (hushed v r) = sb_managed r"
  "sb_processedActions (hushed v r) = sb_processedActions r" "sb_joinLocked (hushed v r) = sb_joinLocked r"
  "sb_recentQuestions (hushed v r) = sb_recentQuestions r" "sb_expiresAt (hushed v r) = sb_expiresAt r"
  "sb_result (hushed v r) = sb_result r" "sha256_hex (hushed v r) = sha256_hex r" "wall_clock (hushed v r) = wall_clock r"
  "locale_compare (hushed v r) = locale_compare r" "sb_revision (hushed v r) = sb_revision r"
  "sb_sequence (hushed v r) = sb_sequence r" "sb_gameNumber (hushed v r) = sb_gameNumber r"
  by (simp_all add: hushed_def)

lemma open_hushed [simp]: "answers_open (hushed v r) = answers_open r"
  by (simp add: answers_open_def)

text \<open>A change of one player that does not read the answer.\<close>

definition calm :: "js_string option \<Rightarrow> (brain_player \<Rightarrow> brain_player) \<Rightarrow> bool" where
  "calm v f \<longleftrightarrow> (\<forall>p. hush v (f p) = f (hush v p))"

lemma calm_fields [simp]:
  "calm v (touch_player now force)" "calm v fresh_scores" "calm v (setMultiplayerPlayerReady b)" "calm v (gone h now)"
  "calm v (bp_answer_update (\<lambda>_. None))" "calm v (\<lambda>p. setMultiplayerPlayerReady b (p\<lparr>bp_name := n\<rparr>))"
  "calm v (\<lambda>p. setMultiplayerPlayerReady b (fresh_scores p))"
  by (auto simp: calm_def hush_def touch_player_def fresh_scores_def setMultiplayerPlayerReady_def gone_def)

lemma map_hush_upd_first:
  "calm v f \<Longrightarrow> map (hush v) (upd_first (\<lambda>p. pid p = i) f ps) = upd_first (\<lambda>p. pid p = i) f (map (hush v) ps)"
  by (induction ps) (simp_all add: calm_def)

lemma hushed_upd: "calm v f \<Longrightarrow> hushed v (upd_brain i f r) = upd_brain i f (hushed v r)"
  by (simp add: hushed_def upd_brain_def map_hush_upd_first)

lemma find_hush: "find P (map (hush v) ps) = map_option (hush v) (find (\<lambda>p. P (hush v p)) ps)"
  by (induction ps) simp_all

lemma by_id_hushed: "brain_by_id i (hushed v r) = map_option (hush v) (brain_by_id i r)"
  by (simp add: brain_by_id_def find_hush)

lemma host_hushed: "brain_host (hushed v r) = map_option (hush v) (brain_host r)"
  by (simp add: brain_host_def find_hush)

lemma connected_hush [simp]: "brain_connected now (hush v p) = brain_connected now p"
  by (simp add: brain_connected_def)

lemma ready_hush [simp]: "multiplayerPlayerReady (hush v p) = multiplayerPlayerReady p"
  by (simp add: multiplayerPlayerReady_def)

lemma filter_hush: "(\<And>p. P (hush v p) = P p) \<Longrightarrow> filter P (map (hush v) ps) = map (hush v) (filter P ps)"
  by (induction ps) simp_all

lemma sort_hush:
  assumes "\<And>a b. le (hush v a) (hush v b) = le a b"
  shows "sort_by le (map (hush v) ps) = map (hush v) (sort_by le ps)"
proof -
  have "insert_by le (hush v p) (map (hush v) qs) = map (hush v) (insert_by le p qs)" for p qs
    by (induction qs) (simp_all add: assms)
  then show ?thesis by (induction ps) (simp_all add: sort_by_def)
qed

section \<open>The building blocks\<close>

text \<open>Hushing is pulled outwards; the fields it leaves alone then forget it.\<close>

lemma hushed_updates [simp]:
  "(hushed v r)\<lparr>sb_processedActions := a1\<rparr> = hushed v (r\<lparr>sb_processedActions := a1\<rparr>)"
  "(hushed v r)\<lparr>sb_lastActiveAt := a2\<rparr> = hushed v (r\<lparr>sb_lastActiveAt := a2\<rparr>)"
  "(hushed v r)\<lparr>sb_hostDisconnectedSince := a3\<rparr> = hushed v (r\<lparr>sb_hostDisconnectedSince := a3\<rparr>)"
  "(hushed v r)\<lparr>sb_hostPlayerId := a4\<rparr> = hushed v (r\<lparr>sb_hostPlayerId := a4\<rparr>)"
  "(hushed v r)\<lparr>sb_phaseEndsAt := a5\<rparr> = hushed v (r\<lparr>sb_phaseEndsAt := a5\<rparr>)"
  "(hushed v r)\<lparr>sb_pausedAt := a6\<rparr> = hushed v (r\<lparr>sb_pausedAt := a6\<rparr>)"
  "(hushed v r)\<lparr>sb_round := a7\<rparr> = hushed v (r\<lparr>sb_round := a7\<rparr>)"
  "(hushed v r)\<lparr>sb_expiresAt := a8\<rparr> = hushed v (r\<lparr>sb_expiresAt := a8\<rparr>)"
  "(hushed v r)\<lparr>wall_clock := a9\<rparr> = hushed v (r\<lparr>wall_clock := a9\<rparr>)"
  "(hushed v r)\<lparr>sb_revision := b1\<rparr> = hushed v (r\<lparr>sb_revision := b1\<rparr>)"
  "(hushed v r)\<lparr>sb_sequence := b2\<rparr> = hushed v (r\<lparr>sb_sequence := b2\<rparr>)"
  "(hushed v r)\<lparr>sb_phase := b3\<rparr> = hushed v (r\<lparr>sb_phase := b3\<rparr>)"
  "(hushed v r)\<lparr>sb_phaseStartedAt := b4\<rparr> = hushed v (r\<lparr>sb_phaseStartedAt := b4\<rparr>)"
  "(hushed v r)\<lparr>sb_winnerIds := b5\<rparr> = hushed v (r\<lparr>sb_winnerIds := b5\<rparr>)"
  "(hushed v r)\<lparr>sb_question := b6\<rparr> = hushed v (r\<lparr>sb_question := b6\<rparr>)"
  "(hushed v r)\<lparr>sb_recentQuestions := b7\<rparr> = hushed v (r\<lparr>sb_recentQuestions := b7\<rparr>)"
  "(hushed v r)\<lparr>sb_result := b8\<rparr> = hushed v (r\<lparr>sb_result := b8\<rparr>)"
  "(hushed v r)\<lparr>sb_resultBaseline := b9\<rparr> = hushed v (r\<lparr>sb_resultBaseline := b9\<rparr>)"
  "(hushed v r)\<lparr>sb_history := c1\<rparr> = hushed v (r\<lparr>sb_history := c1\<rparr>)"
  "(hushed v r)\<lparr>sb_gameNumber := c2\<rparr> = hushed v (r\<lparr>sb_gameNumber := c2\<rparr>)"
  "(hushed v r)\<lparr>crypto_cursor := c3\<rparr> = hushed v (r\<lparr>crypto_cursor := c3\<rparr>)"
  "(hushed v r)\<lparr>pick_cursor := c4\<rparr> = hushed v (r\<lparr>pick_cursor := c4\<rparr>)"
  by (simp_all add: hushed_def)

lemma hushed_players: "map (hush v) ps = qs \<Longrightarrow> (hushed v r)\<lparr>sb_players := qs\<rparr> = hushed v (r\<lparr>sb_players := ps\<rparr>)"
  by (auto simp: hushed_def)

lemma present_hushed [simp]: "brain_presentPlayerCount (hushed v r) = brain_presentPlayerCount r"
  by (simp add: brain_presentPlayerCount_def filter_hush)

lemma kind_hushed [simp]: "brain_phaseKind (hushed v r) = brain_phaseKind r"
  by (simp add: brain_phaseKind_def)

lemma expiry_hushed [simp]: "brain_applyRoomExpiry now (hushed v r) = hushed v (brain_applyRoomExpiry now r)"
  by (simp add: brain_applyRoomExpiry_def)

lemma changed_hushed [simp]: "brain_changed (hushed v r) = hushed v (brain_changed r)"
  by (simp add: brain_changed_def)

lemma duration_hushed [simp]: "brain_phaseDuration (hushed v r) ph = brain_phaseDuration r ph"
  by (cases ph) (simp_all add: brain_phaseDuration_def)

lemma enter_hushed [simp]: "brain_enterPhase ph now (hushed v r) = hushed v (brain_enterPhase ph now r)"
  by (simp add: brain_enterPhase_def Let_def)

lemma upd_hushed [simp]: "calm v f \<Longrightarrow> upd_brain i f (hushed v r) = hushed v (upd_brain i f r)"
  by (simp add: hushed_upd)

lemma touch_hushed [simp]: "brain_touch i now force (hushed v r) = hushed v (brain_touch i now force r)"
proof -
  define known where "known = (case i of None \<Rightarrow> None | Some i \<Rightarrow> brain_by_id i r)"
  define r1 where "r1 = (case known of None \<Rightarrow> r | Some p \<Rightarrow> upd_brain (pid p) (touch_player now force) r)"
  define late where "late = (force \<or> known = None \<or> MULTIPLAYER_PRESENCE_TOUCH_INTERVAL_MS \<le> now - sb_lastActiveAt r1)"
  define r2 where "r2 = (if late then r1\<lparr>sb_lastActiveAt := now\<rparr> else r1)"
  have k: "(case i of None \<Rightarrow> None | Some i \<Rightarrow> brain_by_id i (hushed v r)) = map_option (hush v) known"
    by (simp add: known_def by_id_hushed split: option.split)
  have h1: "(case map_option (hush v) known of None \<Rightarrow> hushed v r
      | Some p \<Rightarrow> upd_brain (pid p) (touch_player now force) (hushed v r)) = hushed v r1"
    by (simp add: r1_def split: option.split)
  have h2: "(if force \<or> map_option (hush v) known = None \<or> MULTIPLAYER_PRESENCE_TOUCH_INTERVAL_MS \<le> now - sb_lastActiveAt (hushed v r1)
      then (hushed v r1)\<lparr>sb_lastActiveAt := now\<rparr> else hushed v r1) = hushed v r2"
    by (simp add: r2_def late_def)
  have t: "brain_touch i now force r =
      r2\<lparr>sb_hostDisconnectedSince := (case brain_host r2 of None \<Rightarrow> None
        | Some h \<Rightarrow> if brain_connected now h then None else Some (nullish (sb_hostDisconnectedSince r2) now))\<rparr>"
    unfolding brain_touch_def Let_def known_def [symmetric] r1_def [symmetric] late_def [symmetric] r2_def [symmetric]
    by (rule refl)
  have "brain_touch i now force (hushed v r) =
      (hushed v r2)\<lparr>sb_hostDisconnectedSince := (case brain_host (hushed v r2) of None \<Rightarrow> None
        | Some h \<Rightarrow> if brain_connected now h then None else Some (nullish (sb_hostDisconnectedSince (hushed v r2)) now))\<rparr>"
    unfolding brain_touch_def Let_def k h1 h2 by (rule refl)
  then show ?thesis unfolding t by (simp add: host_hushed split: option.split)
qed

lemma next_host_hushed: "next_host i now (hushed v r) = map_option (hush v) (next_host i now r)"
proof -
  let ?P = "\<lambda>p. pid p \<noteq> i \<and> \<not> bp_out p \<and> bp_leftAt p = None"
  let ?ps = "sort_by (seniority (locale_compare r)) (filter ?P (sb_players r))"
  have s: "sort_by (seniority (locale_compare r)) (filter ?P (map (hush v) (sb_players r))) = map (hush v) ?ps"
    by (subst filter_hush, simp, rule sort_hush, simp add: seniority_def)
  have "(case map_option (hush v) f of None \<Rightarrow> (case map (hush v) ps of [] \<Rightarrow> None | p # _ \<Rightarrow> Some p) | Some p \<Rightarrow> Some p) =
      map_option (hush v) (case f of None \<Rightarrow> (case ps of [] \<Rightarrow> None | p # _ \<Rightarrow> Some p) | Some p \<Rightarrow> Some p)" for f ps
    by (cases f; cases ps) simp_all
  then show ?thesis unfolding next_host_def Let_def hushed_fields s find_hush connected_hush by (rule trans) (rule refl)
qed

lemma transfer_hushed [simp]: "if_host_transfer i now (hushed v r) = hushed v (if_host_transfer i now r)"
  by (cases "next_host i now r") (simp_all add: if_host_transfer_def brain_transferHost_def Let_def next_host_hushed)

lemma finish_hushed [simp]: "brain_finish now (hushed v r) = hushed v (brain_finish now r)"
  by (simp add: brain_finish_def Let_def comp_def)

lemma length_still_in_hushed [simp]: "length (still_in (hushed v r)) = length (still_in r)"
  by (simp add: still_in_def filter_hush)

lemma gameOver_hushed [simp]: "gameOver (hushed v r) = gameOver r"
  by (simp add: gameOver_def)

lemma everyone_hushed [simp]: "everyoneAnswered (hushed v r) = everyoneAnswered r"
  by (simp add: everyoneAnswered_def still_in_def filter_hush list.pred_map comp_def del: not_None_eq)

text \<open>The draws move a cursor.\<close>

definition plain_draw :: "brain_draw \<Rightarrow> bool" where
  "plain_draw draw \<longleftrightarrow> (\<forall>v r n. draw (hushed v r) n = (fst (draw r n), hushed v (snd (draw r n))))"

lemma plain_draws [simp]: "plain_draw pick" "plain_draw random_int"
  by (simp_all add: plain_draw_def pick_def random_int_def hushed_def)

lemma question_hushed:
  "plain_draw draw \<Longrightarrow> sameBrainQuestion draw qs (hushed v s) =
   (fst (sameBrainQuestion draw qs s), hushed v (snd (sameBrainQuestion draw qs s)))"
  by (simp add: sameBrainQuestion_def plain_draw_def Let_def split_beta)

lemma start_hushed [simp]:
  assumes "plain_draw draw"
  shows "brain_startRound draw now (hushed v r) = hushed v (brain_startRound draw now r)"
proof -
  have "(hushed v s)\<lparr>sb_players := map (\<lambda>p. p\<lparr>bp_answer := None\<rparr>) (map (hush v) ps)\<rparr> =
      hushed v (s\<lparr>sb_players := map (\<lambda>p. p\<lparr>bp_answer := None\<rparr>) ps\<rparr>)" for s ps
    by (rule hushed_players) (simp add: hush_def)
  then show ?thesis by (simp add: brain_startRound_def Let_def question_hushed [OF assms] split_beta del: map_map)
qed

lemma afterReveal_hushed [simp]: "plain_draw draw \<Longrightarrow> afterReveal draw now (hushed v r) = hushed v (afterReveal draw now r)"
  by (simp add: afterReveal_def)

section \<open>Two rounds that look the same\<close>

definition alike :: "js_string option \<Rightarrow> brain_room \<Rightarrow> brain_room \<Rightarrow> bool" where
  "alike v r s \<longleftrightarrow> hushed v r = hushed v s"

text \<open>Open together, and alike if they are.\<close>

definition agree :: "js_string option \<Rightarrow> brain_room \<Rightarrow> brain_room \<Rightarrow> bool" where
  "agree v r s \<longleftrightarrow> (answers_open r \<longleftrightarrow> answers_open s) \<and> (answers_open r \<longrightarrow> alike v r s)"

lemma agree_alike: "alike v r s \<Longrightarrow> agree v r s"
  by (metis agree_def alike_def open_hushed)

lemma agree_hushed [simp]: "agree v (hushed v r) r"
  by (simp add: agree_alike alike_def)

lemma agree_shut [intro]: "\<not> answers_open r \<Longrightarrow> \<not> answers_open s \<Longrightarrow> agree v r s"
  by (simp add: agree_def)

lemma agree_both:
  assumes "alike v r s" and "answers_open r"
    and "\<And>r. answers_open r \<Longrightarrow> agree v (F (hushed v r)) (F r)" and "\<And>r. answers_open r \<Longrightarrow> agree v (F (hushed v r)) (G r)"
  shows "agree v (F r) (G s)"
proof -
  have "answers_open s" "hushed v s = hushed v r"
    using assms(1,2) unfolding alike_def by (metis open_hushed, simp)
  then show ?thesis using assms(3) [OF assms(2)] assms(4) [of s] by (auto simp: agree_def alike_def)
qed

lemma shut_phases:
  "\<not> answers_open (closeSubmit now r)" "\<not> answers_open (brain_enterPhase BrLobby now r)" "\<not> answers_open (brain_finish now r)"
  by (auto simp: answers_open_def closeSubmit_def applyResult_def Let_def)

lemma agree_advance_from:
  "plain_draw draw \<Longrightarrow> agree v (advance_from n draw now (hushed v r)) (advance_from n draw now r)"
proof (induction n arbitrary: r)
  case (Suc n)
  then show ?case by (cases "sb_phase r") (auto simp: shut_phases)
qed simp

lemma agree_advance: "plain_draw draw \<Longrightarrow> agree v (brain_advance draw now (hushed v r)) (brain_advance draw now r)"
  by (simp add: brain_advance_def agree_advance_from)

section \<open>Actions\<close>

lemma fst_done [simp]: "fst (br_done a r) = r\<lparr>sb_processedActions := rememberMultiplayerAction (sb_processedActions r) a\<rparr>"
  by (simp add: br_done_def)

lemma done_hushed: "fst (br_done a (hushed v r)) = hushed v (fst (br_done a r))"
  by simp

lemma open_done [simp]: "answers_open (r\<lparr>sb_processedActions := xs\<rparr>) = answers_open r"
  by (simp add: answers_open_def)

lemma open_phase: "answers_open r \<Longrightarrow> sb_phase r \<noteq> BrLobby \<and> sb_phase r \<noteq> BrReveal \<and> sb_phase r \<noteq> BrSayIt \<and> sb_phase r \<noteq> BrEnding"
  by (auto simp: answers_open_def)

lemma cleared_hushed [simp]: "cleared_table (hushed v r) = hushed v (cleared_table r)"
proof -
  have "(hushed v s)\<lparr>sb_players := map (\<lambda>p. setMultiplayerPlayerReady True (fresh_scores p)) (filter (\<lambda>p. bp_leftAt p = None) (map (hush v) ps))\<rparr> =
      hushed v (s\<lparr>sb_players := map (\<lambda>p. setMultiplayerPlayerReady True (fresh_scores p)) (filter (\<lambda>p. bp_leftAt p = None) ps)\<rparr>)" for s ps
    by (rule hushed_players) (auto simp: filter_hush hush_def fresh_scores_def setMultiplayerPlayerReady_def)
  then show ?thesis by (simp add: cleared_table_def del: map_map)
qed

lemma agree_host_act:
  assumes "answers_open r"
  shows "agree v (fst (brain_host_act shared i (hushed v r))) (fst (brain_host_act shared i r))"
proof (cases "hi_action i")
  case BhAdvance
  have "agree v (fst (br_done a (closeSubmit now (hushed v r)))) (fst (br_done a (closeSubmit now r)))" for a now
    by (simp add: agree_shut shut_phases)
  with BhAdvance assms show ?thesis by (auto simp: brain_host_act_def br_advance_def answers_open_def done_hushed simp del: fst_done)
next
  case (BhPass t)
  have "find (\<lambda>p. pid p = t \<and> (bp_leftAt p = None \<or> bp_leftAt p = Some 0)) (sb_players (hushed v r)) =
      map_option (hush v) (find (\<lambda>p. pid p = t \<and> (bp_leftAt p = None \<or> bp_leftAt p = Some 0)) (sb_players r))"
    by (simp add: find_hush)
  then show ?thesis unfolding brain_host_act_def BhPass br_pass_def by (auto split: option.split)
next
  case (BhRemove t)
  with assms show ?thesis
    by (cases "brain_by_id t r") (simp_all add: brain_host_act_def br_remove_def by_id_hushed open_phase Let_def)
next
  case (BhMerge a b c)
  with assms show ?thesis by (auto simp: brain_host_act_def br_merge_def open_phase split: option.split)
next
  case (BhReset a)
  with assms show ?thesis by (auto simp: brain_host_act_def br_reset_def open_phase split: option.split)
next
  case BhResume
  then show ?thesis by (auto simp: brain_host_act_def br_resume_def split: option.split)
qed (use assms in \<open>simp_all add: brain_host_act_def br_admission_def br_configure_def br_start_def br_skip_def br_extend_def
      br_pause_def br_again_def open_phase\<close>)

lemma match_hushed [simp]: "multiplayerCredentialsMatch (hushed v r) = multiplayerCredentialsMatch r"
  by (intro ext) (simp add: multiplayerCredentialsMatch_def hashMultiplayerCredential_def)

lemma is_host_hushed [simp]: "brain_is_host i (hushed v r) = brain_is_host i r"
  by (cases "hi_playerId i"; cases "brain_by_id (the (hi_playerId i)) r") (simp_all add: brain_is_host_def by_id_hushed)

definition same_submission :: "js_string option \<Rightarrow> brain_player_input \<Rightarrow> brain_player_input \<Rightarrow> bool" where
  "same_submission v i j \<longleftrightarrow>
     (\<exists>n s t. Some (pi_playerId i) \<noteq> v \<and> pi_action i = BpSubmit n s \<and> j = i\<lparr>pi_action := BpSubmit n t\<rparr> \<and>
       answerIsUsable s = answerIsUsable t)"

lemma upd_alike:
  assumes "\<And>p. pid p = i \<Longrightarrow> hush v (f (hush v p)) = hush v (g p)"
  shows "alike v (upd_brain i f (hushed v r)) (upd_brain i g r)"
proof -
  have "map (hush v) (upd_first (\<lambda>p. pid p = i) f (map (hush v) ps)) = map (hush v) (upd_first (\<lambda>p. pid p = i) g ps)" for ps
    using assms by (induction ps) auto
  then show ?thesis by (simp add: alike_def hushed_def upd_brain_def)
qed

lemma alike_congs:
  "alike v r s \<Longrightarrow> alike v (brain_changed r) (brain_changed s)"
  "alike v r s \<Longrightarrow> alike v (r\<lparr>sb_processedActions := rememberMultiplayerAction (sb_processedActions r) a\<rparr>)
     (s\<lparr>sb_processedActions := rememberMultiplayerAction (sb_processedActions s) a\<rparr>)"
  "alike v r s \<Longrightarrow> everyoneAnswered r = everyoneAnswered s"
  "alike v r s \<Longrightarrow> sb_phase r = sb_phase s"
  unfolding alike_def
  by (metis changed_hushed, metis hushed_updates(1) hushed_fields(14), metis everyone_hushed, metis hushed_fields(1))

lemma agree_submitted:
  assumes "alike v r s"
  shows "agree v (fst (br_done a (if sb_phase r = BrSubmit \<and> everyoneAnswered r then closeSubmit now r else r)))
    (fst (br_done a (if sb_phase s = BrSubmit \<and> everyoneAnswered s then closeSubmit now s else s)))"
  using assms alike_congs(3,4) [OF assms] alike_congs(2) [OF assms, of a]
  by (auto simp: agree_shut shut_phases agree_alike)

lemma agree_submit:
  assumes "Some (pid p) \<noteq> v \<and> answerIsUsable s = answerIsUsable t \<or> s = t"
  shows "agree v (fst (br_submit n s (hush v p) a now (hushed v r))) (fst (br_submit n t p a now r))"
proof -
  define said where "said t = js_trim (take SAME_BRAIN_MAX_ANSWER_LENGTH t)" for t
  let ?A = "brain_changed (upd_brain (pid p) (\<lambda>q. q\<lparr>bp_answer := Some (said s)\<rparr>) (hushed v r))"
  let ?B = "brain_changed (upd_brain (pid p) (\<lambda>q. q\<lparr>bp_answer := Some (said t)\<rparr>) r)"
  have "alike v ?A ?B"
    using assms by (intro alike_congs upd_alike) (auto simp: hush_def)
  note body = agree_submitted [OF this, of a now]
  have usable: "answerIsUsable s = answerIsUsable t" using assms by auto
  have round: "round_closed n (hushed v r) = round_closed n r" by (simp add: round_closed_def)
  show ?thesis
    unfolding br_submit_def Let_def said_def [symmetric] hush_simps usable round
    using body by (auto simp: br_refuse_def)
qed

lemma agree_player_act:
  assumes "answers_open r" and "i = j \<or> same_submission v i j" and "pid p = pi_playerId i"
  shows "agree v (fst (brain_player_act i (hush v p) (hushed v r))) (fst (brain_player_act j p r))"
proof (cases "same_submission v i j")
  case True
  then show ?thesis using assms(3) by (auto simp: same_submission_def brain_player_act_def Let_def intro!: agree_submit)
next
  case False
  then have j: "j = i" using assms(2) by simp
  show ?thesis
  proof (cases "pi_action i")
    case BpLeave
    with assms(1) show ?thesis unfolding j by (simp add: brain_player_act_def br_leave_def open_phase Let_def)
  next
    case BpClaim
    then show ?thesis unfolding j by (cases "sb_hostDisconnectedSince r") (simp_all add: brain_player_act_def br_claim_def)
  next
    case (BpSubmit n t)
    then show ?thesis unfolding j by (simp add: brain_player_act_def agree_submit)
  qed (use assms(1) in \<open>simp_all add: j brain_player_act_def br_rename_def br_readiness_def br_clear_def round_closed_def open_phase\<close>)
qed

section \<open>Requests\<close>

text \<open>
  A request of the room at its own time: the clock's own transaction (with either source), a read, and
  the two handlers.
\<close>

datatype brain_event =
  EvClock bool int
| EvRead js_string "js_string option" int
| EvHost brain_host_input
| EvPlayer brain_player_input

fun event_time :: "brain_event \<Rightarrow> int" where
  "event_time (EvClock _ now) = now"
| "event_time (EvRead _ _ now) = now"
| "event_time (EvHost i) = hi_now i"
| "event_time (EvPlayer i) = pi_now i"

fun brain_event_step :: "brain_event \<Rightarrow> brain_room \<Rightarrow> brain_room" where
  "brain_event_step (EvClock own now) r = fst (brain_pump (if own then pick else random_int) now r)"
| "brain_event_step (EvRead credential who _) r = fst (brain_read (\<lambda>_. []) credential who None r)"
| "brain_event_step (EvHost i) r = fst (brain_host_reduce False i r)"
| "brain_event_step (EvPlayer i) r = fst (brain_player_reduce i r)"

definition brain_request :: "brain_event \<Rightarrow> brain_room \<Rightarrow> brain_room" where
  "brain_request e r = brain_event_step e (r\<lparr>wall_clock := event_time e\<rparr>)"

definition brain_requests :: "brain_event list \<Rightarrow> brain_room \<Rightarrow> brain_room" where
  "brain_requests es r = fold brain_request es r"

text \<open>The round is still open after the handlers have looked at the clock.\<close>

fun open_after_clock :: "brain_event \<Rightarrow> brain_room \<Rightarrow> bool" where
  "open_after_clock (EvHost i) r = answers_open (brain_advance pick (hi_now i) (brain_touch (hi_playerId i) (hi_now i) True r))"
| "open_after_clock (EvPlayer i) r = answers_open (brain_advance pick (pi_now i) (brain_touch (Some (pi_playerId i)) (pi_now i) True r))"
| "open_after_clock _ r = True"

fun stays_open :: "brain_event list \<Rightarrow> brain_room \<Rightarrow> bool" where
  "stays_open [] r = answers_open r"
| "stays_open (e # es) r \<longleftrightarrow> answers_open r \<and> open_after_clock e (r\<lparr>wall_clock := event_time e\<rparr>) \<and> stays_open es (brain_request e r)"

text \<open>The same request, but for the words in an answer that is not the viewer's.\<close>

definition same_event :: "js_string option \<Rightarrow> brain_event \<Rightarrow> brain_event \<Rightarrow> bool" where
  "same_event v e e' \<longleftrightarrow> e = e' \<or> (\<exists>i j. e = EvPlayer i \<and> e' = EvPlayer j \<and> same_submission v i j)"

lemma by_id_pid: "brain_by_id i r = Some p \<Longrightarrow> pid p = i"
  by (auto simp: brain_by_id_def find_Some_iff)

lemma same_submission_fields:
  "same_submission v i j \<Longrightarrow> pi_playerId j = pi_playerId i \<and> pi_playerToken j = pi_playerToken i \<and>
   pi_actionId j = pi_actionId i \<and> pi_now j = pi_now i"
  by (auto simp: same_submission_def)

lemma agree_host_reduce:
  assumes "open_after_clock (EvHost i) r"
  shows "agree v (fst (brain_host_reduce False i (hushed v r))) (fst (brain_host_reduce False i r))"
proof (cases "brain_is_host i r")
  case True
  let ?t = "brain_touch (hi_playerId i) (hi_now i) True r"
  let ?x = "brain_advance pick (hi_now i) (hushed v ?t)" and ?y = "brain_advance pick (hi_now i) ?t"
  have xy: "agree v ?x ?y" by (simp add: agree_advance)
  then have same: "alike v ?x ?y" and "answers_open ?x" using assms by (simp_all add: agree_def)
  have seen: "sb_processedActions ?x = sb_processedActions ?y" using same by (metis alike_def hushed_fields(14))
  have act: "agree v (fst (brain_host_act False i ?x)) (fst (brain_host_act False i ?y))"
    using same \<open>answers_open ?x\<close> by (rule agree_both) (simp_all add: agree_host_act)
  show ?thesis using True xy act by (simp add: brain_host_reduce_def Let_def seen)
qed (simp add: brain_host_reduce_def)

text \<open>A player's act, with the player found again in the room after the clock.\<close>

definition player_acts :: "brain_player_input \<Rightarrow> brain_player \<Rightarrow> brain_room \<Rightarrow> brain_room" where
  "player_acts i p r = fst (brain_player_act i (nullish (brain_by_id (pid p) r) p) r)"

lemma agree_player_acts:
  assumes "answers_open r" and "i = j \<or> same_submission v i j" and "pid p = pi_playerId i"
  shows "agree v (player_acts i (hush v p) (hushed v r)) (player_acts j p r)"
proof (cases "brain_by_id (pid p) r")
  case None
  then show ?thesis using agree_player_act [OF assms] by (simp add: player_acts_def by_id_hushed)
next
  case (Some q)
  then have "pid q = pi_playerId i" using by_id_pid assms(3) by metis
  then show ?thesis using agree_player_act [OF assms(1,2), of q] Some by (simp add: player_acts_def by_id_hushed)
qed

lemma act_of_hushed: "brain_player_act i (hush v p) r = brain_player_act i p r"
  unfolding brain_player_act_def br_leave_def br_rename_def br_readiness_def br_claim_def br_submit_def br_clear_def
    hush_simps ready_hush by (rule refl)

lemma nullish_hush: "brain_player_act i (nullish q (hush v p)) r = brain_player_act i (nullish q p) r"
  by (cases q) (simp_all add: act_of_hushed)

lemma player_acts_hush: "player_acts i (hush v p) r = player_acts i p r"
  by (cases "brain_by_id (pid p) r") (simp_all add: player_acts_def act_of_hushed)

lemma agree_player_reduce:
  assumes "open_after_clock (EvPlayer i) r" and ij: "i = j \<or> same_submission v i j"
  shows "agree v (fst (brain_player_reduce i (hushed v r))) (fst (brain_player_reduce j r))"
proof -
  have j: "pi_playerId j = pi_playerId i" "pi_playerToken j = pi_playerToken i" "pi_actionId j = pi_actionId i" "pi_now j = pi_now i"
    using ij same_submission_fields by auto
  consider "brain_by_id (pi_playerId i) r = None"
    | p where "brain_by_id (pi_playerId i) r = Some p" "\<not> multiplayerCredentialsMatch r (pi_playerToken i) (bp_tokenHash p)"
    | p where "brain_by_id (pi_playerId i) r = Some p" "multiplayerCredentialsMatch r (pi_playerToken i) (bp_tokenHash p)"
    by (cases "brain_by_id (pi_playerId i) r") auto
  then show ?thesis
  proof cases
    case (3 p)
    then have p: "pid p = pi_playerId i" by (simp add: by_id_pid)
    let ?t = "brain_touch (Some (pi_playerId i)) (pi_now i) True r"
    let ?x = "brain_advance pick (pi_now i) (hushed v ?t)" and ?y = "brain_advance pick (pi_now i) ?t"
    have xy: "agree v ?x ?y" by (simp add: agree_advance)
    then have same: "alike v ?x ?y" and "answers_open ?x" using assms(1) by (simp_all add: agree_def)
    have seen: "sb_processedActions ?x = sb_processedActions ?y" using same by (metis alike_def hushed_fields(14))
    have at: "brain_player_reduce i (hushed v r) = (if multiplayerActionSeen (sb_processedActions ?x) (pi_actionId i) then (?x, BvAccept)
          else brain_player_act i (nullish (brain_by_id (pi_playerId i) ?x) p) ?x)"
      "brain_player_reduce j r = (if multiplayerActionSeen (sb_processedActions ?y) (pi_actionId i) then (?y, BvAccept)
          else brain_player_act j (nullish (brain_by_id (pi_playerId i) ?y) p) ?y)"
      using 3 p nullish_hush by (auto simp: brain_player_reduce_def Let_def j by_id_hushed split: option.split)
    have act: "agree v (player_acts i p ?x) (player_acts j p ?y)"
      using same \<open>answers_open ?x\<close>
      by (rule agree_both) (use ij p agree_player_acts [where p = p and v = v] in \<open>auto simp: player_acts_hush\<close>)
    show ?thesis
      unfolding at using xy act by (simp add: seen player_acts_def p)
  qed (simp_all add: brain_player_reduce_def j by_id_hushed)
qed

lemma authenticate_hushed [simp]: "brain_authenticate c i (hushed v r) = brain_authenticate c i r"
  by (cases i; cases "brain_by_id (the i) r") (simp_all add: brain_authenticate_def by_id_hushed)

lemma agree_step:
  assumes "open_after_clock e r" and "same_event v e e'"
  shows "agree v (brain_event_step e (hushed v r)) (brain_event_step e' r)"
proof (cases e)
  case (EvClock own now)
  with assms show ?thesis by (auto simp: same_event_def brain_pump_def agree_advance)
next
  case (EvRead c i now)
  with assms show ?thesis by (auto simp: same_event_def brain_read_def Let_def)
next
  case (EvHost i)
  with assms show ?thesis using agree_host_reduce [of i r v] by (auto simp: same_event_def)
next
  case (EvPlayer i)
  with assms show ?thesis using agree_player_reduce by (auto simp: same_event_def)
qed

lemma same_event_time: "same_event v e e' \<Longrightarrow> event_time e' = event_time e"
  by (auto simp: same_event_def dest: same_submission_fields)

lemma open_after_clock_alike:
  assumes "alike v r s"
  shows "open_after_clock e r = open_after_clock e s"
proof -
  have "open_after_clock e (hushed v r) = open_after_clock e r" for r
    by (cases e) (use agree_advance [OF plain_draws(1), of v] in \<open>auto simp: agree_def\<close>)
  then show ?thesis using assms unfolding alike_def by metis
qed

lemma agree_request:
  assumes "alike v r s" and "answers_open r" and "open_after_clock e (r\<lparr>wall_clock := event_time e\<rparr>)" and "same_event v e e'"
  shows "agree v (brain_request e r) (brain_request e' s)"
proof -
  let ?r = "r\<lparr>wall_clock := event_time e\<rparr>" and ?s = "s\<lparr>wall_clock := event_time e\<rparr>"
  have rs: "hushed v ?r = hushed v ?s" using assms(1) unfolding alike_def by (metis hushed_updates(9))
  then have "open_after_clock e ?s" using assms(3) open_after_clock_alike unfolding alike_def by blast
  then have "agree v (brain_event_step e (hushed v ?s)) (brain_event_step e' ?s)" using assms(4) by (rule agree_step)
  moreover have "agree v (brain_event_step e (hushed v ?r)) (brain_event_step e ?r)"
    using assms(3) by (rule agree_step) (simp add: same_event_def)
  ultimately show ?thesis
    unfolding brain_request_def same_event_time [OF assms(4)] rs by (auto simp: agree_def alike_def)
qed

theorem requests_alike:
  assumes "alike v r s" and "list_all2 (same_event v) es es'" and "stays_open es r"
  shows "alike v (brain_requests es r) (brain_requests es' s)"
  using assms(2,1,3)
proof (induction arbitrary: r s rule: list_all2_induct)
  case (Cons e es e' es')
  have "stays_open es (brain_request e r)" using Cons.prems(2) by simp
  moreover have "answers_open (brain_request e r)" using calculation by (cases es) auto
  ultimately show ?case
    using agree_request [OF Cons.prems(1), of e e'] Cons.prems(2) Cons.hyps(1) Cons.IH
    by (simp add: brain_requests_def agree_def)
qed (simp add: brain_requests_def)

section \<open>What the viewer is shown\<close>

lemma find_viewer: "find (\<lambda>p. Some (pid p) = v) (map (hush v) ps) = find (\<lambda>p. Some (pid p) = v) ps"
  by (induction ps) (auto simp: hush_def)

lemma snapshot_hushed: "brain_snapshot_of (hushed v r) v now = brain_snapshot_of r v now"
proof -
  have row: "brain_summaryOf (hushed v r) now (hush v p) = brain_summaryOf r now p" for p
    by (simp add: brain_summaryOf_def)
  have rows: "map (brain_summaryOf (hushed v r) now) (map (hush v) ps) = map (brain_summaryOf r now) ps" for ps
    by (simp add: row comp_def)
  have host: "(case map_option (hush v) h of None \<Rightarrow> False | Some h \<Rightarrow> \<not> brain_connected now h) =
      (case h of None \<Rightarrow> False | Some h \<Rightarrow> \<not> brain_connected now h)" for h
    by (cases h) simp_all
  have fields: "sb_roomId (hushed v r) = sb_roomId r" "sb_phaseStartedAt (hushed v r) = sb_phaseStartedAt r"
    "sb_question (hushed v r) = sb_question r" "sb_history (hushed v r) = sb_history r" "sb_winnerIds (hushed v r) = sb_winnerIds r"
    by (simp_all add: hushed_def)
  show ?thesis
    unfolding brain_snapshot_of_def hushed_fields host_hushed host rows find_viewer fields by (rule refl)
qed

lemma shown_alike: "alike v r s \<Longrightarrow> brain_snapshot_of r v now = brain_snapshot_of s v now"
  unfolding alike_def by (metis snapshot_hushed)

end
