(* ===== verification/BrainFacts.thy ===== *)
theory BrainFacts
  imports BrainVeil
begin

text \<open>
  What a phone is shown before the reveal, and what the corrections, the departures and the pause really
  do; with a small room to try them on.
\<close>

section \<open>A small room\<close>

definition sample_brain_seat :: "js_string \<Rightarrow> js_string option \<Rightarrow> brain_player" where
  "sample_brain_seat i answer = (new_brain_player i i (replicate 64 (CHR ''0'')) 0)\<lparr>bp_answer := answer\<rparr>"

text \<open>The third of three rounds, with the house rule: two say \<^verbatim>\<open>beach\<close>, one says \<^verbatim>\<open>dog\<close>.\<close>

definition sample_brain :: brain_room where
  "sample_brain =
     (new_brain_room test_services ''ABCDEFG'' ''h'' ''j''
        \<lparr>bci_rounds = Some 3, bci_toggles = Some \<lparr>patch_sayItAloud = None, patch_eliminateOddOne = Some True, patch_revealAuthors = None\<rparr>,
         bci_timings = None, bci_managed = False, bci_officialResultChannelId = None\<rparr>)
     \<lparr>sb_phase := BrSubmit, sb_round := 1, sb_hostPlayerId := Some ''a'', sb_phaseEndsAt := 45000,
      sb_players := [sample_brain_seat ''a'' (Some ''Beach''), sample_brain_seat ''b'' (Some ''the beach''), sample_brain_seat ''c'' (Some ''dog'')]\<rparr>"

lemma said:
  "normaliseAnswer ''Beach'' = ''beach''" "normaliseAnswer ''the beach'' = ''beach''"
  "normaliseAnswer ''dog'' = ''dog''"
  by code_simp+

lemma sample_brain_seat_fields [simp]:
  "pid (sample_brain_seat i a) = i" "bp_answer (sample_brain_seat i a) = a" "bp_out (sample_brain_seat i a) = False"
  "bp_score (sample_brain_seat i a) = 0" "bp_leftAt (sample_brain_seat i a) = None" "bp_aloneCount (sample_brain_seat i a) = 0"
  by (simp_all add: sample_brain_seat_def new_brain_player_def)

lemma sample_brain_fields [simp]:
  "sb_round sample_brain = 1" "sb_rounds sample_brain = 3" "sb_question sample_brain = None"
  "sb_toggles sample_brain = \<lparr>sayItAloud = True, eliminateOddOne = True, revealAuthors = True\<rparr>"
  "sb_phase sample_brain = BrSubmit" "sb_history sample_brain = []" "sb_hostPlayerId sample_brain = Some ''a''"
  "sb_players sample_brain =
     [sample_brain_seat ''a'' (Some ''Beach''), sample_brain_seat ''b'' (Some ''the beach''), sample_brain_seat ''c'' (Some ''dog'')]"
  by (simp_all add: sample_brain_def new_brain_room_def services.defs merge_toggles_def SAME_BRAIN_DEFAULT_TOGGLES_def
      clampRounds_def brain_limits)

definition sample_clusters :: "brain_cluster list" where
  "sample_clusters =
     [\<lparr>cl_label = ''beach'', cl_spellings = [''beach''], cl_playerIds = [''a'', ''b'']\<rparr>,
      \<lparr>cl_label = ''dog'', cl_spellings = [''dog''], cl_playerIds = [''c'']\<rparr>]"

definition sample_round :: brain_result where
  "sample_round =
     \<lparr>rd_round = 1, rd_question = [],
      rd_answers = [\<lparr>ba_playerId = ''a'', ba_text = ''Beach'', ba_normalised = ''beach''\<rparr>,
        \<lparr>ba_playerId = ''b'', ba_text = ''the beach'', ba_normalised = ''beach''\<rparr>,
        \<lparr>ba_playerId = ''c'', ba_text = ''dog'', ba_normalised = ''dog''\<rparr>],
      rd_clusters = sample_clusters, rd_herdIndex = Some 0, rd_pointsEach = 2, rd_oddPlayerId = Some ''c'',
      rd_split = False, rd_corrected = False\<rparr>"

lemma sample_scored: "computeResult sample_brain = sample_round"
  by (simp add: computeResult_def still_in_def round_answers_def map_filter_simps answerIsUsable_def said scoreRound_def
      clusterByExactMatch_def scoreClusters_def sort_by_def cluster_size_def oddPlayerOf_def brain_limits
      sample_round_def sample_clusters_def)

lemmas sample_eval = closeSubmit_def sample_scored applyResult_def awardResult_def mark_odd_def award_points_def
  herd_of_def upd_brain_def sample_round_def sample_clusters_def

section \<open>Before the reveal\<close>

text \<open>C31
  While a round is open nobody is shown what somebody else answered, only whether. Two rooms that differ
  at most in the words of the others' answers go through the same requests in any order (joins apart,
  which the game has closed): looks at the clock, reads and every host and player action, where the others
  may type different words, each pair fit to be an answer or neither. As long as the round has not been
  closed, by the clock, by the host or by the last answer, the viewer's screen is the same in both. Once
  the round is closed nothing is claimed: the scores are on the screens before the reveal
  (\<^verbatim>\<open>scores_show_before_the_reveal\<close>).
\<close>

theorem views_hide_the_answers:
  assumes "alike viewer r s" and "list_all2 (same_event viewer) es es'" and "stays_open es r"
  shows "brain_snapshot_of (brain_requests es r) viewer now = brain_snapshot_of (brain_requests es' s) viewer now"
  using requests_alike [OF assms] by (rule shown_alike)

text \<open>The first player watches while the third answers; the second has answered already.\<close>

definition waiting_brain :: "js_string \<Rightarrow> brain_room" where
  "waiting_brain word =
     sample_brain\<lparr>sb_players := [sample_brain_seat ''a'' None, sample_brain_seat ''b'' (Some word), sample_brain_seat ''c'' None]\<rparr>"

definition answers_come_in :: "js_string \<Rightarrow> brain_event list" where
  "answers_come_in word =
     [EvPlayer \<lparr>pi_playerId = ''c'', pi_playerToken = ''k'', pi_actionId = ''x'', pi_action = BpSubmit 1 word, pi_now = 100,
        pi_newId = ''n''\<rparr>,
      EvRead ''k'' (Some ''a'') 200,
      EvHost \<lparr>hi_hostToken = Some ''k'', hi_playerId = None, hi_playerToken = None, hi_actionId = ''y'', hi_action = BhExtend,
        hi_now = 300, hi_newId = ''n''\<rparr>]"

lemma answers_come_in_open: "stays_open (answers_come_in ''dog'') (waiting_brain ''beach'')"
  by code_simp

lemma views_hide_the_answers_witness:
  "let r = brain_requests (answers_come_in ''dog'') (waiting_brain ''beach'');
       s = brain_requests (answers_come_in ''cat'') (waiting_brain ''sea'')
   in brain_snapshot_of r (Some ''a'') 400 = brain_snapshot_of s (Some ''a'') 400 \<and>
      map bp_answer (sb_players r) = [None, Some ''beach'', Some ''dog''] \<and>
      map bp_answer (sb_players s) = [None, Some ''sea'', Some ''cat'']"
proof -
  have "alike (Some ''a'') (waiting_brain ''beach'') (waiting_brain ''sea'')"
    by (simp add: alike_def hushed_def waiting_brain_def hush_def sample_brain_seat_def new_brain_player_def)
  moreover have "list_all2 (same_event (Some ''a'')) (answers_come_in ''dog'') (answers_come_in ''cat'')"
  proof -
    have "answerIsUsable ''dog'' = answerIsUsable ''cat''" by code_simp
    then show ?thesis by (auto simp: answers_come_in_def same_event_def same_submission_def)
  qed
  moreover have "map bp_answer (sb_players (brain_requests (answers_come_in ''dog'') (waiting_brain ''beach''))) =
      [None, Some ''beach'', Some ''dog'']"
    "map bp_answer (sb_players (brain_requests (answers_come_in ''cat'') (waiting_brain ''sea''))) =
      [None, Some ''sea'', Some ''cat'']"
    by code_simp+
  ultimately show ?thesis
    unfolding Let_def
    using views_hide_the_answers [OF _ _ answers_come_in_open, of "Some ''a''" "waiting_brain ''sea''" "answers_come_in ''cat''" 400]
    by (intro conjI)
qed

text \<open>
  The scores are not withheld: while the words are said out loud, before anybody has spoken, every phone
  already shows who is in the herd and who has been sent out.
\<close>

lemma scores_show_before_the_reveal:
  "let r = closeSubmit 1000 sample_brain; s = brain_snapshot_of r (Some ''c'') 1000
   in sn_phase s = BrSayIt \<and> sn_result s = None \<and>
      map (\<lambda>p. (bs_id p, bs_score p, bs_out p)) (sn_players s) =
        [(''a'', 2, False), (''b'', 2, False), (''c'', 0, True)]"
  by (simp add: sample_eval Let_def brain_snapshot_of_def brain_summaryOf_def)

section \<open>Leaving in the last round\<close>

lemma winners_are_in:
  assumes "i \<in> set (winnersOf ps)" and "\<exists>(j, s, out)\<in>set ps. \<not> out"
  shows "\<exists>s. (i, s, False) \<in> set ps"
  using assms by (force simp: winnersOf_def Let_def filter_empty_conv split: if_splits)

text \<open>C40
  In the last round a player who leaves ends the game for everybody, whatever the phase: an open round is
  never scored. The winners are worked out again on the spot. As long as somebody else is still in, the
  one who left is not among them; when nobody is left in, everybody is looked at again and a player who
  left can win.
\<close>

theorem last_round_leave_ends_the_game:
  assumes dist: "distinct (map pid (sb_players r))" and "brain_by_id (pid p) r = Some p" and "sb_phase r \<noteq> BrLobby"
    and "sb_rounds r \<le> sb_round r"
  shows "let r' = fst (br_leave p a newId now r)
         in sb_phase r' = BrEnding \<and> sb_history r' = sb_history r \<and>
            sb_winnerIds r' = winnersOf (map (\<lambda>q. (pid q, bp_score q, bp_out q \<or> pid q = pid p)) (sb_players r)) \<and>
            ((\<exists>q\<in>set (sb_players r). pid q \<noteq> pid p \<and> \<not> bp_out q) \<longrightarrow> pid p \<notin> set (sb_winnerIds r'))"
proof -
  let ?r1 = "upd_brain (pid p) (gone (sha256_hex r (newId @ '':left:'' @ pid p)) now) r"
  let ?ps = "map (\<lambda>q. (pid q, bp_score q, bp_out q \<or> pid q = pid p)) (sb_players r)"
  have over: "gameOver ?r1" using assms(4) by (simp add: gameOver_def)
  have left: "fst (br_leave p a newId now r) =
      (brain_changed (if_host_transfer (pid p) now (brain_finish now ?r1)))
        \<lparr>sb_processedActions := rememberMultiplayerAction (sb_processedActions r) a\<rparr>"
    using assms(3) over by (simp add: br_leave_def br_done_def Let_def if_host_transfer_def brain_transferHost_def)
  have rows: "map (\<lambda>q. (pid q, bp_score q, bp_out q)) (sb_players (upd_brain (pid p) (gone h now) r)) = ?ps" for h
    by (simp add: upd_brain_def upd_first_by_id [OF dist] gone_def)
  have "pid p \<notin> set (winnersOf ?ps)" if "\<exists>q\<in>set (sb_players r). pid q \<noteq> pid p \<and> \<not> bp_out q"
  proof
    have "\<exists>(j, s, out)\<in>set ?ps. \<not> out" using that by auto
    moreover assume "pid p \<in> set (winnersOf ?ps)"
    ultimately obtain s where "(pid p, s, False) \<in> set ?ps" using winners_are_in by blast
    then show False by auto
  qed
  then show ?thesis
    unfolding left by (simp add: Let_def if_host_transfer_def brain_transferHost_def rows)
qed

text \<open>The two cases of the last round: others are still in, and the last one in leaves.\<close>

definition lonely_brain :: brain_room where
  "lonely_brain = sample_brain\<lparr>sb_round := 3, sb_players :=
     [(sample_brain_seat ''a'' None)\<lparr>bp_out := True\<rparr>, (sample_brain_seat ''b'' None)\<lparr>bp_score := 2\<rparr>,
      (sample_brain_seat ''c'' None)\<lparr>bp_out := True\<rparr>]\<rparr>"

lemma last_round_leave_ends_the_game_witness:
  "(let r = sample_brain\<lparr>sb_round := 3\<rparr>; r' = fst (br_leave (sample_brain_seat ''b'' (Some ''the beach'')) ''x'' ''n'' 5 r)
    in sb_phase r' = BrEnding \<and> sb_history r' = sb_history r \<and> ''b'' \<notin> set (sb_winnerIds r')) \<and>
   (let r' = fst (br_leave ((sample_brain_seat ''b'' None)\<lparr>bp_score := 2\<rparr>) ''x'' ''n'' 5 lonely_brain)
    in sb_phase r' = BrEnding \<and> sb_winnerIds r' = [''b''])"
  using last_round_leave_ends_the_game
      [of "sample_brain\<lparr>sb_round := 3\<rparr>" "sample_brain_seat ''b'' (Some ''the beach'')" "''x''" "''n''" 5]
    last_round_leave_ends_the_game [of lonely_brain "(sample_brain_seat ''b'' None)\<lparr>bp_score := 2\<rparr>" "''x''" "''n''" 5]
  by (simp add: brain_by_id_def Let_def lonely_brain_def winnersOf_def)

section \<open>Corrections and departures\<close>

lemma brain_by_id_upd:
  "(\<And>p. pid (f p) = pid p) \<Longrightarrow>
   brain_by_id x (upd_brain i f r) = (if i = x then map_option f (brain_by_id x r) else brain_by_id x r)"
  by (auto simp: brain_by_id_def upd_brain_def find_upd_first intro!: find_upd_first_other)

lemma by_id_award_points:
  "\<exists>k. brain_by_id x (award_points d s r) = map_option (\<lambda>p. p\<lparr>bp_score := bp_score p + k\<rparr>) (brain_by_id x r)"
proof -
  have "\<exists>k. brain_by_id x (fold (\<lambda>i. upd_brain i (\<lambda>p. p\<lparr>bp_score := bp_score p + a\<rparr>)) is r) =
      map_option (\<lambda>p. p\<lparr>bp_score := bp_score p + k\<rparr>) (brain_by_id x r)" for "is" a and r
  proof (induction "is" arbitrary: r)
    case Nil
    have "brain_by_id x r = map_option (\<lambda>p. p\<lparr>bp_score := bp_score p + 0\<rparr>) (brain_by_id x r)"
      by (cases "brain_by_id x r") simp_all
    then show ?case by (auto intro: exI [of _ 0])
  next
    case (Cons i "is")
    obtain k where "brain_by_id x (fold (\<lambda>i. upd_brain i (\<lambda>p. p\<lparr>bp_score := bp_score p + a\<rparr>)) is
          (upd_brain i (\<lambda>p. p\<lparr>bp_score := bp_score p + a\<rparr>) r)) =
        map_option (\<lambda>p. p\<lparr>bp_score := bp_score p + k\<rparr>) (brain_by_id x (upd_brain i (\<lambda>p. p\<lparr>bp_score := bp_score p + a\<rparr>) r))"
      using Cons.IH by blast
    then show ?case
      by (cases "brain_by_id x r"; cases "i = x") (auto simp: brain_by_id_upd add.assoc intro: exI [of _ "a + k"] exI [of _ k])
  qed
  then show ?thesis by (simp add: award_points_def)
qed

text \<open>What an award leaves of a departure, and whether the player is in afterwards.\<close>

lemma by_id_award:
  assumes "brain_by_id x r = Some p"
  shows "\<exists>q. brain_by_id x (awardResult d s r) = Some q \<and> bp_leftAt q = bp_leftAt p \<and>
    bp_out q = (if rd_oddPlayerId d = Some x \<and> x \<noteq> [] \<and> eliminateOddOne (sb_toggles r) then s = 1 else bp_out p)"
proof -
  obtain k where "brain_by_id x (award_points d s r) = Some (p\<lparr>bp_score := bp_score p + k\<rparr>)"
    using by_id_award_points [of x d s r] assms by auto
  then show ?thesis
    by (cases "rd_oddPlayerId d") (auto simp: awardResult_def mark_odd_def brain_by_id_upd)
qed

lemma by_id_fields [simp]:
  "brain_by_id x (brain_changed r) = brain_by_id x r" "brain_by_id x (r\<lparr>sb_processedActions := a\<rparr>) = brain_by_id x r"
  "brain_by_id x (r\<lparr>sb_result := b\<rparr>) = brain_by_id x r" "brain_by_id x (r\<lparr>sb_history := c\<rparr>) = brain_by_id x r"
  by (simp_all add: brain_by_id_def)

text \<open>C39
  Under the house rule, correcting a round puts its odd one out back in the game even when that player
  has left the room since: the seat is in play again, with nobody behind it.
\<close>

theorem correction_readmits_the_departed:
  assumes "sb_phase r = BrReveal" and "sb_result r = Some old" and "eliminateOddOne (sb_toggles r)"
    and "rd_oddPlayerId old = Some x" and "x \<noteq> []"
    and "brain_by_id x r = Some p" and "bp_leftAt p = Some t"
    and "from_no \<noteq> to_no" and "valid_index from_no (rd_clusters old)" and "valid_index to_no (rd_clusters old)"
    and "rd_oddPlayerId (merged_result (nat from_no) (nat to_no) old r) \<noteq> Some x"
  shows "\<exists>q. brain_by_id x (fst (br_merge (sb_round r) from_no to_no a r)) = Some q \<and>
    bp_leftAt q = Some t \<and> \<not> bp_out q"
proof -
  let ?d = "merged_result (nat from_no) (nat to_no) old r"
  obtain q1 where q1: "brain_by_id x (awardResult old (-1) r) = Some q1" "bp_leftAt q1 = Some t" "\<not> bp_out q1"
    using by_id_award [OF assms(6), of old "-1"] assms(3-5,7) by auto
  then have "brain_by_id x ((awardResult old (-1) r)\<lparr>sb_result := Some ?d\<rparr>) = Some q1" by simp
  from by_id_award [OF this, of ?d 1] obtain q2 where
    "brain_by_id x (awardResult ?d 1 ((awardResult old (-1) r)\<lparr>sb_result := Some ?d\<rparr>)) = Some q2"
    "bp_leftAt q2 = Some t" "\<not> bp_out q2"
    using q1 assms(11) by auto
  then show ?thesis
    using assms by (simp add: br_merge_def br_done_def replace_result_def Let_def)
qed

text \<open>The sample's odd one out leaves during the reveal; then the host merges the two groups.\<close>

definition left_brain :: brain_room where
  "left_brain =
     fst (br_leave (sample_brain_seat ''c'' None) ''x'' ''n'' 2000 (brain_enterPhase BrReveal 1500 (closeSubmit 1000 sample_brain)))"

lemma left_brain_fields:
  "sb_phase left_brain = BrReveal" "sb_result left_brain = Some sample_round" "sb_round left_brain = 1"
  "eliminateOddOne (sb_toggles left_brain)" "rd_clusters sample_round = sample_clusters"
  "rd_oddPlayerId sample_round = Some ''c''" "length sample_clusters = 2"
  "map (\<lambda>p. (pid p, bp_out p, bp_leftAt p)) (sb_players left_brain) =
     [(''a'', False, None), (''b'', False, None), (''c'', True, Some 2000)]"
  by (simp_all add: left_brain_def br_leave_def br_done_def Let_def gameOver_def still_in_def gone_def
      if_host_transfer_def sample_eval)

lemma correction_readmits_the_departed_witness:
  "\<exists>q. brain_by_id ''c'' (fst (br_merge 1 1 0 ''y'' left_brain)) = Some q \<and> bp_leftAt q = Some 2000 \<and> \<not> bp_out q"
proof -
  obtain pa pb pc where ps: "sb_players left_brain = [pa, pb, pc]" "pid pa = ''a''" "pid pb = ''b''" "pid pc = ''c''"
    "bp_leftAt pc = Some 2000"
    using left_brain_fields(8) by (auto simp: Cons_eq_map_conv)
  have "brain_by_id ''c'' left_brain = Some pc" by (simp add: brain_by_id_def ps)
  moreover have "rd_oddPlayerId (merged_result 1 0 sample_round left_brain) = None"
    by (simp add: merged_result_def Let_def split_beta merge_clusters_def absorb_def drop_at_def oddPlayerOf_def
        sample_round_def sample_clusters_def cluster_size_def split: option.splits)
  ultimately show ?thesis
    using correction_readmits_the_departed [of left_brain sample_round "''c''" pc 2000 1 0 "''y''"] left_brain_fields ps(5)
    by (simp add: valid_index_def)
qed

end
