(* ===== verification/BrainRequest.thy ===== *)
theory BrainRequest
  imports BrainPlay Json
begin

text \<open>
  The requests of Same Brain as they arrive, values of unknown type, and the validators that turn them into
  actions (\<^verbatim>\<open>things/shared/multiplayer-validation.ts\<close>, \<^verbatim>\<open>same-brain-room.functions.ts\<close>). \<^verbatim>\<open>None\<close> is a thrown
  error. What passes is exactly what the engine's types promise.
\<close>

section \<open>The shared validators\<close>

definition multiplayerRecord :: "json \<Rightarrow> (js_string \<times> json) list option" where
  "multiplayerRecord v = (case v of JObject entries \<Rightarrow> Some entries | _ \<Rightarrow> None)"

definition multiplayerBoundedText :: "nat \<Rightarrow> json option \<Rightarrow> js_string option" where
  "multiplayerBoundedText maxLength v =
     (case Option.bind v json_string of None \<Rightarrow> None | Some s \<Rightarrow> if maxLength < length s then None else Some s)"

definition multiplayerText :: "nat \<Rightarrow> json option \<Rightarrow> js_string option" where
  "multiplayerText maxLength v =
     (case multiplayerBoundedText maxLength v of None \<Rightarrow> None | Some s \<Rightarrow> if length s < 1 then None else Some s)"

definition multiplayerCredential :: "json option \<Rightarrow> js_string option" where
  "multiplayerCredential v = multiplayerText 120 v"

definition multiplayerSequence :: "json option \<Rightarrow> int option" where
  "multiplayerSequence v =
     (case Option.bind v json_number of
        Some (Some n) \<Rightarrow> (if n < 0 then None else Some n)
      | _ \<Rightarrow> None)"

definition json_bool :: "json option \<Rightarrow> bool option" where
  "json_bool v = (case v of Some (JBool b) \<Rightarrow> Some b | _ \<Rightarrow> None)"

text \<open>\<^verbatim>\<open>x === undefined ? undefined : f(x)\<close>: the outer option is the throw.\<close>

definition unless_undefined :: "(json option \<Rightarrow> 'a option) \<Rightarrow> json option \<Rightarrow> 'a option option" where
  "unless_undefined f v = (case v of None \<Rightarrow> Some None | Some _ \<Rightarrow> map_option Some (f v))"

section \<open>House rules and timings\<close>

definition request_toggles :: "json option \<Rightarrow> brain_toggles_patch option" where
  "request_toggles v =
     map_option (\<lambda>d. \<lparr>patch_sayItAloud = json_bool (map_of d ''sayItAloud''),
                      patch_eliminateOddOne = json_bool (map_of d ''eliminateOddOne''),
                      patch_revealAuthors = json_bool (map_of d ''revealAuthors'')\<rparr>)
       (Option.bind v multiplayerRecord)"

definition request_timings :: "json option \<Rightarrow> brain_timings_patch option" where
  "request_timings v =
     Option.bind (Option.bind v multiplayerRecord) (\<lambda>d.
     Option.bind (unless_undefined multiplayerSequence (map_of d ''prompt'')) (\<lambda>p.
     Option.bind (unless_undefined multiplayerSequence (map_of d ''submit'')) (\<lambda>s.
     Option.bind (unless_undefined multiplayerSequence (map_of d ''sayIt'')) (\<lambda>i.
     Option.bind (unless_undefined multiplayerSequence (map_of d ''reveal'')) (\<lambda>r.
     Some \<lparr>patch_prompt = p, patch_submit = s, patch_sayIt = i, patch_reveal = r\<rparr>)))))"

section \<open>Actions\<close>

definition request_configure :: "(js_string \<times> json) list \<Rightarrow> brain_host_action option" where
  "request_configure d =
     Option.bind (unless_undefined multiplayerSequence (map_of d ''rounds'')) (\<lambda>n.
     Option.bind (unless_undefined request_toggles (map_of d ''toggles'')) (\<lambda>t.
     Option.bind (unless_undefined request_timings (map_of d ''timings'')) (\<lambda>m.
     Some (BhConfigure n t m))))"

definition request_merge :: "(js_string \<times> json) list \<Rightarrow> brain_host_action option" where
  "request_merge d =
     Option.bind (multiplayerSequence (map_of d ''round'')) (\<lambda>n.
     Option.bind (multiplayerSequence (map_of d ''from'')) (\<lambda>f.
     map_option (BhMerge n f) (multiplayerSequence (map_of d ''to''))))"

definition request_start :: "(js_string \<times> json) list \<Rightarrow> brain_host_action option" where
  "request_start d =
     (case Option.bind (map_of d ''removePlayerIds'') json_array of
        None \<Rightarrow> Some (BhStart [])
      | Some vs \<Rightarrow> map_option BhStart (map_while_some (\<lambda>v. multiplayerText 120 (Some v)) (take 16 vs)))"

definition request_admission :: "(js_string \<times> json) list \<Rightarrow> brain_host_action option" where
  "request_admission d = map_option BhAdmission (json_bool (map_of d ''locked''))"

text \<open>\<^verbatim>\<open>data.type\<close>; anything that is not a string is none of the types.\<close>

definition type_of_request :: "(js_string \<times> json) list \<Rightarrow> js_string" where
  "type_of_request d = nullish (Option.bind (map_of d ''type'') json_string) []"

definition host_action_of :: "(js_string \<times> json) list \<Rightarrow> brain_host_action option" where
  "host_action_of d =
     (let ty = type_of_request d in
      if ty = ''game.configure'' then request_configure d
      else if ty = ''room.admission.set'' then request_admission d
      else if ty = ''player.remove'' then map_option BhRemove (multiplayerText 120 (map_of d ''playerId''))
      else if ty = ''host.pass'' then map_option BhPass (multiplayerText 120 (map_of d ''playerId''))
      else if ty = ''result.merge'' then request_merge d
      else if ty = ''result.reset'' then map_option BhReset (multiplayerSequence (map_of d ''round''))
      else if ty = ''game.start'' then request_start d
      else if ty = ''game.skipQuestion'' then Some BhSkipQuestion
      else if ty = ''phase.extend'' then Some BhExtend
      else if ty = ''phase.advance'' then Some BhAdvance
      else if ty = ''phase.pause'' then Some BhPause
      else if ty = ''phase.resume'' then Some BhResume
      else if ty = ''game.replay'' then Some BhReplay
      else if ty = ''game.lobby'' then Some BhLobby
      else if ty = ''game.end'' then Some BhEnd
      else None)"

text \<open>The action id is read before the type.\<close>

definition request_action ::
  "((js_string \<times> json) list \<Rightarrow> 'a option) \<Rightarrow> json \<Rightarrow> (js_string \<times> 'a) option" where
  "request_action action_of v =
     Option.bind (multiplayerRecord v) (\<lambda>d.
     Option.bind (multiplayerText 80 (map_of d ''actionId'')) (\<lambda>i.
     map_option (Pair i) (action_of d)))"

definition hostAction :: "json \<Rightarrow> (js_string \<times> brain_host_action) option" where
  "hostAction v = request_action host_action_of v"

definition request_submit :: "(js_string \<times> json) list \<Rightarrow> brain_player_action option" where
  "request_submit d =
     Option.bind (multiplayerSequence (map_of d ''round'')) (\<lambda>n.
     map_option (BpSubmit n) (multiplayerBoundedText SAME_BRAIN_MAX_ANSWER_LENGTH (map_of d ''text'')))"

definition player_action_of :: "(js_string \<times> json) list \<Rightarrow> brain_player_action option" where
  "player_action_of d =
     (let ty = type_of_request d in
      if ty = ''room.leave'' then Some BpLeave
      else if ty = ''player.rename''
      then map_option (\<lambda>s. BpRename (js_trim s)) (multiplayerBoundedText 32 (map_of d ''name''))
      else if ty = ''readiness.set'' then map_option BpReadiness (json_bool (map_of d ''ready''))
      else if ty = ''host.claim'' then Some BpClaim
      else if ty = ''answer.submit'' then request_submit d
      else if ty = ''answer.clear'' then map_option BpClear (multiplayerSequence (map_of d ''round''))
      else None)"

definition playerAction :: "json \<Rightarrow> (js_string \<times> brain_player_action) option" where
  "playerAction v = request_action player_action_of v"

section \<open>Creating, joining and reading\<close>

record create_request =
  cq_rounds :: "int option"
  cq_toggles :: "brain_toggles_patch option"
  cq_timings :: "brain_timings_patch option"

definition createSameBrainRoom_request :: "json \<Rightarrow> create_request option" where
  "createSameBrainRoom_request v =
     Option.bind (multiplayerRecord v) (\<lambda>d.
     Option.bind (unless_undefined multiplayerSequence (map_of d ''rounds'')) (\<lambda>n.
     Option.bind (unless_undefined request_toggles (map_of d ''toggles'')) (\<lambda>t.
     map_option (\<lambda>m. \<lparr>cq_rounds = n, cq_toggles = t, cq_timings = m\<rparr>)
       (unless_undefined request_timings (map_of d ''timings'')))))"

definition multiplayerRoomId :: "json option \<Rightarrow> js_string option" where
  "multiplayerRoomId v =
     (case multiplayerText 12 v of
        None \<Rightarrow> None
      | Some s \<Rightarrow> (let i = to_upper s in if room_id_pattern i then Some i else None))"

record join_request =
  jq_roomId :: js_string
  jq_joinToken :: "js_string option"
  jq_name :: js_string
  jq_joinId :: js_string
  jq_hostToken :: "js_string option"

definition joinSameBrainRoom_request :: "json \<Rightarrow> join_request option" where
  "joinSameBrainRoom_request v =
     Option.bind (multiplayerRecord v) (\<lambda>d.
     Option.bind (multiplayerRoomId (map_of d ''roomId'')) (\<lambda>room.
     Option.bind (unless_undefined multiplayerCredential (map_of d ''joinToken'')) (\<lambda>t.
     Option.bind (multiplayerText 40 (map_of d ''name'')) (\<lambda>name.
     Option.bind (multiplayerText 80 (map_of d ''joinId'')) (\<lambda>i.
     map_option (\<lambda>h. \<lparr>jq_roomId = room, jq_joinToken = t, jq_name = name, jq_joinId = i, jq_hostToken = h\<rparr>)
       (unless_undefined multiplayerCredential (map_of d ''hostToken'')))))))"

record read_request =
  rq_roomId :: js_string
  rq_credential :: js_string
  rq_playerId :: "js_string option"
  rq_lastSequence :: int
  rq_lastDigest :: "js_string option"

definition readSameBrainSnapshot_request :: "json \<Rightarrow> read_request option" where
  "readSameBrainSnapshot_request v =
     Option.bind (multiplayerRecord v) (\<lambda>d.
     Option.bind (multiplayerRoomId (map_of d ''roomId'')) (\<lambda>room.
     Option.bind (multiplayerCredential (map_of d ''credential'')) (\<lambda>c.
     Option.bind (unless_undefined (multiplayerText 120) (map_of d ''playerId'')) (\<lambda>p.
     map_option (\<lambda>n. \<lparr>rq_roomId = room, rq_credential = c, rq_playerId = p, rq_lastSequence = n,
         rq_lastDigest = map_option (take 24) (Option.bind (map_of d ''lastDigest'') json_string)\<rparr>)
       (multiplayerSequence (map_of d ''lastSequence''))))))"

record host_request =
  hq_roomId :: js_string
  hq_hostToken :: "js_string option"
  hq_playerId :: "js_string option"
  hq_playerToken :: "js_string option"
  hq_action :: "js_string \<times> brain_host_action"

definition hostAction_request :: "json \<Rightarrow> host_request option" where
  "hostAction_request v =
     Option.bind (multiplayerRecord v) (\<lambda>d.
     Option.bind (multiplayerRoomId (map_of d ''roomId'')) (\<lambda>room.
     Option.bind (unless_undefined multiplayerCredential (map_of d ''hostToken'')) (\<lambda>h.
     Option.bind (unless_undefined (multiplayerText 120) (map_of d ''playerId'')) (\<lambda>p.
     Option.bind (unless_undefined multiplayerCredential (map_of d ''playerToken'')) (\<lambda>t.
     map_option (\<lambda>a. \<lparr>hq_roomId = room, hq_hostToken = h, hq_playerId = p, hq_playerToken = t, hq_action = a\<rparr>)
       (Option.bind (map_of d ''action'') hostAction))))))"

record player_request =
  lq_roomId :: js_string
  lq_playerId :: js_string
  lq_playerToken :: js_string
  lq_action :: "js_string \<times> brain_player_action"

definition playerAction_request :: "json \<Rightarrow> player_request option" where
  "playerAction_request v =
     Option.bind (multiplayerRecord v) (\<lambda>d.
     Option.bind (multiplayerRoomId (map_of d ''roomId'')) (\<lambda>room.
     Option.bind (multiplayerText 120 (map_of d ''playerId'')) (\<lambda>p.
     Option.bind (multiplayerCredential (map_of d ''playerToken'')) (\<lambda>t.
     map_option (\<lambda>a. \<lparr>lq_roomId = room, lq_playerId = p, lq_playerToken = t, lq_action = a\<rparr>)
       (Option.bind (map_of d ''action'') playerAction)))))"

section \<open>What the types promise\<close>

definition text_typed :: "nat \<Rightarrow> js_string \<Rightarrow> bool" where
  "text_typed maxLength s \<longleftrightarrow> s \<noteq> [] \<and> length s \<le> maxLength"

definition natural :: "int option \<Rightarrow> bool" where
  "natural v \<longleftrightarrow> (case v of None \<Rightarrow> True | Some n \<Rightarrow> 0 \<le> n)"

definition patch_typed :: "brain_timings_patch \<Rightarrow> bool" where
  "patch_typed p \<longleftrightarrow> natural (patch_prompt p) \<and> natural (patch_submit p) \<and> natural (patch_sayIt p) \<and> natural (patch_reveal p)"

fun host_action_typed :: "brain_host_action \<Rightarrow> bool" where
  "host_action_typed (BhConfigure n t m) \<longleftrightarrow> natural n \<and> (case m of None \<Rightarrow> True | Some p \<Rightarrow> patch_typed p)"
| "host_action_typed (BhStart ids) \<longleftrightarrow> length ids \<le> 16 \<and> (\<forall>i\<in>set ids. text_typed 120 i)"
| "host_action_typed (BhMerge n f t) \<longleftrightarrow> 0 \<le> n \<and> 0 \<le> f \<and> 0 \<le> t"
| "host_action_typed (BhReset n) \<longleftrightarrow> 0 \<le> n"
| "host_action_typed (BhRemove i) \<longleftrightarrow> text_typed 120 i"
| "host_action_typed (BhPass i) \<longleftrightarrow> text_typed 120 i"
| "host_action_typed _ \<longleftrightarrow> True"

fun player_action_typed :: "brain_player_action \<Rightarrow> bool" where
  "player_action_typed (BpRename name) \<longleftrightarrow> length name \<le> 32 \<and> js_trim name = name"
| "player_action_typed (BpSubmit n t) \<longleftrightarrow> 0 \<le> n \<and> length t \<le> 32"
| "player_action_typed (BpClear n) \<longleftrightarrow> 0 \<le> n"
| "player_action_typed _ \<longleftrightarrow> True"

section \<open>Soundness\<close>

lemma bounded_text_Some: "multiplayerBoundedText m v = Some s \<longleftrightarrow> v = Some (JString s) \<and> length s \<le> m"
  by (cases v) (auto simp: multiplayerBoundedText_def json_string_def split: json.splits)

lemma bounded_back [simp]: "length s \<le> m \<Longrightarrow> multiplayerBoundedText m (Some (JString s)) = Some s"
  by (simp add: bounded_text_Some)

lemma text_Some: "multiplayerText m v = Some s \<longleftrightarrow> v = Some (JString s) \<and> text_typed m s"
  by (cases v)
     (auto simp: multiplayerText_def multiplayerBoundedText_def json_string_def text_typed_def
       split: json.splits option.splits if_splits)

lemma text_back [simp]: "text_typed m s \<Longrightarrow> multiplayerText m (Some (JString s)) = Some s"
  by (simp add: text_Some)

lemma sequence_Some: "multiplayerSequence v = Some n \<longleftrightarrow> v = Some (JNumber (Some n)) \<and> 0 \<le> n"
  by (cases v) (auto simp: multiplayerSequence_def json_number_def split: json.splits option.splits)

lemma bool_Some: "json_bool v = Some b \<longleftrightarrow> v = Some (JBool b)"
  by (auto simp: json_bool_def split: option.splits json.splits)

lemma unless_Some:
  "unless_undefined f v = Some x \<longleftrightarrow> (case x of None \<Rightarrow> v = None | Some y \<Rightarrow> v \<noteq> None \<and> f v = Some y)"
  by (auto simp: unless_undefined_def split: option.splits)

lemma js_trim_length: "length (js_trim s) \<le> length s"
  unfolding js_trim_def by (metis length_dropWhile_le length_rev order_trans)

lemma map_while_some_Some:
  "map_while_some f xs = Some ys \<Longrightarrow> length ys = length xs \<and> (\<forall>y\<in>set ys. \<exists>x\<in>set xs. f x = Some y)"
proof (induction xs arbitrary: ys)
  case (Cons x xs)
  then show ?case by (auto split: option.splits) blast
qed simp

lemma seq_natural: "unless_undefined multiplayerSequence v = Some n \<Longrightarrow> natural n"
  by (auto simp: unless_Some natural_def sequence_Some split: option.splits)

lemma timings_typed: "request_timings v = Some p \<Longrightarrow> patch_typed p"
  by (auto simp: request_timings_def patch_typed_def dest!: seq_natural split: bind_split_asm)

lemma configure_typed: "request_configure d = Some a \<Longrightarrow> host_action_typed a"
  by (auto simp: request_configure_def unless_Some [of request_timings] timings_typed
      dest!: seq_natural split: bind_split_asm option.splits)

lemma merge_typed: "request_merge d = Some a \<Longrightarrow> host_action_typed a"
  by (auto simp: request_merge_def sequence_Some split: bind_splits)

lemma start_typed: "request_start d = Some a \<Longrightarrow> host_action_typed a"
  by (auto simp: request_start_def text_Some dest!: map_while_some_Some split: option.splits)

lemma admission_typed: "request_admission d = Some a \<Longrightarrow> host_action_typed a"
  by (auto simp: request_admission_def)

lemma host_action_of_typed: "host_action_of d = Some a \<Longrightarrow> host_action_typed a"
  unfolding host_action_of_def Let_def
  by (auto simp: sequence_Some text_Some intro: configure_typed merge_typed start_typed admission_typed
      split: if_split_asm)

lemma player_action_of_typed: "player_action_of d = Some a \<Longrightarrow> player_action_typed a"
  by (auto simp: player_action_of_def Let_def request_submit_def bounded_text_Some sequence_Some
      SAME_BRAIN_MAX_ANSWER_LENGTH_def intro: order_trans [OF js_trim_length] split: if_splits bind_splits)

lemma request_action_Some:
  "request_action f v = Some (i, a) \<longleftrightarrow>
   (\<exists>d. v = JObject d \<and> map_of d ''actionId'' = Some (JString i) \<and> text_typed 80 i \<and> f d = Some a)"
  by (cases v) (auto simp: request_action_def multiplayerRecord_def text_Some split: bind_splits)

section \<open>Completeness\<close>

definition opt_field :: "js_string \<Rightarrow> json option \<Rightarrow> (js_string \<times> json) list" where
  "opt_field k v = (case v of None \<Rightarrow> [] | Some x \<Rightarrow> [(k, x)])"

definition num :: "int \<Rightarrow> json" where
  "num n = JNumber (Some n)"

definition toggles_json :: "brain_toggles_patch \<Rightarrow> json" where
  "toggles_json p = JObject (opt_field ''sayItAloud'' (map_option JBool (patch_sayItAloud p)) @
     opt_field ''eliminateOddOne'' (map_option JBool (patch_eliminateOddOne p)) @
     opt_field ''revealAuthors'' (map_option JBool (patch_revealAuthors p)))"

definition timings_json :: "brain_timings_patch \<Rightarrow> json" where
  "timings_json p = JObject (opt_field ''prompt'' (map_option num (patch_prompt p)) @
     opt_field ''submit'' (map_option num (patch_submit p)) @ opt_field ''sayIt'' (map_option num (patch_sayIt p)) @
     opt_field ''reveal'' (map_option num (patch_reveal p)))"

fun host_action_fields :: "brain_host_action \<Rightarrow> (js_string \<times> json) list" where
  "host_action_fields (BhConfigure n t m) =
     [(''type'', JString ''game.configure'')] @ opt_field ''rounds'' (map_option num n) @
     opt_field ''toggles'' (map_option toggles_json t) @ opt_field ''timings'' (map_option timings_json m)"
| "host_action_fields (BhStart ids) =
     [(''type'', JString ''game.start''), (''removePlayerIds'', JArray (map JString ids))]"
| "host_action_fields (BhAdmission b) = [(''type'', JString ''room.admission.set''), (''locked'', JBool b)]"
| "host_action_fields BhSkipQuestion = [(''type'', JString ''game.skipQuestion'')]"
| "host_action_fields BhExtend = [(''type'', JString ''phase.extend'')]"
| "host_action_fields BhAdvance = [(''type'', JString ''phase.advance'')]"
| "host_action_fields BhPause = [(''type'', JString ''phase.pause'')]"
| "host_action_fields BhResume = [(''type'', JString ''phase.resume'')]"
| "host_action_fields (BhMerge n f t) =
     [(''type'', JString ''result.merge''), (''round'', num n), (''from'', num f), (''to'', num t)]"
| "host_action_fields (BhReset n) = [(''type'', JString ''result.reset''), (''round'', num n)]"
| "host_action_fields (BhRemove i) = [(''type'', JString ''player.remove''), (''playerId'', JString i)]"
| "host_action_fields (BhPass i) = [(''type'', JString ''host.pass''), (''playerId'', JString i)]"
| "host_action_fields BhReplay = [(''type'', JString ''game.replay'')]"
| "host_action_fields BhLobby = [(''type'', JString ''game.lobby'')]"
| "host_action_fields BhEnd = [(''type'', JString ''game.end'')]"

fun player_action_fields :: "brain_player_action \<Rightarrow> (js_string \<times> json) list" where
  "player_action_fields BpLeave = [(''type'', JString ''room.leave'')]"
| "player_action_fields (BpRename name) = [(''type'', JString ''player.rename''), (''name'', JString name)]"
| "player_action_fields (BpReadiness b) = [(''type'', JString ''readiness.set''), (''ready'', JBool b)]"
| "player_action_fields (BpSubmit n t) =
     [(''type'', JString ''answer.submit''), (''round'', num n), (''text'', JString t)]"
| "player_action_fields (BpClear n) = [(''type'', JString ''answer.clear''), (''round'', num n)]"
| "player_action_fields BpClaim = [(''type'', JString ''host.claim'')]"

lemma opt_field_map [simp]:
  "map_of d k = None \<Longrightarrow> map_of (opt_field k v @ d) k = v" "j \<noteq> k \<Longrightarrow> map_of (opt_field k v @ d) j = map_of d j"
  "map_of (opt_field k v) k = v" "j \<noteq> k \<Longrightarrow> map_of (opt_field k v) j = None"
  by (cases v; simp add: opt_field_def)+

lemma seq_num: "0 \<le> n \<Longrightarrow> multiplayerSequence (Some (num n)) = Some n"
  by (simp add: sequence_Some num_def)

lemma unless_num:
  "natural n \<Longrightarrow> unless_undefined multiplayerSequence (map_option num n) = Some n"
  by (cases n) (simp_all add: unless_undefined_def seq_num natural_def)

lemma bool_back: "json_bool (map_option JBool v) = v"
  by (cases v) (simp_all add: json_bool_def)

lemma toggles_back: "request_toggles (Some (toggles_json p)) = Some p"
proof -
  show ?thesis by (simp add: request_toggles_def toggles_json_def multiplayerRecord_def bool_back del: map_of_append)
qed

lemma timings_back: "patch_typed p \<Longrightarrow> request_timings (Some (timings_json p)) = Some p"
proof -
  assume typed: "patch_typed p"
  from typed show ?thesis
    by (simp add: request_timings_def timings_json_def multiplayerRecord_def patch_typed_def unless_num
        del: map_of_append)
qed

lemma host_action_back:
  "host_action_typed a \<Longrightarrow> host_action_of ((''actionId'', i) # host_action_fields a) = Some a"
proof (induction a rule: host_action_fields.induct)
  case (1 n t m)
  have "unless_undefined request_toggles (map_option toggles_json t) = Some t"
    by (cases t) (simp_all add: unless_undefined_def toggles_back)
  moreover have "unless_undefined request_timings (map_option timings_json m) = Some m"
    using 1 by (cases m) (simp_all add: unless_undefined_def timings_back)
  ultimately show ?case
    using 1 by (simp add: host_action_of_def type_of_request_def request_configure_def unless_num
        del: map_of_append)
next
  case (2 ids)
  then have "map_while_some (\<lambda>v. multiplayerText 120 (Some v)) (map JString ids) = Some ids"
    by (intro map_while_some_all) (simp add: text_Some)
  with 2 show ?case by (simp add: host_action_of_def type_of_request_def request_start_def take_map)
qed (simp_all add: host_action_of_def type_of_request_def request_admission_def json_bool_def request_merge_def
      seq_num text_Some)

lemma player_action_back:
  "player_action_typed a \<Longrightarrow> player_action_of ((''actionId'', i) # player_action_fields a) = Some a"
  by (cases a)
     (simp_all add: player_action_of_def type_of_request_def request_submit_def json_bool_def seq_num
       SAME_BRAIN_MAX_ANSWER_LENGTH_def)

lemma fields_have_id [simp]: "map_of ((''actionId'', v) # d) ''actionId'' = Some v"
  by simp

text \<open>C12
  The validators let through exactly the actions of the engine's types: what passes is well typed (ids
  present and bounded, numbers natural, at most sixteen removals, an answer of at most 32 characters), and
  every well-typed action has a request that passes and gives it back.
\<close>

theorem requests_are_typed:
  "((\<exists>v. hostAction v = Some (i, a)) \<longleftrightarrow> text_typed 80 i \<and> host_action_typed a) \<and>
   ((\<exists>v. playerAction v = Some (i, b)) \<longleftrightarrow> text_typed 80 i \<and> player_action_typed b)"
proof -
  have "hostAction (JObject ((''actionId'', JString i) # host_action_fields a)) = Some (i, a)"
    if "text_typed 80 i" "host_action_typed a"
    using that host_action_back by (simp add: hostAction_def request_action_Some)
  moreover have "playerAction (JObject ((''actionId'', JString i) # player_action_fields b)) = Some (i, b)"
    if "text_typed 80 i" "player_action_typed b"
    using that player_action_back by (simp add: playerAction_def request_action_Some)
  ultimately show ?thesis
    using host_action_of_typed player_action_of_typed
    unfolding hostAction_def playerAction_def request_action_Some by blast
qed

text \<open>
  A well-typed name may be empty, and the engine checks only that nobody else has it: a player can rename
  to nothing, or to more than the 24 characters that a join allows.
\<close>

lemma rename_to_nothing:
  "playerAction (JObject [(''actionId'', JString ''x''), (''type'', JString ''player.rename''), (''name'', JString ''  '')]) =
     Some (''x'', BpRename [])"
  "sb_phase r = BrLobby \<Longrightarrow> \<forall>q\<in>set (sb_players r). bp_name q \<noteq> [] \<Longrightarrow> snd (br_rename [] p a r) = BvAccept"
proof -
  show "playerAction (JObject [(''actionId'', JString ''x''), (''type'', JString ''player.rename''), (''name'', JString ''  '')]) =
     Some (''x'', BpRename [])"
    by (simp add: playerAction_def request_action_Some text_typed_def player_action_of_def type_of_request_def
        js_trim_def is_space_def)
  show "sb_phase r = BrLobby \<Longrightarrow> \<forall>q\<in>set (sb_players r). bp_name q \<noteq> [] \<Longrightarrow> snd (br_rename [] p a r) = BvAccept"
    by (auto simp: br_rename_def br_done_def to_lower_def list_ex_iff)
qed

end
