(* ===== verification/BrainSamples.thy ===== *)
theory BrainSamples
  imports BrainReachable
begin

text \<open>
  A game of Same Brain from its creation: three people sit down, the host starts it, and two looks at the
  clock later the first round has been closed unanswered.
\<close>

definition sample_brain_create :: brain_create_input where
  "sample_brain_create =
     \<lparr>bci_rounds = Some 3, bci_toggles = None, bci_timings = None, bci_managed = False,
      bci_officialResultChannelId = None\<rparr>"

definition opened_brain :: brain_room where
  "opened_brain = fst (the (createSameBrainRoom (\<lambda>_. False) test_services sample_brain_create))"

definition sit_down :: "js_string \<Rightarrow> brain_join_input" where
  "sit_down n = \<lparr>bji_joinToken = None, bji_name = n, bji_joinId = n, bji_hostToken = None\<rparr>"

definition seated_brain :: brain_room where
  "seated_brain =
     fst (brain_join (sit_down ''Cy'') (fst (brain_join (sit_down ''Bo'') (fst (brain_join (sit_down ''Al'') opened_brain)))))"

definition started_brain :: brain_room where
  "started_brain =
     fst (brain_host_reduce True
       \<lparr>hi_hostToken = Some ''k'', hi_playerId = None, hi_playerToken = None, hi_actionId = ''s'', hi_action = BhStart [],
        hi_now = 20, hi_newId = ''n''\<rparr> seated_brain)"

definition closed_brain :: brain_room where
  "closed_brain = fst (brain_pump pick 90000 (fst (brain_pump pick 10000 started_brain)))"

text \<open>What a lobby of the sample looks like, and what sitting down makes of it.\<close>

definition sample_lobby :: "js_string list \<Rightarrow> brain_room \<Rightarrow> bool" where
  "sample_lobby names r \<longleftrightarrow> sha256_hex r = sha256_hex test_services \<and> token_source r = token_source test_services \<and>
     token_cursor r = 2 * length names + 2 \<and> wall_clock r = 0 \<and>
     sb_phase r = BrLobby \<and> \<not> sb_managed r \<and> sb_joinLocked r = None \<and> map bp_name (sb_players r) = names \<and>
     map fst (sb_joinReceipts r) = names \<and> (\<forall>(_, rc)\<in>set (sb_joinReceipts r). 0 < jr_expiresAt rc) \<and> 0 < sb_expiresAt r \<and>
     map pid (sb_players r) = map (\<lambda>i. ''t'' @ nat_str (2 * i + 3)) [0..<length names] \<and>
     list_all multiplayerPlayerReady (sb_players r) \<and> sb_processedActions r = [] \<and> sb_phaseEndsAt r = 0 \<and>
     sb_pausedAt r = None \<and> length (sb_hostHash r) = 64 \<and> sb_hostHash r = replicate 64 (CHR ''0'') \<and>
     sb_rounds r = 3 \<and> sb_timings r = SAME_BRAIN_DEFAULT_TIMINGS"

lemma opened: "createSameBrainRoom (\<lambda>_. False) test_services sample_brain_create \<noteq> None"
  by code_simp

lemma draw_chars_services:
  "sha256_hex (snd (draw_chars n w)) = sha256_hex w \<and> token_source (snd (draw_chars n w)) = token_source w \<and>
   token_cursor (snd (draw_chars n w)) = token_cursor w \<and> wall_clock (snd (draw_chars n w)) = wall_clock w"
  by (induction n arbitrary: w) (simp_all add: random_int_def Let_def split_beta)

lemma default_timings:
  "sameBrainTimings SAME_BRAIN_DEFAULT_TIMINGS \<lparr>patch_prompt = None, patch_submit = None, patch_sayIt = None, patch_reveal = None\<rparr> =
   SAME_BRAIN_DEFAULT_TIMINGS"
  by code_simp

lemma lobby_outlives: "0 < multiplayerLobbyExpiresAt 0 n"
  by (simp add: multiplayerLobbyExpiresAt_def ttl_defs)

lemma opened_lobby: "sample_lobby [] opened_brain"
  using draw_chars_services [of MULTIPLAYER_ROOM_ID_LENGTH "test_services\<lparr>token_cursor := 2\<rparr>"]
  by (auto simp: opened_brain_def sample_lobby_def createSameBrainRoom_def createMultiplayerCredential_def
      createAvailableMultiplayerRoomId_def eval_nat_numeral createMultiplayerRoomId_def new_brain_room_def services.defs Let_def
      sample_brain_create_def test_services_def hashMultiplayerCredential_def clampRounds_def brain_limits default_timings lobby_outlives
      split: prod.splits)

lemma nat_str_inj: "nat_str m = nat_str n \<longleftrightarrow> m = n"
proof -
  have "foldl (\<lambda>a c. a * 10 + (of_char c - 48)) 0 (nat_str n) = n" for n :: nat
    by (induction n rule: nat_str.induct) (subst nat_str.simps, auto)
  then show ?thesis by metis
qed

lemma lobby_token_fresh:
  assumes "sample_lobby names r"
  shows "brain_token_fresh r"
proof -
  have "set (map pid (sb_players r)) = (\<lambda>i. ''t'' @ nat_str (2 * i + 3)) ` {..<length names}"
    using assms unfolding sample_lobby_def by (metis (no_types, lifting) atLeast_upt set_map)
  moreover have "token_source r (Suc (token_cursor r)) = ''t'' @ nat_str (2 * length names + 3)"
    using assms by (simp add: sample_lobby_def test_services_def numeral_3_eq_3)
  ultimately show ?thesis by (auto simp: brain_token_fresh_def nat_str_inj)
qed

lemma sat_down:
  assumes lobby: "sample_lobby names r" and n: "collapse_spaces (js_trim n) = n" "n \<noteq> []" "length n \<le> 24"
    and new: "\<forall>m\<in>set names. to_lower m \<noteq> to_lower n \<and> m \<noteq> n" and room: "length names < 8"
  shows "sample_lobby (names @ [n]) (fst (brain_join (sit_down n) r))"
proof -
  have fields: "sb_phase r = BrLobby" "\<not> sb_managed r" "sb_joinLocked r = None" "map bp_name (sb_players r) = names"
    "map fst (sb_joinReceipts r) = names" "wall_clock r = 0" "\<forall>(_, rc)\<in>set (sb_joinReceipts r). 0 < jr_expiresAt rc"
    using lobby by (simp_all add: sample_lobby_def)
  have "n \<notin> set (map fst (sb_joinReceipts r))" using fields(5) new by auto
  then have "find (\<lambda>(j, _). j = n) (sb_joinReceipts r) = None" by (force simp: find_None_iff)
  then have live: "live_receipt n r = None" by (simp add: live_receipt_def)
  have "\<not> list_ex (\<lambda>p. to_lower (bp_name p) = to_lower n) (sb_players r)"
    using fields(4) new by (auto simp: list_ex_iff)
  moreover have "length (sb_players r) < 8" using fields(4) room by (metis length_map)
  ultimately have "brain_admission_error n r = None"
    using fields(1,3) n(2,3) by (simp add: brain_admission_error_def brain_limits Suc_le_eq)
  moreover have "filter (\<lambda>(_, rc). 0 < jr_expiresAt rc) (sb_joinReceipts r) = sb_joinReceipts r"
    using fields(7) by (auto simp: filter_id_conv)
  ultimately show ?thesis
    using lobby n(1) live fields(2)
    by (simp add: brain_join_def sit_down_def brain_invite_refused_def brain_seat_def createMultiplayerCredential_def
        Let_def sample_lobby_def brain_changed_def brain_applyRoomExpiry_def brain_phaseKind_def multiplayerPlayerReady_def
        new_brain_player_def multiplayerRoomExpiry_def lobby_outlives BRAIN_JOIN_RECEIPT_TTL_SECONDS_def test_services_def
        nat_str_inj)
qed

lemma seated_lobby: "sample_lobby [''Al'', ''Bo'', ''Cy''] seated_brain" and seated_reachable: "brain_reachable seated_brain"
proof -
  have names: "collapse_spaces (js_trim ''Al'') = ''Al''" "collapse_spaces (js_trim ''Bo'') = ''Bo''"
    "collapse_spaces (js_trim ''Cy'') = ''Cy''" "to_lower ''Al'' = ''al''" "to_lower ''Bo'' = ''bo''" "to_lower ''Cy'' = ''cy''"
    by code_simp+
  have "createSameBrainRoom (\<lambda>_. False) test_services sample_brain_create =
      Some (opened_brain, snd (the (createSameBrainRoom (\<lambda>_. False) test_services sample_brain_create)))"
    using opened by (auto simp: opened_brain_def)
  then have 0: "brain_reachable opened_brain" by (cases "snd (the (createSameBrainRoom (\<lambda>_. False) test_services sample_brain_create))") (auto intro: reach_new)
  note 1 = sat_down [OF opened_lobby, of "''Al''"]
  let ?a = "fst (brain_join (sit_down ''Al'') opened_brain)"
  have a: "sample_lobby [''Al''] ?a" using 1 names by simp
  let ?b = "fst (brain_join (sit_down ''Bo'') ?a)"
  have b: "sample_lobby [''Al'', ''Bo''] ?b" using sat_down [OF a, of "''Bo''"] names by simp
  show "sample_lobby [''Al'', ''Bo'', ''Cy''] seated_brain"
    using sat_down [OF b, of "''Cy''"] names by (simp add: seated_brain_def)
  show "brain_reachable seated_brain"
    unfolding seated_brain_def using 0 opened_lobby a b by (intro reach_join lobby_token_fresh)
qed

lemma started_reachable: "brain_reachable started_brain"
  unfolding started_brain_def by (rule reach_host [OF seated_reachable])

lemma closed_reachable: "brain_reachable closed_brain"
  unfolding closed_brain_def by (intro reach_pump started_reachable fair_draws)

lemma started_fields:
  "sb_phase started_brain = BrPrompt" "sb_phaseEndsAt started_brain = 4020" "sb_round started_brain = 1"
  "sb_pausedAt started_brain = None" "map pid (sb_players started_brain) = [''t3'', ''t5'', ''t7'']"
  "sb_rounds started_brain = 3" "sb_timings started_brain = SAME_BRAIN_DEFAULT_TIMINGS" "sb_history started_brain = []"
proof -
  define r where "r = brain_touch None 20 True seated_brain"
  have digits: "nat_str 3 = ''3''" "nat_str 5 = ''5''" "nat_str 7 = ''7''" by code_simp+
  have lobby: "sb_phase r = BrLobby" "sb_phaseEndsAt r = 0" "sb_processedActions r = []" "sb_rounds r = 3" "sb_pausedAt r = None"
    "sb_timings r = SAME_BRAIN_DEFAULT_TIMINGS" "length (sb_players r) = 3" "list_all multiplayerPlayerReady (sb_players r)"
    "map pid (sb_players r) = [''t3'', ''t5'', ''t7'']"
    using seated_lobby map_eq_imp_length_eq [of bp_name "sb_players seated_brain" id "[''Al'', ''Bo'', ''Cy'']"]
    by (simp_all add: r_def brain_touch_def Let_def sample_lobby_def upt_rec digits)
  have match: "multiplayerCredentialsMatch seated_brain ''k'' (sb_hostHash seated_brain)"
    using seated_lobby by (simp add: sample_lobby_def multiplayerCredentialsMatch_def hashMultiplayerCredential_def test_services_def)
  have all: "filter (\<lambda>p. \<not> multiplayerPlayerReady p) (sb_players r) = []" "filter multiplayerPlayerReady (sb_players r) = sb_players r"
    using lobby(8) by (auto simp: list_all_iff filter_empty_conv filter_id_conv)
  have started: "started_brain = (brain_startRound pick 20
      (r\<lparr>sb_round := 0, sb_history := [], sb_winnerIds := [], sb_players := map fresh_scores (sb_players r)\<rparr>))
        \<lparr>sb_processedActions := rememberMultiplayerAction [] ''s''\<rparr>"
    using lobby all match
    by (simp add: started_brain_def brain_host_reduce_def brain_is_host_def r_def [symmetric] brain_advance_def advance_settled
        settled_def multiplayerActionSeen_def brain_host_act_def br_start_def unconfirmed_players_def
        multiplayerUnreadyPlayers_def br_done_def startRound_fair brain_limits Let_def del: advance_from.simps)
  let ?r = "r\<lparr>sb_round := 0, sb_history := [], sb_winnerIds := [], sb_players := map fresh_scores (sb_players r)\<rparr>"
  have "map fst (scores (brain_startRound pick 20 ?r)) = map fst (scores ?r)" by (simp add: startRound_fair)
  then have "map pid (sb_players (brain_startRound pick 20 ?r)) = map pid (sb_players r)"
    by (simp add: scores_fst fresh_scores_def comp_def)
  then show "map pid (sb_players started_brain) = [''t3'', ''t5'', ''t7'']" by (simp add: started lobby)
  show "sb_phase started_brain = BrPrompt" "sb_phaseEndsAt started_brain = 4020" "sb_round started_brain = 1"
    "sb_rounds started_brain = 3" "sb_timings started_brain = SAME_BRAIN_DEFAULT_TIMINGS" "sb_pausedAt started_brain = None"
    "sb_history started_brain = []"
    by (simp_all add: started startRound_fair lobby SAME_BRAIN_DEFAULT_TIMINGS_def)
qed

lemma closed_fields: "length (sb_history closed_brain) = 1" "sb_result closed_brain \<noteq> None"
proof -
  let ?o = "brain_enterPhase BrSubmit 10000 started_brain"
  have "brain_advance pick 10000 started_brain = ?o"
    by (simp add: brain_advance_def started_fields eval_nat_numeral brain_phaseDuration_def SAME_BRAIN_DEFAULT_TIMINGS_def)
  moreover have "brain_advance pick 90000 ?o = closeSubmit 90000 ?o"
    by (simp add: brain_advance_def started_fields eval_nat_numeral brain_phaseDuration_def SAME_BRAIN_DEFAULT_TIMINGS_def)
  ultimately have closed: "closed_brain = closeSubmit 90000 ?o"
    by (simp add: closed_brain_def brain_pump_def)
  show "length (sb_history closed_brain) = 1" "sb_result closed_brain \<noteq> None"
    unfolding closed closeSubmit_def applyResult_def Let_def by (simp_all add: started_fields)
qed

theorem scores_match_history_witness:
  "length (sb_history closed_brain) = 1 \<and> distinct (map pid (sb_players closed_brain)) \<and>
   map bp_score (sb_players closed_brain) = map (\<lambda>p. ledger (sb_history closed_brain) (pid p)) (sb_players closed_brain) \<and>
   sb_result closed_brain = Some (last (sb_history closed_brain))"
  using scores_match_history [OF closed_reachable] closed_fields by auto

theorem brain_clock_catches_up_witness:
  "sb_phase started_brain = BrPrompt \<and> sb_phaseEndsAt started_brain < 10000 \<and>
   (let r' = brain_advance pick 10000 started_brain
    in (\<exists>t. sb_pausedAt r' = Some t) \<or> sb_phaseEndsAt r' = 0 \<or> 10000 < sb_phaseEndsAt r')"
  using brain_clock_catches_up [OF started_reachable fair_draws(1), of 10000] started_fields by (simp add: Let_def)

end
