(* ===== verification/Spec2Isabelle.thy ===== *)
theory Spec2Isabelle
  imports LiarsNightFacts LiarsActionFacts LiarsViewFacts LiarsJoinFacts TwinFacts TwinProgress PairsRaceSamples TicketDoorFacts
    RoomLockFacts BrainFacts BrainRequest BrainSamples
begin

text \<open>
  A model of the multiplayer runtime of the site and of four games that run on it, the hidden-role
  game "Liars", the card games "Twin" and "Pairs" and the guessing game "Same Brain", with the durable room
  store they rest on and the lock of the other one; and of the
  tickets of its events: the store that issues, redeems and refunds them, and the door that scans them.
  Source paths are below \<^verbatim>\<open>features/things/\<close>, those of the ticket theories below \<^verbatim>\<open>features/tickets/\<close>,
  unless they say otherwise.

  \<^verbatim>\<open>How the parts interact.\<close> In a game, a client calls a server function, which calls the room engine of a game
  (\<^verbatim>\<open>liars/liars-room-engine.server.ts\<close>, \<^verbatim>\<open>twin/twin-room-engine.server.ts\<close>). The engine loads the room from one of its stores, checks a
  credential, notes the caller's presence (\<^verbatim>\<open>touch\<close>), brings the room up to the clock (\<^verbatim>\<open>advance\<close>:
  there is no timer, a room moves when somebody calls), lets the reducer of the action change it,
  remembers the action's id, and stores the room again. The reply is a snapshot redacted for the
  caller. The reducer runs inside the shell shared by all games (\<^verbatim>\<open>shared/game-engine.ts\<close>), which
  versions the command and emits its event. The durable store (\<^verbatim>\<open>shared/room-postgres.server.ts\<close>)
  commits the new state, the receipt of the action and the official result of a finished game in
  one transaction; over Redis every writer first takes the lock of its room (\<^verbatim>\<open>withMultiplayerRoomLock\<close>), a lease it
  renews while it works. Before any of that a validator turns the request, a value of unknown type, into an
  action or refuses it. At the door, a scanner asks \<^verbatim>\<open>redeemTicket\<close>, whose transaction marks the row; without a
  connection it decides from the manifest it fetched and its own admissions, which it keeps in the storage of
  the session, and replays them later. Refunds and disputes reach the same rows from the payment provider's
  webhooks.

  \<^verbatim>\<open>Theories and the code they translate.\<close>
  \<^item> \<^verbatim>\<open>Prelude\<close>: generic lemmas on lists, maps and folds; JavaScript strings and numbers; the record
    \<^verbatim>\<open>services\<close> that carries what a call takes from its platform (hash, random draws, the order of
    names, the clock).
  \<^item> \<^verbatim>\<open>Multiplayer\<close>: \<^verbatim>\<open>shared/room-primitives.server.ts\<close>, \<^verbatim>\<open>multiplayer.ts\<close>,
    \<^verbatim>\<open>multiplayer-readiness.ts\<close>, \<^verbatim>\<open>room-presence.ts\<close>: credentials, room ids, expiry, presence,
    readiness, the memory of processed actions.
  \<^item> \<^verbatim>\<open>GameEngine\<close>: \<^verbatim>\<open>shared/game-engine.ts\<close>: commands, events, the random source, and the locale
    \<^verbatim>\<open>command_reducer\<close> of what every reducer promises the shell.
  \<^item> \<^verbatim>\<open>LiarsRules\<close>, \<^verbatim>\<open>LiarsContent\<close>: \<^verbatim>\<open>liars/liars-rules.ts\<close>, \<^verbatim>\<open>liars-words.ts\<close>,
    \<^verbatim>\<open>liars-content.server.ts\<close>: roles, lineups, the deal, the win conditions, targets, plurality, the
    word bank, the narration. \<^verbatim>\<open>LiarsRulesFacts\<close> proves them.
  \<^item> \<^verbatim>\<open>LiarsState\<close>, \<^verbatim>\<open>LiarsNight\<close>, \<^verbatim>\<open>LiarsDay\<close>, \<^verbatim>\<open>LiarsHost\<close>, \<^verbatim>\<open>LiarsPlayer\<close>, \<^verbatim>\<open>LiarsView\<close>: the engine,
    function by function: the room and its phases, the night, the vote and the phase machine, the
    host's and the players' actions, the snapshot.
  \<^item> \<^verbatim>\<open>RoomPostgres\<close>: the durable store and the sealed official results
    (\<^verbatim>\<open>features/game-results/outbox.server.ts\<close>).
  \<^item> \<^verbatim>\<open>LiarsRoom\<close>: creating, joining, reading, acting on and closing a room over the in-memory store
    and over the durable one.
  \<^item> \<^verbatim>\<open>TwinDeck\<close>, \<^verbatim>\<open>TwinRules\<close>: \<^verbatim>\<open>twin/twin-deck.ts\<close>, \<^verbatim>\<open>twin-symbols.ts\<close>, \<^verbatim>\<open>twin-rules.ts\<close>: finite fields,
    the projective plane of an order, the deck painted on it, the plan and the deal; timings, the
    outcome of a heat, the final order and the awards.
  \<^item> \<^verbatim>\<open>TwinState\<close>, \<^verbatim>\<open>TwinView\<close>, \<^verbatim>\<open>TwinPlay\<close>, \<^verbatim>\<open>TwinRoom\<close>: \<^verbatim>\<open>twin/twin-room-engine.server.ts\<close>: the room with
    its heats, payout and lazy advance; the snapshot; the actions; creating, joining, reading and
    acting over the in-memory store and the durable one.
  \<^item> \<^verbatim>\<open>Json\<close>, \<^verbatim>\<open>PairsRules\<close>: values that come out of \<^verbatim>\<open>JSON.parse\<close>; \<^verbatim>\<open>pairs/pairs-rules.ts\<close>: the layout, the
    turn, the journal of a game on one device.
  \<^item> \<^verbatim>\<open>PairsRace\<close>: \<^verbatim>\<open>pairs/pairs-race-rules.ts\<close>, \<^verbatim>\<open>pairs-race.server.ts\<close>: the race of two phones over one
    layout, what a phone is shown, and its room, whose transitions go straight to the durable store.

  \<^item> \<^verbatim>\<open>RoomLock\<close>: the lock of a Redis room (\<^verbatim>\<open>shared/room-primitives.server.ts\<close>): each call a state between
    two of its awaits, a step relation of requests, replies, failures, timers and time over one key.
  \<^item> \<^verbatim>\<open>BrainRules\<close>, \<^verbatim>\<open>BrainState\<close>, \<^verbatim>\<open>BrainPlay\<close>, \<^verbatim>\<open>BrainRoom\<close>: \<^verbatim>\<open>same-brain/same-brain-rules.ts\<close>,
    \<^verbatim>\<open>same-brain-questions.ts\<close>, \<^verbatim>\<open>types.ts\<close>, \<^verbatim>\<open>same-brain-room-engine.server.ts\<close>: what an answer is compared by, the
    grouping and the herd; the room, its clock, the award of a round and its reversal, the snapshot; every
    action of the host and the players; creating, joining, reading and acting over the durable store.
  \<^item> \<^verbatim>\<open>BrainRequest\<close>: \<^verbatim>\<open>shared/multiplayer-validation.ts\<close> and the validators of
    \<^verbatim>\<open>same-brain/same-brain-room.functions.ts\<close>.

  \<^item> \<^verbatim>\<open>TicketStore\<close>: \<^verbatim>\<open>store.server.ts\<close>, \<^verbatim>\<open>capacity.server.ts\<close>, the sales window of \<^verbatim>\<open>features/events/types.ts\<close>:
    the tables, issuance under capacity, redemption, refunds and disputes; what else makes a ticket void or
    valid: the refund of one ticket and its failure (\<^verbatim>\<open>checkout.server.ts\<close>), exchanges (\<^verbatim>\<open>exchange.server.ts\<close>), an
    invitation taken back (\<^verbatim>\<open>features/attendee-operations/ticket-operations.server.ts\<close>), the cancellation of an event
    (\<^verbatim>\<open>features/event-operations/cancellation.server.ts\<close>); the reconciliation of the refunds a payment provider reports.
  \<^item> \<^verbatim>\<open>TicketDoor\<close>: \<^verbatim>\<open>types.ts\<close>, \<^verbatim>\<open>qr.server.ts\<close>, \<^verbatim>\<open>tickets.server.ts\<close>, \<^verbatim>\<open>door-queue.ts\<close>, \<^verbatim>\<open>ui/DoorScanner.tsx\<close>: the code
    of a ticket, the redemption of a scan, the offline state of a device, its scan and its replay.

  \<^verbatim>\<open>What the groups of lemmas show.\<close>
  \<^item> \<^verbatim>\<open>LiarsRulesFacts\<close>: the deal is a permutation of the lineup, the repair of repeats never adds one,
    every proposed lineup passes the validator, the validator's lineups leave a game open, the
    plurality is the strict leader.
  \<^item> \<^verbatim>\<open>LiarsFrame\<close>, \<^verbatim>\<open>LiarsAlive\<close>: what each operation leaves alone; who is alive after it.
    \<^verbatim>\<open>LiarsSamples\<close> holds the concrete rooms of the witnesses.
  \<^item> \<^verbatim>\<open>LiarsVoteFacts\<close>, \<^verbatim>\<open>LiarsNightFacts\<close>: a vote removes exactly its leader; a night refines an
    account of strikes, saves, escorts and guilt that is written over a table of the living and shares no
    definition with the code's model (\<^verbatim>\<open>LiarsNightSpec\<close>); reports and announced movement.
  \<^item> \<^verbatim>\<open>LiarsPhaseFacts\<close>, \<^verbatim>\<open>LiarsClockFacts\<close>, \<^verbatim>\<open>LiarsDealFacts\<close>: the phases follow the edges of the game,
    the lazy advance catches up, pauses keep time, a start deals an open game.
  \<^item> \<^verbatim>\<open>LiarsInvariant\<close>, \<^verbatim>\<open>LiarsRoomOk\<close>, \<^verbatim>\<open>LiarsReachable\<close>: the invariant of a room, that every action,
    read and join preserves it, and what follows for the rooms reachable from a creation.
  \<^item> \<^verbatim>\<open>LiarsActionFacts\<close>, \<^verbatim>\<open>LiarsViewFacts\<close>, \<^verbatim>\<open>LiarsJoinFacts\<close>: retries and rejections, what a
    snapshot can reveal, the retry of a join.
  \<^item> \<^verbatim>\<open>RoomPostgres\<close> ends with the laws of its transactions: an action runs once while its room is not
    deleted; the room, the receipt and the results are written together or not at all.
  \<^item> \<^verbatim>\<open>TwinDeckFacts\<close>: any two cards of a deck share exactly one symbol; a planned deal is the largest
    that fits, and no card is dealt twice.
  \<^item> \<^verbatim>\<open>TwinOk\<close>, \<^verbatim>\<open>TwinClockOk\<close>, \<^verbatim>\<open>TwinReachable\<close>, \<^verbatim>\<open>TwinFacts\<close>: the invariant of a table (every card once,
    all of the deck), that every action, read and join preserves it and that none of them throws;
    every hand of every heat can be played. \<^verbatim>\<open>TwinSamples\<close> plays the game the witnesses evaluate.
  \<^item> \<^verbatim>\<open>TwinHeatFacts\<close>, \<^verbatim>\<open>TwinProgress\<close>: what the payout of a heat does to every hand, the middle and the
    places; reads alone finish a heat; what a player who leaves does to it.
  \<^item> \<^verbatim>\<open>PairsFacts\<close>: the invariant of a game of Pairs (every rank twice, the points half the matched cards,
    what an undo restores), that it can always be finished, the undo, the journal.
  \<^item> \<^verbatim>\<open>PairsRaceFacts\<close>: the invariant of a race (best of three, one layout), that every stored room has it
    after any history of calls, that a command is answered, what a snapshot depends on.
    \<^verbatim>\<open>PairsRaceSamples\<close> plays the race of the witnesses.
  \<^item> \<^verbatim>\<open>RoomLockFacts\<close>: while replies take at most \<^verbatim>\<open>L\<close> milliseconds, two calls that work together for longer than \<^verbatim>\<open>L\<close> do not both
    report success; a lock left behind frees itself; with a reply one millisecond late two calls that overlap
    both succeed.
  \<^item> \<^verbatim>\<open>BrainRulesFacts\<close>: the grouping equals its declarative reading, the herd is the group strictly larger
    than all others. \<^verbatim>\<open>BrainLedger\<close>, \<^verbatim>\<open>BrainReachable\<close>: the scores are the sum of the history, the clock catches up, in
    every reachable room (\<^verbatim>\<open>brain_reachable\<close>). \<^verbatim>\<open>BrainVeil\<close>: while a round is open every request commutes with
    blanking the answers of the others. \<^verbatim>\<open>BrainFacts\<close>: so nobody is shown them; what a correction and a departure do. \<^verbatim>\<open>BrainRequest\<close> ends with the types of what a validator lets through.
    \<^verbatim>\<open>BrainSamples\<close> plays the game of the witnesses.
  \<^item> \<^verbatim>\<open>TicketFacts\<close>: what an operation leaves of a row; no overselling as long as no ticket is put back, and one
    oversold by a won dispute or by a refund the provider refuses; the server redeems a ticket once; cumulative
    refunds agree in any order, and take the wrong ticket when a single one was refunded.
  \<^item> \<^verbatim>\<open>TicketDoorFacts\<close>: codes read back, a shift with reloads is a shift without, a device lets a ticket in
    once, and again after the server did.

  \<^verbatim>\<open>Interfaces.\<close> \<^verbatim>\<open>random_source\<close> (Prelude) is the contract of a bounded draw, interpreted on the two
  sources of the platform and on the seeded ones of Twin and Pairs (TwinDeck, PairsFacts); \<^verbatim>\<open>comparator\<close> (TwinRules) that of
  the comparisons given to \<^verbatim>\<open>toSorted\<close>, interpreted on the final order.
  \<^verbatim>\<open>command_reducer\<close> (GameEngine) is interpreted on the host's and the players' reducers
  and on both together (LiarsActionFacts); \<^verbatim>\<open>machine_invariant\<close> (LiarsPhaseFacts) states what a
  property of rooms has to survive for the phase machine to keep it and is interpreted on the
  edges of the game and on the decided outcome (LiarsInvariant).

  \<^verbatim>\<open>Conventions.\<close> A room is a record that extends \<^verbatim>\<open>services\<close>; an operation is a function from rooms
  to rooms (or to a pair with its reply). \<^verbatim>\<open>undefined\<close> and \<^verbatim>\<open>null\<close> are \<^verbatim>\<open>None\<close>; times are integers in
  milliseconds; ids, names and credentials are character lists. One call reads the clock once:
  \<^verbatim>\<open>Date.now()\<close> is \<^verbatim>\<open>wall_clock\<close> of the services, \<^verbatim>\<open>context.now\<close> the \<^verbatim>\<open>now\<close> of an action. The source reads it
  a second time in one place, \<^verbatim>\<open>transitionPostgresRoom\<close>, which asks again before it writes whether the new state is
  already expired; with one clock a command that straddles the expiry of its room by the duration of a query,
  and is then refused, is not seen (\<^verbatim>\<open>pairs_command_is_answered\<close> and \<^verbatim>\<open>pg_commit_is_atomic\<close> are about calls within
  one reading). The draws of
  \<^verbatim>\<open>randomInt\<close> and of the credential source are functions of a cursor in the services, so a theorem
  holds whatever is drawn. The order of the entries of a JavaScript \<^verbatim>\<open>Map\<close> is the order of an
  association list wherever the code iterates over it.

  \<^verbatim>\<open>Bounds and fuel.\<close> The only loop with a bound of its own is that of \<^verbatim>\<open>advance\<close>, whose guard of eight
  turns is the code's; \<^verbatim>\<open>advance_catches_up\<close> shows when eight are enough. The allocation of a room id
  tries as often as the code does. The clock of Same Brain has the same guard, and
  \<^verbatim>\<open>brain_clock_catches_up\<close> shows that it never runs out. \<^verbatim>\<open>L\<close> of \<^verbatim>\<open>RoomLock\<close> bounds the delay between the moment
  Redis runs a request and the moment its reply is read; a theorem names the bound it needs. The planes of orders four and five, the only ones the 31 symbols
  can paint, are computed and checked line by line.

  \<^verbatim>\<open>Not modelled, and why.\<close> The Redis path of the stores: Redis is a
  service; the lock it offers is modelled, the load and save under it are not. Of Same Brain, the joins over
  the development store, the entry points for development and scenarios, and the wrappers of telemetry and Effect;
  its answers are strings of 8-bit code units, for which NFKD is written out (Latin-1). \<^verbatim>\<open>brain_host_reduce\<close> takes as
  \<^verbatim>\<open>shared\<close> whether the store kept the result and its baseline one object, which only the development store does. The digest
  of a snapshot is a parameter (it is a hash of its JSON), and so are \<^verbatim>\<open>JSON.stringify\<close> of an official
  result and the comparison of names in the reader's language. Effect layers, telemetry, wake
  sockets, the development entry points (export, import, scenarios) and the user interface are
  wiring or refused in production. Of Twin, the colours and layouts of the drawn symbols are art.
  Of the tickets, the provider is a service (the refunds it lists, the signing key and the parser of URLs are
  arguments), and checkout sessions, completing an exchange, transfers, scanner links and mail are left out. The other games
  and the event, media and communication features are other programs on the same platform.
\<close>

end
